(* ===== verification/Py_Prelude.thy ===== *)
theory Py_Prelude
  imports Main "HOL-Library.Char_ord" "HOL-Library.List_Lexorder"
begin

section \<open>Shared vocabulary: errors, results, dictionaries\<close>

text \<open>
  What every component shares: the exceptions the code raises as values of
  \<open>py_error\<close>, the result type \<open>'a res\<close> (\<open>Inl\<close> an exception, \<open>Inr\<close> a return
  value) with its sequencing \<open>rbind\<close>, the truth value of the Python objects that
  the code tests with \<open>or\<close>, and the generic list facts the component proofs use.
  The collection \<open>res_simps\<close> unfolds a sequence of fallible calls.
\<close>

named_theorems res_simps "unfolding of fallible sequences"

datatype py_error =
    ValueError string
  | TypeError string
  | KeyError string
  | IndexError
  | OverflowError
  | ZeroDivisionError
  | LedgerConflictError string
  | LedgerReferenceError string
  | LookaheadViolationError string

type_synonym 'a res = "py_error + 'a"

definition rbind :: "'a res \<Rightarrow> ('a \<Rightarrow> 'b res) \<Rightarrow> 'b res" where
  "rbind r f = (case r of Inl e \<Rightarrow> Inl e | Inr x \<Rightarrow> f x)"

lemma rbind_Inl [simp, res_simps]: "rbind (Inl e) f = Inl e"
  by (simp add: rbind_def)

lemma rbind_Inr [simp, res_simps]: "rbind (Inr x) f = f x"
  by (simp add: rbind_def)

lemma rbind_eq_Inr_iff: "rbind r f = Inr y \<longleftrightarrow> (\<exists>x. r = Inr x \<and> f x = Inr y)"
  by (cases r) auto

lemma rbind_InrE: "rbind r f = Inr y \<Longrightarrow> (\<And>x. r = Inr x \<Longrightarrow> f x = Inr y \<Longrightarrow> thesis) \<Longrightarrow> thesis"
  by (cases r) auto

lemma rbind_eq_Inl_iff:
  "rbind r f = Inl e \<longleftrightarrow> r = Inl e \<or> (\<exists>x. r = Inr x \<and> f x = Inl e)"
  by (cases r) auto

definition is_ok :: "'a res \<Rightarrow> bool" where
  "is_ok r = (case r of Inl _ \<Rightarrow> False | Inr _ \<Rightarrow> True)"

lemma is_ok_simps [simp]: "is_ok (Inr x)" "\<not> is_ok (Inl e)"
  by (simp_all add: is_ok_def)

lemma is_ok_iff: "is_ok r \<longleftrightarrow> (\<exists>x. r = Inr x)"
  by (cases r) auto

lemma is_ok_rbind: "is_ok (rbind r f) \<longleftrightarrow> (\<exists>x. r = Inr x \<and> is_ok (f x))"
  by (cases r) auto

text \<open>\<open>guard_raise b e\<close> is the statement \<^verbatim>\<open>if b: raise e\<close>.\<close>

definition guard_raise :: "bool \<Rightarrow> py_error \<Rightarrow> unit res" where
  "guard_raise b e = (if b then Inl e else Inr ())"

lemma guard_raise_simps [simp, res_simps]:
  "guard_raise True e = Inl e"
  "guard_raise False e = Inr ()"
  by (simp_all add: guard_raise_def)

lemma guard_raise_eq_Inr [simp]: "guard_raise b e = Inr u \<longleftrightarrow> \<not> b"
  by (simp add: guard_raise_def)

lemma guard_raise_eq_Inl [simp]: "guard_raise b e = Inl e' \<longleftrightarrow> b \<and> e' = e"
  by (auto simp: guard_raise_def)

text \<open>The loop \<^verbatim>\<open>for x in xs: check(x)\<close>, which stops at the first exception.\<close>

fun for_each :: "('a \<Rightarrow> unit res) \<Rightarrow> 'a list \<Rightarrow> unit res" where
  "for_each f [] = Inr ()"
| "for_each f (x # xs) = rbind (f x) (\<lambda>_. for_each f xs)"

lemma for_each_ok_iff: "for_each f xs = Inr u \<longleftrightarrow> (\<forall>x \<in> set xs. f x = Inr ())"
  by (induction xs) (auto simp: rbind_eq_Inr_iff)

text \<open>
  The expression \<^verbatim>\<open>a or b\<close> on an optional text: both \<open>None\<close> and the empty
  text are false.
\<close>

definition text_or :: "string option \<Rightarrow> string \<Rightarrow> string" where
  "text_or v d = (case v of None \<Rightarrow> d | Some s \<Rightarrow> if s = [] then d else s)"

lemma text_or_simps [simp]:
  "text_or None d = d"
  "text_or (Some []) d = d"
  "text_or (Some (c # s)) d = c # s"
  by (simp_all add: text_or_def)

definition text_true :: "string option \<Rightarrow> bool" where
  "text_true v = (case v of None \<Rightarrow> False | Some s \<Rightarrow> s \<noteq> [])"

lemma text_true_simps [simp]:
  "\<not> text_true None"
  "text_true (Some s) \<longleftrightarrow> s \<noteq> []"
  by (simp_all add: text_true_def)

text \<open>ASCII case mapping and blank stripping of \<^verbatim>\<open>str\<close>.\<close>

definition lower_char :: "char \<Rightarrow> char" where
  "lower_char c = (let n = of_char c :: nat in if 65 \<le> n \<and> n \<le> 90 then char_of (n + 32) else c)"

definition upper_char :: "char \<Rightarrow> char" where
  "upper_char c = (let n = of_char c :: nat in if 97 \<le> n \<and> n \<le> 122 then char_of (n - 32) else c)"

definition str_lower :: "string \<Rightarrow> string" where
  "str_lower s = map lower_char s"

definition str_upper :: "string \<Rightarrow> string" where
  "str_upper s = map upper_char s"

definition is_blank :: "char \<Rightarrow> bool" where
  "is_blank c = (let n = of_char c :: nat in n = 32 \<or> 9 \<le> n \<and> n \<le> 13 \<or> 28 \<le> n \<and> n \<le> 31)"

definition str_strip :: "string \<Rightarrow> string" where
  "str_strip s = rev (dropWhile is_blank (rev (dropWhile is_blank s)))"

lemma str_strip_Nil [simp]: "str_strip [] = []"
  by (simp add: str_strip_def)

lemma dropWhile_rev_Nil_iff:
  "dropWhile P (rev (dropWhile P s)) = [] \<longleftrightarrow> (\<forall>c \<in> set s. P c)"
  by (induction s) (auto simp: dropWhile_append)

lemma str_strip_eq_Nil_iff: "str_strip s = [] \<longleftrightarrow> (\<forall>c \<in> set s. is_blank c)"
  unfolding str_strip_def rev_is_Nil_conv by (rule dropWhile_rev_Nil_iff)

text \<open>
  \<^verbatim>\<open>max(xs, key=f)\<close> keeps the first element whose key no later element exceeds;
  \<^verbatim>\<open>min\<close> the first whose key no later element undercuts.
\<close>

fun py_max_by :: "('a \<Rightarrow> 'a \<Rightarrow> bool) \<Rightarrow> 'a \<Rightarrow> 'a list \<Rightarrow> 'a" where
  "py_max_by lt b [] = b"
| "py_max_by lt b (x # xs) = py_max_by lt (if lt b x then x else b) xs"

lemma py_max_by_mem: "py_max_by lt b xs \<in> insert b (set xs)"
  by (induction xs arbitrary: b) (auto split: if_splits)

text \<open>
  For a strict weak order the selected element is maximal: nothing in the list is
  greater.
\<close>

lemma py_max_by_not_less:
  assumes irr: "\<And>x. \<not> lt x x"
    and negtr: "\<And>x y z. \<not> lt x y \<Longrightarrow> \<not> lt y z \<Longrightarrow> \<not> lt x z"
    and asym: "\<And>x y. lt x y \<Longrightarrow> \<not> lt y x"
  shows "y \<in> insert b (set xs) \<Longrightarrow> \<not> lt (py_max_by lt b xs) y"
proof (induction xs arbitrary: b y)
  case Nil
  then show ?case by (simp add: irr)
next
  case (Cons x xs)
  let ?b = "if lt b x then x else b"
  have top: "\<not> lt (py_max_by lt ?b xs) ?b"
    by (rule Cons.IH) simp
  have le: "\<not> lt ?b y" if "y = b \<or> y = x" for y
    using that irr asym by auto
  show ?case
  proof (cases "y \<in> set xs")
    case True
    then show ?thesis using Cons.IH by simp
  next
    case False
    then have "\<not> lt ?b y" using Cons.prems le by auto
    with top have "\<not> lt (py_max_by lt ?b xs) y" by (rule negtr)
    then show ?thesis by simp
  qed
qed

lemma list_all2_last: "list_all2 R xs ys \<Longrightarrow> xs \<noteq> [] \<Longrightarrow> R (last xs) (last ys)"
  by (induction rule: list_all2_induct) (auto dest: list_all2_lengthD)

end
