(* ===== verification/Py_Float.thy ===== *)
theory Py_Float
  imports Py_Prelude Complex_Main "HOL-Library.Log_Nat"
begin

section \<open>Python floats: IEEE binary64 with rounding to nearest even\<close>

text \<open>
  A Python \<open>float\<close> is an IEEE 754 binary64 number. A finite value is represented by
  the rational it denotes (the two zeros are one value: no modelled code tells them
  apart), beside the two infinities and NaN. Every arithmetic operation is the exact
  rational operation followed by \<open>rne\<close>, rounding to the nearest representable
  number, ties to even, with 53 bits of precision, gradual underflow at exponent
  -1074 and overflow to infinity at \<open>2 ^ 1024\<close>. Comparisons are exact and false on NaN,
  so a Python int compared with a float is \<open>Fin (of_int n)\<close> compared with it.
\<close>

datatype pyfloat = Fin rat | PInf | NInf | NaN

subsection \<open>Powers of two and the exponent of a positive rational\<close>

definition pow2 :: "int \<Rightarrow> rat" where
  "pow2 e = (if 0 \<le> e then 2 ^ nat e else 1 / 2 ^ nat (- e))"

lemma pow2_pos [simp]: "0 < pow2 e"
  by (simp add: pow2_def)

lemma pow2_nonneg [simp]: "0 \<le> pow2 e"
  using pow2_pos less_imp_le by blast

lemma pow2_neq_0 [simp]: "pow2 e \<noteq> 0"
  using pow2_pos [of e] by linarith

lemma pow2_powi: "pow2 e = 2 powi e"
  by (auto simp: pow2_def power_int_def field_simps)

lemma pow2_add: "pow2 (a + b) = pow2 a * pow2 b"
  by (simp add: pow2_powi power_int_add)

lemma pow2_diff: "pow2 (a - b) = pow2 a / pow2 b"
  by (simp add: pow2_powi power_int_diff)

lemma pow2_mono: "a \<le> b \<Longrightarrow> pow2 a \<le> pow2 b"
  by (simp add: pow2_powi power_int_increasing)

lemma pow2_less: "a < b \<Longrightarrow> pow2 a < pow2 b"
  by (simp add: pow2_powi power_int_strict_increasing)

lemma pow2_0 [simp]: "pow2 0 = 1"
  by (simp add: pow2_def)

lemma pow2_nat: "pow2 (int n) = of_int (2 ^ n)"
  by (simp add: pow2_def)

lemma pow2_int_nonneg: "0 \<le> e \<Longrightarrow> pow2 e = of_int (2 ^ nat e)"
  by (simp add: pow2_def)

definition ilog2 :: "rat \<Rightarrow> int" where
  "ilog2 x = (let (n, d) = quotient_of x; k = bitlen n - bitlen d in if pow2 k \<le> x then k else k - 1)"

lemma quotient_of_pos:
  assumes "0 < x" and "quotient_of x = (n, d)"
  shows "0 < n \<and> 0 < d \<and> x = of_int n / of_int d"
proof -
  have d: "0 < d" using assms(2) by (rule quotient_of_denom_pos)
  have eq: "x = of_int n / of_int d" using assms(2) by (rule quotient_of_div)
  with assms(1) d have "0 < n" by (simp add: zero_less_divide_iff)
  with d eq show ?thesis by simp
qed

lemma bitlen_bounds_pow2:
  assumes "0 < n"
  shows "pow2 (bitlen n - 1) \<le> of_int n \<and> of_int n < pow2 (bitlen n)"
proof -
  have b: "1 \<le> bitlen n"
    using assms bitlen_nonneg [of n] bitlen_eq_zero_iff [of n] by linarith
  have "2 ^ nat (bitlen n - 1) \<le> n \<and> n < 2 ^ nat (bitlen n)"
    using assms by (rule bitlen_bounds)
  then have "(of_int (2 ^ nat (bitlen n - 1)) :: rat) \<le> of_int n"
    and "(of_int n :: rat) < of_int (2 ^ nat (bitlen n))"
    by (simp_all only: of_int_le_iff of_int_less_iff)
  with b show ?thesis by (simp only: pow2_int_nonneg)
qed

lemma ilog2_bounds:
  assumes "0 < x"
  shows "pow2 (ilog2 x) \<le> x \<and> x < pow2 (ilog2 x + 1)"
proof -
  obtain n d where q: "quotient_of x = (n, d)" by (cases "quotient_of x")
  from quotient_of_pos [OF assms q] have n: "0 < n" and d: "0 < d"
    and x: "x = of_int n / of_int d" by auto
  let ?k = "bitlen n - bitlen d"
  have nb: "pow2 (bitlen n - 1) \<le> of_int n" "of_int n < pow2 (bitlen n)"
    using bitlen_bounds_pow2 [OF n] by auto
  have db: "pow2 (bitlen d - 1) \<le> of_int d" "of_int d < pow2 (bitlen d)"
    using bitlen_bounds_pow2 [OF d] by auto
  have d0: "(0 :: rat) < of_int d" using d by simp
  have hi: "x < pow2 (?k + 1)"
  proof -
    have "x < pow2 (bitlen n) / of_int d"
      unfolding x using nb(2) d0 by (rule divide_strict_right_mono)
    also have "\<dots> \<le> pow2 (bitlen n) / pow2 (bitlen d - 1)"
      using db(1) d0 by (intro divide_left_mono) auto
    also have "\<dots> = pow2 (?k + 1)"
      by (simp add: pow2_diff [symmetric] algebra_simps)
    finally show ?thesis .
  qed
  have lo: "pow2 (?k - 1) \<le> x"
  proof -
    have "pow2 (?k - 1) = pow2 (bitlen n - 1) / pow2 (bitlen d)"
      by (simp add: pow2_diff [symmetric] algebra_simps)
    also have "\<dots> \<le> pow2 (bitlen n - 1) / of_int d"
      using db(2) d0 by (intro divide_left_mono) auto
    also have "\<dots> \<le> x"
      unfolding x using nb(1) d0 by (intro divide_right_mono) auto
    finally show ?thesis .
  qed
  show ?thesis
    using hi lo by (auto simp: ilog2_def q Let_def)
qed

lemma ilog2_unique:
  assumes "pow2 e \<le> x" and "x < pow2 (e + 1)"
  shows "ilog2 x = e"
proof -
  have "0 < x" using assms(1) pow2_pos [of e] by linarith
  note b = ilog2_bounds [OF this]
  have "\<not> ilog2 x + 1 \<le> e"
    using pow2_mono [of "ilog2 x + 1" e] b assms by linarith
  moreover have "\<not> e + 1 \<le> ilog2 x"
    using pow2_mono [of "e + 1" "ilog2 x"] b assms by linarith
  ultimately show ?thesis by linarith
qed

lemma ilog2_mono: "0 < x \<Longrightarrow> x \<le> y \<Longrightarrow> ilog2 x \<le> ilog2 y"
  using ilog2_bounds [of x] ilog2_bounds [of y] pow2_mono [of "ilog2 y + 1" "ilog2 x"]
  by force

subsection \<open>Rounding\<close>

definition round_half_even :: "rat \<Rightarrow> int" where
  "round_half_even q =
     (let f = \<lfloor>q\<rfloor>; r = q - of_int f in
      if r < 1 / 2 then f else if 1 / 2 < r then f + 1 else if even f then f else f + 1)"

lemma round_half_even_of_int [simp]: "round_half_even (of_int n) = n"
  by (simp add: round_half_even_def)

lemma round_half_even_near: "\<bar>of_int (round_half_even q) - q\<bar> \<le> 1 / 2"
  by (auto simp: round_half_even_def Let_def abs_if split: if_splits) linarith+

lemma round_half_even_mono:
  assumes "x \<le> y"
  shows "round_half_even x \<le> round_half_even y"
proof (cases "\<lfloor>x\<rfloor> = \<lfloor>y\<rfloor>")
  case True
  with assms show ?thesis by (auto simp: round_half_even_def Let_def)
next
  case False
  with assms floor_mono [OF assms] have "\<lfloor>x\<rfloor> + 1 \<le> \<lfloor>y\<rfloor>" by linarith
  moreover have "round_half_even x \<le> \<lfloor>x\<rfloor> + 1" and "\<lfloor>y\<rfloor> \<le> round_half_even y"
    by (auto simp: round_half_even_def Let_def)
  ultimately show ?thesis by linarith
qed

text \<open>The distance between neighbouring doubles at the magnitude of \<open>x\<close>.\<close>

definition ulp_of :: "rat \<Rightarrow> rat" where
  "ulp_of x = pow2 (max (ilog2 x) (- 1022) - 52)"

definition round_pos :: "rat \<Rightarrow> rat" where
  "round_pos x = of_int (round_half_even (x / ulp_of x)) * ulp_of x"

definition rne :: "rat \<Rightarrow> pyfloat" where
  "rne x =
     (if x = 0 then Fin 0
      else if 0 < x then (let y = round_pos x in if pow2 1024 \<le> y then PInf else Fin y)
      else (let y = round_pos (- x) in if pow2 1024 \<le> y then NInf else Fin (- y)))"

lemma ulp_pos [simp]: "0 < ulp_of x"
  by (simp add: ulp_of_def)

lemma round_pos_nonneg: "0 < x \<Longrightarrow> 0 \<le> round_pos x"
proof -
  assume "0 < x"
  then have "0 \<le> x / ulp_of x" by (simp add: less_imp_le)
  from round_half_even_mono [OF this] show ?thesis
    using round_half_even_of_int [of 0] by (simp add: round_pos_def less_imp_le)
qed

lemma round_pos_le_pow2:
  assumes "0 < x"
  shows "round_pos x \<le> pow2 (max (ilog2 x) (- 1022) + 1)"
proof -
  let ?m = "max (ilog2 x) (- 1022)"
  have "x < pow2 (?m + 1)"
    using ilog2_bounds [OF assms] pow2_mono [of "ilog2 x + 1" "?m + 1"] by simp
  then have "x / ulp_of x \<le> pow2 (?m + 1) / ulp_of x"
    by (intro divide_right_mono) (simp_all add: less_imp_le)
  also have "\<dots> = pow2 53" by (simp add: ulp_of_def pow2_diff [symmetric])
  also have "\<dots> = of_int (2 ^ 53)" by (simp add: pow2_def)
  finally have "round_half_even (x / ulp_of x) \<le> 2 ^ 53"
    using round_half_even_mono round_half_even_of_int by metis
  then have "(of_int (round_half_even (x / ulp_of x)) :: rat) \<le> of_int (2 ^ 53)"
    by (simp only: of_int_le_iff)
  then have "round_pos x \<le> of_int (2 ^ 53) * ulp_of x"
    unfolding round_pos_def by (rule mult_right_mono) (simp add: less_imp_le)
  also have "\<dots> = pow2 53 * pow2 (?m - 52)" by (simp add: ulp_of_def pow2_def [of 53])
  also have "\<dots> = pow2 (?m + 1)" by (simp add: pow2_add [symmetric] add.commute)
  finally show ?thesis .
qed

lemma round_pos_ge_pow2:
  assumes "0 < x" and "- 1022 \<le> ilog2 x"
  shows "pow2 (ilog2 x) \<le> round_pos x"
proof -
  have m: "max (ilog2 x) (- 1022) = ilog2 x" using assms(2) by simp
  have "of_int (2 ^ 52) = pow2 52" by (simp add: pow2_def)
  also have "\<dots> = pow2 (ilog2 x) / ulp_of x"
    by (simp add: ulp_of_def m pow2_diff [symmetric])
  also have "\<dots> \<le> x / ulp_of x"
    using ilog2_bounds [OF assms(1)] by (intro divide_right_mono) (simp_all add: less_imp_le)
  finally have "2 ^ 52 \<le> round_half_even (x / ulp_of x)"
    using round_half_even_mono round_half_even_of_int by metis
  then have "(of_int (2 ^ 52) :: rat) \<le> of_int (round_half_even (x / ulp_of x))"
    by (simp only: of_int_le_iff)
  then have "of_int (2 ^ 52) * ulp_of x \<le> round_pos x"
    unfolding round_pos_def by (rule mult_right_mono) (simp add: less_imp_le)
  moreover have "of_int (2 ^ 52) * ulp_of x = pow2 (ilog2 x)"
    by (simp add: ulp_of_def m pow2_diff pow2_def [of 52])
  ultimately show ?thesis by simp
qed

lemma round_pos_mono:
  assumes "0 < x" and "x \<le> y"
  shows "round_pos x \<le> round_pos y"
proof (cases "max (ilog2 x) (- 1022) = max (ilog2 y) (- 1022)")
  case True
  then have u: "ulp_of y = ulp_of x" by (simp add: ulp_of_def)
  have "x / ulp_of x \<le> y / ulp_of x"
    using assms(2) by (intro divide_right_mono) (simp_all add: less_imp_le)
  then have "round_half_even (x / ulp_of x) \<le> round_half_even (y / ulp_of x)"
    by (rule round_half_even_mono)
  then show ?thesis
    unfolding round_pos_def u by (intro mult_right_mono) (simp_all add: less_imp_le)
next
  case False
  with ilog2_mono [OF assms] have lt: "max (ilog2 x) (- 1022) + 1 \<le> ilog2 y"
    and y: "- 1022 \<le> ilog2 y" by linarith+
  have "round_pos x \<le> pow2 (max (ilog2 x) (- 1022) + 1)"
    using assms(1) by (rule round_pos_le_pow2)
  also have "\<dots> \<le> pow2 (ilog2 y)" using lt by (rule pow2_mono)
  also have "\<dots> \<le> round_pos y" using assms y by (intro round_pos_ge_pow2) linarith+
  finally show ?thesis .
qed

lemma round_pos_exact:
  assumes x: "0 < x" and rep: "x = of_int m * pow2 k" and m: "m < 2 ^ 53" and k: "- 1074 \<le> k"
  shows "round_pos x = x"
proof -
  let ?u = "max (ilog2 x) (- 1022) - 52"
  have "?u \<le> k"
  proof (rule ccontr)
    assume "\<not> ?u \<le> k"
    with k have e: "ilog2 x \<ge> k + 53" by linarith
    have "pow2 53 * pow2 k \<le> pow2 (ilog2 x)"
      using pow2_mono [OF e] by (simp add: pow2_add [symmetric] add.commute)
    also have "\<dots> \<le> of_int m * pow2 k" using ilog2_bounds [OF x] rep by simp
    finally have "pow2 53 \<le> of_int m" by simp
    then have "(of_int (2 ^ 53) :: rat) \<le> of_int m" by (simp add: pow2_def)
    with m show False by (simp only: of_int_le_iff)
  qed
  then have "pow2 k / pow2 ?u = of_int (2 ^ nat (k - ?u))"
    by (simp only: pow2_diff [symmetric] pow2_int_nonneg)
  then have "of_int m * (pow2 k / pow2 ?u) = of_int (m * 2 ^ nat (k - ?u))"
    by (simp only: of_int_mult)
  then have "x / ulp_of x = of_int (m * 2 ^ nat (k - ?u))"
    by (simp only: ulp_of_def rep times_divide_eq_right)
  then have "of_int (round_half_even (x / ulp_of x)) = x / ulp_of x"
    by (simp only: round_half_even_of_int)
  moreover have "ulp_of x \<noteq> 0" using ulp_pos [of x] by linarith
  ultimately show ?thesis by (simp add: round_pos_def)
qed

lemma pow2_53_le: "pow2 53 \<le> pow2 1024"
  by (rule pow2_mono) simp

lemma rne_of_int:
  assumes "\<bar>n\<bar> < 2 ^ 53"
  shows "rne (of_int n) = Fin (of_int n)"
proof -
  have pos: "round_pos (of_int m) = of_int m \<and> \<not> pow2 1024 \<le> of_int m"
    if "0 < m" "m < 2 ^ 53" for m :: int
  proof -
    have "round_pos (of_int m) = of_int m"
      using that by (intro round_pos_exact [where m = m and k = 0]) auto
    moreover have "(of_int m :: rat) < pow2 53"
    proof -
      have "(of_int m :: rat) < of_int (2 ^ 53)" using that(2) by (simp only: of_int_less_iff)
      then show ?thesis by (simp add: pow2_def)
    qed
    ultimately show ?thesis using pow2_53_le by simp
  qed
  consider "n = 0" | "0 < n" | "n < 0" by linarith
  then show ?thesis
  proof cases
    case 1
    then show ?thesis by (simp add: rne_def)
  next
    case 2
    with assms pos [of n] show ?thesis by (simp add: rne_def)
  next
    case 3
    with assms pos [of "- n"] show ?thesis by (simp add: rne_def)
  qed
qed

lemma rne_dyadic:
  assumes "0 < m" "m < 2 ^ 53"
  shows "rne (of_int m * pow2 (- 20)) = Fin (of_int m * pow2 (- 20))"
proof -
  let ?x = "of_int m * pow2 (- 20) :: rat"
  have x: "0 < ?x" using assms(1) by simp
  have "round_pos ?x = ?x"
    using assms by (intro round_pos_exact [OF x refl]) auto
  moreover have "?x < pow2 1024"
  proof -
    have "(of_int m :: rat) < of_int (2 ^ 53)" using assms(2) by (simp only: of_int_less_iff)
    then have "?x < pow2 53 * pow2 (- 20)" by (simp add: pow2_def)
    also have "\<dots> \<le> pow2 1024" by (simp only: pow2_add [symmetric]) (rule pow2_mono, simp)
    finally show ?thesis .
  qed
  ultimately show ?thesis using x by (simp add: rne_def)
qed

lemma rne_0 [simp]: "rne 0 = Fin 0"
  by (simp add: rne_def)

lemma rne_1 [simp]: "rne 1 = Fin 1"
  using rne_of_int [of 1] by simp

lemma rne_minus_1 [simp]: "rne (- 1) = Fin (- 1)"
  using rne_of_int [of "- 1"] by simp

lemma rne_numeral [simp]:
  "(numeral n :: int) < 9007199254740992 \<Longrightarrow> rne (numeral n) = Fin (numeral n)"
  using rne_of_int [of "numeral n"] by simp

lemma rne_neg_numeral [simp]:
  "(numeral n :: int) < 9007199254740992 \<Longrightarrow> rne (- numeral n) = Fin (- numeral n)"
  using rne_of_int [of "- numeral n"] by simp

subsection \<open>Comparisons\<close>

fun fle :: "pyfloat \<Rightarrow> pyfloat \<Rightarrow> bool" where
  "fle NaN _ = False"
| "fle _ NaN = False"
| "fle NInf _ = True"
| "fle _ PInf = True"
| "fle (Fin a) (Fin b) = (a \<le> b)"
| "fle PInf (Fin _) = False"
| "fle PInf NInf = False"
| "fle (Fin _) NInf = False"

fun flt :: "pyfloat \<Rightarrow> pyfloat \<Rightarrow> bool" where
  "flt NaN _ = False"
| "flt _ NaN = False"
| "flt _ NInf = False"
| "flt PInf _ = False"
| "flt (Fin a) (Fin b) = (a < b)"
| "flt NInf (Fin _) = True"
| "flt NInf PInf = True"
| "flt (Fin _) PInf = True"

definition fneq0 :: "pyfloat \<Rightarrow> bool" where
  "fneq0 x = (x \<noteq> Fin 0)"

definition is_num :: "pyfloat \<Rightarrow> bool" where
  "is_num x = (x \<noteq> NaN)"

definition is_finite :: "pyfloat \<Rightarrow> bool" where
  "is_finite x = (case x of Fin _ \<Rightarrow> True | _ \<Rightarrow> False)"

lemma is_finite_simps [simp]:
  "is_finite (Fin q)" "\<not> is_finite PInf" "\<not> is_finite NInf" "\<not> is_finite NaN"
  by (simp_all add: is_finite_def)

lemma is_finite_iff: "is_finite x \<longleftrightarrow> (\<exists>q. x = Fin q)"
  by (cases x) auto

lemma fle_refl: "fle x x \<longleftrightarrow> x \<noteq> NaN"
  by (cases x) auto

lemma fle_trans: "fle x y \<Longrightarrow> fle y z \<Longrightarrow> fle x z"
  by (cases x; cases y; cases z) auto

lemma flt_imp_fle: "flt x y \<Longrightarrow> fle x y"
  by (cases x; cases y) auto

lemma flt_fle_trans: "flt x y \<Longrightarrow> fle y z \<Longrightarrow> flt x z"
  by (cases x; cases y; cases z) auto

lemma fle_flt_trans: "fle x y \<Longrightarrow> flt y z \<Longrightarrow> flt x z"
  by (cases x; cases y; cases z) auto

lemma flt_irrefl [simp]: "\<not> flt x x"
  by (cases x) auto

lemma not_fle_iff: "x \<noteq> NaN \<Longrightarrow> y \<noteq> NaN \<Longrightarrow> \<not> fle x y \<longleftrightarrow> flt y x"
  by (cases x; cases y) auto

lemma not_flt_iff: "x \<noteq> NaN \<Longrightarrow> y \<noteq> NaN \<Longrightarrow> \<not> flt x y \<longleftrightarrow> fle y x"
  by (cases x; cases y) auto

lemma fle_NaN [simp]: "\<not> fle x NaN" "\<not> flt x NaN" "\<not> fle NaN x" "\<not> flt NaN x"
  by (cases x; simp)+

lemma fle_PInf [simp]: "fle x PInf \<longleftrightarrow> x \<noteq> NaN"
  by (cases x) auto

lemma flt_NInf [simp]: "\<not> flt x NInf"
  by (cases x) auto

lemma flt_PInf_left [simp]: "\<not> flt PInf x"
  by (cases x) auto

lemma fle_Fin_iff: "fle x (Fin b) \<longleftrightarrow> x = NInf \<or> (\<exists>a. x = Fin a \<and> a \<le> b)"
  by (cases x) auto

lemma rne_not_NaN [simp]: "rne x \<noteq> NaN"
  by (simp add: rne_def Let_def)

lemma rne_mono:
  assumes "x \<le> y"
  shows "fle (rne x) (rne y)"
proof -
  consider "0 < x" | "x = 0" "0 \<le> y" | "x < 0" "0 \<le> y" | "x < 0" "y < 0"
    using assms by linarith
  then show ?thesis
  proof cases
    case 1
    with assms round_pos_mono [of x y] show ?thesis by (auto simp: rne_def Let_def)
  next
    case 2
    with round_pos_nonneg [of y] show ?thesis by (auto simp: rne_def Let_def)
  next
    case 3
    then show ?thesis
      using round_pos_nonneg [of "- x"] round_pos_nonneg [of y]
      by (auto simp: rne_def Let_def)
  next
    case 4
    with assms round_pos_mono [of "- y" "- x"] show ?thesis by (auto simp: rne_def Let_def)
  qed
qed

text \<open>A rational is a double when rounding keeps it. Twice a double is one, below the overflow.\<close>

definition is_float :: "rat \<Rightarrow> bool" where
  "is_float q \<longleftrightarrow> rne q = Fin q"

lemma round_pos_double:
  assumes "0 < q" "round_pos q = q"
  shows "round_pos (2 * q) = 2 * q"
proof -
  let ?m = "round_half_even (q / ulp_of q)" and ?e = "max (ilog2 q) (- 1022)"
  have rep: "q = of_int ?m * pow2 (?e - 52)"
    using assms(2) by (simp add: round_pos_def ulp_of_def)
  have "q < pow2 (?e + 1)"
    using ilog2_bounds [OF assms(1)] pow2_mono [of "ilog2 q + 1" "?e + 1"] by fastforce
  also have "pow2 (?e + 1) = pow2 53 * pow2 (?e - 52)" by (simp add: pow2_add [symmetric] add.commute)
  finally have "of_int ?m * pow2 (?e - 52) < pow2 53 * pow2 (?e - 52)" using rep by simp
  then have "of_int ?m < pow2 53" by simp
  then have "(of_int ?m :: rat) < of_int (2 ^ 53)" by (simp add: pow2_def)
  then have m: "?m < 2 ^ 53" by (simp only: of_int_less_iff)
  have "2 * q = of_int ?m * (pow2 1 * pow2 (?e - 52))" using rep by (simp add: pow2_def [of 1])
  then have "2 * q = of_int ?m * pow2 (?e - 51)" by (simp add: pow2_add [symmetric] algebra_simps)
  then show ?thesis using assms(1) m by (intro round_pos_exact [where m = ?m and k = "?e - 51"]) auto
qed

lemma rne_double:
  assumes "is_float q" "0 \<le> q" "q < pow2 1023"
  shows "rne (2 * q) = Fin (2 * q)"
proof (cases "q = 0")
  case False
  with assms have q: "0 < q" "round_pos q = q"
    by (auto simp: is_float_def rne_def Let_def split: if_splits)
  have "2 * q < pow2 1 * pow2 1023" using assms(3) by (simp add: pow2_def [of 1])
  then have "2 * q < pow2 1024" by (simp add: pow2_add [symmetric])
  with q show ?thesis by (simp add: rne_def round_pos_double)
qed simp

lemma rne_nonneg_iff: "0 \<le> x \<Longrightarrow> fle (Fin 0) (rne x)"
  using rne_mono [of 0 x] by simp

lemma rne_pos_imp: "flt (Fin 0) (rne x) \<Longrightarrow> 0 < x"
  using rne_mono [of x 0] by (cases "rne x") (auto simp: not_le [symmetric])

lemma rne_neg_imp: "flt (rne x) (Fin 0) \<Longrightarrow> x < 0"
  using rne_mono [of 0 x] by (cases "rne x") (auto simp: not_le [symmetric])

lemma rne_minus:
  "rne (- x) = (case rne x of Fin y \<Rightarrow> Fin (- y) | PInf \<Rightarrow> NInf | NInf \<Rightarrow> PInf | NaN \<Rightarrow> NaN)"
  by (auto simp: rne_def Let_def)

subsection \<open>Arithmetic\<close>

fun fneg :: "pyfloat \<Rightarrow> pyfloat" where
  "fneg (Fin a) = Fin (- a)"
| "fneg PInf = NInf"
| "fneg NInf = PInf"
| "fneg NaN = NaN"

fun fabs :: "pyfloat \<Rightarrow> pyfloat" where
  "fabs (Fin a) = Fin \<bar>a\<bar>"
| "fabs NaN = NaN"
| "fabs _ = PInf"

fun fadd :: "pyfloat \<Rightarrow> pyfloat \<Rightarrow> pyfloat" where
  "fadd NaN _ = NaN"
| "fadd _ NaN = NaN"
| "fadd PInf NInf = NaN"
| "fadd NInf PInf = NaN"
| "fadd PInf _ = PInf"
| "fadd _ PInf = PInf"
| "fadd NInf _ = NInf"
| "fadd _ NInf = NInf"
| "fadd (Fin a) (Fin b) = rne (a + b)"

definition fsub :: "pyfloat \<Rightarrow> pyfloat \<Rightarrow> pyfloat" where
  "fsub x y = fadd x (fneg y)"

definition fl_inf :: "bool \<Rightarrow> pyfloat" where
  "fl_inf pos = (if pos then PInf else NInf)"

fun fmul :: "pyfloat \<Rightarrow> pyfloat \<Rightarrow> pyfloat" where
  "fmul NaN _ = NaN"
| "fmul _ NaN = NaN"
| "fmul (Fin a) (Fin b) = rne (a * b)"
| "fmul (Fin a) PInf = (if a = 0 then NaN else fl_inf (0 < a))"
| "fmul (Fin a) NInf = (if a = 0 then NaN else fl_inf (a < 0))"
| "fmul PInf (Fin b) = (if b = 0 then NaN else fl_inf (0 < b))"
| "fmul NInf (Fin b) = (if b = 0 then NaN else fl_inf (b < 0))"
| "fmul PInf PInf = PInf"
| "fmul NInf NInf = PInf"
| "fmul PInf NInf = NInf"
| "fmul NInf PInf = NInf"

text \<open>\<^verbatim>\<open>a / b\<close> raises on a zero divisor.\<close>

definition fdiv :: "pyfloat \<Rightarrow> pyfloat \<Rightarrow> pyfloat res" where
  "fdiv x y =
     (case y of
        Fin b \<Rightarrow>
          if b = 0 then Inl ZeroDivisionError
          else Inr (case x of Fin a \<Rightarrow> rne (a / b) | PInf \<Rightarrow> fl_inf (0 < b)
                    | NInf \<Rightarrow> fl_inf (b < 0) | NaN \<Rightarrow> NaN)
      | NaN \<Rightarrow> Inr NaN
      | _ \<Rightarrow> Inr (case x of Fin _ \<Rightarrow> Fin 0 | _ \<Rightarrow> NaN))"

text \<open>\<^verbatim>\<open>max(a, b)\<close> returns \<open>b\<close> only when it compares greater, \<^verbatim>\<open>min\<close> only when it compares less.\<close>

definition fmax :: "pyfloat \<Rightarrow> pyfloat \<Rightarrow> pyfloat" where
  "fmax a b = (if flt a b then b else a)"

definition fmin :: "pyfloat \<Rightarrow> pyfloat \<Rightarrow> pyfloat" where
  "fmin a b = (if flt b a then b else a)"

text \<open>\<^verbatim>\<open>float(n)\<close> of an int raises when the value overflows.\<close>

definition float_of_int :: "int \<Rightarrow> pyfloat res" where
  "float_of_int n = (case rne (of_int n) of Fin q \<Rightarrow> Inr (Fin q) | _ \<Rightarrow> Inl OverflowError)"

lemma float_of_int_small: "\<bar>n\<bar> < 2 ^ 53 \<Longrightarrow> float_of_int n = Inr (Fin (of_int n))"
  by (simp add: float_of_int_def rne_of_int)

lemma fsub_Fin [simp]: "fsub (Fin a) (Fin b) = rne (a - b)"
  by (simp add: fsub_def)

lemma fsub_pos_imp: "flt (Fin 0) (fsub (Fin a) (Fin b)) \<Longrightarrow> b < a"
  using rne_pos_imp [of "a - b"] by simp

lemma fsub_nonneg: "b \<le> a \<Longrightarrow> fle (Fin 0) (fsub (Fin a) (Fin b))"
  using rne_nonneg_iff [of "a - b"] by simp

lemma fabs_ge_0: "x \<noteq> NaN \<Longrightarrow> fle (Fin 0) (fabs x)"
  by (cases x) auto

lemma fmax_ge:
  "a \<noteq> NaN \<Longrightarrow> b \<noteq> NaN \<Longrightarrow> fle a (fmax a b) \<and> fle b (fmax a b)"
  by (cases a; cases b) (auto simp: fmax_def)

subsection \<open>Evaluation\<close>

text \<open>Whole numbers below \<open>2 ^ 53\<close> need no rounding.\<close>

definition rne_general :: "rat \<Rightarrow> pyfloat" where "rne_general = rne"

lemma rne_general_eval [code]:
  "rne_general x =
     (if x = 0 then Fin 0 else let y = round_pos \<bar>x\<bar> in
      if pow2 1024 \<le> y then (if 0 < x then PInf else NInf) else Fin (if 0 < x then y else - y))"
  by (simp add: rne_general_def rne_def Let_def)

lemma rne_eval [code]:
  "rne x = (case quotient_of x of (n, d) \<Rightarrow> if d = 1 \<and> \<bar>n\<bar> < 9007199254740992 then Fin x else rne_general x)"
proof (cases "quotient_of x")
  case (Pair n d)
  then have "d = 1 \<Longrightarrow> x = of_int n" using quotient_of_div [OF Pair] by simp
  then show ?thesis using rne_of_int [of n] by (auto simp: Pair rne_general_def)
qed

end
