(* ===== verification/Py_Datetime.thy ===== *)
theory Py_Datetime
  imports Py_Float
begin

section \<open>Python dates, datetimes and durations\<close>

text \<open>
  The parts of the \<open>datetime\<close> module the components use. A \<open>date\<close> is its proleptic
  Gregorian ordinal (\<^verbatim>\<open>date.toordinal()\<close>, 1 for 0001-01-01) and a \<open>datetime\<close> the
  number of microseconds \<open>ordinal * us_per_day + time of day\<close> on its own wall clock,
  together with its UTC offset when it is timezone-aware. A \<open>timedelta\<close> is a number of
  microseconds. The module's limit to the years 1 to 9999 is not modelled: dates are
  unbounded in both directions.
\<close>

subsection \<open>Ordinals and calendar fields\<close>

definition is_leap :: "int \<Rightarrow> bool" where
  "is_leap y \<longleftrightarrow> y mod 4 = 0 \<and> (y mod 100 \<noteq> 0 \<or> y mod 400 = 0)"

definition days_before_year :: "int \<Rightarrow> int" where
  "days_before_year y = (y - 1) * 365 + (y - 1) div 4 - (y - 1) div 100 + (y - 1) div 400"

definition days_before_month :: "int \<Rightarrow> int \<Rightarrow> int" where
  "days_before_month y m =
     (let l = (if is_leap y then 1 else 0) in
      if m \<le> 1 then 0 else if m = 2 then 31 else if m = 3 then 59 + l
      else if m = 4 then 90 + l else if m = 5 then 120 + l else if m = 6 then 151 + l
      else if m = 7 then 181 + l else if m = 8 then 212 + l else if m = 9 then 243 + l
      else if m = 10 then 273 + l else if m = 11 then 304 + l else if m = 12 then 334 + l
      else 365 + l)"

text \<open>\<^verbatim>\<open>date(year, month, day)\<close> for a valid day of the month.\<close>

definition ymd :: "int \<Rightarrow> int \<Rightarrow> int \<Rightarrow> int" where
  "ymd y m d = days_before_year y + days_before_month y m + d"

definition year_of :: "int \<Rightarrow> int" where
  "year_of n =
     (let n = n - 1;
          n400 = n div 146097; n = n mod 146097;
          n100 = n div 36524; n = n mod 36524;
          n4 = n div 1461; n = n mod 1461;
          n1 = n div 365;
          y = n400 * 400 + 1 + n100 * 100 + n4 * 4 + n1
      in if n1 = 4 \<or> n100 = 4 then y - 1 else y)"

fun month_scan :: "int \<Rightarrow> int \<Rightarrow> int list \<Rightarrow> int" where
  "month_scan y k [] = 12"
| "month_scan y k (m # ms) = (if k \<le> days_before_month y (m + 1) then m else month_scan y k ms)"

definition month_of :: "int \<Rightarrow> int" where
  "month_of n = (let y = year_of n in month_scan y (n - days_before_year y) [1,2,3,4,5,6,7,8,9,10,11])"

definition day_of :: "int \<Rightarrow> int" where
  "day_of n = (let y = year_of n in n - days_before_year y - days_before_month y (month_of n))"

text \<open>\<^verbatim>\<open>date.weekday()\<close>: Monday is 0, Sunday is 6.\<close>

definition weekday :: "int \<Rightarrow> int" where
  "weekday n = (n + 6) mod 7"

lemma weekday_range [simp]: "0 \<le> weekday n" "weekday n < 7"
  by (simp_all add: weekday_def)

lemma int_div_decomp:
  assumes "n = k * q + r" and "0 \<le> r" and "r < (k :: int)"
  shows "n div k = q"
  using assms by (simp add: div_pos_pos_trivial)

lemma days_before_year_Suc:
  "days_before_year (y + 1) = days_before_year y + (if is_leap y then 366 else 365)"
proof -
  have step: "y div k = (y - 1) div k + (if y mod k = 0 then 1 else 0)" if "1 < k" for k :: int
  proof (cases "y mod k = 0")
    case True
    then obtain q where "y = k * q" by (metis mod_eq_0_iff_dvd dvdE)
    moreover have "(k * q - 1) div k = q - 1"
    proof -
      have "(k * (q - 1) + (k - 1)) div k = q - 1 + (k - 1) div k"
        using that by (subst div_mult_self4) auto
      then show ?thesis using that by (simp add: algebra_simps div_pos_pos_trivial)
    qed
    ultimately show ?thesis using that by simp
  next
    case False
    have y: "y = k * (y div k) + y mod k" by simp
    have "0 < y mod k" "y mod k < k"
      using False that pos_mod_sign [of k y] pos_mod_bound [of k y] by linarith+
    then have "(y - 1) div k = y div k"
      using y by (intro int_div_decomp [where r = "y mod k - 1"]) linarith+
    then show ?thesis using False by simp
  qed
  have dvd: "y mod 400 = 0 \<Longrightarrow> y mod 100 = 0" "y mod 100 = 0 \<Longrightarrow> y mod 4 = 0"
  proof -
    have "y mod 400 mod 100 = y mod 100" by (rule mod_mod_cancel) simp
    then show "y mod 400 = 0 \<Longrightarrow> y mod 100 = 0" by simp
    have "y mod 100 mod 4 = y mod 4" by (rule mod_mod_cancel) simp
    then show "y mod 100 = 0 \<Longrightarrow> y mod 4 = 0" by simp
  qed
  have s4: "y div 4 = (y - 1) div 4 + (if y mod 4 = 0 then 1 else 0)" by (rule step) simp
  have s100: "y div 100 = (y - 1) div 100 + (if y mod 100 = 0 then 1 else 0)" by (rule step) simp
  have s400: "y div 400 = (y - 1) div 400 + (if y mod 400 = 0 then 1 else 0)" by (rule step) simp
  have "days_before_year (y + 1) = y * 365 + y div 4 - y div 100 + y div 400"
    by (simp add: days_before_year_def)
  also have "\<dots> = days_before_year y + 365 + (if y mod 4 = 0 then 1 else 0)
      - (if y mod 100 = 0 then 1 else 0) + (if y mod 400 = 0 then 1 else 0)"
    by (simp only: s4 s100 s400 days_before_year_def) simp
  finally show ?thesis
    using dvd unfolding is_leap_def by (simp only: split: if_split) linarith
qed

lemma days_before_year_less: "y < y' \<Longrightarrow> days_before_year y + 365 \<le> days_before_year y'"
proof (induction "nat (y' - y)" arbitrary: y')
  case 0
  then show ?case by simp
next
  case (Suc k)
  have s: "days_before_year y' = days_before_year (y' - 1) + (if is_leap (y' - 1) then 366 else 365)"
    using days_before_year_Suc [of "y' - 1"] by simp
  show ?case
  proof (cases "y < y' - 1")
    case True
    then have "days_before_year y + 365 \<le> days_before_year (y' - 1)"
      using Suc.hyps(2) by (intro Suc.hyps(1)) auto
    with s show ?thesis by (simp split: if_splits)
  next
    case False
    with Suc.prems have "y = y' - 1" by simp
    with s show ?thesis by (simp split: if_splits)
  qed
qed

lemma days_before_year_mono: "y \<le> y' \<Longrightarrow> days_before_year y \<le> days_before_year y'"
  using days_before_year_less [of y y'] by (cases "y = y'") auto

lemma days_before_year_split:
  assumes "0 \<le> b" "b \<le> 3" "0 \<le> c" "c \<le> 24" "0 \<le> d" "d \<le> 3"
  shows "days_before_year (400 * a + 1 + 100 * b + 4 * c + d) = 146097 * a + 36524 * b + 1461 * c + 365 * d"
proof -
  let ?n = "400 * a + 100 * b + 4 * c + d"
  have 4: "?n div 4 = 100 * a + 25 * b + c"
    by (rule int_div_decomp [where r = d]) (use assms in auto)
  have 100: "?n div 100 = 4 * a + b"
    by (rule int_div_decomp [where r = "4 * c + d"]) (use assms in auto)
  have 400: "?n div 400 = a"
    by (rule int_div_decomp [where r = "100 * b + 4 * c + d"]) (use assms in auto)
  have "400 * a + 1 + 100 * b + 4 * c + d - 1 = ?n" by simp
  then show ?thesis
    unfolding days_before_year_def by (simp only: 4 100 400) simp
qed

lemma days_before_year_split_Dec31:
  "days_before_year (400 * a + 400) = 146097 * a + 145731"
  "0 \<le> b \<Longrightarrow> b \<le> 3 \<Longrightarrow> 0 \<le> c \<Longrightarrow> c \<le> 24 \<Longrightarrow>
   days_before_year (400 * a + 100 * b + 4 * c + 4) = 146097 * a + 36524 * b + 1461 * c + 1095"
  using days_before_year_split [of 3 24 3 a] days_before_year_split [of b c 3 a]
  by (simp_all add: algebra_simps)

lemma year_of_bounds: "days_before_year (year_of n) < n \<and> n \<le> days_before_year (year_of n + 1)"
proof -
  define k where "k = n - 1"
  define a where "a = k div 146097"
  define r where "r = k mod 146097"
  define b where "b = r div 36524"
  define s where "s = r mod 36524"
  define c where "c = s div 1461"
  define t where "t = s mod 1461"
  define d where "d = t div 365"
  define u where "u = t mod 365"
  note defs = a_def r_def b_def s_def c_def t_def d_def u_def
  have n: "n = 146097 * a + 36524 * b + 1461 * c + 365 * d + u + 1"
    using mult_div_mod_eq [of 146097 k] mult_div_mod_eq [of 36524 r] mult_div_mod_eq [of 1461 s]
      mult_div_mod_eq [of 365 t]
    unfolding defs [symmetric] by (simp add: k_def)
  have r: "0 \<le> r" "r < 146097" by (simp_all add: r_def)
  have s: "0 \<le> s" "s < 36524" by (simp_all add: s_def)
  have t: "0 \<le> t" "t < 1461" by (simp_all add: t_def)
  have u: "0 \<le> u" "u < 365" by (simp_all add: u_def)
  have rb: "r = 36524 * b + s" by (simp add: b_def s_def)
  have sc: "s = 1461 * c + t" by (simp add: c_def t_def)
  have td: "t = 365 * d + u" by (simp add: d_def u_def)
  have b: "0 \<le> b" "b \<le> 4" using r s rb by linarith+
  have c: "0 \<le> c" "c \<le> 24" using s t sc by linarith+
  have d: "0 \<le> d" "d \<le> 4" using t u td by linarith+
  have y: "year_of n = (if d = 4 \<or> b = 4 then 400 * a + 100 * b + 4 * c + d
                        else 400 * a + 1 + 100 * b + 4 * c + d)"
    unfolding year_of_def Let_def k_def [symmetric] defs [symmetric] by simp
  consider "b = 4" | "b \<le> 3" "d = 4" | "b \<le> 3" "d \<le> 3" using b d by linarith
  then show ?thesis
  proof cases
    case 1
    with r rb s have s0: "s = 0" by linarith
    with sc t c have c0: "c = 0" "t = 0" by linarith+
    with td u d have "d = 0" "u = 0" by linarith+
    with 1 c0 y n show ?thesis
      using days_before_year_split_Dec31(1) [of a] days_before_year_split [of 0 0 0 "a + 1"]
      by (simp add: algebra_simps)
  next
    case 2
    have u0: "u = 0" using 2 td t u by linarith
    have yy: "year_of n = 400 * a + 100 * b + 4 * c + 4" using y 2 by simp
    have lo: "days_before_year (year_of n) = 146097 * a + 36524 * b + 1461 * c + 1095"
      unfolding yy using 2 b c by (intro days_before_year_split_Dec31(2))
    have "days_before_year (year_of n) + 365 \<le> days_before_year (year_of n + 1)"
      using days_before_year_less [of "year_of n" "year_of n + 1"] by simp
    moreover have "n \<le> days_before_year (year_of n + 1)"
    proof (cases "c = 24")
      case True
      then have "s \<ge> 35064 + 1460" using sc td 2 u by linarith
      with s have False by linarith
      then show ?thesis ..
    next
      case False
      with c have "c + 1 \<le> 24" by linarith
      then have "days_before_year (400 * a + 1 + 100 * b + 4 * (c + 1) + 0)
          = 146097 * a + 36524 * b + 1461 * (c + 1) + 365 * 0"
        using 2 b c by (intro days_before_year_split) auto
      with yy n 2 u0 show ?thesis by (simp add: algebra_simps)
    qed
    ultimately show ?thesis using lo n 2 u0 by linarith
  next
    case 3
    have yy: "year_of n = 400 * a + 1 + 100 * b + 4 * c + d" using y 3 by simp
    have lo: "days_before_year (year_of n) = 146097 * a + 36524 * b + 1461 * c + 365 * d"
      unfolding yy using 3 b c d by (intro days_before_year_split) auto
    have "days_before_year (year_of n) + 365 \<le> days_before_year (year_of n + 1)"
      using days_before_year_less [of "year_of n" "year_of n + 1"] by simp
    with lo n u show ?thesis by linarith
  qed
qed

lemma year_of_unique:
  assumes "days_before_year y < n" and "n \<le> days_before_year (y + 1)"
  shows "year_of n = y"
proof -
  note b = year_of_bounds [of n]
  have "\<not> y + 1 \<le> year_of n"
    using days_before_year_mono [of "y + 1" "year_of n"] b assms by linarith
  moreover have "\<not> year_of n + 1 \<le> y"
    using days_before_year_mono [of "year_of n + 1" y] b assms by linarith
  ultimately show ?thesis by linarith
qed

definition days_in_month :: "int \<Rightarrow> int \<Rightarrow> int" where
  "days_in_month y m = days_before_month y (m + 1) - days_before_month y m"

definition valid_ymd :: "int \<Rightarrow> int \<Rightarrow> int \<Rightarrow> bool" where
  "valid_ymd y m d \<longleftrightarrow> 1 \<le> m \<and> m \<le> 12 \<and> 1 \<le> d \<and> d \<le> days_in_month y m"

lemma month_cases:
  assumes "1 \<le> m" "m \<le> (12 :: int)"
  obtains "m = 1" | "m = 2" | "m = 3" | "m = 4" | "m = 5" | "m = 6" | "m = 7" | "m = 8"
    | "m = 9" | "m = 10" | "m = 11" | "m = 12"
proof -
  have "m = 1 \<or> m = 2 \<or> m = 3 \<or> m = 4 \<or> m = 5 \<or> m = 6 \<or> m = 7 \<or> m = 8
    \<or> m = 9 \<or> m = 10 \<or> m = 11 \<or> m = 12"
    using assms by presburger
  with that show thesis by blast
qed

lemma days_before_month_le_year:
  assumes "valid_ymd y m d"
  shows "0 < days_before_month y m + d \<and> days_before_month y m + d \<le> (if is_leap y then 366 else 365)"
  using assms by (auto simp: valid_ymd_def days_in_month_def days_before_month_def Let_def split: if_splits)

lemma year_of_ymd: "valid_ymd y m d \<Longrightarrow> year_of (ymd y m d) = y"
  using days_before_month_le_year [of y m d] days_before_year_Suc [of y]
  by (intro year_of_unique) (auto simp: ymd_def split: if_splits)

lemma month_of_ymd:
  assumes "valid_ymd y m d"
  shows "month_of (ymd y m d) = m"
proof -
  have "1 \<le> m" "m \<le> 12" using assms by (auto simp: valid_ymd_def)
  then show ?thesis
  proof (cases rule: month_cases)
  qed (use assms in \<open>simp_all add: month_of_def year_of_ymd\<close>,
       simp_all add: ymd_def valid_ymd_def days_in_month_def days_before_month_def)
qed

text \<open>The calendar fields of a constructed date are the ones it was constructed from.\<close>

lemma day_of_ymd: "valid_ymd y m d \<Longrightarrow> day_of (ymd y m d) = d"
  unfolding day_of_def Let_def by (simp only: year_of_ymd month_of_ymd) (simp add: ymd_def)

lemma valid_ymd_last_day: "1 \<le> m \<Longrightarrow> m \<le> 12 \<Longrightarrow> 1 \<le> d \<Longrightarrow> d \<le> 28 \<Longrightarrow> valid_ymd y m d"
  by (auto simp: valid_ymd_def days_in_month_def days_before_month_def elim!: month_cases)

subsection \<open>Datetimes and durations\<close>

abbreviation us_per_second :: int where "us_per_second \<equiv> 1000000"
abbreviation us_per_day :: int where "us_per_day \<equiv> 86400000000"

text \<open>
  A datetime: \<open>Naive w\<close> has wall clock \<open>w\<close> and no tzinfo, \<open>Aware w off\<close> has wall clock
  \<open>w\<close> and \<^verbatim>\<open>utcoffset()\<close> \<open>off\<close>, so that its instant is \<open>w - off\<close>. Two aware datetimes
  compare by their instants.
\<close>

datatype pydt = Naive int | Aware int int

fun dt_aware :: "pydt \<Rightarrow> bool" where
  "dt_aware (Naive _) = False"
| "dt_aware (Aware _ _) = True"

text \<open>\<^verbatim>\<open>value.astimezone(timezone.utc)\<close> of an aware datetime, as an instant.\<close>

fun dt_instant :: "pydt \<Rightarrow> int" where
  "dt_instant (Naive w) = w"
| "dt_instant (Aware w off) = w - off"

definition date_of :: "int \<Rightarrow> int" where
  "date_of w = w div us_per_day"

definition time_of :: "int \<Rightarrow> int" where
  "time_of w = w mod us_per_day"

text \<open>\<^verbatim>\<open>datetime.combine(day, time)\<close> and \<^verbatim>\<open>time(hour, minute)\<close>.\<close>

definition combine :: "int \<Rightarrow> int \<Rightarrow> int" where
  "combine day tod = day * us_per_day + tod"

definition hhmm :: "int \<Rightarrow> int \<Rightarrow> int" where
  "hhmm h m = (h * 60 + m) * 60 * us_per_second"

lemma date_time_combine: "combine (date_of w) (time_of w) = w"
  by (simp add: combine_def date_of_def time_of_def)

lemma time_of_range: "0 \<le> time_of w" "time_of w < us_per_day"
  by (simp_all add: time_of_def)

lemma date_of_combine: "0 \<le> t \<Longrightarrow> t < us_per_day \<Longrightarrow> date_of (combine d t) = d"
  by (simp add: date_of_def combine_def)

lemma time_of_combine: "0 \<le> t \<Longrightarrow> t < us_per_day \<Longrightarrow> time_of (combine d t) = t"
  by (simp add: time_of_def combine_def)

lemma combine_le_iff:
  assumes "0 \<le> t" "t < us_per_day"
  shows "combine d t \<le> w \<longleftrightarrow> d < date_of w \<or> d = date_of w \<and> t \<le> time_of w"
  using date_time_combine [of w] time_of_range [of w] assms
  by (auto simp: combine_def)

lemma less_combine_iff:
  assumes "0 \<le> t" "t < us_per_day"
  shows "w < combine d t \<longleftrightarrow> date_of w < d \<or> date_of w = d \<and> time_of w < t"
  using combine_le_iff [OF assms, of d w] by auto

lemma le_combine_iff:
  assumes "0 \<le> t" "t < us_per_day"
  shows "w \<le> combine d t \<longleftrightarrow> date_of w < d \<or> date_of w = d \<and> time_of w \<le> t"
  using date_time_combine [of w] time_of_range [of w] assms
  by (auto simp: combine_def)

lemma hhmm_range: "0 \<le> h \<Longrightarrow> h \<le> 23 \<Longrightarrow> 0 \<le> m \<Longrightarrow> m \<le> 59 \<Longrightarrow> 0 \<le> hhmm h m \<and> hhmm h m < us_per_day"
  by (simp add: hhmm_def)

text \<open>\<^verbatim>\<open>timedelta.total_seconds()\<close>: the correctly rounded quotient.\<close>

definition total_seconds :: "int \<Rightarrow> pyfloat" where
  "total_seconds us = rne (of_int us / 1000000)"

lemma total_seconds_mono: "a \<le> b \<Longrightarrow> fle (total_seconds a) (total_seconds b)"
  unfolding total_seconds_def by (rule rne_mono) (simp add: divide_right_mono)

lemma total_seconds_0 [simp]: "total_seconds 0 = Fin 0"
  by (simp add: total_seconds_def)

lemma total_seconds_not_NaN [simp]: "total_seconds us \<noteq> NaN"
  by (simp add: total_seconds_def)

lemma total_seconds_whole:
  "\<bar>n\<bar> < 2 ^ 53 \<Longrightarrow> total_seconds (n * 1000000) = Fin (of_int n)"
  by (simp add: total_seconds_def rne_of_int)

lemma total_seconds_neg: "flt (total_seconds us) (Fin 0) \<Longrightarrow> us < 0"
  unfolding total_seconds_def using rne_neg_imp by fastforce

lemma total_seconds_less_whole:
  assumes "flt (total_seconds us) (Fin (of_int n))" and "\<bar>n\<bar> < 2 ^ 53"
  shows "us < n * 1000000"
proof (rule ccontr)
  assume "\<not> us < n * 1000000"
  then have "fle (total_seconds (n * 1000000)) (total_seconds us)"
    by (intro total_seconds_mono) simp
  with assms show False
    by (metis fle_flt_trans flt_irrefl total_seconds_whole)
qed

lemma total_seconds_le_whole:
  assumes "fle (Fin (of_int n)) (total_seconds us)" and "\<not> n * 1000000 \<le> us" and "\<bar>n\<bar> < 2 ^ 53"
  shows "total_seconds us = Fin (of_int n)"
proof -
  have "fle (total_seconds us) (total_seconds (n * 1000000))"
    using assms(2) by (intro total_seconds_mono) simp
  with assms show ?thesis
    by (cases "total_seconds us") (auto simp: total_seconds_whole)
qed

lemma total_seconds_not_above:
  assumes "\<not> flt (Fin (of_int n)) (total_seconds us)" and "0 \<le> n" "n < 2 ^ 32"
  shows "us \<le> n * 1000000"
proof (rule ccontr)
  assume "\<not> us \<le> n * 1000000"
  then have "of_int (n * 1000000 + 1) \<le> (of_int us :: rat)" by (simp only: of_int_le_iff)
  moreover have "of_int (n * 2 ^ 20 + 1) * pow2 (- 20) = of_int n + (1 / 2 ^ 20 :: rat)"
    by (simp add: pow2_def field_simps)
  ultimately have "of_int (n * 2 ^ 20 + 1) * pow2 (- 20) \<le> (of_int us :: rat) / 1000000"
    by (simp add: field_simps)
  then have "fle (rne (of_int (n * 2 ^ 20 + 1) * pow2 (- 20))) (total_seconds us)"
    unfolding total_seconds_def by (rule rne_mono)
  moreover have "rne (of_int (n * 2 ^ 20 + 1) * pow2 (- 20)) = Fin (of_int (n * 2 ^ 20 + 1) * pow2 (- 20))"
    using assms(2,3) by (intro rne_dyadic) auto
  moreover have "flt (Fin (of_int n)) (Fin (of_int (n * 2 ^ 20 + 1) * pow2 (- 20)))"
    by (simp add: pow2_def field_simps)
  ultimately show False using assms(1) by (cases "total_seconds us") auto
qed

text \<open>
  \<^verbatim>\<open>timedelta(seconds=x)\<close> for a float: the whole part exactly, the fractional part in
  microseconds rounded half to even. NaN and the infinities raise.
\<close>

definition td_seconds :: "pyfloat \<Rightarrow> int res" where
  "td_seconds x =
     (case x of
        Fin q \<Rightarrow>
          (let whole = (if 0 \<le> q then \<lfloor>q\<rfloor> else - \<lfloor>- q\<rfloor>);
               frac = fmul (Fin (q - of_int whole)) (Fin 1000000)
           in case frac of
                Fin u \<Rightarrow> Inr (whole * us_per_second + round_half_even u)
              | _ \<Rightarrow> Inl OverflowError)
      | NaN \<Rightarrow> Inl (ValueError ''cannot convert float NaN to integer'')
      | _ \<Rightarrow> Inl OverflowError)"

lemma td_seconds_of_int [simp]: "td_seconds (Fin (of_int n)) = Inr (n * us_per_second)"
proof -
  have "round_half_even 0 = 0" using round_half_even_of_int [of 0] by simp
  then show ?thesis by (simp add: td_seconds_def Let_def)
qed

lemma td_seconds_numeral [simp]:
  "td_seconds (Fin (numeral n)) = Inr (numeral n * us_per_second)"
  "td_seconds (Fin 0) = Inr 0"
  "td_seconds (Fin 1) = Inr us_per_second"
  using td_seconds_of_int [of "numeral n"] td_seconds_of_int [of 0] td_seconds_of_int [of 1]
  by simp_all

subsection \<open>Text of numbers and timestamps\<close>

fun dec_nat :: "nat \<Rightarrow> string" where
  "dec_nat n = (if n < 10 then [char_of (48 + n)] else dec_nat (n div 10) @ [char_of (48 + n mod 10)])"

declare dec_nat.simps [simp del]

definition dec_int :: "int \<Rightarrow> string" where
  "dec_int i = (if i < 0 then CHR ''-'' # dec_nat (nat (- i)) else dec_nat (nat i))"

definition pad_dec :: "nat \<Rightarrow> int \<Rightarrow> string" where
  "pad_dec w i = (let s = dec_nat (nat i) in replicate (w - length s) (CHR ''0'') @ s)"

text \<open>The same digits computed on integers, which is how the witnesses evaluate them.\<close>

function dec_digits :: "int \<Rightarrow> string" where
  "dec_digits n = (if n < 10 then [char_of (48 + n)] else dec_digits (n div 10) @ [char_of (48 + n mod 10)])"
  by auto
termination by (relation "measure nat") auto

declare dec_digits.simps [simp del]

lemma dec_digits_nat: "dec_digits (int n) = dec_nat n"
proof (induction n rule: dec_nat.induct)
  case (1 n)
  have chr: "char_of (48 + int k) = char_of (48 + k)" for k :: nat
    by (metis char_of_nat of_nat_add of_nat_numeral)
  have "int n div 10 = int (n div 10)" and "int n mod 10 = int (n mod 10)"
    by (simp_all add: zdiv_int zmod_int)
  then show ?case
    using 1 by (simp add: dec_digits.simps [of "int n"] dec_nat.simps [of n] chr)
qed

lemma dec_int_code [code]: "dec_int i = (if i < 0 then CHR ''-'' # dec_digits (- i) else dec_digits i)"
  by (simp add: dec_int_def flip: dec_digits_nat)

lemma pad_dec_code [code]:
  "pad_dec w i = (let s = dec_digits (max 0 i) in replicate (w - length s) (CHR ''0'') @ s)"
  by (simp add: pad_dec_def max_def flip: dec_digits_nat)

text \<open>\<^verbatim>\<open>isoformat()\<close> of a UTC datetime and of a date, and \<^verbatim>\<open>strftime('%Y%m%d')\<close>.\<close>

definition date_isoformat :: "int \<Rightarrow> string" where
  "date_isoformat d = pad_dec 4 (year_of d) @ ''-'' @ pad_dec 2 (month_of d) @ ''-'' @ pad_dec 2 (day_of d)"

definition strftime_ymd :: "int \<Rightarrow> string" where
  "strftime_ymd d = pad_dec 4 (year_of d) @ pad_dec 2 (month_of d) @ pad_dec 2 (day_of d)"

definition isoformat :: "int \<Rightarrow> string" where
  "isoformat t =
     (let s = time_of t div us_per_second; us = time_of t mod us_per_second in
      date_isoformat (date_of t) @ ''T'' @ pad_dec 2 (s div 3600) @ '':'' @
      pad_dec 2 (s div 60 mod 60) @ '':'' @ pad_dec 2 (s mod 60) @
      (if us = 0 then [] else ''.'' @ pad_dec 6 us) @ ''+00:00'')"

end
