(* ===== verification/Calendar_Holidays.thy ===== *)
theory Calendar_Holidays
  imports Py_Datetime
begin

section \<open>Holiday rules of the market calendar (\<^verbatim>\<open>market_calendar.py\<close>)\<close>

text \<open>
  The calendar object, the holiday rules of \<^verbatim>\<open>_holidays_for_nominal_year\<close> and
  \<open>is_trading_day\<close>, with what makes them usable: each rule's result lies in a fixed
  interval of its year and on the right weekday, Easter falls on a Sunday from 22 March
  to 25 April for every year, and two holidays are at least four days apart.
\<close>

record market_calendar =
  full_day_closures :: "int list"
  early_closes :: "int \<rightharpoonup> int"

definition default_market_calendar :: market_calendar where
  "default_market_calendar = \<lparr>full_day_closures = [], early_closes = Map.empty\<rparr>"

subsection \<open>Holiday rules\<close>

definition nth_weekday :: "int \<Rightarrow> int \<Rightarrow> int \<Rightarrow> int \<Rightarrow> int" where
  "nth_weekday year month wd occurrence =
     (let first = ymd year month 1;
          offset = (wd - weekday first) mod 7
      in first + (offset + (occurrence - 1) * 7))"

definition last_weekday :: "int \<Rightarrow> int \<Rightarrow> int \<Rightarrow> int" where
  "last_weekday year month wd =
     (let first_next_month = (if month = 12 then ymd (year + 1) 1 1 else ymd year (month + 1) 1);
          last = first_next_month - 1
      in last - (weekday last - wd) mod 7)"

definition easter_month_day :: "int \<Rightarrow> int \<times> int" where
  "easter_month_day year =
     (let a = year mod 19;
          b = year div 100;
          c = year mod 100;
          d = b div 4;
          e = b mod 4;
          f = (b + 8) div 25;
          g = (b - f + 1) div 3;
          h = (19 * a + b - d - g + 15) mod 30;
          i = c div 4;
          k = c mod 4;
          ell = (32 + 2 * e + 2 * i - h - k) mod 7;
          m = (a + 11 * h + 22 * ell) div 451
      in ((h + ell - 7 * m + 114) div 31, (h + ell - 7 * m + 114) mod 31 + 1))"

definition easter_sunday :: "int \<Rightarrow> int" where
  "easter_sunday year = (let (month, day) = easter_month_day year in ymd year month day)"

definition observed_new_year :: "int \<Rightarrow> int" where
  "observed_new_year year =
     (let new_year = ymd year 1 1 in if weekday new_year = 6 then new_year + 1 else new_year)"

definition observed_fixed_holiday :: "int \<Rightarrow> int" where
  "observed_fixed_holiday day =
     (if weekday day = 5 then day - 1 else if weekday day = 6 then day + 1 else day)"

definition holidays_for_nominal_year :: "int \<Rightarrow> int list" where
  "holidays_for_nominal_year year =
     [observed_new_year year,
      nth_weekday year 1 0 3,
      nth_weekday year 2 0 3,
      easter_sunday year - 2,
      last_weekday year 5 0,
      observed_fixed_holiday (ymd year 7 4),
      nth_weekday year 9 0 1,
      nth_weekday year 11 3 4,
      observed_fixed_holiday (ymd year 12 25)]
     @ (if 2022 \<le> year then [observed_fixed_holiday (ymd year 6 19)] else [])"

definition holidays_around :: "int \<Rightarrow> int list" where
  "holidays_around year = concat (map holidays_for_nominal_year [year - 1, year, year + 1])"

definition is_trading_day :: "market_calendar \<Rightarrow> int \<Rightarrow> bool" where
  "is_trading_day c day =
     (if 5 \<le> weekday day \<or> day \<in> set (full_day_closures c) then False
      else day \<notin> set (holidays_around (year_of day)))"

subsection \<open>Facts about the holiday rules\<close>

lemma nth_weekday_bounds:
  "ymd y m 1 + 7 * (k - 1) \<le> nth_weekday y m wd k \<and> nth_weekday y m wd k \<le> ymd y m 1 + 7 * (k - 1) + 6"
  by (auto simp: nth_weekday_def Let_def)

lemma weekday_shift: "weekday (n + 7 * k) = weekday n"
proof -
  have "n + 7 * k + 6 = n + 6 + 7 * k" by simp
  then show ?thesis unfolding weekday_def by (simp only: mod_mult_self2)
qed

lemma weekday_add_mod: "weekday (n + x) = (weekday n + x) mod 7"
proof -
  have "n + x + 6 = n + 6 + x" by simp
  then show ?thesis unfolding weekday_def by (simp only: mod_add_left_eq)
qed

lemma weekday_nth_weekday:
  assumes "0 \<le> wd" "wd < 7"
  shows "weekday (nth_weekday y m wd k) = wd"
proof -
  have "weekday (nth_weekday y m wd k) = weekday (ymd y m 1 + (wd - weekday (ymd y m 1)) mod 7)"
    using weekday_shift [of "ymd y m 1 + (wd - weekday (ymd y m 1)) mod 7" "k - 1"]
    by (simp add: nth_weekday_def Let_def algebra_simps)
  also have "\<dots> = (weekday (ymd y m 1) + (wd - weekday (ymd y m 1))) mod 7"
    by (simp only: weekday_add_mod mod_add_right_eq)
  finally show ?thesis using assms by simp
qed

lemma last_weekday_bounds:
  assumes "m \<noteq> 12"
  shows "ymd y (m + 1) 1 - 7 \<le> last_weekday y m wd \<and> last_weekday y m wd < ymd y (m + 1) 1"
  using assms by (auto simp: last_weekday_def Let_def)

lemma weekday_last_weekday:
  assumes "0 \<le> wd" "wd < 7" "m \<noteq> 12"
  shows "weekday (last_weekday y m wd) = wd"
proof -
  let ?l = "ymd y (m + 1) 1 - 1"
  have "weekday (last_weekday y m wd) = (weekday ?l + - ((weekday ?l - wd) mod 7)) mod 7"
    using assms(3) weekday_add_mod [of ?l "- ((weekday ?l - wd) mod 7)"]
    by (simp add: last_weekday_def Let_def)
  also have "\<dots> = (weekday ?l - (weekday ?l - wd)) mod 7"
    by (simp add: mod_diff_right_eq)
  finally show ?thesis using assms by simp
qed

lemma observed_fixed_bounds: "\<bar>observed_fixed_holiday d - d\<bar> \<le> 1"
  by (simp add: observed_fixed_holiday_def)

lemma weekday_observed_fixed: "weekday (observed_fixed_holiday d) < 5"
proof -
  have "weekday (d - 1) = (weekday d - 1) mod 7" "weekday (d + 1) = (weekday d + 1) mod 7"
    using weekday_add_mod [of d "- 1"] weekday_add_mod [of d 1] by simp_all
  moreover have "weekday d \<le> 6" using weekday_range(2) [of d] by linarith
  ultimately show ?thesis by (auto simp: observed_fixed_holiday_def)
qed

text \<open>
  The Meeus/Jones/Butcher rule. The intermediate values are bounded, so the result is
  always a day from 22 March to 25 April, and the correction \<open>ell\<close> makes it a Sunday.
\<close>

lemma easter_month_day_bounds:
  assumes "easter_month_day y = (month, day)"
  shows "(month = 3 \<and> 22 \<le> day \<and> day \<le> 31) \<or> (month = 4 \<and> 1 \<le> day \<and> day \<le> 25)"
proof -
  define a where "a = y mod 19"
  define h where "h = (19 * a + y div 100 - y div 100 div 4
    - (y div 100 - (y div 100 + 8) div 25 + 1) div 3 + 15) mod 30"
  define ell where "ell = (32 + 2 * (y div 100 mod 4) + 2 * (y mod 100 div 4) - h - y mod 100 mod 4) mod 7"
  define m where "m = (a + 11 * h + 22 * ell) div 451"
  define s where "s = h + ell - 7 * m + 114"
  have a: "0 \<le> a" "a < 19" by (simp_all add: a_def)
  have h: "0 \<le> h" "h < 30" by (simp_all add: h_def)
  have ell: "0 \<le> ell" "ell < 7" by (simp_all add: ell_def)
  have m: "451 * m \<le> a + 11 * h + 22 * ell" "a + 11 * h + 22 * ell < 451 * m + 451"
    unfolding m_def by (simp_all add: mult.commute)
  have s: "114 \<le> s \<and> s \<le> 148"
  proof -
    have "m \<le> 1" "0 \<le> m" using m a h ell by linarith+
    then consider "m = 0" | "m = 1" by linarith
    then show ?thesis
    proof cases
      case 1
      with m a h ell have "h + ell \<le> 34" by linarith
      with 1 h ell show ?thesis by (simp add: s_def)
    next
      case 2
      with m a h ell have "7 \<le> h + ell" by linarith
      with 2 h ell show ?thesis by (simp add: s_def)
    qed
  qed
  have "easter_month_day y = (s div 31, s mod 31 + 1)"
    unfolding easter_month_day_def Let_def a_def h_def ell_def m_def s_def by (rule refl)
  with assms have eq: "month = s div 31" "day = s mod 31 + 1" by simp_all
  show ?thesis
  proof (cases "s < 124")
    case True
    then have "s div 31 = 3" using s by (intro int_div_decomp [where r = "s - 93"]) auto
    moreover have "s mod 31 = s - 93" using s True calculation by (simp add: minus_div_mult_eq_mod [symmetric])
    ultimately show ?thesis using eq s True by auto
  next
    case False
    then have "s div 31 = 4" using s by (intro int_div_decomp [where r = "s - 124"]) auto
    moreover have "s mod 31 = s - 124" using s False calculation by (simp add: minus_div_mult_eq_mod [symmetric])
    ultimately show ?thesis using eq s False by auto
  qed
qed

lemma easter_valid:
  assumes "easter_month_day y = (month, day)"
  shows "valid_ymd y month day"
  using easter_month_day_bounds [OF assms]
  by (auto simp: valid_ymd_def days_in_month_def days_before_month_def)

lemma weekday_easter: "weekday (easter_sunday y) = 6"
proof -
  obtain month day where md: "easter_month_day y = (month, day)" by (cases "easter_month_day y")
  define b where "b = y div 100"
  define c where "c = y mod 100"
  define d where "d = b div 4"
  define e where "e = b mod 4"
  define i where "i = c div 4"
  define k where "k = c mod 4"
  define h where "h = (19 * (y mod 19) + b - d - (b - (b + 8) div 25 + 1) div 3 + 15) mod 30"
  define X where "X = 32 + 2 * e + 2 * i - h - k"
  define m where "m = (y mod 19 + 11 * h + 22 * (X mod 7)) div 451"
  define s where "s = h + X mod 7 - 7 * m + 114"
  define l where "l = (if is_leap y then 1 else 0 :: int)"
  have "easter_month_day y = (s div 31, s mod 31 + 1)"
    unfolding easter_month_day_def Let_def b_def c_def d_def e_def i_def k_def h_def X_def m_def s_def
    by (rule refl)
  with md have eq: "month = s div 31" "day = s mod 31 + 1" by simp_all
  have sd: "s = 31 * month + day - 1" using eq mult_div_mod_eq [of 31 s] by simp
  have mm: "month = 3 \<or> month = 4" using easter_month_day_bounds [OF md] by auto
  have ord: "easter_sunday y = days_before_year y + l + s - 33"
    using mm sd by (auto simp: easter_sunday_def md ymd_def days_before_month_def Let_def l_def)
  have leap: "days_before_year y + l = 365 * y + y div 4 - y div 100 + y div 400 - 365"
    using days_before_year_Suc [of y] by (simp add: l_def days_before_year_def split: if_splits)
  have yb: "y = 100 * b + c" and c: "c = 4 * i + k" and bd: "b = 4 * d + e"
    by (simp_all add: b_def c_def i_def k_def d_def e_def)
  have rng: "0 \<le> c" "c < 100" "0 \<le> k" "k < 4" "0 \<le> e" "e < 4"
    by (simp_all add: c_def k_def e_def)
  have y4: "y div 4 = 25 * b + i"
    by (rule int_div_decomp [where r = k]) (use yb c rng in auto)
  have y400: "y div 400 = d"
    by (rule int_div_decomp [where r = "100 * e + c"]) (use yb bd rng in auto)
  define q where "q = X div 7"
  define r where "r = X mod 7"
  have X: "7 * q + r = 32 + 2 * e + 2 * i - h - k"
    unfolding q_def r_def mult_div_mod_eq X_def by (rule refl)
  have sr: "s = h + r - 7 * m + 114" by (simp add: s_def r_def)
  have "easter_sunday y = 365 * y + (25 * b + i) - b + d - 365 + s - 33"
    unfolding ord leap y4 y400 b_def by (rule refl)
  then have "easter_sunday y = 7 * (20871 * d + 5218 * e + 209 * i + 52 * k - 36 - q - m)"
    using X sr yb c bd by simp
  then show ?thesis unfolding weekday_def by (simp only: mod_mult_self4) simp
qed

text \<open>
  Every holiday lies in its nominal year, inside one of ten disjoint intervals of the
  year, and the intervals are at least four days apart, also across the year end.
\<close>

definition leap_day :: "int \<Rightarrow> int" where
  "leap_day y = (if is_leap y then 1 else 0)"

lemma leap_day_range: "0 \<le> leap_day y" "leap_day y \<le> 1"
  by (simp_all add: leap_day_def)

lemma days_before_year_next: "days_before_year (y + 1) = days_before_year y + 365 + leap_day y"
  by (simp add: days_before_year_Suc leap_day_def)

lemma ymd_offset:
  "ymd y 1 d = days_before_year y + d"
  "ymd y 2 d = days_before_year y + 31 + d"
  "ymd y 3 d = days_before_year y + 59 + leap_day y + d"
  "ymd y 4 d = days_before_year y + 90 + leap_day y + d"
  "ymd y 6 d = days_before_year y + 151 + leap_day y + d"
  "ymd y 7 d = days_before_year y + 181 + leap_day y + d"
  "ymd y 8 d = days_before_year y + 212 + leap_day y + d"
  "ymd y 9 d = days_before_year y + 243 + leap_day y + d"
  "ymd y 11 d = days_before_year y + 304 + leap_day y + d"
  "ymd y 12 d = days_before_year y + 334 + leap_day y + d"
  by (simp_all add: ymd_def days_before_month_def leap_day_def)

lemma easter_offset:
  "79 + leap_day y \<le> easter_sunday y - 2 - days_before_year y
   \<and> easter_sunday y - 2 - days_before_year y \<le> 113 + leap_day y"
proof -
  obtain month day where md: "easter_month_day y = (month, day)" by (cases "easter_month_day y")
  show ?thesis
    using easter_month_day_bounds [OF md] by (auto simp: easter_sunday_def md ymd_offset)
qed

definition in_slot :: "int \<Rightarrow> int \<Rightarrow> int \<Rightarrow> int \<Rightarrow> bool" where
  "in_slot y h lo hi \<longleftrightarrow> lo \<le> h - days_before_year y \<and> h - days_before_year y \<le> hi"

lemma in_slot_rules:
  "in_slot y (observed_new_year y) 1 2"
  "in_slot y (nth_weekday y 1 0 3) 15 21"
  "in_slot y (nth_weekday y 2 0 3) 46 52"
  "in_slot y (easter_sunday y - 2) (79 + leap_day y) (113 + leap_day y)"
  "in_slot y (last_weekday y 5 0) (145 + leap_day y) (151 + leap_day y)"
  "in_slot y (observed_fixed_holiday (ymd y 6 19)) (169 + leap_day y) (171 + leap_day y)"
  "in_slot y (observed_fixed_holiday (ymd y 7 4)) (184 + leap_day y) (186 + leap_day y)"
  "in_slot y (nth_weekday y 9 0 1) (244 + leap_day y) (250 + leap_day y)"
  "in_slot y (nth_weekday y 11 3 4) (326 + leap_day y) (332 + leap_day y)"
  "in_slot y (observed_fixed_holiday (ymd y 12 25)) (358 + leap_day y) (360 + leap_day y)"
proof -
  show "in_slot y (observed_new_year y) 1 2"
    by (simp add: in_slot_def observed_new_year_def ymd_offset Let_def)
  show "in_slot y (easter_sunday y - 2) (79 + leap_day y) (113 + leap_day y)"
    using easter_offset [of y] by (simp add: in_slot_def)
  show "in_slot y (nth_weekday y 1 0 3) 15 21"
    using nth_weekday_bounds [of y 1 3 0] by (simp add: in_slot_def ymd_offset)
  show "in_slot y (nth_weekday y 2 0 3) 46 52"
    using nth_weekday_bounds [of y 2 3 0] by (simp add: in_slot_def ymd_offset)
  show "in_slot y (nth_weekday y 9 0 1) (244 + leap_day y) (250 + leap_day y)"
    using nth_weekday_bounds [of y 9 1 0] by (simp add: in_slot_def ymd_offset)
  show "in_slot y (nth_weekday y 11 3 4) (326 + leap_day y) (332 + leap_day y)"
    using nth_weekday_bounds [of y 11 4 3] by (simp add: in_slot_def ymd_offset)
  show "in_slot y (last_weekday y 5 0) (145 + leap_day y) (151 + leap_day y)"
    using last_weekday_bounds [of 5 y 0] by (simp add: in_slot_def ymd_offset)
  have fixed: "in_slot y (observed_fixed_holiday d) (k - 1) (k + 1)" if "d = days_before_year y + k" for d k
    using observed_fixed_bounds [of d] unfolding that by (simp add: in_slot_def) linarith
  show "in_slot y (observed_fixed_holiday (ymd y 6 19)) (169 + leap_day y) (171 + leap_day y)"
    using fixed [of "ymd y 6 19" "170 + leap_day y"] ymd_offset by simp
  show "in_slot y (observed_fixed_holiday (ymd y 7 4)) (184 + leap_day y) (186 + leap_day y)"
    using fixed [of "ymd y 7 4" "185 + leap_day y"] ymd_offset by simp
  show "in_slot y (observed_fixed_holiday (ymd y 12 25)) (358 + leap_day y) (360 + leap_day y)"
    using fixed [of "ymd y 12 25" "359 + leap_day y"] ymd_offset by simp
qed

text \<open>
  Two different holidays of one nominal year lie in different slots, since a slot holds
  one rule's result; hence they are at least four days apart.
\<close>

definition ordered_holidays :: "int \<Rightarrow> int list" where
  "ordered_holidays y =
     [observed_new_year y, nth_weekday y 1 0 3, nth_weekday y 2 0 3, easter_sunday y - 2,
      last_weekday y 5 0, observed_fixed_holiday (ymd y 6 19), observed_fixed_holiday (ymd y 7 4),
      nth_weekday y 9 0 1, nth_weekday y 11 3 4, observed_fixed_holiday (ymd y 12 25)]"

lemma holidays_subset: "set (holidays_for_nominal_year y) \<subseteq> set (ordered_holidays y)"
  by (auto simp: holidays_for_nominal_year_def ordered_holidays_def split: if_splits)

lemma ordered_holidays_gap: "sorted_wrt (\<lambda>a b. a + 4 \<le> b) (ordered_holidays y)"
proof -
  have "transp (\<lambda>a b :: int. a + 4 \<le> b)" by (rule transpI) simp
  moreover have "successively (\<lambda>a b. a + 4 \<le> b) (ordered_holidays y)"
    using in_slot_rules [of y, unfolded in_slot_def] leap_day_range [of y]
    unfolding ordered_holidays_def by (simp; intro conjI; linarith)
  ultimately show ?thesis by (simp add: successively_conv_sorted_wrt)
qed

lemma sorted_wrt_gap:
  fixes xs :: "int list"
  assumes "sorted_wrt (\<lambda>a b. a + 4 \<le> b) xs" and "h \<in> set xs" "h' \<in> set xs" "h < h'"
  shows "h + 4 \<le> h'"
  using assms by (induction xs) force+

lemma holidays_apart:
  "h \<in> set (holidays_for_nominal_year y) \<Longrightarrow> h' \<in> set (holidays_for_nominal_year y) \<Longrightarrow> h < h' \<Longrightarrow> h + 4 \<le> h'"
  using sorted_wrt_gap [OF ordered_holidays_gap] holidays_subset by blast

definition off_summer :: "int \<Rightarrow> int \<Rightarrow> bool" where
  "off_summer y k \<longleftrightarrow> 1 \<le> k \<and> k \<le> 360 + leap_day y \<and> (k \<le> 186 + leap_day y \<or> 244 + leap_day y \<le> k)"

lemma off_summer_slot:
  "in_slot y h lo hi \<Longrightarrow> 1 \<le> lo \<Longrightarrow> hi \<le> 360 + leap_day y \<Longrightarrow>
   hi \<le> 186 + leap_day y \<or> 244 + leap_day y \<le> lo \<Longrightarrow> off_summer y (h - days_before_year y)"
  by (auto simp: off_summer_def in_slot_def)

lemma holiday_in_year:
  assumes "h \<in> set (holidays_for_nominal_year y)"
  shows "off_summer y (h - days_before_year y)"
proof -
  have "\<forall>x \<in> set (ordered_holidays y). off_summer y (x - days_before_year y)"
    unfolding ordered_holidays_def list.set ball_simps
    using leap_day_range [of y] by (intro conjI TrueI in_slot_rules [THEN off_summer_slot]) linarith+
  with assms holidays_subset show ?thesis by blast
qed

lemma holiday_year:
  assumes "h \<in> set (holidays_for_nominal_year y)"
  shows "days_before_year y < h" and "h \<le> days_before_year (y + 1) - 5"
  using holiday_in_year [OF assms] days_before_year_next [of y] by (auto simp: off_summer_def)

lemma holidays_apart_any:
  assumes "h \<in> set (holidays_for_nominal_year y)" and "h' \<in> set (holidays_for_nominal_year y')"
    and "h < h'"
  shows "h + 4 \<le> h'"
proof -
  consider "y = y'" | "y < y'" | "y' < y" by linarith
  then show ?thesis
  proof cases
    case 1
    with assms holidays_apart show ?thesis by blast
  next
    case 2
    then have "days_before_year (y + 1) \<le> days_before_year y'" by (intro days_before_year_mono) simp
    with holiday_year [OF assms(1)] holiday_year [OF assms(2)] show ?thesis by linarith
  next
    case 3
    then have "days_before_year (y' + 1) \<le> days_before_year y" by (intro days_before_year_mono) simp
    with holiday_year [OF assms(1)] holiday_year [OF assms(2)] assms(3) show ?thesis by linarith
  qed
qed

text \<open>The holidays that \<open>is_trading_day\<close> consults are exactly those of the date's own year.\<close>

lemma holidays_around_iff:
  "d \<in> set (holidays_around (year_of d)) \<longleftrightarrow> d \<in> set (holidays_for_nominal_year (year_of d))"
proof -
  have "d \<notin> set (holidays_for_nominal_year y)" if "y \<noteq> year_of d" for y
  proof
    assume "d \<in> set (holidays_for_nominal_year y)"
    from holiday_year [OF this] have "year_of d = y" by (intro year_of_unique) linarith+
    with that show False by simp
  qed
  then show ?thesis by (auto simp: holidays_around_def)
qed

end
