(* ===== verification/Market_Calendar.thy ===== *)
theory Market_Calendar
  imports Calendar_Holidays
begin

section \<open>Sessions of the market calendar (\<^verbatim>\<open>market_calendar.py\<close>)\<close>

text \<open>
  Trading-day arithmetic, the RTH session of a trading day, the CME Globex and Cboe GTH
  schedules, the SPX session window, the post-close quiet window and the expiry roll.
  Every wall-clock argument is an ET wall time; \<open>as_et\<close> is the conversion at the
  boundary, with the time-zone database as the parameter \<open>et\<close> (the ET wall clock of a
  UTC instant). Two ET datetimes share their tzinfo, so Python compares and subtracts
  their wall clocks, as the model does.
\<close>

abbreviation rth_open_time :: int where "rth_open_time \<equiv> hhmm 9 30"
abbreviation rth_close_time :: int where "rth_close_time \<equiv> hhmm 16 0"
abbreviation early_close_time :: int where "early_close_time \<equiv> hhmm 13 0"
abbreviation review_ready_time :: int where "review_ready_time \<equiv> hhmm 17 0"
abbreviation globex_open_time :: int where "globex_open_time \<equiv> hhmm 18 0"
abbreviation globex_maintenance_time :: int where "globex_maintenance_time \<equiv> hhmm 17 0"
abbreviation spx_gth_open_time :: int where "spx_gth_open_time \<equiv> hhmm 20 15"
abbreviation spx_gth_close_time :: int where "spx_gth_close_time \<equiv> hhmm 9 25"

record market_session =
  ms_trading_date :: int
  ms_open_at :: int
  ms_close_at :: int
  ms_review_ready_at :: int
  ms_early_close :: bool

definition expected_five_minute_buckets :: "market_session \<Rightarrow> int" where
  "expected_five_minute_buckets s = (ms_close_at s - ms_open_at s) div (5 * 60 * us_per_second)"

record spx_session_window =
  sw_trading_date :: int
  sw_session_start :: int
  sw_gth_end :: int
  sw_rth_open :: int
  sw_session_end :: int

datatype segment = Gth | ClosedGap | Rth

definition segment_at :: "spx_session_window \<Rightarrow> int \<Rightarrow> segment option" where
  "segment_at w moment =
     (if sw_session_start w \<le> moment \<and> moment < sw_gth_end w then Some Gth
      else if sw_gth_end w \<le> moment \<and> moment < sw_rth_open w then Some ClosedGap
      else if sw_rth_open w \<le> moment \<and> moment \<le> sw_session_end w then Some Rth
      else None)"


subsection \<open>There is always another trading day\<close>

lemma august_weekday_trading:
  assumes "weekday n < 5" and "n \<notin> set (full_day_closures c)"
    and "ymd y 8 1 \<le> n" and "n \<le> ymd y 8 7"
  shows "is_trading_day c n"
proof -
  have k: "212 + leap_day y < n - days_before_year y" "n - days_before_year y \<le> 219 + leap_day y"
    using assms(3,4) by (simp_all add: ymd_offset)
  have "year_of n = y"
    using k leap_day_range [of y] days_before_year_next [of y] by (intro year_of_unique) linarith+
  moreover have "n \<notin> set (holidays_for_nominal_year y)"
    using holiday_in_year [of n y] k by (auto simp: off_summer_def)
  ultimately show ?thesis
    using assms(1,2) holidays_around_iff [of n] by (simp add: is_trading_day_def)
qed

lemma some_weekday_in_week: "\<exists>k. 0 \<le> k \<and> k \<le> 6 \<and> weekday (n + k) = 0"
proof (intro exI conjI)
  let ?k = "(7 - weekday n) mod 7"
  show "0 \<le> ?k" "?k \<le> 6" using pos_mod_bound [of 7 "7 - weekday n"] by simp_all
  show "weekday (n + ?k) = 0" by (simp add: weekday_add_mod mod_add_right_eq)
qed

lemma august_trading_day:
  assumes "\<forall>x \<in> set (full_day_closures c). x \<notin> {ymd y 8 1 .. ymd y 8 7}"
  shows "\<exists>n. ymd y 8 1 \<le> n \<and> n \<le> ymd y 8 7 \<and> is_trading_day c n"
proof -
  obtain k where k: "0 \<le> k" "k \<le> 6" "weekday (ymd y 8 1 + k) = 0"
    using some_weekday_in_week by blast
  have "is_trading_day c (ymd y 8 1 + k)"
    using k assms by (intro august_weekday_trading [where y = y]) (auto simp: ymd_offset)
  with k show ?thesis by (intro exI [of _ "ymd y 8 1 + k"]) (simp add: ymd_offset)
qed

lemma days_before_year_linear: "365 * (y - 1) \<le> days_before_year y" if "1 \<le> y"
proof -
  have "(y - 1) div 100 \<le> (y - 1) div 4" using that by (intro zdiv_mono2) auto
  moreover have "0 \<le> (y - 1) div 400" using that by (simp add: pos_imp_zdiv_nonneg_iff)
  ultimately show ?thesis by (simp add: days_before_year_def)
qed

lemma days_before_year_down: "days_before_year (- int k) + 365 * int k \<le> days_before_year 0"
proof (induction k)
  case (Suc k)
  have "days_before_year (- int (Suc k)) + 365 \<le> days_before_year (- int k)"
    by (rule days_before_year_less) simp
  with Suc show ?case by simp
qed simp

lemma year_beyond: "\<exists>y. M < ymd y 8 1" "\<exists>y. ymd y 8 7 < M"
proof -
  have "days_before_year (\<bar>M\<bar> + 1) \<ge> \<bar>M\<bar>"
    using days_before_year_linear [of "\<bar>M\<bar> + 1"] by simp
  then show "\<exists>y. M < ymd y 8 1"
    using leap_day_range [of "\<bar>M\<bar> + 1"] by (intro exI [of _ "\<bar>M\<bar> + 1"]) (simp add: ymd_offset)
  define k where "k = nat (\<bar>M\<bar> + 1)"
  have k: "int k = \<bar>M\<bar> + 1" by (simp add: k_def)
  have "days_before_year (- int k) + 365 * int k \<le> - 366"
    using days_before_year_down [of k] by (simp add: days_before_year_def [of 0])
  then have "ymd (- int k) 8 7 < M"
    using k leap_day_range [of "- int k"] by (simp add: ymd_offset)
  then show "\<exists>y. ymd y 8 7 < M" by blast
qed

lemma trading_day_after: "\<exists>n. d < n \<and> is_trading_day c n"
proof -
  obtain M where M: "\<forall>x \<in> set (d # full_day_closures c). x \<le> M"
    by (meson Max_ge finite_set)
  obtain y where y: "M < ymd y 8 1" using year_beyond(1) by blast
  have "\<forall>x \<in> set (full_day_closures c). x \<notin> {ymd y 8 1 .. ymd y 8 7}"
    using M y by fastforce
  from august_trading_day [OF this] obtain n where n: "ymd y 8 1 \<le> n" "is_trading_day c n" by blast
  moreover have "d \<le> M" using M by simp
  ultimately show ?thesis using y by (intro exI [of _ n]) simp
qed

lemma trading_day_before: "\<exists>n. n < d \<and> is_trading_day c n"
proof -
  obtain M where M: "\<forall>x \<in> set (d # full_day_closures c). M \<le> x"
    by (meson Min_le finite_set)
  obtain y where y: "ymd y 8 7 < M" using year_beyond(2) by blast
  have "\<forall>x \<in> set (full_day_closures c). x \<notin> {ymd y 8 1 .. ymd y 8 7}"
    using M y by fastforce
  from august_trading_day [OF this] obtain n where n: "n \<le> ymd y 8 7" "is_trading_day c n" by blast
  moreover have "M \<le> d" using M by simp
  ultimately show ?thesis using y by (intro exI [of _ n]) simp
qed

subsection \<open>Trading-day arithmetic\<close>

text \<open>
  The loops \<^verbatim>\<open>while not self.is_trading_day(candidate)\<close>. They stop for every calendar,
  since only finitely many days are closed explicitly and every August has trading days.
\<close>

function scan_forward :: "market_calendar \<Rightarrow> int \<Rightarrow> int" where
  "scan_forward c candidate =
     (if is_trading_day c candidate then candidate else scan_forward c (candidate + 1))"
  by pat_completeness auto

lemma least_forward_decreases:
  assumes "\<not> is_trading_day c d"
  shows "(LEAST k. is_trading_day c (d + 1 + int k)) < (LEAST k. is_trading_day c (d + int k))"
proof -
  obtain n where "d < n" "is_trading_day c n" using trading_day_after by blast
  then have "is_trading_day c (d + int (nat (n - d)))" by simp
  from LeastI [of "\<lambda>k. is_trading_day c (d + int k)", OF this]
  have t: "is_trading_day c (d + int (LEAST k. is_trading_day c (d + int k)))" (is "is_trading_day c (d + int ?L)") .
  with assms obtain j where j: "?L = Suc j" by (cases ?L) auto
  have "is_trading_day c (d + 1 + int j)" using t j by (simp add: algebra_simps)
  then have "(LEAST k. is_trading_day c (d + 1 + int k)) \<le> j" by (rule Least_le)
  with j show ?thesis by simp
qed

termination scan_forward
  by (relation "measure (\<lambda>(c, d). LEAST k. is_trading_day c (d + int k))")
    (simp_all add: least_forward_decreases)

function scan_backward :: "market_calendar \<Rightarrow> int \<Rightarrow> int" where
  "scan_backward c candidate =
     (if is_trading_day c candidate then candidate else scan_backward c (candidate - 1))"
  by pat_completeness auto

lemma least_backward_decreases:
  assumes "\<not> is_trading_day c d"
  shows "(LEAST k. is_trading_day c (d - 1 - int k)) < (LEAST k. is_trading_day c (d - int k))"
proof -
  obtain n where "n < d" "is_trading_day c n" using trading_day_before by blast
  then have "is_trading_day c (d - int (nat (d - n)))" by simp
  from LeastI [of "\<lambda>k. is_trading_day c (d - int k)", OF this]
  have t: "is_trading_day c (d - int (LEAST k. is_trading_day c (d - int k)))" (is "is_trading_day c (d - int ?L)") .
  with assms obtain j where j: "?L = Suc j" by (cases ?L) auto
  have "is_trading_day c (d - 1 - int j)" using t j by (simp add: algebra_simps)
  then have "(LEAST k. is_trading_day c (d - 1 - int k)) \<le> j" by (rule Least_le)
  with j show ?thesis by simp
qed

termination scan_backward
  by (relation "measure (\<lambda>(c, d). LEAST k. is_trading_day c (d - int k))")
    (simp_all add: least_backward_decreases)

declare scan_forward.simps [simp del] scan_backward.simps [simp del]

definition next_trading_day :: "market_calendar \<Rightarrow> int \<Rightarrow> int" where
  "next_trading_day c day = scan_forward c (day + 1)"

definition previous_trading_day :: "market_calendar \<Rightarrow> int \<Rightarrow> int" where
  "previous_trading_day c day = scan_backward c (day - 1)"

lemma scan_forward_spec:
  "is_trading_day c (scan_forward c d) \<and> d \<le> scan_forward c d
   \<and> (\<forall>x. d \<le> x \<longrightarrow> x < scan_forward c d \<longrightarrow> \<not> is_trading_day c x)"
proof (induction c d rule: scan_forward.induct)
  case (1 c d)
  show ?case
  proof (cases "is_trading_day c d")
    case True
    then show ?thesis by (simp add: scan_forward.simps [of c d])
  next
    case False
    with 1 have IH: "is_trading_day c (scan_forward c (d + 1))" "d + 1 \<le> scan_forward c (d + 1)"
      "\<forall>x. d + 1 \<le> x \<longrightarrow> x < scan_forward c (d + 1) \<longrightarrow> \<not> is_trading_day c x" by blast+
    have "\<not> is_trading_day c x" if "d \<le> x" "x < scan_forward c (d + 1)" for x
      using IH(3) that False by (cases "x = d") auto
    with IH False show ?thesis by (simp add: scan_forward.simps [of c d])
  qed
qed

lemma scan_backward_spec:
  "is_trading_day c (scan_backward c d) \<and> scan_backward c d \<le> d
   \<and> (\<forall>x. scan_backward c d < x \<longrightarrow> x \<le> d \<longrightarrow> \<not> is_trading_day c x)"
proof (induction c d rule: scan_backward.induct)
  case (1 c d)
  show ?case
  proof (cases "is_trading_day c d")
    case True
    then show ?thesis by (simp add: scan_backward.simps [of c d])
  next
    case False
    with 1 have IH: "is_trading_day c (scan_backward c (d - 1))" "scan_backward c (d - 1) \<le> d - 1"
      "\<forall>x. scan_backward c (d - 1) < x \<longrightarrow> x \<le> d - 1 \<longrightarrow> \<not> is_trading_day c x" by blast+
    have "\<not> is_trading_day c x" if "scan_backward c (d - 1) < x" "x \<le> d" for x
      using IH(3) that False by (cases "x = d") auto
    with IH False show ?thesis by (simp add: scan_backward.simps [of c d])
  qed
qed

lemma scan_backward_ge: "is_trading_day c x \<Longrightarrow> x \<le> d \<Longrightarrow> x \<le> scan_backward c d"
  using scan_backward_spec [of c d] not_le by blast

lemma scan_forward_le: "is_trading_day c x \<Longrightarrow> d \<le> x \<Longrightarrow> scan_forward c d \<le> x"
  using scan_forward_spec [of c d] not_le by blast

lemma next_trading_day_props:
  "is_trading_day c (next_trading_day c d)" "d < next_trading_day c d"
  "d < x \<Longrightarrow> x < next_trading_day c d \<Longrightarrow> \<not> is_trading_day c x"
  using scan_forward_spec [of c "d + 1"] by (auto simp: next_trading_day_def)

lemma next_trading_day_le: "is_trading_day c x \<Longrightarrow> d < x \<Longrightarrow> next_trading_day c d \<le> x"
  using next_trading_day_props(3) [of d x c] by linarith

lemma previous_trading_day_props:
  "is_trading_day c (previous_trading_day c d)" "previous_trading_day c d < d"
  "previous_trading_day c d < x \<Longrightarrow> x < d \<Longrightarrow> \<not> is_trading_day c x"
  using scan_backward_spec [of c "d - 1"] by (auto simp: previous_trading_day_def)

text \<open>The loop of \<open>trading_days_elapsed\<close>: \<open>current\<close> moves to later trading days up to \<open>end\<close>.\<close>

function elapsed_loop :: "market_calendar \<Rightarrow> int \<Rightarrow> int \<Rightarrow> int \<Rightarrow> int" where
  "elapsed_loop c fin current elapsed =
     (if current < fin then
        (let candidate = next_trading_day c current in
         if candidate > fin then elapsed else elapsed_loop c fin candidate (elapsed + 1))
      else elapsed)"
  by pat_completeness auto
termination
  by (relation "measure (\<lambda>(c, fin, current, elapsed). nat (fin - current))")
    (auto simp: next_trading_day_props)

declare elapsed_loop.simps [simp del]

definition trading_days_elapsed :: "market_calendar \<Rightarrow> int \<Rightarrow> int \<Rightarrow> int option" where
  "trading_days_elapsed c start fin =
     (if fin < start then None else Some (elapsed_loop c fin start 0))"

subsection \<open>Sessions\<close>

definition is_scheduled_early_close :: "int \<Rightarrow> bool" where
  "is_scheduled_early_close day =
     (let thanksgiving = nth_weekday (year_of day) 11 3 4 in
      if day = thanksgiving + 1 then True
      else if month_of day = 7 \<and> day_of day = 3 then True
      else month_of day = 12 \<and> day_of day = 24)"

definition close_time_of :: "market_calendar \<Rightarrow> int \<Rightarrow> int" where
  "close_time_of c day =
     (case early_closes c day of
        Some t \<Rightarrow> t
      | None \<Rightarrow> if is_scheduled_early_close day then early_close_time else rth_close_time)"

definition session :: "market_calendar \<Rightarrow> int \<Rightarrow> market_session option" where
  "session c day =
     (if \<not> is_trading_day c day then None
      else let close_time = close_time_of c day in
        Some \<lparr>ms_trading_date = day,
              ms_open_at = combine day rth_open_time,
              ms_close_at = combine day close_time,
              ms_review_ready_at = combine day review_ready_time,
              ms_early_close = (close_time \<noteq> rth_close_time)\<rparr>)"

text \<open>
  The conversion \<open>_as_et\<close>: a naive datetime raises, an aware one is read on the ET wall
  clock through the time-zone database \<open>et\<close>.
\<close>

definition as_et :: "(int \<Rightarrow> int) \<Rightarrow> pydt \<Rightarrow> int res" where
  "as_et et value =
     (if dt_aware value then Inr (et (dt_instant value))
      else Inl (ValueError ''market calendar datetimes must be timezone-aware''))"

definition is_rth_open :: "market_calendar \<Rightarrow> int \<Rightarrow> bool" where
  "is_rth_open c current =
     (case session c (date_of current) of
        None \<Rightarrow> False
      | Some s \<Rightarrow> ms_open_at s \<le> current \<and> current < ms_close_at s)"

definition is_globex_open :: "int \<Rightarrow> bool" where
  "is_globex_open current =
     (let wd = weekday (date_of current); current_time = time_of current in
      if wd = 5 then False
      else if wd = 6 then current_time \<ge> globex_open_time
      else if wd = 4 then current_time < globex_maintenance_time
      else current_time < globex_maintenance_time \<or> current_time \<ge> globex_open_time)"

definition is_spx_gth_open :: "market_calendar \<Rightarrow> int \<Rightarrow> bool" where
  "is_spx_gth_open c current =
     (if time_of current < spx_gth_close_time then is_trading_day c (date_of current)
      else if time_of current \<ge> spx_gth_open_time then is_trading_day c (date_of current + 1)
      else False)"

definition spx_session_window_for :: "market_calendar \<Rightarrow> int \<Rightarrow> spx_session_window option" where
  "spx_session_window_for c day =
     (case session c day of
        None \<Rightarrow> None
      | Some s \<Rightarrow>
          Some \<lparr>sw_trading_date = day,
                sw_session_start = combine (day - 1) spx_gth_open_time,
                sw_gth_end = combine day spx_gth_close_time,
                sw_rth_open = ms_open_at s,
                sw_session_end = ms_close_at s\<rparr>)"

text \<open>The loop \<^verbatim>\<open>for _ in range(15)\<close> over the preceding days.\<close>

fun retained_scan :: "market_calendar \<Rightarrow> int \<Rightarrow> nat \<Rightarrow> int \<Rightarrow> int option" where
  "retained_scan c current 0 candidate_day = None"
| "retained_scan c current (Suc n) candidate_day =
     (if is_trading_day c candidate_day then
        (case spx_session_window_for c candidate_day of
           Some retained \<Rightarrow>
             if current \<ge> sw_session_start retained then Some (sw_trading_date retained)
             else retained_scan c current n (candidate_day - 1)
         | None \<Rightarrow> retained_scan c current n (candidate_day - 1))
      else retained_scan c current n (candidate_day - 1))"

definition spx_session_date_for :: "market_calendar \<Rightarrow> int \<Rightarrow> bool \<Rightarrow> int option" where
  "spx_session_date_for c current retain_completed =
     (let retained = (if retain_completed then retained_scan c current 15 (date_of current) else None) in
      if time_of current \<ge> spx_gth_open_time then
        (let candidate = next_trading_day c (date_of current) in
         case spx_session_window_for c candidate of
           Some w \<Rightarrow>
             if sw_session_start w \<le> current \<and> current < sw_gth_end w then Some candidate else retained
         | None \<Rightarrow> retained)
      else
        (case spx_session_window_for c (date_of current) of
           Some w \<Rightarrow>
             if sw_session_start w \<le> current \<and> current \<le> sw_session_end w
             then Some (sw_trading_date w) else retained
         | None \<Rightarrow> retained))"

definition is_post_rth_pre_gth_quiet :: "market_calendar \<Rightarrow> int \<Rightarrow> bool" where
  "is_post_rth_pre_gth_quiet c current =
     (case spx_session_date_for c current True of
        None \<Rightarrow> False
      | Some completed_day \<Rightarrow>
          (case session c completed_day of
             None \<Rightarrow> False
           | Some completed \<Rightarrow>
               if current < ms_close_at completed then False
               else
                 (case spx_session_window_for c (next_trading_day c completed_day) of
                    None \<Rightarrow> False
                  | Some next_window \<Rightarrow> current < sw_session_start next_window)))"

subsection \<open>Expiries and review dates\<close>

definition research_expiry :: "market_calendar \<Rightarrow> int \<Rightarrow> int" where
  "research_expiry c current =
     (let day = date_of current in
      if is_trading_day c day \<and> time_of current < review_ready_time then day
      else if is_trading_day c day then next_trading_day c day
      else scan_forward c day)"

definition research_expiries :: "market_calendar \<Rightarrow> int \<Rightarrow> int \<times> int" where
  "research_expiries c current =
     (let expiry = research_expiry c current in (expiry, next_trading_day c expiry))"

definition option_collection_expiry :: "market_calendar \<Rightarrow> int \<Rightarrow> int" where
  "option_collection_expiry c current =
     (case session c (date_of current) of
        Some s \<Rightarrow>
          if ms_close_at s \<le> current \<and> current < ms_review_ready_at s
          then next_trading_day c (ms_trading_date s)
          else research_expiry c current
      | None \<Rightarrow> research_expiry c current)"

definition option_collection_expiries :: "market_calendar \<Rightarrow> int \<Rightarrow> int \<times> int" where
  "option_collection_expiries c current =
     (let expiry = option_collection_expiry c current in (expiry, next_trading_day c expiry))"

definition is_next_expiry_prefetch_window :: "market_calendar \<Rightarrow> int \<Rightarrow> bool" where
  "is_next_expiry_prefetch_window c current =
     (case session c (date_of current) of
        None \<Rightarrow> False
      | Some s \<Rightarrow> ms_close_at s - 30 * 60 * us_per_second \<le> current \<and> current < ms_review_ready_at s)"

definition completed_review_date :: "market_calendar \<Rightarrow> int \<Rightarrow> int" where
  "completed_review_date c current =
     (let day = date_of current in
      if is_trading_day c day \<and> time_of current \<ge> review_ready_time then day
      else previous_trading_day c day)"

text \<open>\<^verbatim>\<open>default_spxw_expiry(today, now)\<close>; \<open>wall_now\<close> is the clock read when neither is given.\<close>

definition default_spxw_expiry :: "(int \<Rightarrow> int) \<Rightarrow> int \<Rightarrow> int option \<Rightarrow> pydt option \<Rightarrow> string res" where
  "default_spxw_expiry et wall_now today now =
     (case today of
        Some d \<Rightarrow> Inr (strftime_ymd (scan_forward default_market_calendar d))
      | None \<Rightarrow>
          (case now of
             None \<Rightarrow> Inr (strftime_ymd (research_expiry default_market_calendar wall_now))
           | Some n \<Rightarrow> rbind (as_et et n) (\<lambda>current.
               Inr (strftime_ymd (research_expiry default_market_calendar current)))))"

text \<open>The public methods take any datetime: each reads the ET clock first.\<close>

definition at_et :: "(int \<Rightarrow> int) \<Rightarrow> (int \<Rightarrow> 'a) \<Rightarrow> pydt \<Rightarrow> 'a res" where
  "at_et et f now = rbind (as_et et now) (\<lambda>current. Inr (f current))"

subsection \<open>The trading-day interface\<close>

text \<open>
  What clients of the calendar rely on: a predicate on days and a function to the least
  later day that satisfies it. Monotonicity and the count of days in between follow once
  for every implementation.
\<close>

locale trading_calendar =
  fixes trading :: "int \<Rightarrow> bool" and succ :: "int \<Rightarrow> int"
  assumes succ_trading: "trading (succ d)"
    and succ_gt: "d < succ d"
    and succ_least: "trading x \<Longrightarrow> d < x \<Longrightarrow> succ d \<le> x"
begin

lemma succ_mono: "d \<le> d' \<Longrightarrow> succ d \<le> succ d'"
  using succ_least [OF succ_trading, of d d'] succ_gt [of d'] by linarith

lemma succ_eqI: "trading x \<Longrightarrow> d < x \<Longrightarrow> (\<And>y. d < y \<Longrightarrow> y < x \<Longrightarrow> \<not> trading y) \<Longrightarrow> succ d = x"
  using succ_least [of x d] succ_trading [of d] succ_gt [of d] by fastforce

lemma between_empty: "fin < succ d \<Longrightarrow> {x. d < x \<and> x \<le> fin \<and> trading x} = {}"
  using succ_least by fastforce

lemma between_step:
  assumes "succ d \<le> fin"
  shows "card {x. d < x \<and> x \<le> fin \<and> trading x} = card {x. succ d < x \<and> x \<le> fin \<and> trading x} + 1"
proof -
  have "{x. d < x \<and> x \<le> fin \<and> trading x} = insert (succ d) {x. succ d < x \<and> x \<le> fin \<and> trading x}"
    using assms succ_gt [of d] succ_trading [of d] by (auto dest: succ_least [of _ d])
  moreover have "finite {x. succ d < x \<and> x \<le> fin \<and> trading x}"
    by (rule finite_subset [of _ "{succ d .. fin}"]) auto
  ultimately show ?thesis by simp
qed

end

interpretation cal: trading_calendar "is_trading_day c" "next_trading_day c" for c
  by unfold_locales (auto simp: next_trading_day_props intro: next_trading_day_le)

lemma elapsed_loop_count:
  "elapsed_loop c fin current elapsed =
     elapsed + int (card {x. current < x \<and> x \<le> fin \<and> is_trading_day c x})"
proof (induction c fin current elapsed rule: elapsed_loop.induct)
  case (1 c fin current elapsed)
  consider "fin \<le> current" | "current < fin" "fin < next_trading_day c current"
    | "current < fin" "next_trading_day c current \<le> fin" by linarith
  then show ?case
  proof cases
    case 1
    then have "{x. current < x \<and> x \<le> fin \<and> is_trading_day c x} = {}" by auto
    then have "card {x. current < x \<and> x \<le> fin \<and> is_trading_day c x} = 0" by (simp only: card.empty)
    with 1 show ?thesis by (simp add: elapsed_loop.simps [of c fin current])
  next
    case 2
    then have "card {x. current < x \<and> x \<le> fin \<and> is_trading_day c x} = 0"
      by (simp only: cal.between_empty card.empty)
    with 2 show ?thesis by (simp add: elapsed_loop.simps [of c fin current])
  next
    case 3
    with "1.IH" have "elapsed_loop c fin (next_trading_day c current) (elapsed + 1) =
        elapsed + 1 + int (card {x. next_trading_day c current < x \<and> x \<le> fin \<and> is_trading_day c x})"
      by simp
    with 3 cal.between_step [of c current fin] show ?thesis
      by (simp add: elapsed_loop.simps [of c fin current])
  qed
qed

lemma next_of_scan_backward:
  assumes "\<not> is_trading_day c d"
  shows "d < next_trading_day c (scan_backward c d)"
proof (rule ccontr)
  assume "\<not> d < next_trading_day c (scan_backward c d)"
  moreover have "scan_backward c d < next_trading_day c (scan_backward c d)"
    by (rule next_trading_day_props)
  ultimately show False
    using scan_backward_spec [of c d] next_trading_day_props(1) [of c "scan_backward c d"] by force
qed

subsection \<open>Four consecutive days always hold a session\<close>

lemma default_not_trading:
  "\<not> is_trading_day default_market_calendar d \<longleftrightarrow>
     5 \<le> weekday d \<or> d \<in> set (holidays_for_nominal_year (year_of d))"
  using holidays_around_iff [of d] by (simp add: is_trading_day_def default_market_calendar_def)

lemma default_two_weekdays:
  assumes "weekday a < 5" "weekday b < 5" "a < b" "b < a + 4"
  shows "is_trading_day default_market_calendar a \<or> is_trading_day default_market_calendar b"
proof (rule ccontr)
  assume "\<not> ?thesis"
  with assms(1,2) have "a \<in> set (holidays_for_nominal_year (year_of a))"
    "b \<in> set (holidays_for_nominal_year (year_of b))"
    by (auto simp: default_not_trading)
  from holidays_apart_any [OF this assms(3)] assms(4) show False by simp
qed

lemma default_four_days:
  "\<exists>k. 0 \<le> k \<and> k \<le> 3 \<and> is_trading_day default_market_calendar (d + k)"
proof -
  define w where "w = weekday d"
  have w: "weekday (d + k) = (w + k) mod 7" for k by (simp add: w_def weekday_add_mod)
  have w0: "weekday d = w" by (simp add: w_def)
  have "0 \<le> w" "w < 7" by (simp_all add: w_def)
  then consider "w \<in> {0, 1, 2, 3}" | "w = 4" | "w = 5" | "w = 6" by fastforce
  then show ?thesis
  proof cases
    case 1
    then have "weekday (d + 0) < 5" "weekday (d + 1) < 5" unfolding w by auto
    from default_two_weekdays [OF this] show ?thesis
      by (auto intro: exI [of _ 0] exI [of _ 1])
  next
    case 2
    then have "weekday (d + 0) < 5" "weekday (d + 3) < 5" unfolding w by simp_all
    from default_two_weekdays [OF this] show ?thesis
      by (auto intro: exI [of _ 0] exI [of _ 3])
  next
    case 3
    then have "weekday (d + 2) < 5" "weekday (d + 3) < 5" unfolding w by simp_all
    from default_two_weekdays [OF this] show ?thesis
      by (auto intro: exI [of _ 2] exI [of _ 3])
  next
    case 4
    then have "weekday (d + 1) < 5" "weekday (d + 2) < 5" unfolding w by simp_all
    from default_two_weekdays [OF this] show ?thesis
      by (auto intro: exI [of _ 1] exI [of _ 2])
  qed
qed

lemma default_next_gap: "next_trading_day default_market_calendar d \<le> d + 4"
proof -
  obtain k where "0 \<le> k" "k \<le> 3" "is_trading_day default_market_calendar (d + 1 + k)"
    using default_four_days [of "d + 1"] by blast
  then show ?thesis using next_trading_day_le [of default_market_calendar "d + 1 + k" d] by simp
qed

lemma default_back_gap: "d - 3 \<le> scan_backward default_market_calendar d"
proof -
  obtain k where "0 \<le> k" "k \<le> 3" "is_trading_day default_market_calendar (d - 3 + k)"
    using default_four_days [of "d - 3"] by blast
  then have "d - 3 + k \<le> scan_backward default_market_calendar d" by (intro scan_backward_ge) simp_all
  with \<open>0 \<le> k\<close> show ?thesis by linarith
qed

subsection \<open>Session windows\<close>

text \<open>
  A calendar is well formed when each explicit early close lies after the open and not
  after the regular close. The default calendar has no exceptions.
\<close>

definition calendar_ok :: "market_calendar \<Rightarrow> bool" where
  "calendar_ok c \<longleftrightarrow> (\<forall>d t. early_closes c d = Some t \<longrightarrow> rth_open_time < t \<and> t \<le> rth_close_time)"

lemma default_calendar_ok [simp]: "calendar_ok default_market_calendar"
  by (simp add: calendar_ok_def default_market_calendar_def)

lemma close_time_bounds:
  assumes "calendar_ok c"
  shows "rth_open_time < close_time_of c d" "close_time_of c d \<le> rth_close_time"
  using assms by (auto simp: calendar_ok_def close_time_of_def hhmm_def split: option.splits)

lemma close_time_range:
  assumes "calendar_ok c"
  shows "0 \<le> close_time_of c d" "close_time_of c d < us_per_day"
  using close_time_bounds [OF assms, of d] by (auto simp: hhmm_def)

abbreviation session_start :: "int \<Rightarrow> int" where
  "session_start day \<equiv> combine (day - 1) spx_gth_open_time"

abbreviation session_close :: "market_calendar \<Rightarrow> int \<Rightarrow> int" where
  "session_close c day \<equiv> combine day (close_time_of c day)"

lemma window_iff:
  "spx_session_window_for c day = Some w \<longleftrightarrow>
     is_trading_day c day \<and>
     w = \<lparr>sw_trading_date = day, sw_session_start = session_start day,
          sw_gth_end = combine day spx_gth_close_time, sw_rth_open = combine day rth_open_time,
          sw_session_end = session_close c day\<rparr>"
  by (auto simp: spx_session_window_for_def session_def Let_def)

lemma window_trading:
  "is_trading_day c day \<Longrightarrow>
   spx_session_window_for c day =
     Some \<lparr>sw_trading_date = day, sw_session_start = session_start day,
          sw_gth_end = combine day spx_gth_close_time, sw_rth_open = combine day rth_open_time,
          sw_session_end = session_close c day\<rparr>"
  by (simp add: window_iff)

lemma window_closed: "\<not> is_trading_day c day \<Longrightarrow> spx_session_window_for c day = None"
  by (simp add: spx_session_window_for_def session_def)

lemma start_le_iff:
  "session_start day \<le> w \<longleftrightarrow> day \<le> date_of w \<or> day = date_of w + 1 \<and> spx_gth_open_time \<le> time_of w"
  using combine_le_iff [of spx_gth_open_time "day - 1" w] by (auto simp: hhmm_def)

lemma less_start_iff:
  "w < session_start day \<longleftrightarrow> date_of w + 1 < day \<or> day = date_of w + 1 \<and> time_of w < spx_gth_open_time"
  using start_le_iff [of day w] by auto

lemma start_today_iff: "combine (date_of w) spx_gth_open_time \<le> w \<longleftrightarrow> spx_gth_open_time \<le> time_of w"
  using start_le_iff [of "date_of w + 1" w] by simp

lemma start_mono: "d < d' \<Longrightarrow> session_start d < session_start d'"
  by (simp add: combine_def)

lemma start_before_close: "calendar_ok c \<Longrightarrow> session_start d < session_close c d"
  using close_time_range [of c d] by (simp add: combine_def hhmm_def)

lemma is_rth_open_iff:
  assumes "calendar_ok c"
  shows "is_rth_open c w \<longleftrightarrow>
    (\<exists>day. is_trading_day c day \<and> combine day rth_open_time \<le> w \<and> w < session_close c day)"
proof -
  have "day = date_of w" if "combine day rth_open_time \<le> w" "w < session_close c day" for day
    using that close_time_range [OF assms, of day]
    by (auto simp: combine_le_iff less_combine_iff hhmm_def)
  then show ?thesis by (auto simp: is_rth_open_def session_def Let_def)
qed

lemma is_spx_gth_open_iff:
  "is_spx_gth_open c w \<longleftrightarrow>
    (\<exists>day. is_trading_day c day \<and> session_start day \<le> w \<and> w < combine day spx_gth_close_time)"
proof -
  have "session_start day \<le> w \<and> w < combine day spx_gth_close_time \<longleftrightarrow>
      day = date_of w \<and> time_of w < spx_gth_close_time
      \<or> day = date_of w + 1 \<and> spx_gth_open_time \<le> time_of w" for day
    unfolding start_le_iff by (auto simp: less_combine_iff hhmm_def)
  then show ?thesis by (auto simp: is_spx_gth_open_def hhmm_def)
qed

lemma rth_gth_disjoint: "calendar_ok c \<Longrightarrow> is_rth_open c w \<Longrightarrow> \<not> is_spx_gth_open c w"
proof
  assume ok: "calendar_ok c" and r: "is_rth_open c w" and g: "is_spx_gth_open c w"
  from r have t: "rth_open_time \<le> time_of w" "time_of w < close_time_of c (date_of w)"
    using close_time_range [OF ok]
    by (auto simp: is_rth_open_def session_def Let_def combine_le_iff less_combine_iff hhmm_def
        split: if_splits)
  with g close_time_bounds(2) [OF ok, of "date_of w"] show False
    by (auto simp: is_spx_gth_open_def hhmm_def split: if_splits)
qed

text \<open>The interface the pricing policy uses: two schedules that are never open together.\<close>

locale session_clock =
  fixes rth gth :: "int \<Rightarrow> bool"
  assumes rth_not_gth: "rth w \<Longrightarrow> \<not> gth w"
begin

lemma session_cases: "(rth w \<and> \<not> gth w) \<or> (\<not> rth w \<and> gth w) \<or> (\<not> rth w \<and> \<not> gth w)"
  using rth_not_gth by blast

end

interpretation default_clock: session_clock
  "is_rth_open default_market_calendar" "is_spx_gth_open default_market_calendar"
  by unfold_locales (rule rth_gth_disjoint, simp)

subsection \<open>The session date that owns an instant\<close>

lemma retained_scan_finds:
  assumes "d - scan_backward c d < int n" and "d \<le> date_of w"
  shows "retained_scan c w n d = Some (scan_backward c d)"
  using assms
proof (induction n arbitrary: d)
  case 0
  then show ?case using scan_backward_spec [of c d] by simp
next
  case (Suc n)
  show ?case
  proof (cases "is_trading_day c d")
    case True
    moreover have "session_start d \<le> w" using Suc.prems(2) by (simp add: start_le_iff)
    ultimately show ?thesis by (simp add: window_trading scan_backward.simps [of c d])
  next
    case False
    then have b: "scan_backward c d = scan_backward c (d - 1)" by (simp add: scan_backward.simps [of c d])
    then have "retained_scan c w n (d - 1) = Some (scan_backward c (d - 1))"
      using Suc.prems by (intro Suc.IH) auto
    with False b show ?thesis by simp
  qed
qed

definition owns :: "market_calendar \<Rightarrow> int \<Rightarrow> int \<Rightarrow> bool" where
  "owns c w day \<longleftrightarrow>
     is_trading_day c day \<and> session_start day \<le> w \<and> w < session_start (next_trading_day c day)"

lemma owns_unique:
  assumes "owns c w day" and "owns c w day'"
  shows "day = day'"
proof -
  have False if "owns c w x" "owns c w y" "x < y" for x y
  proof -
    have "next_trading_day c x \<le> y" using that by (intro next_trading_day_le) (simp_all add: owns_def)
    then have "session_start (next_trading_day c x) \<le> session_start y" by (simp add: combine_def)
    with that show False by (simp add: owns_def)
  qed
  with assms show ?thesis by (metis linorder_cases)
qed

definition short_gaps :: "market_calendar \<Rightarrow> bool" where
  "short_gaps c \<longleftrightarrow> (\<forall>d. d - scan_backward c d < 15)"

lemma default_short_gaps [simp]: "short_gaps default_market_calendar"
  using default_back_gap by (auto simp: short_gaps_def) (smt (verit))

lemma session_date_owns:
  assumes gaps: "short_gaps c"
  shows "\<exists>day. spx_session_date_for c w True = Some day \<and> owns c w day"
proof -
  let ?d = "date_of w"
  have ret: "retained_scan c w 15 ?d = Some (scan_backward c ?d)"
    using gaps by (intro retained_scan_finds) (auto simp: short_gaps_def)
  have sb: "is_trading_day c (scan_backward c ?d)" "scan_backward c ?d \<le> ?d"
    using scan_backward_spec [of c ?d] by auto
  note nx = next_trading_day_props(1,2) [where c = c and d = ?d] next_trading_day_props(3) [where c = c and d = ?d]
  show ?thesis
  proof (cases "spx_gth_open_time \<le> time_of w")
    case ev: True
    show ?thesis
    proof (cases "next_trading_day c ?d = ?d + 1")
      case True
      with ev nx(1) have "owns c w (?d + 1)"
        using next_trading_day_props(2) [where d = "?d + 1" and c = c]
        by (simp add: owns_def start_today_iff less_start_iff)
      moreover have "w < combine (?d + 1) spx_gth_close_time" by (simp add: less_combine_iff hhmm_def)
      ultimately show ?thesis
        using True ev nx(1) by (simp add: spx_session_date_for_def Let_def window_trading start_today_iff)
    next
      case False
      with nx have far: "?d + 1 < next_trading_day c ?d" by simp
      have "\<not> is_trading_day c (?d + 1)" using far nx(3) by simp
      then have "?d + 1 < next_trading_day c (scan_backward c ?d)"
      proof (cases "is_trading_day c ?d")
        case True
        then have "scan_backward c ?d = ?d" by (simp add: scan_backward.simps [of c ?d])
        with far show ?thesis by simp
      next
        case no: False
        with next_of_scan_backward [OF no] next_trading_day_props(1) [of c "scan_backward c ?d"]
          \<open>\<not> is_trading_day c (?d + 1)\<close>
        show ?thesis by (metis add1_zle_eq order_le_less)
      qed
      then have "owns c w (scan_backward c ?d)"
        using sb by (simp add: owns_def start_le_iff less_start_iff)
      moreover have "\<not> session_start (next_trading_day c ?d) \<le> w" using far by (simp add: start_le_iff)
      ultimately show ?thesis
        using ev nx(1) ret by (simp add: spx_session_date_for_def Let_def window_trading)
    qed
  next
    case day: False
    have own: "owns c w (scan_backward c ?d)"
    proof (cases "is_trading_day c ?d")
      case True
      then have "scan_backward c ?d = ?d" by (simp add: scan_backward.simps [of c ?d])
      with True day nx show ?thesis by (auto simp: owns_def start_le_iff less_start_iff)
    next
      case False
      from next_of_scan_backward [OF this] sb day show ?thesis
        by (auto simp: owns_def start_le_iff less_start_iff)
    qed
    have "spx_session_date_for c w True = Some (scan_backward c ?d)"
    proof (cases "is_trading_day c ?d")
      case True
      then have "scan_backward c ?d = ?d" by (simp add: scan_backward.simps [of c ?d])
      with True day ret show ?thesis
        by (simp add: spx_session_date_for_def Let_def window_trading)
    next
      case False
      with day ret show ?thesis by (simp add: spx_session_date_for_def Let_def window_closed)
    qed
    with own show ?thesis by blast
  qed
qed

end
