(* ===== verification/Calendar_Properties.thy ===== *)
theory Calendar_Properties
  imports Market_Calendar
begin

section \<open>What the calendar promises\<close>

text \<open>
  The contract of \<^verbatim>\<open>MarketCalendar\<close>: trading-day arithmetic, the partition of the ET
  clock into GTH, the closed gap, RTH and the quiet window, the trading date that owns an
  instant and the expiry roll. The statements about the clock are for the default calendar
  where they need that sessions are never far apart.
\<close>

subsection \<open>Trading-day arithmetic\<close>

lemma previous_default_gap: "d - 4 \<le> previous_trading_day default_market_calendar d"
  using default_back_gap [of "d - 1"] by (simp add: previous_trading_day_def)

text \<open>
  C38: For every calendar, \<open>next_trading_day\<close> is the least trading day after the argument and
  \<open>previous_trading_day\<close> the greatest one before it (so both loops end); with no
  explicit exceptions both are at most four days away.
\<close>

theorem trading_day_neighbours:
  "is_trading_day c (next_trading_day c d) \<and> d < next_trading_day c d
   \<and> {x. d < x \<and> x < next_trading_day c d \<and> is_trading_day c x} = {}
   \<and> is_trading_day c (previous_trading_day c d) \<and> previous_trading_day c d < d
   \<and> {x. previous_trading_day c d < x \<and> x < d \<and> is_trading_day c x} = {}
   \<and> next_trading_day default_market_calendar d \<le> d + 4
   \<and> d - 4 \<le> previous_trading_day default_market_calendar d"
  using next_trading_day_props [where c = c and d = d] previous_trading_day_props [where c = c and d = d]
    default_next_gap [of d] previous_default_gap [of d] by blast

text \<open>
  \<open>trading_days_elapsed\<close> returns nothing for a reversed interval and otherwise the number
  of trading days after \<open>start\<close> up to and including \<open>end\<close>.
\<close>

theorem trading_days_elapsed_counts:
  "trading_days_elapsed c start fin =
     (if fin < start then None
      else Some (int (card {x. start < x \<and> x \<le> fin \<and> is_trading_day c x})))"
  by (simp add: trading_days_elapsed_def elapsed_loop_count)

subsection \<open>The holiday rules\<close>

text \<open>
  The Easter rule always gives a Sunday between 22 March and 25 April, so Good Friday
  is a Friday; the other closures of a nominal year fall on Monday to Friday too, except
  a New Year's Day on Saturday, which is not carried into the prior year.
\<close>

theorem holiday_weekdays:
  "weekday (easter_sunday y) = 6
   \<and> ymd y 3 22 \<le> easter_sunday y \<and> easter_sunday y \<le> ymd y 4 25
   \<and> {h \<in> set (holidays_for_nominal_year y). 5 \<le> weekday h} \<subseteq> {ymd y 1 1}
   \<and> {h \<in> set (holidays_for_nominal_year y). 6 \<le> weekday h} = {}"
proof -
  obtain month day where md: "easter_month_day y = (month, day)" by (cases "easter_month_day y")
  have e: "ymd y 3 22 \<le> easter_sunday y" "easter_sunday y \<le> ymd y 4 25"
    using easter_month_day_bounds [OF md] by (auto simp: easter_sunday_def md ymd_offset)
  have "weekday (easter_sunday y - 2) = 4"
    using weekday_add_mod [of "easter_sunday y" "- 2"] by (simp add: weekday_easter)
  moreover have "weekday (observed_fixed_holiday d) < 5" for d by (rule weekday_observed_fixed)
  moreover have "weekday (ymd y 1 1) \<le> 6" using weekday_range(2) [of "ymd y 1 1"] by linarith
  then have "5 \<le> weekday (observed_new_year y) \<Longrightarrow> observed_new_year y = ymd y 1 1"
    "weekday (observed_new_year y) < 6"
    by (auto simp: observed_new_year_def Let_def weekday_add_mod)
  ultimately have "h = ymd y 1 1 \<and> weekday h < 6"
    if "h \<in> set (holidays_for_nominal_year y)" "5 \<le> weekday h" for h
    using that by (auto simp: holidays_for_nominal_year_def weekday_nth_weekday weekday_last_weekday not_le [symmetric])
  with e show ?thesis by (fastforce simp: weekday_easter)
qed

subsection \<open>The ET clock\<close>

lemma default_owner: "\<exists>day. owns default_market_calendar w day"
  using session_date_owns [OF default_short_gaps] by blast

lemma close_before_next_start:
  assumes "calendar_ok c"
  shows "session_close c day < session_start (next_trading_day c day)"
  using close_time_bounds(2) [OF assms, of day] next_trading_day_props(2) [of day c]
  by (simp add: combine_def hhmm_def)

lemma owns_before_close:
  assumes "calendar_ok c" "is_trading_day c day" "session_start day \<le> w" "w \<le> session_close c day"
  shows "owns c w day"
  using close_before_next_start [OF assms(1), of day] assms by (simp add: owns_def)

lemma session_order:
  assumes "calendar_ok c"
  shows "session_start day < combine day spx_gth_close_time"
    and "combine day spx_gth_close_time < combine day rth_open_time"
    and "combine day rth_open_time < session_close c day"
  using close_time_bounds(1) [OF assms, of day] by (simp_all add: combine_def hhmm_def)

lemma owner_gth: "owns c w day \<Longrightarrow> calendar_ok c \<Longrightarrow>
    is_spx_gth_open c w \<longleftrightarrow> w < combine day spx_gth_close_time"
  unfolding is_spx_gth_open_iff using session_order [of c] owns_before_close [of c]
  by (smt (verit) owns_def owns_unique)

lemma owner_rth: "owns c w day \<Longrightarrow> calendar_ok c \<Longrightarrow>
    is_rth_open c w \<longleftrightarrow> combine day rth_open_time \<le> w \<and> w < session_close c day"
  using session_order [of c] owns_before_close [of c] is_rth_open_iff [of c w]
  by (smt (verit) owns_def owns_unique)

lemma owner_gap: "owns c w day \<Longrightarrow> calendar_ok c \<Longrightarrow>
    (\<exists>x. is_trading_day c x \<and> combine x spx_gth_close_time \<le> w \<and> w < combine x rth_open_time)
    \<longleftrightarrow> combine day spx_gth_close_time \<le> w \<and> w < combine day rth_open_time"
  using session_order [of c] owns_before_close [of c]
  by (smt (verit) owns_def owns_unique)

lemma session_date_unique:
  assumes "short_gaps c" "owns c w day"
  shows "spx_session_date_for c w True = Some day"
  using session_date_owns [OF assms(1), of w] owns_unique [OF assms(2)] by auto

lemma owner_quiet:
  assumes "short_gaps c" "owns c w day"
  shows "is_post_rth_pre_gth_quiet c w \<longleftrightarrow> session_close c day \<le> w"
  using assms session_date_unique [OF assms] next_trading_day_props(1) [of c day]
  by (auto simp: is_post_rth_pre_gth_quiet_def owns_def session_def window_trading Let_def)

text \<open>
  With \<open>retain_completed\<close> the trading date resolved for an instant is exactly the trading
  day whose GTH open has passed while the GTH open of the next trading day has not; on
  the default calendar there is always one, also across weekends and holidays.
\<close>

theorem session_date_resolution:
  "(spx_session_date_for default_market_calendar w True = Some day \<longleftrightarrow>
      is_trading_day default_market_calendar day \<and> session_start day \<le> w
      \<and> w < session_start (next_trading_day default_market_calendar day))
   \<and> spx_session_date_for default_market_calendar w True \<noteq> None"
  using session_date_owns [OF default_short_gaps, of w] owns_unique
  unfolding owns_def [symmetric] by (metis option.distinct(1) option.inject)

text \<open>
  On the default calendar every instant lies in exactly one of: an SPX GTH session, the
  09:25 to 09:30 gap of a trading day, an RTH session, the quiet window.
\<close>

theorem clock_partition:
  "of_bool (is_spx_gth_open default_market_calendar w)
   + of_bool (\<exists>x. is_trading_day default_market_calendar x
                \<and> combine x spx_gth_close_time \<le> w \<and> w < combine x rth_open_time)
   + of_bool (is_rth_open default_market_calendar w)
   + of_bool (is_post_rth_pre_gth_quiet default_market_calendar w) = (1::nat)"
proof -
  obtain day where o: "owns default_market_calendar w day" using default_owner by blast
  from session_order [OF default_calendar_ok, of day] show ?thesis
    unfolding owner_gth [OF o default_calendar_ok] owner_rth [OF o default_calendar_ok]
      owner_gap [OF o default_calendar_ok] owner_quiet [OF default_short_gaps o]
    by (auto simp: of_bool_def)
qed

text \<open>
  The notification blackout of the default calendar runs from the actual close of a
  session (early closes included) to the GTH open that belongs to the next trading day.
\<close>

theorem quiet_window:
  "is_post_rth_pre_gth_quiet default_market_calendar w \<longleftrightarrow>
     (\<exists>day. is_trading_day default_market_calendar day
        \<and> combine day (close_time_of default_market_calendar day) \<le> w
        \<and> w < session_start (next_trading_day default_market_calendar day))"
proof -
  obtain day where o: "owns default_market_calendar w day" using default_owner by blast
  have "owns default_market_calendar w x"
    if "is_trading_day default_market_calendar x" "session_close default_market_calendar x \<le> w"
      "w < session_start (next_trading_day default_market_calendar x)" for x
    using that session_order [OF default_calendar_ok, of x] by (simp add: owns_def)
  with o show ?thesis
    unfolding owner_quiet [OF default_short_gaps o] using owns_unique by (metis owns_def)
qed

subsection \<open>The expiry roll\<close>

lemma research_expiry_least:
  "is_trading_day c (research_expiry c w) \<and> w < combine (research_expiry c w) review_ready_time
   \<and> (\<forall>x. is_trading_day c x \<longrightarrow> w < combine x review_ready_time \<longrightarrow> research_expiry c w \<le> x)"
proof -
  have l: "w < combine x review_ready_time \<longleftrightarrow>
      date_of w < x \<or> date_of w = x \<and> time_of w < review_ready_time" for x
    by (simp add: less_combine_iff hhmm_def)
  let ?d = "date_of w"
  consider "is_trading_day c ?d" "time_of w < review_ready_time"
    | "is_trading_day c ?d" "\<not> time_of w < review_ready_time" | "\<not> is_trading_day c ?d" by blast
  then show ?thesis
  proof cases
    case 1
    then show ?thesis by (auto simp: research_expiry_def Let_def l)
  next
    case 2
    then show ?thesis using next_trading_day_props(1) [of c ?d] next_trading_day_props(2) [of ?d c]
      by (auto simp: research_expiry_def Let_def l intro: next_trading_day_le)
  next
    case 3
    moreover have "?d < scan_forward c ?d"
      using 3 scan_forward_spec [of c ?d] by (metis order_le_less)
    ultimately show ?thesis using scan_forward_spec [of c ?d]
      by (auto simp: research_expiry_def Let_def l intro: scan_forward_le)
  qed
qed

lemma completed_review_greatest:
  "is_trading_day c (completed_review_date c w) \<and> combine (completed_review_date c w) review_ready_time \<le> w
   \<and> (\<forall>x. is_trading_day c x \<longrightarrow> combine x review_ready_time \<le> w \<longrightarrow> x \<le> completed_review_date c w)"
proof -
  have l: "combine x review_ready_time \<le> w \<longleftrightarrow>
      x < date_of w \<or> x = date_of w \<and> review_ready_time \<le> time_of w" for x
    by (simp add: combine_le_iff hhmm_def)
  let ?d = "date_of w"
  have "x \<le> previous_trading_day c ?d" if "is_trading_day c x" "x < ?d" for x
    using previous_trading_day_props(3) [of c ?d x] that by linarith
  then show ?thesis
    using previous_trading_day_props(1,2) [of c ?d]
    by (auto simp: completed_review_date_def Let_def l)
qed

text \<open>
  The research expiry is the least trading day whose 17:00 ET lies after the instant, the
  completed review date is the greatest one whose 17:00 ET does not, and so the
  research expiry is the trading day next to the reviewed one.
\<close>

theorem research_and_review_dates:
  "is_trading_day c (research_expiry c w) \<and> w < combine (research_expiry c w) review_ready_time
   \<and> {x. is_trading_day c x \<and> w < combine x review_ready_time \<and> x < research_expiry c w} = {}
   \<and> is_trading_day c (completed_review_date c w)
   \<and> combine (completed_review_date c w) review_ready_time \<le> w
   \<and> research_expiry c w = next_trading_day c (completed_review_date c w)
   \<and> research_expiries c w =
       (research_expiry c w, next_trading_day c (research_expiry c w))"
proof -
  note r = research_expiry_least [of c w] and p = completed_review_greatest [of c w]
  let ?r = "research_expiry c w" and ?p = "completed_review_date c w"
  have "combine ?p review_ready_time < combine ?r review_ready_time" using r p by simp
  then have "?p < ?r" by (simp add: combine_def)
  moreover have "\<not> is_trading_day c y" if "?p < y" "y < ?r" for y
    using r p that by (metis not_le)
  ultimately have "next_trading_day c ?p = ?r" using r by (intro cal.succ_eqI) auto
  with r p show ?thesis by (auto simp: research_expiries_def Let_def)
qed

lemma option_collection_least:
  assumes "calendar_ok c"
  shows "is_trading_day c (option_collection_expiry c w)
   \<and> w < session_close c (option_collection_expiry c w)
   \<and> (\<forall>x. is_trading_day c x \<longrightarrow> w < session_close c x \<longrightarrow> option_collection_expiry c w \<le> x)"
proof -
  have l: "w < session_close c x \<longleftrightarrow>
      date_of w < x \<or> date_of w = x \<and> time_of w < close_time_of c x" for x
    using close_time_range [OF assms] by (simp add: less_combine_iff)
  have l': "session_close c x \<le> w \<longleftrightarrow>
      x < date_of w \<or> x = date_of w \<and> close_time_of c x \<le> time_of w" for x
    using close_time_range [OF assms] by (simp add: combine_le_iff)
  have r: "w < combine x review_ready_time \<longleftrightarrow>
      date_of w < x \<or> date_of w = x \<and> time_of w < review_ready_time" for x
    by (simp add: less_combine_iff hhmm_def)
  let ?d = "date_of w"
  have t: "close_time_of c ?d < review_ready_time"
    using close_time_bounds(2) [OF assms, of ?d] by (simp add: hhmm_def)
  show ?thesis
  proof (cases "is_trading_day c ?d \<and> close_time_of c ?d \<le> time_of w")
    case True
    then have e: "option_collection_expiry c w = next_trading_day c ?d"
      by (auto simp: option_collection_expiry_def session_def Let_def l' r research_expiry_def)
    show ?thesis unfolding e l using next_trading_day_props(1) [of c ?d] next_trading_day_props(2) [of ?d c]
        True by (auto intro: next_trading_day_le)
  next
    case False
    then have e: "option_collection_expiry c w = research_expiry c w"
      by (auto simp: option_collection_expiry_def session_def Let_def l')
    have "w < session_close c (research_expiry c w)"
      using research_expiry_least [of c w] False unfolding l r by auto
    moreover have "w < combine x review_ready_time" if "w < session_close c x" for x
      using that t unfolding l r by auto
    ultimately show ?thesis unfolding e using research_expiry_least [of c w] by blast
  qed
qed

text \<open>
  On the default calendar option collection always targets the least trading day whose RTH
  close lies after the instant: same-day acquisition is kept up to the close and rolls
  there, on early-close days too.
\<close>

theorem option_collection_rolls_at_close:
  "is_trading_day default_market_calendar (option_collection_expiry default_market_calendar w)
   \<and> w < session_close default_market_calendar (option_collection_expiry default_market_calendar w)
   \<and> {x. is_trading_day default_market_calendar x \<and> w < session_close default_market_calendar x
        \<and> x < option_collection_expiry default_market_calendar w} = {}"
  using option_collection_least [OF default_calendar_ok, of w] by (auto simp: not_less [symmetric])

end
