(* ===== verification/Py_Value.thy ===== *)
theory Py_Value
  imports Py_Datetime
begin

section \<open>Dynamic values\<close>

text \<open>
  The values of JSON-like dictionaries the code reads with \<^verbatim>\<open>.get\<close>: a dictionary is an
  association list in insertion order. Texts are ASCII. Five text functions of the
  standard library are parameters, the record \<open>py_std\<close>:
  \<^verbatim>\<open>str(x)\<close> of floats, datetimes and containers, \<^verbatim>\<open>float(text)\<close>, the format \<^verbatim>\<open>:g\<close>, the SHA-256 hex digest and
  \<^verbatim>\<open>datetime.fromisoformat(text)\<close> (\<open>None\<close> stands for its \<^verbatim>\<open>ValueError\<close>).
\<close>

datatype pyval =
    VNone
  | VBool bool
  | VInt int
  | VFloat pyfloat
  | VStr string
  | VTime pydt
  | VList "pyval list"
  | VDict "(string \<times> pyval) list"

type_synonym pydict = "(string \<times> pyval) list"

record py_std =
  std_str :: "pyval \<Rightarrow> string"
  std_float :: "string \<Rightarrow> pyfloat option"
  std_fromiso :: "string \<Rightarrow> pydt option"
  std_fmt_g :: "pyfloat \<Rightarrow> string"
  std_sha256 :: "string \<Rightarrow> string"

fun py_true :: "pyval \<Rightarrow> bool" where
  "py_true VNone = False"
| "py_true (VBool b) = b"
| "py_true (VInt i) = (i \<noteq> 0)"
| "py_true (VFloat x) = fneq0 x"
| "py_true (VStr s) = (s \<noteq> [])"
| "py_true (VTime t) = True"
| "py_true (VList xs) = (xs \<noteq> [])"
| "py_true (VDict d) = (d \<noteq> [])"

definition vor :: "pyval \<Rightarrow> pyval \<Rightarrow> pyval" where
  "vor a b = (if py_true a then a else b)"

definition dget :: "pydict \<Rightarrow> string \<Rightarrow> pyval" where
  "dget d k = (case map_of d k of Some v \<Rightarrow> v | None \<Rightarrow> VNone)"

definition dget_default :: "pydict \<Rightarrow> string \<Rightarrow> pyval \<Rightarrow> pyval" where
  "dget_default d k v = (case map_of d k of Some x \<Rightarrow> x | None \<Rightarrow> v)"

definition is_dict :: "pyval \<Rightarrow> bool" where
  "is_dict v = (case v of VDict _ \<Rightarrow> True | _ \<Rightarrow> False)"

definition py_str :: "py_std \<Rightarrow> pyval \<Rightarrow> string" where
  "py_str std v =
     (case v of
        VNone \<Rightarrow> ''None''
      | VBool b \<Rightarrow> (if b then ''True'' else ''False'')
      | VInt i \<Rightarrow> dec_int i
      | VStr s \<Rightarrow> s
      | _ \<Rightarrow> std_str std v)"

lemma py_str_VStr [simp]: "py_str std (VStr s) = s"
  by (simp add: py_str_def)

lemma vor_simps [simp]:
  "vor VNone b = b"
  "vor (VStr []) b = b"
  "vor (VStr (c # s)) b = VStr (c # s)"
  by (simp_all add: vor_def)

lemma dget_simps [simp]:
  "dget [] k = VNone"
  "dget ((k', v) # d) k = (if k' = k then v else dget d k)"
  by (simp_all add: dget_def)

subsection \<open>Numbers in text\<close>

definition is_digit :: "char \<Rightarrow> bool" where
  "is_digit c = (let n = of_char c :: nat in 48 \<le> n \<and> n \<le> 57)"

definition str_isdigit :: "string \<Rightarrow> bool" where
  "str_isdigit s = (s \<noteq> [] \<and> list_all is_digit s)"

definition digits_value :: "string \<Rightarrow> int" where
  "digits_value s = foldl (\<lambda>a c. 10 * a + int (of_char c - 48)) 0 s"

text \<open>
  Digits of an int literal: groups of digits joined by single underscores. Texts of more
  than 4300 digits are refused by the interpreter.
\<close>

fun literal_digits :: "string \<Rightarrow> string option" where
  "literal_digits [] = None"
| "literal_digits [c] = (if is_digit c then Some [c] else None)"
| "literal_digits (c # d # cs) =
     (if \<not> is_digit c then None
      else map_option (Cons c) (literal_digits (if d = CHR ''_'' then cs else d # cs)))"

definition int_of_text :: "string \<Rightarrow> int option" where
  "int_of_text text =
     (let t = str_strip text;
          (neg, body) = (case t of [] \<Rightarrow> (False, [])
                         | c # cs \<Rightarrow> if c = CHR ''-'' then (True, cs)
                                     else if c = CHR ''+'' then (False, cs) else (False, t))
      in case literal_digits body of
           None \<Rightarrow> None
         | Some ds \<Rightarrow> if 4300 < length ds then None
                      else Some (if neg then - digits_value ds else digits_value ds))"

text \<open>\<^verbatim>\<open>int(x)\<close>: floats are truncated, NaN and the infinities raise.\<close>

definition trunc_rat :: "rat \<Rightarrow> int" where
  "trunc_rat q = (if 0 \<le> q then \<lfloor>q\<rfloor> else - \<lfloor>- q\<rfloor>)"

definition py_int :: "pyval \<Rightarrow> int res" where
  "py_int v =
     (case v of
        VBool b \<Rightarrow> Inr (if b then 1 else 0)
      | VInt i \<Rightarrow> Inr i
      | VFloat x \<Rightarrow> (case x of Fin q \<Rightarrow> Inr (trunc_rat q)
                     | NaN \<Rightarrow> Inl (ValueError ''cannot convert float NaN to integer'')
                     | _ \<Rightarrow> Inl OverflowError)
      | VStr s \<Rightarrow> (case int_of_text s of Some i \<Rightarrow> Inr i
                   | None \<Rightarrow> Inl (ValueError ''invalid literal for int()''))
      | _ \<Rightarrow> Inl (TypeError ''int() argument''))"

text \<open>\<^verbatim>\<open>float(x)\<close>.\<close>

definition py_float :: "py_std \<Rightarrow> pyval \<Rightarrow> pyfloat res" where
  "py_float std v =
     (case v of
        VBool b \<Rightarrow> Inr (if b then Fin 1 else Fin 0)
      | VInt i \<Rightarrow> float_of_int i
      | VFloat x \<Rightarrow> Inr x
      | VStr s \<Rightarrow> (case std_float std s of Some x \<Rightarrow> Inr x
                   | None \<Rightarrow> Inl (ValueError ''could not convert string to float''))
      | _ \<Rightarrow> Inl (TypeError ''float() argument''))"

text \<open>\<^verbatim>\<open>isinstance(v, int | float)\<close>; a bool is an int.\<close>

definition is_number :: "pyval \<Rightarrow> bool" where
  "is_number v = (case v of VBool _ \<Rightarrow> True | VInt _ \<Rightarrow> True | VFloat _ \<Rightarrow> True | _ \<Rightarrow> False)"

text \<open>\<^verbatim>\<open>int(x or 0)\<close>.\<close>

definition int_or_0 :: "pyval \<Rightarrow> int res" where
  "int_or_0 v = py_int (vor v (VInt 0))"

lemma int_or_0_VInt [simp]: "int_or_0 (VInt n) = Inr n"
  by (simp add: int_or_0_def vor_def py_int_def)

text \<open>
  \<^verbatim>\<open>f"{value:.4f}"\<close> rounds the exact value half to even in the fourth decimal.
\<close>

definition fixed4 :: "rat \<Rightarrow> string" where
  "fixed4 q =
     (let n = round_half_even (\<bar>q\<bar> * 10000) in
      (if q < 0 then ''-'' else []) @ dec_int (n div 10000) @ ''.'' @ pad_dec 4 (n mod 10000))"

subsection \<open>Instants\<close>

text \<open>
  \<^verbatim>\<open>datetime.fromtimestamp(x, tz=utc)\<close> for a positive float: \<open>None\<close> stands for the
  exceptions of a value that is not finite or past the year 9999. Instants are
  microseconds of the proleptic Gregorian calendar.
\<close>

definition unix_epoch :: int where
  "unix_epoch = 719163 * us_per_day"

definition max_instant :: int where
  "max_instant = 3652060 * us_per_day"

definition fromtimestamp :: "pyfloat \<Rightarrow> int option" where
  "fromtimestamp x =
     (case td_seconds x of
        Inl _ \<Rightarrow> None
      | Inr us \<Rightarrow> if unix_epoch + us < max_instant then Some (unix_epoch + us) else None)"

text \<open>\<^verbatim>\<open>as_utc\<close>: a naive datetime is read as UTC.\<close>

definition as_utc :: "pydt \<Rightarrow> int" where
  "as_utc value = (case value of Naive w \<Rightarrow> w | Aware w off \<Rightarrow> w - off)"

definition replace_Z :: "string \<Rightarrow> string" where
  "replace_Z s = concat (map (\<lambda>c. if c = CHR ''Z'' then ''+00:00'' else [c]) s)"

text \<open>
  \<^verbatim>\<open>parse_timestamp\<close> on a number, and on any value. \<^verbatim>\<open>float(value)\<close> of an int beyond
  the float range is outside the \<^verbatim>\<open>try\<close> of the code and raises.
\<close>

definition parse_numeric :: "pyfloat \<Rightarrow> int option res" where
  "parse_numeric numeric =
     (if fle numeric (Fin 0) then Inr None
      else rbind (if flt (Fin 10000000000) numeric then fdiv numeric (Fin 1000) else Inr numeric)
        (\<lambda>x. Inr (fromtimestamp x)))"

definition parse_timestamp :: "py_std \<Rightarrow> pyval \<Rightarrow> int option res" where
  "parse_timestamp std value =
     (case value of
        VNone \<Rightarrow> Inr None
      | VTime t \<Rightarrow> Inr (Some (as_utc t))
      | VBool b \<Rightarrow> parse_numeric (if b then Fin 1 else Fin 0)
      | VInt i \<Rightarrow> rbind (float_of_int i) parse_numeric
      | VFloat x \<Rightarrow> parse_numeric x
      | VStr s \<Rightarrow>
          (let text = str_strip s in
           if text = [] then Inr None
           else if str_isdigit text \<or> (hd text = CHR ''-'' \<and> str_isdigit (tl text)) then
             (case int_of_text text of
                Some i \<Rightarrow> rbind (float_of_int i) parse_numeric
              | None \<Rightarrow> Inl (ValueError ''invalid literal for int()''))
           else Inr (map_option as_utc (std_fromiso std (replace_Z text))))
      | _ \<Rightarrow> Inr None)"

lemma as_utc_Aware [simp]: "as_utc (Aware w off) = w - off" and as_utc_Naive [simp]: "as_utc (Naive w) = w"
  by (simp_all add: as_utc_def)

lemma parse_timestamp_simps [simp]:
  "parse_timestamp std VNone = Inr None"
  "parse_timestamp std (VTime t) = Inr (Some (as_utc t))"
  "parse_timestamp std (VStr []) = Inr None"
  by (simp_all add: parse_timestamp_def Let_def)

text \<open>Sentinel numbers never become an instant: a result lies after the Unix epoch.\<close>

lemma td_seconds_nonneg: "td_seconds (Fin q) = Inr us \<Longrightarrow> 0 \<le> q \<Longrightarrow> 0 \<le> us"
proof -
  assume a: "td_seconds (Fin q) = Inr us" and q: "0 \<le> q"
  let ?f = "q - of_int \<lfloor>q\<rfloor>"
  have f: "0 \<le> ?f * 1000000" by simp
  from a q obtain u where u: "rne (?f * 1000000) = Fin u"
    and us: "us = \<lfloor>q\<rfloor> * us_per_second + round_half_even u"
    by (auto simp: td_seconds_def Let_def split: pyfloat.splits)
  have "fle (Fin 0) (Fin u)" using rne_nonneg_iff [OF f] u by simp
  then have "round_half_even 0 \<le> round_half_even u" by (intro round_half_even_mono) simp
  moreover have "round_half_even 0 = 0" using round_half_even_of_int [of 0] by simp
  ultimately show ?thesis using us q by simp
qed

subsection \<open>Text of timestamps\<close>

lemma char_of_digit: "n < 10 \<Longrightarrow> is_digit (char_of (48 + n :: nat))"
  by (simp add: is_digit_def Let_def of_char_of take_bit_eq_mod)

lemma dec_nat_digits: "set (dec_nat n) \<subseteq> Collect is_digit"
proof (induction n rule: dec_nat.induct)
  case (1 n)
  then show ?case using char_of_digit [of "n mod 10"] char_of_digit [of n]
    by (subst dec_nat.simps) auto
qed

lemma pad_dec_digits: "set (pad_dec w i) \<subseteq> Collect is_digit"
proof -
  have "is_digit (CHR ''0'')" by (simp add: is_digit_def)
  then show ?thesis using dec_nat_digits by (auto simp: pad_dec_def Let_def)
qed

definition iso_char :: "char \<Rightarrow> bool" where
  "iso_char c \<longleftrightarrow> is_digit c \<or> c \<in> set ''-T:.+''"

lemma iso_char_pad: "set (pad_dec w i) \<subseteq> Collect iso_char"
  using pad_dec_digits [of w i] by (auto simp: iso_char_def)

lemma isoformat_chars: "set (isoformat t) \<subseteq> Collect iso_char"
proof -
  have m: "iso_char (CHR ''-'')" "iso_char (CHR ''T'')" "iso_char (CHR '':'')" "iso_char (CHR ''.'')"
    "iso_char (CHR ''+'')" "iso_char (CHR ''0'')" by (simp_all add: iso_char_def is_digit_def)
  show ?thesis
    unfolding isoformat_def date_isoformat_def Let_def
    by (simp only: set_append Un_subset_iff iso_char_pad) (simp add: m iso_char_pad)
qed

lemma iso_char_not_blank: "iso_char c \<Longrightarrow> \<not> is_blank c"
  by (auto simp: iso_char_def is_digit_def is_blank_def Let_def)

lemma isoformat_T: "CHR ''T'' \<in> set (tl (isoformat t))"
proof -
  have "pad_dec 4 y \<noteq> []" for y
    by (subst pad_dec_def) (auto simp: Let_def dec_nat.simps)
  then obtain c cs where "pad_dec 4 (year_of (date_of t)) = c # cs" by (meson list.exhaust)
  then show ?thesis by (simp add: isoformat_def date_isoformat_def Let_def)
qed

lemma str_strip_no_blank: "(\<And>c. c \<in> set s \<Longrightarrow> \<not> is_blank c) \<Longrightarrow> str_strip s = s"
proof -
  assume a: "\<And>c. c \<in> set s \<Longrightarrow> \<not> is_blank c"
  have "dropWhile is_blank u = u" if "set u \<subseteq> set s" for u
    using a that by (cases u) auto
  then show ?thesis by (simp add: str_strip_def)
qed

lemma str_strip_isoformat [simp]: "str_strip (isoformat t) = isoformat t"
  using isoformat_chars [of t] iso_char_not_blank by (intro str_strip_no_blank) auto

lemma replace_Z_isoformat [simp]: "replace_Z (isoformat t) = isoformat t"
proof -
  have "CHR ''Z'' \<notin> set (isoformat t)"
    using isoformat_chars [of t] by (auto simp: iso_char_def is_digit_def)
  moreover have "CHR ''Z'' \<notin> set s \<Longrightarrow> replace_Z s = s" for s
    by (induction s) (auto simp: replace_Z_def)
  ultimately show ?thesis by simp
qed

lemma parse_timestamp_isoformat:
  assumes "std_fromiso std (isoformat t) = Some (Aware t 0)"
  shows "parse_timestamp std (VStr (isoformat t)) = Inr (Some t)"
proof -
  have "isoformat t \<noteq> []" using isoformat_T [of t] by auto
  moreover have "\<not> str_isdigit (tl (isoformat t))"
    using isoformat_T [of t] by (force simp: str_isdigit_def list_all_iff is_digit_def)
  moreover have "\<not> str_isdigit (isoformat t)"
    using isoformat_T [of t] list.set_sel(2) [of "isoformat t"] calculation(1)
    by (force simp: str_isdigit_def list_all_iff is_digit_def)
  ultimately show ?thesis using assms by (simp add: parse_timestamp_def Let_def)
qed

end
