(* ===== verification/Streaks.thy ===== *)
theory Streaks
  imports Main
begin

section \<open>Consecutive-observation counters\<close>

text \<open>
  Several controllers debounce a noisy signal by counting consecutive observations. The
  interface of such a counter: one observation advances it by one or resets it to zero.
  What a client concludes is proved once: the counter is the length of the run of events
  that ends the history.
\<close>

definition trailing :: "('o \<Rightarrow> bool) \<Rightarrow> 'o list \<Rightarrow> nat" where
  "trailing P os = length (takeWhile P (rev os))"

lemma trailing_simps [simp]:
  "trailing P [] = 0"
  "trailing P (os @ [x]) = (if P x then Suc (trailing P os) else 0)"
  by (simp_all add: trailing_def)

lemma trailing_all: "list_all P os \<Longrightarrow> trailing P os = length os"
  by (induction os rule: rev_induct) auto

lemma trailing_le: "trailing P os \<le> length os"
  unfolding trailing_def using length_takeWhile_le [of P "rev os"] by simp

lemma trailing_ge_iff:
  "n \<le> trailing P os \<longleftrightarrow> n \<le> length os \<and> list_all P (drop (length os - n) os)"
proof (induction os arbitrary: n rule: rev_induct)
  case (snoc x os)
  show ?case
  proof (cases n)
    case (Suc m)
    have "drop (length (os @ [x]) - n) (os @ [x]) = drop (length os - m) os @ [x]"
      using Suc by simp
    then show ?thesis using snoc.IH [of m] Suc by auto
  qed simp
qed auto

locale streak =
  fixes step :: "'s \<Rightarrow> 'o \<Rightarrow> 's" and cnt :: "'s \<Rightarrow> int" and ev :: "'o \<Rightarrow> bool"
  assumes cnt_step: "cnt (step s obs) = (if ev obs then cnt s + 1 else 0)"
begin

lemma cnt_run:
  "cnt (foldl step s os) =
     (if list_all ev os then cnt s + int (length os) else int (trailing ev os))"
proof (induction os rule: rev_induct)
  case (snoc x os)
  then show ?case by (auto simp: cnt_step trailing_all)
qed simp

lemma cnt_run_ge: "list_all ev os \<Longrightarrow> 0 \<le> cnt s \<Longrightarrow> int (length os) \<le> cnt (foldl step s os)"
  by (simp add: cnt_run)

lemma cnt_run_zero: "cnt s = 0 \<Longrightarrow> cnt (foldl step s os) = int (trailing ev os)"
  by (auto simp: cnt_run trailing_all)

end

end
