(* ===== verification/Provider_Failover.thy ===== *)
theory Provider_Failover
  imports Py_Value Streaks
begin

section \<open>Schwab-primary / IBKR-fallback controller (\<^verbatim>\<open>provider_failover.py\<close>)\<close>

text \<open>
  The controller state, one step \<open>advance_failover\<close> per health observation, the codecs of
  the persisted control file and the fail-closed readers of that file. Datetimes held by
  the state are UTC instants, as the code stores them after \<^verbatim>\<open>as_utc\<close>.
\<close>

datatype failover_mode = SchwabPrimary | RecoveryPending | IbkrFallback | BothUnavailable

fun mode_value :: "failover_mode \<Rightarrow> string" where
  "mode_value SchwabPrimary = ''schwab_primary''"
| "mode_value RecoveryPending = ''recovery_pending''"
| "mode_value IbkrFallback = ''ibkr_fallback''"
| "mode_value BothUnavailable = ''both_unavailable''"

definition failover_mode_of :: "string \<Rightarrow> failover_mode res" where
  "failover_mode_of s =
     (if s = ''schwab_primary'' then Inr SchwabPrimary
      else if s = ''recovery_pending'' then Inr RecoveryPending
      else if s = ''ibkr_fallback'' then Inr IbkrFallback
      else if s = ''both_unavailable'' then Inr BothUnavailable
      else Inl (ValueError ''not a valid FailoverMode''))"

record failover_observation =
  fo_observed_at :: pydt
  fo_schwab_healthy :: bool
  fo_ibkr_healthy :: bool
  fo_schwab_reason :: "string option"
  fo_ibkr_reason :: "string option"

record failover_transition =
  ft_transition_id :: string
  ft_sequence :: int
  ft_previous_mode :: failover_mode
  ft_mode :: failover_mode
  ft_occurred_at :: int
  ft_reason :: string

record failover_state =
  fs_mode :: failover_mode
  fs_updated_at :: int
  fs_sequence :: int
  fs_schwab_unhealthy :: int
  fs_schwab_recovery :: int
  fs_ibkr_unhealthy :: int
  fs_ibkr_recovery :: int
  fs_last_schwab_reason :: "string option"
  fs_last_ibkr_reason :: "string option"
  fs_transition :: "failover_transition option"

record failover_thresholds =
  th_schwab_unhealthy :: int
  th_schwab_recovery :: int
  th_ibkr_unhealthy :: int
  th_ibkr_recovery :: int

definition thresholds_post_init :: "failover_thresholds \<Rightarrow> unit res" where
  "thresholds_post_init th =
     for_each (\<lambda>(name, v). guard_raise (v \<le> 0) (ValueError (name @ '' must be positive'')))
       [(''schwab_unhealthy_observations'', th_schwab_unhealthy th),
        (''schwab_recovery_observations'', th_schwab_recovery th),
        (''ibkr_unhealthy_observations'', th_ibkr_unhealthy th),
        (''ibkr_recovery_observations'', th_ibkr_recovery th)]"

definition failover_initial :: "int \<Rightarrow> failover_state" where
  "failover_initial now =
     \<lparr>fs_mode = SchwabPrimary, fs_updated_at = now, fs_sequence = 0,
      fs_schwab_unhealthy = 0, fs_schwab_recovery = 0, fs_ibkr_unhealthy = 0,
      fs_ibkr_recovery = 0, fs_last_schwab_reason = None, fs_last_ibkr_reason = None,
      fs_transition = None\<rparr>"

definition ibkr_market_data_required :: "failover_state \<Rightarrow> bool" where
  "ibkr_market_data_required s = (fs_mode s \<in> {RecoveryPending, IbkrFallback, BothUnavailable})"

subsection \<open>One observation\<close>

text \<open>
  The branch of \<open>advance_failover\<close> on the current mode: the next mode, its reason and the two
  IBKR streaks, which a request for the fallback resets.
\<close>

definition next_failover ::
  "failover_mode \<Rightarrow> bool \<Rightarrow> bool \<Rightarrow> int \<Rightarrow> int \<Rightarrow> int \<Rightarrow> int \<Rightarrow> failover_thresholds \<Rightarrow>
   failover_mode \<times> string \<times> int \<times> int" where
  "next_failover mode sh ih su sr iu ir th =
     (let keep = (mode, ''health observation'', iu, ir) in
      case mode of
        SchwabPrimary \<Rightarrow>
          if su \<ge> th_schwab_unhealthy th then
            if ih then (IbkrFallback, ''Schwab unhealthy; IBKR fallback is ready'', iu, ir)
            else (RecoveryPending, ''Schwab unhealthy; requesting IBKR fallback'', 0, 0)
          else keep
      | RecoveryPending \<Rightarrow>
          if ih \<and> \<not> sh \<and> ir \<ge> th_ibkr_recovery th then
            (IbkrFallback, ''IBKR fallback became ready'', iu, ir)
          else if sh \<and> sr \<ge> th_schwab_recovery th then
            (SchwabPrimary, ''Schwab recovered before fallback activation'', iu, ir)
          else if \<not> sh \<and> iu \<ge> th_ibkr_unhealthy th then
            (BothUnavailable, ''Schwab and IBKR are unavailable'', iu, ir)
          else keep
      | IbkrFallback \<Rightarrow>
          if sh \<and> sr \<ge> th_schwab_recovery th then
            (SchwabPrimary, ''Schwab recovery confirmed'', iu, ir)
          else if \<not> sh \<and> iu \<ge> th_ibkr_unhealthy th then
            (BothUnavailable, ''IBKR fallback failed while Schwab remained unavailable'', iu, ir)
          else keep
      | BothUnavailable \<Rightarrow>
          if sh \<and> sr \<ge> th_schwab_recovery th then
            (SchwabPrimary, ''Schwab recovery confirmed'', iu, ir)
          else if ih \<and> \<not> sh \<and> ir \<ge> th_ibkr_recovery th then
            (IbkrFallback, ''IBKR fallback recovered'', iu, ir)
          else keep)"

text \<open>\<^verbatim>\<open>strftime('%Y%m%dT%H%M%S%fZ')\<close> of a UTC instant.\<close>

definition strftime_compact :: "int \<Rightarrow> string" where
  "strftime_compact t =
     (let s = time_of t div us_per_second in
      strftime_ymd (date_of t) @ ''T'' @ pad_dec 2 (s div 3600) @ pad_dec 2 (s div 60 mod 60)
      @ pad_dec 2 (s mod 60) @ pad_dec 6 (time_of t mod us_per_second) @ ''Z'')"

definition transition_id_of :: "int \<Rightarrow> int \<Rightarrow> failover_mode \<Rightarrow> string" where
  "transition_id_of occurred_at sequence mode =
     ''provider-failover:'' @ strftime_compact occurred_at @ '':'' @ dec_int sequence @ '':''
     @ mode_value mode"

definition advance_failover ::
  "failover_thresholds \<Rightarrow> failover_state \<Rightarrow> failover_observation \<Rightarrow> failover_state" where
  "advance_failover th state obs =
     (let now = as_utc (fo_observed_at obs);
          sh = fo_schwab_healthy obs;
          ih = fo_ibkr_healthy obs;
          su = (if sh then 0 else fs_schwab_unhealthy state + 1);
          sr = (if sh then fs_schwab_recovery state + 1 else 0);
          iu = (if fs_mode state = SchwabPrimary \<or> ih then 0 else fs_ibkr_unhealthy state + 1);
          ir = (if ih then fs_ibkr_recovery state + 1 else 0);
          (next_mode, reason, iu, ir) = next_failover (fs_mode state) sh ih su sr iu ir th;
          changed = (next_mode \<noteq> fs_mode state);
          sequence = (if changed then fs_sequence state + 1 else fs_sequence state);
          back = (changed \<and> next_mode = SchwabPrimary)
      in \<lparr>fs_mode = next_mode, fs_updated_at = now, fs_sequence = sequence,
          fs_schwab_unhealthy = su, fs_schwab_recovery = sr,
          fs_ibkr_unhealthy = (if back then 0 else iu),
          fs_ibkr_recovery = (if back then 0 else ir),
          fs_last_schwab_reason = fo_schwab_reason obs,
          fs_last_ibkr_reason = fo_ibkr_reason obs,
          fs_transition =
            (if changed then
               Some \<lparr>ft_transition_id = transition_id_of now sequence next_mode,
                     ft_sequence = sequence, ft_previous_mode = fs_mode state,
                     ft_mode = next_mode, ft_occurred_at = now, ft_reason = reason\<rparr>
             else fs_transition state)\<rparr>)"

subsection \<open>The persisted control state\<close>

definition optional_text :: "py_std \<Rightarrow> pyval \<Rightarrow> string option" where
  "optional_text std v =
     (if v = VNone then None
      else let text = str_strip (py_str std v) in if text = [] then None else Some text)"

definition dict_item :: "pydict \<Rightarrow> string \<Rightarrow> pyval res" where
  "dict_item d k = (case map_of d k of Some v \<Rightarrow> Inr v | None \<Rightarrow> Inl (KeyError k))"

definition transition_from_dict :: "py_std \<Rightarrow> pyval \<Rightarrow> failover_transition option res" where
  "transition_from_dict std raw =
     (case raw of
        VDict d \<Rightarrow>
          rbind (parse_timestamp std (dget d ''occurred_at'')) (\<lambda>ts.
            case ts of
              None \<Rightarrow> Inr None
            | Some occurred_at \<Rightarrow>
                rbind (int_or_0 (dget d ''sequence'')) (\<lambda>sequence.
                rbind (dict_item d ''previous_mode'') (\<lambda>p.
                rbind (failover_mode_of (py_str std p)) (\<lambda>previous_mode.
                rbind (dict_item d ''mode'') (\<lambda>m.
                rbind (failover_mode_of (py_str std m)) (\<lambda>mode.
                  Inr (Some
                    \<lparr>ft_transition_id = py_str std (vor (dget d ''transition_id'') (VStr [])),
                     ft_sequence = sequence, ft_previous_mode = previous_mode, ft_mode = mode,
                     ft_occurred_at = occurred_at,
                     ft_reason = py_str std (vor (dget d ''reason'') (VStr []))\<rparr>)))))))
      | _ \<Rightarrow> Inr None)"

definition failover_from_dict :: "py_std \<Rightarrow> pydict \<Rightarrow> failover_state res" where
  "failover_from_dict std raw =
     rbind (transition_from_dict std (dget raw ''transition'')) (\<lambda>transition.
     rbind (parse_timestamp std (dget raw ''updated_at'')) (\<lambda>ts.
     case ts of
       None \<Rightarrow> Inl (ValueError ''provider failover state has no valid updated_at'')
     | Some updated_at \<Rightarrow>
         rbind (failover_mode_of (py_str std (vor (dget raw ''mode'') (VStr (mode_value SchwabPrimary))))) (\<lambda>mode.
         rbind (int_or_0 (dget raw ''sequence'')) (\<lambda>sequence.
         rbind (int_or_0 (dget raw ''schwab_unhealthy_streak'')) (\<lambda>su.
         rbind (int_or_0 (dget raw ''schwab_recovery_streak'')) (\<lambda>sr.
         rbind (int_or_0 (dget raw ''ibkr_unhealthy_streak'')) (\<lambda>iu.
         rbind (int_or_0 (dget raw ''ibkr_recovery_streak'')) (\<lambda>ir.
           Inr \<lparr>fs_mode = mode, fs_updated_at = updated_at, fs_sequence = sequence,
                fs_schwab_unhealthy = su, fs_schwab_recovery = sr, fs_ibkr_unhealthy = iu,
                fs_ibkr_recovery = ir,
                fs_last_schwab_reason = optional_text std (dget raw ''last_schwab_reason''),
                fs_last_ibkr_reason = optional_text std (dget raw ''last_ibkr_reason''),
                fs_transition = transition\<rparr>))))))))"

definition opt_str :: "string option \<Rightarrow> pyval" where
  "opt_str v = (case v of None \<Rightarrow> VNone | Some s \<Rightarrow> VStr s)"

definition transition_to_dict :: "failover_transition \<Rightarrow> pydict" where
  "transition_to_dict t =
     [(''transition_id'', VStr (ft_transition_id t)),
      (''sequence'', VInt (ft_sequence t)),
      (''previous_mode'', VStr (mode_value (ft_previous_mode t))),
      (''mode'', VStr (mode_value (ft_mode t))),
      (''occurred_at'', VStr (isoformat (ft_occurred_at t))),
      (''reason'', VStr (ft_reason t))]"

definition failover_to_dict :: "failover_state \<Rightarrow> pydict" where
  "failover_to_dict s =
     [(''mode'', VStr (mode_value (fs_mode s))),
      (''updated_at'', VStr (isoformat (fs_updated_at s))),
      (''sequence'', VInt (fs_sequence s)),
      (''schwab_unhealthy_streak'', VInt (fs_schwab_unhealthy s)),
      (''schwab_recovery_streak'', VInt (fs_schwab_recovery s)),
      (''ibkr_unhealthy_streak'', VInt (fs_ibkr_unhealthy s)),
      (''ibkr_recovery_streak'', VInt (fs_ibkr_recovery s)),
      (''last_schwab_reason'', opt_str (fs_last_schwab_reason s)),
      (''last_ibkr_reason'', opt_str (fs_last_ibkr_reason s)),
      (''transition'', case fs_transition s of None \<Rightarrow> VNone | Some t \<Rightarrow> VDict (transition_to_dict t)),
      (''ibkr_market_data_required'', VBool (ibkr_market_data_required s))]"

definition control_requires_ibkr_market_data ::
  "py_std \<Rightarrow> pydict \<Rightarrow> pydt \<Rightarrow> pyfloat \<Rightarrow> bool res" where
  "control_requires_ibkr_market_data std raw now max_age_seconds =
     (if dget raw ''monitoring_active'' \<noteq> VBool True then Inr False
      else if dget raw ''ibkr_market_data_required'' \<noteq> VBool True then Inr False
      else rbind (parse_timestamp std (dget raw ''updated_at'')) (\<lambda>ts.
        case ts of
          None \<Rightarrow> Inr False
        | Some updated_at \<Rightarrow>
            let age = total_seconds (as_utc now - updated_at) in
            Inr (fle (Fin 0) age \<and> fle age max_age_seconds)))"

record entry_decision =
  ed_allowed :: bool
  ed_reason :: string
  ed_mode :: "string option"
  ed_updated_at :: "int option"
  ed_age_seconds :: "pyfloat option"
  ed_max_age_seconds :: pyfloat

abbreviation future_timestamp_tolerance :: pyfloat where
  "future_timestamp_tolerance \<equiv> Fin 5"

definition new_entry_control_decision ::
  "py_std \<Rightarrow> pydict \<Rightarrow> pydt \<Rightarrow> pyfloat \<Rightarrow> entry_decision res" where
  "new_entry_control_decision std raw now max_age_seconds =
     (let mode = py_str std (vor (dget raw ''mode'') (VStr [])) in
      rbind (parse_timestamp std (dget raw ''updated_at'')) (\<lambda>updated_at.
      let age = map_option (\<lambda>u. total_seconds (as_utc now - u)) updated_at;
          reason =
            (if dget raw ''monitoring_active'' \<noteq> VBool True then ''monitoring_inactive''
             else if dget raw ''new_entries_allowed'' \<noteq> VBool True then ''entries_not_explicitly_allowed''
             else if mode \<notin> {mode_value SchwabPrimary, mode_value IbkrFallback} then ''unsafe_failover_mode''
             else case age of
                 None \<Rightarrow> ''control_timestamp_missing''
               | Some a \<Rightarrow>
                   if flt a (fneg future_timestamp_tolerance) then ''control_timestamp_in_future''
                   else if flt max_age_seconds a then ''control_state_stale''
                   else ''allowed'')
      in Inr \<lparr>ed_allowed = (reason = ''allowed''), ed_reason = reason,
              ed_mode = (if mode = [] then None else Some mode), ed_updated_at = updated_at,
              ed_age_seconds = age, ed_max_age_seconds = max_age_seconds\<rparr>))"

definition control_allows_new_entries ::
  "py_std \<Rightarrow> pydict \<Rightarrow> pydt \<Rightarrow> pyfloat \<Rightarrow> bool res" where
  "control_allows_new_entries std raw now max_age_seconds =
     rbind (new_entry_control_decision std raw now max_age_seconds) (\<lambda>d. Inr (ed_allowed d))"

subsection \<open>Streaks and legal transitions\<close>

lemma advance_streaks [simp]:
  "fs_schwab_unhealthy (advance_failover th s x) = (if fo_schwab_healthy x then 0 else fs_schwab_unhealthy s + 1)"
  "fs_schwab_recovery (advance_failover th s x) = (if fo_schwab_healthy x then fs_schwab_recovery s + 1 else 0)"
  by (simp_all add: advance_failover_def Let_def split: prod.split)

interpretation unhealthy: streak "advance_failover th" fs_schwab_unhealthy "\<lambda>x. \<not> fo_schwab_healthy x" for th
  by unfold_locales simp

interpretation recovery: streak "advance_failover th" fs_schwab_recovery fo_schwab_healthy for th
  by unfold_locales simp

definition positive_thresholds :: "failover_thresholds \<Rightarrow> bool" where
  "positive_thresholds th \<longleftrightarrow>
     0 < th_schwab_unhealthy th \<and> 0 < th_schwab_recovery th \<and> 0 < th_ibkr_unhealthy th
     \<and> 0 < th_ibkr_recovery th"

lemma thresholds_post_init_iff: "thresholds_post_init th = Inr () \<longleftrightarrow> positive_thresholds th"
  unfolding thresholds_post_init_def for_each_ok_iff by (auto simp: positive_thresholds_def)

lemmas advance_defs = advance_failover_def next_failover_def Let_def

lemma advance_mode:
  "fs_mode (advance_failover th s x) =
     (let sh = fo_schwab_healthy x; ih = fo_ibkr_healthy x;
          su = (if sh then 0 else fs_schwab_unhealthy s + 1);
          sr = (if sh then fs_schwab_recovery s + 1 else 0);
          iu = (if fs_mode s = SchwabPrimary \<or> ih then 0 else fs_ibkr_unhealthy s + 1);
          ir = (if ih then fs_ibkr_recovery s + 1 else 0)
      in fst (next_failover (fs_mode s) sh ih su sr iu ir th))"
  by (simp add: advance_failover_def Let_def split: prod.split)

text \<open>The counters of a running controller: signs, and which of them can be positive.\<close>

definition failover_inv :: "failover_state \<Rightarrow> bool" where
  "failover_inv s \<longleftrightarrow>
     0 \<le> fs_schwab_unhealthy s \<and> 0 \<le> fs_schwab_recovery s
     \<and> 0 \<le> fs_ibkr_unhealthy s \<and> 0 \<le> fs_ibkr_recovery s
     \<and> (fs_schwab_unhealthy s = 0 \<or> fs_schwab_recovery s = 0)
     \<and> (fs_ibkr_unhealthy s = 0 \<or> fs_ibkr_recovery s = 0)
     \<and> (fs_mode s = SchwabPrimary \<longrightarrow> fs_ibkr_unhealthy s = 0)
     \<and> 0 \<le> fs_sequence s \<and> (fs_transition s = None \<longleftrightarrow> fs_sequence s = 0)
     \<and> (\<forall>t. fs_transition s = Some t \<longrightarrow>
          ft_sequence t = fs_sequence s \<and> ft_mode t = fs_mode s \<and> ft_previous_mode t \<noteq> fs_mode s
          \<and> ft_transition_id t = transition_id_of (ft_occurred_at t) (fs_sequence s) (fs_mode s))"

lemma failover_inv_initial [simp]: "failover_inv (failover_initial now)"
  by (simp add: failover_inv_def failover_initial_def)

lemma failover_inv_advance: "failover_inv s \<Longrightarrow> failover_inv (advance_failover th s x)"
  by (cases "fs_mode s") (auto simp: failover_inv_def advance_defs)

lemma failover_inv_run: "failover_inv s \<Longrightarrow> failover_inv (foldl (advance_failover th) s xs)"
  by (induction xs arbitrary: s) (auto intro: failover_inv_advance)

text \<open>The mode changes the code can make, and what each of them requires.\<close>

inductive failover_edge :: "failover_mode \<Rightarrow> failover_mode \<Rightarrow> bool" where
  primary_ready: "failover_edge SchwabPrimary IbkrFallback"
| primary_request: "failover_edge SchwabPrimary RecoveryPending"
| pending_ready: "failover_edge RecoveryPending IbkrFallback"
| pending_lost: "failover_edge RecoveryPending BothUnavailable"
| fallback_lost: "failover_edge IbkrFallback BothUnavailable"
| both_recovered: "failover_edge BothUnavailable IbkrFallback"
| back_to_primary: "m \<noteq> SchwabPrimary \<Longrightarrow> failover_edge m SchwabPrimary"

inductive_simps failover_edge_simps [simp]: "failover_edge m m'"

lemma advance_edge:
  "fs_mode (advance_failover th s x) \<noteq> fs_mode s \<Longrightarrow>
   failover_edge (fs_mode s) (fs_mode (advance_failover th s x))"
  by (cases "fs_mode s") (auto simp: advance_mode next_failover_def Let_def split: if_splits)

lemma leave_primary_iff:
  "fs_mode s = SchwabPrimary \<Longrightarrow>
   fs_mode (advance_failover th s x) \<noteq> SchwabPrimary \<longleftrightarrow>
     fs_schwab_unhealthy (advance_failover th s x) \<ge> th_schwab_unhealthy th"
  by (auto simp: advance_mode next_failover_def Let_def)

lemma enter_primary_iff:
  "fs_mode s \<noteq> SchwabPrimary \<Longrightarrow>
   fs_mode (advance_failover th s x) = SchwabPrimary \<longleftrightarrow>
     fo_schwab_healthy x \<and> fs_schwab_recovery (advance_failover th s x) \<ge> th_schwab_recovery th"
  by (cases "fs_mode s") (auto simp: advance_mode next_failover_def Let_def)

subsection \<open>Histories\<close>

abbreviation failover_run :: "failover_thresholds \<Rightarrow> int \<Rightarrow> failover_observation list \<Rightarrow> failover_state" where
  "failover_run th now xs \<equiv> foldl (advance_failover th) (failover_initial now) xs"

abbreviation schwab_down :: "failover_observation \<Rightarrow> bool" where
  "schwab_down x \<equiv> \<not> fo_schwab_healthy x"

lemma run_streaks:
  "fs_schwab_unhealthy (failover_run th now xs) = int (trailing schwab_down xs)"
  "fs_schwab_recovery (failover_run th now xs) = int (trailing fo_schwab_healthy xs)"
  by (rule unhealthy.cnt_run_zero recovery.cnt_run_zero, simp add: failover_initial_def)+

text \<open>
  C25: After any history of observations the controller leaves Schwab exactly when the run of
  Schwab-unhealthy observations ending the history reaches its threshold, and returns to
  Schwab exactly when the run of healthy ones reaches the recovery threshold.
\<close>

theorem failover_debounce:
  "(fs_mode (failover_run th now xs) = SchwabPrimary
      \<and> fs_mode (failover_run th now (xs @ [x])) \<noteq> SchwabPrimary
    \<longleftrightarrow> fs_mode (failover_run th now xs) = SchwabPrimary
      \<and> th_schwab_unhealthy th \<le> int (trailing schwab_down (xs @ [x])))
   \<and> (fs_mode (failover_run th now xs) \<noteq> SchwabPrimary
      \<and> fs_mode (failover_run th now (xs @ [x])) = SchwabPrimary
    \<longleftrightarrow> fs_mode (failover_run th now xs) \<noteq> SchwabPrimary \<and> fo_schwab_healthy x
      \<and> th_schwab_recovery th \<le> int (trailing fo_schwab_healthy (xs @ [x])))"
proof -
  let ?s = "failover_run th now xs"
  have e: "failover_run th now (xs @ [x]) = advance_failover th ?s x" by simp
  have u: "fs_schwab_unhealthy (advance_failover th ?s x) = int (trailing schwab_down (xs @ [x]))"
    and r: "fs_schwab_recovery (advance_failover th ?s x) = int (trailing fo_schwab_healthy (xs @ [x]))"
    unfolding e [symmetric] by (rule run_streaks)+
  show ?thesis
    unfolding e using leave_primary_iff [of ?s th x] enter_primary_iff [of ?s th x] u r by auto
qed

text \<open>
  C26: Every state the controller reaches satisfies its invariant (counters are not negative and
  never both positive for one provider, the IBKR failure counter is idle while Schwab is
  primary, and the recorded transition is the one that led to the current mode, under its
  sequence number), and each step keeps the mode or makes one of the nine legal changes, so
  Schwab is never abandoned directly for the state without any provider.
\<close>

theorem failover_invariant:
  "failover_inv (failover_run th now xs)
   \<and> (fs_mode (failover_run th now (xs @ [x])) = fs_mode (failover_run th now xs)
        \<and> fs_sequence (failover_run th now (xs @ [x])) = fs_sequence (failover_run th now xs)
      \<or> failover_edge (fs_mode (failover_run th now xs)) (fs_mode (failover_run th now (xs @ [x])))
        \<and> fs_sequence (failover_run th now (xs @ [x])) = fs_sequence (failover_run th now xs) + 1)
   \<and> \<not> failover_edge SchwabPrimary BothUnavailable"
proof -
  let ?s = "failover_run th now xs"
  have "fs_sequence (advance_failover th ?s x) =
      (if fs_mode (advance_failover th ?s x) = fs_mode ?s then fs_sequence ?s else fs_sequence ?s + 1)"
    by (simp add: advance_failover_def Let_def split: prod.split)
  then show ?thesis
    using failover_inv_run [of "failover_initial now" th xs] advance_edge [of th ?s x] by auto
qed

lemma healthy_suffix_primary:
  assumes "positive_thresholds th" "failover_inv s" "list_all fo_schwab_healthy xs" "xs \<noteq> []"
    "th_schwab_recovery th \<le> int (length xs)"
  shows "fs_mode (foldl (advance_failover th) s xs) = SchwabPrimary"
proof -
  obtain ys y where xs: "xs = ys @ [y]" using assms(4) by (metis append_butlast_last_id)
  let ?t = "foldl (advance_failover th) s ys"
  have y: "fo_schwab_healthy y" using assms(3) by (simp add: xs)
  have "int (length xs) \<le> fs_schwab_recovery (foldl (advance_failover th) s xs)"
    using assms(2,3) by (intro recovery.cnt_run_ge) (simp_all add: failover_inv_def)
  then have "th_schwab_recovery th \<le> fs_schwab_recovery (advance_failover th ?t y)"
    using assms(5) by (simp add: xs)
  moreover have "fs_schwab_unhealthy (advance_failover th ?t y) < th_schwab_unhealthy th"
    using y assms(1) by (simp add: positive_thresholds_def)
  ultimately have "fs_mode (advance_failover th ?t y) = SchwabPrimary"
    using leave_primary_iff [of ?t th y] enter_primary_iff [of ?t th y] y by fastforce
  then show ?thesis by (simp add: xs)
qed

abbreviation fallback_only :: "failover_observation \<Rightarrow> bool" where
  "fallback_only x \<equiv> \<not> fo_schwab_healthy x \<and> fo_ibkr_healthy x"

text \<open>Progress towards the fallback, as a measure on the observations still needed.\<close>

definition fallback_progress :: "failover_thresholds \<Rightarrow> failover_state \<Rightarrow> nat \<Rightarrow> bool" where
  "fallback_progress th s n \<longleftrightarrow>
     (fs_mode s = SchwabPrimary \<and> int n \<le> fs_schwab_unhealthy s)
     \<or> (fs_mode s \<in> {RecoveryPending, BothUnavailable} \<and> int n \<le> fs_ibkr_recovery s)
     \<or> fs_mode s = IbkrFallback"

lemma fallback_progress_step:
  assumes "positive_thresholds th" "fallback_progress th t n" "fallback_only x"
  shows "fallback_progress th (advance_failover th t x) (Suc n)"
  using assms by (cases "fs_mode t") (simp_all add: fallback_progress_def advance_defs positive_thresholds_def)

lemma fallback_only_step:
  assumes "positive_thresholds th" "fallback_progress th t n" "fallback_only x"
    "th_schwab_unhealthy th \<le> int (Suc n)" "th_ibkr_recovery th \<le> int (Suc n)"
  shows "fs_mode (advance_failover th t x) = IbkrFallback"
  using assms by (cases "fs_mode t") (simp_all add: fallback_progress_def advance_defs positive_thresholds_def)

lemma fallback_progress_run:
  assumes "positive_thresholds th" "failover_inv s" "list_all fallback_only xs"
  shows "fallback_progress th (foldl (advance_failover th) s xs) (length xs)"
  using assms(3)
proof (induction xs rule: rev_induct)
  case Nil
  then show ?case using assms(2) by (cases "fs_mode s") (auto simp: fallback_progress_def failover_inv_def)
next
  case (snoc x xs)
  then have "fallback_progress th (foldl (advance_failover th) s xs) (length xs)" "fallback_only x" by auto
  then show ?case using fallback_progress_step [OF assms(1)] by simp
qed

lemma fallback_only_reaches:
  assumes "positive_thresholds th" "failover_inv s" "list_all fallback_only xs"
    "th_schwab_unhealthy th \<le> int (length xs)" "th_ibkr_recovery th \<le> int (length xs)" "xs \<noteq> []"
  shows "fs_mode (foldl (advance_failover th) s xs) = IbkrFallback"
proof -
  obtain ys y where xs: "xs = ys @ [y]" using assms(6) by (metis append_butlast_last_id)
  let ?t = "foldl (advance_failover th) s ys"
  have "fallback_progress th ?t (length ys)"
    using assms(3) by (intro fallback_progress_run [OF assms(1,2)]) (simp add: xs)
  moreover have "fallback_only y" using assms(3) by (simp add: xs)
  ultimately have "fs_mode (advance_failover th ?t y) = IbkrFallback"
    using assms(4,5) by (intro fallback_only_step [OF assms(1)]) (simp_all add: xs)
  then show ?thesis by (simp add: xs)
qed

text \<open>
  With validated thresholds and from any state satisfying the invariant, enough consecutive
  healthy Schwab observations always end in Schwab-primary, and enough consecutive
  observations with Schwab down and IBKR healthy always end in the IBKR fallback.
\<close>

theorem failover_converges:
  assumes "thresholds_post_init th = Inr ()" and "failover_inv s"
    and "list_all fo_schwab_healthy xs" and "th_schwab_recovery th \<le> int (length xs)"
    and "list_all fallback_only ys"
    and "th_schwab_unhealthy th \<le> int (length ys)" and "th_ibkr_recovery th \<le> int (length ys)"
  shows "fs_mode (foldl (advance_failover th) s xs) = SchwabPrimary
    \<and> fs_mode (foldl (advance_failover th) s ys) = IbkrFallback"
proof -
  have th: "positive_thresholds th" using assms(1) by (simp add: thresholds_post_init_iff)
  have "xs \<noteq> []" "ys \<noteq> []" using th assms(4,6) by (auto simp: positive_thresholds_def)
  with th assms show ?thesis
    by (auto intro: healthy_suffix_primary fallback_only_reaches)
qed

definition sample_thresholds :: failover_thresholds where
  "sample_thresholds = \<lparr>th_schwab_unhealthy = 2, th_schwab_recovery = 2, th_ibkr_unhealthy = 2,
     th_ibkr_recovery = 2\<rparr>"

definition sample_observation :: "bool \<Rightarrow> bool \<Rightarrow> failover_observation" where
  "sample_observation sh ih = \<lparr>fo_observed_at = Aware 0 0, fo_schwab_healthy = sh,
     fo_ibkr_healthy = ih, fo_schwab_reason = None, fo_ibkr_reason = None\<rparr>"

lemma failover_converges_witness:
  "fs_mode (foldl (advance_failover sample_thresholds) (failover_initial 0)
       [sample_observation True False, sample_observation True False]) = SchwabPrimary
   \<and> fs_mode (foldl (advance_failover sample_thresholds) (failover_initial 0)
       [sample_observation False True, sample_observation False True]) = IbkrFallback"
  by (rule failover_converges)
    (simp_all add: thresholds_post_init_def sample_thresholds_def sample_observation_def)

subsection \<open>Entry boundary\<close>

text \<open>
  C3: The entry boundary fails closed: a decision is permitted exactly when monitoring and entries
  are both the value \<open>True\<close>, the mode is one with a confirmed provider, a timestamp was
  parsed, and its age is neither before the clock tolerance nor beyond the maximum age;
  otherwise the reason names a different verdict.
\<close>

theorem entry_boundary_fails_closed:
  "(control_allows_new_entries std raw now max_age = Inr True \<longleftrightarrow>
     dget raw ''monitoring_active'' = VBool True \<and> dget raw ''new_entries_allowed'' = VBool True
     \<and> py_str std (vor (dget raw ''mode'') (VStr [])) \<in> {''schwab_primary'', ''ibkr_fallback''}
     \<and> (\<exists>u. parse_timestamp std (dget raw ''updated_at'') = Inr (Some u)
          \<and> \<not> flt (total_seconds (as_utc now - u)) (Fin (- 5))
          \<and> \<not> flt max_age (total_seconds (as_utc now - u))))
   \<and> (control_allows_new_entries std raw now max_age = Inr True \<longleftrightarrow>
        (\<exists>d. new_entry_control_decision std raw now max_age = Inr d \<and> ed_reason d = ''allowed''))"
proof (cases "parse_timestamp std (dget raw ''updated_at'')")
  case (Inl e)
  then show ?thesis by (simp add: control_allows_new_entries_def new_entry_control_decision_def Let_def)
next
  case (Inr ts)
  then show ?thesis
    by (cases ts) (simp_all add: control_allows_new_entries_def new_entry_control_decision_def Let_def)
qed

subsection \<open>Round trip of the persisted state\<close>

lemma failover_mode_roundtrip [simp]: "failover_mode_of (mode_value m) = Inr m"
  by (cases m) (simp_all add: failover_mode_of_def)

lemma mode_value_or [simp]: "vor (VStr (mode_value m)) v = VStr (mode_value m)"
  by (cases m) simp_all

lemma str_or_empty [simp]: "py_str std (vor (VStr s) (VStr [])) = s"
  by (cases s) simp_all

definition clean_reason :: "string option \<Rightarrow> bool" where
  "clean_reason r = (case r of None \<Rightarrow> True | Some s \<Rightarrow> s \<noteq> [] \<and> str_strip s = s)"

lemma optional_text_opt_str: "clean_reason r \<Longrightarrow> optional_text std (opt_str r) = r"
  by (cases r) (auto simp: clean_reason_def optional_text_def opt_str_def Let_def)

lemma transition_roundtrip:
  assumes "std_fromiso std (isoformat (ft_occurred_at t)) = Some (Aware (ft_occurred_at t) 0)"
  shows "transition_from_dict std (VDict (transition_to_dict t)) = Inr (Some t)"
  using assms
  by (simp add: transition_from_dict_def transition_to_dict_def parse_timestamp_isoformat dict_item_def)

text \<open>
  A state written by \<open>to_dict\<close> is read back unchanged by \<open>from_dict\<close>, when the two reasons are
  stripped texts or absent and \<^verbatim>\<open>datetime.fromisoformat\<close> inverts \<^verbatim>\<open>isoformat\<close> on the
  timestamps it holds.
\<close>

theorem failover_state_roundtrip:
  assumes "clean_reason (fs_last_schwab_reason s)" and "clean_reason (fs_last_ibkr_reason s)"
    and "std_fromiso std (isoformat (fs_updated_at s)) = Some (Aware (fs_updated_at s) 0)"
    and "\<And>t. fs_transition s = Some t \<Longrightarrow>
           std_fromiso std (isoformat (ft_occurred_at t)) = Some (Aware (ft_occurred_at t) 0)"
  shows "failover_from_dict std (failover_to_dict s) = Inr s"
proof -
  have "transition_from_dict std (dget (failover_to_dict s) ''transition'') = Inr (fs_transition s)"
    using assms(4) by (cases "fs_transition s")
      (simp_all add: failover_to_dict_def transition_roundtrip, simp add: transition_from_dict_def)
  moreover have "parse_timestamp std (dget (failover_to_dict s) ''updated_at'') = Inr (Some (fs_updated_at s))"
    using assms(3) by (simp add: failover_to_dict_def parse_timestamp_isoformat)
  ultimately show ?thesis
    using assms(1,2)
    by (simp add: failover_from_dict_def) (simp add: failover_to_dict_def optional_text_opt_str)
qed

definition epoch_std :: py_std where
  "epoch_std = \<lparr>std_str = (\<lambda>_. []), std_float = (\<lambda>_. None),
     std_fromiso = (\<lambda>s. if s = isoformat 0 then Some (Aware 0 0) else None),
     std_fmt_g = (\<lambda>_. []), std_sha256 = (\<lambda>_. [])\<rparr>"

lemma failover_state_roundtrip_witness:
  "failover_from_dict epoch_std (failover_to_dict
       (failover_run sample_thresholds 0 [sample_observation False True, sample_observation False True]))
   = Inr (failover_run sample_thresholds 0 [sample_observation False True, sample_observation False True])"
  by (rule failover_state_roundtrip)
    (simp_all add: sample_thresholds_def sample_observation_def failover_initial_def advance_defs
      epoch_std_def clean_reason_def)

end
