(* ===== verification/Market_Data.thy ===== *)
theory Market_Data
  imports Py_Value "HOL-Library.AList"
begin

section \<open>Normalised quotes (\<^verbatim>\<open>marketdata.py\<close>)\<close>

text \<open>
  Instruments and their identifiers, quotes with their derived prices, quality
  classification and the choice of the best quote. Prices are exact binary64 values, so
  the arithmetic of \<open>mid\<close>, \<open>spread\<close> and ages rounds as the code does. The dictionary
  codecs of quotes are not modelled.
\<close>

datatype provider = Ibkr | Schwab | Hyperliquid | Polymarket | Internal | Mock | UnknownProvider

fun provider_value :: "provider \<Rightarrow> string" where
  "provider_value Ibkr = ''ibkr''"
| "provider_value Schwab = ''schwab''"
| "provider_value Hyperliquid = ''hyperliquid''"
| "provider_value Polymarket = ''polymarket''"
| "provider_value Internal = ''internal''"
| "provider_value Mock = ''mock''"
| "provider_value UnknownProvider = ''unknown''"

definition all_providers :: "provider list" where
  "all_providers = [Ibkr, Schwab, Hyperliquid, Polymarket, Internal, Mock, UnknownProvider]"

definition provider_of :: "string \<Rightarrow> provider option" where
  "provider_of s = find (\<lambda>p. provider_value p = s) all_providers"

datatype instrument_type =
  Index | Equity | Etf | Future | Option | Cfd | CryptoPerp | PredictionMarket | UnknownType

fun instrument_type_value :: "instrument_type \<Rightarrow> string" where
  "instrument_type_value Index = ''index''"
| "instrument_type_value Equity = ''equity''"
| "instrument_type_value Etf = ''etf''"
| "instrument_type_value Future = ''future''"
| "instrument_type_value Option = ''option''"
| "instrument_type_value Cfd = ''cfd''"
| "instrument_type_value CryptoPerp = ''crypto_perp''"
| "instrument_type_value PredictionMarket = ''prediction_market''"
| "instrument_type_value UnknownType = ''unknown''"

datatype option_right = Call | Put

fun right_value :: "option_right \<Rightarrow> string" where
  "right_value Call = ''C''"
| "right_value Put = ''P''"

datatype quality =
  Live | Frozen | Delayed | DelayedFrozen | Synthetic | Stale | UnknownQuality | Missing | ErrorQuality

fun quality_value :: "quality \<Rightarrow> string" where
  "quality_value Live = ''live''"
| "quality_value Frozen = ''frozen''"
| "quality_value Delayed = ''delayed''"
| "quality_value DelayedFrozen = ''delayed_frozen''"
| "quality_value Synthetic = ''synthetic''"
| "quality_value Stale = ''stale''"
| "quality_value UnknownQuality = ''unknown''"
| "quality_value Missing = ''missing''"
| "quality_value ErrorQuality = ''error''"

datatype freshness = FreshFresh | FreshStale | FreshUnknown

datatype quote_session = SessRegular | SessExtended | SessGth | SessGlobex | SessUnknown

datatype provider_status = StatAvailable | StatDegraded | StatUnavailable | StatUnknown

fun quality_rank :: "quality \<Rightarrow> int" where
  "quality_rank Live = 100"
| "quality_rank Frozen = 85"
| "quality_rank Delayed = 75"
| "quality_rank DelayedFrozen = 65"
| "quality_rank Synthetic = 50"
| "quality_rank UnknownQuality = 30"
| "quality_rank Stale = 20"
| "quality_rank Missing = 0"
| "quality_rank ErrorQuality = 0"

text \<open>A configured provider: an enum member or any text.\<close>

datatype provider_ref = PrEnum provider | PrText string

definition default_provider_priority :: "provider_ref list" where
  "default_provider_priority =
     map PrEnum [Schwab, Ibkr, Hyperliquid, Polymarket, Internal, Mock, UnknownProvider]"

subsection \<open>Instruments\<close>

record instrument_id =
  in_symbol :: string
  in_type :: instrument_type
  in_provider_symbol :: "string option"
  in_exchange :: "string option"
  in_currency :: string
  in_expiry :: "string option"
  in_strike :: "pyfloat option"
  in_right :: "option_right option"
  in_multiplier :: "string option"
  in_underlier :: "string option"
  in_trading_class :: "string option"

definition plain_instrument :: "string \<Rightarrow> instrument_type \<Rightarrow> instrument_id" where
  "plain_instrument symbol ty =
     \<lparr>in_symbol = symbol, in_type = ty, in_provider_symbol = None, in_exchange = None,
      in_currency = ''USD'', in_expiry = None, in_strike = None, in_right = None,
      in_multiplier = None, in_underlier = None, in_trading_class = None\<rparr>"

definition index_instrument :: "string \<Rightarrow> string option \<Rightarrow> string option \<Rightarrow> string \<Rightarrow> instrument_id" where
  "index_instrument symbol provider_symbol exchange currency =
     (plain_instrument symbol Index)
       \<lparr>in_provider_symbol := provider_symbol, in_exchange := exchange, in_currency := currency\<rparr>"

definition equity_instrument :: "string \<Rightarrow> string option \<Rightarrow> string option \<Rightarrow> string \<Rightarrow> instrument_id" where
  "equity_instrument symbol provider_symbol exchange currency =
     (plain_instrument symbol Equity)
       \<lparr>in_provider_symbol := provider_symbol, in_exchange := exchange, in_currency := currency\<rparr>"

definition cfd_instrument ::
  "string \<Rightarrow> string option \<Rightarrow> string option \<Rightarrow> string \<Rightarrow> string option \<Rightarrow> instrument_id" where
  "cfd_instrument symbol provider_symbol exchange currency underlier =
     (plain_instrument symbol Cfd)
       \<lparr>in_provider_symbol := provider_symbol, in_exchange := exchange, in_currency := currency,
        in_underlier := underlier\<rparr>"

definition future_instrument ::
  "string \<Rightarrow> string option \<Rightarrow> string option \<Rightarrow> string option \<Rightarrow> string \<Rightarrow> instrument_id" where
  "future_instrument symbol expiry provider_symbol exchange currency =
     (plain_instrument symbol Future)
       \<lparr>in_provider_symbol := provider_symbol, in_exchange := exchange, in_currency := currency,
        in_expiry := expiry\<rparr>"

datatype right_ref = RightEnum option_right | RightText string

definition normalize_option_right :: "right_ref \<Rightarrow> option_right res" where
  "normalize_option_right value =
     (case value of
        RightEnum r \<Rightarrow> Inr r
      | RightText s \<Rightarrow>
          let text = str_upper (str_strip s) in
          if text \<in> {''C'', ''CALL''} then Inr Call
          else if text \<in> {''P'', ''PUT''} then Inr Put
          else Inl (ValueError ''Unsupported option right''))"

definition option_instrument ::
  "string \<Rightarrow> string \<Rightarrow> pyfloat \<Rightarrow> right_ref \<Rightarrow> string option \<Rightarrow> string option \<Rightarrow> string option \<Rightarrow>
   string \<Rightarrow> string option \<Rightarrow> instrument_id res" where
  "option_instrument underlier expiry strike rgt trading_class provider_symbol exchange currency multiplier =
     rbind (normalize_option_right rgt) (\<lambda>parsed_right.
       Inr ((plain_instrument underlier Option)
         \<lparr>in_provider_symbol := provider_symbol, in_exchange := exchange, in_currency := currency,
          in_expiry := Some expiry, in_strike := Some strike, in_right := Some parsed_right,
          in_multiplier := multiplier, in_underlier := Some underlier,
          in_trading_class := trading_class\<rparr>))"

definition rstrip_char :: "char \<Rightarrow> string \<Rightarrow> string" where
  "rstrip_char c s = rev (dropWhile (\<lambda>x. x = c) (rev s))"

definition format_strike :: "pyfloat option \<Rightarrow> string" where
  "format_strike value =
     (case value of
        None \<Rightarrow> []
      | Some (Fin q) \<Rightarrow>
          if of_int \<lfloor>q\<rfloor> = q then dec_int \<lfloor>q\<rfloor>
          else rstrip_char (CHR ''.'') (rstrip_char (CHR ''0'') (fixed4 q))
      | Some PInf \<Rightarrow> ''inf''
      | Some NInf \<Rightarrow> ''-inf''
      | Some NaN \<Rightarrow> ''nan'')"

fun join_colon :: "string list \<Rightarrow> string" where
  "join_colon [] = []"
| "join_colon [x] = x"
| "join_colon (x # y # xs) = x @ '':'' @ join_colon (y # xs)"

definition canonical_id :: "instrument_id \<Rightarrow> string" where
  "canonical_id i =
     (if in_type i = Option then
        (let trading_class = text_or (in_trading_class i) (text_or (in_underlier i) (in_symbol i)) in
         join_colon [instrument_type_value Option, text_or (in_underlier i) (in_symbol i),
           trading_class, text_or (in_expiry i) [], format_strike (in_strike i),
           (case in_right i of Some r \<Rightarrow> right_value r | None \<Rightarrow> [])])
      else if in_type i = Future \<and> text_true (in_expiry i) then
        instrument_type_value (in_type i) @ '':'' @ in_symbol i @ '':'' @ text_or (in_expiry i) []
      else instrument_type_value (in_type i) @ '':'' @ in_symbol i)"

definition family_id :: "instrument_id \<Rightarrow> string" where
  "family_id i = (if in_type i = Future then ''future:'' @ in_symbol i else canonical_id i)"

definition instrument_matches_id :: "instrument_id \<Rightarrow> string \<Rightarrow> bool" where
  "instrument_matches_id i requested_id =
     (if canonical_id i = requested_id then True
      else if str_lower (instrument_type_value (in_type i)) \<noteq> instrument_type_value Future then False
      else family_id i = requested_id)"

subsection \<open>Quotes\<close>

record option_greeks =
  gr_implied_vol :: "pyfloat option"
  gr_delta :: "pyfloat option"
  gr_gamma :: "pyfloat option"
  gr_theta :: "pyfloat option"
  gr_vega :: "pyfloat option"
  gr_rho :: "pyfloat option"
  gr_underlier_price :: "pyfloat option"
  gr_model :: "string option"

record session_observation =
  so_session :: quote_session
  so_quote_time :: "pydt option"
  so_trade_time :: "pydt option"
  so_bid :: "pyfloat option"
  so_ask :: "pyfloat option"
  so_last :: "pyfloat option"
  so_mark :: "pyfloat option"

record quote =
  q_instrument :: instrument_id
  q_provider :: provider
  q_received_at :: pydt
  q_quality :: quality
  q_provider_symbol :: "string option"
  q_bid :: "pyfloat option"
  q_ask :: "pyfloat option"
  q_last :: "pyfloat option"
  q_mark :: "pyfloat option"
  q_close :: "pyfloat option"
  q_bid_size :: "pyfloat option"
  q_ask_size :: "pyfloat option"
  q_last_size :: "pyfloat option"
  q_volume :: "pyfloat option"
  q_open_interest :: "pyfloat option"
  q_structure_time :: "pydt option"
  q_quote_time :: "pydt option"
  q_trade_time :: "pydt option"
  q_last_update_at :: "pydt option"
  q_source_latency_ms :: "pyfloat option"
  q_market_data_type :: pyval
  q_greeks :: "option_greeks option"
  q_sampling_mode :: "string option"
  q_sampling_group :: "int option"
  q_source_session :: "string option"
  q_market_session :: "quote_session option"
  q_session_observations :: "session_observation list"
  q_error :: "string option"
  q_raw :: "pydict option"

text \<open>\<^verbatim>\<open>first_present(*values)\<close>: the first value that is present and positive.\<close>

fun first_present :: "pyfloat option list \<Rightarrow> pyfloat option" where
  "first_present [] = None"
| "first_present (None # vs) = first_present vs"
| "first_present (Some x # vs) = (if flt (Fin 0) x then Some x else first_present vs)"

definition so_source_time :: "session_observation \<Rightarrow> pydt option" where
  "so_source_time s = (case so_quote_time s of Some t \<Rightarrow> Some t | None \<Rightarrow> so_trade_time s)"

definition so_effective_price :: "session_observation \<Rightarrow> pyfloat option" where
  "so_effective_price s = first_present [so_mark s, so_last s, so_bid s, so_ask s]"

text \<open>\<^verbatim>\<open>(bid + ask) / 2\<close>; the division by two never raises.\<close>

definition halve :: "pyfloat \<Rightarrow> pyfloat" where
  "halve x = (case x of Fin q \<Rightarrow> rne (q / 2) | _ \<Rightarrow> x)"

definition mid :: "quote \<Rightarrow> pyfloat option" where
  "mid q =
     (case (q_bid q, q_ask q) of
        (Some bid, Some ask) \<Rightarrow>
          if fle ask (Fin 0) \<or> flt ask bid then None
          else if in_type (q_instrument q) = Option then
            (if flt bid (Fin 0) then None else Some (halve (fadd bid ask)))
          else if fle bid (Fin 0) then None
          else Some (halve (fadd bid ask))
      | _ \<Rightarrow> None)"

definition spread :: "quote \<Rightarrow> pyfloat option" where
  "spread q =
     (case (q_bid q, q_ask q) of
        (Some bid, Some ask) \<Rightarrow>
          if fle bid (Fin 0) \<or> fle ask (Fin 0) \<or> flt ask bid then None
          else Some (fsub ask bid)
      | _ \<Rightarrow> None)"

definition spread_bps :: "quote \<Rightarrow> pyfloat option res" where
  "spread_bps q =
     (case (spread q, mid q) of
        (Some s, Some m) \<Rightarrow>
          if fle m (Fin 0) then Inr None
          else rbind (fdiv s m) (\<lambda>r. Inr (Some (fmul r (Fin 10000))))
      | _ \<Rightarrow> Inr None)"

definition effective_price :: "quote \<Rightarrow> pyfloat option" where
  "effective_price q = first_present [q_mark q, mid q, q_last q, q_close q]"

definition has_price :: "quote \<Rightarrow> bool" where
  "has_price q = (effective_price q \<noteq> None)"

definition is_usable :: "quote \<Rightarrow> bool" where
  "is_usable q = (has_price q \<and> q_quality q \<notin> {Missing, ErrorQuality})"

definition source_time :: "quote \<Rightarrow> pydt" where
  "source_time q =
     (case q_quote_time q of Some t \<Rightarrow> t
      | None \<Rightarrow> (case q_trade_time q of Some t \<Rightarrow> t | None \<Rightarrow> q_received_at q))"

definition quote_age_ms :: "quote \<Rightarrow> pydt option \<Rightarrow> pyfloat" where
  "quote_age_ms q as_of =
     (let moment = as_utc (case as_of of Some t \<Rightarrow> t | None \<Rightarrow> q_received_at q) in
      fmul (total_seconds (moment - as_utc (source_time q))) (Fin 1000))"

definition session_source_time :: "quote \<Rightarrow> quote_session \<Rightarrow> pydt option" where
  "session_source_time q sess =
     (case find (\<lambda>s. so_session s = sess) (q_session_observations q) of
        Some s \<Rightarrow> so_source_time s
      | None \<Rightarrow> None)"

subsection \<open>Choosing a quote\<close>

definition normalized_provider :: "provider_ref \<Rightarrow> provider" where
  "normalized_provider p =
     (case p of
        PrEnum x \<Rightarrow> x
      | PrText s \<Rightarrow> (case provider_of s of Some x \<Rightarrow> x | None \<Rightarrow> UnknownProvider))"

fun priority_from :: "int \<Rightarrow> provider_ref list \<Rightarrow> (provider \<times> int) list \<Rightarrow> (provider \<times> int) list" where
  "priority_from index [] result = result"
| "priority_from index (p # ps) result =
     priority_from (index + 1) ps (AList.update (normalized_provider p) index result)"

definition normalize_provider_priority :: "provider_ref list \<Rightarrow> (provider \<times> int) list" where
  "normalize_provider_priority ps = priority_from 0 ps []"

type_synonym quote_key = "int \<times> int \<times> pyfloat \<times> pyfloat"

definition quote_sort_key :: "(provider \<times> int) list \<Rightarrow> pydt \<Rightarrow> quote \<Rightarrow> quote_key" where
  "quote_sort_key provider_rank as_of q =
     (let priority = (case map_of provider_rank (q_provider q) of
                        Some n \<Rightarrow> n | None \<Rightarrow> int (length provider_rank))
      in (quality_rank (q_quality q), - priority, fneg (quote_age_ms q (Some as_of)),
          (if mid q \<noteq> None then Fin 1 else Fin 0)))"

text \<open>Tuples compare at the first component that differs.\<close>

fun key_less :: "quote_key \<Rightarrow> quote_key \<Rightarrow> bool" where
  "key_less (a, b, c, d) (a', b', c', d') =
     (if a \<noteq> a' then a < a' else if b \<noteq> b' then b < b'
      else if c \<noteq> c' then flt c c' else flt d d')"

text \<open>\<open>as_of\<close> is the given instant or the clock reading when none is given.\<close>

definition choose_best_quote :: "provider_ref list \<Rightarrow> pydt \<Rightarrow> quote list \<Rightarrow> quote option" where
  "choose_best_quote provider_priority as_of quotes =
     (case filter is_usable quotes of
        [] \<Rightarrow> None
      | q # qs \<Rightarrow>
          let rank = normalize_provider_priority provider_priority;
              key = quote_sort_key rank as_of
          in Some (py_max_by (\<lambda>x y. key_less (key x) (key y)) q qs))"

record provider_state =
  ps_provider :: provider
  ps_status :: provider_status
  ps_checked_at :: pydt
  ps_reason :: "string option"
  ps_connected :: "bool option"
  ps_authenticated :: "bool option"
  ps_latency_ms :: "pyfloat option"
  ps_priority :: "int option"

record normalized_snapshot =
  sn_created_at :: pydt
  sn_quotes :: "quote list"
  sn_provider_states :: "provider_state list"

definition quotes_for :: "normalized_snapshot \<Rightarrow> string \<Rightarrow> quote list" where
  "quotes_for s instrument_id = filter (\<lambda>q. instrument_matches_id (q_instrument q) instrument_id) (sn_quotes s)"

definition best_quote :: "normalized_snapshot \<Rightarrow> string \<Rightarrow> provider_ref list \<Rightarrow> pydt \<Rightarrow> quote option" where
  "best_quote s instrument_id provider_priority now =
     choose_best_quote provider_priority now (quotes_for s instrument_id)"

subsection \<open>Cleaning and classification of raw values\<close>

definition quality_from_market_data_type :: "py_std \<Rightarrow> pyval \<Rightarrow> quality option res" where
  "quality_from_market_data_type std value =
     (if value = VNone then Inr None
      else case py_int value of
        Inr numeric \<Rightarrow>
          Inr (map_of [(1, Live), (2, Frozen), (3, Delayed), (4, DelayedFrozen)] numeric)
      | Inl OverflowError \<Rightarrow> Inl OverflowError
      | Inl _ \<Rightarrow>
          (let text = str_lower (str_strip (py_str std value)) in
           Inr (map_of [(''live'', Live), (''frozen'', Frozen), (''delayed'', Delayed),
             (''delayed-frozen'', DelayedFrozen), (''delayed_frozen'', DelayedFrozen)] text)))"

definition classify_quote_quality ::
  "py_std \<Rightarrow> pyval \<Rightarrow> pydt option \<Rightarrow> pydt option \<Rightarrow> pyfloat \<Rightarrow> bool option \<Rightarrow> string option \<Rightarrow> quality res" where
  "classify_quote_quality std market_data_type quote_time received_at stale_after explicit_delayed err =
     (if text_true err then Inr ErrorQuality
      else rbind (quality_from_market_data_type std market_data_type) (\<lambda>mapped.
        case mapped of
          Some m \<Rightarrow> Inr m
        | None \<Rightarrow>
            if explicit_delayed = Some True then Inr Delayed
            else (case (quote_time, received_at) of
                    (Some qt, Some r) \<Rightarrow>
                      if flt stale_after (total_seconds (as_utc r - as_utc qt)) then Inr Stale else Inr Live
                  | _ \<Rightarrow> Inr UnknownQuality)))"

text \<open>Only \<^verbatim>\<open>TypeError\<close> and \<^verbatim>\<open>ValueError\<close> are caught: an int beyond the float range raises.\<close>

definition clean_float :: "py_std \<Rightarrow> pyval \<Rightarrow> pyfloat option res" where
  "clean_float std value =
     (if value = VNone then Inr None
      else case py_float std value of
        Inr x \<Rightarrow> Inr (if is_finite x then Some x else None)
      | Inl OverflowError \<Rightarrow> Inl OverflowError
      | Inl _ \<Rightarrow> Inr None)"

definition implied_vol_in_valid_range :: "pyfloat option \<Rightarrow> pyfloat option" where
  "implied_vol_in_valid_range value =
     (case value of
        None \<Rightarrow> None
      | Some v \<Rightarrow> if flt (Fin 0) v \<and> fle v (Fin 10) then Some v else None)"

definition normalize_implied_vol :: "py_std \<Rightarrow> pyval \<Rightarrow> pyfloat option res" where
  "normalize_implied_vol std value =
     rbind (clean_float std value) (\<lambda>v. Inr (implied_vol_in_valid_range v))"

definition normalize_implied_vol_percent :: "py_std \<Rightarrow> pyval \<Rightarrow> pyfloat option res" where
  "normalize_implied_vol_percent std value =
     rbind (clean_float std value) (\<lambda>raw.
       case raw of
         None \<Rightarrow> Inr None
       | Some v \<Rightarrow>
           if fle v (Fin 0) then Inr None
           else rbind (fdiv v (Fin 100)) (\<lambda>x. Inr (implied_vol_in_valid_range (Some x))))"

fun bool_or_none :: "pyval list \<Rightarrow> bool option" where
  "bool_or_none [] = None"
| "bool_or_none (VBool b # vs) = Some b"
| "bool_or_none (VStr s # vs) =
     (let text = str_lower (str_strip s) in
      if text \<in> {''true'', ''1'', ''yes'', ''y''} then Some True
      else if text \<in> {''false'', ''0'', ''no'', ''n''} then Some False
      else bool_or_none vs)"
| "bool_or_none (VInt i # vs) = Some (i \<noteq> 0)"
| "bool_or_none (VFloat x # vs) = Some (fneq0 x)"
| "bool_or_none (v # vs) = bool_or_none vs"

definition elapsed_ms :: "pydt option \<Rightarrow> pydt option \<Rightarrow> pyfloat option" where
  "elapsed_ms start fin =
     (case (start, fin) of
        (Some s, Some e) \<Rightarrow> Some (fmax (fmul (total_seconds (as_utc e - as_utc s)) (Fin 1000)) (Fin 0))
      | _ \<Rightarrow> None)"

subsection \<open>Facts about prices\<close>

lemma first_present_Some:
  "first_present vs = Some x \<longleftrightarrow> (\<exists>as bs. vs = as @ Some x # bs \<and> flt (Fin 0) x
     \<and> (\<forall>y. Some y \<in> set as \<longrightarrow> \<not> flt (Fin 0) y))"
proof (induction vs rule: first_present.induct)
  case (2 vs)
  have "(\<exists>as bs. None # vs = as @ Some x # bs \<and> Q as) \<longleftrightarrow> (\<exists>as bs. vs = as @ Some x # bs \<and> Q (None # as))" for Q
    by (auto simp: Cons_eq_append_conv)
  with 2 show ?case by simp
next
  case (3 y vs)
  have "(\<exists>as bs. Some y # vs = as @ Some x # bs \<and> Q as) \<longleftrightarrow>
      y = x \<and> Q [] \<or> (\<exists>as bs. vs = as @ Some x # bs \<and> Q (Some y # as))" for Q
    by (auto simp: Cons_eq_append_conv)
  with 3 show ?case by (auto split: if_splits)
qed simp

lemma first_present_pos: "first_present vs = Some x \<Longrightarrow> flt (Fin 0) x \<and> Some x \<in> set vs"
  by (auto simp: first_present_Some)

lemma is_float_numeral [simp]: "(numeral n :: int) < 9007199254740992 \<Longrightarrow> is_float (numeral n)"
  by (simp add: is_float_def)

lemma is_float_0_1 [simp]: "is_float 0" "is_float 1"
  by (simp_all add: is_float_def)

lemma mid_Fin_between:
  assumes fl: "is_float a" "is_float b" and o: "0 \<le> b" "b \<le> a" "a < pow2 1023"
  shows "fle (Fin b) (halve (fadd (Fin b) (Fin a))) \<and> fle (halve (fadd (Fin b) (Fin a))) (Fin a)"
proof -
  have lo: "fle (Fin (2 * b)) (rne (b + a))"
    using rne_mono [of "2 * b" "b + a"] rne_double [OF fl(2)] o by simp
  have hi: "fle (rne (b + a)) (Fin (2 * a))"
    using rne_mono [of "b + a" "2 * a"] rne_double [OF fl(1)] o by simp
  from lo hi obtain s where s: "rne (b + a) = Fin s" "2 * b \<le> s" "s \<le> 2 * a"
    by (cases "rne (b + a)") auto
  have "fle (rne b) (rne (s / 2))" "fle (rne (s / 2)) (rne a)" using s by (intro rne_mono; simp)+
  then show ?thesis using s(1) fl by (simp add: halve_def is_float_def)
qed

text \<open>
  A mid price, when there is one, lies between bid and ask after float rounding, for float
  prices below half the float range; and there is none when the market is crossed, the ask
  is not positive, the bid is negative, or, outside options, the bid is zero.
\<close>

theorem mid_between_bid_and_ask:
  assumes "q_bid q = Some (Fin b)" and "q_ask q = Some (Fin a)"
    and "is_float b" and "is_float a" and "a < pow2 1023"
  shows "(\<forall>m. mid q = Some m \<longrightarrow> fle (Fin b) m \<and> fle m (Fin a))
    \<and> (mid q = None \<longleftrightarrow>
         a \<le> 0 \<or> a < b \<or> b < 0 \<or> (b = 0 \<and> in_type (q_instrument q) \<noteq> Option))"
  using mid_Fin_between [of a b] assms by (auto simp: mid_def)

definition sample_quote :: quote where
  "sample_quote =
     \<lparr>q_instrument = plain_instrument ''SPX'' Index, q_provider = Schwab, q_received_at = Aware 0 0,
      q_quality = Live, q_provider_symbol = None, q_bid = Some (Fin 1), q_ask = Some (Fin 3),
      q_last = None, q_mark = None, q_close = None, q_bid_size = None, q_ask_size = None,
      q_last_size = None, q_volume = None, q_open_interest = None, q_structure_time = None,
      q_quote_time = None, q_trade_time = None, q_last_update_at = None, q_source_latency_ms = None,
      q_market_data_type = VNone, q_greeks = None, q_sampling_mode = None, q_sampling_group = None,
      q_source_session = None, q_market_session = None, q_session_observations = [],
      q_error = None, q_raw = None\<rparr>"

lemma mid_between_bid_and_ask_witness:
  "\<exists>m. mid sample_quote = Some m \<and> fle (Fin 1) m \<and> fle m (Fin 3)"
proof -
  have "mid sample_quote \<noteq> None \<and> (\<forall>m. mid sample_quote = Some m \<longrightarrow> fle (Fin 1) m \<and> fle m (Fin 3))"
    using mid_between_bid_and_ask [of sample_quote 1 3] pow2_mono [of 2 1023]
    by (simp add: sample_quote_def plain_instrument_def pow2_def [of 2])
  then show ?thesis by blast
qed

subsection \<open>Facts about the choice\<close>

lemma quote_age_not_NaN [simp]: "quote_age_ms q as_of \<noteq> NaN"
proof -
  have "fmul (total_seconds us) (Fin 1000) \<noteq> NaN" for us
    using total_seconds_not_NaN [of us] by (cases "total_seconds us") (auto simp: fl_inf_def)
  then show ?thesis by (simp add: quote_age_ms_def Let_def)
qed

lemma fneg_NaN_iff [simp]: "fneg x = NaN \<longleftrightarrow> x = NaN"
  by (cases x) auto

fun key_ok :: "quote_key \<Rightarrow> bool" where
  "key_ok (a, b, c, d) = (c \<noteq> NaN \<and> d \<noteq> NaN)"

lemma key_ok_sort_key [simp]: "key_ok (quote_sort_key r t q)"
  by (simp add: quote_sort_key_def Let_def)

lemma flt_negtrans: "x \<noteq> NaN \<Longrightarrow> y \<noteq> NaN \<Longrightarrow> z \<noteq> NaN \<Longrightarrow> \<not> flt x y \<Longrightarrow> \<not> flt y z \<Longrightarrow> \<not> flt x z"
  by (metis fle_trans not_flt_iff)

lemma flt_asym: "flt x y \<Longrightarrow> \<not> flt y x"
  by (cases x; cases y) auto

lemma flt_total: "x \<noteq> NaN \<Longrightarrow> y \<noteq> NaN \<Longrightarrow> x \<noteq> y \<Longrightarrow> \<not> flt x y \<Longrightarrow> flt y x"
  by (cases x; cases y) auto

lemma key_less_irrefl: "\<not> key_less k k"
  by (cases k) auto

lemma key_less_asym: "key_less k k' \<Longrightarrow> \<not> key_less k' k"
  by (cases k; cases k') (auto split: if_splits dest: flt_asym)

lemma key_less_negtrans:
  assumes "key_ok k" "key_ok k'" "key_ok k''" "\<not> key_less k k'" "\<not> key_less k' k''"
  shows "\<not> key_less k k''"
proof -
  obtain a b c d a' b' c' d' a'' b'' c'' d''
    where k: "k = (a, b, c, d)" "k' = (a', b', c', d')" "k'' = (a'', b'', c'', d'')"
    by (metis surj_pair)
  have n: "c \<noteq> NaN" "c' \<noteq> NaN" "c'' \<noteq> NaN" "d \<noteq> NaN" "d' \<noteq> NaN" "d'' \<noteq> NaN"
    using assms(1-3) by (simp_all add: k)
  have 1: "a' \<le> a" "a = a' \<Longrightarrow> b' \<le> b" "a = a' \<Longrightarrow> b = b' \<Longrightarrow> \<not> flt c c'"
    "a = a' \<Longrightarrow> b = b' \<Longrightarrow> c = c' \<Longrightarrow> \<not> flt d d'"
    using assms(4) by (auto simp: k split: if_splits)
  have 2: "a'' \<le> a'" "a' = a'' \<Longrightarrow> b'' \<le> b'" "a' = a'' \<Longrightarrow> b' = b'' \<Longrightarrow> \<not> flt c' c''"
    "a' = a'' \<Longrightarrow> b' = b'' \<Longrightarrow> c' = c'' \<Longrightarrow> \<not> flt d' d''"
    using assms(5) by (auto simp: k split: if_splits)
  show ?thesis
  proof (cases "a = a'' \<and> b = b''")
    case True
    then have e: "a = a'" "a' = a''" "b = b'" "b' = b''" using 1(1,2) 2(1,2) by auto
    then have c: "\<not> flt c c''" using 1(3) 2(3) n flt_negtrans by blast
    have "\<not> flt d d''" if "c = c''"
    proof -
      have "c = c'" using that e 1(3) 2(3) n flt_total by blast
      with that e 1(4) 2(4) n flt_negtrans show ?thesis by blast
    qed
    with True c show ?thesis by (simp add: k)
  next
    case False
    then show ?thesis using 1(1,2) 2(1,2) by (auto simp: k)
  qed
qed

text \<open>
  The chosen quote is a usable one of the list that no usable quote beats in the order quality
  rank, then provider priority, then freshness, then having a mid; there is none exactly
  when no quote is usable.
\<close>

theorem choose_best_quote_spec:
  "(choose_best_quote priority as_of quotes = None \<longleftrightarrow> filter is_usable quotes = [])
   \<and> {q. choose_best_quote priority as_of quotes = Some q \<and> \<not> (q \<in> set quotes \<and> is_usable q)} = {}
   \<and> {(q, q'). choose_best_quote priority as_of quotes = Some q \<and> q' \<in> set quotes \<and> is_usable q'
        \<and> key_less (quote_sort_key (normalize_provider_priority priority) as_of q)
            (quote_sort_key (normalize_provider_priority priority) as_of q')} = {}"
proof (cases "filter is_usable quotes")
  case (Cons x xs)
  let ?key = "quote_sort_key (normalize_provider_priority priority) as_of"
  let ?m = "py_max_by (\<lambda>x y. key_less (?key x) (?key y)) x xs"
  have c: "choose_best_quote priority as_of quotes = Some ?m"
    by (simp add: choose_best_quote_def Cons Let_def)
  have s: "set quotes \<inter> Collect is_usable = insert x (set xs)"
    using arg_cong [OF Cons, of set] by auto
  have "\<not> key_less (?key ?m) (?key y)" if "y \<in> insert x (set xs)" for y
    by (rule py_max_by_not_less [OF _ _ _ that])
      (use key_less_irrefl key_less_asym key_less_negtrans key_ok_sort_key in blast)+
  moreover have "?m \<in> set quotes \<inter> Collect is_usable" unfolding s by (rule py_max_by_mem)
  ultimately show ?thesis unfolding c using s Cons by auto
qed (simp add: choose_best_quote_def)

subsection \<open>Facts about cleaned values\<close>

lemma clean_float_finite: "clean_float std v = Inr (Some x) \<Longrightarrow> is_finite x"
  by (auto simp: clean_float_def split: if_splits sum.splits py_error.splits)

text \<open>
  Every implied volatility kept by either normaliser is finite, positive and at most 10, and a
  cleaned float is always finite; the only exception \<open>clean_float\<close> lets through is the
  overflow of an int beyond the float range.
\<close>

theorem cleaned_values_bounded:
  "{x. \<exists>v. (normalize_implied_vol std v = Inr (Some x) \<or> normalize_implied_vol_percent std v = Inr (Some x))
        \<and> \<not> (is_finite x \<and> flt (Fin 0) x \<and> fle x (Fin 10))} = {}
   \<and> {x. \<exists>v. clean_float std v = Inr (Some x) \<and> \<not> is_finite x} = {}
   \<and> {v. \<exists>e. clean_float std v = Inl e \<and> \<not> (e = OverflowError \<and> (\<exists>n. v = VInt n))} = {}"
proof -
  have iv: "implied_vol_in_valid_range v = Some x \<Longrightarrow> is_finite x \<and> flt (Fin 0) x \<and> fle x (Fin 10)" for v x
    by (cases x) (auto simp: implied_vol_in_valid_range_def split: option.splits if_splits)
  have "is_finite x \<and> flt (Fin 0) x \<and> fle x (Fin 10)"
    if "normalize_implied_vol std v = Inr (Some x) \<or> normalize_implied_vol_percent std v = Inr (Some x)" for v x
    using that iv by (auto simp: normalize_implied_vol_def normalize_implied_vol_percent_def rbind_eq_Inr_iff
        split: option.splits if_splits)
  moreover have "e = OverflowError \<and> (\<exists>n. v = VInt n)" if "clean_float std v = Inl e" for v e
    using that by (cases v) (auto simp: clean_float_def py_float_def split: if_splits sum.splits py_error.splits option.splits)
  ultimately show ?thesis using clean_float_finite by blast
qed

text \<open>
  A negative age sorts as the freshest: of two usable quotes of one provider and quality the
  one dated in the future is chosen.
\<close>

lemma future_dated_quote_preferred:
  assumes "is_usable a" "is_usable b" "q_quality a = q_quality b" "q_provider a = q_provider b"
    and "fle (Fin 0) (quote_age_ms a (Some t))" "flt (quote_age_ms b (Some t)) (Fin 0)"
  shows "choose_best_quote priority t [a, b] = Some b"
proof -
  have "flt (fneg (quote_age_ms a (Some t))) (fneg (quote_age_ms b (Some t)))"
    using assms(5,6) by (cases "quote_age_ms a (Some t)"; cases "quote_age_ms b (Some t)") auto
  moreover from this have "fneg (quote_age_ms a (Some t)) \<noteq> fneg (quote_age_ms b (Some t))"
    by (cases "quote_age_ms a (Some t)"; cases "quote_age_ms b (Some t)") auto
  ultimately show ?thesis
    using assms(1-4) by (simp add: choose_best_quote_def quote_sort_key_def Let_def)
qed

end
