(* ===== verification/Quote_Use.thy ===== *)
theory Quote_Use
  imports Market_Data
begin

section \<open>Actionability of a quote (\<^verbatim>\<open>quote_use.py\<close>)\<close>

text \<open>
  One definition per step of \<open>quote_use_decision\<close>: the feed mode, the transport time, and
  the decision with its early returns. The only exception that can leave it is the one of
  \<^verbatim>\<open>int(market_data_type)\<close> on an infinite float.
\<close>

record quote_use_decision =
  ud_feed_mode :: quality
  ud_freshness :: freshness
  ud_research_usable :: bool
  ud_alert_allowed :: bool
  ud_pricing_allowed :: bool
  ud_reason :: string

definition refuse_quote :: "quality \<Rightarrow> freshness \<Rightarrow> bool \<Rightarrow> string \<Rightarrow> quote_use_decision" where
  "refuse_quote feed fresh research reason =
     \<lparr>ud_feed_mode = feed, ud_freshness = fresh, ud_research_usable = research,
      ud_alert_allowed = False, ud_pricing_allowed = False, ud_reason = reason\<rparr>"

definition feed_mode_of :: "py_std \<Rightarrow> quote \<Rightarrow> quality res" where
  "feed_mode_of std q =
     rbind (quality_from_market_data_type std (q_market_data_type q)) (\<lambda>m.
       Inr (case m of Some f \<Rightarrow> f | None \<Rightarrow> q_quality q))"

definition known_feed :: "quality \<Rightarrow> bool" where
  "known_feed f = (f \<in> {Live, Frozen, Delayed, DelayedFrozen})"

definition transport_time_of :: "quality \<Rightarrow> bool \<Rightarrow> quote \<Rightarrow> pydt option" where
  "transport_time_of feed prefer_quote_time q =
     (let t = (if prefer_quote_time then None else q_last_update_at q) in
      if t = None \<and> feed \<in> {Live, Synthetic} then
        (case q_quote_time q of Some x \<Rightarrow> Some x | None \<Rightarrow> q_trade_time q)
      else t)"

definition decide_quote_use ::
  "py_std \<Rightarrow> quality \<Rightarrow> quote \<Rightarrow> pydt \<Rightarrow> pyfloat \<Rightarrow> pyfloat \<Rightarrow> bool \<Rightarrow> bool \<Rightarrow> quote_use_decision" where
  "decide_quote_use std feed q as_of stale_after delayed_stale_after allow_frozen prefer_quote_time =
     (let research_feed = (known_feed feed \<or> feed = Synthetic);
          research_usable = (has_price q \<and> research_feed)
      in
      if \<not> has_price q then refuse_quote feed FreshUnknown False ''quote_has_no_price''
      else if q_quality q = Stale \<and> \<not> known_feed feed then
        refuse_quote feed FreshStale False ''transport_stale''
      else if q_quality q \<in> {Missing, ErrorQuality} \<or> \<not> research_feed then
        refuse_quote feed FreshUnknown False (''feed_quality_'' @ quality_value (q_quality q))
      else case transport_time_of feed prefer_quote_time q of
        None \<Rightarrow> refuse_quote feed FreshUnknown research_usable ''transport_timestamp_missing''
      | Some transport_time \<Rightarrow>
          let age_seconds = total_seconds (as_utc as_of - as_utc transport_time) in
          if flt age_seconds (Fin (- 5)) then
            refuse_quote feed FreshUnknown False ''transport_timestamp_in_future''
          else
            let threshold = (if feed \<in> {Delayed, DelayedFrozen} then delayed_stale_after else stale_after);
                fresh = (if q_quality q = Stale \<or> flt threshold age_seconds then FreshStale else FreshFresh);
                actionable_feed = (feed = Live \<or> allow_frozen \<and> feed = Frozen);
                actionable = (fresh = FreshFresh \<and> actionable_feed)
            in \<lparr>ud_feed_mode = feed, ud_freshness = fresh,
                ud_research_usable = (if fresh = FreshStale then False else research_usable),
                ud_alert_allowed = actionable, ud_pricing_allowed = actionable,
                ud_reason = (if fresh = FreshStale
                             then ''transport_stale_after_'' @ std_fmt_g std threshold @ ''s''
                             else ''fresh_'' @ quality_value feed)\<rparr>)"

definition quote_use_decision_of ::
  "py_std \<Rightarrow> quote \<Rightarrow> pydt \<Rightarrow> pyfloat \<Rightarrow> pyfloat \<Rightarrow> bool \<Rightarrow> bool \<Rightarrow> quote_use_decision res" where
  "quote_use_decision_of std q as_of stale_after delayed_stale_after allow_frozen prefer_quote_time =
     rbind (feed_mode_of std q) (\<lambda>feed.
       Inr (decide_quote_use std feed q as_of stale_after delayed_stale_after allow_frozen prefer_quote_time))"

lemmas quote_use_defs =
  decide_quote_use_def refuse_quote_def known_feed_def transport_time_of_def Let_def

lemma actionable_iff:
  "ud_pricing_allowed (decide_quote_use std feed q as_of sa da frozen pq) \<longleftrightarrow>
     has_price q \<and> q_quality q \<notin> {Stale, Missing, ErrorQuality}
     \<and> (feed = Live \<or> frozen \<and> feed = Frozen)
     \<and> (\<exists>t. transport_time_of feed pq q = Some t
          \<and> \<not> flt (total_seconds (as_utc as_of - as_utc t)) (Fin (- 5))
          \<and> \<not> flt sa (total_seconds (as_utc as_of - as_utc t)))"
proof (cases "transport_time_of feed pq q")
  case None
  then show ?thesis by (simp add: decide_quote_use_def refuse_quote_def Let_def)
next
  case (Some t)
  then show ?thesis
    by (cases feed) (simp_all add: decide_quote_use_def refuse_quote_def known_feed_def Let_def)
qed

lemma alert_is_pricing:
  "ud_alert_allowed (decide_quote_use std feed q as_of sa da frozen pq) =
   ud_pricing_allowed (decide_quote_use std feed q as_of sa da frozen pq)"
  by (simp add: decide_quote_use_def refuse_quote_def Let_def split: option.split)

lemma actionable_research:
  "ud_pricing_allowed (decide_quote_use std feed q as_of sa da frozen pq) \<Longrightarrow>
   ud_research_usable (decide_quote_use std feed q as_of sa da frozen pq)"
  unfolding actionable_iff by (elim conjE exE disjE)
    (simp_all add: decide_quote_use_def known_feed_def Let_def)

text \<open>
  C30: A quote may drive pricing and alerts exactly when it has a price, its quality is not stale,
  missing or an error, its feed is live (or frozen where allowed), and its transport time
  is known, at most five seconds ahead of the clock and not older than the threshold.
  The two permissions agree and imply that it is usable for research.
\<close>

theorem quote_actionable_iff:
  "((\<exists>d. quote_use_decision_of std q as_of sa da frozen pq = Inr d \<and> ud_pricing_allowed d) \<longleftrightarrow>
      (\<exists>feed t. feed_mode_of std q = Inr feed \<and> (feed = Live \<or> frozen \<and> feed = Frozen)
         \<and> has_price q \<and> q_quality q \<notin> {Stale, Missing, ErrorQuality}
         \<and> transport_time_of feed pq q = Some t
         \<and> \<not> flt (total_seconds (as_utc as_of - as_utc t)) (Fin (- 5))
         \<and> \<not> flt sa (total_seconds (as_utc as_of - as_utc t))))
   \<and> {d. quote_use_decision_of std q as_of sa da frozen pq = Inr d
        \<and> ud_alert_allowed d \<noteq> ud_pricing_allowed d} = {}
   \<and> {d. quote_use_decision_of std q as_of sa da frozen pq = Inr d
        \<and> ud_pricing_allowed d \<and> \<not> ud_research_usable d} = {}"
  by (cases "feed_mode_of std q")
    (auto simp: quote_use_decision_of_def actionable_iff alert_is_pricing intro: actionable_research)

end
