(* ===== verification/Market_Data_Policy.thy ===== *)
theory Market_Data_Policy
  imports Market_Data Calendar_Properties
begin

section \<open>Provider policy for SPXW pricing (\<^verbatim>\<open>market_data_policy.py\<close>)\<close>

text \<open>
  Which provider prices SPXW options in which session, and which quotes remain candidates.
  The policy relies on the calendar through two schedules that are never open together
  (\<open>default_clock\<close>). \<open>et\<close> is the ET wall clock of a UTC instant.
\<close>

definition is_spxw :: "instrument_id \<Rightarrow> bool" where
  "is_spxw i = (str_upper (text_or (in_trading_class i) []) = ''SPXW'')"

definition controlled_spxw_provider :: "string option \<Rightarrow> provider option" where
  "controlled_spxw_provider failover_mode =
     (if failover_mode = Some ''schwab_primary'' then Some Schwab
      else if failover_mode = Some ''ibkr_fallback'' then Some Ibkr
      else None)"

definition preferred_spxw_provider :: "(int \<Rightarrow> int) \<Rightarrow> pydt \<Rightarrow> provider option res" where
  "preferred_spxw_provider et as_of =
     rbind (at_et et (is_rth_open default_market_calendar) as_of) (\<lambda>rth.
       if rth then Inr (Some Schwab)
       else rbind (at_et et (is_spx_gth_open default_market_calendar) as_of) (\<lambda>gth.
         Inr (if gth then Some Ibkr else None)))"

definition provider_ref_text :: "provider_ref \<Rightarrow> string" where
  "provider_ref_text p = (case p of PrEnum x \<Rightarrow> provider_value x | PrText s \<Rightarrow> s)"

definition provider_first :: "provider \<Rightarrow> provider_ref list \<Rightarrow> provider_ref list" where
  "provider_first p configured =
     PrEnum p # filter (\<lambda>item. str_lower (provider_ref_text item) \<noteq> provider_value p) configured"

definition pricing_provider_priority ::
  "(int \<Rightarrow> int) \<Rightarrow> instrument_id \<Rightarrow> pydt \<Rightarrow> provider_ref list \<Rightarrow> string option \<Rightarrow> provider_ref list res" where
  "pricing_provider_priority et i as_of configured failover_mode =
     (if \<not> is_spxw i then Inr configured
      else case controlled_spxw_provider failover_mode of
        Some controlled \<Rightarrow> Inr (provider_first controlled configured)
      | None \<Rightarrow>
          rbind (preferred_spxw_provider et as_of) (\<lambda>preferred.
            Inr (case preferred of Some p \<Rightarrow> provider_first p configured | None \<Rightarrow> configured)))"

definition pricing_candidates ::
  "(int \<Rightarrow> int) \<Rightarrow> quote list \<Rightarrow> pydt \<Rightarrow> string option \<Rightarrow> quote list res" where
  "pricing_candidates et quotes as_of failover_mode =
     (case quotes of
        [] \<Rightarrow> Inr []
      | q # _ \<Rightarrow>
          let spxw = is_spxw (q_instrument q) in
          if spxw \<and> failover_mode \<in> {Some ''recovery_pending'', Some ''both_unavailable'', Some ''blocked''}
          then Inr []
          else
            let candidates =
              (case controlled_spxw_provider failover_mode of
                 Some controlled \<Rightarrow>
                   if spxw then filter (\<lambda>x. q_provider x = controlled) quotes else quotes
               | None \<Rightarrow> quotes)
            in rbind (preferred_spxw_provider et as_of) (\<lambda>preferred.
                 Inr (if \<not> spxw \<or> preferred \<noteq> Some Ibkr then candidates
                      else filter (\<lambda>x. q_provider x = Ibkr) candidates)))"

lemma preferred_cases:
  assumes "dt_aware as_of"
  shows "preferred_spxw_provider et as_of =
    Inr (if is_rth_open default_market_calendar (et (dt_instant as_of)) then Some Schwab
         else if is_spx_gth_open default_market_calendar (et (dt_instant as_of)) then Some Ibkr
         else None)"
  using assms by (simp add: preferred_spxw_provider_def at_et_def as_et_def)

lemma preferred_ibkr_iff:
  assumes "dt_aware as_of"
  shows "preferred_spxw_provider et as_of = Inr (Some Ibkr) \<longleftrightarrow>
    is_spx_gth_open default_market_calendar (et (dt_instant as_of))"
  using default_clock.session_cases [of "et (dt_instant as_of)"] by (auto simp: preferred_cases [OF assms])

lemma naive_raises:
  "\<not> dt_aware as_of \<Longrightarrow> preferred_spxw_provider et as_of =
     Inl (ValueError ''market calendar datetimes must be timezone-aware'')"
  by (simp add: preferred_spxw_provider_def at_et_def as_et_def)

text \<open>The filter a failover mode and the session impose on the providers of SPXW quotes.\<close>

definition spxw_allowed :: "string option \<Rightarrow> bool \<Rightarrow> provider \<Rightarrow> bool" where
  "spxw_allowed failover_mode gth p \<longleftrightarrow>
     failover_mode \<notin> {Some ''recovery_pending'', Some ''both_unavailable'', Some ''blocked''}
     \<and> (failover_mode = Some ''schwab_primary'' \<longrightarrow> p = Schwab)
     \<and> (failover_mode = Some ''ibkr_fallback'' \<longrightarrow> p = Ibkr)
     \<and> (gth \<longrightarrow> p = Ibkr)"

lemma pricing_candidates_spxw:
  assumes "dt_aware as_of" "is_spxw (q_instrument q)"
  shows "pricing_candidates et (q # qs) as_of failover_mode =
    Inr (filter (\<lambda>x. spxw_allowed failover_mode
            (is_spx_gth_open default_market_calendar (et (dt_instant as_of))) (q_provider x)) (q # qs))"
proof -
  let ?g = "is_spx_gth_open default_market_calendar (et (dt_instant as_of))"
  obtain p where p: "preferred_spxw_provider et as_of = Inr p" "p = Some Ibkr \<longleftrightarrow> ?g"
    using preferred_cases [OF assms(1), of et] preferred_ibkr_iff [OF assms(1), of et]
    by (metis sum.inject(2))
  have f: "filter P (filter Q xs) = filter (\<lambda>x. Q x \<and> P x) xs" for P Q :: "quote \<Rightarrow> bool" and xs
    by (rule filter_filter)
  show ?thesis
    using assms(2) p unfolding pricing_candidates_def spxw_allowed_def controlled_spxw_provider_def
    by (auto simp: Let_def conj_commute intro!: filter_cong)
qed

text \<open>
  C6: SPXW pricing fails closed: while a failover is unresolved there are no candidates; a
  confirmed failover mode admits only its provider; during GTH only IBKR quotes remain,
  whatever the failover mode says; and quotes of other instruments pass unfiltered.
\<close>

theorem spxw_pricing_fails_closed:
  assumes "dt_aware as_of"
  shows "pricing_candidates et quotes as_of failover_mode =
    Inr (case quotes of
           [] \<Rightarrow> []
         | q # _ \<Rightarrow>
             if is_spxw (q_instrument q)
             then filter (\<lambda>x. spxw_allowed failover_mode
                    (is_spx_gth_open default_market_calendar (et (dt_instant as_of))) (q_provider x)) quotes
             else quotes)"
proof (cases quotes)
  case (Cons q qs)
  show ?thesis
  proof (cases "is_spxw (q_instrument q)")
    case True
    then show ?thesis by (simp add: Cons pricing_candidates_spxw [OF assms True])
  next
    case False
    with preferred_cases [OF assms, of et] show ?thesis
      by (simp add: Cons pricing_candidates_def Let_def split: option.split)
  qed
qed (simp add: pricing_candidates_def)

definition spxw_quote :: "provider \<Rightarrow> quote" where
  "spxw_quote p = sample_quote
     \<lparr>q_provider := p, q_instrument := (plain_instrument ''SPX'' Option)\<lparr>in_trading_class := Some ''SPXW''\<rparr>\<rparr>"

lemma spxw_pricing_fails_closed_witness:
  "pricing_candidates (\<lambda>_. combine 2 0) [spxw_quote Schwab, spxw_quote Ibkr] (Aware 0 0) None
     = Inr [spxw_quote Ibkr]"
proof -
  have s: "is_spxw (q_instrument (spxw_quote p))" "q_provider (spxw_quote p) = p" for p
    by (simp_all add: spxw_quote_def is_spxw_def plain_instrument_def str_upper_def upper_char_def sample_quote_def)
  have "is_spx_gth_open default_market_calendar (combine 2 0)" by code_simp
  then show ?thesis
    using spxw_pricing_fails_closed [of "Aware 0 0" "\<lambda>_. combine 2 0" "[spxw_quote Schwab, spxw_quote Ibkr]" None]
    by (simp add: s spxw_allowed_def)
qed

end
