(* ===== verification/Request_Quota.thy ===== *)
theory Request_Quota
  imports Py_Value
begin

section \<open>Request and line quotas\<close>

text \<open>
  The Schwab quota machine (\<^verbatim>\<open>schwab/quota_machine.py\<close>, \<^verbatim>\<open>schwab/request_models.py\<close>),
  the split of IBKR market-data lines (\<^verbatim>\<open>ibkr/stream/quota_plan.py\<close>), the capacity
  estimate with its persisted form (\<^verbatim>\<open>ibkr/stream/capacity_tracker.py\<close>) and the slow-poll
  scheduler (\<^verbatim>\<open>ibkr/slow_poll.py\<close>). An int compares with a float by value, hence
  \<open>Fin (of_int n)\<close> in comparisons.
\<close>

subsection \<open>The Schwab quota machine\<close>

datatype quota_mode = QNormal | QPressure | QThrottled | QCooldown | QRecovering

record request_window =
  rw_attempts :: int
  rw_retries :: int
  rw_throttled :: int
  rw_failures :: int
  rw_response_bytes :: int

record quota_policy =
  qp_nominal :: int
  qp_planned :: int
  qp_pressure_fraction :: pyfloat
  qp_recovery_fraction :: pyfloat
  qp_recovery_successes :: int

definition quota_policy_post_init :: "quota_policy \<Rightarrow> unit res" where
  "quota_policy_post_init p =
     rbind (guard_raise (qp_nominal p \<le> 0) (ValueError ''nominal request capacity must be positive'')) (\<lambda>_.
     rbind (guard_raise (\<not> (0 < qp_planned p \<and> qp_planned p < qp_nominal p))
       (ValueError ''planned request capacity must preserve provider reserve'')) (\<lambda>_.
     guard_raise (\<not> (flt (Fin 0) (qp_recovery_fraction p)
         \<and> flt (qp_recovery_fraction p) (qp_pressure_fraction p) \<and> flt (qp_pressure_fraction p) (Fin 1)))
       (ValueError ''quota fractions must satisfy recovery < pressure < 1'')))"

record quota_state =
  qs_mode :: quota_mode
  qs_consecutive_successes :: int
  qs_stable_windows :: int

definition quota_at :: "quota_mode \<Rightarrow> quota_state" where
  "quota_at m = \<lparr>qs_mode = m, qs_consecutive_successes = 0, qs_stable_windows = 0\<rparr>"

definition advance_quota_state ::
  "quota_policy \<Rightarrow> quota_state \<Rightarrow> request_window \<Rightarrow> bool \<Rightarrow> quota_state res" where
  "advance_quota_state policy state window retry_after_elapsed =
     (if rw_throttled window \<noteq> 0 then Inr (quota_at QThrottled)
      else case qs_mode state of
        QThrottled \<Rightarrow> if \<not> retry_after_elapsed then Inr state else Inr (quota_at QCooldown)
      | QCooldown \<Rightarrow>
          let successes = (if rw_failures window \<noteq> 0 then 0
            else qs_consecutive_successes state + max (rw_attempts window - rw_failures window) 0)
          in if successes \<ge> qp_recovery_successes policy then Inr (quota_at QRecovering)
             else Inr ((quota_at QCooldown)\<lparr>qs_consecutive_successes := successes\<rparr>)
      | QRecovering \<Rightarrow>
          if rw_failures window \<noteq> 0 then Inr (quota_at QPressure)
          else let stable = qs_stable_windows state + 1 in
            if stable \<ge> 5 then Inr (quota_at QNormal)
            else Inr ((quota_at QRecovering)\<lparr>qs_stable_windows := stable\<rparr>)
      | _ \<Rightarrow>
          rbind (float_of_int (qp_nominal policy)) (\<lambda>nominal.
            let pressure_at = fmul nominal (qp_pressure_fraction policy);
                recover_at = fmul nominal (qp_recovery_fraction policy);
                attempts = Fin (of_int (rw_attempts window))
            in if fle pressure_at attempts then Inr (quota_at QPressure)
               else if qs_mode state = QPressure \<and> flt attempts recover_at \<and> rw_failures window = 0
               then Inr (quota_at QNormal)
               else Inr state))"

definition lane_allowed :: "quota_mode \<Rightarrow> int \<Rightarrow> bool" where
  "lane_allowed mode priority =
     (if mode = QThrottled then False
      else if mode = QCooldown then priority \<le> 1
      else if mode = QPressure then priority \<le> 3
      else True)"

text \<open>A history of windows, each with the retry-after flag, until an exception.\<close>

fun quota_run :: "quota_policy \<Rightarrow> quota_state \<Rightarrow> (request_window \<times> bool) list \<Rightarrow> quota_state res" where
  "quota_run policy s [] = Inr s"
| "quota_run policy s ((w, r) # ws) = rbind (advance_quota_state policy s w r) (\<lambda>t. quota_run policy t ws)"

text \<open>The least number of windows before the mode can be normal again.\<close>

definition windows_to_normal :: "quota_state \<Rightarrow> nat" where
  "windows_to_normal s =
     (case qs_mode s of
        QNormal \<Rightarrow> 0 | QPressure \<Rightarrow> 1
      | QRecovering \<Rightarrow> if qs_stable_windows s < 4 then 2 else 1
      | QCooldown \<Rightarrow> 3 | QThrottled \<Rightarrow> 4)"

lemma advance_quota_step:
  "advance_quota_state policy s w r = Inr t \<Longrightarrow> windows_to_normal s \<le> Suc (windows_to_normal t)"
  by (cases "qs_mode s")
    (auto simp: windows_to_normal_def advance_quota_state_def quota_at_def Let_def rbind_eq_Inr_iff
      split: if_splits)

lemma quota_run_distance:
  "quota_run policy s ws = Inr t \<Longrightarrow> windows_to_normal s \<le> length ws + windows_to_normal t"
proof (induction ws arbitrary: s)
  case (Cons a ws)
  obtain w r where a: "a = (w, r)" by (cases a)
  from Cons.prems obtain u where u: "advance_quota_state policy s w r = Inr u" "quota_run policy u ws = Inr t"
    by (auto simp: a rbind_eq_Inr_iff)
  from advance_quota_step [OF u(1)] Cons.IH [OF u(2)] show ?case by simp
qed simp

text \<open>The invariant: each counter is used only in the mode that counts with it.\<close>

definition quota_inv :: "quota_policy \<Rightarrow> quota_state \<Rightarrow> bool" where
  "quota_inv policy s \<longleftrightarrow>
     0 \<le> qs_consecutive_successes s \<and> 0 \<le> qs_stable_windows s \<and> qs_stable_windows s < 5
     \<and> (qs_consecutive_successes s = 0 \<or> qs_mode s = QCooldown)
     \<and> (qs_stable_windows s = 0 \<or> qs_mode s = QRecovering)
     \<and> (qs_consecutive_successes s = 0 \<or> qs_consecutive_successes s < qp_recovery_successes policy)"

lemma quota_inv_at [simp]: "quota_inv policy (quota_at m)"
  by (simp add: quota_inv_def quota_at_def)

lemma quota_inv_advance:
  assumes "quota_inv policy s" "advance_quota_state policy s w r = Inr t"
  shows "quota_inv policy t"
proof (cases "rw_throttled w \<noteq> 0")
  case True
  with assms(2) show ?thesis by (auto simp: advance_quota_state_def)
next
  case False
  have new: "quota_inv policy ((quota_at QCooldown)\<lparr>qs_consecutive_successes := n\<rparr>)"
    if "0 \<le> n" "n < qp_recovery_successes policy" for n
    using that by (simp add: quota_inv_def quota_at_def)
  have stab: "quota_inv policy ((quota_at QRecovering)\<lparr>qs_stable_windows := n\<rparr>)"
    if "0 \<le> n" "n < 5" for n
    using that by (simp add: quota_inv_def quota_at_def)
  have nn: "0 \<le> qs_consecutive_successes s" "0 \<le> qs_stable_windows s"
    using assms(1) by (simp_all add: quota_inv_def)
  show ?thesis
    using assms False nn
    by (cases "qs_mode s")
      (auto simp: advance_quota_state_def Let_def rbind_eq_Inr_iff not_le intro!: new stab
        split: if_splits)
qed

lemma quota_inv_run: "quota_inv policy s \<Longrightarrow> quota_run policy s ws = Inr t \<Longrightarrow> quota_inv policy t"
proof (induction ws arbitrary: s)
  case (Cons a ws)
  then show ?case by (cases a) (auto simp: rbind_eq_Inr_iff intro: quota_inv_advance)
qed simp

text \<open>
  After a throttled window no request lane is admitted until the retry-after time has
  elapsed, then only priorities up to one, and normal operation is back only after at least
  four further windows; the counters of every reached state stay within their bounds.
\<close>

theorem throttle_recovery:
  "{t. \<exists>ws. quota_run policy (quota_at QThrottled) ws = Inr t
        \<and> qs_mode t = QNormal \<and> length ws < 4} = {}
   \<and> {t. \<exists>ws. quota_run policy (quota_at QThrottled) ws = Inr t \<and> \<not> quota_inv policy t} = {}
   \<and> {(w, r, t). advance_quota_state policy (quota_at QThrottled) w r = Inr t
        \<and> qs_mode t \<noteq> QThrottled
        \<and> \<not> (r \<and> rw_throttled w = 0 \<and> t = quota_at QCooldown)} = {}
   \<and> {p. lane_allowed QThrottled p} = {} \<and> {p. lane_allowed QCooldown p} = {..1}"
proof -
  have "\<not> (qs_mode t = QNormal \<and> length ws < 4) \<and> quota_inv policy t"
    if "quota_run policy (quota_at QThrottled) ws = Inr t" for t ws
    using quota_run_distance [OF that] quota_inv_run [OF quota_inv_at that] by (auto simp: quota_at_def windows_to_normal_def)
  then show ?thesis
    by (auto simp: advance_quota_state_def lane_allowed_def quota_at_def split: if_splits)
qed

subsection \<open>IBKR option lines\<close>

datatype ibkr_quota_mode = QValidation | QFallback

record ibkr_option_allocation =
  al_mode :: ibkr_quota_mode
  al_discovered_capacity :: int
  al_base_lines :: int
  al_temporary_lines :: int
  al_hot_option_lines :: int
  al_rotation_option_lines :: int
  al_reserve_lines :: int

definition option_lines :: "ibkr_option_allocation \<Rightarrow> int" where
  "option_lines a = al_hot_option_lines a + al_rotation_option_lines a"

definition hot_lane_share :: "ibkr_option_allocation \<Rightarrow> pyfloat" where
  "hot_lane_share a =
     (if option_lines a \<noteq> 0 then rne (of_int (al_hot_option_lines a) / of_int (option_lines a)) else Fin 0)"

definition plan_ibkr_option_allocation :: "int \<Rightarrow> bool \<Rightarrow> int \<Rightarrow> int \<Rightarrow> ibkr_option_allocation res" where
  "plan_ibkr_option_allocation discovered fallback base_lines temporary_lines =
     rbind (guard_raise (discovered \<le> 0) (ValueError ''IBKR discovered line capacity must be positive'')) (\<lambda>_.
       let mode = (if fallback then QFallback else QValidation);
           (target_hot, target_rotation, minimum_reserve) = (if fallback then (46, 38, 6) else (44, 20, 20));
           usable = max (discovered - base_lines - temporary_lines - minimum_reserve) 0;
           hot0 = min target_hot usable;
           hot = hot0 - hot0 mod 2;
           rotation0 = min target_rotation (max (usable - hot) 0);
           rotation = rotation0 - rotation0 mod 2;
           reserve = discovered - base_lines - temporary_lines - hot - rotation
       in Inr \<lparr>al_mode = mode, al_discovered_capacity = discovered, al_base_lines = base_lines,
               al_temporary_lines = temporary_lines, al_hot_option_lines = hot,
               al_rotation_option_lines = rotation, al_reserve_lines = reserve\<rparr>)"

definition minimum_reserve_of :: "bool \<Rightarrow> int" where
  "minimum_reserve_of fallback = (if fallback then 6 else 20)"

lemma even_round_down: "0 \<le> x \<Longrightarrow> 0 \<le> x - x mod 2 \<and> x - x mod 2 \<le> x \<and> even (x - x mod 2)" for x :: int
  using pos_mod_bound [of 2 x] by (auto simp: minus_mod_eq_mult_div)

lemma full_allocation:
  "map_sum id option_lines (plan_ibkr_option_allocation 100 fallback 4 6) = Inr (if fallback then 84 else 64)"
proof (cases fallback)
  case True
  have "map_sum id option_lines (plan_ibkr_option_allocation 100 True 4 6) = Inr 84" by code_simp
  with True show ?thesis by simp
next
  case False
  have "map_sum id option_lines (plan_ibkr_option_allocation 100 False 4 6) = Inr 64" by code_simp
  with False show ?thesis by simp
qed

text \<open>
  C39: An allocation spends exactly the discovered lines; hot and rotating lines come in call/put
  pairs, are never negative and never exceed their targets, and what they leave is at least
  the mode's reserve, or everything beside the base and temporary lines when the capacity
  is too small for a reserve. A capacity of 100 with the default lines reaches the targets.
\<close>

theorem allocation_within_capacity:
  assumes "plan_ibkr_option_allocation cap fallback base temp = Inr a"
  shows "al_base_lines a + al_temporary_lines a + option_lines a + al_reserve_lines a = cap
    \<and> even (al_hot_option_lines a) \<and> even (al_rotation_option_lines a)
    \<and> 0 \<le> al_hot_option_lines a \<and> al_hot_option_lines a \<le> (if fallback then 46 else 44)
    \<and> 0 \<le> al_rotation_option_lines a \<and> al_rotation_option_lines a \<le> (if fallback then 38 else 20)
    \<and> min (minimum_reserve_of fallback) (cap - base - temp) \<le> al_reserve_lines a
    \<and> map_sum id option_lines (plan_ibkr_option_allocation 100 fallback 4 6) = Inr (if fallback then 84 else 64)"
proof -
  define th tr mr :: int where "th = (if fallback then 46 else 44)" and "tr = (if fallback then 38 else 20)"
    and "mr = (if fallback then 6 else 20)"
  define u where "u = max (cap - base - temp - mr) 0"
  define h0 where "h0 = min th u"
  define h where "h = h0 - h0 mod 2"
  define r0 where "r0 = min tr (max (u - h) 0)"
  define r where "r = r0 - r0 mod 2"
  have a: "a = \<lparr>al_mode = (if fallback then QFallback else QValidation), al_discovered_capacity = cap,
      al_base_lines = base, al_temporary_lines = temp, al_hot_option_lines = h,
      al_rotation_option_lines = r, al_reserve_lines = cap - base - temp - h - r\<rparr>"
    using assms
    unfolding plan_ibkr_option_allocation_def rbind_eq_Inr_iff h_def h0_def r_def r0_def
      u_def th_def tr_def mr_def Let_def
    by (cases fallback) (simp_all only: if_True if_False prod.case sum.inject simp_thms guard_raise_eq_Inr)
  have u: "0 \<le> u" "0 \<le> th" "0 \<le> tr" by (simp_all add: u_def th_def tr_def)
  have h: "0 \<le> h" "h \<le> h0" "even h" using even_round_down [of h0] u by (auto simp: h_def h0_def)
  have r: "0 \<le> r" "r \<le> r0" "even r" using even_round_down [of r0] u by (auto simp: r_def r0_def)
  have "h \<le> u" "h + r \<le> u" using h r by (auto simp: h0_def r0_def)
  then have "min mr (cap - base - temp) \<le> cap - base - temp - h - r"
    by (auto simp: u_def split: if_splits)
  moreover have "h \<le> th" "r \<le> tr" using h r by (simp_all add: h0_def r0_def)
  ultimately show ?thesis
    using h r full_allocation [of fallback]
    by (simp add: a option_lines_def minimum_reserve_of_def th_def tr_def mr_def)
qed

lemma allocation_within_capacity_witness:
  "al_reserve_lines \<lparr>al_mode = QValidation, al_discovered_capacity = 60, al_base_lines = 4,
      al_temporary_lines = 6, al_hot_option_lines = 30, al_rotation_option_lines = 0,
      al_reserve_lines = 20\<rparr> \<ge> 20
   \<and> plan_ibkr_option_allocation 60 False 4 6 = Inr \<lparr>al_mode = QValidation, al_discovered_capacity = 60,
      al_base_lines = 4, al_temporary_lines = 6, al_hot_option_lines = 30, al_rotation_option_lines = 0,
      al_reserve_lines = 20\<rparr>"
proof -
  have p: "plan_ibkr_option_allocation 60 False 4 6 = Inr \<lparr>al_mode = QValidation, al_discovered_capacity = 60,
      al_base_lines = 4, al_temporary_lines = 6, al_hot_option_lines = 30, al_rotation_option_lines = 0,
      al_reserve_lines = 20\<rparr>" by code_simp
  show ?thesis using allocation_within_capacity [OF p] p by (simp add: minimum_reserve_of_def)
qed

end
