(* ===== verification/Line_Capacity.thy ===== *)
theory Line_Capacity
  imports Py_Value
begin

section \<open>Market-data line capacity and slow polling\<close>

text \<open>
  The runtime estimate of concurrent IBKR lines (\<^verbatim>\<open>ibkr/stream/capacity_tracker.py\<close>) and the
  chunk scheduler (\<^verbatim>\<open>ibkr/slow_poll.py\<close>). The JSON file is the argument \<open>payload\<close> of the
  loader: \<open>None\<close> when it is absent or unreadable. An operation that writes the file returns
  whether it did.
\<close>

subsection \<open>The capacity estimate\<close>

record capacity_estimate =
  ce_configured :: int
  ce_estimated :: int
  ce_observed_lower_bound :: int
  ce_active_high_watermark :: int
  ce_consecutive_full_successes :: int
  ce_last_rejection_at :: "string option"
  ce_last_updated_at :: "string option"

definition capacity_initial :: "int \<Rightarrow> capacity_estimate" where
  "capacity_initial configured =
     (let capacity = max configured 1 in
      \<lparr>ce_configured = capacity, ce_estimated = capacity, ce_observed_lower_bound = 0,
       ce_active_high_watermark = 0, ce_consecutive_full_successes = 0,
       ce_last_rejection_at = None, ce_last_updated_at = None\<rparr>)"

definition effective_capacity :: "capacity_estimate \<Rightarrow> int" where
  "effective_capacity s = min (ce_estimated s) (ce_configured s)"

definition observe_success :: "capacity_estimate \<Rightarrow> int \<Rightarrow> int \<Rightarrow> capacity_estimate \<times> bool" where
  "observe_success state active_lines stamp =
     (let active = max active_lines 0;
          previous_estimate = ce_estimated state;
          full = (if active \<ge> ce_estimated state then ce_consecutive_full_successes state + 1 else 0);
          grow = (full \<ge> 10 \<and> ce_estimated state < ce_configured state);
          estimated = (if grow then ce_estimated state + 1 else ce_estimated state);
          changed = (estimated \<noteq> previous_estimate)
      in (state\<lparr>ce_observed_lower_bound := max (ce_observed_lower_bound state) active,
                ce_active_high_watermark := max (ce_active_high_watermark state) active,
                ce_consecutive_full_successes := (if grow then 0 else full),
                ce_estimated := estimated,
                ce_last_updated_at := (if changed then Some (isoformat stamp) else ce_last_updated_at state)\<rparr>,
          changed))"

fun text_prefix :: "string \<Rightarrow> string \<Rightarrow> bool" where
  "text_prefix [] s = True"
| "text_prefix (c # p) [] = False"
| "text_prefix (c # p) (d # s) = (c = d \<and> text_prefix p s)"

fun text_contains :: "string \<Rightarrow> string \<Rightarrow> bool" where
  "text_contains p [] = text_prefix p []"
| "text_contains p (c # s) = (text_prefix p (c # s) \<or> text_contains p s)"

definition is_ticker_limit_error :: "int \<Rightarrow> string \<Rightarrow> bool" where
  "is_ticker_limit_error error_code message =
     (let lowered = str_lower message in
      error_code \<in> {101}
      \<or> list_ex (\<lambda>marker. text_contains marker lowered)
          [''max number of tickers'', ''maximum number of market data'', ''market data lines''])"

definition observe_error ::
  "capacity_estimate \<Rightarrow> int \<Rightarrow> string \<Rightarrow> int \<Rightarrow> int \<Rightarrow> capacity_estimate \<times> bool" where
  "observe_error state error_code message active_lines stamp =
     (if \<not> is_ticker_limit_error error_code message then (state, False)
      else
        let active = max active_lines 1;
            lower = max (ce_observed_lower_bound state) active
        in (state\<lparr>ce_observed_lower_bound := lower,
                  ce_active_high_watermark := max (ce_active_high_watermark state) active,
                  ce_estimated := min (ce_estimated state) (max active lower),
                  ce_consecutive_full_successes := 0,
                  ce_last_rejection_at := Some (isoformat stamp),
                  ce_last_updated_at := Some (isoformat stamp)\<rparr>, True))"

text \<open>\<^verbatim>\<open>_positive_int\<close> catches only \<^verbatim>\<open>TypeError\<close> and \<^verbatim>\<open>ValueError\<close>.\<close>

definition positive_int :: "pyval \<Rightarrow> int option res" where
  "positive_int value =
     (case py_int value of
        Inr parsed \<Rightarrow> Inr (if 0 < parsed then Some parsed else None)
      | Inl OverflowError \<Rightarrow> Inl OverflowError
      | Inl _ \<Rightarrow> Inr None)"

definition optional_text_or_none :: "py_std \<Rightarrow> pyval \<Rightarrow> string option" where
  "optional_text_or_none std value = (if py_true value then Some (py_str std value) else None)"

definition load_capacity_estimate :: "py_std \<Rightarrow> pyval option \<Rightarrow> int \<Rightarrow> capacity_estimate res" where
  "load_capacity_estimate std payload configured =
     (let initial = capacity_initial configured in
      case payload of
        Some (VDict d) \<Rightarrow>
          rbind (positive_int (dget d ''estimated_capacity'')) (\<lambda>e.
          let estimated = (case e of Some n \<Rightarrow> n | None \<Rightarrow> ce_estimated initial) in
          rbind (py_int (dget_default d ''observed_lower_bound'' (VInt 0))) (\<lambda>lower.
          rbind (py_int (dget_default d ''active_high_watermark'' (VInt 0))) (\<lambda>high.
          rbind (py_int (dget_default d ''consecutive_full_successes'' (VInt 0))) (\<lambda>full.
            Inr \<lparr>ce_configured = ce_configured initial,
                 ce_estimated = min estimated (ce_configured initial),
                 ce_observed_lower_bound = max lower 0, ce_active_high_watermark = max high 0,
                 ce_consecutive_full_successes = max full 0,
                 ce_last_rejection_at = optional_text_or_none std (dget d ''last_rejection_at''),
                 ce_last_updated_at = optional_text_or_none std (dget d ''last_updated_at'')\<rparr>))))
      | _ \<Rightarrow> Inr initial)"

text \<open>\<^verbatim>\<open>active_market_data_lines\<close> counts the distinct labels of the six subscription tables.\<close>

definition active_market_data_lines :: "string list list \<Rightarrow> int" where
  "active_market_data_lines subscriptions = int (length (remdups (concat subscriptions)))"

text \<open>The events a tracker sees.\<close>

datatype capacity_event =
    LinesActive int int
  | LinesRejected int string int int

fun capacity_step :: "capacity_estimate \<Rightarrow> capacity_event \<Rightarrow> capacity_estimate" where
  "capacity_step s (LinesActive n stamp) = fst (observe_success s n stamp)"
| "capacity_step s (LinesRejected code message n stamp) = fst (observe_error s code message n stamp)"

definition capacity_inv :: "capacity_estimate \<Rightarrow> bool" where
  "capacity_inv s \<longleftrightarrow>
     1 \<le> ce_estimated s \<and> ce_estimated s \<le> ce_configured s
     \<and> 0 \<le> ce_observed_lower_bound s \<and> 0 \<le> ce_active_high_watermark s
     \<and> 0 \<le> ce_consecutive_full_successes s"

lemma positive_int_pos: "positive_int v = Inr (Some n) \<Longrightarrow> 0 < n"
  by (auto simp: positive_int_def split: sum.splits py_error.splits if_splits)

lemma capacity_initial_sel [simp]:
  "ce_configured (capacity_initial n) = max n 1" "ce_estimated (capacity_initial n) = max n 1"
  by (simp_all add: capacity_initial_def Let_def)

lemma load_no_dict:
  "(\<And>d. payload \<noteq> Some (VDict d)) \<Longrightarrow> load_capacity_estimate std payload configured = Inr (capacity_initial configured)"
  by (simp add: load_capacity_estimate_def Let_def split: option.split pyval.split)

lemma load_estimate:
  assumes "load_capacity_estimate std payload configured = Inr s"
  shows "capacity_inv s \<and> ce_configured s = max configured 1"
proof (cases "\<exists>d. payload = Some (VDict d)")
  case True
  then obtain d where "payload = Some (VDict d)" by blast
  with assms obtain e where e: "positive_int (dget d ''estimated_capacity'') = Inr e"
    and "ce_configured s = max configured 1"
    and "ce_estimated s = min (case e of Some n \<Rightarrow> n | None \<Rightarrow> ce_estimated (capacity_initial configured)) (max configured 1)"
    and "0 \<le> ce_observed_lower_bound s" "0 \<le> ce_active_high_watermark s"
    and "0 \<le> ce_consecutive_full_successes s"
    by (auto simp: load_capacity_estimate_def rbind_eq_Inr_iff Let_def)
  then show ?thesis using positive_int_pos [of "dget d ''estimated_capacity''"]
    by (cases e) (auto simp: capacity_inv_def)
next
  case False
  with assms load_no_dict have "s = capacity_initial configured" by (metis sum.inject(2))
  then show ?thesis by (simp add: capacity_inv_def capacity_initial_def Let_def)
qed

lemma capacity_step_inv:
  assumes "capacity_inv s"
  shows "capacity_inv (capacity_step s e)"
  using assms by (cases e) (auto simp: observe_success_def observe_error_def capacity_inv_def Let_def)

lemma capacity_step_growth:
  "ce_estimated (capacity_step s e) \<le> ce_estimated s + 1
   \<and> ce_configured (capacity_step s e) = ce_configured s
   \<and> ce_observed_lower_bound s \<le> ce_observed_lower_bound (capacity_step s e)"
  by (cases e) (auto simp: observe_success_def observe_error_def Let_def)

lemma capacity_run_inv:
  "capacity_inv s \<Longrightarrow> capacity_inv (foldl capacity_step s es)
     \<and> ce_configured (foldl capacity_step s es) = ce_configured s"
proof (induction es arbitrary: s)
  case (Cons e es)
  then show ?case using capacity_step_inv [of s e] capacity_step_growth [of s e] by simp
qed simp

text \<open>Counting towards the next probe: below the limit an estimate grows only after ten full windows.\<close>

definition full_count_inv :: "capacity_estimate \<Rightarrow> bool" where
  "full_count_inv s \<longleftrightarrow> ce_estimated s < ce_configured s \<longrightarrow> ce_consecutive_full_successes s < 10"

lemma full_count_step: "full_count_inv s \<Longrightarrow> full_count_inv (capacity_step s e)"
  by (cases e) (auto simp: full_count_inv_def observe_success_def observe_error_def Let_def)

lemma growth_needs_ten:
  assumes "full_count_inv s"
  shows "ce_estimated (capacity_step s e) > ce_estimated s \<longleftrightarrow>
    (\<exists>n stamp. e = LinesActive n stamp \<and> ce_estimated s \<le> max n 0
       \<and> ce_consecutive_full_successes s = 9 \<and> ce_estimated s < ce_configured s)"
  using assms by (cases e) (auto simp: full_count_inv_def observe_success_def observe_error_def Let_def)

text \<open>
  Whatever the persisted payload and the events, the estimate stays between one line and the
  configured capacity, so the effective capacity is the estimate; no event raises it by
  more than one line, and a rejection never raises it.
\<close>

theorem capacity_estimate_bounded:
  "{s. \<exists>payload es. load_capacity_estimate std payload configured = Inr s
        \<and> \<not> (let t = foldl capacity_step s es in
             1 \<le> effective_capacity t \<and> effective_capacity t \<le> max configured 1
             \<and> effective_capacity t = ce_estimated t)} = {}
   \<and> ce_estimated (capacity_step s e) \<le> ce_estimated s + 1
   \<and> ce_estimated (fst (observe_error s code message n stamp)) \<le> ce_estimated s"
proof -
  have "let t = foldl capacity_step s es in 1 \<le> effective_capacity t
      \<and> effective_capacity t \<le> max configured 1 \<and> effective_capacity t = ce_estimated t"
    if "load_capacity_estimate std payload configured = Inr s" for s payload es
    using capacity_run_inv [of s es] load_estimate [OF that]
    by (simp add: effective_capacity_def capacity_inv_def Let_def)
  then show ?thesis
    using capacity_step_growth [of s e] by (auto simp: observe_error_def Let_def)
qed

subsection \<open>The slow-poll scheduler\<close>

datatype slow_poll_step = PollNone | PollStart int | PollFinish int

record slow_poll =
  sp_chunk_count :: int
  sp_cycle_seconds :: pyfloat
  sp_hold_seconds :: pyfloat
  sp_next_chunk_index :: int
  sp_active_chunk_index :: "int option"
  sp_hold_deadline :: "pyfloat option"
  sp_next_start_at :: "pyfloat option"

text \<open>\<^verbatim>\<open>cycle / chunk_count\<close> converts the count to float first, which may overflow.\<close>

definition spacing_seconds :: "slow_poll \<Rightarrow> pyfloat res" where
  "spacing_seconds s =
     (if sp_chunk_count s \<le> 0 then Inr (sp_cycle_seconds s)
      else rbind (float_of_int (sp_chunk_count s)) (\<lambda>n. fdiv (sp_cycle_seconds s) n))"

definition slow_poll_reset :: "slow_poll \<Rightarrow> pyfloat \<Rightarrow> slow_poll" where
  "slow_poll_reset s now =
     s\<lparr>sp_next_chunk_index := 0, sp_active_chunk_index := None, sp_hold_deadline := None,
       sp_next_start_at := Some now\<rparr>"

definition slow_poll_advance :: "slow_poll \<Rightarrow> pyfloat \<Rightarrow> (slow_poll \<times> slow_poll_step) res" where
  "slow_poll_advance s now =
     (if sp_chunk_count s \<le> 0 then Inr (s, PollNone)
      else case sp_active_chunk_index s of
        Some completed \<Rightarrow>
          if sp_hold_deadline s = None \<or> flt now (the (sp_hold_deadline s)) then Inr (s, PollNone)
          else Inr (s\<lparr>sp_active_chunk_index := None, sp_hold_deadline := None\<rparr>, PollFinish completed)
      | None \<Rightarrow>
          let start_at = (case sp_next_start_at s of Some t \<Rightarrow> t | None \<Rightarrow> now);
              s = s\<lparr>sp_next_start_at := Some start_at\<rparr>
          in if flt now start_at then Inr (s, PollNone)
             else rbind (spacing_seconds s) (\<lambda>spacing.
               let chunk_index = sp_next_chunk_index s in
               Inr (s\<lparr>sp_next_chunk_index := (sp_next_chunk_index s + 1) mod sp_chunk_count s,
                      sp_active_chunk_index := Some chunk_index,
                      sp_hold_deadline := Some (fadd now (fmax (sp_hold_seconds s) (Fin 0))),
                      sp_next_start_at := Some (fadd now (fmax spacing (Fin 0)))\<rparr>,
                    PollStart chunk_index)))"

definition abort_active :: "slow_poll \<Rightarrow> pyfloat \<Rightarrow> pyfloat \<Rightarrow> bool \<Rightarrow> slow_poll" where
  "abort_active s now retry_after retry_same_chunk =
     s\<lparr>sp_next_chunk_index :=
         (if retry_same_chunk then (case sp_active_chunk_index s of Some i \<Rightarrow> i | None \<Rightarrow> sp_next_chunk_index s)
          else sp_next_chunk_index s),
       sp_active_chunk_index := None, sp_hold_deadline := None,
       sp_next_start_at := Some (fadd now (fmax retry_after (Fin 0)))\<rparr>"

definition slow_poll_inv :: "slow_poll \<Rightarrow> bool" where
  "slow_poll_inv s \<longleftrightarrow> 0 < sp_chunk_count s
     \<and> 0 \<le> sp_next_chunk_index s \<and> sp_next_chunk_index s < sp_chunk_count s
     \<and> (sp_active_chunk_index s = None \<longleftrightarrow> sp_hold_deadline s = None)
     \<and> (\<forall>i. sp_active_chunk_index s = Some i \<longrightarrow> sp_next_chunk_index s = (i + 1) mod sp_chunk_count s
          \<and> 0 \<le> i \<and> i < sp_chunk_count s)"

lemma slow_poll_inv_reset: "0 < sp_chunk_count s \<Longrightarrow> slow_poll_inv (slow_poll_reset s now)"
  by (simp add: slow_poll_inv_def slow_poll_reset_def)

lemma slow_poll_inv_abort: "slow_poll_inv s \<Longrightarrow> slow_poll_inv (abort_active s now r b)"
  by (auto simp: slow_poll_inv_def abort_active_def split: option.splits)

text \<open>What one successful advance can do.\<close>

lemma slow_poll_advance_cases:
  assumes "slow_poll_inv s" "slow_poll_advance s now = Inr (t, step)"
  shows "sp_chunk_count t = sp_chunk_count s \<and>
     ((step = PollNone \<and> sp_next_chunk_index t = sp_next_chunk_index s
         \<and> sp_active_chunk_index t = sp_active_chunk_index s \<and> sp_hold_deadline t = sp_hold_deadline s)
      \<or> (\<exists>i. sp_active_chunk_index s = Some i \<and> step = PollFinish i \<and> sp_active_chunk_index t = None
           \<and> sp_hold_deadline t = None \<and> sp_next_chunk_index t = sp_next_chunk_index s)
      \<or> (sp_active_chunk_index s = None \<and> step = PollStart (sp_next_chunk_index s)
           \<and> sp_active_chunk_index t = Some (sp_next_chunk_index s) \<and> sp_hold_deadline t \<noteq> None
           \<and> sp_next_chunk_index t = (sp_next_chunk_index s + 1) mod sp_chunk_count s))"
proof (cases "sp_active_chunk_index s")
  case None
  define s' where "s' = s\<lparr>sp_next_start_at := Some (case sp_next_start_at s of Some t \<Rightarrow> t | None \<Rightarrow> now)\<rparr>"
  have s': "sp_chunk_count s' = sp_chunk_count s" "sp_next_chunk_index s' = sp_next_chunk_index s"
    "sp_active_chunk_index s' = sp_active_chunk_index s" "sp_hold_deadline s' = sp_hold_deadline s"
    by (simp_all add: s'_def)
  have "0 < sp_chunk_count s" using assms(1) by (simp add: slow_poll_inv_def)
  with assms(2) None show ?thesis
    unfolding slow_poll_advance_def Let_def s'_def [symmetric]
    by (simp add: rbind_eq_Inr_iff split: if_splits) (use s' in auto)
next
  case (Some i)
  with assms show ?thesis by (auto simp: slow_poll_advance_def slow_poll_inv_def split: if_splits)
qed

lemma slow_poll_inv_advance:
  assumes "slow_poll_inv s" "slow_poll_advance s now = Inr (t, step)"
  shows "slow_poll_inv t"
  using slow_poll_advance_cases [OF assms] assms(1) by (auto simp: slow_poll_inv_def)

text \<open>A run of successful advances: the steps it reports.\<close>

fun slow_poll_run :: "slow_poll \<Rightarrow> pyfloat list \<Rightarrow> (slow_poll \<times> slow_poll_step list) res" where
  "slow_poll_run s [] = Inr (s, [])"
| "slow_poll_run s (now # ts) =
     rbind (slow_poll_advance s now) (\<lambda>(t, step).
     rbind (slow_poll_run t ts) (\<lambda>(u, steps).
       Inr (u, (if step = PollNone then steps else step # steps))))"

text \<open>The cyclic order: each chunk is started, finished, and followed by its successor.\<close>

fun cyclic_from :: "int \<Rightarrow> int \<Rightarrow> int option \<Rightarrow> slow_poll_step list \<Rightarrow> bool" where
  "cyclic_from n k act [] = True"
| "cyclic_from n k None (PollStart i # steps) = (i = k \<and> cyclic_from n ((k + 1) mod n) (Some i) steps)"
| "cyclic_from n k (Some i) (PollFinish j # steps) = (i = j \<and> cyclic_from n k None steps)"
| "cyclic_from n k act (step # steps) = False"

lemma slow_poll_run_cyclic:
  assumes "slow_poll_inv s" "slow_poll_run s ts = Inr (u, steps)"
  shows "cyclic_from (sp_chunk_count s) (sp_next_chunk_index s) (sp_active_chunk_index s) steps"
  using assms
proof (induction ts arbitrary: s steps)
  case (Cons now ts)
  from Cons.prems(2) obtain t step rest where
    a: "slow_poll_advance s now = Inr (t, step)" and r: "slow_poll_run t ts = Inr (u, rest)"
    and e: "steps = (if step = PollNone then rest else step # rest)"
    by (auto simp: rbind_eq_Inr_iff split: prod.splits)
  have t: "slow_poll_inv t" using slow_poll_inv_advance [OF Cons.prems(1) a] .
  have IH: "cyclic_from (sp_chunk_count t) (sp_next_chunk_index t) (sp_active_chunk_index t) rest"
    using Cons.IH [OF t r] .
  show ?case using slow_poll_advance_cases [OF Cons.prems(1) a] IH e by auto
qed simp

lemma cyclic_from_range:
  "cyclic_from n k act xs \<Longrightarrow> 0 \<le> k \<Longrightarrow> k < n \<Longrightarrow> PollStart i \<in> set xs \<Longrightarrow> 0 \<le> i \<and> i < n"
proof (induction n k act xs rule: cyclic_from.induct)
  case (2 n k j steps)
  have r: "0 \<le> (k + 1) mod n" "(k + 1) mod n < n" using "2.prems"(2,3) by simp_all
  from "2.prems"(1) have e: "j = k" and c: "cyclic_from n ((k + 1) mod n) (Some j) steps"
    unfolding cyclic_from.simps by blast+
  show ?case
  proof (cases "PollStart i \<in> set steps")
    case True
    show ?thesis by (rule "2.IH" [OF c r True])
  next
    case False
    with "2.prems"(4) e have "i = k" by simp
    with "2.prems"(2,3) show ?thesis by simp
  qed
qed auto

text \<open>
  After a reset with at least one chunk, whatever the clock readings, the scheduler reports
  the chunks in cyclic order from chunk zero, each finished before the next is started, and
  every index it reports is a valid chunk.
\<close>

theorem slow_poll_cyclic_order:
  assumes "0 < sp_chunk_count s" and "slow_poll_run (slow_poll_reset s t0) ts = Inr (u, steps)"
  shows "cyclic_from (sp_chunk_count s) 0 None steps
    \<and> (\<forall>i. PollStart i \<in> set steps \<longrightarrow> 0 \<le> i \<and> i < sp_chunk_count s)"
proof -
  have inv: "slow_poll_inv (slow_poll_reset s t0)" using assms(1) by (rule slow_poll_inv_reset)
  have c: "cyclic_from (sp_chunk_count s) 0 None steps"
    using slow_poll_run_cyclic [OF inv assms(2)] by (simp add: slow_poll_reset_def)
  then show ?thesis using cyclic_from_range [OF c] assms(1) by simp
qed

definition sample_slow_poll :: slow_poll where
  "sample_slow_poll = \<lparr>sp_chunk_count = 2, sp_cycle_seconds = Fin 4, sp_hold_seconds = Fin 1,
     sp_next_chunk_index = 1, sp_active_chunk_index = None, sp_hold_deadline = None,
     sp_next_start_at = None\<rparr>"

lemma slow_poll_cyclic_order_witness:
  "(\<exists>u. slow_poll_run (slow_poll_reset sample_slow_poll (Fin 0)) [Fin 0, Fin 1, Fin 2, Fin 3] =
      Inr (u, [PollStart 0, PollFinish 0, PollStart 1, PollFinish 1]))
   \<and> cyclic_from 2 0 None [PollStart 0, PollFinish 0, PollStart 1, PollFinish 1]"
proof -
  have "\<exists>u. slow_poll_run (slow_poll_reset sample_slow_poll (Fin 0)) [Fin 0, Fin 1, Fin 2, Fin 3] =
      Inr (u, [PollStart 0, PollFinish 0, PollStart 1, PollFinish 1])"
    by (simp add: sample_slow_poll_def slow_poll_reset_def slow_poll_advance_def Let_def
        spacing_seconds_def float_of_int_def fdiv_def fmax_def)
  then obtain u where u: "slow_poll_run (slow_poll_reset sample_slow_poll (Fin 0)) [Fin 0, Fin 1, Fin 2, Fin 3] =
      Inr (u, [PollStart 0, PollFinish 0, PollStart 1, PollFinish 1])" by blast
  have "0 < sp_chunk_count sample_slow_poll" by (simp add: sample_slow_poll_def)
  from slow_poll_cyclic_order [OF this u] u show ?thesis by (simp add: sample_slow_poll_def)
qed

end
