(* ===== verification/Option_Replan.thy ===== *)
theory Option_Replan
  imports Py_Value
begin

section \<open>Option re-planning controller (\<^verbatim>\<open>ibkr/option_replan.py\<close>)\<close>

text \<open>
  The controller that decides when the subscribed option strikes are rebuilt around a new
  at-the-money strike. Its fixed parameters are the record \<open>replan_params\<close>, its mutable
  fields the record \<open>replan_state\<close>; \<open>observe\<close> returns the new state with the decision.
  Instants are UTC microseconds, as after \<^verbatim>\<open>_as_utc\<close>.
\<close>

record replan_params =
  rp_trigger_points :: pyfloat
  rp_rearm_points :: pyfloat
  rp_confirmation_count :: int
  rp_confirmation_span :: pyfloat
  rp_cooldown :: pyfloat
  rp_emergency_points :: pyfloat
  rp_emergency_confirmation_count :: int
  rp_emergency_span :: pyfloat
  rp_hard_minimum :: pyfloat
  rp_source_grace :: pyfloat
  rp_failure_backoff :: pyfloat

record replan_state =
  rs_accepted_atm :: "int option"
  rs_accepted_source :: "string option"
  rs_accepted_expiry :: "string option"
  rs_last_applied_at :: "int option"
  rs_last_candidate_at :: "int option"
  rs_pending_atm :: "int option"
  rs_pending_source :: "string option"
  rs_pending_first_at :: "int option"
  rs_pending_last_at :: "int option"
  rs_pending_count :: int
  rs_failed_until :: "int option"
  rs_failed_expiry :: "string option"

definition replan_initial :: replan_state where
  "replan_initial =
     \<lparr>rs_accepted_atm = None, rs_accepted_source = None, rs_accepted_expiry = None,
      rs_last_applied_at = None, rs_last_candidate_at = None, rs_pending_atm = None,
      rs_pending_source = None, rs_pending_first_at = None, rs_pending_last_at = None,
      rs_pending_count = 0, rs_failed_until = None, rs_failed_expiry = None\<rparr>"

record replan_proposal =
  pr_atm_strike :: int
  pr_source :: string
  pr_expiry :: string
  pr_observed_at :: int
  pr_reason :: string
  pr_confirmation_count :: int

record replan_decision =
  rd_proposal :: "replan_proposal option"
  rd_state :: string
  rd_reason :: string
  rd_confirmation_count :: int

definition no_proposal :: "string \<Rightarrow> string \<Rightarrow> int \<Rightarrow> replan_decision" where
  "no_proposal state reason count =
     \<lparr>rd_proposal = None, rd_state = state, rd_reason = reason, rd_confirmation_count = count\<rparr>"

definition propose :: "int \<Rightarrow> string \<Rightarrow> string \<Rightarrow> int \<Rightarrow> string \<Rightarrow> int \<Rightarrow> replan_decision" where
  "propose atm source expiry observed_at reason count =
     \<lparr>rd_proposal = Some \<lparr>pr_atm_strike = atm, pr_source = source, pr_expiry = expiry,
        pr_observed_at = observed_at, pr_reason = reason, pr_confirmation_count = count\<rparr>,
      rd_state = ''pending'', rd_reason = reason, rd_confirmation_count = count\<rparr>"

definition clear_pending :: "replan_state \<Rightarrow> replan_state" where
  "clear_pending s =
     s\<lparr>rs_pending_atm := None, rs_pending_source := None, rs_pending_first_at := None,
       rs_pending_last_at := None, rs_pending_count := 0\<rparr>"

definition replan_state_at :: "replan_params \<Rightarrow> replan_state \<Rightarrow> int \<Rightarrow> string" where
  "replan_state_at p s t =
     (case rs_last_applied_at s of
        None \<Rightarrow> ''steady''
      | Some a \<Rightarrow> if flt (total_seconds (t - a)) (rp_cooldown p) then ''cooldown'' else ''steady'')"

definition within_grace :: "replan_params \<Rightarrow> replan_state \<Rightarrow> int \<Rightarrow> bool" where
  "within_grace p s t =
     (case rs_last_candidate_at s of
        None \<Rightarrow> False
      | Some c \<Rightarrow> fle (total_seconds (t - c)) (rp_source_grace p))"

text \<open>Liveness evidence for the accepted source, kept also during back-off.\<close>

definition note_candidate :: "replan_state \<Rightarrow> int option \<Rightarrow> string option \<Rightarrow> int \<Rightarrow> replan_state" where
  "note_candidate s atm source observed_at =
     (if atm \<noteq> None \<and> source = rs_accepted_source s
         \<and> (case rs_last_candidate_at s of None \<Rightarrow> True | Some c \<Rightarrow> observed_at > c)
      then s\<lparr>rs_last_candidate_at := Some observed_at\<rparr> else s)"

definition since_applied :: "replan_state \<Rightarrow> int \<Rightarrow> pyfloat" where
  "since_applied s t = (case rs_last_applied_at s of None \<Rightarrow> PInf | Some a \<Rightarrow> total_seconds (t - a))"

definition is_emergency :: "replan_params \<Rightarrow> replan_state \<Rightarrow> int \<Rightarrow> int \<Rightarrow> bool" where
  "is_emergency p s drift t =
     (fle (rp_emergency_points p) (Fin (of_int drift)) \<and> fle (rp_hard_minimum p) (since_applied s t))"

text \<open>The confirmation counter: a new key restarts it, a later sample of the same key advances it.\<close>

definition update_pending :: "replan_state \<Rightarrow> int \<Rightarrow> string option \<Rightarrow> int \<Rightarrow> replan_state" where
  "update_pending s atm source observed_at =
     (let src = text_or source ''unknown'' in
      if Some atm \<noteq> rs_pending_atm s \<or> Some src \<noteq> rs_pending_source s then
        s\<lparr>rs_pending_atm := Some atm, rs_pending_source := Some src,
          rs_pending_first_at := Some observed_at, rs_pending_last_at := Some observed_at,
          rs_pending_count := 1\<rparr>
      else if (case rs_pending_last_at s of None \<Rightarrow> True | Some l \<Rightarrow> observed_at > l) then
        s\<lparr>rs_pending_last_at := Some observed_at, rs_pending_count := rs_pending_count s + 1\<rparr>
      else s)"

definition pending_span :: "replan_state \<Rightarrow> pyfloat" where
  "pending_span s =
     (case (rs_pending_first_at s, rs_pending_last_at s) of
        (Some f, Some l) \<Rightarrow> total_seconds (l - f)
      | _ \<Rightarrow> Fin 0)"

definition confirm_move ::
  "replan_params \<Rightarrow> replan_state \<Rightarrow> int \<Rightarrow> string option \<Rightarrow> int \<Rightarrow> string \<Rightarrow> bool \<Rightarrow> replan_state \<times> replan_decision" where
  "confirm_move p s atm source observed_at expiry emergency =
     (let s = update_pending s atm source observed_at;
          required_count = (if emergency then rp_emergency_confirmation_count p else rp_confirmation_count p);
          required_span = (if emergency then rp_emergency_span p else rp_confirmation_span p)
      in if rs_pending_count s < required_count \<or> flt (pending_span s) required_span then
           (s, no_proposal ''pending'' ''awaiting_confirmations'' (rs_pending_count s))
         else
           (s, propose atm (text_or source ''unknown'') expiry observed_at
                 (if emergency then ''emergency_move'' else ''confirmed_move'') (rs_pending_count s)))"

definition observe_drift ::
  "replan_params \<Rightarrow> replan_state \<Rightarrow> int \<Rightarrow> int \<Rightarrow> string option \<Rightarrow> int \<Rightarrow> int \<Rightarrow> string \<Rightarrow>
   replan_state \<times> replan_decision" where
  "observe_drift p s accepted_atm atm source observed_at decision_at expiry =
     (let drift = \<bar>atm - accepted_atm\<bar> in
      if fle (Fin (of_int drift)) (rp_rearm_points p) then
        (clear_pending s, no_proposal (replan_state_at p s decision_at) ''inside_rearm_band'' 0)
      else if flt (Fin (of_int drift)) (rp_trigger_points p) then
        (clear_pending s, no_proposal (replan_state_at p s decision_at) ''inside_trigger_band'' 0)
      else
        let emergency = is_emergency p s drift decision_at;
            normal = fle (rp_cooldown p) (since_applied s decision_at)
        in if \<not> emergency \<and> \<not> normal then
             (clear_pending s, no_proposal ''cooldown'' ''cooldown_active'' 0)
           else confirm_move p s atm source observed_at expiry emergency)"

definition in_backoff :: "replan_state \<Rightarrow> int \<Rightarrow> string \<Rightarrow> bool" where
  "in_backoff s decision_at expiry =
     (case rs_failed_until s of
        None \<Rightarrow> False
      | Some f \<Rightarrow> decision_at < f \<and> Some expiry = rs_failed_expiry s)"

definition observe ::
  "replan_params \<Rightarrow> replan_state \<Rightarrow> int option \<Rightarrow> string option \<Rightarrow> pydt \<Rightarrow> string \<Rightarrow> pydt option \<Rightarrow>
   replan_state \<times> replan_decision" where
  "observe p s atm_strike source observed expiry decision =
     (let observed_at = as_utc observed;
          decision_at = as_utc (case decision of Some t \<Rightarrow> t | None \<Rightarrow> observed);
          s = note_candidate s atm_strike source observed_at
      in if in_backoff s decision_at expiry then (s, no_proposal ''cooldown'' ''failure_backoff'' 0)
         else case (rs_accepted_atm s, rs_accepted_expiry s) of
           (Some accepted_atm, Some accepted_expiry) \<Rightarrow>
             if expiry \<noteq> accepted_expiry then
               (s, propose (case atm_strike of Some a \<Rightarrow> a | None \<Rightarrow> accepted_atm)
                     (text_or source (text_or (rs_accepted_source s) ''stable_atm'')) expiry observed_at
                     ''expiry_rollover'' 1)
             else (case atm_strike of
               None \<Rightarrow>
                 if within_grace p s observed_at then
                   (s, no_proposal (replan_state_at p s decision_at) ''source_grace'' (rs_pending_count s))
                 else (clear_pending s, no_proposal (replan_state_at p s decision_at) ''reference_missing'' 0)
             | Some atm \<Rightarrow>
                 if source \<noteq> rs_accepted_source s \<and> within_grace p s decision_at then
                   (clear_pending s, no_proposal (replan_state_at p s decision_at) ''source_grace'' 0)
                 else observe_drift p s accepted_atm atm source observed_at decision_at expiry)
         | _ \<Rightarrow>
             (case atm_strike of
                None \<Rightarrow> (s, no_proposal ''steady'' ''initial_reference_missing'' 0)
              | Some atm \<Rightarrow> (s, propose atm (text_or source ''unknown'') expiry observed_at ''initial_plan'' 1)))"

definition record_result ::
  "replan_params \<Rightarrow> replan_state \<Rightarrow> replan_proposal \<Rightarrow> bool \<Rightarrow> pydt option \<Rightarrow> replan_state res" where
  "record_result p s proposal success applied_at =
     (let decision_at = (case applied_at of Some t \<Rightarrow> as_utc t | None \<Rightarrow> pr_observed_at proposal) in
      if success then
        Inr (clear_pending (s\<lparr>rs_accepted_atm := Some (pr_atm_strike proposal),
               rs_accepted_source := Some (pr_source proposal),
               rs_accepted_expiry := Some (pr_expiry proposal),
               rs_last_applied_at := Some decision_at,
               rs_last_candidate_at := Some (pr_observed_at proposal),
               rs_failed_until := None, rs_failed_expiry := None\<rparr>))
      else
        rbind (td_seconds (fmax (rp_failure_backoff p) (Fin 0))) (\<lambda>backoff.
          Inr (clear_pending (s\<lparr>rs_failed_until := Some (decision_at + backoff),
                 rs_failed_expiry := Some (pr_expiry proposal)\<rparr>))))"

subsection \<open>Facts\<close>

lemma note_candidate_sel [simp]:
  "rs_accepted_atm (note_candidate s a src t) = rs_accepted_atm s"
  "rs_accepted_source (note_candidate s a src t) = rs_accepted_source s"
  "rs_accepted_expiry (note_candidate s a src t) = rs_accepted_expiry s"
  "rs_last_applied_at (note_candidate s a src t) = rs_last_applied_at s"
  "rs_pending_atm (note_candidate s a src t) = rs_pending_atm s"
  "rs_pending_source (note_candidate s a src t) = rs_pending_source s"
  "rs_pending_first_at (note_candidate s a src t) = rs_pending_first_at s"
  "rs_pending_last_at (note_candidate s a src t) = rs_pending_last_at s"
  "rs_pending_count (note_candidate s a src t) = rs_pending_count s"
  "rs_failed_until (note_candidate s a src t) = rs_failed_until s"
  "rs_failed_expiry (note_candidate s a src t) = rs_failed_expiry s"
  by (simp_all add: note_candidate_def)

lemma note_candidate_idem [simp]:
  "note_candidate (note_candidate s a src t) a src t = note_candidate s a src t"
  by (auto simp: note_candidate_def split: option.splits)

lemma note_candidate_clear [simp]:
  "note_candidate (clear_pending s) a src t = clear_pending (note_candidate s a src t)"
  by (simp add: note_candidate_def clear_pending_def split: option.split)

lemma clear_pending_sel [simp]:
  "rs_accepted_atm (clear_pending s) = rs_accepted_atm s"
  "rs_accepted_source (clear_pending s) = rs_accepted_source s"
  "rs_accepted_expiry (clear_pending s) = rs_accepted_expiry s"
  "rs_last_applied_at (clear_pending s) = rs_last_applied_at s"
  "rs_last_candidate_at (clear_pending s) = rs_last_candidate_at s"
  "rs_failed_until (clear_pending s) = rs_failed_until s"
  "rs_failed_expiry (clear_pending s) = rs_failed_expiry s"
  "clear_pending (clear_pending s) = clear_pending s"
  by (simp_all add: clear_pending_def)

lemma update_pending_sel [simp]:
  "rs_accepted_atm (update_pending s a src t) = rs_accepted_atm s"
  "rs_accepted_source (update_pending s a src t) = rs_accepted_source s"
  "rs_accepted_expiry (update_pending s a src t) = rs_accepted_expiry s"
  "rs_last_applied_at (update_pending s a src t) = rs_last_applied_at s"
  "rs_last_candidate_at (update_pending s a src t) = rs_last_candidate_at s"
  "rs_failed_until (update_pending s a src t) = rs_failed_until s"
  "rs_failed_expiry (update_pending s a src t) = rs_failed_expiry s"
  by (simp_all add: update_pending_def Let_def)

lemma update_pending_idem [simp]:
  "update_pending (update_pending s a src t) a src t = update_pending s a src t"
  by (auto simp: update_pending_def Let_def split: option.splits)

lemma note_candidate_update [simp]:
  "note_candidate (update_pending s a' src' t') a src t = update_pending (note_candidate s a src t) a' src' t'"
proof (cases "a \<noteq> None \<and> src = rs_accepted_source s
    \<and> (case rs_last_candidate_at s of None \<Rightarrow> True | Some c \<Rightarrow> t > c)")
  case True
  then show ?thesis unfolding note_candidate_def update_pending_sel by (simp add: update_pending_def Let_def)
next
  case False
  then show ?thesis unfolding note_candidate_def update_pending_sel by presburger
qed

text \<open>The decision functions read only fields that clearing and counting leave alone.\<close>

lemma reads_unchanged [simp]:
  "replan_state_at p (clear_pending s) t = replan_state_at p s t"
  "replan_state_at p (update_pending s a src u) t = replan_state_at p s t"
  "within_grace p (clear_pending s) t = within_grace p s t"
  "within_grace p (update_pending s a src u) t = within_grace p s t"
  "since_applied (clear_pending s) t = since_applied s t"
  "since_applied (update_pending s a src u) t = since_applied s t"
  "since_applied (note_candidate s b src u) t = since_applied s t"
  "is_emergency p (clear_pending s) x t = is_emergency p s x t"
  "is_emergency p (update_pending s a src u) x t = is_emergency p s x t"
  "is_emergency p (note_candidate s b src u) x t = is_emergency p s x t"
  "in_backoff (clear_pending s) t ex = in_backoff s t ex"
  "in_backoff (update_pending s a src u) t ex = in_backoff s t ex"
  "in_backoff (note_candidate s b src u) t ex = in_backoff s t ex"
  by (simp_all add: replan_state_at_def within_grace_def since_applied_def is_emergency_def in_backoff_def
      split: option.split)

lemma confirm_move_idem:
  "confirm_move p (fst (confirm_move p s a src t ex e)) a src t ex e = confirm_move p s a src t ex e"
  by (simp add: confirm_move_def Let_def)

lemma confirm_move_fst: "fst (confirm_move p s a src t ex e) = update_pending s a src t"
  by (simp add: confirm_move_def Let_def)

lemma observe_drift_idem:
  "observe_drift p (fst (observe_drift p s b a src t d ex)) b a src t d ex = observe_drift p s b a src t d ex"
  by (simp add: observe_drift_def Let_def confirm_move_fst) (simp add: confirm_move_def Let_def)

lemma observe_drift_fst:
  "fst (observe_drift p s b a src t d ex) = clear_pending s
   \<or> fst (observe_drift p s b a src t d ex) = update_pending s a src t"
  by (simp add: observe_drift_def Let_def confirm_move_fst)

text \<open>
  Observing the same sample a second time changes nothing and repeats the decision: a
  repeated tick never counts as a further confirmation.
\<close>

theorem observe_idempotent:
  "observe p (fst (observe p s atm src obs ex dec)) atm src obs ex dec = observe p s atm src obs ex dec"
proof -
  let ?t = "as_utc obs" and ?d = "as_utc (case dec of Some t \<Rightarrow> t | None \<Rightarrow> obs)"
  let ?s = "note_candidate s atm src ?t"
  have drift: ?thesis
    if drift: "\<not> in_backoff s ?d ex" "rs_accepted_atm s = Some b" "rs_accepted_expiry s = Some ex"
      "atm = Some a" "\<not> (src \<noteq> rs_accepted_source s \<and> within_grace p ?s ?d)" for b a
  proof -
    have o: "observe p u atm src obs ex dec = observe_drift p (note_candidate u atm src ?t) b a src ?t ?d ex"
      if "rs_accepted_atm u = Some b" "rs_accepted_expiry u = Some ex" "\<not> in_backoff u ?d ex"
        "\<not> (src \<noteq> rs_accepted_source u \<and> within_grace p (note_candidate u atm src ?t) ?d)" for u
      using that drift(4) by (auto simp: observe_def Let_def)
    have 1: "observe p s atm src obs ex dec = observe_drift p ?s b a src ?t ?d ex" using drift by (intro o) auto
    let ?u = "fst (observe_drift p ?s b a src ?t ?d ex)"
    have n: "note_candidate ?u atm src ?t = ?u"
      using observe_drift_fst [of p ?s b a src ?t ?d ex] by auto
    have "observe p ?u atm src obs ex dec = observe_drift p ?u b a src ?t ?d ex"
      using observe_drift_fst [of p ?s b a src ?t ?d ex] drift o [of ?u] unfolding n by auto
    then show ?thesis unfolding 1 by (simp add: observe_drift_idem)
  qed
  show ?thesis
  proof (cases "in_backoff s ?d ex")
    case True
    then show ?thesis by (simp add: observe_def Let_def)
  next
    case nb: False
    show ?thesis
    proof (cases "rs_accepted_atm s = None \<or> rs_accepted_expiry s = None")
      case True
      with nb show ?thesis
        by (cases atm; cases "rs_accepted_atm s"; cases "rs_accepted_expiry s") (simp_all add: observe_def Let_def)
    next
      case False
      then obtain b e where acc: "rs_accepted_atm s = Some b" "rs_accepted_expiry s = Some e" by auto
      show ?thesis
      proof (cases "e = ex \<and> atm \<noteq> None \<and> \<not> (src \<noteq> rs_accepted_source s \<and> within_grace p ?s ?d)")
        case True
        then obtain a where "atm = Some a" by blast
        with True nb acc show ?thesis by (intro drift [of b a]) auto
      next
        case False
        with nb acc show ?thesis by (cases "e = ex"; cases atm) (simp_all add: observe_def Let_def)
      qed
    qed
  qed
qed

text \<open>When a move of the accepted plan may be proposed.\<close>

definition move_justified ::
  "replan_params \<Rightarrow> replan_state \<Rightarrow> int \<Rightarrow> int \<Rightarrow> string option \<Rightarrow> int \<Rightarrow> int \<Rightarrow> bool" where
  "move_justified p s accepted atm src t d \<longleftrightarrow>
     (let drift = \<bar>atm - accepted\<bar>; e = is_emergency p s drift d; u = update_pending s atm src t in
      \<not> fle (Fin (of_int drift)) (rp_rearm_points p) \<and> \<not> flt (Fin (of_int drift)) (rp_trigger_points p)
      \<and> (e \<or> fle (rp_cooldown p) (since_applied s d))
      \<and> (if e then rp_emergency_confirmation_count p else rp_confirmation_count p) \<le> rs_pending_count u
      \<and> \<not> flt (pending_span u) (if e then rp_emergency_span p else rp_confirmation_span p))"

lemma observe_drift_proposal:
  "rd_proposal (snd (observe_drift p s b a src t d ex)) \<noteq> None \<longleftrightarrow> move_justified p s b a src t d"
  by (auto simp: observe_drift_def confirm_move_def move_justified_def no_proposal_def propose_def Let_def)

text \<open>
  For the accepted expiry a rebuild is proposed exactly when a strike was observed, no failure
  back-off is running, no other source is within its grace time, the drift has left both
  the re-arm and the trigger band, the cooldown (or for an emergency drift the hard
  minimum) has passed, and the sample completes the required confirmations and time span.
\<close>

theorem rebuild_proposal_iff:
  assumes "rs_accepted_atm s = Some accepted" and "rs_accepted_expiry s = Some ex"
  shows "rd_proposal (snd (observe p s atm src obs ex dec)) \<noteq> None \<longleftrightarrow>
    (let t = as_utc obs; d = as_utc (case dec of Some t \<Rightarrow> t | None \<Rightarrow> obs);
         s' = note_candidate s atm src t
     in \<not> in_backoff s d ex
        \<and> (\<exists>a. atm = Some a \<and> \<not> (src \<noteq> rs_accepted_source s \<and> within_grace p s' d)
             \<and> move_justified p s' accepted a src t d))"
  using assms observe_drift_proposal
  by (auto simp: observe_def Let_def no_proposal_def split: option.splits)

definition default_replan_params :: replan_params where
  "default_replan_params =
     \<lparr>rp_trigger_points = Fin 20, rp_rearm_points = Fin 10, rp_confirmation_count = 3,
      rp_confirmation_span = Fin 15, rp_cooldown = Fin 120, rp_emergency_points = Fin 40,
      rp_emergency_confirmation_count = 2, rp_emergency_span = Fin 5, rp_hard_minimum = Fin 30,
      rp_source_grace = Fin 30, rp_failure_backoff = Fin 30\<rparr>"

definition sample_replan_state :: replan_state where
  "sample_replan_state = replan_initial
     \<lparr>rs_accepted_atm := Some 5000, rs_accepted_source := Some ''spx'', rs_accepted_expiry := Some ''20260105'',
      rs_pending_atm := Some 5025, rs_pending_source := Some ''spx'',
      rs_pending_first_at := Some 0, rs_pending_last_at := Some 10000000, rs_pending_count := 2\<rparr>"

lemma rebuild_proposal_iff_witness:
  "rd_proposal (snd (observe default_replan_params sample_replan_state (Some 5025) (Some ''spx'')
     (Aware 20000000 0) ''20260105'' None)) \<noteq> None"
proof -
  have "total_seconds 20000000 = Fin 20" using total_seconds_whole [of 20] by simp
  then show ?thesis
    using rebuild_proposal_iff [of sample_replan_state 5000 "''20260105''" default_replan_params "Some 5025"
        "Some ''spx''" "Aware 20000000 0" None]
    by (simp add: sample_replan_state_def replan_initial_def default_replan_params_def Let_def
        in_backoff_def move_justified_def note_candidate_def is_emergency_def since_applied_def
        update_pending_def pending_span_def)
qed

text \<open>
  A recorded result limits the rate of rebuilds: after a success no rebuild of the same expiry
  is proposed before the smaller of cooldown and hard minimum has passed, and after a
  failure none before the back-off ends.
\<close>

theorem rebuilds_rate_limited:
  "{(atm, src, obs, d, s'). record_result p s pr True applied = Inr s'
      \<and> flt (since_applied s' (as_utc d)) (rp_cooldown p)
      \<and> flt (since_applied s' (as_utc d)) (rp_hard_minimum p)
      \<and> rd_proposal (snd (observe p s' atm src obs (pr_expiry pr) (Some d))) \<noteq> None} = {}
   \<and> {(atm, src, obs, d, s', until). record_result p s pr False applied = Inr s'
      \<and> rs_failed_until s' = Some until \<and> as_utc d < until
      \<and> rd_proposal (snd (observe p s' atm src obs (pr_expiry pr) (Some d))) \<noteq> None} = {}"
proof -
  have "rd_proposal (snd (observe p s' atm src obs (pr_expiry pr) (Some d))) = None"
    if r: "record_result p s pr True applied = Inr s'"
      and c: "flt (since_applied s' (as_utc d)) (rp_cooldown p)"
      and h: "flt (since_applied s' (as_utc d)) (rp_hard_minimum p)" for atm src obs d s'
  proof -
    have a: "rs_accepted_atm s' = Some (pr_atm_strike pr)" "rs_accepted_expiry s' = Some (pr_expiry pr)"
      using r by (auto simp: record_result_def clear_pending_def Let_def)
    have "\<not> fle x (since_applied s' (as_utc d))" if "flt (since_applied s' (as_utc d)) x" for x
      using that by (metis fle_flt_trans flt_irrefl)
    with c h have "\<not> move_justified p (note_candidate s' atm src (as_utc obs)) b x src (as_utc obs) (as_utc d)" for b x
      by (simp add: move_justified_def is_emergency_def Let_def)
    then show ?thesis using rebuild_proposal_iff [OF a, of p atm src obs "Some d"] by (auto simp: Let_def)
  qed
  moreover have "rd_proposal (snd (observe p s' atm src obs (pr_expiry pr) (Some d))) = None"
    if "record_result p s pr False applied = Inr s'" "rs_failed_until s' = Some until" "as_utc d < until"
    for atm src obs d s' until
  proof -
    have "in_backoff s' (as_utc d) (pr_expiry pr)"
      using that by (auto simp: record_result_def clear_pending_def Let_def rbind_eq_Inr_iff in_backoff_def)
    then show ?thesis by (simp add: observe_def Let_def no_proposal_def)
  qed
  ultimately show ?thesis by auto
qed

end
