(* ===== verification/Data_Contracts.thy ===== *)
theory Data_Contracts
  imports Py_Datetime "HOL-Library.Finite_Map"
begin

section \<open>Ledger records (\<^verbatim>\<open>data_platform/contracts.py\<close>)\<close>

text \<open>
  The versioned records of the operational ledger, each with the checks of its
  \<^verbatim>\<open>__post_init__\<close>. Metadata is JSON; its numbers are finite. Records compare as Python
  dataclasses do: aware datetimes by their instant, dictionaries without order, numbers and
  booleans by value. The functions \<open>norm_\<dots>\<close> give the normal form that represents a
  record up to this equality.
\<close>

datatype json = JNull | JBool bool | JNum rat | JStr string | JList "json list" | JDict "(string, json) fmap"

type_synonym metadata = "(string, json) fmap"

primrec norm_json :: "json \<Rightarrow> json" where
  "norm_json JNull = JNull"
| "norm_json (JBool b) = JNum (if b then 1 else 0)"
| "norm_json (JNum n) = JNum n"
| "norm_json (JStr s) = JStr s"
| "norm_json (JList xs) = JList (map norm_json xs)"
| "norm_json (JDict m) = JDict (fmmap norm_json m)"

definition norm_metadata :: "metadata \<Rightarrow> metadata" where
  "norm_metadata m = fmmap norm_json m"

definition norm_dt :: "pydt \<Rightarrow> pydt" where
  "norm_dt t = (case t of Naive w \<Rightarrow> Naive w | Aware w off \<Rightarrow> Aware (w - off) 0)"

lemma norm_dt_instant: "norm_dt t = norm_dt u \<Longrightarrow> dt_instant t = dt_instant u"
  by (cases t; cases u) (auto simp: norm_dt_def)

subsection \<open>Checks\<close>

definition require_text :: "string \<Rightarrow> string \<Rightarrow> unit res" where
  "require_text name value =
     guard_raise (value = [] \<or> str_strip value = []) (ValueError (name @ '' is required''))"

definition require_aware :: "string \<Rightarrow> pydt option \<Rightarrow> unit res" where
  "require_aware name value =
     guard_raise (case value of None \<Rightarrow> False | Some t \<Rightarrow> \<not> dt_aware t)
       (ValueError (name @ '' must be timezone-aware''))"

definition require_finite :: "string \<Rightarrow> pyfloat option \<Rightarrow> unit res" where
  "require_finite name value =
     guard_raise (case value of None \<Rightarrow> False | Some x \<Rightarrow> \<not> is_finite x) (ValueError (name @ '' must be finite''))"

definition hex_char :: "char \<Rightarrow> bool" where
  "hex_char c = (c \<in> set ''0123456789abcdefABCDEF'')"

definition require_sha256 :: "string \<Rightarrow> string option \<Rightarrow> unit res" where
  "require_sha256 name value =
     (case value of
        None \<Rightarrow> Inr ()
      | Some v \<Rightarrow> guard_raise (length v \<noteq> 64 \<or> \<not> list_all hex_char v)
                   (ValueError (name @ '' must be a 64-character SHA-256 hex digest'')))"

text \<open>\<open>run_checks\<close> runs the checks of a constructor in order.\<close>

definition run_checks :: "unit res list \<Rightarrow> unit res" where
  "run_checks cs = for_each (\<lambda>c. c) cs"

lemma run_checks_iff: "run_checks cs = Inr u \<longleftrightarrow> set cs \<subseteq> {Inr ()}"
  by (auto simp: run_checks_def for_each_ok_iff)

text \<open>\<^verbatim>\<open>a and b and b < a\<close> on optional datetimes.\<close>

definition dt_precedes :: "pydt option \<Rightarrow> pydt option \<Rightarrow> bool" where
  "dt_precedes b a =
     (case (b, a) of (Some y, Some x) \<Rightarrow> dt_instant y < dt_instant x | _ \<Rightarrow> False)"

subsection \<open>Records\<close>

record session_record =
  se_session_date :: int
  se_market :: string
  se_status :: string
  se_opened_at :: "pydt option"
  se_closed_at :: "pydt option"
  se_data_quality :: string
  se_metadata :: metadata

definition session_post_init :: "session_record \<Rightarrow> unit res" where
  "session_post_init r = run_checks
     [require_text ''market'' (se_market r), require_text ''status'' (se_status r),
      require_text ''data_quality'' (se_data_quality r),
      require_aware ''opened_at'' (se_opened_at r), require_aware ''closed_at'' (se_closed_at r),
      guard_raise (dt_precedes (se_closed_at r) (se_opened_at r))
        (ValueError ''closed_at cannot precede opened_at'')]"

record strategy_version_record =
  sv_strategy_name :: string
  sv_strategy_version :: string
  sv_activated_at :: pydt
  sv_git_commit :: "string option"
  sv_config_sha256 :: "string option"
  sv_metadata :: metadata

definition strategy_version_post_init :: "strategy_version_record \<Rightarrow> unit res" where
  "strategy_version_post_init r = run_checks
     [require_text ''strategy_name'' (sv_strategy_name r),
      require_text ''strategy_version'' (sv_strategy_version r),
      require_aware ''activated_at'' (Some (sv_activated_at r))]"

record event_record =
  ev_event_key :: string
  ev_event_type :: string
  ev_session_date :: int
  ev_source_at :: pydt
  ev_available_at :: pydt
  ev_received_at :: "pydt option"
  ev_phase :: "string option"
  ev_direction :: "string option"
  ev_data_quality :: string
  ev_schema_version :: int
  ev_attributes :: metadata

definition event_post_init :: "event_record \<Rightarrow> unit res" where
  "event_post_init r = run_checks
     [require_text ''event_key'' (ev_event_key r), require_text ''event_type'' (ev_event_type r),
      require_text ''data_quality'' (ev_data_quality r),
      require_aware ''source_at'' (Some (ev_source_at r)),
      require_aware ''available_at'' (Some (ev_available_at r)),
      require_aware ''received_at'' (ev_received_at r),
      guard_raise (dt_instant (ev_available_at r) < dt_instant (ev_source_at r))
        (ValueError ''available_at cannot precede source_at''),
      guard_raise (ev_schema_version r \<le> 0) (ValueError ''schema_version must be positive'')]"

record feature_snapshot_record =
  fs_snapshot_id :: string
  fs_captured_at :: pydt
  fs_available_at :: pydt
  fs_payload :: metadata
  fs_event_key :: "string option"
  fs_gamma_regime :: "string option"
  fs_schema_version :: int

definition feature_snapshot_post_init :: "feature_snapshot_record \<Rightarrow> unit res" where
  "feature_snapshot_post_init r = run_checks
     [require_text ''snapshot_id'' (fs_snapshot_id r),
      require_aware ''captured_at'' (Some (fs_captured_at r)),
      require_aware ''available_at'' (Some (fs_available_at r)),
      guard_raise (dt_instant (fs_available_at r) < dt_instant (fs_captured_at r))
        (ValueError ''available_at cannot precede captured_at''),
      guard_raise (fs_schema_version r \<le> 0) (ValueError ''schema_version must be positive'')]"

record decision_record =
  de_decision_id :: string
  de_strategy_name :: string
  de_strategy_version :: string
  de_decision_at :: pydt
  de_available_at :: pydt
  de_status :: string
  de_action :: string
  de_side :: string
  de_event_key :: "string option"
  de_feature_snapshot_id :: "string option"
  de_reason :: "string option"
  de_gamma_regime :: "string option"
  de_attributes :: metadata

definition decision_post_init :: "decision_record \<Rightarrow> unit res" where
  "decision_post_init r = run_checks
     [require_text ''decision_id'' (de_decision_id r),
      require_text ''strategy_name'' (de_strategy_name r),
      require_text ''strategy_version'' (de_strategy_version r),
      require_text ''status'' (de_status r), require_text ''action'' (de_action r),
      require_text ''side'' (de_side r),
      require_aware ''decision_at'' (Some (de_decision_at r)),
      require_aware ''available_at'' (Some (de_available_at r)),
      guard_raise (dt_instant (de_available_at r) > dt_instant (de_decision_at r))
        (ValueError ''decision cannot use features that were not yet available'')]"

record decision_leg_record =
  dl_decision_id :: string
  dl_leg_index :: int
  dl_instrument_id :: string
  dl_quote_source_at :: pydt
  dl_quote_available_at :: pydt
  dl_right :: "string option"
  dl_expiry :: "int option"
  dl_strike :: "pyfloat option"
  dl_quantity :: "pyfloat option"
  dl_bid :: "pyfloat option"
  dl_ask :: "pyfloat option"
  dl_delta :: "pyfloat option"
  dl_gamma :: "pyfloat option"
  dl_theta :: "pyfloat option"
  dl_vega :: "pyfloat option"
  dl_attributes :: metadata

definition decision_leg_post_init :: "decision_leg_record \<Rightarrow> unit res" where
  "decision_leg_post_init r = run_checks
     [require_text ''decision_id'' (dl_decision_id r),
      require_text ''instrument_id'' (dl_instrument_id r),
      guard_raise (dl_leg_index r < 0) (ValueError ''leg_index cannot be negative''),
      require_aware ''quote_source_at'' (Some (dl_quote_source_at r)),
      require_aware ''quote_available_at'' (Some (dl_quote_available_at r)),
      guard_raise (dt_instant (dl_quote_available_at r) < dt_instant (dl_quote_source_at r))
        (ValueError ''quote_available_at cannot precede quote_source_at''),
      require_finite ''strike'' (dl_strike r), require_finite ''quantity'' (dl_quantity r),
      require_finite ''bid'' (dl_bid r), require_finite ''ask'' (dl_ask r),
      require_finite ''delta'' (dl_delta r), require_finite ''gamma'' (dl_gamma r),
      require_finite ''theta'' (dl_theta r), require_finite ''vega'' (dl_vega r)]"

record delivery_record =
  dv_delivery_id :: string
  dv_decision_id :: string
  dv_channel :: string
  dv_status :: string
  dv_attempted_at :: pydt
  dv_sent_at :: "pydt option"
  dv_provider :: "string option"
  dv_veto_reason :: "string option"
  dv_error_code :: "string option"
  dv_message_fingerprint :: "string option"
  dv_attributes :: metadata

definition delivery_post_init :: "delivery_record \<Rightarrow> unit res" where
  "delivery_post_init r = run_checks
     [require_text ''delivery_id'' (dv_delivery_id r), require_text ''decision_id'' (dv_decision_id r),
      require_text ''channel'' (dv_channel r), require_text ''status'' (dv_status r),
      require_aware ''attempted_at'' (Some (dv_attempted_at r)),
      require_aware ''sent_at'' (dv_sent_at r),
      guard_raise (dt_precedes (dv_sent_at r) (Some (dv_attempted_at r)))
        (ValueError ''sent_at cannot precede attempted_at'')]"

record outcome_record =
  oc_outcome_id :: string
  oc_event_key :: string
  oc_horizon_minutes :: int
  oc_status :: string
  oc_target_at :: pydt
  oc_sampled_at :: "pydt option"
  oc_decision_id :: "string option"
  oc_hypothesis_direction :: "string option"
  oc_spx_return_bps :: "pyfloat option"
  oc_spx_mfe_bps :: "pyfloat option"
  oc_spx_mae_bps :: "pyfloat option"
  oc_option_return_bps :: "pyfloat option"
  oc_option_pnl :: "pyfloat option"
  oc_attributes :: metadata

definition outcome_post_init :: "outcome_record \<Rightarrow> unit res" where
  "outcome_post_init r = run_checks
     [require_text ''outcome_id'' (oc_outcome_id r), require_text ''event_key'' (oc_event_key r),
      require_text ''status'' (oc_status r),
      guard_raise (oc_horizon_minutes r \<le> 0) (ValueError ''horizon_minutes must be positive''),
      require_aware ''target_at'' (Some (oc_target_at r)),
      require_aware ''sampled_at'' (oc_sampled_at r),
      require_finite ''spx_return_bps'' (oc_spx_return_bps r),
      require_finite ''spx_mfe_bps'' (oc_spx_mfe_bps r),
      require_finite ''spx_mae_bps'' (oc_spx_mae_bps r),
      require_finite ''option_return_bps'' (oc_option_return_bps r),
      require_finite ''option_pnl'' (oc_option_pnl r)]"

record compaction_manifest_record =
  cm_source_path :: string
  cm_source_sha256 :: string
  cm_source_size :: int
  cm_source_mtime_ns :: int
  cm_output_path :: "string option"
  cm_output_sha256 :: "string option"
  cm_row_count :: int
  cm_min_received_at :: "pydt option"
  cm_max_received_at :: "pydt option"
  cm_schema_version :: string
  cm_writer_version :: string
  cm_completed_at :: pydt
  cm_status :: string
  cm_dataset :: string

definition manifest_post_init :: "compaction_manifest_record \<Rightarrow> unit res" where
  "manifest_post_init r = run_checks
     [require_text ''source_path'' (cm_source_path r),
      require_text ''source_sha256'' (cm_source_sha256 r),
      require_text ''writer_version'' (cm_writer_version r),
      require_text ''status'' (cm_status r), require_text ''dataset'' (cm_dataset r),
      require_sha256 ''source_sha256'' (Some (cm_source_sha256 r)),
      require_sha256 ''output_sha256'' (cm_output_sha256 r),
      guard_raise ((cm_output_path r = None) \<noteq> (cm_output_sha256 r = None))
        (ValueError ''output_path and output_sha256 must either both be set or both be absent''),
      (case cm_output_path r of None \<Rightarrow> Inr () | Some p \<Rightarrow> require_text ''output_path'' p),
      guard_raise (cm_source_size r < 0 \<or> cm_source_mtime_ns r < 0 \<or> cm_row_count r < 0)
        (ValueError ''manifest sizes and row_count cannot be negative''),
      require_text ''schema_version'' (cm_schema_version r),
      guard_raise (cm_status r = ''verified'' \<and> 0 < cm_row_count r \<and> cm_output_path r = None)
        (ValueError ''a non-empty verified manifest requires an output''),
      require_aware ''min_received_at'' (cm_min_received_at r),
      require_aware ''max_received_at'' (cm_max_received_at r),
      require_aware ''completed_at'' (Some (cm_completed_at r)),
      guard_raise (dt_precedes (cm_max_received_at r) (cm_min_received_at r))
        (ValueError ''max_received_at cannot precede min_received_at'')]"

record landing_write_receipt =
  lw_row_count :: int
  lw_path_counts :: "(string \<times> int) list"

definition landing_receipt_post_init :: "landing_write_receipt \<Rightarrow> unit res" where
  "landing_receipt_post_init r = run_checks
     [guard_raise (lw_row_count r < 0 \<or> list_ex (\<lambda>(_, c). c < 0) (lw_path_counts r))
        (ValueError ''landing row counts cannot be negative''),
      guard_raise (lw_row_count r \<noteq> sum_list (map snd (lw_path_counts r)))
        (ValueError ''landing row_count must equal the sum of path_counts'')]"

record lake_partition =
  lp_dataset :: string
  lp_schema_version :: string
  lp_session_date :: int
  lp_provider :: "string option"
  lp_hour :: "int option"
  lp_attributes :: metadata

definition partition_post_init :: "lake_partition \<Rightarrow> unit res" where
  "partition_post_init r = run_checks
     [require_text ''dataset'' (lp_dataset r), require_text ''schema_version'' (lp_schema_version r),
      guard_raise (case lp_hour r of None \<Rightarrow> False | Some h \<Rightarrow> \<not> (0 \<le> h \<and> h \<le> 23))
        (ValueError ''partition hour must be between 0 and 23'')]"

record lake_publish_receipt =
  pb_partition :: lake_partition
  pb_source_path :: string
  pb_output_path :: "string option"
  pb_status :: string
  pb_row_count :: int
  pb_source_sha256 :: "string option"

definition publish_receipt_post_init :: "lake_publish_receipt \<Rightarrow> unit res" where
  "publish_receipt_post_init r = run_checks
     [require_text ''source_path'' (pb_source_path r), require_text ''status'' (pb_status r),
      guard_raise (pb_row_count r < 0) (ValueError ''published row_count cannot be negative'')]"

subsection \<open>Equality of records\<close>

definition norm_strategy_version :: "strategy_version_record \<Rightarrow> strategy_version_record" where
  "norm_strategy_version r =
     r\<lparr>sv_activated_at := norm_dt (sv_activated_at r), sv_metadata := norm_metadata (sv_metadata r)\<rparr>"

definition norm_event :: "event_record \<Rightarrow> event_record" where
  "norm_event r =
     r\<lparr>ev_source_at := norm_dt (ev_source_at r), ev_available_at := norm_dt (ev_available_at r),
       ev_received_at := map_option norm_dt (ev_received_at r),
       ev_attributes := norm_metadata (ev_attributes r)\<rparr>"

definition norm_snapshot :: "feature_snapshot_record \<Rightarrow> feature_snapshot_record" where
  "norm_snapshot r =
     r\<lparr>fs_captured_at := norm_dt (fs_captured_at r), fs_available_at := norm_dt (fs_available_at r),
       fs_payload := norm_metadata (fs_payload r)\<rparr>"

definition norm_decision :: "decision_record \<Rightarrow> decision_record" where
  "norm_decision r =
     r\<lparr>de_decision_at := norm_dt (de_decision_at r), de_available_at := norm_dt (de_available_at r),
       de_attributes := norm_metadata (de_attributes r)\<rparr>"

definition norm_leg :: "decision_leg_record \<Rightarrow> decision_leg_record" where
  "norm_leg r =
     r\<lparr>dl_quote_source_at := norm_dt (dl_quote_source_at r),
       dl_quote_available_at := norm_dt (dl_quote_available_at r),
       dl_attributes := norm_metadata (dl_attributes r)\<rparr>"

definition norm_delivery :: "delivery_record \<Rightarrow> delivery_record" where
  "norm_delivery r =
     r\<lparr>dv_attempted_at := norm_dt (dv_attempted_at r), dv_sent_at := map_option norm_dt (dv_sent_at r),
       dv_attributes := norm_metadata (dv_attributes r)\<rparr>"

definition norm_outcome :: "outcome_record \<Rightarrow> outcome_record" where
  "norm_outcome r =
     r\<lparr>oc_target_at := norm_dt (oc_target_at r), oc_sampled_at := map_option norm_dt (oc_sampled_at r),
       oc_attributes := norm_metadata (oc_attributes r)\<rparr>"

lemma norm_event_instant: "norm_event a = norm_event b \<Longrightarrow> dt_instant (ev_available_at a) = dt_instant (ev_available_at b)"
  by (drule arg_cong [of _ _ ev_available_at], rule norm_dt_instant) (simp add: norm_event_def)

lemma norm_snapshot_instant:
  "norm_snapshot a = norm_snapshot b \<Longrightarrow> dt_instant (fs_available_at a) = dt_instant (fs_available_at b)"
  by (drule arg_cong [of _ _ fs_available_at], rule norm_dt_instant) (simp add: norm_snapshot_def)

lemma norm_decision_instant:
  "norm_decision a = norm_decision b \<Longrightarrow> dt_instant (de_decision_at a) = dt_instant (de_decision_at b)"
  by (drule arg_cong [of _ _ de_decision_at], rule norm_dt_instant) (simp add: norm_decision_def)

lemma norm_outcome_keys:
  assumes "norm_outcome a = norm_outcome b"
  shows "oc_event_key a = oc_event_key b" "oc_decision_id a = oc_decision_id b"
    "oc_horizon_minutes a = oc_horizon_minutes b" "oc_outcome_id a = oc_outcome_id b"
  using arg_cong [OF assms, of oc_event_key] arg_cong [OF assms, of oc_decision_id]
    arg_cong [OF assms, of oc_horizon_minutes] arg_cong [OF assms, of oc_outcome_id]
  by (simp_all add: norm_outcome_def)

lemma norm_delivery_decision:
  "norm_delivery a = norm_delivery b \<Longrightarrow> dv_decision_id a = dv_decision_id b"
  by (drule arg_cong [of _ _ dv_decision_id]) (simp add: norm_delivery_def)

subsection \<open>What the checks guarantee\<close>

text \<open>The two clocks: what a valid record promises about source, availability and decision times.\<close>

lemma event_clock: "event_post_init e = Inr () \<Longrightarrow> dt_instant (ev_source_at e) \<le> dt_instant (ev_available_at e)"
  by (simp add: event_post_init_def run_checks_iff not_less)

lemma snapshot_clock:
  "feature_snapshot_post_init f = Inr () \<Longrightarrow> dt_instant (fs_captured_at f) \<le> dt_instant (fs_available_at f)"
  by (simp add: feature_snapshot_post_init_def run_checks_iff not_less)

lemma leg_clock:
  "decision_leg_post_init l = Inr () \<Longrightarrow> dt_instant (dl_quote_source_at l) \<le> dt_instant (dl_quote_available_at l)"
  by (simp add: decision_leg_post_init_def run_checks_iff not_less)

definition sample_event :: event_record where
  "sample_event = \<lparr>ev_event_key = ''e1'', ev_event_type = ''shock'', ev_session_date = 1,
     ev_source_at = Aware 0 0, ev_available_at = Aware 1 0, ev_received_at = None, ev_phase = None,
     ev_direction = None, ev_data_quality = ''ok'', ev_schema_version = 1, ev_attributes = fmempty\<rparr>"

definition sample_decision :: decision_record where
  "sample_decision = \<lparr>de_decision_id = ''d1'', de_strategy_name = ''s'', de_strategy_version = ''v'',
     de_decision_at = Aware 5 0, de_available_at = Aware 1 0, de_status = ''accepted'', de_action = ''buy'',
     de_side = ''call'', de_event_key = Some ''e1'', de_feature_snapshot_id = None, de_reason = None,
     de_gamma_regime = None, de_attributes = fmempty\<rparr>"

definition sample_leg :: decision_leg_record where
  "sample_leg = \<lparr>dl_decision_id = ''d1'', dl_leg_index = 0, dl_instrument_id = ''i'',
     dl_quote_source_at = Aware 0 0, dl_quote_available_at = Aware 2 0, dl_right = None, dl_expiry = None,
     dl_strike = None, dl_quantity = None, dl_bid = None, dl_ask = None, dl_delta = None, dl_gamma = None,
     dl_theta = None, dl_vega = None, dl_attributes = fmempty\<rparr>"

definition sample_snapshot :: feature_snapshot_record where
  "sample_snapshot = \<lparr>fs_snapshot_id = ''f1'', fs_captured_at = Aware 0 0, fs_available_at = Aware 1 0,
     fs_payload = fmempty, fs_event_key = None, fs_gamma_regime = None, fs_schema_version = 1\<rparr>"

lemmas sample_records = sample_event_def sample_decision_def sample_leg_def sample_snapshot_def

lemma sample_records_valid:
  "event_post_init sample_event = Inr ()" "decision_post_init sample_decision = Inr ()"
  "decision_leg_post_init sample_leg = Inr ()" "feature_snapshot_post_init sample_snapshot = Inr ()"
  by (simp_all add: sample_records event_post_init_def decision_post_init_def decision_leg_post_init_def
      feature_snapshot_post_init_def run_checks_def require_aware_def require_text_def require_finite_def
      str_strip_def is_blank_def)

end
