(* ===== verification/Decision_Ledger.thy ===== *)
theory Decision_Ledger
  imports Data_Contracts "HOL-Library.AList"
begin

section \<open>The decision ledger (\<^verbatim>\<open>data_platform/adapters/memory.py\<close>)\<close>

text \<open>
  The in-memory ledger: nine tables in insertion order, the recording operations with their
  reference and look-ahead checks, and the queries. An operation that raises leaves the
  ledger as it was. The lock makes each operation atomic, so a concurrent run is some
  sequence of whole operations, the runs of this theory.
\<close>

subsection \<open>Immutable tables\<close>

definition put_immutable :: "('v \<Rightarrow> 'v) \<Rightarrow> ('k \<times> 'v) list \<Rightarrow> 'k \<Rightarrow> 'v \<Rightarrow> string \<Rightarrow> ('k \<times> 'v) list res" where
  "put_immutable nf target key value label =
     (case map_of target key of
        Some existing \<Rightarrow>
          if nf existing \<noteq> nf value
          then Inl (LedgerConflictError (''conflicting immutable '' @ label @ '' record''))
          else Inr (AList.update key value target)
      | None \<Rightarrow> Inr (AList.update key value target))"

text \<open>
  What the ledger relies on: a table whose records, once written, can only be rewritten by an
  equal record. \<open>nf\<close> represents the equality.
\<close>

locale immutable_table =
  fixes put :: "'s \<Rightarrow> 'k \<Rightarrow> 'v \<Rightarrow> 's res" and get :: "'s \<Rightarrow> 'k \<Rightarrow> 'v option" and nf :: "'v \<Rightarrow> 'v"
  assumes get_put: "put s k v = Inr s' \<Longrightarrow> get s' k = Some v"
    and get_other: "put s k v = Inr s' \<Longrightarrow> k' \<noteq> k \<Longrightarrow> get s' k' = get s k'"
    and put_accepts: "is_ok (put s k v) \<longleftrightarrow> (\<forall>e. get s k = Some e \<longrightarrow> nf e = nf v)"
begin

lemma persists:
  assumes "put s k v = Inr s'" and "get s k' = Some e"
  shows "\<exists>e'. get s' k' = Some e' \<and> nf e' = nf e"
proof (cases "k' = k")
  case True
  then show ?thesis using assms get_put [OF assms(1)] put_accepts [of s k v] by simp
next
  case False
  then show ?thesis using assms get_other [OF assms(1)] by simp
qed

lemma retry_accepted: "put s k v = Inr s' \<Longrightarrow> is_ok (put s' k v)"
  using get_put [of s k v s'] put_accepts [of s' k v] by simp

lemma get_after: "put s k v = Inr s' \<Longrightarrow> get s' k' = (if k' = k then Some v else get s k')"
  using get_put get_other by auto

end

interpretation tbl: immutable_table "\<lambda>m k v. put_immutable nf m k v label" map_of nf
  for nf :: "'v \<Rightarrow> 'v" and label
  by unfold_locales
    (auto simp: put_immutable_def update_conv' split: option.splits if_splits)

lemma put_immutable_retry_same: "put_immutable nf m k v label = Inr m' \<Longrightarrow> put_immutable nf m' k v label = Inr m'"
proof -
  assume p: "put_immutable nf m k v label = Inr m'"
  then have "m' = AList.update k v m" by (auto simp: put_immutable_def split: option.splits if_splits)
  moreover have "AList.update k v (AList.update k v m) = AList.update k v m"
    by (induction m) auto
  ultimately show ?thesis using tbl.get_put [OF p] by (simp add: put_immutable_def)
qed

subsection \<open>Operations\<close>

record ledger =
  lg_sessions :: "(int \<times> session_record) list"
  lg_strategy_versions :: "((string \<times> string) \<times> strategy_version_record) list"
  lg_events :: "(string \<times> event_record) list"
  lg_feature_snapshots :: "(string \<times> feature_snapshot_record) list"
  lg_decisions :: "(string \<times> decision_record) list"
  lg_decision_legs :: "(string \<times> decision_leg_record list) list"
  lg_deliveries :: "(string \<times> delivery_record) list"
  lg_outcomes :: "(string \<times> outcome_record) list"
  lg_compaction_manifests :: "((string \<times> string) \<times> compaction_manifest_record) list"

definition empty_ledger :: ledger where
  "empty_ledger =
     \<lparr>lg_sessions = [], lg_strategy_versions = [], lg_events = [], lg_feature_snapshots = [],
      lg_decisions = [], lg_decision_legs = [], lg_deliveries = [], lg_outcomes = [],
      lg_compaction_manifests = []\<rparr>"

definition record_session :: "ledger \<Rightarrow> session_record \<Rightarrow> ledger" where
  "record_session l r = l\<lparr>lg_sessions := AList.update (se_session_date r) r (lg_sessions l)\<rparr>"

definition record_strategy_version :: "ledger \<Rightarrow> strategy_version_record \<Rightarrow> ledger res" where
  "record_strategy_version l r =
     rbind (put_immutable norm_strategy_version (lg_strategy_versions l)
              (sv_strategy_name r, sv_strategy_version r) r ''strategy version'')
       (\<lambda>t. Inr (l\<lparr>lg_strategy_versions := t\<rparr>))"

definition record_event :: "ledger \<Rightarrow> event_record \<Rightarrow> ledger res" where
  "record_event l r =
     rbind (put_immutable norm_event (lg_events l) (ev_event_key r) r ''event'')
       (\<lambda>t. Inr (l\<lparr>lg_events := t\<rparr>))"

definition record_feature_snapshot :: "ledger \<Rightarrow> feature_snapshot_record \<Rightarrow> ledger res" where
  "record_feature_snapshot l r =
     rbind (guard_raise (text_true (fs_event_key r) \<and> map_of (lg_events l) (text_or (fs_event_key r) []) = None)
              (LedgerReferenceError ''feature snapshot event has not been recorded'')) (\<lambda>_.
     rbind (put_immutable norm_snapshot (lg_feature_snapshots l) (fs_snapshot_id r) r ''feature snapshot'')
       (\<lambda>t. Inr (l\<lparr>lg_feature_snapshots := t\<rparr>)))"

definition check_legs :: "decision_record \<Rightarrow> decision_leg_record list \<Rightarrow> unit res" where
  "check_legs d legs =
     rbind (guard_raise (\<not> distinct (map dl_leg_index legs)) (ValueError ''decision leg indexes must be unique'')) (\<lambda>_.
     for_each (\<lambda>leg.
       rbind (guard_raise (dl_decision_id leg \<noteq> de_decision_id d)
         (ValueError ''every leg must reference the decision being recorded'')) (\<lambda>_.
       guard_raise (dt_instant (dl_quote_available_at leg) > dt_instant (de_decision_at d))
         (LookaheadViolationError ''decision leg quote was unavailable at decision time''))) legs)"

definition check_decision_event :: "ledger \<Rightarrow> decision_record \<Rightarrow> unit res" where
  "check_decision_event l d =
     (if text_true (de_event_key d) then
        (case map_of (lg_events l) (text_or (de_event_key d) []) of
           None \<Rightarrow> Inl (LedgerReferenceError ''decision event has not been recorded'')
         | Some e \<Rightarrow> guard_raise (dt_instant (ev_available_at e) > dt_instant (de_decision_at d))
                       (LookaheadViolationError ''event was unavailable at decision time''))
      else Inr ())"

definition check_decision_snapshot :: "ledger \<Rightarrow> decision_record \<Rightarrow> unit res" where
  "check_decision_snapshot l d =
     (if text_true (de_feature_snapshot_id d) then
        (case map_of (lg_feature_snapshots l) (text_or (de_feature_snapshot_id d) []) of
           None \<Rightarrow> Inl (LedgerReferenceError ''decision feature snapshot has not been recorded'')
         | Some f \<Rightarrow> guard_raise (dt_instant (fs_available_at f) > dt_instant (de_decision_at d))
                       (LookaheadViolationError ''feature snapshot was unavailable at decision time''))
      else Inr ())"

definition legs_of :: "ledger \<Rightarrow> string \<Rightarrow> decision_leg_record list" where
  "legs_of l decision_id = (case map_of (lg_decision_legs l) decision_id of Some xs \<Rightarrow> xs | None \<Rightarrow> [])"

definition record_decision :: "ledger \<Rightarrow> decision_record \<Rightarrow> decision_leg_record list \<Rightarrow> ledger res" where
  "record_decision l d legs =
     (let normalized_legs = sort_key dl_leg_index legs in
      rbind (check_legs d normalized_legs) (\<lambda>_.
      rbind (check_decision_event l d) (\<lambda>_.
      rbind (check_decision_snapshot l d) (\<lambda>_.
        case map_of (lg_decisions l) (de_decision_id d) of
          Some existing \<Rightarrow>
            if norm_decision existing \<noteq> norm_decision d
               \<or> map norm_leg (legs_of l (de_decision_id d)) \<noteq> map norm_leg normalized_legs
            then Inl (LedgerConflictError ''conflicting immutable decision aggregate'')
            else Inr l
        | None \<Rightarrow>
            Inr (l\<lparr>lg_decisions := AList.update (de_decision_id d) d (lg_decisions l),
                   lg_decision_legs := AList.update (de_decision_id d) normalized_legs (lg_decision_legs l)\<rparr>)))))"

definition record_delivery :: "ledger \<Rightarrow> delivery_record \<Rightarrow> ledger res" where
  "record_delivery l r =
     rbind (guard_raise (map_of (lg_decisions l) (dv_decision_id r) = None)
              (LedgerReferenceError ''delivery decision has not been recorded'')) (\<lambda>_.
     rbind (put_immutable norm_delivery (lg_deliveries l) (dv_delivery_id r) r ''delivery'')
       (\<lambda>t. Inr (l\<lparr>lg_deliveries := t\<rparr>)))"

definition same_natural_key :: "outcome_record \<Rightarrow> outcome_record \<Rightarrow> bool" where
  "same_natural_key a b \<longleftrightarrow>
     (oc_event_key a, oc_decision_id a, oc_horizon_minutes a) = (oc_event_key b, oc_decision_id b, oc_horizon_minutes b)"

definition record_outcome :: "ledger \<Rightarrow> outcome_record \<Rightarrow> ledger res" where
  "record_outcome l r =
     rbind (guard_raise (map_of (lg_events l) (oc_event_key r) = None)
              (LedgerReferenceError ''outcome event has not been recorded'')) (\<lambda>_.
     rbind (guard_raise (text_true (oc_decision_id r) \<and> map_of (lg_decisions l) (text_or (oc_decision_id r) []) = None)
              (LedgerReferenceError ''outcome decision has not been recorded'')) (\<lambda>_.
     rbind (for_each (\<lambda>(_, existing).
              guard_raise (same_natural_key existing r \<and> oc_outcome_id existing \<noteq> oc_outcome_id r)
                (LedgerConflictError ''conflicting outcome natural key'')) (lg_outcomes l)) (\<lambda>_.
     rbind (put_immutable norm_outcome (lg_outcomes l) (oc_outcome_id r) r ''outcome'')
       (\<lambda>t. Inr (l\<lparr>lg_outcomes := t\<rparr>)))))"

definition record_compaction_manifest :: "ledger \<Rightarrow> compaction_manifest_record \<Rightarrow> ledger" where
  "record_compaction_manifest l r =
     l\<lparr>lg_compaction_manifests :=
         AList.update (cm_source_path r, cm_source_sha256 r) r (lg_compaction_manifests l)\<rparr>"

definition get_event :: "ledger \<Rightarrow> string \<Rightarrow> event_record option" where
  "get_event l k = map_of (lg_events l) k"

definition get_decision :: "ledger \<Rightarrow> string \<Rightarrow> decision_record option" where
  "get_decision l k = map_of (lg_decisions l) k"

definition list_decision_legs :: "ledger \<Rightarrow> string \<Rightarrow> decision_leg_record list" where
  "list_decision_legs l k = legs_of l k"

definition list_deliveries :: "ledger \<Rightarrow> string \<Rightarrow> delivery_record list" where
  "list_deliveries l k =
     sort_key (\<lambda>r. dt_instant (dv_attempted_at r)) (filter (\<lambda>r. dv_decision_id r = k) (map snd (lg_deliveries l)))"

definition list_outcomes :: "ledger \<Rightarrow> string \<Rightarrow> outcome_record list" where
  "list_outcomes l k =
     sort_key oc_horizon_minutes (filter (\<lambda>r. oc_decision_id r = Some k) (map snd (lg_outcomes l)))"

definition get_compaction_manifest :: "ledger \<Rightarrow> string \<Rightarrow> string \<Rightarrow> compaction_manifest_record option" where
  "get_compaction_manifest l path sha = map_of (lg_compaction_manifests l) (path, sha)"

subsection \<open>Runs\<close>

datatype ledger_op =
    OpSession session_record
  | OpStrategyVersion strategy_version_record
  | OpEvent event_record
  | OpSnapshot feature_snapshot_record
  | OpDecision decision_record "decision_leg_record list"
  | OpDelivery delivery_record
  | OpOutcome outcome_record
  | OpManifest compaction_manifest_record

fun ledger_apply :: "ledger \<Rightarrow> ledger_op \<Rightarrow> ledger res" where
  "ledger_apply l (OpSession r) = Inr (record_session l r)"
| "ledger_apply l (OpStrategyVersion r) = record_strategy_version l r"
| "ledger_apply l (OpEvent r) = record_event l r"
| "ledger_apply l (OpSnapshot r) = record_feature_snapshot l r"
| "ledger_apply l (OpDecision d legs) = record_decision l d legs"
| "ledger_apply l (OpDelivery r) = record_delivery l r"
| "ledger_apply l (OpOutcome r) = record_outcome l r"
| "ledger_apply l (OpManifest r) = Inr (record_compaction_manifest l r)"

definition ledger_step :: "ledger \<Rightarrow> ledger_op \<Rightarrow> ledger" where
  "ledger_step l x = (case ledger_apply l x of Inr l' \<Rightarrow> l' | Inl _ \<Rightarrow> l)"

abbreviation ledger_run :: "ledger_op list \<Rightarrow> ledger" where
  "ledger_run xs \<equiv> foldl ledger_step empty_ledger xs"

subsection \<open>Referential integrity and look-ahead\<close>

definition event_ok :: "ledger \<Rightarrow> decision_record \<Rightarrow> bool" where
  "event_ok l d \<longleftrightarrow> (text_true (de_event_key d) \<longrightarrow>
     (\<exists>e. map_of (lg_events l) (text_or (de_event_key d) []) = Some e
        \<and> dt_instant (ev_available_at e) \<le> dt_instant (de_decision_at d)))"

definition snapshot_ok :: "ledger \<Rightarrow> decision_record \<Rightarrow> bool" where
  "snapshot_ok l d \<longleftrightarrow> (text_true (de_feature_snapshot_id d) \<longrightarrow>
     (\<exists>f. map_of (lg_feature_snapshots l) (text_or (de_feature_snapshot_id d) []) = Some f
        \<and> dt_instant (fs_available_at f) \<le> dt_instant (de_decision_at d)))"

definition legs_ok :: "decision_record \<Rightarrow> decision_leg_record list \<Rightarrow> bool" where
  "legs_ok d legs \<longleftrightarrow> sorted_wrt (<) (map dl_leg_index legs)
     \<and> (\<forall>leg \<in> set legs. dl_decision_id leg = de_decision_id d
          \<and> dt_instant (dl_quote_available_at leg) \<le> dt_instant (de_decision_at d))"

definition decision_ok :: "ledger \<Rightarrow> decision_record \<Rightarrow> bool" where
  "decision_ok l d \<longleftrightarrow> event_ok l d \<and> snapshot_ok l d
     \<and> (\<exists>legs. map_of (lg_decision_legs l) (de_decision_id d) = Some legs \<and> legs_ok d legs)"

definition outcome_ok :: "ledger \<Rightarrow> outcome_record \<Rightarrow> bool" where
  "outcome_ok l r \<longleftrightarrow> map_of (lg_events l) (oc_event_key r) \<noteq> None
     \<and> (text_true (oc_decision_id r) \<longrightarrow> map_of (lg_decisions l) (text_or (oc_decision_id r) []) \<noteq> None)"

definition ledger_inv :: "ledger \<Rightarrow> bool" where
  "ledger_inv l \<longleftrightarrow>
     (\<forall>k d. map_of (lg_decisions l) k = Some d \<longrightarrow> de_decision_id d = k \<and> decision_ok l d)
     \<and> (\<forall>k r. map_of (lg_deliveries l) k = Some r \<longrightarrow> map_of (lg_decisions l) (dv_decision_id r) \<noteq> None)
     \<and> (\<forall>k r. map_of (lg_outcomes l) k = Some r \<longrightarrow> oc_outcome_id r = k \<and> outcome_ok l r)
     \<and> (\<forall>k k' r r'. map_of (lg_outcomes l) k = Some r \<longrightarrow> map_of (lg_outcomes l) k' = Some r'
          \<longrightarrow> same_natural_key r r' \<longrightarrow> k = k')
     \<and> distinct (map fst (lg_outcomes l))"

text \<open>Later ledgers keep every event, snapshot, decision and leg list, up to equality of records.\<close>

definition keeps :: "ledger \<Rightarrow> ledger \<Rightarrow> bool" where
  "keeps l l' \<longleftrightarrow>
     (\<forall>k e. map_of (lg_events l) k = Some e \<longrightarrow> (\<exists>e'. map_of (lg_events l') k = Some e' \<and> norm_event e' = norm_event e))
     \<and> (\<forall>k f. map_of (lg_feature_snapshots l) k = Some f \<longrightarrow>
          (\<exists>f'. map_of (lg_feature_snapshots l') k = Some f' \<and> norm_snapshot f' = norm_snapshot f))
     \<and> (\<forall>k d. map_of (lg_decisions l) k = Some d \<longrightarrow> map_of (lg_decisions l') k = Some d)
     \<and> (\<forall>k d. map_of (lg_decisions l) k = Some d \<longrightarrow> map_of (lg_decision_legs l') k = map_of (lg_decision_legs l) k)
     \<and> (\<forall>k r. map_of (lg_deliveries l) k = Some r \<longrightarrow>
          (\<exists>r'. map_of (lg_deliveries l') k = Some r' \<and> norm_delivery r' = norm_delivery r))
     \<and> (\<forall>k r. map_of (lg_outcomes l) k = Some r \<longrightarrow>
          (\<exists>r'. map_of (lg_outcomes l') k = Some r' \<and> norm_outcome r' = norm_outcome r))
     \<and> (\<forall>k r. map_of (lg_strategy_versions l) k = Some r \<longrightarrow>
          (\<exists>r'. map_of (lg_strategy_versions l') k = Some r' \<and> norm_strategy_version r' = norm_strategy_version r))"

lemma keeps_refl: "keeps l l"
  by (auto simp: keeps_def)

lemma keeps_trans:
  assumes "keeps a b" "keeps b c"
  shows "keeps a c"
  unfolding keeps_def
proof (intro conjI allI impI)
  note k1 = assms(1) [unfolded keeps_def] and k2 = assms(2) [unfolded keeps_def]
  fix k e assume "map_of (lg_events a) k = Some e"
  with k1 k2 show "\<exists>e'. map_of (lg_events c) k = Some e' \<and> norm_event e' = norm_event e" by metis
next
  note k1 = assms(1) [unfolded keeps_def] and k2 = assms(2) [unfolded keeps_def]
  fix k e assume "map_of (lg_feature_snapshots a) k = Some e"
  with k1 k2 show "\<exists>e'. map_of (lg_feature_snapshots c) k = Some e' \<and> norm_snapshot e' = norm_snapshot e" by metis
next
  note k1 = assms(1) [unfolded keeps_def] and k2 = assms(2) [unfolded keeps_def]
  fix k d assume d: "map_of (lg_decisions a) k = Some d"
  with k1 k2 show "map_of (lg_decisions c) k = Some d" by metis
next
  note k1 = assms(1) [unfolded keeps_def] and k2 = assms(2) [unfolded keeps_def]
  fix k d assume d: "map_of (lg_decisions a) k = Some d"
  with k1 k2 show "map_of (lg_decision_legs c) k = map_of (lg_decision_legs a) k" by metis
next
  note k1 = assms(1) [unfolded keeps_def] and k2 = assms(2) [unfolded keeps_def]
  fix k e assume "map_of (lg_deliveries a) k = Some e"
  with k1 k2 show "\<exists>e'. map_of (lg_deliveries c) k = Some e' \<and> norm_delivery e' = norm_delivery e" by metis
next
  note k1 = assms(1) [unfolded keeps_def] and k2 = assms(2) [unfolded keeps_def]
  fix k e assume "map_of (lg_outcomes a) k = Some e"
  with k1 k2 show "\<exists>e'. map_of (lg_outcomes c) k = Some e' \<and> norm_outcome e' = norm_outcome e" by metis
next
  note k1 = assms(1) [unfolded keeps_def] and k2 = assms(2) [unfolded keeps_def]
  fix k e assume "map_of (lg_strategy_versions a) k = Some e"
  with k1 k2 show "\<exists>e'. map_of (lg_strategy_versions c) k = Some e'
      \<and> norm_strategy_version e' = norm_strategy_version e" by metis
qed

lemma keeps_decision_ok:
  assumes "keeps l l'" "map_of (lg_decisions l) (de_decision_id d) = Some d" "decision_ok l d"
  shows "decision_ok l' d"
proof -
  note k = assms(1) [unfolded keeps_def]
  have "event_ok l' d"
    using assms(3) k norm_event_instant unfolding decision_ok_def event_ok_def by metis
  moreover have "snapshot_ok l' d"
    using assms(3) k norm_snapshot_instant unfolding decision_ok_def snapshot_ok_def by metis
  moreover have "\<exists>legs. map_of (lg_decision_legs l') (de_decision_id d) = Some legs \<and> legs_ok d legs"
    using assms k unfolding decision_ok_def by metis
  ultimately show ?thesis by (simp add: decision_ok_def)
qed

lemma keeps_outcome_ok:
  assumes "keeps l l'" "outcome_ok l r"
  shows "outcome_ok l' r"
  using assms unfolding keeps_def outcome_ok_def by (metis not_None_eq)

lemma check_legs_ok:
  assumes "check_legs d (sort_key dl_leg_index legs) = Inr ()"
  shows "legs_ok d (sort_key dl_leg_index legs)"
proof -
  let ?s = "sort_key dl_leg_index legs"
  have "distinct (map dl_leg_index ?s)" "sorted (map dl_leg_index ?s)"
    using assms by (auto simp: check_legs_def rbind_eq_Inr_iff)
  then have "sorted_wrt (<) (map dl_leg_index ?s)" by (simp add: strict_sorted_iff)
  with assms show ?thesis
    by (auto simp: check_legs_def legs_ok_def rbind_eq_Inr_iff for_each_ok_iff not_less)
qed

lemma check_event_ok: "check_decision_event l d = Inr () \<Longrightarrow> event_ok l d"
  by (auto simp: check_decision_event_def event_ok_def not_less split: if_splits option.splits)

lemma check_snapshot_ok: "check_decision_snapshot l d = Inr () \<Longrightarrow> snapshot_ok l d"
  by (auto simp: check_decision_snapshot_def snapshot_ok_def not_less split: if_splits option.splits)

subsection \<open>Every operation keeps the invariant\<close>

lemma put_immutable_keeps:
  "put_immutable nf m k v label = Inr m' \<Longrightarrow> map_of m k' = Some e \<Longrightarrow> \<exists>e'. map_of m' k' = Some e' \<and> nf e' = nf e"
  by (rule tbl.persists)

lemma decision_fresh_keeps:
  assumes "map_of (lg_decisions l) (de_decision_id d) = None"
  shows "keeps l (l\<lparr>lg_decisions := AList.update (de_decision_id d) d (lg_decisions l),
     lg_decision_legs := AList.update (de_decision_id d) legs (lg_decision_legs l)\<rparr>)"
  using assms by (auto simp: keeps_def update_conv')

lemma record_decision_cases:
  assumes "record_decision l d legs = Inr l'"
  obtains (retry) "l' = l" | (fresh) "map_of (lg_decisions l) (de_decision_id d) = None"
      "l' = l\<lparr>lg_decisions := AList.update (de_decision_id d) d (lg_decisions l),
         lg_decision_legs := AList.update (de_decision_id d) (sort_key dl_leg_index legs) (lg_decision_legs l)\<rparr>"
      "event_ok l d" "snapshot_ok l d" "legs_ok d (sort_key dl_leg_index legs)"
proof -
  from assms have c: "check_legs d (sort_key dl_leg_index legs) = Inr ()"
    "check_decision_event l d = Inr ()" "check_decision_snapshot l d = Inr ()"
    by (auto simp: record_decision_def Let_def rbind_eq_Inr_iff)
  show ?thesis
  proof (cases "map_of (lg_decisions l) (de_decision_id d)")
    case None
    with assms c have "l' = l\<lparr>lg_decisions := AList.update (de_decision_id d) d (lg_decisions l),
         lg_decision_legs := AList.update (de_decision_id d) (sort_key dl_leg_index legs) (lg_decision_legs l)\<rparr>"
      by (simp add: record_decision_def Let_def)
    with None c show ?thesis by (intro fresh check_legs_ok check_event_ok check_snapshot_ok)
  next
    case (Some e)
    with assms c have "l' = l" by (simp add: record_decision_def Let_def split: if_splits)
    then show ?thesis by (rule retry)
  qed
qed

lemma ledger_apply_keeps:
  assumes "ledger_apply l x = Inr l'"
  shows "keeps l l'"
proof (cases x)
  case (OpDecision d legs)
  with assms have "record_decision l d legs = Inr l'" by simp
  then show ?thesis by (cases rule: record_decision_cases) (simp_all add: keeps_refl decision_fresh_keeps)
next
  case (OpEvent r)
  with assms show ?thesis
    by (auto simp: record_event_def rbind_eq_Inr_iff keeps_def dest: put_immutable_keeps)
next
  case (OpSnapshot r)
  with assms show ?thesis
    by (auto simp: record_feature_snapshot_def rbind_eq_Inr_iff keeps_def dest: put_immutable_keeps)
next
  case (OpDelivery r)
  with assms show ?thesis
    by (auto simp: record_delivery_def rbind_eq_Inr_iff keeps_def dest: put_immutable_keeps)
next
  case (OpOutcome r)
  with assms show ?thesis
    by (auto simp: record_outcome_def rbind_eq_Inr_iff keeps_def dest: put_immutable_keeps)
next
  case (OpStrategyVersion r)
  with assms show ?thesis
    by (auto simp: record_strategy_version_def rbind_eq_Inr_iff keeps_def dest: put_immutable_keeps)
qed (use assms in \<open>auto simp: record_session_def record_compaction_manifest_def keeps_def\<close>)

lemma inv_frame:
  assumes "ledger_inv l" "keeps l l'" "lg_decisions l' = lg_decisions l" "lg_deliveries l' = lg_deliveries l"
    "lg_outcomes l' = lg_outcomes l"
  shows "ledger_inv l'"
proof -
  have d: "decision_ok l' d" if "map_of (lg_decisions l) k = Some d" for k d
    using assms(1) that keeps_decision_ok [OF assms(2)] unfolding ledger_inv_def by metis
  have o: "outcome_ok l' r" if "map_of (lg_outcomes l) k = Some r" for k r
    using assms(1) that keeps_outcome_ok [OF assms(2)] unfolding ledger_inv_def by metis
  show ?thesis
    using assms(1) d o unfolding ledger_inv_def assms(3-5) by blast
qed

lemma inv_decision:
  assumes inv: "ledger_inv l" and r: "record_decision l d legs = Inr l'"
  shows "ledger_inv l'"
  using r
proof (cases rule: record_decision_cases)
  case fresh
  have k: "keeps l l'" unfolding fresh(2) by (rule decision_fresh_keeps [OF fresh(1)])
  have new: "decision_ok l' d" using fresh by (simp add: decision_ok_def event_ok_def snapshot_ok_def update_conv')
  have dec: "map_of (lg_decisions l') = (map_of (lg_decisions l))(de_decision_id d \<mapsto> d)"
    by (simp add: fresh(2) update_conv')
  have old: "decision_ok l' e \<and> de_decision_id e = j" if "map_of (lg_decisions l) j = Some e" for j e
    using inv that keeps_decision_ok [OF k] unfolding ledger_inv_def by metis
  have "lg_deliveries l' = lg_deliveries l" "lg_outcomes l' = lg_outcomes l" by (simp_all add: fresh(2))
  then show ?thesis
    using inv new old keeps_outcome_ok [OF k] unfolding ledger_inv_def dec by (simp add: fun_upd_def)
qed (use inv in simp)

lemma ok_frame [simp]:
  "decision_ok (l\<lparr>lg_deliveries := t\<rparr>) = decision_ok l"
  "decision_ok (l\<lparr>lg_outcomes := u\<rparr>) = decision_ok l"
  "outcome_ok (l\<lparr>lg_deliveries := t\<rparr>) = outcome_ok l"
  "outcome_ok (l\<lparr>lg_outcomes := u\<rparr>) = outcome_ok l"
  by (auto simp: fun_eq_iff decision_ok_def event_ok_def snapshot_ok_def outcome_ok_def)

lemma inv_delivery:
  assumes inv: "ledger_inv l" and r: "record_delivery l v = Inr l'"
  shows "ledger_inv l'"
proof -
  from r obtain t where t: "put_immutable norm_delivery (lg_deliveries l) (dv_delivery_id v) v ''delivery'' = Inr t"
    and l': "l' = l\<lparr>lg_deliveries := t\<rparr>" and dec: "map_of (lg_decisions l) (dv_decision_id v) \<noteq> None"
    by (auto simp: record_delivery_def rbind_eq_Inr_iff)
  have "map_of (lg_decisions l) (dv_decision_id w) \<noteq> None" if "map_of t j = Some w" for j w
    using that dec inv tbl.get_after [OF t, of j] unfolding ledger_inv_def by (auto split: if_splits)
  then show ?thesis using inv by (simp add: l' ledger_inv_def)
qed

lemma inv_outcome:
  assumes inv: "ledger_inv l" and r: "record_outcome l v = Inr l'"
  shows "ledger_inv l'"
proof -
  from r obtain t where t: "put_immutable norm_outcome (lg_outcomes l) (oc_outcome_id v) v ''outcome'' = Inr t"
    and l': "l' = l\<lparr>lg_outcomes := t\<rparr>" and ok: "outcome_ok l v"
    and nat: "\<forall>x \<in> set (lg_outcomes l). \<not> (same_natural_key (snd x) v \<and> oc_outcome_id (snd x) \<noteq> oc_outcome_id v)"
    by (auto simp: record_outcome_def rbind_eq_Inr_iff for_each_ok_iff outcome_ok_def case_prod_unfold)
  note after = tbl.get_after [OF t]
  have upd: "t = AList.update (oc_outcome_id v) v (lg_outcomes l)"
    using t by (auto simp: put_immutable_def split: option.splits if_splits)
  have dist: "distinct (map fst t)" using inv by (simp add: upd ledger_inv_def distinct_update)
  have ids: "oc_outcome_id w = j \<and> outcome_ok l w" if "map_of t j = Some w" for j w
    using that after [of j] ok inv unfolding ledger_inv_def by (auto split: if_splits)
  have clash: "oc_outcome_id v = j" if "map_of (lg_outcomes l) j = Some w" "same_natural_key w v" for j w
    using nat map_of_SomeD [OF that(1)] that inv unfolding ledger_inv_def by fastforce
  have sym: "same_natural_key w w' \<longleftrightarrow> same_natural_key w' w" for w w' by (auto simp: same_natural_key_def)
  have uniq: "j = j'" if "map_of t j = Some w" "map_of t j' = Some w'" "same_natural_key w w'" for j j' w w'
    using that after [of j] after [of j'] clash sym inv unfolding ledger_inv_def
    by (metis option.inject)
  show ?thesis
    using inv ids uniq dist by (simp add: l' ledger_inv_def)
qed

lemma ledger_apply_inv:
  assumes "ledger_inv l" "ledger_apply l x = Inr l'"
  shows "ledger_inv l'"
proof -
  note k = ledger_apply_keeps [OF assms(2)]
  note frame = inv_frame [OF assms(1) k]
  show ?thesis
  proof (cases x)
    case (OpDecision d legs)
    with assms show ?thesis by (auto intro: inv_decision)
  next
    case (OpDelivery r)
    with assms show ?thesis by (auto intro: inv_delivery)
  next
    case (OpOutcome r)
    with assms show ?thesis by (auto intro: inv_outcome)
  qed (rule frame; use assms(2) in \<open>auto simp: record_session_def record_strategy_version_def record_event_def
      record_feature_snapshot_def record_compaction_manifest_def rbind_eq_Inr_iff\<close>)+
qed

lemma ledger_inv_empty [simp]: "ledger_inv empty_ledger"
  by (simp add: ledger_inv_def empty_ledger_def)

lemma ledger_step_inv: "ledger_inv l \<Longrightarrow> ledger_inv (ledger_step l x)"
  by (auto simp: ledger_step_def intro: ledger_apply_inv split: sum.split)

lemma ledger_step_keeps: "keeps l (ledger_step l x)"
  by (auto simp: ledger_step_def keeps_refl intro: ledger_apply_keeps split: sum.split)

lemma ledger_run_inv: "ledger_inv (ledger_run xs)"
  by (induction xs rule: rev_induct) (auto intro: ledger_step_inv)

lemma ledger_run_keeps: "keeps l (foldl ledger_step l xs)"
  by (induction xs rule: rev_induct) (auto intro: keeps_refl keeps_trans ledger_step_keeps)

text \<open>
  C1: After any sequence of recording operations, accepted or refused, no decision in the ledger
  looks ahead: the event and the feature snapshot it names are recorded and were available
  at decision time, and so were the quotes of its legs, which are listed by strictly
  increasing index; deliveries and outcomes refer to recorded decisions and events, and no
  two outcomes share an event, a decision and a horizon.
\<close>

theorem ledger_never_looks_ahead: "ledger_inv (ledger_run xs)"
  by (rule ledger_run_inv)

text \<open>
  Two tables are not write-once: the session of a day and the manifest of a compacted source may be recorded
  again, and the last record stands.
\<close>

fun last_session :: "int \<Rightarrow> ledger_op list \<Rightarrow> session_record option \<Rightarrow> session_record option" where
  "last_session day [] found = found"
| "last_session day (OpSession r # xs) found = last_session day xs (if se_session_date r = day then Some r else found)"
| "last_session day (_ # xs) found = last_session day xs found"

fun last_manifest ::
  "string \<times> string \<Rightarrow> ledger_op list \<Rightarrow> compaction_manifest_record option \<Rightarrow> compaction_manifest_record option" where
  "last_manifest k [] found = found"
| "last_manifest k (OpManifest r # xs) found =
     last_manifest k xs (if (cm_source_path r, cm_source_sha256 r) = k then Some r else found)"
| "last_manifest k (_ # xs) found = last_manifest k xs found"

text \<open>Every other operation leaves the two tables alone.\<close>

lemma upserts_only:
  assumes "ledger_apply l x = Inr l'"
  shows "(\<forall>r. x \<noteq> OpSession r) \<Longrightarrow> lg_sessions l' = lg_sessions l"
    and "(\<forall>r. x \<noteq> OpManifest r) \<Longrightarrow> lg_compaction_manifests l' = lg_compaction_manifests l"
  using assms
  by (cases x; auto simp: record_session_def record_strategy_version_def record_event_def record_feature_snapshot_def
      record_delivery_def record_outcome_def record_compaction_manifest_def rbind_eq_Inr_iff elim!: record_decision_cases)+

lemma step_upserts:
  "(\<forall>r. x \<noteq> OpSession r) \<Longrightarrow> lg_sessions (ledger_step l x) = lg_sessions l"
  "(\<forall>r. x \<noteq> OpManifest r) \<Longrightarrow> lg_compaction_manifests (ledger_step l x) = lg_compaction_manifests l"
  by (auto simp: ledger_step_def upserts_only split: sum.split)

lemma run_sessions: "map_of (lg_sessions (foldl ledger_step l xs)) day = last_session day xs (map_of (lg_sessions l) day)"
proof (induction xs arbitrary: l)
  case (Cons x xs)
  have "map_of (lg_sessions (ledger_step l (OpSession r))) day = (if se_session_date r = day then Some r else map_of (lg_sessions l) day)" for r
    by (simp add: ledger_step_def record_session_def update_conv)
  then show ?case using Cons.IH by (cases x) (simp_all add: step_upserts)
qed simp

lemma run_manifests:
  "map_of (lg_compaction_manifests (foldl ledger_step l xs)) k = last_manifest k xs (map_of (lg_compaction_manifests l) k)"
proof (induction xs arbitrary: l)
  case (Cons x xs)
  have "map_of (lg_compaction_manifests (ledger_step l (OpManifest r))) k =
      (if (cm_source_path r, cm_source_sha256 r) = k then Some r else map_of (lg_compaction_manifests l) k)" for r
    by (auto simp: ledger_step_def record_compaction_manifest_def update_conv)
  then show ?case using Cons.IH by (cases x) (simp_all add: step_upserts)
qed simp

text \<open>
  C28: Events, feature snapshots, decisions with their legs, deliveries, outcomes and strategy versions are append-only:
  such a record once present is never lost or altered by any further operations, up to equality of
  records, and the lists of legs never change. The other two tables keep the last record: the
  session of a day and the manifest of a source are those of the last further operation that
  recorded one for this key, and those from before when there is none.
\<close>

theorem ledger_append_only:
  "keeps (ledger_run xs) (ledger_run (xs @ ys))
   \<and> (\<forall>day. map_of (lg_sessions (ledger_run (xs @ ys))) day = last_session day ys (map_of (lg_sessions (ledger_run xs)) day))
   \<and> (\<forall>path sha. get_compaction_manifest (ledger_run (xs @ ys)) path sha
        = last_manifest (path, sha) ys (get_compaction_manifest (ledger_run xs) path sha))"
  by (simp add: ledger_run_keeps run_sessions run_manifests get_compaction_manifest_def)

subsection \<open>Retries\<close>

lemma put_update: "AList.update k v (AList.update k v m) = AList.update k v m"
  by (induction m) auto

lemma check_after_decision:
  assumes "record_decision l d legs = Inr l'"
  shows "check_decision_event l' d = check_decision_event l d"
    and "check_decision_snapshot l' d = check_decision_snapshot l d"
  using assms by (cases rule: record_decision_cases; simp add: check_decision_event_def check_decision_snapshot_def)+

lemma retry_decision:
  assumes "record_decision l d legs = Inr l'"
  shows "record_decision l' d legs = Inr l'"
proof -
  have c: "check_legs d (sort_key dl_leg_index legs) = Inr ()" "check_decision_event l d = Inr ()"
    "check_decision_snapshot l d = Inr ()"
    using assms by (auto simp: record_decision_def Let_def rbind_eq_Inr_iff)
  from assms show ?thesis
  proof (cases rule: record_decision_cases)
    case retry
    with assms show ?thesis by simp
  next
    case fresh
    then show ?thesis
      using c check_after_decision [OF assms]
      by (simp add: record_decision_def Let_def update_conv' legs_of_def)
  qed
qed

lemma retry_outcome:
  assumes inv: "ledger_inv l" and r: "record_outcome l v = Inr l'"
  shows "record_outcome l' v = Inr l'"
proof -
  from r obtain t where t: "put_immutable norm_outcome (lg_outcomes l) (oc_outcome_id v) v ''outcome'' = Inr t"
    and l': "l' = l\<lparr>lg_outcomes := t\<rparr>" and ok: "outcome_ok l v"
    by (auto simp: record_outcome_def rbind_eq_Inr_iff outcome_ok_def)
  have inv': "ledger_inv l'" by (rule inv_outcome [OF inv r])
  have v: "map_of t (oc_outcome_id v) = Some v" using t by (rule tbl.get_put)
  have lo: "lg_outcomes l' = t" by (simp add: l')
  have "for_each (\<lambda>(_, existing).
      guard_raise (same_natural_key existing v \<and> oc_outcome_id existing \<noteq> oc_outcome_id v)
        (LedgerConflictError ''conflicting outcome natural key'')) (lg_outcomes l') = Inr ()"
    unfolding for_each_ok_iff
  proof (intro ballI, clarify)
    fix k e assume "(k, e) \<in> set (lg_outcomes l')"
    then have m: "map_of (lg_outcomes l') k = Some e"
      using inv' by (simp add: ledger_inv_def map_of_eq_Some_iff)
    have "oc_outcome_id e = k" using inv' m unfolding ledger_inv_def by blast
    moreover have "k = oc_outcome_id v" if "same_natural_key e v"
      using inv' m v [folded lo] that unfolding ledger_inv_def by blast
    ultimately have "\<not> (same_natural_key e v \<and> oc_outcome_id e \<noteq> oc_outcome_id v)" by blast
    then show "guard_raise (same_natural_key e v \<and> oc_outcome_id e \<noteq> oc_outcome_id v)
        (LedgerConflictError ''conflicting outcome natural key'') = Inr ()" by simp
  qed
  then show ?thesis
    using ok put_immutable_retry_same [OF t]
    by (auto simp: record_outcome_def l' outcome_ok_def rbind_def guard_raise_def)
qed

text \<open>
  C29: Recording is retry-safe: after an accepted operation on a ledger that satisfies the
  invariant, the same operation is accepted again and changes nothing.
\<close>

theorem ledger_retry_safe:
  assumes "ledger_inv l" and "ledger_apply l x = Inr l'"
  shows "ledger_apply l' x = Inr l'"
proof (cases x)
  case (OpDecision d legs)
  with assms show ?thesis by (simp add: retry_decision)
next
  case (OpOutcome r)
  with assms show ?thesis by (simp add: retry_outcome)
qed (use assms(2) in \<open>auto simp: record_session_def record_compaction_manifest_def put_update
    record_strategy_version_def record_event_def record_feature_snapshot_def record_delivery_def rbind_eq_Inr_iff
    dest: put_immutable_retry_same\<close>)

lemma ledger_retry_safe_witness:
  "\<exists>l'. ledger_apply (ledger_run [OpEvent sample_event]) (OpDecision sample_decision [sample_leg]) = Inr l'
     \<and> get_decision l' ''d1'' = Some sample_decision
     \<and> ledger_apply l' (OpDecision sample_decision [sample_leg]) = Inr l'"
proof -
  have "\<exists>l'. ledger_apply (ledger_run [OpEvent sample_event]) (OpDecision sample_decision [sample_leg]) = Inr l'
     \<and> get_decision l' ''d1'' = Some sample_decision"
    by (simp add: ledger_step_def record_event_def put_immutable_def empty_ledger_def record_decision_def
        check_legs_def check_decision_event_def check_decision_snapshot_def sample_records Let_def get_decision_def)
  then show ?thesis using ledger_retry_safe [OF ledger_run_inv] by blast
qed

end
