(* ===== verification/Ledger_Refinement.thy ===== *)
theory Ledger_Refinement
  imports Decision_Ledger
begin

section \<open>What the ledger promises, and that it does\<close>

text \<open>
  The contract of the ledger port (\<^verbatim>\<open>data_platform/ports.py\<close>) without lists, rewriting or error
  texts: write-once tables of records up to equality, an acceptance condition and an update
  per operation. The in-memory ledger implements it: a functional refinement, stated for any
  such pair by the locale \<open>refinement\<close> and interpreted on the ledger's definitions.
\<close>

subsection \<open>Functional refinement of a fallible machine\<close>

locale refinement =
  fixes apply_op :: "'s \<Rightarrow> 'o \<Rightarrow> 's res" and init :: 's and inv :: "'s \<Rightarrow> bool"
    and accepts :: "'a \<Rightarrow> 'o \<Rightarrow> bool" and update :: "'a \<Rightarrow> 'o \<Rightarrow> 'a" and abs :: "'s \<Rightarrow> 'a"
  assumes inv_init: "inv init"
    and inv_apply: "inv s \<Longrightarrow> apply_op s x = Inr s' \<Longrightarrow> inv s'"
    and accepts_iff: "inv s \<Longrightarrow> is_ok (apply_op s x) \<longleftrightarrow> accepts (abs s) x"
    and abs_apply: "inv s \<Longrightarrow> apply_op s x = Inr s' \<Longrightarrow> abs s' = update (abs s) x"
begin

definition run :: "'o list \<Rightarrow> 's" where
  "run xs = foldl (\<lambda>s x. case apply_op s x of Inr s' \<Rightarrow> s' | Inl _ \<Rightarrow> s) init xs"

definition spec_run :: "'o list \<Rightarrow> 'a" where
  "spec_run xs = foldl (\<lambda>a x. if accepts a x then update a x else a) (abs init) xs"

lemma run_refines: "inv (run xs) \<and> abs (run xs) = spec_run xs"
proof (induction xs rule: rev_induct)
  case Nil
  then show ?case by (simp add: run_def spec_run_def inv_init)
next
  case (snoc x xs)
  let ?s = "run xs"
  have step: "run (xs @ [x]) = (case apply_op ?s x of Inr s' \<Rightarrow> s' | Inl _ \<Rightarrow> ?s)"
      "spec_run (xs @ [x]) = (if accepts (spec_run xs) x then update (spec_run xs) x else spec_run xs)"
    unfolding run_def spec_run_def by simp_all
  show ?case
  proof (cases "apply_op ?s x")
    case (Inl e)
    then show ?thesis using step snoc accepts_iff [of ?s x] by simp
  next
    case (Inr s')
    then show ?thesis using step snoc accepts_iff [of ?s x] inv_apply [of ?s x s'] abs_apply [of ?s x s'] by simp
  qed
qed

lemma run_accepts: "is_ok (apply_op (run xs) x) \<longleftrightarrow> accepts (spec_run xs) x"
  using run_refines [of xs] accepts_iff [of "run xs" x] by simp

end

subsection \<open>The contract of the ledger\<close>

record ledger_spec =
  sp_sessions :: "int \<Rightarrow> session_record option"
  sp_versions :: "string \<times> string \<Rightarrow> strategy_version_record option"
  sp_events :: "string \<Rightarrow> event_record option"
  sp_snapshots :: "string \<Rightarrow> feature_snapshot_record option"
  sp_decisions :: "string \<Rightarrow> (decision_record \<times> decision_leg_record list) option"
  sp_deliveries :: "string \<Rightarrow> delivery_record option"
  sp_outcomes :: "string \<Rightarrow> outcome_record option"
  sp_manifests :: "string \<times> string \<Rightarrow> compaction_manifest_record option"

text \<open>A fact may be written once; writing the same fact again is allowed.\<close>

definition write_once :: "('k \<Rightarrow> 'v option) \<Rightarrow> 'k \<Rightarrow> 'v \<Rightarrow> bool" where
  "write_once table k v \<longleftrightarrow> table k = None \<or> table k = Some v"

text \<open>An optional reference is empty or names a fact that was available at the instant.\<close>

definition available :: "(string \<Rightarrow> 'v option) \<Rightarrow> ('v \<Rightarrow> int) \<Rightarrow> string option \<Rightarrow> int \<Rightarrow> bool" where
  "available table instant ref t \<longleftrightarrow>
     (text_true ref \<longrightarrow> (\<exists>v. table (text_or ref []) = Some v \<and> instant v \<le> t))"

fun spec_accepts :: "ledger_spec \<Rightarrow> ledger_op \<Rightarrow> bool" where
  "spec_accepts s (OpSession r) = True"
| "spec_accepts s (OpStrategyVersion r) =
     write_once (sp_versions s) (sv_strategy_name r, sv_strategy_version r) (norm_strategy_version r)"
| "spec_accepts s (OpEvent r) = write_once (sp_events s) (ev_event_key r) (norm_event r)"
| "spec_accepts s (OpSnapshot r) =
     ((text_true (fs_event_key r) \<longrightarrow> sp_events s (text_or (fs_event_key r) []) \<noteq> None)
      \<and> write_once (sp_snapshots s) (fs_snapshot_id r) (norm_snapshot r))"
| "spec_accepts s (OpDecision d legs) =
     (distinct (map dl_leg_index legs)
      \<and> (\<forall>leg \<in> set legs. dl_decision_id leg = de_decision_id d
           \<and> dt_instant (dl_quote_available_at leg) \<le> dt_instant (de_decision_at d))
      \<and> available (sp_events s) (\<lambda>e. dt_instant (ev_available_at e)) (de_event_key d) (dt_instant (de_decision_at d))
      \<and> available (sp_snapshots s) (\<lambda>f. dt_instant (fs_available_at f)) (de_feature_snapshot_id d)
          (dt_instant (de_decision_at d))
      \<and> write_once (sp_decisions s) (de_decision_id d)
          (norm_decision d, map norm_leg (sort_key dl_leg_index legs)))"
| "spec_accepts s (OpDelivery r) =
     (sp_decisions s (dv_decision_id r) \<noteq> None \<and> write_once (sp_deliveries s) (dv_delivery_id r) (norm_delivery r))"
| "spec_accepts s (OpOutcome r) =
     (sp_events s (oc_event_key r) \<noteq> None
      \<and> (text_true (oc_decision_id r) \<longrightarrow> sp_decisions s (text_or (oc_decision_id r) []) \<noteq> None)
      \<and> (\<forall>k r'. sp_outcomes s k = Some r' \<and> same_natural_key r' r \<longrightarrow> k = oc_outcome_id r)
      \<and> write_once (sp_outcomes s) (oc_outcome_id r) (norm_outcome r))"
| "spec_accepts s (OpManifest r) = True"

fun spec_update :: "ledger_spec \<Rightarrow> ledger_op \<Rightarrow> ledger_spec" where
  "spec_update s (OpSession r) = s\<lparr>sp_sessions := (sp_sessions s)(se_session_date r \<mapsto> r)\<rparr>"
| "spec_update s (OpStrategyVersion r) =
     s\<lparr>sp_versions := (sp_versions s)((sv_strategy_name r, sv_strategy_version r) \<mapsto> norm_strategy_version r)\<rparr>"
| "spec_update s (OpEvent r) = s\<lparr>sp_events := (sp_events s)(ev_event_key r \<mapsto> norm_event r)\<rparr>"
| "spec_update s (OpSnapshot r) = s\<lparr>sp_snapshots := (sp_snapshots s)(fs_snapshot_id r \<mapsto> norm_snapshot r)\<rparr>"
| "spec_update s (OpDecision d legs) =
     s\<lparr>sp_decisions := (sp_decisions s)(de_decision_id d \<mapsto> (norm_decision d, map norm_leg (sort_key dl_leg_index legs)))\<rparr>"
| "spec_update s (OpDelivery r) = s\<lparr>sp_deliveries := (sp_deliveries s)(dv_delivery_id r \<mapsto> norm_delivery r)\<rparr>"
| "spec_update s (OpOutcome r) = s\<lparr>sp_outcomes := (sp_outcomes s)(oc_outcome_id r \<mapsto> norm_outcome r)\<rparr>"
| "spec_update s (OpManifest r) =
     s\<lparr>sp_manifests := (sp_manifests s)((cm_source_path r, cm_source_sha256 r) \<mapsto> r)\<rparr>"

definition table_of :: "('v \<Rightarrow> 'w) \<Rightarrow> ('k \<times> 'v) list \<Rightarrow> 'k \<Rightarrow> 'w option" where
  "table_of nf t k = map_option nf (map_of t k)"

definition abs_ledger :: "ledger \<Rightarrow> ledger_spec" where
  "abs_ledger l =
     \<lparr>sp_sessions = map_of (lg_sessions l), sp_versions = table_of norm_strategy_version (lg_strategy_versions l),
      sp_events = table_of norm_event (lg_events l), sp_snapshots = table_of norm_snapshot (lg_feature_snapshots l),
      sp_decisions = (\<lambda>k. map_option (\<lambda>d. (norm_decision d, map norm_leg (legs_of l k))) (map_of (lg_decisions l) k)),
      sp_deliveries = table_of norm_delivery (lg_deliveries l), sp_outcomes = table_of norm_outcome (lg_outcomes l),
      sp_manifests = map_of (lg_compaction_manifests l)\<rparr>"

definition empty_contract :: ledger_spec where
  "empty_contract =
     \<lparr>sp_sessions = Map.empty, sp_versions = Map.empty, sp_events = Map.empty, sp_snapshots = Map.empty,
      sp_decisions = Map.empty, sp_deliveries = Map.empty, sp_outcomes = Map.empty, sp_manifests = Map.empty\<rparr>"

definition contract_run :: "ledger_op list \<Rightarrow> ledger_spec" where
  "contract_run xs = foldl (\<lambda>s x. if spec_accepts s x then spec_update s x else s) empty_contract xs"

subsection \<open>The in-memory ledger implements the contract\<close>

lemma table_of_update [simp]: "table_of nf (AList.update k v t) = (table_of nf t)(k \<mapsto> nf v)"
  by (rule ext) (simp add: table_of_def update_conv')

lemma put_immutable_iff:
  "put_immutable nf t k v label = Inr t' \<longleftrightarrow> write_once (table_of nf t) k (nf v) \<and> t' = AList.update k v t"
  by (auto simp: put_immutable_def write_once_def table_of_def split: option.splits)

lemma put_immutable_ok: "is_ok (put_immutable nf t k v label) \<longleftrightarrow> write_once (table_of nf t) k (nf v)"
  by (auto simp: is_ok_iff put_immutable_iff)

lemma table_of_None: "table_of nf t k = None \<longleftrightarrow> map_of t k = None"
  by (simp add: table_of_def)

lemma is_ok_guard: "is_ok (guard_raise b e) \<longleftrightarrow> \<not> b"
  by (simp add: guard_raise_def)

lemma instant_norm_dt [simp]: "dt_instant (norm_dt t) = dt_instant t"
  by (cases t) (simp_all add: norm_dt_def)

lemma check_event_iff:
  "is_ok (check_decision_event l d) \<longleftrightarrow>
     available (sp_events (abs_ledger l)) (\<lambda>e. dt_instant (ev_available_at e)) (de_event_key d) (dt_instant (de_decision_at d))"
  by (auto simp: check_decision_event_def available_def abs_ledger_def table_of_def is_ok_guard norm_event_def
      split: option.splits)

lemma check_snapshot_iff:
  "is_ok (check_decision_snapshot l d) \<longleftrightarrow>
     available (sp_snapshots (abs_ledger l)) (\<lambda>f. dt_instant (fs_available_at f)) (de_feature_snapshot_id d) (dt_instant (de_decision_at d))"
  by (auto simp: check_decision_snapshot_def available_def abs_ledger_def table_of_def is_ok_guard norm_snapshot_def
      split: option.splits)

lemma is_ok_unit: "is_ok (v :: unit res) \<longleftrightarrow> v = Inr ()"
  by (simp add: is_ok_iff)

lemma is_ok_rbind_unit: "is_ok (rbind (v :: unit res) (\<lambda>_. w)) \<longleftrightarrow> is_ok v \<and> is_ok w"
  by (simp add: is_ok_rbind is_ok_unit)

lemma is_ok_put: "is_ok (rbind (put_immutable nf t k v label) (\<lambda>u. Inr (f u))) \<longleftrightarrow> write_once (table_of nf t) k (nf v)"
  by (simp add: is_ok_rbind put_immutable_iff)

lemma for_each_is_ok: "is_ok (for_each f xs) \<longleftrightarrow> (\<forall>x \<in> set xs. is_ok (f x))"
  by (simp add: is_ok_unit for_each_ok_iff)

lemma check_legs_iff:
  "is_ok (check_legs d (sort_key dl_leg_index legs)) \<longleftrightarrow>
     distinct (map dl_leg_index legs)
     \<and> (\<forall>leg \<in> set legs. dl_decision_id leg = de_decision_id d
          \<and> dt_instant (dl_quote_available_at leg) \<le> dt_instant (de_decision_at d))"
proof -
  have "distinct (map dl_leg_index (sort_key dl_leg_index legs)) \<longleftrightarrow> distinct (map dl_leg_index legs)"
    by (simp add: distinct_map)
  then show ?thesis
    by (auto simp: check_legs_def is_ok_rbind_unit for_each_is_ok is_ok_guard)
qed

lemma decision_accepts: "is_ok (record_decision l d legs) \<longleftrightarrow> spec_accepts (abs_ledger l) (OpDecision d legs)"
proof -
  have w: "write_once (sp_decisions (abs_ledger l)) (de_decision_id d) (norm_decision d, map norm_leg (sort_key dl_leg_index legs))
      \<longleftrightarrow> is_ok (case map_of (lg_decisions l) (de_decision_id d) of
          Some existing \<Rightarrow>
            if norm_decision existing \<noteq> norm_decision d
               \<or> map norm_leg (legs_of l (de_decision_id d)) \<noteq> map norm_leg (sort_key dl_leg_index legs)
            then Inl (LedgerConflictError ''conflicting immutable decision aggregate'')
            else Inr l
        | None \<Rightarrow> Inr (l\<lparr>lg_decisions := AList.update (de_decision_id d) d (lg_decisions l),
                   lg_decision_legs := AList.update (de_decision_id d) (sort_key dl_leg_index legs) (lg_decision_legs l)\<rparr>))"
    by (auto simp: write_once_def abs_ledger_def split: option.splits)
  show ?thesis
    unfolding record_decision_def Let_def is_ok_rbind_unit spec_accepts.simps w check_event_iff check_snapshot_iff
      check_legs_iff by blast
qed

lemma outcome_natural_key:
  assumes "ledger_inv l"
  shows "(\<forall>k r'. sp_outcomes (abs_ledger l) k = Some r' \<and> same_natural_key r' r \<longrightarrow> k = oc_outcome_id r)
     \<longleftrightarrow> is_ok (for_each (\<lambda>(_, existing).
              guard_raise (same_natural_key existing r \<and> oc_outcome_id existing \<noteq> oc_outcome_id r)
                (LedgerConflictError ''conflicting outcome natural key'')) (lg_outcomes l))"
proof -
  have d: "distinct (map fst (lg_outcomes l))"
    and ids: "\<And>k r. map_of (lg_outcomes l) k = Some r \<Longrightarrow> oc_outcome_id r = k"
    using assms by (auto simp: ledger_inv_def)
  have norm: "same_natural_key (norm_outcome x) r \<longleftrightarrow> same_natural_key x r" for x
    by (simp add: same_natural_key_def norm_outcome_def)
  show ?thesis
    using d ids by (auto simp: for_each_is_ok is_ok_guard abs_ledger_def table_of_def norm split: prod.splits
        dest: map_of_is_SomeI) (metis norm)
qed

lemma ledger_accepts:
  assumes "ledger_inv l"
  shows "is_ok (ledger_apply l x) \<longleftrightarrow> spec_accepts (abs_ledger l) x"
proof (cases x)
  case (OpDecision d legs)
  then show ?thesis using decision_accepts by simp
next
  case (OpOutcome r)
  show ?thesis
    unfolding OpOutcome ledger_apply.simps spec_accepts.simps outcome_natural_key [OF assms]
      record_outcome_def is_ok_rbind_unit is_ok_guard is_ok_put
    by (auto simp: abs_ledger_def table_of_None)
qed (auto simp: record_strategy_version_def record_event_def record_feature_snapshot_def record_delivery_def
    is_ok_rbind_unit is_ok_guard is_ok_put abs_ledger_def table_of_None)

lemma ledger_updates:
  assumes "ledger_apply l x = Inr l'"
  shows "abs_ledger l' = spec_update (abs_ledger l) x"
proof (cases x)
  case (OpDecision d legs)
  with assms have r: "record_decision l d legs = Inr l'" by simp
  then have ok: "spec_accepts (abs_ledger l) (OpDecision d legs)" using decision_accepts [of l d legs] by simp
  from r show ?thesis
  proof (cases rule: record_decision_cases)
    case retry
    have "map_of (lg_decisions l) (de_decision_id d) \<noteq> None"
    proof
      assume none: "map_of (lg_decisions l) (de_decision_id d) = None"
      then have "lg_decisions l' = AList.update (de_decision_id d) d (lg_decisions l)"
        using r by (auto simp: record_decision_def Let_def rbind_eq_Inr_iff)
      then show False using none retry by (metis fun_upd_same option.distinct(1) update_conv')
    qed
    then have "sp_decisions (abs_ledger l) (de_decision_id d)
        = Some (norm_decision d, map norm_leg (sort_key dl_leg_index legs))"
      using ok by (auto simp: write_once_def abs_ledger_def)
    then show ?thesis using retry OpDecision by (simp add: fun_upd_idem)
  next
    case fresh
    then show ?thesis
      by (auto simp: OpDecision abs_ledger_def legs_of_def update_conv' fun_eq_iff)
  qed
qed (use assms in \<open>auto simp: record_session_def record_strategy_version_def record_event_def record_feature_snapshot_def
    record_delivery_def record_outcome_def record_compaction_manifest_def rbind_eq_Inr_iff put_immutable_iff
    abs_ledger_def legs_of_def update_conv'\<close>)

interpretation lr: refinement ledger_apply empty_ledger ledger_inv spec_accepts spec_update abs_ledger
  by unfold_locales (auto intro: ledger_apply_inv simp: ledger_accepts ledger_updates)

lemma lr_run: "lr.run xs = ledger_run xs" "lr.spec_run xs = contract_run xs"
proof -
  show "lr.run xs = ledger_run xs"
    by (simp add: lr.run_def ledger_step_def [abs_def] cong: if_cong)
  have "abs_ledger empty_ledger = empty_contract"
    by (auto simp: abs_ledger_def empty_ledger_def empty_contract_def table_of_def)
  then show "lr.spec_run xs = contract_run xs"
    by (simp add: lr.spec_run_def contract_run_def)
qed

text \<open>
  C5: The ledger refines its contract. After any sequence of operations its tables are, up to
  equality of records, those of the write-once specification fed with the same operations; it
  raises on exactly the operations the specification refuses; and its queries answer from the
  abstract tables.
\<close>

theorem ledger_refines_contract:
  "abs_ledger (ledger_run xs) = contract_run xs
   \<and> (is_ok (ledger_apply (ledger_run xs) x) \<longleftrightarrow> spec_accepts (contract_run xs) x)
   \<and> map_option norm_event (get_event (ledger_run xs) k) = sp_events (contract_run xs) k
   \<and> map_option (\<lambda>d. (norm_decision d, map norm_leg (list_decision_legs (ledger_run xs) k))) (get_decision (ledger_run xs) k)
       = sp_decisions (contract_run xs) k
   \<and> get_compaction_manifest (ledger_run xs) path sha = sp_manifests (contract_run xs) (path, sha)"
proof -
  have a: "contract_run xs = abs_ledger (ledger_run xs)"
    using lr.run_refines [of xs] unfolding lr_run by simp
  have "is_ok (ledger_apply (ledger_run xs) x) \<longleftrightarrow> spec_accepts (contract_run xs) x"
    using lr.run_accepts [of xs x] unfolding lr_run .
  then show ?thesis
    unfolding a by (simp add: abs_ledger_def table_of_def get_event_def get_decision_def list_decision_legs_def
        get_compaction_manifest_def)
qed

end
