(* ===== verification/Level_Decision.thy ===== *)
theory Level_Decision
  imports Py_Value
begin

section \<open>Wall/flip decision machine (\<^verbatim>\<open>application/order_map/level_decision_machine.py\<close>)\<close>

text \<open>
  One event lifecycle per price level: approach, test, break or reject, acceptance, retest
  and confirmation, with expiry and re-arming. The state is the dictionary the code keeps, a
  map from keys to dynamic values, so that a state loaded from disk may hold anything; every
  conversion that can raise is a branch of the model. Timestamps in the state are the ISO
  texts the code writes, read back through \<open>std_fromiso\<close>.
\<close>

datatype level_phase =
    Far | Approaching | Testing | BreakPending | RejectPending | Accepted | Rejected
  | Retest | Confirmed | Invalidated | Expired

fun phase_value :: "level_phase \<Rightarrow> string" where
  "phase_value Far = ''far''"
| "phase_value Approaching = ''approaching''"
| "phase_value Testing = ''testing''"
| "phase_value BreakPending = ''break_pending''"
| "phase_value RejectPending = ''reject_pending''"
| "phase_value Accepted = ''accepted''"
| "phase_value Rejected = ''rejected''"
| "phase_value Retest = ''retest''"
| "phase_value Confirmed = ''confirmed''"
| "phase_value Invalidated = ''invalidated''"
| "phase_value Expired = ''expired''"

definition all_phases :: "level_phase list" where
  "all_phases = [Far, Approaching, Testing, BreakPending, RejectPending, Accepted, Rejected,
     Retest, Confirmed, Invalidated, Expired]"

datatype level_thesis = ThesisNone | Breakout | Fade

fun thesis_value :: "level_thesis \<Rightarrow> string" where
  "thesis_value ThesisNone = ''none''"
| "thesis_value Breakout = ''breakout''"
| "thesis_value Fade = ''fade''"

definition thesis_of :: "string \<Rightarrow> level_thesis res" where
  "thesis_of s =
     (case find (\<lambda>t. thesis_value t = s) [ThesisNone, Breakout, Fade] of
        Some t \<Rightarrow> Inr t
      | None \<Rightarrow> Inl (ValueError ''not a valid LevelThesis''))"

record level_settings =
  ls_approach_points :: pyfloat
  ls_test_points :: pyfloat
  ls_break_buffer_points :: pyfloat
  ls_reject_points :: pyfloat
  ls_accept_hold_seconds :: pyfloat
  ls_retest_points :: pyfloat
  ls_confirm_move_points :: pyfloat
  ls_confirm_hold_seconds :: pyfloat
  ls_phase_timeout_seconds :: pyfloat
  ls_event_ttl_seconds :: pyfloat
  ls_data_grace_seconds :: pyfloat
  ls_structure_drift_points :: pyfloat
  ls_es_confirm_ratio :: pyfloat
  ls_terminal_rearm_seconds :: pyfloat

definition default_level_settings :: level_settings where
  "default_level_settings =
     \<lparr>ls_approach_points = Fin 12, ls_test_points = Fin 4, ls_break_buffer_points = Fin 3,
      ls_reject_points = Fin 6, ls_accept_hold_seconds = Fin 20, ls_retest_points = Fin 4,
      ls_confirm_move_points = Fin 4, ls_confirm_hold_seconds = Fin 10, ls_phase_timeout_seconds = Fin 90,
      ls_event_ttl_seconds = Fin 300, ls_data_grace_seconds = Fin 30, ls_structure_drift_points = Fin 5,
      ls_es_confirm_ratio = Fin (1 / 4), ls_terminal_rearm_seconds = Fin 30\<rparr>"

record level_observation =
  lo_at :: pydt
  lo_spot :: "pyfloat option"
  lo_es :: "pyfloat option"
  lo_levels :: "(string \<times> pyfloat) list"
  lo_quality_ok :: bool
  lo_quality_reason :: "string option"
  lo_session_date :: string
  lo_session_mode :: string
  lo_spot_source :: string
  lo_level_source :: string
  lo_spx_levels :: "(string \<times> pyfloat) list option"
  lo_trigger_coordinate_kind :: string
  lo_trigger_instrument_id :: "string option"
  lo_trigger_basis_points :: "pyfloat option"
  lo_spx_spot :: "pyfloat option"
  lo_arm_allowed :: bool
  lo_arm_block_reason :: "string option"

type_synonym level_state = "string \<Rightarrow> pyval option"

record level_transition =
  lt_previous_phase :: level_phase
  lt_current_phase :: level_phase
  lt_state :: level_state
  lt_changed :: bool
  lt_reason :: string

definition outside_direction_of :: "string \<Rightarrow> int option" where
  "outside_direction_of kind =
     map_of [(''put_wall'', - 1), (''flip_low'', - 1), (''flip_high'', 1), (''call_wall'', 1)] kind"

definition terminal_phase :: "level_phase \<Rightarrow> bool" where
  "terminal_phase p = (p \<in> {Invalidated, Expired})"

definition timeout_phase :: "level_phase \<Rightarrow> bool" where
  "timeout_phase p = (p \<in> {BreakPending, RejectPending, Accepted, Rejected, Retest})"

subsection \<open>Reading the state\<close>

definition sget :: "level_state \<Rightarrow> string \<Rightarrow> pyval" where
  "sget s k = (case s k of Some v \<Rightarrow> v | None \<Rightarrow> VNone)"

definition sitem :: "level_state \<Rightarrow> string \<Rightarrow> pyval res" where
  "sitem s k = (case s k of Some v \<Rightarrow> Inr v | None \<Rightarrow> Inl (KeyError k))"

text \<open>\<^verbatim>\<open>str(state.get(k) or d)\<close>.\<close>

definition stext :: "py_std \<Rightarrow> level_state \<Rightarrow> string \<Rightarrow> string \<Rightarrow> string" where
  "stext std s k d = py_str std (vor (sget s k) (VStr d))"

definition iso :: "int \<Rightarrow> pyval" where
  "iso t = VStr (isoformat t)"

definition opt_float :: "pyfloat option \<Rightarrow> pyval" where
  "opt_float v = (case v of Some x \<Rightarrow> VFloat x | None \<Rightarrow> VNone)"

text \<open>\<^verbatim>\<open>n * x\<close> of an int and a float.\<close>

definition imul :: "int \<Rightarrow> pyfloat \<Rightarrow> pyfloat res" where
  "imul n x = rbind (float_of_int n) (\<lambda>f. Inr (fmul f x))"

definition level_utc :: "pydt \<Rightarrow> int res" where
  "level_utc t = (case t of
     Naive _ \<Rightarrow> Inl (ValueError ''level-decision timestamps must be timezone-aware'')
   | Aware w off \<Rightarrow> Inr (w - off))"

definition phase_of :: "py_std \<Rightarrow> level_state \<Rightarrow> level_phase" where
  "phase_of std s =
     (case find (\<lambda>p. phase_value p = stext std s ''phase'' ''far'') all_phases of
        Some p \<Rightarrow> p | None \<Rightarrow> Far)"

definition optional_datetime :: "py_std \<Rightarrow> pyval \<Rightarrow> int option" where
  "optional_datetime std v =
     (case v of VStr s \<Rightarrow> map_option as_utc (std_fromiso std s) | _ \<Rightarrow> None)"

definition phase_age :: "py_std \<Rightarrow> level_state \<Rightarrow> int \<Rightarrow> pyfloat" where
  "phase_age std s now =
     (let phase_at = (case optional_datetime std (sget s ''phase_at'') of Some t \<Rightarrow> t | None \<Rightarrow> now)
      in fmax (total_seconds (now - phase_at)) (Fin 0))"

definition phase_timed_out :: "py_std \<Rightarrow> level_settings \<Rightarrow> level_state \<Rightarrow> int \<Rightarrow> bool" where
  "phase_timed_out std c s now = flt (ls_phase_timeout_seconds c) (phase_age std s now)"

definition level_expired :: "py_std \<Rightarrow> level_state \<Rightarrow> int \<Rightarrow> bool" where
  "level_expired std s now =
     (case optional_datetime std (sget s ''expires_at'') of Some e \<Rightarrow> now \<ge> e | None \<Rightarrow> False)"

definition generation :: "level_state \<Rightarrow> string \<Rightarrow> int" where
  "generation s field = (case sget s field of VInt n \<Rightarrow> if n \<ge> 0 then n else 0 | _ \<Rightarrow> 0)"

definition rearm_guard :: "py_std \<Rightarrow> level_state \<Rightarrow> (string \<times> pyfloat) option res" where
  "rearm_guard std s =
     (case sget s ''rearm_guard'' of
        VDict d \<Rightarrow>
          (case dget d ''level_kind'' of
             VStr kind \<Rightarrow>
               if kind = [] \<or> \<not> is_number (dget d ''level'') then Inr None
               else rbind (py_float std (dget d ''level'')) (\<lambda>level. Inr (Some (kind, level)))
           | _ \<Rightarrow> Inr None)
      | _ \<Rightarrow> Inr None)"

definition rearm_guard_blocks :: "(string \<times> pyfloat) option \<Rightarrow> string \<Rightarrow> pyfloat \<Rightarrow> level_settings \<Rightarrow> bool" where
  "rearm_guard_blocks guard kind level c =
     (case guard of
        None \<Rightarrow> False
      | Some (k, l) \<Rightarrow> kind = k \<and> fle (fabs (fsub level l)) (ls_structure_drift_points c))"

subsection \<open>Elementary results\<close>

definition empty_level_state :: "int \<Rightarrow> level_state" where
  "empty_level_state now =
     [''schema_version'' \<mapsto> VInt 1, ''phase'' \<mapsto> VStr (phase_value Far),
      ''thesis'' \<mapsto> VStr (thesis_value ThesisNone), ''next_reentry_generation'' \<mapsto> VInt 0,
      ''updated_at'' \<mapsto> iso now]"

definition unchanged :: "level_state \<Rightarrow> level_phase \<Rightarrow> int \<Rightarrow> string \<Rightarrow> level_transition" where
  "unchanged s phase now reason =
     \<lparr>lt_previous_phase = phase, lt_current_phase = phase, lt_state = s(''updated_at'' \<mapsto> iso now),
      lt_changed = False, lt_reason = reason\<rparr>"

definition update_extreme :: "level_state \<Rightarrow> level_phase \<Rightarrow> level_observation \<Rightarrow> int \<Rightarrow> string \<Rightarrow> level_transition" where
  "update_extreme s phase obs now reason =
     \<lparr>lt_previous_phase = phase, lt_current_phase = phase,
      lt_state = s(''last_spot'' \<mapsto> opt_float (lo_spot obs), ''last_es'' \<mapsto> opt_float (lo_es obs),
                   ''updated_at'' \<mapsto> iso now),
      lt_changed = False, lt_reason = reason\<rparr>"

definition transition :: "level_state \<Rightarrow> level_phase \<Rightarrow> level_phase \<Rightarrow> int \<Rightarrow> string \<Rightarrow> level_transition res" where
  "transition s previous current now reason =
     rbind (int_or_0 (sget s ''transition_count'')) (\<lambda>count.
       Inr \<lparr>lt_previous_phase = previous, lt_current_phase = current,
            lt_state = s(''phase'' \<mapsto> VStr (phase_value current), ''phase_at'' \<mapsto> iso now,
                         ''updated_at'' \<mapsto> iso now, ''reason'' \<mapsto> VStr reason,
                         ''transition_count'' \<mapsto> VInt (count + 1)),
            lt_changed = (previous \<noteq> current), lt_reason = reason\<rparr>)"

definition guard_value :: "string \<times> pyfloat \<Rightarrow> pyval" where
  "guard_value g = VDict [(''level_kind'', VStr (fst g)), (''level'', VFloat (snd g))]"

definition to_far ::
  "level_state \<Rightarrow> level_phase \<Rightarrow> int \<Rightarrow> string \<Rightarrow> (string \<times> pyfloat) option \<Rightarrow> level_transition" where
  "to_far s previous now reason guard =
     (let current_generation =
            (if reason = ''session_boundary_reset'' then 0
             else if terminal_phase previous then generation s ''reentry_generation'' + 1
             else generation s ''reentry_generation'');
          s' = (empty_level_state now)(''next_reentry_generation'' \<mapsto> VInt current_generation,
                                       ''reason'' \<mapsto> VStr reason)
      in \<lparr>lt_previous_phase = previous, lt_current_phase = Far,
          lt_state = (case guard of None \<Rightarrow> s' | Some g \<Rightarrow> s'(''rearm_guard'' \<mapsto> guard_value g)),
          lt_changed = True, lt_reason = reason\<rparr>)"

text \<open>\<^verbatim>\<open>(now + timedelta(seconds=x)).isoformat()\<close>.\<close>

definition iso_after :: "int \<Rightarrow> pyfloat \<Rightarrow> pyval res" where
  "iso_after now x = rbind (td_seconds x) (\<lambda>d. Inr (iso (now + d)))"

definition spx_decision_spot :: "level_observation \<Rightarrow> pyfloat option" where
  "spx_decision_spot obs =
     (case lo_spx_spot obs of
        Some x \<Rightarrow> Some x
      | None \<Rightarrow>
          (case lo_spot obs of
             None \<Rightarrow> None
           | Some spot \<Rightarrow>
               if lo_trigger_coordinate_kind obs \<in> {''official_spx'', ''chain_implied_spx''} then Some spot
               else if lo_trigger_coordinate_kind obs = ''es_equivalent'' then
                 map_option (\<lambda>b. fsub spot b) (lo_trigger_basis_points obs)
               else None))"

definition confirmed_transition ::
  "level_settings \<Rightarrow> level_state \<Rightarrow> level_phase \<Rightarrow> level_observation \<Rightarrow> int \<Rightarrow> int \<Rightarrow> string \<Rightarrow> level_transition res" where
  "confirmed_transition c s previous obs now desired_direction reason =
     rbind (iso_after now (ls_event_ttl_seconds c)) (\<lambda>expires.
       let s1 = s(''confirmed_at'' \<mapsto> iso now, ''expires_at'' \<mapsto> expires,
                  ''direction'' \<mapsto> VStr (if desired_direction > 0 then ''up'' else ''down''));
           s2 = (case spx_decision_spot obs of Some x \<Rightarrow> s1(''decision_spot'' \<mapsto> VFloat x) | None \<Rightarrow> s1)
       in transition s2 previous Confirmed now reason)"

subsection \<open>Evidence\<close>

definition es_confirms ::
  "py_std \<Rightarrow> level_settings \<Rightarrow> level_state \<Rightarrow> level_observation \<Rightarrow> int \<Rightarrow> bool res" where
  "es_confirms std c s obs direction =
     rbind (py_float std (vor (sget s ''confirmation_start_es'') (vor (sget s ''start_es'') (VFloat (Fin 0))))) (\<lambda>start_es.
     rbind (py_float std (vor (sget s ''confirmation_start_spot'') (vor (sget s ''start_spot'') (VFloat (Fin 0))))) (\<lambda>start_spot.
       case (lo_es obs, lo_spot obs) of
         (Some es, Some spot) \<Rightarrow>
           if \<not> fneq0 start_es then Inr False
           else rbind (imul direction (fsub es start_es)) (\<lambda>es_move.
             let spx_move = fabs (fsub spot start_spot) in
             Inr (fle (fmax (fmul spx_move (ls_es_confirm_ratio c)) (Fin (1 / 4))) es_move))
       | _ \<Rightarrow> Inr False))"

definition latch_confirmation_start :: "level_state \<Rightarrow> level_observation \<Rightarrow> int \<Rightarrow> level_state" where
  "latch_confirmation_start s obs now =
     s(''confirmation_start_spot'' \<mapsto> opt_float (lo_spot obs),
       ''confirmation_start_es'' \<mapsto> opt_float (lo_es obs), ''confirmation_started_at'' \<mapsto> iso now)"

definition latch_inside :: "py_std \<Rightarrow> level_state \<Rightarrow> pyfloat \<Rightarrow> int \<Rightarrow> int \<Rightarrow> level_state res" where
  "latch_inside std s spot outside now =
     rbind (py_float std (sget s ''level'')) (\<lambda>level.
     rbind (imul outside (fsub spot level)) (\<lambda>move.
       Inr (if fle move (Fin 0)
            then s(''breakout_inside_seen_at'' \<mapsto> iso now, ''breakout_inside_seen_spot'' \<mapsto> VFloat spot)
            else s)))"

definition latch_breakout_inside_evidence :: "py_std \<Rightarrow> level_state \<Rightarrow> level_observation \<Rightarrow> int \<Rightarrow> level_state res" where
  "latch_breakout_inside_evidence std s obs now =
     (if sget s ''breakout_inside_seen_at'' \<noteq> VNone then Inr s
      else case lo_spot obs of
        None \<Rightarrow> Inr s
      | Some spot \<Rightarrow>
          if \<not> is_number (sget s ''level'') then Inr s
          else (case sget s ''outside_direction'' of
             VInt outside \<Rightarrow> latch_inside std s spot outside now
           | VBool b \<Rightarrow> latch_inside std s spot (if b then 1 else 0) now
           | _ \<Rightarrow> Inr s))"

definition breakout_evidence_issue :: "py_std \<Rightarrow> level_state \<Rightarrow> level_phase \<Rightarrow> string option" where
  "breakout_evidence_issue std s phase =
     (if stext std s ''thesis'' [] \<noteq> thesis_value Breakout then None
      else if phase \<in> {BreakPending, Accepted, Retest, Confirmed} \<and> sget s ''breakout_inside_seen_at'' = VNone
      then Some ''breakout_inside_crossing_evidence_missing''
      else if phase \<in> {Retest, Confirmed} \<and> sget s ''breakout_extension_seen_at'' = VNone
      then Some ''breakout_extension_evidence_missing''
      else if phase = Retest \<and> sget s ''breakout_retest_seen_at'' = VNone
      then Some ''breakout_retest_evidence_missing''
      else if phase = Confirmed then
        (if stext std s ''breakout_confirmation_mode'' ''retest'' = ''sustained'' then
           (if sget s ''breakout_sustained_seen_at'' = VNone
            then Some ''breakout_sustained_evidence_missing'' else None)
         else if sget s ''breakout_retest_seen_at'' = VNone
         then Some ''breakout_retest_evidence_missing'' else None)
      else None)"

definition structure_drifted :: "py_std \<Rightarrow> level_settings \<Rightarrow> level_state \<Rightarrow> level_observation \<Rightarrow> bool res" where
  "structure_drifted std c s obs =
     (case map_of (lo_levels obs) (stext std s ''level_kind'' []) of
        None \<Rightarrow> Inr True
      | Some current \<Rightarrow>
          rbind (sitem s ''level'') (\<lambda>v.
          rbind (py_float std v) (\<lambda>level.
            Inr (flt (ls_structure_drift_points c) (fabs (fsub current level))))))"

subsection \<open>Sessions and trigger coordinates\<close>

definition can_upgrade_rth_trigger_coordinate ::
  "py_std \<Rightarrow> level_state \<Rightarrow> level_phase \<Rightarrow> level_observation \<Rightarrow> bool" where
  "can_upgrade_rth_trigger_coordinate std s phase obs =
     (phase \<noteq> Far \<and> \<not> terminal_phase phase \<and> stext std s ''session_mode'' [] = ''rth''
      \<and> lo_session_mode obs = ''rth''
      \<and> stext std s ''trigger_coordinate_kind'' [] \<in> {''chain_implied_spx'', ''es_equivalent''}
      \<and> lo_trigger_coordinate_kind obs = ''official_spx'')"

text \<open>The loop that moves the latched spots from the ES coordinate to the SPX coordinate.\<close>

fun shift_spots :: "py_std \<Rightarrow> pyfloat \<Rightarrow> string list \<Rightarrow> level_state \<Rightarrow> level_state res" where
  "shift_spots std basis [] s = Inr s"
| "shift_spots std basis (name # names) s =
     (if is_number (sget s name) then
        rbind (py_float std (sget s name)) (\<lambda>v.
          shift_spots std basis names (s(name \<mapsto> VFloat (fsub v basis))))
      else shift_spots std basis names s)"

definition spot_fields :: "string list" where
  "spot_fields = [''start_spot'', ''last_spot'', ''confirmation_start_spot'', ''breakout_inside_seen_spot'',
     ''breakout_extension_seen_spot'', ''breakout_retest_seen_spot'']"

definition upgrade_rth_trigger_coordinate ::
  "py_std \<Rightarrow> level_state \<Rightarrow> level_observation \<Rightarrow> int \<Rightarrow> level_state res" where
  "upgrade_rth_trigger_coordinate std s obs now =
     (let prior_kind = stext std s ''trigger_coordinate_kind'' [];
          basis = sget s ''trigger_basis_points'';
          es_kind = (prior_kind = ''es_equivalent'')
      in rbind (if is_number basis then rbind (py_float std basis) (\<lambda>b. Inr (Some b)) else Inr None) (\<lambda>prior_basis.
         rbind (if is_number (sget s ''spx_level'') then
                  rbind (py_float std (sget s ''spx_level'')) (\<lambda>l. Inr (s(''level'' \<mapsto> VFloat l)))
                else (case prior_basis of
                    Some b \<Rightarrow>
                      if es_kind \<and> is_number (sget s ''level'')
                      then rbind (py_float std (sget s ''level'')) (\<lambda>l. Inr (s(''level'' \<mapsto> VFloat (fsub l b))))
                      else Inr s
                  | None \<Rightarrow> Inr s)) (\<lambda>s1.
         rbind (case prior_basis of
                  Some b \<Rightarrow> if es_kind then shift_spots std b spot_fields s1 else Inr s1
                | None \<Rightarrow> Inr s1) (\<lambda>s2.
         rbind (sitem s2 ''level'') (\<lambda>v.
         rbind (py_float std v) (\<lambda>level.
           Inr (s2(''spx_level'' \<mapsto> VFloat level,
                   ''trigger_coordinate_kind'' \<mapsto> VStr ''official_spx'',
                   ''trigger_instrument_id'' \<mapsto> VStr (text_or (lo_trigger_instrument_id obs) ''index:SPX''),
                   ''trigger_basis_points'' \<mapsto> opt_float (lo_trigger_basis_points obs),
                   ''coordinate_upgraded_at'' \<mapsto> iso now,
                   ''coordinate_upgraded_from'' \<mapsto> VStr prior_kind,
                   ''coordinate_upgraded_basis_points'' \<mapsto> opt_float prior_basis)))))))) "

definition session_boundary_changed ::
  "py_std \<Rightarrow> level_state \<Rightarrow> level_phase \<Rightarrow> level_observation \<Rightarrow> bool" where
  "session_boundary_changed std s phase obs =
     (let prior_mode = stext std s ''session_mode'' [];
          current_mode = lo_session_mode obs;
          prior_date = stext std s ''session_date'' [];
          current_date = lo_session_date obs
      in if prior_mode \<noteq> [] \<and> current_mode \<notin> {[], ''unknown''} \<and> prior_mode \<noteq> current_mode then True
         else if phase \<noteq> Far \<and> prior_date \<noteq> [] \<and> current_date \<noteq> [] \<and> prior_date \<noteq> current_date then True
         else if \<not> terminal_phase phase \<or> current_mode \<noteq> ''rth'' then False
         else lo_trigger_coordinate_kind obs = ''official_spx''
              \<and> stext std s ''trigger_coordinate_kind'' [] \<in> {''chain_implied_spx'', ''es_equivalent''})"

subsection \<open>Arming\<close>

definition fmt4 :: "pyfloat \<Rightarrow> string" where
  "fmt4 x = (case x of Fin q \<Rightarrow> fixed4 q | PInf \<Rightarrow> ''inf'' | NInf \<Rightarrow> ''-inf'' | NaN \<Rightarrow> ''nan'')"

definition level_event_id :: "py_std \<Rightarrow> string \<Rightarrow> string \<Rightarrow> pyfloat \<Rightarrow> int \<Rightarrow> string" where
  "level_event_id std session_date kind level now =
     ''level:'' @ take 24 (std_sha256 std
       (session_date @ ''|'' @ kind @ ''|'' @ fmt4 level @ ''|'' @ isoformat now))"

definition eligible_levels ::
  "level_settings \<Rightarrow> (string \<times> pyfloat) option \<Rightarrow> pyfloat \<Rightarrow> level_observation \<Rightarrow> (pyfloat \<times> string \<times> pyfloat) list" where
  "eligible_levels c guard spot obs =
     map (\<lambda>(kind, level). (fabs (fsub spot level), kind, level))
       (filter (\<lambda>(kind, level). outside_direction_of kind \<noteq> None
           \<and> fle (fabs (fsub spot level)) (ls_approach_points c)
           \<and> \<not> rearm_guard_blocks guard kind level c) (lo_levels obs))"

text \<open>The order of the key \<^verbatim>\<open>(row[0], row[1])\<close>.\<close>

definition row_less :: "pyfloat \<times> string \<times> pyfloat \<Rightarrow> pyfloat \<times> string \<times> pyfloat \<Rightarrow> bool" where
  "row_less a b =
     (if fst a \<noteq> fst b then flt (fst a) (fst b) else fst (snd a) < fst (snd b))"

definition arm_nearest_level ::
  "py_std \<Rightarrow> level_settings \<Rightarrow> level_observation \<Rightarrow> int \<Rightarrow> int \<Rightarrow> (string \<times> pyfloat) option \<Rightarrow> level_transition res" where
  "arm_nearest_level std c obs now reentry_generation guard =
     (let spot = (case lo_spot obs of Some x \<Rightarrow> x | None \<Rightarrow> Fin 0);
          es = (case lo_es obs of Some x \<Rightarrow> x | None \<Rightarrow> Fin 0)
      in case eligible_levels c guard spot obs of
           [] \<Rightarrow>
             let s = (empty_level_state now)(''next_reentry_generation'' \<mapsto> VInt reentry_generation) in
             Inr (case guard of
                Some g \<Rightarrow> \<lparr>lt_previous_phase = Far, lt_current_phase = Far,
                   lt_state = s(''rearm_guard'' \<mapsto> guard_value g), lt_changed = False,
                   lt_reason = ''rearm_guard_active''\<rparr>
              | None \<Rightarrow> \<lparr>lt_previous_phase = Far, lt_current_phase = Far, lt_state = s,
                   lt_changed = False, lt_reason = ''no_near_level''\<rparr>)
         | row # rows \<Rightarrow>
             let (_, kind, level) = py_max_by (\<lambda>b x. row_less x b) row rows;
                 phase = (if fle (fabs (fsub spot level)) (ls_test_points c) then Testing else Approaching)
             in rbind (iso_after now (ls_event_ttl_seconds c)) (\<lambda>expires.
                let s = [''schema_version'' \<mapsto> VInt 1,
                     ''event_id'' \<mapsto> VStr (level_event_id std (lo_session_date obs) kind level now),
                     ''reentry_generation'' \<mapsto> VInt reentry_generation,
                     ''phase'' \<mapsto> VStr (phase_value phase),
                     ''thesis'' \<mapsto> VStr (thesis_value ThesisNone),
                     ''level_kind'' \<mapsto> VStr kind, ''level'' \<mapsto> VFloat level,
                     ''spx_level'' \<mapsto> VFloat (case lo_spx_levels obs of
                         None \<Rightarrow> level
                       | Some m \<Rightarrow> (case map_of m kind of Some x \<Rightarrow> x | None \<Rightarrow> level)),
                     ''trigger_coordinate_kind'' \<mapsto> VStr (lo_trigger_coordinate_kind obs),
                     ''trigger_instrument_id'' \<mapsto>
                       (case lo_trigger_instrument_id obs of Some x \<Rightarrow> VStr x | None \<Rightarrow> VNone),
                     ''trigger_basis_points'' \<mapsto> opt_float (lo_trigger_basis_points obs),
                     ''outside_direction'' \<mapsto> VInt (case outside_direction_of kind of Some d \<Rightarrow> d | None \<Rightarrow> 0),
                     ''started_at'' \<mapsto> iso now, ''phase_at'' \<mapsto> iso now, ''expires_at'' \<mapsto> expires,
                     ''start_spot'' \<mapsto> VFloat spot, ''start_es'' \<mapsto> VFloat es,
                     ''session_date'' \<mapsto> VStr (lo_session_date obs),
                     ''session_mode'' \<mapsto> VStr (lo_session_mode obs),
                     ''last_spot'' \<mapsto> VFloat spot, ''last_es'' \<mapsto> VFloat es,
                     ''updated_at'' \<mapsto> iso now, ''transition_count'' \<mapsto> VInt 1,
                     ''reason'' \<mapsto> VStr ''nearest_level_armed'']
                in rbind (latch_breakout_inside_evidence std s obs now) (\<lambda>s'.
                   Inr \<lparr>lt_previous_phase = Far, lt_current_phase = phase, lt_state = s',
                        lt_changed = True, lt_reason = ''nearest_level_armed''\<rparr>)))"

subsection \<open>Degraded data and terminal events\<close>

text \<open>The new expiry \<^verbatim>\<open>phase_timeout - phase_age + 1.0\<close> seconds ahead.\<close>

definition extend_to_phase_end :: "py_std \<Rightarrow> level_settings \<Rightarrow> level_state \<Rightarrow> int \<Rightarrow> level_state res" where
  "extend_to_phase_end std c s now =
     rbind (iso_after now (fadd (fsub (ls_phase_timeout_seconds c) (phase_age std s now)) (Fin 1)))
       (\<lambda>e. Inr (s(''expires_at'' \<mapsto> e)))"

definition handle_bad_quality ::
  "py_std \<Rightarrow> level_settings \<Rightarrow> level_state \<Rightarrow> level_phase \<Rightarrow> level_observation \<Rightarrow> int \<Rightarrow> level_transition res" where
  "handle_bad_quality std c s phase obs now =
     (let reason = text_or (lo_quality_reason obs) ''market_data_unavailable'';
          s = s(''quality_status'' \<mapsto> VStr ''degraded'', ''quality_reason'' \<mapsto> VStr reason);
          s = (if s ''quality_degraded_at'' = None then s(''quality_degraded_at'' \<mapsto> iso now) else s)
      in if terminal_phase phase \<or> phase = Far then Inr (unchanged s phase now reason)
         else if timeout_phase phase then
           (if flt (ls_phase_timeout_seconds c) (phase_age std s now) then
              transition s phase Expired now ''phase_timeout_during_data_degradation''
            else rbind (if level_expired std s now then extend_to_phase_end std c s now else Inr s)
              (\<lambda>s. Inr (unchanged s phase now reason)))
         else if level_expired std s now then
           transition s phase Expired now
             (if phase = Confirmed then ''confirmed_ttl_elapsed_during_data_degradation''
              else ''event_ttl_elapsed_during_data_degradation'')
         else (case optional_datetime std (sget s ''quality_failed_at'') of
             None \<Rightarrow> Inr (unchanged (s(''quality_failed_at'' \<mapsto> iso now)) phase now reason)
           | Some failed_at \<Rightarrow>
               let s = (if fle (ls_data_grace_seconds c) (total_seconds (now - failed_at))
                        then s(''quality_status'' \<mapsto> VStr ''degraded'') else s)
               in Inr (unchanged s phase now reason)))"

text \<open>\<^verbatim>\<open>abs(float(a) - float(v)) > limit\<close> where \<open>v\<close> is a number of the state.\<close>

definition farther_than :: "py_std \<Rightarrow> pyfloat \<Rightarrow> pyval \<Rightarrow> pyfloat \<Rightarrow> bool res" where
  "farther_than std a v limit = rbind (py_float std v) (\<lambda>l. Inr (flt limit (fabs (fsub a l))))"

definition kind_migrated :: "py_std \<Rightarrow> level_settings \<Rightarrow> level_state \<Rightarrow> pyfloat option \<Rightarrow> bool res" where
  "kind_migrated std c s current_level =
     (case current_level of
        None \<Rightarrow> Inr False
      | Some l \<Rightarrow>
          if is_number (sget s ''level'')
          then farther_than std l (sget s ''level'') (ls_structure_drift_points c) else Inr False)"

definition handle_terminal_rearm ::
  "py_std \<Rightarrow> level_settings \<Rightarrow> level_state \<Rightarrow> level_phase \<Rightarrow> level_observation \<Rightarrow> int \<Rightarrow> level_transition res" where
  "handle_terminal_rearm std c s phase obs now =
     (if flt (phase_age std s now) (ls_terminal_rearm_seconds c)
      then Inr (unchanged s phase now ''terminal_hold'')
      else
        let kind = stext std s ''level_kind'' [];
            current_level = map_of (lo_levels obs) kind;
            old_level = sget s ''level'';
            kind_removed = (outside_direction_of kind \<noteq> None \<and> current_level = None)
        in rbind (kind_migrated std c s current_level) (\<lambda>migrated.
           if kind_removed \<or> migrated then
             rbind (arm_nearest_level std c obs now (generation s ''reentry_generation'' + 1) None) (\<lambda>armed.
               if lt_current_phase armed \<noteq> Far then
                 Inr \<lparr>lt_previous_phase = phase, lt_current_phase = lt_current_phase armed,
                      lt_state = lt_state armed, lt_changed = True,
                      lt_reason = ''stable_structure_promoted_rearm''\<rparr>
               else Inr (to_far s phase now ''stable_structure_promoted'' None))
           else
             rbind (case lo_spot obs of
                 Some spot \<Rightarrow>
                   if is_number old_level then
                     rbind (py_float std old_level) (\<lambda>l.
                       Inr (fle (fabs (fsub spot l)) (fmax (ls_retest_points c) (ls_reject_points c))))
                   else Inr False
               | None \<Rightarrow> Inr False) (\<lambda>inside_reset_band.
             if inside_reset_band then Inr (unchanged s phase now ''terminal_waiting_for_level_exit'')
             else
               rbind (if outside_direction_of kind \<noteq> None \<and> is_number old_level then
                        rbind (py_float std old_level) (\<lambda>l.
                        rbind (case lo_spot obs of
                            Some spot \<Rightarrow> farther_than std spot old_level (ls_approach_points c)
                          | None \<Rightarrow> Inr False) (\<lambda>exited_radius.
                          Inr (if exited_radius then None else Some (kind, l))))
                      else Inr None) (\<lambda>guard.
                 Inr (to_far s phase now ''terminal_level_exited'' guard)))))"

subsection \<open>The phases of an open event\<close>

definition step_approaching ::
  "level_settings \<Rightarrow> level_state \<Rightarrow> level_observation \<Rightarrow> int \<Rightarrow> pyfloat \<Rightarrow> pyfloat \<Rightarrow> level_transition res" where
  "step_approaching c s obs now spot level =
     (if fle (fabs (fsub spot level)) (ls_test_points c) then
        transition s Approaching Testing now ''entered_test_zone''
      else if flt (ls_approach_points c) (fabs (fsub spot level)) then
        Inr (to_far s Approaching now ''moved_away_before_test'' None)
      else Inr (update_extreme s Approaching obs now ''approach_continues''))"

definition step_testing ::
  "level_settings \<Rightarrow> level_state \<Rightarrow> level_observation \<Rightarrow> int \<Rightarrow> pyfloat \<Rightarrow> level_transition res" where
  "step_testing c s obs now outside_move =
     (let beyond = fle (ls_break_buffer_points c) outside_move in
      if sget s ''breakout_inside_seen_at'' \<noteq> VNone \<and> beyond then
        transition (latch_confirmation_start (s(''thesis'' \<mapsto> VStr (thesis_value Breakout))) obs now)
          Testing BreakPending now ''crossed_outside_buffer''
      else if beyond then
        Inr (update_extreme s Testing obs now ''breakout_blocked_no_inside_crossing'')
      else if fle (ls_reject_points c) (fneg outside_move) then
        transition (latch_confirmation_start (s(''thesis'' \<mapsto> VStr (thesis_value Fade))) obs now)
          Testing RejectPending now ''rejected_from_level''
      else Inr (update_extreme s Testing obs now ''testing_continues''))"

definition latch_extension :: "level_state \<Rightarrow> int \<Rightarrow> pyfloat \<Rightarrow> level_state" where
  "latch_extension s now spot =
     s(''breakout_extension_seen_at'' \<mapsto> iso now, ''breakout_extension_seen_spot'' \<mapsto> VFloat spot)"

definition extended :: "level_settings \<Rightarrow> pyfloat \<Rightarrow> bool" where
  "extended c desired_move = flt (fmax (ls_retest_points c) (ls_confirm_move_points c)) desired_move"

definition step_pending ::
  "py_std \<Rightarrow> level_settings \<Rightarrow> level_state \<Rightarrow> level_phase \<Rightarrow> level_thesis \<Rightarrow> level_observation \<Rightarrow> int \<Rightarrow> pyfloat \<Rightarrow>
   int \<Rightarrow> pyfloat \<Rightarrow> level_transition res" where
  "step_pending std c s phase thesis obs now spot desired_direction desired_move =
     (let threshold = (if phase = BreakPending then ls_break_buffer_points c else ls_reject_points c);
          target = (if phase = BreakPending then Accepted else Rejected)
      in rbind (if fle threshold desired_move \<and> fle (ls_accept_hold_seconds c) (phase_age std s now)
                then es_confirms std c s obs desired_direction else Inr False) (\<lambda>ok.
         if ok then
           transition (if thesis = Breakout \<and> extended c desired_move then latch_extension s now spot else s)
             phase target now ''direction_accepted''
         else Inr (update_extreme s phase obs now ''pending_acceptance'')))"

definition step_accepted ::
  "py_std \<Rightarrow> level_settings \<Rightarrow> level_state \<Rightarrow> level_phase \<Rightarrow> level_thesis \<Rightarrow> level_observation \<Rightarrow> int \<Rightarrow> pyfloat \<Rightarrow>
   pyfloat \<Rightarrow> int \<Rightarrow> pyfloat \<Rightarrow> level_transition res" where
  "step_accepted std c s phase thesis obs now spot level desired_direction desired_move =
     (if thesis = Breakout \<and> sget s ''breakout_extension_seen_at'' = VNone then
        (if extended c desired_move then
           Inr (update_extreme (latch_extension s now spot) phase obs now ''breakout_extension_latched_before_retest'')
         else Inr (update_extreme s phase obs now ''waiting_for_breakout_extension_before_retest''))
      else if fle (fabs (fsub spot level)) (ls_retest_points c) then
        (let s = s(''confirm_started_at'' := None);
             s = (if thesis = Breakout
                  then s(''breakout_retest_seen_at'' \<mapsto> iso now, ''breakout_retest_seen_spot'' \<mapsto> VFloat spot)
                  else s)
         in transition s phase Retest now ''returned_for_retest'')
      else if thesis = Breakout then
        (if flt desired_move (ls_confirm_move_points c) then
           Inr (update_extreme (s(''confirm_started_at'' := None)) phase obs now ''sustained_breakout_not_resolved'')
         else (case optional_datetime std (sget s ''confirm_started_at'') of
             None \<Rightarrow>
               Inr (update_extreme (s(''confirm_started_at'' \<mapsto> iso now)) phase obs now ''sustained_breakout_hold_started'')
           | Some started \<Rightarrow>
               rbind (if fle (ls_confirm_hold_seconds c) (total_seconds (now - started))
                      then es_confirms std c s obs desired_direction else Inr False) (\<lambda>ok.
               if ok then
                 confirmed_transition c
                   (s(''breakout_confirmation_mode'' \<mapsto> VStr ''sustained'', ''breakout_sustained_seen_at'' \<mapsto> iso now))
                   phase obs now desired_direction ''sustained_breakout_confirmed''
               else Inr (update_extreme s phase obs now ''sustained_breakout_confirmation_hold''))))
      else
        rbind (if fle (ls_confirm_move_points c) desired_move
                  \<and> fle (ls_confirm_hold_seconds c) (phase_age std s now)
               then es_confirms std c s obs desired_direction else Inr False) (\<lambda>ok.
        if ok then confirmed_transition c s phase obs now desired_direction ''accepted_follow_through_confirmed''
        else Inr (update_extreme s phase obs now ''waiting_for_retest'')))"

definition step_retest ::
  "py_std \<Rightarrow> level_settings \<Rightarrow> level_state \<Rightarrow> level_thesis \<Rightarrow> level_observation \<Rightarrow> int \<Rightarrow> int \<Rightarrow> pyfloat \<Rightarrow>
   level_transition res" where
  "step_retest std c s thesis obs now desired_direction desired_move =
     (if flt desired_move (ls_confirm_move_points c) then
        Inr (update_extreme (s(''confirm_started_at'' := None)) Retest obs now ''retest_not_resolved'')
      else (case optional_datetime std (sget s ''confirm_started_at'') of
          None \<Rightarrow>
            Inr (update_extreme (s(''confirm_started_at'' \<mapsto> iso now)) Retest obs now ''confirmation_hold_started'')
        | Some started \<Rightarrow>
            rbind (if fle (ls_confirm_hold_seconds c) (total_seconds (now - started))
                   then es_confirms std c s obs desired_direction else Inr False) (\<lambda>ok.
            if ok then
              confirmed_transition c
                (if thesis = Breakout then s(''breakout_confirmation_mode'' \<mapsto> VStr ''retest'') else s)
                Retest obs now desired_direction ''retest_confirmed''
            else Inr (update_extreme s Retest obs now ''confirmation_hold''))))"

subsection \<open>One observation\<close>

text \<open>The part after all guards: the moves, the invalidation and the timeout.\<close>

definition advance_open ::
  "py_std \<Rightarrow> level_settings \<Rightarrow> level_state \<Rightarrow> level_phase \<Rightarrow> level_observation \<Rightarrow> int \<Rightarrow> pyfloat \<Rightarrow> level_transition res" where
  "advance_open std c s phase obs now spot =
     rbind (sitem s ''level'') (\<lambda>lv.
     rbind (py_float std lv) (\<lambda>level.
     rbind (sitem s ''outside_direction'') (\<lambda>ov.
     rbind (py_int ov) (\<lambda>outside.
     rbind (imul outside (fsub spot level)) (\<lambda>outside_move.
     rbind (thesis_of (stext std s ''thesis'' ''none'')) (\<lambda>thesis.
     rbind (if phase \<in> {Approaching, Testing} then latch_breakout_inside_evidence std s obs now else Inr s) (\<lambda>s.
     if phase = Approaching then step_approaching c s obs now spot level
     else if phase = Testing then step_testing c s obs now outside_move
     else
       let desired_direction = (if thesis = Breakout then outside else - outside) in
       rbind (imul desired_direction (fsub spot level)) (\<lambda>desired_move.
       if fle desired_move (fneg (ls_break_buffer_points c)) then
         transition s phase Invalidated now ''crossed_invalidation''
       else if phase \<noteq> Confirmed \<and> phase_timed_out std c s now then
         transition s phase Expired now ''phase_timeout''
       else if phase \<in> {BreakPending, RejectPending} then
         step_pending std c s phase thesis obs now spot desired_direction desired_move
       else if phase \<in> {Accepted, Rejected} then
         step_accepted std c s phase thesis obs now spot level desired_direction desired_move
       else if phase = Retest then
         step_retest std c s thesis obs now desired_direction desired_move
       else Inr (unchanged s phase now ''no_transition'')))))))))"

text \<open>
  The expiry of an open event: \<open>Inl\<close> is an early return, \<open>Inr\<close> the state to go on with.
\<close>

definition expiry_gate ::
  "py_std \<Rightarrow> level_settings \<Rightarrow> level_state \<Rightarrow> level_phase \<Rightarrow> int \<Rightarrow> pyfloat \<Rightarrow> (level_transition + level_state) res" where
  "expiry_gate std c s phase now spot =
     (if \<not> level_expired std s now then Inr (Inr s)
      else if phase = Confirmed then
        rbind (transition s phase Expired now ''confirmed_ttl_elapsed'') (\<lambda>t. Inr (Inl t))
      else if timeout_phase phase then
        (if fle (phase_age std s now) (ls_phase_timeout_seconds c)
         then rbind (extend_to_phase_end std c s now) (\<lambda>s. Inr (Inr s))
         else Inr (Inr s))
      else
        rbind (if is_number (sget s ''level'') then
                 rbind (py_float std (sget s ''level'')) (\<lambda>l.
                   Inr (fle (fabs (fsub spot l)) (ls_approach_points c)))
               else Inr False) (\<lambda>near.
        if near then
          rbind (iso_after now (ls_event_ttl_seconds c)) (\<lambda>e.
            Inr (Inl (unchanged (s(''expires_at'' \<mapsto> e)) phase now ''event_ttl_extended_near_level'')))
        else rbind (transition s phase Expired now ''event_ttl_elapsed'') (\<lambda>t. Inr (Inl t))))"

definition advance_active ::
  "py_std \<Rightarrow> level_settings \<Rightarrow> level_state \<Rightarrow> level_phase \<Rightarrow> level_observation \<Rightarrow> int \<Rightarrow> pyfloat \<Rightarrow> level_transition res" where
  "advance_active std c s phase obs now spot =
     rbind (expiry_gate std c s phase now spot) (\<lambda>gate.
       case gate of
         Inl t \<Rightarrow> Inr t
       | Inr s \<Rightarrow>
           if stext std s ''trigger_coordinate_kind'' ''unknown'' \<noteq> lo_trigger_coordinate_kind obs then
             transition s phase Invalidated now ''trigger_coordinate_changed''
           else rbind (structure_drifted std c s obs) (\<lambda>drifted.
             if drifted then transition s phase Invalidated now ''structure_drift''
             else advance_open std c s phase obs now spot))"

definition advance_far ::
  "py_std \<Rightarrow> level_settings \<Rightarrow> level_state \<Rightarrow> level_observation \<Rightarrow> int \<Rightarrow> pyfloat \<Rightarrow> level_transition res" where
  "advance_far std c s obs now spot =
     (if \<not> lo_arm_allowed obs then
        Inr (unchanged s Far now (text_or (lo_arm_block_reason obs) ''new_arm_blocked''))
      else rbind (rearm_guard std s) (\<lambda>guard.
        let guard = (case guard of
              Some g \<Rightarrow> if flt (ls_approach_points c) (fabs (fsub spot (snd g))) then None else Some g
            | None \<Rightarrow> None)
        in arm_nearest_level std c obs now (generation s ''next_reentry_generation'') guard))"

definition clear_quality :: "level_state \<Rightarrow> level_state" where
  "clear_quality s =
     s(''quality_failed_at'' := None, ''quality_degraded_at'' := None, ''quality_status'' := None,
       ''quality_reason'' := None)"

definition advance_good ::
  "py_std \<Rightarrow> level_settings \<Rightarrow> level_state \<Rightarrow> level_phase \<Rightarrow> level_observation \<Rightarrow> int \<Rightarrow> pyfloat \<Rightarrow> level_transition res" where
  "advance_good std c s phase obs now spot =
     rbind (if can_upgrade_rth_trigger_coordinate std s phase obs
            then upgrade_rth_trigger_coordinate std s obs now else Inr s) (\<lambda>s.
     case breakout_evidence_issue std s phase of
       Some issue \<Rightarrow> transition s phase Invalidated now issue
     | None \<Rightarrow>
         if phase = Far then advance_far std c s obs now spot
         else if terminal_phase phase then
           (if \<not> lo_arm_allowed obs then
              Inr (unchanged s phase now (text_or (lo_arm_block_reason obs) ''new_arm_blocked''))
            else handle_terminal_rearm std c s phase obs now)
         else advance_active std c s phase obs now spot)"

definition advance_level_decision ::
  "py_std \<Rightarrow> level_settings \<Rightarrow> level_state option \<Rightarrow> level_observation \<Rightarrow> level_transition res" where
  "advance_level_decision std c previous obs =
     rbind (level_utc (lo_at obs)) (\<lambda>now.
       let s = (case previous of Some s \<Rightarrow> s | None \<Rightarrow> empty_level_state now);
           phase = phase_of std s
       in if session_boundary_changed std s phase obs then
            Inr (to_far s phase now ''session_boundary_reset'' None)
          else case (lo_quality_ok obs, lo_spot obs, lo_es obs) of
            (True, Some spot, Some es) \<Rightarrow> advance_good std c (clear_quality s) phase obs now spot
          | _ \<Rightarrow> handle_bad_quality std c s phase obs now)"

end
