(* ===== verification/Level_Decision_Properties.thy ===== *)
theory Level_Decision_Properties
  imports Level_Decision
begin

section \<open>What the wall/flip decision machine guarantees\<close>

text \<open>
  A confirmed breakout always carries its evidence; the phase changes are those of the
  lifecycle; degraded data and a blocked arm never advance an event; a session boundary
  resets it. The proofs follow which keys of the state an operation can touch.
\<close>

subsection \<open>Keys an operation leaves alone\<close>

definition evidence_keys :: "string set" where
  "evidence_keys = {''thesis'', ''breakout_inside_seen_at'', ''breakout_extension_seen_at'',
     ''breakout_retest_seen_at'', ''breakout_sustained_seen_at'', ''breakout_confirmation_mode''}"

definition same_evidence :: "level_state \<Rightarrow> level_state \<Rightarrow> bool" where
  "same_evidence s s' \<longleftrightarrow> (\<forall>k \<in> evidence_keys. s' k = s k)"

lemma same_evidence_refl [simp]: "same_evidence s s"
  by (simp add: same_evidence_def)

lemma same_evidence_trans: "same_evidence a b \<Longrightarrow> same_evidence b c \<Longrightarrow> same_evidence a c"
  by (simp add: same_evidence_def)

lemma same_evidence_upd [simp]:
  "k \<notin> evidence_keys \<Longrightarrow> same_evidence s (s'(k := v)) \<longleftrightarrow> same_evidence s s'"
  by (auto simp: same_evidence_def)

lemma not_evidence [simp]:
  "''phase'' \<notin> evidence_keys" "''phase_at'' \<notin> evidence_keys" "''updated_at'' \<notin> evidence_keys"
  "''reason'' \<notin> evidence_keys" "''transition_count'' \<notin> evidence_keys" "''last_spot'' \<notin> evidence_keys"
  "''last_es'' \<notin> evidence_keys" "''expires_at'' \<notin> evidence_keys" "''confirmed_at'' \<notin> evidence_keys"
  "''direction'' \<notin> evidence_keys" "''decision_spot'' \<notin> evidence_keys"
  "''confirm_started_at'' \<notin> evidence_keys" "''quality_failed_at'' \<notin> evidence_keys"
  "''quality_degraded_at'' \<notin> evidence_keys" "''quality_status'' \<notin> evidence_keys"
  "''quality_reason'' \<notin> evidence_keys" "''level'' \<notin> evidence_keys" "''spx_level'' \<notin> evidence_keys"
  "''trigger_coordinate_kind'' \<notin> evidence_keys" "''trigger_instrument_id'' \<notin> evidence_keys"
  "''trigger_basis_points'' \<notin> evidence_keys" "''coordinate_upgraded_at'' \<notin> evidence_keys"
  "''coordinate_upgraded_from'' \<notin> evidence_keys" "''coordinate_upgraded_basis_points'' \<notin> evidence_keys"
  "''breakout_extension_seen_spot'' \<notin> evidence_keys" "''breakout_retest_seen_spot'' \<notin> evidence_keys"
  "''breakout_inside_seen_spot'' \<notin> evidence_keys" "''start_spot'' \<notin> evidence_keys"
  "''confirmation_start_spot'' \<notin> evidence_keys" "''confirmation_start_es'' \<notin> evidence_keys"
  "''confirmation_started_at'' \<notin> evidence_keys"
  by (simp_all add: evidence_keys_def)

lemma evidence_reads:
  assumes "same_evidence s s'"
  shows "stext std s' ''thesis'' d = stext std s ''thesis'' d"
    "sget s' ''breakout_inside_seen_at'' = sget s ''breakout_inside_seen_at''"
    "sget s' ''breakout_extension_seen_at'' = sget s ''breakout_extension_seen_at''"
    "sget s' ''breakout_retest_seen_at'' = sget s ''breakout_retest_seen_at''"
    "sget s' ''breakout_sustained_seen_at'' = sget s ''breakout_sustained_seen_at''"
    "stext std s' ''breakout_confirmation_mode'' d = stext std s ''breakout_confirmation_mode'' d"
  using assms by (simp_all add: same_evidence_def evidence_keys_def sget_def stext_def)

lemma issue_cong:
  assumes "same_evidence s s'"
  shows "breakout_evidence_issue std s' p = breakout_evidence_issue std s p"
  unfolding breakout_evidence_issue_def evidence_reads [OF assms] by (rule refl)

text \<open>The thesis a phase belongs to, together with its evidence.\<close>

definition thesis_ok :: "py_std \<Rightarrow> level_state \<Rightarrow> level_phase \<Rightarrow> bool" where
  "thesis_ok std s p \<longleftrightarrow>
     (p \<in> {BreakPending, Accepted} \<longrightarrow> stext std s ''thesis'' [] = ''breakout'')
     \<and> (p \<in> {RejectPending, Rejected} \<longrightarrow> stext std s ''thesis'' [] = ''fade'')"

definition evidence_ok :: "py_std \<Rightarrow> level_state \<Rightarrow> level_phase \<Rightarrow> bool" where
  "evidence_ok std s p \<longleftrightarrow> thesis_ok std s p \<and> breakout_evidence_issue std s p = None"

lemma evidence_ok_cong: "same_evidence s s' \<Longrightarrow> evidence_ok std s' p = evidence_ok std s p"
  by (simp add: evidence_ok_def thesis_ok_def issue_cong evidence_reads)

lemma evidence_free [simp]:
  "p \<in> {Far, Approaching, Testing, Invalidated, Expired} \<Longrightarrow> evidence_ok std s p"
  by (auto simp: evidence_ok_def thesis_ok_def breakout_evidence_issue_def)

lemma find_phase: "find (\<lambda>q. phase_value q = phase_value p) all_phases = Some p"
  by (cases p) (simp_all add: all_phases_def)

lemma phase_of_value: "s ''phase'' = Some (VStr (phase_value p)) \<Longrightarrow> phase_of std s = p"
proof -
  assume "s ''phase'' = Some (VStr (phase_value p))"
  then have "stext std s ''phase'' ''far'' = phase_value p"
    by (cases p) (simp_all add: stext_def sget_def vor_def)
  then show ?thesis by (simp add: phase_of_def find_phase)
qed

lemma phase_of_cong: "s' ''phase'' = s ''phase'' \<Longrightarrow> phase_of std s' = phase_of std s"
  by (simp add: phase_of_def stext_def sget_def)

text \<open>A result is sound when its state is in the phase it reports and carries the evidence for it.\<close>

definition sound :: "py_std \<Rightarrow> level_transition \<Rightarrow> bool" where
  "sound std t \<longleftrightarrow> phase_of std (lt_state t) = lt_current_phase t
     \<and> evidence_ok std (lt_state t) (lt_current_phase t)"

lemma sound_same:
  assumes "same_evidence s (lt_state t)" "lt_state t ''phase'' = s ''phase''"
    "phase_of std s = lt_current_phase t" "evidence_ok std s (lt_current_phase t)"
  shows "sound std t"
  using assms(2-4) phase_of_cong [of "lt_state t" s std] evidence_ok_cong [OF assms(1)] by (simp add: sound_def)

lemma sound_unchanged:
  "phase_of std s = p \<Longrightarrow> evidence_ok std s p \<Longrightarrow> sound std (unchanged s p now r)"
  by (rule sound_same [of s]) (simp_all add: unchanged_def)

lemma sound_update_extreme:
  "phase_of std s = p \<Longrightarrow> evidence_ok std s p \<Longrightarrow> sound std (update_extreme s p obs now r)"
  by (rule sound_same [of s]) (simp_all add: update_extreme_def)

lemma sound_transition:
  assumes "transition s p q now r = Inr t" "evidence_ok std s q"
  shows "sound std t \<and> lt_previous_phase t = p \<and> lt_current_phase t = q"
proof -
  have t: "lt_previous_phase t = p" "lt_current_phase t = q" "lt_state t ''phase'' = Some (VStr (phase_value q))"
    "same_evidence s (lt_state t)"
    using assms(1) by (auto simp: transition_def rbind_eq_Inr_iff)
  then show ?thesis
    using phase_of_value [of "lt_state t" q std] t evidence_ok_cong [OF t(4)] assms(2) by (simp add: sound_def)
qed

lemma sound_to_far: "sound std (to_far s p now r g)" "lt_current_phase (to_far s p now r g) = Far"
  by (auto simp: to_far_def sound_def Let_def empty_level_state_def intro!: phase_of_value split: option.split)

lemma sound_confirmed:
  assumes "confirmed_transition c s p obs now d r = Inr t" "evidence_ok std s Confirmed"
  shows "sound std t \<and> lt_previous_phase t = p \<and> lt_current_phase t = Confirmed"
proof -
  from assms(1) obtain s2 where s2: "transition s2 p Confirmed now r = Inr t" "same_evidence s s2"
    by (auto simp: confirmed_transition_def rbind_eq_Inr_iff Let_def split: option.splits)
  then show ?thesis using sound_transition [OF s2(1)] assms(2) by (simp add: evidence_ok_cong)
qed

subsection \<open>State preparation\<close>

lemma clear_quality_same: "same_evidence s (clear_quality s)" "clear_quality s ''phase'' = s ''phase''"
  "clear_quality s ''phase_at'' = s ''phase_at''"
  by (simp_all add: clear_quality_def)

lemma shift_spots_same:
  assumes "shift_spots std b names s = Inr s'" "set names \<inter> evidence_keys = {}" "''phase'' \<notin> set names"
    "''phase_at'' \<notin> set names"
  shows "same_evidence s s' \<and> s' ''phase'' = s ''phase'' \<and> s' ''phase_at'' = s ''phase_at''"
  using assms
proof (induction names arbitrary: s)
  case (Cons n names)
  show ?case
  proof (cases "is_number (sget s n)")
    case True
    with Cons.prems obtain v where "shift_spots std b names (s(n \<mapsto> VFloat (fsub v b))) = Inr s'"
      by (auto simp: rbind_eq_Inr_iff)
    from Cons.IH [OF this] Cons.prems show ?thesis by (auto simp: same_evidence_def)
  next
    case False
    with Cons show ?thesis by simp
  qed
qed simp

lemma spot_fields_disjoint: "set spot_fields \<inter> evidence_keys = {}" "''phase'' \<notin> set spot_fields"
  "''phase_at'' \<notin> set spot_fields"
  by (simp_all add: spot_fields_def)

lemma upgrade_same:
  assumes "upgrade_rth_trigger_coordinate std s obs now = Inr s'"
  shows "same_evidence s s' \<and> s' ''phase'' = s ''phase'' \<and> s' ''phase_at'' = s ''phase_at''"
proof -
  let ?es = "stext std s ''trigger_coordinate_kind'' [] = ''es_equivalent''"
  from assms obtain pb s1 s2 v level where
    s1: "s1 = s \<or> (\<exists>x. s1 = s(''level'' \<mapsto> x))"
    and s2: "(case pb of Some b \<Rightarrow> if ?es then shift_spots std b spot_fields s1 else Inr s1 | None \<Rightarrow> Inr s1) = Inr s2"
    and s': "s' = s2(''spx_level'' \<mapsto> VFloat level,
                   ''trigger_coordinate_kind'' \<mapsto> VStr ''official_spx'',
                   ''trigger_instrument_id'' \<mapsto> VStr (text_or (lo_trigger_instrument_id obs) ''index:SPX''),
                   ''trigger_basis_points'' \<mapsto> opt_float (lo_trigger_basis_points obs),
                   ''coordinate_upgraded_at'' \<mapsto> iso now,
                   ''coordinate_upgraded_from'' \<mapsto> VStr (stext std s ''trigger_coordinate_kind'' []),
                   ''coordinate_upgraded_basis_points'' \<mapsto> opt_float pb)"
    unfolding upgrade_rth_trigger_coordinate_def Let_def rbind_eq_Inr_iff
    by (elim exE conjE) (rule that, auto simp: rbind_eq_Inr_iff split: if_splits option.splits)
  have 1: "same_evidence s s1 \<and> s1 ''phase'' = s ''phase'' \<and> s1 ''phase_at'' = s ''phase_at''" using s1 by auto
  have 2: "same_evidence s1 s2 \<and> s2 ''phase'' = s1 ''phase'' \<and> s2 ''phase_at'' = s1 ''phase_at''"
    using s2 shift_spots_same [OF _ spot_fields_disjoint] by (auto split: option.splits if_splits)
  show ?thesis using 1 2 unfolding s' by (auto intro: same_evidence_trans)
qed

lemma latch_inside_state:
  assumes "latch_breakout_inside_evidence std s obs now = Inr s'"
  shows "s' = s \<or> (\<exists>x. s' = s(''breakout_inside_seen_at'' \<mapsto> iso now, ''breakout_inside_seen_spot'' \<mapsto> VFloat x))"
  using assms by (auto simp: latch_breakout_inside_evidence_def latch_inside_def rbind_eq_Inr_iff
      split: if_splits option.splits pyval.splits)

lemma latch_inside_phase: "latch_breakout_inside_evidence std s obs now = Inr s' \<Longrightarrow> s' ''phase'' = s ''phase''"
  using latch_inside_state by fastforce

subsection \<open>Legal phase changes\<close>

definition legal_change :: "level_phase \<Rightarrow> level_phase \<Rightarrow> bool" where
  "legal_change p q \<longleftrightarrow>
     q = p \<or> q = Far
     \<or> (p \<noteq> Far \<and> \<not> terminal_phase p \<and> terminal_phase q)
     \<or> ((p = Far \<or> terminal_phase p) \<and> q \<in> {Approaching, Testing})
     \<or> (p, q) \<in> {(Approaching, Testing), (Testing, BreakPending), (Testing, RejectPending),
          (BreakPending, Accepted), (RejectPending, Rejected), (Accepted, Retest), (Rejected, Retest),
          (Accepted, Confirmed), (Rejected, Confirmed), (Retest, Confirmed)}"

text \<open>What every step function returns on a state in phase \<open>p\<close>.\<close>

definition step_ok :: "py_std \<Rightarrow> level_phase \<Rightarrow> level_transition \<Rightarrow> bool" where
  "step_ok std p t \<longleftrightarrow> sound std t \<and> lt_previous_phase t = p \<and> legal_change p (lt_current_phase t)"

lemma step_ok_same [intro]:
  "phase_of std s = p \<Longrightarrow> evidence_ok std s p \<Longrightarrow> step_ok std p (unchanged s p now r)"
  "phase_of std s = p \<Longrightarrow> evidence_ok std s p \<Longrightarrow> step_ok std p (update_extreme s p obs now r)"
  using sound_unchanged [of std s p] sound_update_extreme [of std s p]
  by (simp_all add: step_ok_def legal_change_def unchanged_def update_extreme_def)

lemma step_ok_to_far [intro]: "step_ok std p (to_far s p now r g)"
  using sound_to_far(1) [of std s p now r g] by (simp add: step_ok_def legal_change_def to_far_def Let_def)

lemma step_ok_transition:
  "transition s p q now r = Inr t \<Longrightarrow> legal_change p q \<Longrightarrow> evidence_ok std s q \<Longrightarrow> step_ok std p t"
  using sound_transition by (fastforce simp: step_ok_def)

lemma step_ok_end:
  assumes "transition s p q now r = Inr t" "p \<noteq> Far" "\<not> terminal_phase p" "q \<in> {Invalidated, Expired}"
  shows "step_ok std p t"
  by (rule step_ok_transition [OF assms(1)]) (use assms in \<open>auto simp: legal_change_def terminal_phase_def\<close>)

lemma step_ok_confirmed:
  "confirmed_transition c s p obs now d r = Inr t \<Longrightarrow> p \<in> {Accepted, Rejected, Retest} \<Longrightarrow>
   evidence_ok std s Confirmed \<Longrightarrow> step_ok std p t"
  using sound_confirmed by (fastforce simp: step_ok_def legal_change_def)

text \<open>Reading the thesis with the two defaults the code uses.\<close>

lemma thesis_text:
  "thesis_of (stext std s ''thesis'' ''none'') = Inr Breakout \<longleftrightarrow> stext std s ''thesis'' [] = ''breakout''"
proof -
  have "thesis_of x = Inr Breakout \<longleftrightarrow> x = ''breakout''" for x
    by (cases "x = ''breakout''") (auto simp: thesis_of_def)
  then show ?thesis by (auto simp: stext_def vor_def)
qed

lemma evidence_breakout:
  assumes "stext std s ''thesis'' [] = ''breakout''"
  shows "evidence_ok std s BreakPending \<longleftrightarrow> sget s ''breakout_inside_seen_at'' \<noteq> VNone"
    "evidence_ok std s Accepted \<longleftrightarrow> sget s ''breakout_inside_seen_at'' \<noteq> VNone"
    "evidence_ok std s Retest \<longleftrightarrow> sget s ''breakout_inside_seen_at'' \<noteq> VNone
       \<and> sget s ''breakout_extension_seen_at'' \<noteq> VNone \<and> sget s ''breakout_retest_seen_at'' \<noteq> VNone"
    "evidence_ok std s Confirmed \<longleftrightarrow> sget s ''breakout_inside_seen_at'' \<noteq> VNone
       \<and> sget s ''breakout_extension_seen_at'' \<noteq> VNone
       \<and> (if stext std s ''breakout_confirmation_mode'' ''retest'' = ''sustained''
          then sget s ''breakout_sustained_seen_at'' \<noteq> VNone
          else sget s ''breakout_retest_seen_at'' \<noteq> VNone)"
  using assms by (auto simp: evidence_ok_def thesis_ok_def breakout_evidence_issue_def)

lemma evidence_not_breakout:
  assumes "stext std s ''thesis'' [] \<noteq> ''breakout''"
  shows "evidence_ok std s Retest" "evidence_ok std s Confirmed"
    "evidence_ok std s RejectPending \<longleftrightarrow> stext std s ''thesis'' [] = ''fade''"
    "evidence_ok std s Rejected \<longleftrightarrow> stext std s ''thesis'' [] = ''fade''"
    "\<not> evidence_ok std s BreakPending" "\<not> evidence_ok std s Accepted"
  using assms by (auto simp: evidence_ok_def thesis_ok_def breakout_evidence_issue_def)

lemma evidence_reject:
  "evidence_ok std s RejectPending \<Longrightarrow> stext std s ''thesis'' [] = ''fade''"
  "evidence_ok std s Rejected \<Longrightarrow> stext std s ''thesis'' [] = ''fade''"
  by (simp_all add: evidence_ok_def thesis_ok_def)

subsection \<open>The phases\<close>

lemma arm_ok:
  assumes "arm_nearest_level std c obs now g guard = Inr t"
  shows "step_ok std Far t \<and> lt_current_phase t \<in> {Far, Approaching, Testing}"
proof (cases "eligible_levels c guard (case lo_spot obs of Some x \<Rightarrow> x | None \<Rightarrow> Fin 0) obs")
  case Nil
  with assms show ?thesis
    by (auto simp: arm_nearest_level_def Let_def step_ok_def sound_def legal_change_def empty_level_state_def
        intro!: phase_of_value split: option.splits)
next
  case (Cons row rows)
  obtain d kind level where m: "py_max_by (\<lambda>b x. row_less x b) row rows = (d, kind, level)"
    by (cases "py_max_by (\<lambda>b x. row_less x b) row rows")
  obtain p where p: "p \<in> {Testing, Approaching}" "lt_previous_phase t = Far" "lt_current_phase t = p"
    "lt_state t ''phase'' = Some (VStr (phase_value p))"
    using assms Cons m
    by (auto simp: arm_nearest_level_def Let_def rbind_eq_Inr_iff dest!: latch_inside_phase split: if_splits)
  have "phase_of std (lt_state t) = p" using p(4) by (rule phase_of_value)
  with p show ?thesis by (auto simp: step_ok_def sound_def legal_change_def)
qed

lemma step_approaching_ok:
  assumes "step_approaching c s obs now spot level = Inr t" "phase_of std s = Approaching"
  shows "step_ok std Approaching t"
  using assms
  by (auto simp: step_approaching_def legal_change_def split: if_splits intro: step_ok_transition)

lemma step_testing_ok:
  assumes "step_testing c s obs now m = Inr t" "phase_of std s = Testing"
  shows "step_ok std Testing t"
proof -
  let ?b = "latch_confirmation_start (s(''thesis'' \<mapsto> VStr (thesis_value Breakout))) obs now"
  let ?f = "latch_confirmation_start (s(''thesis'' \<mapsto> VStr (thesis_value Fade))) obs now"
  have tb: "stext std ?b ''thesis'' [] = ''breakout''" "sget ?b ''breakout_inside_seen_at'' = sget s ''breakout_inside_seen_at''"
    by (simp_all add: latch_confirmation_start_def stext_def sget_def)
  have tf: "stext std ?f ''thesis'' [] = ''fade''" by (simp add: latch_confirmation_start_def stext_def sget_def)
  have "evidence_ok std ?b BreakPending" if "sget s ''breakout_inside_seen_at'' \<noteq> VNone"
    using that tb evidence_breakout(1) [OF tb(1)] by simp
  moreover have "evidence_ok std ?f RejectPending" using tf evidence_not_breakout(3) [of std ?f] by simp
  ultimately show ?thesis
    using assms
    by (auto simp: step_testing_def Let_def legal_change_def split: if_splits intro: step_ok_transition)
qed

lemma step_pending_ok:
  assumes r: "step_pending std c s p th obs now spot d m = Inr t" and p: "phase_of std s = p"
    and pp: "p \<in> {BreakPending, RejectPending}" and e: "evidence_ok std s p"
  shows "step_ok std p t"
proof -
  let ?q = "if p = BreakPending then Accepted else Rejected"
  define s' where "s' = (if th = Breakout \<and> extended c m then latch_extension s now spot else s)"
  have e': "evidence_ok std s' ?q"
  proof (cases "p = BreakPending")
    case True
    then have b: "stext std s ''thesis'' [] = ''breakout''" "sget s ''breakout_inside_seen_at'' \<noteq> VNone"
      using e by (auto simp: evidence_ok_def thesis_ok_def breakout_evidence_issue_def split: if_splits)
    then have "stext std s' ''thesis'' [] = ''breakout''" "sget s' ''breakout_inside_seen_at'' \<noteq> VNone"
      by (simp_all add: s'_def latch_extension_def stext_def sget_def)
    then show ?thesis using True evidence_breakout(2) by simp
  next
    case False
    then have "stext std s ''thesis'' [] = ''fade''" using e pp evidence_reject(1) by auto
    then have "stext std s' ''thesis'' [] = ''fade''" by (simp add: s'_def latch_extension_def stext_def sget_def)
    then show ?thesis using False evidence_not_breakout(4) [of std s'] by simp
  qed
  have "(\<exists>r. transition s' p ?q now r = Inr t) \<or> (\<exists>r. t = update_extreme s p obs now r)"
    using r unfolding step_pending_def Let_def s'_def [symmetric]
    by (auto simp: rbind_eq_Inr_iff split: if_splits)
  moreover have "legal_change p ?q" using pp by (auto simp: legal_change_def)
  ultimately show ?thesis using e e' p by (auto intro: step_ok_transition)
qed

lemma step_accepted_ok:
  assumes r: "step_accepted std c s p th obs now spot level d m = Inr t" and p: "phase_of std s = p"
    and pp: "p \<in> {Accepted, Rejected}" and e: "evidence_ok std s p"
    and th: "th = Breakout \<longleftrightarrow> stext std s ''thesis'' [] = ''breakout''"
  shows "step_ok std p t"
proof (cases "th = Breakout")
  case True
  then have b: "stext std s ''thesis'' [] = ''breakout''" using th by simp
  have pa: "p = Accepted" using b e pp evidence_reject(2) by auto
  have i: "sget s ''breakout_inside_seen_at'' \<noteq> VNone" using e evidence_breakout(2) [OF b] by (simp add: pa)
  have keep: "step_ok std p (update_extreme s' p obs now x)"
    if "s' ''phase'' = s ''phase''" "stext std s' ''thesis'' [] = ''breakout''"
      "sget s' ''breakout_inside_seen_at'' \<noteq> VNone" for s' x
    using that p evidence_breakout(2) [OF that(2)] phase_of_cong [of s' s std] by (intro step_ok_same) (simp_all add: pa)
  have leg: "legal_change p Retest" "p \<in> {Accepted, Rejected, Retest}" using pp by (auto simp: legal_change_def)
  show ?thesis
  proof (cases "sget s ''breakout_extension_seen_at'' = VNone")
    case True
    with r \<open>th = Breakout\<close> show ?thesis
      using b i by (auto simp: step_accepted_def latch_extension_def stext_def sget_def split: if_splits intro!: keep)
  next
    case False
    let ?r = "(s(''confirm_started_at'' := None))(''breakout_retest_seen_at'' \<mapsto> iso now, ''breakout_retest_seen_spot'' \<mapsto> VFloat spot)"
    let ?c = "s(''breakout_confirmation_mode'' \<mapsto> VStr ''sustained'', ''breakout_sustained_seen_at'' \<mapsto> iso now)"
    have "stext std ?r ''thesis'' [] = ''breakout''" using b by (simp add: stext_def sget_def)
    from evidence_breakout(3) [OF this] have er: "evidence_ok std ?r Retest"
      using i False by (simp add: sget_def iso_def)
    have "stext std ?c ''thesis'' [] = ''breakout''" using b by (simp add: stext_def sget_def)
    from evidence_breakout(4) [OF this] have ec: "evidence_ok std ?c Confirmed"
      using i False by (simp add: sget_def iso_def stext_def)
    show ?thesis
    proof (cases "fle (fabs (fsub spot level)) (ls_retest_points c)")
      case True
      with r False \<open>th = Breakout\<close> have "transition ?r p Retest now ''returned_for_retest'' = Inr t"
        by (simp add: step_accepted_def Let_def)
      then show ?thesis using leg er by (intro step_ok_transition)
    next
      case far: False
      have upd: "step_ok std p (update_extreme (s(''confirm_started_at'' := v)) p obs now x)" for v x
        using b i by (intro keep) (simp_all add: stext_def sget_def)
      note body = r [unfolded step_accepted_def, simplified False far \<open>th = Breakout\<close>, simplified]
      show ?thesis
      proof (cases "flt m (ls_confirm_move_points c)")
        case True
        then show ?thesis using body upd by auto
      next
        case near: False
        show ?thesis
        proof (cases "optional_datetime std (sget s ''confirm_started_at'')")
          case None
          then show ?thesis using body near upd by auto
        next
          case (Some st)
          then have "confirmed_transition c ?c p obs now d ''sustained_breakout_confirmed'' = Inr t
              \<or> t = update_extreme s p obs now ''sustained_breakout_confirmation_hold''"
            using body near by (auto simp: rbind_eq_Inr_iff split: if_splits)
          then show ?thesis using keep [of s] b i ec leg(2) by (auto intro: step_ok_confirmed)
        qed
      qed
    qed
  qed
next
  case False
  then have nb: "stext std s ''thesis'' [] \<noteq> ''breakout''" using th by simp
  have leg: "legal_change p Retest" "p \<in> {Accepted, Rejected, Retest}" using pp by (auto simp: legal_change_def)
  have er: "evidence_ok std (s(''confirm_started_at'' := None)) Retest"
    using evidence_not_breakout(1) [OF nb] evidence_ok_cong [of s "s(''confirm_started_at'' := None)" std Retest] by simp
  have "(transition (s(''confirm_started_at'' := None)) p Retest now ''returned_for_retest'' = Inr t)
      \<or> (\<exists>x. confirmed_transition c s p obs now d x = Inr t) \<or> (\<exists>x. t = update_extreme s p obs now x)"
    using r False by (auto simp: step_accepted_def Let_def rbind_eq_Inr_iff split: if_splits)
  then show ?thesis
    using leg er p e evidence_not_breakout(2) [OF nb] by (auto intro: step_ok_transition step_ok_confirmed)
qed

lemma step_retest_ok:
  assumes r: "step_retest std c s th obs now d m = Inr t" and p: "phase_of std s = Retest"
    and e: "evidence_ok std s Retest"
    and th: "th = Breakout \<longleftrightarrow> stext std s ''thesis'' [] = ''breakout''"
  shows "step_ok std Retest t"
proof -
  let ?c = "if th = Breakout then s(''breakout_confirmation_mode'' \<mapsto> VStr ''retest'') else s"
  have ec: "evidence_ok std ?c Confirmed"
  proof (cases "th = Breakout")
    case True
    then have b: "stext std s ''thesis'' [] = ''breakout''" using th by simp
    have "stext std ?c ''thesis'' [] = ''breakout''" using b True by (simp add: stext_def sget_def)
    from evidence_breakout(4) [OF this] show ?thesis
      using e evidence_breakout(3) [OF b] True by (simp add: sget_def stext_def)
  next
    case False
    then show ?thesis using th evidence_not_breakout(2) by simp
  qed
  have keep: "step_ok std Retest (update_extreme (s(''confirm_started_at'' := v)) Retest obs now x)" for v x
    using p e evidence_ok_cong [of s "s(''confirm_started_at'' := v)" std Retest]
      phase_of_cong [of "s(''confirm_started_at'' := v)" s std] by (intro step_ok_same) simp_all
  have "(\<exists>v x. t = update_extreme (s(''confirm_started_at'' := v)) Retest obs now x)
      \<or> (\<exists>x. t = update_extreme s Retest obs now x) \<or> (\<exists>x. confirmed_transition c ?c Retest obs now d x = Inr t)"
    using r by (auto simp: step_retest_def rbind_eq_Inr_iff split: if_splits option.splits)
  then show ?thesis using keep p e ec by (auto intro: step_ok_confirmed)
qed


subsection \<open>One observation\<close>

lemma latch_inside_evidence:
  assumes "latch_breakout_inside_evidence std s obs now = Inr s'" "phase_of std s = p"
    "p \<in> {Approaching, Testing}"
  shows "phase_of std s' = p \<and> evidence_ok std s' p"
  using phase_of_cong [of s' s std] latch_inside_phase [OF assms(1)] assms(2,3) by auto

lemma advance_open_ok:
  assumes r: "advance_open std c s p obs now spot = Inr t" and p: "phase_of std s = p"
    and e: "evidence_ok std s p" and open_phase: "p \<noteq> Far" "\<not> terminal_phase p"
  shows "step_ok std p t"
proof -
  obtain level outside m th s' where
    th: "thesis_of (stext std s ''thesis'' ''none'') = Inr th"
    and s': "(if p \<in> {Approaching, Testing} then latch_breakout_inside_evidence std s obs now else Inr s) = Inr s'"
    and body: "(if p = Approaching then step_approaching c s' obs now spot level
       else if p = Testing then step_testing c s' obs now m
       else let d = (if th = Breakout then outside else - outside) in
         rbind (imul d (fsub spot level)) (\<lambda>dm.
         if fle dm (fneg (ls_break_buffer_points c)) then transition s' p Invalidated now ''crossed_invalidation''
         else if p \<noteq> Confirmed \<and> phase_timed_out std c s' now then transition s' p Expired now ''phase_timeout''
         else if p \<in> {BreakPending, RejectPending} then step_pending std c s' p th obs now spot d dm
         else if p \<in> {Accepted, Rejected} then step_accepted std c s' p th obs now spot level d dm
         else if p = Retest then step_retest std c s' th obs now d dm
         else Inr (unchanged s' p now ''no_transition''))) = Inr t"
    using r unfolding advance_open_def rbind_eq_Inr_iff by blast
  have thb: "th = Breakout \<longleftrightarrow> stext std s ''thesis'' [] = ''breakout''"
    using th thesis_text [of std s] by auto
  show ?thesis
  proof (cases "p \<in> {Approaching, Testing}")
    case True
    with s' have l: "phase_of std s' = p" using latch_inside_evidence [OF _ p] by auto
    show ?thesis
      using True body l step_approaching_ok [of c s' obs now spot level t std] step_testing_ok [of c s' obs now m t std]
      by auto
  next
    case False
    then have "s' = s" using s' by auto
    define d where "d = (if th = Breakout then outside else - outside)"
    obtain dm where late: "(if fle dm (fneg (ls_break_buffer_points c)) then transition s p Invalidated now ''crossed_invalidation''
         else if p \<noteq> Confirmed \<and> phase_timed_out std c s now then transition s p Expired now ''phase_timeout''
         else if p \<in> {BreakPending, RejectPending} then step_pending std c s p th obs now spot d dm
         else if p \<in> {Accepted, Rejected} then step_accepted std c s p th obs now spot level d dm
         else if p = Retest then step_retest std c s th obs now d dm
         else Inr (unchanged s p now ''no_transition'')) = Inr t"
      using body False unfolding \<open>s' = s\<close> d_def [symmetric] Let_def by (auto simp: rbind_eq_Inr_iff)
    consider "transition s p Invalidated now ''crossed_invalidation'' = Inr t"
      | "transition s p Expired now ''phase_timeout'' = Inr t"
      | "p \<in> {BreakPending, RejectPending}" "step_pending std c s p th obs now spot d dm = Inr t"
      | "p \<in> {Accepted, Rejected}" "step_accepted std c s p th obs now spot level d dm = Inr t"
      | "p = Retest" "step_retest std c s th obs now d dm = Inr t"
      | "t = unchanged s p now ''no_transition''"
      using late by (metis Inr_inject)
    then show ?thesis
    proof cases
      case 1 then show ?thesis using open_phase by (intro step_ok_end) auto
    next
      case 2 then show ?thesis using open_phase by (intro step_ok_end) auto
    next
      case 3 then show ?thesis using step_pending_ok [OF 3(2) p] e by simp
    next
      case 4 then show ?thesis using step_accepted_ok [OF 4(2) p 4(1) e thb] by simp
    next
      case 5 then show ?thesis using step_retest_ok [OF 5(2) _ _ thb] p e by simp
    next
      case 6 then show ?thesis using p e by auto
    qed
  qed
qed

lemma expiry_gate_ok:
  assumes r: "expiry_gate std c s p now spot = Inr g" and p: "phase_of std s = p"
    and e: "evidence_ok std s p" and open_phase: "p \<noteq> Far" "\<not> terminal_phase p"
  shows "case g of Inl t \<Rightarrow> step_ok std p t | Inr s' \<Rightarrow> phase_of std s' = p \<and> evidence_ok std s' p"
proof -
  have same: "phase_of std (s(''expires_at'' \<mapsto> v)) = p" "evidence_ok std (s(''expires_at'' \<mapsto> v)) p" for v
    using p e evidence_ok_cong [of s "s(''expires_at'' \<mapsto> v)" std p] phase_of_cong [of "s(''expires_at'' \<mapsto> v)" s std]
    by simp_all
  consider (go) "g = Inr s" | (ext) v where "g = Inr (s(''expires_at'' \<mapsto> v))"
    | (keep) v x where "g = Inl (unchanged (s(''expires_at'' \<mapsto> v)) p now x)"
    | (stop) t x where "g = Inl t" "transition s p Expired now x = Inr t"
    using r
    by (auto simp: expiry_gate_def extend_to_phase_end_def rbind_eq_Inr_iff split: if_splits)
  then show ?thesis
  proof cases
    case stop
    then show ?thesis using step_ok_end [OF stop(2) open_phase] by simp
  qed (use p e same in auto)
qed

lemma advance_active_ok:
  assumes r: "advance_active std c s p obs now spot = Inr t" and p: "phase_of std s = p"
    and e: "evidence_ok std s p" and open_phase: "p \<noteq> Far" "\<not> terminal_phase p"
  shows "step_ok std p t"
proof -
  obtain g where g: "expiry_gate std c s p now spot = Inr g"
    using r by (auto simp: advance_active_def rbind_eq_Inr_iff)
  show ?thesis
  proof (cases g)
    case (Inl t')
    then show ?thesis using r g expiry_gate_ok [OF g p e open_phase] by (simp add: advance_active_def)
  next
    case (Inr s')
    then have s': "phase_of std s' = p" "evidence_ok std s' p" using expiry_gate_ok [OF g p e open_phase] by auto
    have "(\<exists>x. transition s' p Invalidated now x = Inr t) \<or> advance_open std c s' p obs now spot = Inr t"
      using r g Inr by (auto simp: advance_active_def rbind_eq_Inr_iff split: if_splits)
    then show ?thesis using advance_open_ok [OF _ s' open_phase] step_ok_end [OF _ open_phase] by blast
  qed
qed


lemma handle_bad_quality_ok:
  assumes r: "handle_bad_quality std c s p obs now = Inr t" and p: "phase_of std s = p" and e: "evidence_ok std s p"
  shows "step_ok std p t \<and> lt_current_phase t \<in> {p, Expired}"
proof -
  have same: "phase_of std s' = p" "evidence_ok std s' p" if "same_evidence s s'" "s' ''phase'' = s ''phase''" for s'
    using that p e evidence_ok_cong [of s s' std p] phase_of_cong [of s' s std] by simp_all
  have keep: "step_ok std p (unchanged s' p now x)" if "same_evidence s s'" "s' ''phase'' = s ''phase''" for s' x
    using same that by (intro step_ok_same) auto
  have "(\<exists>s' x. t = unchanged s' p now x \<and> same_evidence s s' \<and> s' ''phase'' = s ''phase'')
     \<or> (\<exists>s' x. transition s' p Expired now x = Inr t \<and> p \<noteq> Far \<and> \<not> terminal_phase p)"
    using r unfolding handle_bad_quality_def Let_def
    by (fastforce simp: extend_to_phase_end_def rbind_eq_Inr_iff split: if_splits option.splits)
  then show ?thesis
  proof (elim disjE exE conjE)
    fix s' x assume "t = unchanged s' p now x" "same_evidence s s'" "s' ''phase'' = s ''phase''"
    then show ?thesis using keep by (simp add: unchanged_def)
  next
    fix s' x assume t: "transition s' p Expired now x = Inr t" "p \<noteq> Far" "\<not> terminal_phase p"
    then show ?thesis using step_ok_end [OF t] by (auto simp: transition_def rbind_eq_Inr_iff)
  qed
qed

lemma handle_terminal_rearm_ok:
  assumes r: "handle_terminal_rearm std c s p obs now = Inr t" and p: "phase_of std s = p"
    and tp: "terminal_phase p"
  shows "step_ok std p t"
proof -
  have e: "evidence_ok std s p" using tp by (auto simp: terminal_phase_def)
  let ?armed = "\<lambda>a. \<lparr>lt_previous_phase = p, lt_current_phase = lt_current_phase a, lt_state = lt_state a,
              lt_changed = True, lt_reason = ''stable_structure_promoted_rearm''\<rparr>"
  have "step_ok std p (?armed a)" if "arm_nearest_level std c obs now g None = Inr a" "lt_current_phase a \<noteq> Far" for a g
    using arm_ok [OF that(1)] that(2) tp by (auto simp: step_ok_def sound_def legal_change_def)
  note armed = this
  show ?thesis
  proof (cases "flt (phase_age std s now) (ls_terminal_rearm_seconds c)")
    case True
    then show ?thesis using r p e by (auto simp: handle_terminal_rearm_def)
  next
    case False
    define k where "k = stext std s ''level_kind'' []"
    obtain m where m: "kind_migrated std c s (map_of (lo_levels obs) k) = Inr m"
      using r False by (auto simp: handle_terminal_rearm_def rbind_eq_Inr_iff Let_def k_def)
    note body = r [unfolded handle_terminal_rearm_def Let_def, folded k_def, unfolded m]
    show ?thesis
    proof (cases "(outside_direction_of k \<noteq> None \<and> map_of (lo_levels obs) k = None) \<or> m")
      case True
      then obtain a where a: "arm_nearest_level std c obs now (generation s ''reentry_generation'' + 1) None = Inr a"
        using body False by (auto simp: rbind_eq_Inr_iff)
      show ?thesis
        using body False True a armed [OF a] by (cases "lt_current_phase a = Far") auto
    next
      case stay: False
      then show ?thesis
        using body False step_ok_same(1) [OF p e] step_ok_to_far by (auto simp: rbind_eq_Inr_iff split: if_splits)
    qed
  qed
qed

lemma advance_far_ok:
  assumes "advance_far std c s obs now spot = Inr t" "phase_of std s = Far"
  shows "step_ok std Far t \<and> lt_current_phase t \<in> {Far, Approaching, Testing}"
  using assms arm_ok step_ok_same(1) [OF assms(2)]
  by (fastforce simp: advance_far_def rbind_eq_Inr_iff Let_def unchanged_def split: if_splits)

lemma advance_good_ok:
  assumes r: "advance_good std c s p obs now spot = Inr t" and p: "phase_of std s = p" and th: "thesis_ok std s p"
  shows "step_ok std p t"
proof -
  obtain s' where u: "(if can_upgrade_rth_trigger_coordinate std s p obs
            then upgrade_rth_trigger_coordinate std s obs now else Inr s) = Inr s'"
    using r by (auto simp: advance_good_def rbind_eq_Inr_iff)
  then have s': "same_evidence s s'" "s' ''phase'' = s ''phase''"
    using upgrade_same [of std s obs now s'] by (auto split: if_splits)
  have p': "phase_of std s' = p" "thesis_ok std s' p"
    using p th s' phase_of_cong [of s' s std] by (simp_all add: thesis_ok_def evidence_reads [OF s'(1)])
  show ?thesis
  proof (cases "breakout_evidence_issue std s' p")
    case (Some x)
    then have "p \<noteq> Far" "\<not> terminal_phase p"
      by (auto simp: breakout_evidence_issue_def terminal_phase_def split: if_splits)
    then show ?thesis using r u Some step_ok_end [of s' p Invalidated now x t std] by (simp add: advance_good_def)
  next
    case None
    then have e: "evidence_ok std s' p" using p' by (simp add: evidence_ok_def)
    consider "p = Far" "advance_far std c s' obs now spot = Inr t"
      | x where "t = unchanged s' p now x"
      | "terminal_phase p" "handle_terminal_rearm std c s' p obs now = Inr t"
      | "p \<noteq> Far" "\<not> terminal_phase p" "advance_active std c s' p obs now spot = Inr t"
      using r u None by (auto simp: advance_good_def split: if_splits)
    then show ?thesis
    proof cases
      case 1 then show ?thesis using advance_far_ok [OF 1(2)] p' by simp
    next
      case 2 then show ?thesis using p' e by auto
    next
      case 3 then show ?thesis using handle_terminal_rearm_ok [OF 3(2) p'(1) 3(1)] by simp
    next
      case 4 then show ?thesis using advance_active_ok [OF 4(3) p'(1) e 4(1,2)] by simp
    qed
  qed
qed


lemma clear_quality_phase: "phase_of std (clear_quality s) = phase_of std s"
  using phase_of_cong [of "clear_quality s" s std] clear_quality_same by simp

lemma advance_ok:
  assumes r: "advance_level_decision std c prev obs = Inr t"
    and e: "\<And>s. prev = Some s \<Longrightarrow> evidence_ok std s (phase_of std s)"
  shows "step_ok std (case prev of Some s \<Rightarrow> phase_of std s | None \<Rightarrow> Far) t"
proof -
  obtain now where now: "level_utc (lo_at obs) = Inr now"
    using r by (auto simp: advance_level_decision_def rbind_eq_Inr_iff)
  define s where "s = (case prev of Some s \<Rightarrow> s | None \<Rightarrow> empty_level_state now)"
  have far: "phase_of std (empty_level_state now) = Far" by (rule phase_of_value) (simp add: empty_level_state_def)
  have s: "evidence_ok std s (phase_of std s)" using e far by (auto simp: s_def split: option.split)
  have p: "(case prev of Some s \<Rightarrow> phase_of std s | None \<Rightarrow> Far) = phase_of std s"
    using far by (simp add: s_def split: option.split)
  have "thesis_ok std (clear_quality s) (phase_of std s)"
    using s evidence_ok_cong [OF clear_quality_same(1) [of s], of std] unfolding evidence_ok_def by blast
  from advance_good_ok [OF _ clear_quality_phase this]
  have good: "step_ok std (phase_of std s) t"
    if "advance_good std c (clear_quality s) (phase_of std s) obs now spot = Inr t" for spot
    using that by simp
  show ?thesis
    unfolding p using r good handle_bad_quality_ok [OF _ refl s] step_ok_to_far
    by (auto simp: advance_level_decision_def now s_def [symmetric] Let_def split: if_splits bool.splits option.splits)
qed

subsection \<open>Reachable states\<close>

text \<open>The states the machine stores: the result of a first observation, and of every later one.\<close>

inductive level_reachable :: "py_std \<Rightarrow> level_settings \<Rightarrow> level_state \<Rightarrow> bool"
  for std :: py_std and c :: level_settings where
  start: "advance_level_decision std c None obs = Inr t \<Longrightarrow> level_reachable std c (lt_state t)"
| step: "level_reachable std c s \<Longrightarrow> advance_level_decision std c (Some s) obs = Inr t
     \<Longrightarrow> level_reachable std c (lt_state t)"

lemma reachable_next:
  "level_reachable std c s \<Longrightarrow> \<exists>t. advance_level_decision std c (Some s) obs = Inr t \<and> lt_state t = s'
   \<Longrightarrow> level_reachable std c s'"
  using step by blast

lemma reachable_evidence: "level_reachable std c s \<Longrightarrow> evidence_ok std s (phase_of std s)"
proof (induction rule: level_reachable.induct)
  case (start obs t)
  then show ?case using advance_ok [of std c None obs t] by (simp add: step_ok_def sound_def)
next
  case (step s obs t)
  then show ?case using advance_ok [of std c "Some s" obs t] by (simp add: step_ok_def sound_def)
qed

text \<open>
  A concrete breakout above a call wall at 6000: armed in the test zone, through the buffer,
  accepted with its extension, held, and confirmed.
\<close>

definition sample_at :: "int \<Rightarrow> int" where
  "sample_at sec = 62135683200000000 + sec * 1000000"

lemma sample_at_simps [simp]:
  "sample_at a - sample_at b = (a - b) * 1000000" "sample_at a \<le> sample_at b \<longleftrightarrow> a \<le> b"
  "sample_at a + 300000000 = sample_at (a + 300)"
  by (simp_all add: sample_at_def)

definition sample_level_times :: "int list" where
  "sample_level_times = map sample_at [1, 25, 30, 300]"

definition sample_level_std :: py_std where
  "sample_level_std = \<lparr>std_str = (\<lambda>_. []), std_float = (\<lambda>_. None),
     std_fromiso = (\<lambda>s. map_of (map (\<lambda>t. (isoformat t, Aware t 0)) sample_level_times) s),
     std_fmt_g = (\<lambda>_. []), std_sha256 = (\<lambda>_. [])\<rparr>"

definition sample_level_obs :: "int \<Rightarrow> rat \<Rightarrow> rat \<Rightarrow> level_observation" where
  "sample_level_obs sec spot es =
     \<lparr>lo_at = Aware (sample_at sec) 0, lo_spot = Some (Fin spot), lo_es = Some (Fin es),
      lo_levels = [(''call_wall'', Fin 6000)], lo_quality_ok = True, lo_quality_reason = None,
      lo_session_date = ''2026-01-05'', lo_session_mode = ''rth'', lo_spot_source = ''ibkr'',
      lo_level_source = ''ibkr'', lo_spx_levels = None, lo_trigger_coordinate_kind = ''official_spx'',
      lo_trigger_instrument_id = None, lo_trigger_basis_points = None, lo_spx_spot = None,
      lo_arm_allowed = True, lo_arm_block_reason = None\<rparr>"

lemma sample_level_obs_simps [simp]:
  "lo_at (sample_level_obs sec spot es) = Aware (sample_at sec) 0" "lo_spot (sample_level_obs sec spot es) = Some (Fin spot)"
  "lo_es (sample_level_obs sec spot es) = Some (Fin es)"
  "lo_levels (sample_level_obs sec spot es) = [(''call_wall'', Fin 6000)]"
  "lo_quality_ok (sample_level_obs sec spot es)" "lo_session_date (sample_level_obs sec spot es) = ''2026-01-05''"
  "lo_session_mode (sample_level_obs sec spot es) = ''rth''" "lo_spx_levels (sample_level_obs sec spot es) = None"
  "lo_trigger_coordinate_kind (sample_level_obs sec spot es) = ''official_spx''"
  "lo_trigger_instrument_id (sample_level_obs sec spot es) = None"
  "lo_trigger_basis_points (sample_level_obs sec spot es) = None" "lo_spx_spot (sample_level_obs sec spot es) = None"
  "lo_arm_allowed (sample_level_obs sec spot es)"
  by (simp_all add: sample_level_obs_def)

lemma sample_fromiso:
  assumes "t \<in> set sample_level_times"
  shows "optional_datetime sample_level_std (iso t) = Some t"
proof -
  have "distinct (map isoformat sample_level_times)" by code_simp
  then have "inj_on isoformat (set sample_level_times)" by (simp add: distinct_map)
  with assms have "map_of (map (\<lambda>t. (isoformat t, Aware t 0)) xs) (isoformat t) = Some (Aware t 0)"
    if "t \<in> set xs" "set xs \<subseteq> set sample_level_times" for xs
    using that by (induction xs) (auto simp: inj_on_def)
  with assms show ?thesis by (simp add: iso_def optional_datetime_def as_utc_def sample_level_std_def)
qed

definition sample_armed :: level_state where
  "sample_armed =
     [''schema_version'' \<mapsto> VInt 1,
      ''event_id'' \<mapsto> VStr (level_event_id sample_level_std ''2026-01-05'' ''call_wall'' (Fin 6000) (sample_at 0)),
      ''reentry_generation'' \<mapsto> VInt 0, ''phase'' \<mapsto> VStr ''testing'', ''thesis'' \<mapsto> VStr ''none'',
      ''level_kind'' \<mapsto> VStr ''call_wall'', ''level'' \<mapsto> VFloat (Fin 6000), ''spx_level'' \<mapsto> VFloat (Fin 6000),
      ''trigger_coordinate_kind'' \<mapsto> VStr ''official_spx'', ''trigger_instrument_id'' \<mapsto> VNone,
      ''trigger_basis_points'' \<mapsto> VNone, ''outside_direction'' \<mapsto> VInt 1,
      ''started_at'' \<mapsto> iso (sample_at 0), ''phase_at'' \<mapsto> iso (sample_at 0), ''expires_at'' \<mapsto> iso (sample_at 300),
      ''start_spot'' \<mapsto> VFloat (Fin 5998), ''start_es'' \<mapsto> VFloat (Fin 6010),
      ''session_date'' \<mapsto> VStr ''2026-01-05'', ''session_mode'' \<mapsto> VStr ''rth'',
      ''last_spot'' \<mapsto> VFloat (Fin 5998), ''last_es'' \<mapsto> VFloat (Fin 6010), ''updated_at'' \<mapsto> iso (sample_at 0),
      ''transition_count'' \<mapsto> VInt 1, ''reason'' \<mapsto> VStr ''nearest_level_armed'',
      ''breakout_inside_seen_at'' \<mapsto> iso (sample_at 0), ''breakout_inside_seen_spot'' \<mapsto> VFloat (Fin 5998)]"

lemma sample_arm:
  "\<exists>t. arm_nearest_level sample_level_std default_level_settings (sample_level_obs 0 5998 6010) (sample_at 0) 0 None = Inr t
     \<and> lt_state t = sample_armed"
  unfolding arm_nearest_level_def eligible_levels_def
  by (simp add: default_level_settings_def py_float_def sget_def outside_direction_of_def float_of_int_def
      rearm_guard_blocks_def iso_after_def latch_breakout_inside_evidence_def latch_inside_def is_number_def
      imul_def opt_float_def sample_armed_def Let_def)

lemma sample_start: "level_reachable sample_level_std default_level_settings sample_armed"
proof -
  have far: "phase_of sample_level_std (empty_level_state (sample_at 0)) = Far"
    by (rule phase_of_value) (simp add: empty_level_state_def)
  obtain t where "arm_nearest_level sample_level_std default_level_settings (sample_level_obs 0 5998 6010) (sample_at 0) 0 None = Inr t"
    and t: "lt_state t = sample_armed" using sample_arm by blast
  then have "advance_far sample_level_std default_level_settings (empty_level_state (sample_at 0))
     (sample_level_obs 0 5998 6010) (sample_at 0) (Fin 5998) = Inr t"
    by (simp add: advance_far_def rearm_guard_def empty_level_state_def sget_def generation_def)
  moreover have "clear_quality (empty_level_state (sample_at 0)) = empty_level_state (sample_at 0)"
    "stext sample_level_std (empty_level_state (sample_at 0)) ''thesis'' [] = ''none''"
    "stext sample_level_std (empty_level_state (sample_at 0)) ''session_mode'' [] = []"
    by (simp_all add: clear_quality_def empty_level_state_def stext_def sget_def vor_def fun_upd_idem)
  ultimately have "advance_level_decision sample_level_std default_level_settings None (sample_level_obs 0 5998 6010) = Inr t"
    by (simp add: advance_level_decision_def level_utc_def Let_def far session_boundary_changed_def terminal_phase_def
        advance_good_def can_upgrade_rth_trigger_coordinate_def breakout_evidence_issue_def)
  from start [OF this] show ?thesis by (simp add: t)
qed


text \<open>A good observation of the sample event in an open phase reaches the step functions.\<close>

definition sample_live :: "level_state \<Rightarrow> bool" where
  "sample_live s \<longleftrightarrow> s ''quality_failed_at'' = None \<and> s ''quality_degraded_at'' = None
     \<and> s ''quality_status'' = None \<and> s ''quality_reason'' = None \<and> s ''level_kind'' = Some (VStr ''call_wall'')
     \<and> s ''level'' = Some (VFloat (Fin 6000)) \<and> s ''outside_direction'' = Some (VInt 1)
     \<and> s ''trigger_coordinate_kind'' = Some (VStr ''official_spx'') \<and> s ''session_date'' = Some (VStr ''2026-01-05'')
     \<and> s ''session_mode'' = Some (VStr ''rth'') \<and> s ''expires_at'' = Some (iso (sample_at 300))"

lemma clear_quality_idem:
  "s ''quality_failed_at'' = None \<Longrightarrow> s ''quality_degraded_at'' = None \<Longrightarrow> s ''quality_status'' = None
   \<Longrightarrow> s ''quality_reason'' = None \<Longrightarrow> clear_quality s = s"
  by (auto simp: clear_quality_def)

lemma sample_live_advance:
  assumes live: "sample_live s" and p: "phase_of sample_level_std s = p" "p \<noteq> Far" "\<not> terminal_phase p"
    and e: "breakout_evidence_issue sample_level_std s p = None" and us: "sec < 300"
  shows "advance_level_decision sample_level_std default_level_settings (Some s) (sample_level_obs sec spot es)
    = advance_open sample_level_std default_level_settings s p (sample_level_obs sec spot es) (sample_at sec) (Fin spot)"
proof -
  have t: "stext sample_level_std s ''session_mode'' [] = ''rth''" "stext sample_level_std s ''session_date'' [] = ''2026-01-05''"
    "stext sample_level_std s ''level_kind'' [] = ''call_wall''"
    "stext sample_level_std s ''trigger_coordinate_kind'' x = ''official_spx''" for x
    using live by (simp_all add: sample_live_def stext_def sget_def vor_def)
  have "\<not> level_expired sample_level_std s (sample_at sec)"
    using live us by (simp add: sample_live_def level_expired_def sget_def sample_fromiso sample_level_times_def)
  moreover have "structure_drifted sample_level_std default_level_settings s (sample_level_obs sec spot es) = Inr False"
    using live by (simp add: structure_drifted_def t sitem_def sample_live_def py_float_def default_level_settings_def)
  moreover have "clear_quality s = s" using live by (intro clear_quality_idem) (simp_all add: sample_live_def)
  ultimately show ?thesis
    using live p e
    by (simp add: advance_level_decision_def level_utc_def Let_def session_boundary_changed_def t advance_good_def
        can_upgrade_rth_trigger_coordinate_def advance_active_def expiry_gate_def sample_live_def)
qed

definition sample_broken :: level_state where
  "sample_broken = (latch_confirmation_start (sample_armed(''thesis'' \<mapsto> VStr ''breakout'')) (sample_level_obs 1 6008 6015) (sample_at 1))
     (''phase'' \<mapsto> VStr ''break_pending'', ''phase_at'' \<mapsto> iso (sample_at 1), ''updated_at'' \<mapsto> iso (sample_at 1),
      ''reason'' \<mapsto> VStr ''crossed_outside_buffer'', ''transition_count'' \<mapsto> VInt 2)"

definition sample_accepted :: level_state where
  "sample_accepted = (latch_extension sample_broken (sample_at 25) (Fin 6008))
     (''phase'' \<mapsto> VStr ''accepted'', ''phase_at'' \<mapsto> iso (sample_at 25), ''updated_at'' \<mapsto> iso (sample_at 25),
      ''reason'' \<mapsto> VStr ''direction_accepted'', ''transition_count'' \<mapsto> VInt 3)"

definition sample_held :: level_state where
  "sample_held = sample_accepted(''confirm_started_at'' \<mapsto> iso (sample_at 30), ''last_spot'' \<mapsto> VFloat (Fin 6008),
     ''last_es'' \<mapsto> VFloat (Fin 6017), ''updated_at'' \<mapsto> iso (sample_at 30))"

lemma sample_armed_reads:
  "sample_armed ''phase'' = Some (VStr ''testing'')" "sample_armed ''thesis'' = Some (VStr ''none'')"
  "sample_armed ''level_kind'' = Some (VStr ''call_wall'')" "sample_armed ''level'' = Some (VFloat (Fin 6000))"
  "sample_armed ''trigger_coordinate_kind'' = Some (VStr ''official_spx'')"
  "sample_armed ''outside_direction'' = Some (VInt 1)" "sample_armed ''expires_at'' = Some (iso (sample_at 300))"
  "sample_armed ''session_date'' = Some (VStr ''2026-01-05'')" "sample_armed ''session_mode'' = Some (VStr ''rth'')"
  "sample_armed ''transition_count'' = Some (VInt 1)" "sample_armed ''breakout_inside_seen_at'' = Some (iso (sample_at 0))"
  "sample_armed ''quality_failed_at'' = None" "sample_armed ''quality_degraded_at'' = None"
  "sample_armed ''quality_status'' = None" "sample_armed ''quality_reason'' = None"
  "sample_armed ''breakout_extension_seen_at'' = None" "sample_armed ''confirm_started_at'' = None"
  unfolding sample_armed_def by simp_all

lemmas sample_states = sample_broken_def sample_accepted_def sample_held_def
  latch_confirmation_start_def latch_extension_def sample_armed_reads

definition live_keys :: "string set" where
  "live_keys = {''quality_failed_at'', ''quality_degraded_at'', ''quality_status'', ''quality_reason'', ''level_kind'',
     ''level'', ''outside_direction'', ''trigger_coordinate_kind'', ''session_date'', ''session_mode'', ''expires_at''}"

lemma sample_live_cong: "\<forall>k \<in> live_keys. s' k = s k \<Longrightarrow> sample_live s' \<longleftrightarrow> sample_live s"
  unfolding sample_live_def live_keys_def by simp

lemma sample_live_upd [simp]: "k \<notin> live_keys \<Longrightarrow> sample_live (s(k := v)) \<longleftrightarrow> sample_live s"
  by (rule sample_live_cong) auto

lemma not_live [simp]:
  "''thesis'' \<notin> live_keys" "''phase'' \<notin> live_keys" "''phase_at'' \<notin> live_keys" "''updated_at'' \<notin> live_keys"
  "''reason'' \<notin> live_keys" "''transition_count'' \<notin> live_keys" "''last_spot'' \<notin> live_keys" "''last_es'' \<notin> live_keys"
  "''confirm_started_at'' \<notin> live_keys" "''confirmation_start_spot'' \<notin> live_keys"
  "''confirmation_start_es'' \<notin> live_keys" "''confirmation_started_at'' \<notin> live_keys"
  "''breakout_extension_seen_at'' \<notin> live_keys" "''breakout_extension_seen_spot'' \<notin> live_keys"
  by (simp_all add: live_keys_def)

lemma sample_lives: "sample_live sample_armed" "sample_live sample_broken" "sample_live sample_accepted" "sample_live sample_held"
proof -
  show "sample_live sample_armed"
    unfolding sample_live_def by (intro conjI) (simp_all add: sample_armed_reads)
  then show "sample_live sample_broken" "sample_live sample_accepted" "sample_live sample_held"
    by (simp_all add: sample_broken_def sample_accepted_def sample_held_def latch_confirmation_start_def latch_extension_def)
qed

lemma sample_phases: "phase_of sample_level_std sample_armed = Testing"
  "phase_of sample_level_std sample_broken = BreakPending" "phase_of sample_level_std sample_accepted = Accepted"
  "phase_of sample_level_std sample_held = Accepted"
  by (rule phase_of_value, simp add: sample_states)+

lemma sample_issues:
  "breakout_evidence_issue sample_level_std sample_armed Testing = None"
  "breakout_evidence_issue sample_level_std sample_broken BreakPending = None"
  "breakout_evidence_issue sample_level_std sample_accepted Accepted = None"
  "breakout_evidence_issue sample_level_std sample_held Accepted = None"
  by (simp_all add: breakout_evidence_issue_def sample_states sget_def iso_def)


lemma iso_not_none: "iso t \<noteq> VNone"
  by (simp add: iso_def)

lemma sample_confirmed:
  "\<exists>s. level_reachable sample_level_std default_level_settings s
     \<and> phase_of sample_level_std s = Confirmed \<and> stext sample_level_std s ''thesis'' [] = ''breakout''"
proof -
  note go = sample_live_advance [OF sample_lives(1) sample_phases(1)] sample_live_advance [OF sample_lives(2) sample_phases(2)]
    sample_live_advance [OF sample_lives(3) sample_phases(3)] sample_live_advance [OF sample_lives(4) sample_phases(4)]
  note reads = sitem_def py_float_def py_int_def imul_def float_of_int_def thesis_of_def stext_def sget_def vor_def
  have 1: "\<exists>t. advance_level_decision sample_level_std default_level_settings (Some sample_armed) (sample_level_obs 1 6008 6015) = Inr t
     \<and> lt_state t = sample_broken"
    using sample_issues(1)
    by (subst go(1)) (simp_all add: terminal_phase_def advance_open_def sample_armed_reads reads latch_breakout_inside_evidence_def iso_def
       step_testing_def Let_def default_level_settings_def transition_def int_or_0_def sample_broken_def latch_confirmation_start_def)
  have 2: "\<exists>t. advance_level_decision sample_level_std default_level_settings (Some sample_broken) (sample_level_obs 25 6008 6017) = Inr t
     \<and> lt_state t = sample_accepted"
  proof -
    have r: "sample_broken ''level'' = Some (VFloat (Fin 6000))" "sample_broken ''outside_direction'' = Some (VInt 1)"
      "sample_broken ''thesis'' = Some (VStr ''breakout'')" "sample_broken ''phase_at'' = Some (iso (sample_at 1))"
      "sample_broken ''confirmation_start_es'' = Some (VFloat (Fin 6015))" "sample_broken ''confirmation_start_spot'' = Some (VFloat (Fin 6008))"
      "latch_extension sample_broken (sample_at 25) (Fin 6008) ''transition_count'' = Some (VInt 2)"
      by (simp_all add: sample_states opt_float_def)
    show ?thesis
    using sample_issues(2)
    by (subst go(2)) (simp_all add: terminal_phase_def advance_open_def r reads phase_timed_out_def phase_age_def
       sample_fromiso sample_level_times_def total_seconds_whole [of 24, simplified] fmax_def step_pending_def es_confirms_def extended_def fneq0_def
       Let_def default_level_settings_def transition_def int_or_0_def sample_accepted_def)
  qed
  have 3: "\<exists>t. advance_level_decision sample_level_std default_level_settings (Some sample_accepted) (sample_level_obs 30 6008 6017) = Inr t
     \<and> lt_state t = sample_held"
  proof -
    have r: "sample_accepted ''level'' = Some (VFloat (Fin 6000))" "sample_accepted ''outside_direction'' = Some (VInt 1)"
      "sample_accepted ''thesis'' = Some (VStr ''breakout'')" "sample_accepted ''phase_at'' = Some (iso (sample_at 25))"
      "sample_accepted ''breakout_extension_seen_at'' = Some (iso (sample_at 25))"
      "sample_accepted ''confirm_started_at'' = None"
      by (simp_all add: sample_states opt_float_def)
    show ?thesis
    using sample_issues(3)
    by (subst go(3)) (simp_all add: terminal_phase_def advance_open_def r reads phase_timed_out_def phase_age_def
       sample_fromiso sample_level_times_def total_seconds_whole [of 5, simplified] fmax_def step_accepted_def
       optional_datetime_def [of _ VNone] iso_not_none opt_float_def
       Let_def default_level_settings_def update_extreme_def sample_held_def)
  qed
  have 4: "\<exists>t. advance_level_decision sample_level_std default_level_settings (Some sample_held) (sample_level_obs 41 6008 6017) = Inr t
     \<and> lt_state t ''phase'' = Some (VStr ''confirmed'') \<and> lt_state t ''thesis'' = Some (VStr ''breakout'')"
  proof -
    have r: "sample_held ''level'' = Some (VFloat (Fin 6000))" "sample_held ''outside_direction'' = Some (VInt 1)"
      "sample_held ''thesis'' = Some (VStr ''breakout'')" "sample_held ''phase_at'' = Some (iso (sample_at 25))"
      "sample_held ''breakout_extension_seen_at'' = Some (iso (sample_at 25))"
      "sample_held ''confirm_started_at'' = Some (iso (sample_at 30))" "sample_held ''transition_count'' = Some (VInt 3)"
      "sample_held ''confirmation_start_es'' = Some (VFloat (Fin 6015))" "sample_held ''confirmation_start_spot'' = Some (VFloat (Fin 6008))"
      by (simp_all add: sample_states opt_float_def)
    let ?s = "sample_held(''breakout_confirmation_mode'' \<mapsto> VStr ''sustained'', ''breakout_sustained_seen_at'' \<mapsto> iso (sample_at 41))"
    have c: "es_confirms sample_level_std default_level_settings sample_held (sample_level_obs 41 6008 6017) 1 = Inr True"
      by (simp add: es_confirms_def r reads fneq0_def fmax_def default_level_settings_def)
    have g: "sget sample_held ''confirm_started_at'' = iso (sample_at 30)" "sget sample_held ''phase_at'' = iso (sample_at 25)"
      "sget sample_held ''breakout_extension_seen_at'' \<noteq> VNone" "thesis_of (stext sample_level_std sample_held ''thesis'' ''none'') = Inr Breakout"
      by (simp_all add: sget_def r iso_not_none stext_def vor_def thesis_of_def)
    have f: "optional_datetime sample_level_std (iso (sample_at 30)) = Some (sample_at 30)"
      "optional_datetime sample_level_std (iso (sample_at 25)) = Some (sample_at 25)"
      by (simp_all add: sample_fromiso sample_level_times_def)
    have tm: "total_seconds (sample_at 41 - sample_at 30) = Fin 11" "total_seconds (sample_at 41 - sample_at 25) = Fin 16"
      by (simp_all add: total_seconds_whole [of 16, simplified] total_seconds_whole [of 11, simplified])
    have st: "step_accepted sample_level_std default_level_settings sample_held Accepted Breakout (sample_level_obs 41 6008 6017) (sample_at 41)
        (Fin 6008) (Fin 6000) 1 (Fin 8)
       = confirmed_transition default_level_settings ?s Accepted (sample_level_obs 41 6008 6017) (sample_at 41) 1
           ''sustained_breakout_confirmed''"
      unfolding step_accepted_def g(1) f(1) option.case tm c using g(3) by (simp add: default_level_settings_def c)
    have "\<not> phase_timed_out sample_level_std default_level_settings sample_held (sample_at 41)"
      unfolding phase_timed_out_def phase_age_def g(2) f(2) option.case Let_def tm by (simp add: fmax_def default_level_settings_def)
    then have ao: "advance_open sample_level_std default_level_settings sample_held Accepted (sample_level_obs 41 6008 6017) (sample_at 41) (Fin 6008)
       = confirmed_transition default_level_settings ?s Accepted (sample_level_obs 41 6008 6017) (sample_at 41) 1
           ''sustained_breakout_confirmed''"
      unfolding advance_open_def g(4) st [symmetric]
      by (simp add: sitem_def r py_float_def py_int_def imul_def float_of_int_def Let_def) (simp add: default_level_settings_def)
    have "advance_level_decision sample_level_std default_level_settings (Some sample_held) (sample_level_obs 41 6008 6017)
       = confirmed_transition default_level_settings ?s Accepted (sample_level_obs 41 6008 6017) (sample_at 41) 1
           ''sustained_breakout_confirmed''"
      by (rule trans [OF go(4) ao]) (simp_all add: terminal_phase_def sample_issues(4))
    moreover have "ls_event_ttl_seconds default_level_settings = Fin 300" by (simp add: default_level_settings_def)
    ultimately show ?thesis
      using r by (simp add: confirmed_transition_def iso_after_def Let_def spx_decision_spot_def transition_def int_or_0_def
          sget_def vor_def py_int_def)
  qed
  obtain t :: level_transition where t: "lt_state t ''phase'' = Some (VStr (phase_value Confirmed))" "lt_state t ''thesis'' = Some (VStr ''breakout'')"
    and "level_reachable sample_level_std default_level_settings (lt_state t)"
  proof -
    have "level_reachable sample_level_std default_level_settings sample_held"
      by (rule reachable_next [OF reachable_next [OF reachable_next [OF sample_start 1] 2] 3])
    from step [OF this] show thesis using 4 that unfolding phase_value.simps by blast
  qed
  then show ?thesis using phase_of_value [of "lt_state t" Confirmed sample_level_std] t by (auto simp: stext_def sget_def vor_def)
qed


subsection \<open>Correctness\<close>

text \<open>
  C4: A confirmed breakout is always backed by latched evidence: in every state the machine can
  store whose phase is confirmed and whose thesis is a breakout, an inside crossing and an
  extension beyond the level were observed, and either a retest or a sustained hold.
\<close>

theorem confirmed_breakout_has_evidence:
  assumes "level_reachable std c s" "phase_of std s = Confirmed" "stext std s ''thesis'' [] = ''breakout''"
  shows "sget s ''breakout_inside_seen_at'' \<noteq> VNone \<and> sget s ''breakout_extension_seen_at'' \<noteq> VNone
    \<and> (sget s ''breakout_retest_seen_at'' \<noteq> VNone \<or> sget s ''breakout_sustained_seen_at'' \<noteq> VNone)"
  using reachable_evidence [OF assms(1)] evidence_breakout(4) [OF assms(3)] assms(2) by (auto split: if_splits)

lemma confirmed_breakout_has_evidence_witness:
  "\<exists>s. level_reachable sample_level_std default_level_settings s \<and> phase_of sample_level_std s = Confirmed
     \<and> sget s ''breakout_inside_seen_at'' \<noteq> VNone \<and> sget s ''breakout_extension_seen_at'' \<noteq> VNone"
  using sample_confirmed confirmed_breakout_has_evidence [of sample_level_std default_level_settings] by blast

text \<open>
  C33: The phases of an event change only along the lifecycle: from any stored state, one more
  observation keeps the phase, resets it to far, ends it, re-arms a finished event, or takes one
  step of the approach, test, pending, accepted, retest, confirmed chain.
\<close>

theorem level_lifecycle:
  "{(phase_of std s, phase_of std (lt_state t)) | s obs t.
      level_reachable std c s \<and> advance_level_decision std c (Some s) obs = Inr t} \<subseteq> {(p, q). legal_change p q}"
  using advance_ok [of std c "Some s" obs t for s obs t] reachable_evidence [of std c]
  by (fastforce simp: step_ok_def sound_def)


text \<open>The end of an overdue event.\<close>

lemma timed_out_cong: "s' ''phase_at'' = s ''phase_at'' \<Longrightarrow> phase_timed_out std c s' now = phase_timed_out std c s now"
  by (simp add: phase_timed_out_def phase_age_def sget_def)

lemma transition_phase: "transition s p q now r = Inr t \<Longrightarrow> lt_current_phase t = q"
  by (auto simp: transition_def rbind_eq_Inr_iff)

lemma overdue_open:
  assumes r: "advance_open std c s p obs now spot = Inr t" and p: "timeout_phase p" and o: "phase_timed_out std c s now"
  shows "lt_current_phase t \<in> {Invalidated, Expired}"
proof -
  have "p \<notin> {Approaching, Testing}" "p \<noteq> Confirmed" using p by (auto simp: timeout_phase_def)
  with r o have "\<exists>r. transition s p Invalidated now r = Inr t \<or> transition s p Expired now r = Inr t"
    by (auto simp: advance_open_def rbind_eq_Inr_iff Let_def split: if_splits)
  then show ?thesis using transition_phase by blast
qed

lemma overdue_active:
  assumes r: "advance_active std c s p obs now spot = Inr t" and p: "timeout_phase p" and o: "phase_timed_out std c s now"
  shows "lt_current_phase t \<in> {Invalidated, Expired}"
proof -
  have "p \<noteq> Confirmed" using p by (auto simp: timeout_phase_def)
  moreover have "\<not> fle (phase_age std s now) (ls_phase_timeout_seconds c)"
    using o fle_flt_trans flt_irrefl unfolding phase_timed_out_def by blast
  ultimately have "expiry_gate std c s p now spot = Inr (Inr s)" using p by (simp add: expiry_gate_def)
  with r have "(\<exists>r. transition s p Invalidated now r = Inr t) \<or> advance_open std c s p obs now spot = Inr t"
    by (auto simp: advance_active_def rbind_eq_Inr_iff split: if_splits)
  then show ?thesis using transition_phase overdue_open [OF _ p o] by blast
qed

lemma overdue_good:
  assumes r: "advance_good std c s p obs now spot = Inr t" and p: "timeout_phase p" and o: "phase_timed_out std c s now"
  shows "lt_current_phase t \<in> {Invalidated, Expired}"
proof -
  obtain s' where u: "(if can_upgrade_rth_trigger_coordinate std s p obs
            then upgrade_rth_trigger_coordinate std s obs now else Inr s) = Inr s'"
    using r by (auto simp: advance_good_def rbind_eq_Inr_iff)
  then have "s' ''phase_at'' = s ''phase_at''"
    using upgrade_same [of std s obs now s'] by (auto split: if_splits)
  with o have o': "phase_timed_out std c s' now" using timed_out_cong [of s' s std c now] by simp
  have "p \<noteq> Far" "\<not> terminal_phase p" using p by (auto simp: timeout_phase_def terminal_phase_def)
  with r u have "(\<exists>r. transition s' p Invalidated now r = Inr t) \<or> advance_active std c s' p obs now spot = Inr t"
    by (auto simp: advance_good_def split: option.splits)
  then show ?thesis using transition_phase overdue_active [OF _ p o'] by blast
qed

lemma overdue_bad_quality:
  assumes r: "handle_bad_quality std c s p obs now = Inr t" and p: "timeout_phase p" and o: "phase_timed_out std c s now"
  shows "lt_current_phase t = Expired"
proof -
  have "p \<noteq> Far" "\<not> terminal_phase p" using p by (auto simp: timeout_phase_def terminal_phase_def)
  moreover have "flt (ls_phase_timeout_seconds c) (phase_age std s' now)" if "s' ''phase_at'' = s ''phase_at''" for s'
    using o timed_out_cong [of s' s std c now] that by (simp add: phase_timed_out_def)
  ultimately have "\<exists>s' x. transition s' p Expired now x = Inr t"
    using r p unfolding handle_bad_quality_def Let_def by (auto split: if_splits)
  then show ?thesis using transition_phase by blast
qed

text \<open>
  C32: No event stalls in a pending phase: once the phase timeout has elapsed, the next observation
  of any quality, whatever its prices, ends the event (expired, invalidated or reset).
\<close>

theorem overdue_event_ends:
  assumes r: "advance_level_decision std c (Some s) obs = Inr t" and now: "level_utc (lo_at obs) = Inr now"
    and p: "timeout_phase (phase_of std s)" and o: "phase_timed_out std c s now"
  shows "lt_current_phase t \<in> {Far, Invalidated, Expired}"
proof -
  have o': "phase_timed_out std c (clear_quality s) now"
    using o timed_out_cong [of "clear_quality s" s std c now] clear_quality_same(3) by simp
  consider x where "t = to_far s (phase_of std s) now x None"
    | spot where "advance_good std c (clear_quality s) (phase_of std s) obs now spot = Inr t"
    | "handle_bad_quality std c s (phase_of std s) obs now = Inr t"
    using r now unfolding advance_level_decision_def Let_def by (auto split: if_splits bool.splits option.splits)
  then show ?thesis
  proof cases
    case 1 then show ?thesis using sound_to_far(2) by simp
  next
    case 2 then show ?thesis using overdue_good [OF 2 p o'] by auto
  next
    case 3 then show ?thesis using overdue_bad_quality [OF 3 p o] by simp
  qed
qed


lemma overdue_event_ends_witness:
  "\<exists>t. advance_level_decision sample_level_std default_level_settings (Some sample_broken)
       ((sample_level_obs 100 6008 6017)\<lparr>lo_quality_ok := False\<rparr>) = Inr t
     \<and> lt_current_phase t \<in> {Far, Invalidated, Expired}"
proof -
  let ?o = "(sample_level_obs 100 6008 6017)\<lparr>lo_quality_ok := False\<rparr>"
  have r: "sample_broken ''session_mode'' = Some (VStr ''rth'')" "sample_broken ''session_date'' = Some (VStr ''2026-01-05'')"
    "sample_broken ''phase_at'' = Some (iso (sample_at 1))" "sample_broken ''transition_count'' = Some (VInt 2)"
    "sample_broken ''quality_degraded_at'' = None"
    by (simp_all add: sample_states)
  have f: "optional_datetime sample_level_std (iso (sample_at 1)) = Some (sample_at 1)"
    by (simp add: sample_fromiso sample_level_times_def)
  have tm: "total_seconds (sample_at 100 - sample_at 1) = Fin 99" by (simp add: total_seconds_whole [of 99, simplified])
  have age: "phase_age sample_level_std s (sample_at 100) = Fin 99" if "s ''phase_at'' = Some (iso (sample_at 1))" for s
    unfolding phase_age_def sget_def that option.case f Let_def tm by (simp add: fmax_def)
  have "\<not> session_boundary_changed sample_level_std sample_broken BreakPending ?o"
    by (simp add: session_boundary_changed_def stext_def sget_def vor_def r Let_def terminal_phase_def sample_level_obs_def)
  moreover have "\<exists>t. handle_bad_quality sample_level_std default_level_settings sample_broken BreakPending ?o (sample_at 100) = Inr t"
    unfolding handle_bad_quality_def Let_def
    by (simp add: timeout_phase_def terminal_phase_def r age transition_def sget_def int_or_0_def vor_def py_int_def
        default_level_settings_def)
  ultimately obtain t where t: "advance_level_decision sample_level_std default_level_settings (Some sample_broken) ?o = Inr t"
    by (auto simp: advance_level_decision_def level_utc_def sample_phases Let_def sample_level_obs_def)
  have "lt_current_phase t \<in> {Far, Invalidated, Expired}"
    by (rule overdue_event_ends [OF t, of "sample_at 100"])
      (simp_all add: level_utc_def sample_level_obs_def sample_phases timeout_phase_def phase_timed_out_def age r
        default_level_settings_def)
  with t show ?thesis by blast
qed

text \<open>
  C34: Degraded data and a blocked arm never start or advance an event: from any state, an
  observation without good quality leaves the phase as it is, expires it or resets it; and while
  arming is not allowed no observation turns a far or finished event into a live one.
\<close>

theorem degraded_or_blocked_never_advances:
  "{(std, c, s, obs). \<exists>t. advance_level_decision std c (Some s) obs = Inr t \<and> \<not> lo_quality_ok obs
       \<and> lt_current_phase t \<notin> {phase_of std s, Expired, Far}} = {}
   \<and> {(std, c, s, obs). \<exists>t. advance_level_decision std c (Some s) obs = Inr t \<and> \<not> lo_arm_allowed obs
       \<and> phase_of std s \<in> {Far, Invalidated, Expired} \<and> lt_current_phase t \<notin> {phase_of std s, Far}} = {}"
proof -
  have bad: "lt_current_phase t \<in> {p, Expired}" if "handle_bad_quality std c s p obs now = Inr t" for std c s p obs now t
    using that unfolding handle_bad_quality_def Let_def
    by (auto simp: rbind_eq_Inr_iff unchanged_def dest: transition_phase split: if_splits option.splits)
  have bad_end: "lt_current_phase t = p" if "handle_bad_quality std c s p obs now = Inr t" "p \<in> {Far, Invalidated, Expired}"
    for std c s p obs now t
    using that by (auto simp: handle_bad_quality_def Let_def terminal_phase_def unchanged_def)
  have good: "lt_current_phase t = p"
    if "advance_good std c s p obs now spot = Inr t" "\<not> lo_arm_allowed obs" "p \<in> {Far, Invalidated, Expired}"
    for std c s p obs now spot t
  proof -
    have "breakout_evidence_issue std s p = None" "\<not> can_upgrade_rth_trigger_coordinate std s p obs"
      using that(3) by (auto simp: breakout_evidence_issue_def can_upgrade_rth_trigger_coordinate_def terminal_phase_def)
    then show ?thesis using that by (auto simp: advance_good_def advance_far_def terminal_phase_def unchanged_def)
  qed
  show ?thesis
    by (auto simp: advance_level_decision_def rbind_eq_Inr_iff Let_def sound_to_far(2)
        dest: bad bad_end good split: if_splits bool.splits option.splits)
qed

end
