(* ===== verification/Py_Dict.thy ===== *)
theory Py_Dict
  imports Py_Value "HOL-Library.AList"
begin

section \<open>Dictionaries that change\<close>

text \<open>
  Assignment, removal and merging of the dictionaries of \<open>Py_Value\<close>. Assigning to a key
  that is present keeps its place, a new key goes to the end, as in the interpreter. The
  locale \<open>keyed\<close> is the contract the state machines rely on: what a read returns after a
  write, and hence that an operation which writes only some keys leaves the others alone.
\<close>

definition dset :: "pydict \<Rightarrow> string \<Rightarrow> pyval \<Rightarrow> pydict" where
  "dset d k v = AList.update k v d"

definition dpop :: "pydict \<Rightarrow> string \<Rightarrow> pydict" where
  "dpop d k = AList.delete k d"

text \<open>\<^verbatim>\<open>d[k]\<close>.\<close>

definition ditem :: "pydict \<Rightarrow> string \<Rightarrow> pyval res" where
  "ditem d k = (case map_of d k of Some v \<Rightarrow> Inr v | None \<Rightarrow> Inl (KeyError k))"

text \<open>\<^verbatim>\<open>d.update(e)\<close>, and \<^verbatim>\<open>{**d, **e}\<close>.\<close>

definition dmerge :: "pydict \<Rightarrow> pydict \<Rightarrow> pydict" where
  "dmerge d e = foldl (\<lambda>a (k, v). dset a k v) d e"

text \<open>\<^verbatim>\<open>dict(v) if isinstance(v, dict) else None\<close>.\<close>

definition as_dict :: "pyval \<Rightarrow> pydict option" where
  "as_dict v = (case v of VDict d \<Rightarrow> Some d | _ \<Rightarrow> None)"

text \<open>\<^verbatim>\<open>str(d.get(k) or dflt)\<close>.\<close>

definition dtext :: "py_std \<Rightarrow> pydict \<Rightarrow> string \<Rightarrow> string \<Rightarrow> string" where
  "dtext std d k dflt = py_str std (vor (dget d k) (VStr dflt))"

text \<open>The items of \<^verbatim>\<open>for x in v\<close>.\<close>

definition iter_items :: "pyval \<Rightarrow> pyval list res" where
  "iter_items v =
     (case v of VList xs \<Rightarrow> Inr xs
      | VDict d \<Rightarrow> Inr (map (\<lambda>p. VStr (fst p)) d)
      | VStr s \<Rightarrow> Inr (map (\<lambda>c. VStr [c]) s)
      | _ \<Rightarrow> Inl (TypeError ''object is not iterable''))"

text \<open>\<^verbatim>\<open>[y for x in xs if (y := f(x)) is not None]\<close>, which stops at the first exception.\<close>

fun collect_some :: "('a \<Rightarrow> 'b option res) \<Rightarrow> 'a list \<Rightarrow> 'b list res" where
  "collect_some f [] = Inr []"
| "collect_some f (x # xs) =
     rbind (f x) (\<lambda>y. rbind (collect_some f xs) (\<lambda>ys. Inr (case y of Some z \<Rightarrow> z # ys | None \<Rightarrow> ys)))"

text \<open>\<^verbatim>\<open>v == n\<close> for an int \<open>n\<close>: a bool and a float may equal it.\<close>

definition eq_int :: "pyval \<Rightarrow> int \<Rightarrow> bool" where
  "eq_int v n =
     (case v of VInt i \<Rightarrow> i = n | VBool b \<Rightarrow> n = (if b then 1 else 0) | VFloat x \<Rightarrow> x = Fin (of_int n) | _ \<Rightarrow> False)"

text \<open>\<^verbatim>\<open>float(d[k])\<close>.\<close>

definition dfloat :: "py_std \<Rightarrow> pydict \<Rightarrow> string \<Rightarrow> pyfloat res" where
  "dfloat std d k = rbind (ditem d k) (py_float std)"

lemma collect_some_mem: "collect_some f xs = Inr ys \<Longrightarrow> y \<in> set ys \<Longrightarrow> \<exists>x \<in> set xs. f x = Inr (Some y)"
  by (induction xs arbitrary: ys) (auto simp: rbind_eq_Inr_iff split: option.splits)

lemma collect_some_append:
  "collect_some f (xs @ ys) = rbind (collect_some f xs) (\<lambda>a. rbind (collect_some f ys) (\<lambda>b. Inr (a @ b)))"
  by (induction xs) (auto simp: rbind_def split: sum.split option.split)

lemma map_of_dset [simp]: "map_of (dset d k v) = (map_of d)(k \<mapsto> v)"
  by (simp add: dset_def update_conv')

lemma map_of_dpop [simp]: "map_of (dpop d k) = (map_of d)(k := None)"
  by (simp add: dpop_def delete_conv')

lemma map_of_dmerge: "map_of (dmerge d e) = map_of d ++ map_of (rev e)"
  unfolding dmerge_def by (induction e arbitrary: d) (auto simp: map_add_def split: option.split)

lemma dget_dset [simp]: "dget (dset d k v) j = (if j = k then v else dget d j)"
  by (simp add: dget_def)

lemma dget_dpop [simp]: "dget (dpop d k) j = (if j = k then VNone else dget d j)"
  by (simp add: dget_def)

lemma dmerge_simps [simp]: "dmerge d [] = d" "dmerge d ((k, v) # e) = dmerge (dset d k v) e"
  by (simp_all add: dmerge_def)

lemma dget_dmerge_other: "j \<notin> fst ` set e \<Longrightarrow> dget (dmerge d e) j = dget d j"
  by (induction e arbitrary: d) auto

lemma ditem_dset [simp]: "ditem (dset d k v) j = (if j = k then Inr v else ditem d j)"
  by (simp add: ditem_def)

lemma as_dict_VDict [simp]: "as_dict (VDict d) = Some d"
  by (simp add: as_dict_def)

lemma as_dict_eq_Some [simp]: "as_dict v = Some d \<longleftrightarrow> v = VDict d"
  by (cases v) (simp_all add: as_dict_def)

lemma dset_not_Nil [simp]: "dset d k v \<noteq> []"
  by (cases d) (auto simp: dset_def)

subsection \<open>Reads and writes by key\<close>

locale keyed =
  fixes get :: "'s \<Rightarrow> 'k \<Rightarrow> 'v" and put :: "'s \<Rightarrow> 'k \<Rightarrow> 'v \<Rightarrow> 's"
  assumes get_put: "get (put s k v) j = (if j = k then v else get s j)"
begin

definition agree :: "'k set \<Rightarrow> 's \<Rightarrow> 's \<Rightarrow> bool" where
  "agree K s s' \<longleftrightarrow> (\<forall>k \<in> K. get s' k = get s k)"

lemma agree_refl [simp]: "agree K s s"
  by (simp add: agree_def)

lemma agree_trans: "agree K a b \<Longrightarrow> agree K b c \<Longrightarrow> agree K a c"
  by (simp add: agree_def)

lemma agree_put [simp]: "k \<notin> K \<Longrightarrow> agree K s (put s' k v) \<longleftrightarrow> agree K s s'"
  by (auto simp: agree_def get_put)

lemma agree_get: "agree K s s' \<Longrightarrow> k \<in> K \<Longrightarrow> get s' k = get s k"
  by (simp add: agree_def)

lemma agree_puts: "fst ` set kvs \<inter> K = {} \<Longrightarrow> agree K s (foldl (\<lambda>a (k, v). put a k v) s kvs)"
  by (induction kvs rule: rev_induct) auto

end

interpretation pd: keyed dget dset
  by unfold_locales simp

lemma agree_dpop [simp]: "k \<notin> K \<Longrightarrow> pd.agree K s (dpop s' k) \<longleftrightarrow> pd.agree K s s'"
  by (auto simp: pd.agree_def)

lemma agree_dmerge [simp]: "fst ` set e \<inter> K = {} \<Longrightarrow> pd.agree K d (dmerge d e)"
  unfolding dmerge_def by (rule pd.agree_puts)

end
