(* ===== verification/Signal_Machine.thy ===== *)
theory Signal_Machine
  imports Py_Dict
begin

section \<open>Signal lifecycle (\<^verbatim>\<open>application/order_map/signal_machine.py\<close>)\<close>

text \<open>
  The typed lifecycle of an order-map watch: a table of legal moves, a transition that raises
  on everything else, and the projection of an intraday call bias onto the lifecycle. The
  theorem of this theory gives the exact language of event sequences the table accepts.
\<close>

datatype signal_mode = Observing | Armed | Triggered | SigConfirmed | SigInvalidated | SigExpired

fun signal_mode_value :: "signal_mode \<Rightarrow> string" where
  "signal_mode_value Observing = ''observing''"
| "signal_mode_value Armed = ''armed''"
| "signal_mode_value Triggered = ''triggered''"
| "signal_mode_value SigConfirmed = ''confirmed''"
| "signal_mode_value SigInvalidated = ''invalidated''"
| "signal_mode_value SigExpired = ''expired''"

record signal_transition =
  st_mode :: signal_mode
  st_reason :: string

definition signal_allowed :: "((signal_mode \<times> string) \<times> signal_mode) list" where
  "signal_allowed =
     [((Observing, ''arm''), Armed), ((Armed, ''trigger''), Triggered), ((Triggered, ''confirm''), SigConfirmed),
      ((Armed, ''invalidate''), SigInvalidated), ((Triggered, ''invalidate''), SigInvalidated),
      ((Observing, ''expire''), SigExpired), ((Armed, ''expire''), SigExpired), ((Triggered, ''expire''), SigExpired)]"

definition signal_terminal :: "signal_mode \<Rightarrow> bool" where
  "signal_terminal m = (m \<in> {SigConfirmed, SigInvalidated, SigExpired})"

definition advance_signal_mode :: "signal_mode \<Rightarrow> string \<Rightarrow> signal_transition res" where
  "advance_signal_mode mode event =
     (if signal_terminal mode then Inl (ValueError (''terminal signal mode '' @ signal_mode_value mode))
      else case map_of signal_allowed (mode, event) of
        None \<Rightarrow> Inl (ValueError (''illegal signal transition '' @ signal_mode_value mode))
      | Some m \<Rightarrow> Inr \<lparr>st_mode = m, st_reason = event\<rparr>)"

text \<open>The body of the \<^verbatim>\<open>try\<close> block; a \<^verbatim>\<open>ValueError\<close> there is the fallback of the handler.\<close>

definition bias_path :: "pydict \<Rightarrow> string \<Rightarrow> signal_transition res" where
  "bias_path bias status =
     (if status = ''watch'' then
        rbind (advance_signal_mode Observing ''arm'') (\<lambda>t.
          if py_true (dget bias ''armed_at'') then
            rbind (advance_signal_mode (st_mode t) ''trigger'') (\<lambda>t.
              Inr \<lparr>st_mode = st_mode t, st_reason = ''watch_armed''\<rparr>)
          else Inr \<lparr>st_mode = st_mode t, st_reason = ''watch''\<rparr>)
      else if status = ''confirmed'' then
        rbind (advance_signal_mode Observing ''arm'') (\<lambda>t.
        rbind (advance_signal_mode (st_mode t) ''trigger'') (\<lambda>t.
        rbind (advance_signal_mode (st_mode t) ''confirm'') (\<lambda>t.
          Inr \<lparr>st_mode = st_mode t, st_reason = ''confirmed''\<rparr>)))
      else Inr \<lparr>st_mode = Observing, st_reason = ''unknown:'' @ status\<rparr>)"

definition signal_lifecycle_for_call_bias :: "py_std \<Rightarrow> pydict option \<Rightarrow> signal_transition" where
  "signal_lifecycle_for_call_bias std bias =
     (case bias of
        None \<Rightarrow> \<lparr>st_mode = Observing, st_reason = ''neutral''\<rparr>
      | Some d \<Rightarrow>
          if d = [] then \<lparr>st_mode = Observing, st_reason = ''neutral''\<rparr>
          else let status = dtext std d ''status'' ''neutral'' in
            if status \<in> {[], ''neutral''} then \<lparr>st_mode = Observing, st_reason = ''neutral''\<rparr>
            else (case bias_path d status of
                Inl _ \<Rightarrow> \<lparr>st_mode = Observing, st_reason = ''illegal_fallback''\<rparr>
              | Inr t \<Rightarrow> t))"

definition annotate_call_bias_with_signal_mode :: "py_std \<Rightarrow> pydict option \<Rightarrow> pydict" where
  "annotate_call_bias_with_signal_mode std bias =
     (let t = signal_lifecycle_for_call_bias std bias in
      dmerge (case bias of Some d \<Rightarrow> d | None \<Rightarrow> [])
        [(''signal_mode'', VStr (signal_mode_value (st_mode t))), (''signal_reason'', VStr (st_reason t))])"

subsection \<open>The language of the table\<close>

fun signal_run :: "signal_mode \<Rightarrow> string list \<Rightarrow> signal_mode res" where
  "signal_run m [] = Inr m"
| "signal_run m (e # es) = rbind (advance_signal_mode m e) (\<lambda>t. signal_run (st_mode t) es)"

lemma signal_run_terminal: "signal_terminal m \<Longrightarrow> signal_run m es = Inr m' \<longleftrightarrow> es = [] \<and> m' = m"
  by (cases es) (auto simp: advance_signal_mode_def)

lemma signal_run_Triggered:
  "signal_run Triggered es = Inr m \<longleftrightarrow>
     (es, m) \<in> {([], Triggered), ([''confirm''], SigConfirmed), ([''invalidate''], SigInvalidated), ([''expire''], SigExpired)}"
  by (cases es)
    (auto simp: advance_signal_mode_def signal_allowed_def rbind_eq_Inr_iff signal_run_terminal signal_terminal_def
      split: if_splits)

lemma signal_run_Armed:
  "signal_run Armed es = Inr m \<longleftrightarrow>
     (es, m) \<in> {([], Armed), ([''invalidate''], SigInvalidated), ([''expire''], SigExpired)}
     \<or> (\<exists>fs. es = ''trigger'' # fs \<and> signal_run Triggered fs = Inr m)"
  by (cases es)
    (auto simp: advance_signal_mode_def signal_allowed_def rbind_eq_Inr_iff signal_run_terminal signal_terminal_def
      split: if_splits)

lemma signal_run_Observing:
  "signal_run Observing es = Inr m \<longleftrightarrow>
     (es, m) \<in> {([], Observing), ([''expire''], SigExpired)} \<or> (\<exists>fs. es = ''arm'' # fs \<and> signal_run Armed fs = Inr m)"
  by (cases es)
    (auto simp: advance_signal_mode_def signal_allowed_def rbind_eq_Inr_iff signal_run_terminal signal_terminal_def
      split: if_splits)

lemma cons_language:
  "{(es, m). (es, m) \<in> S \<or> (\<exists>fs. es = a # fs \<and> P fs m)} = S \<union> (\<lambda>(fs, m). (a # fs, m)) ` {(es, m). P es m}"
  by auto

lemma language_Triggered:
  "{(es, m). signal_run Triggered es = Inr m} =
     {([], Triggered), ([''confirm''], SigConfirmed), ([''invalidate''], SigInvalidated), ([''expire''], SigExpired)}"
  unfolding signal_run_Triggered by blast

lemma language_Armed:
  "{(es, m). signal_run Armed es = Inr m} =
     {([], Armed), ([''invalidate''], SigInvalidated), ([''expire''], SigExpired)}
     \<union> (\<lambda>(fs, m). (''trigger'' # fs, m)) ` {(es, m). signal_run Triggered es = Inr m}"
  unfolding signal_run_Armed by (rule cons_language)

lemma language_Observing:
  "{(es, m). signal_run Observing es = Inr m} =
     {([], Observing), ([''expire''], SigExpired)}
     \<union> (\<lambda>(fs, m). (''arm'' # fs, m)) ` {(es, m). signal_run Armed es = Inr m}"
  unfolding signal_run_Observing by (rule cons_language)

lemma bias_path_eq:
  "bias_path d status = Inr
     (if status = ''watch'' then
        (if py_true (dget d ''armed_at'') then \<lparr>st_mode = Triggered, st_reason = ''watch_armed''\<rparr>
         else \<lparr>st_mode = Armed, st_reason = ''watch''\<rparr>)
      else if status = ''confirmed'' then \<lparr>st_mode = SigConfirmed, st_reason = ''confirmed''\<rparr>
      else \<lparr>st_mode = Observing, st_reason = ''unknown:'' @ status\<rparr>)"
  by (simp add: bias_path_def advance_signal_mode_def signal_terminal_def signal_allowed_def)

text \<open>
  C27: From the observing mode exactly nine event sequences are accepted, each ending in the mode the
  table prescribes; every other sequence raises, so a signal lives at most three events and a
  terminal mode is final. The projection of a call bias never needs its error fallback, and it
  is confirmed exactly when the bias says so.
\<close>

theorem signal_event_language:
  "{(es, m). signal_run Observing es = Inr m} =
     {([''arm'', ''trigger''], Triggered), ([''arm'', ''trigger'', ''confirm''], SigConfirmed),
      ([''arm'', ''trigger'', ''invalidate''], SigInvalidated), ([''arm'', ''trigger'', ''expire''], SigExpired),
      ([''arm''], Armed), ([''arm'', ''invalidate''], SigInvalidated), ([''arm'', ''expire''], SigExpired),
      ([], Observing), ([''expire''], SigExpired)}
   \<and> {bias. st_reason (signal_lifecycle_for_call_bias std bias) = ''illegal_fallback''} = {}
   \<and> (st_mode (signal_lifecycle_for_call_bias std (Some bias)) = SigConfirmed
      \<longleftrightarrow> dtext std bias ''status'' ''neutral'' = ''confirmed'')"
proof -
  have 1: "{(es, m). signal_run Observing es = Inr m} =
     {([''arm'', ''trigger''], Triggered), ([''arm'', ''trigger'', ''confirm''], SigConfirmed),
      ([''arm'', ''trigger'', ''invalidate''], SigInvalidated), ([''arm'', ''trigger'', ''expire''], SigExpired),
      ([''arm''], Armed), ([''arm'', ''invalidate''], SigInvalidated), ([''arm'', ''expire''], SigExpired),
      ([], Observing), ([''expire''], SigExpired)}"
    unfolding language_Observing language_Armed language_Triggered by simp
  have 2: "st_reason (signal_lifecycle_for_call_bias std b) \<noteq> ''illegal_fallback''" for b
    by (simp add: signal_lifecycle_for_call_bias_def bias_path_eq Let_def split: option.split)
  have 3: "st_mode (signal_lifecycle_for_call_bias std (Some bias)) = SigConfirmed
      \<longleftrightarrow> dtext std bias ''status'' ''neutral'' = ''confirmed''"
  proof (cases "bias = []")
    case True
    then show ?thesis by (simp add: signal_lifecycle_for_call_bias_def dtext_def)
  next
    case False
    then show ?thesis
      by (cases "dtext std bias ''status'' ''neutral'' = ''confirmed''")
        (simp_all add: signal_lifecycle_for_call_bias_def bias_path_eq Let_def)
  qed
  show ?thesis using 1 2 3 by simp
qed

end
