(* ===== verification/Shock_Machine.thy ===== *)
theory Shock_Machine
  imports Py_Dict
begin

section \<open>Intraday shock monitor (\<^verbatim>\<open>application/shock/machine.py\<close>, \<^verbatim>\<open>models.py\<close>, \<^verbatim>\<open>delivery.py\<close>)\<close>

text \<open>
  The monitor that opens an event on a fast SPX move confirmed by ES, follows its extreme,
  counts the samples of a recovery and re-arms after it. State, events and re-arm records are
  the dictionaries the code stores as JSON; samples are parsed from them at every step. The
  time of a sample is an aware datetime, here its UTC instant. Of an alert everything but the
  two display texts (\<^verbatim>\<open>title\<close>, \<^verbatim>\<open>detail\<close>) is modelled.
\<close>

record price_sample =
  ps_at :: int
  ps_spx :: pyfloat
  ps_es :: pyfloat
  ps_spx_source_at :: "int option"
  ps_es_source_at :: "int option"
  ps_provider :: string

record shock_settings =
  ss_provider_switch_reset_seconds :: int
  ss_one_minute_seconds :: int
  ss_three_minute_seconds :: int
  ss_one_minute_threshold_bps :: pyfloat
  ss_three_minute_threshold_bps :: pyfloat
  ss_es_confirm_ratio :: pyfloat
  ss_reclaim_window_seconds :: int
  ss_event_expiry_seconds :: int
  ss_reclaim_fraction :: pyfloat
  ss_es_reclaim_fraction :: pyfloat
  ss_reclaim_hold_fraction :: pyfloat
  ss_es_reclaim_hold_fraction :: pyfloat
  ss_reclaim_confirm_samples :: int
  ss_completion_hold_seconds :: int
  ss_rearm_recovery_fraction :: pyfloat
  ss_rearm_neutral_seconds :: int
  ss_retry_seconds :: int

definition iso_text :: "int \<Rightarrow> pyval" where
  "iso_text t = VStr (isoformat t)"

definition opt_iso :: "int option \<Rightarrow> pyval" where
  "opt_iso t = (case t of Some x \<Rightarrow> iso_text x | None \<Rightarrow> VNone)"

definition sample_to_dict :: "price_sample \<Rightarrow> pydict" where
  "sample_to_dict s =
     [(''at'', iso_text (ps_at s)), (''spx'', VFloat (ps_spx s)), (''es'', VFloat (ps_es s)),
      (''spx_source_at'', opt_iso (ps_spx_source_at s)), (''es_source_at'', opt_iso (ps_es_source_at s)),
      (''provider'', VStr (ps_provider s))]"

definition parse_datetime :: "py_std \<Rightarrow> pyval \<Rightarrow> int option" where
  "parse_datetime std v =
     (case v of VStr s \<Rightarrow> if s = [] then None else map_option as_utc (std_fromiso std (replace_Z s)) | _ \<Rightarrow> None)"

definition sample_from_dict :: "py_std \<Rightarrow> pyval \<Rightarrow> price_sample option res" where
  "sample_from_dict std v =
     (case v of
        VDict d \<Rightarrow>
          (case parse_datetime std (dget d ''at'') of
             None \<Rightarrow> Inr None
           | Some t \<Rightarrow>
               if \<not> is_number (dget d ''spx'') \<or> \<not> is_number (dget d ''es'') then Inr None
               else rbind (py_float std (dget d ''spx'')) (\<lambda>spx.
                 if fle spx (Fin 0) then Inr None
                 else rbind (py_float std (dget d ''es'')) (\<lambda>es.
                   if fle es (Fin 0) then Inr None
                   else Inr (Some \<lparr>ps_at = t, ps_spx = spx, ps_es = es,
                     ps_spx_source_at = parse_datetime std (dget d ''spx_source_at''),
                     ps_es_source_at = parse_datetime std (dget d ''es_source_at''),
                     ps_provider = dtext std d ''provider'' ''unknown''\<rparr>))))
      | _ \<Rightarrow> Inr None)"

definition empty_monitor_state :: "string \<Rightarrow> pydict" where
  "empty_monitor_state session_date =
     [(''schema_version'', VInt 1), (''session_date'', VStr session_date), (''samples'', VList []),
      (''active_event'', VNone), (''rearm'', VNone), (''last_event'', VNone), (''updated_at'', VNone)]"

text \<open>\<^verbatim>\<open>load_monitor_state\<close> on the parsed file; \<open>None\<close> is a file that cannot be read or decoded.\<close>

definition load_monitor_state :: "pyval option \<Rightarrow> string \<Rightarrow> pydict" where
  "load_monitor_state payload session_date =
     (case payload of
        Some (VDict d) \<Rightarrow>
          if dget d ''session_date'' \<noteq> VStr session_date then empty_monitor_state session_date
          else if \<not> eq_int (dget d ''schema_version'') 1 then empty_monitor_state session_date
          else d
      | _ \<Rightarrow> empty_monitor_state session_date)"

subsection \<open>Shock detection\<close>

definition event_datetime :: "py_std \<Rightarrow> pydict \<Rightarrow> string \<Rightarrow> int option" where
  "event_datetime std event field = parse_datetime std (dget event field)"

definition bps :: "pyfloat \<Rightarrow> pyfloat \<Rightarrow> pyfloat res" where
  "bps current anchor = rbind (fdiv current anchor) (\<lambda>q. Inr (fmul (fsub q (Fin 1)) (Fin 10000)))"

definition shock_event_id :: "string \<Rightarrow> string \<Rightarrow> int \<Rightarrow> string \<Rightarrow> string" where
  "shock_event_id session_date direction anchor_at provider =
     (let s = time_of anchor_at div us_per_second;
          stamp = pad_dec 2 (s div 3600) @ pad_dec 2 (s div 60 mod 60) @ pad_dec 2 (s mod 60);
          base = ''spx_shock:'' @ filter (\<lambda>c. c \<noteq> CHR ''-'') session_date @ '':'' @ direction @ '':'' @ stamp
      in if provider = ''unknown'' then base else base @ '':'' @ provider)"

record shock_candidate =
  sc_direction :: string
  sc_anchor :: price_sample
  sc_spx_move_bps :: pyfloat
  sc_es_move_bps :: pyfloat
  sc_threshold_bps :: pyfloat
  sc_horizon_seconds :: int
  sc_score :: pyfloat

definition eligible_anchor :: "price_sample \<Rightarrow> int \<Rightarrow> price_sample \<Rightarrow> bool" where
  "eligible_anchor current horizon_seconds sample =
     (ps_provider sample = ps_provider current
      \<and> flt (Fin 0) (total_seconds (ps_at current - ps_at sample))
      \<and> fle (total_seconds (ps_at current - ps_at sample)) (Fin (of_int horizon_seconds)))"

text \<open>The body of the loop over the two directions.\<close>

definition direction_ok :: "string \<Rightarrow> pyfloat \<Rightarrow> pyfloat \<Rightarrow> bool" where
  "direction_ok direction threshold_bps spx_move =
     (if direction = ''down'' then fle spx_move (fneg threshold_bps) else fle threshold_bps spx_move)"

definition es_ok :: "string \<Rightarrow> pyfloat \<Rightarrow> pyfloat \<Rightarrow> pyfloat \<Rightarrow> bool" where
  "es_ok direction ratio spx_move es_move =
     ((if direction = ''down'' then flt es_move (Fin 0) else flt (Fin 0) es_move)
      \<and> fle (fmul (fabs spx_move) ratio) (fabs es_move))"

definition direction_candidate ::
  "price_sample \<Rightarrow> int \<Rightarrow> pyfloat \<Rightarrow> pyfloat \<Rightarrow> string \<times> price_sample \<Rightarrow> shock_candidate option res" where
  "direction_candidate current horizon_seconds threshold_bps ratio da =
     (case da of (direction, anchor) \<Rightarrow>
        rbind (bps (ps_spx current) (ps_spx anchor)) (\<lambda>spx_move.
        rbind (bps (ps_es current) (ps_es anchor)) (\<lambda>es_move.
          if direction_ok direction threshold_bps spx_move \<and> es_ok direction ratio spx_move es_move then
            rbind (fdiv (fabs spx_move) threshold_bps) (\<lambda>score.
              Inr (Some \<lparr>sc_direction = direction, sc_anchor = anchor, sc_spx_move_bps = spx_move,
                         sc_es_move_bps = es_move, sc_threshold_bps = threshold_bps,
                         sc_horizon_seconds = horizon_seconds, sc_score = score\<rparr>))
          else Inr None)))"

text \<open>\<^verbatim>\<open>max(candidates, key=score)\<close> of a list that may be empty.\<close>

definition best_candidate :: "shock_candidate list \<Rightarrow> shock_candidate option" where
  "best_candidate cs =
     (case cs of [] \<Rightarrow> None | c # cs \<Rightarrow> Some (py_max_by (\<lambda>b x. flt (sc_score b) (sc_score x)) c cs))"

definition candidate_for_horizon ::
  "price_sample list \<Rightarrow> price_sample \<Rightarrow> int \<Rightarrow> pyfloat \<Rightarrow> pyfloat \<Rightarrow> shock_candidate option res" where
  "candidate_for_horizon history current horizon_seconds threshold_bps ratio =
     (case filter (eligible_anchor current horizon_seconds) history of
        [] \<Rightarrow> Inr None
      | s # ss \<Rightarrow>
          let down_anchor = py_max_by (\<lambda>b x. flt (ps_spx b) (ps_spx x)) s ss;
              up_anchor = py_max_by (\<lambda>b x. flt (ps_spx x) (ps_spx b)) s ss
          in rbind (collect_some (direction_candidate current horizon_seconds threshold_bps ratio)
                      [(''down'', down_anchor), (''up'', up_anchor)])
               (\<lambda>cs. Inr (best_candidate cs)))"

definition find_shock_candidate ::
  "shock_settings \<Rightarrow> price_sample list \<Rightarrow> price_sample \<Rightarrow> shock_candidate option res" where
  "find_shock_candidate c history current =
     rbind (collect_some (\<lambda>(h, th). candidate_for_horizon history current h th (ss_es_confirm_ratio c))
              [(ss_one_minute_seconds c, ss_one_minute_threshold_bps c),
               (ss_three_minute_seconds c, ss_three_minute_threshold_bps c)])
       (\<lambda>cs. Inr (best_candidate cs))"

definition recovery_fraction :: "string \<Rightarrow> pyfloat \<Rightarrow> pyfloat \<Rightarrow> pyfloat \<Rightarrow> pyfloat res" where
  "recovery_fraction direction current anchor extreme =
     (let shock = (if direction = ''down'' then fsub anchor extreme else fsub extreme anchor) in
      if fle shock (Fin 0) then Inr (Fin 0)
      else rbind (fdiv (if direction = ''down'' then fsub current extreme else fsub extreme current) shock)
             (\<lambda>r. Inr (fmax r (Fin 0))))"

definition pending_due :: "py_std \<Rightarrow> pydict \<Rightarrow> string \<Rightarrow> int \<Rightarrow> int \<Rightarrow> bool" where
  "pending_due std event phase now retry_seconds =
     (if dget event (phase @ ''_delivered'') = VBool True then False
      else (case event_datetime std event (phase @ ''_last_attempt_at'') of
              None \<Rightarrow> True
            | Some t \<Rightarrow> fle (Fin (of_int retry_seconds)) (total_seconds (now - t))))"

text \<open>The container is updated in place: the result is the verdict and the container afterwards.\<close>

definition provider_switch_reset_due :: "py_std \<Rightarrow> pydict \<Rightarrow> price_sample \<Rightarrow> int \<Rightarrow> bool \<times> pydict" where
  "provider_switch_reset_due std container sample reset_seconds =
     (let expected = dtext std container ''provider'' ''unknown'' in
      if expected = ''unknown'' then
        (False, dpop (dset container ''provider'' (VStr (ps_provider sample))) ''provider_mismatch_since'')
      else if expected = ps_provider sample then (False, dpop container ''provider_mismatch_since'')
      else (case event_datetime std container ''provider_mismatch_since'' of
              None \<Rightarrow> (False, dset container ''provider_mismatch_since'' (iso_text (ps_at sample)))
            | Some since \<Rightarrow>
                (fle (Fin (of_int reset_seconds)) (total_seconds (ps_at sample - since)), container)))"

subsection \<open>The stages of one step\<close>

text \<open>The local variables of \<^verbatim>\<open>advance_monitor_state\<close>.\<close>

record shock_work =
  sw_state :: pydict
  sw_event :: "pydict option"
  sw_rearm :: "pydict option"
  sw_history :: "price_sample list"

definition stage_provider :: "py_std \<Rightarrow> shock_settings \<Rightarrow> price_sample \<Rightarrow> shock_work \<Rightarrow> shock_work" where
  "stage_provider std c sample w =
     (let same = filter (\<lambda>p. ps_provider p = ps_provider sample) (sw_history w) in
      case sw_event w of
        Some event \<Rightarrow>
          (case provider_switch_reset_due std event sample (ss_provider_switch_reset_seconds c) of
             (True, e) \<Rightarrow>
               let e = dmerge e [(''status'', VStr ''provider_switched''), (''provider_switched_at'', iso_text (ps_at sample))]
               in \<lparr>sw_state = dset (sw_state w) ''last_event'' (VDict e), sw_event = None, sw_rearm = None,
                   sw_history = same\<rparr>
           | (False, e) \<Rightarrow> w\<lparr>sw_event := Some e\<rparr>)
      | None \<Rightarrow>
          (case sw_rearm w of
             None \<Rightarrow> w
           | Some rearm \<Rightarrow>
               (case provider_switch_reset_due std rearm sample (ss_provider_switch_reset_seconds c) of
                  (True, _) \<Rightarrow> w\<lparr>sw_rearm := None, sw_history := same\<rparr>
                | (False, r) \<Rightarrow> w\<lparr>sw_rearm := Some r\<rparr>)))"

definition stage_completed :: "py_std \<Rightarrow> shock_settings \<Rightarrow> price_sample \<Rightarrow> shock_work \<Rightarrow> shock_work" where
  "stage_completed std c sample w =
     (case sw_event w of
        None \<Rightarrow> w
      | Some event \<Rightarrow>
          (case event_datetime std event ''reclaim_delivered_at'' of
             None \<Rightarrow> w
           | Some delivered_at \<Rightarrow>
               if fle (Fin (of_int (ss_completion_hold_seconds c))) (total_seconds (ps_at sample - delivered_at)) then
                 w\<lparr>sw_state := dset (sw_state w) ''last_event''
                     (VDict (dmerge event [(''status'', VStr ''completed''), (''completed_at'', iso_text (ps_at sample))])),
                   sw_history := filter (\<lambda>p. ps_at p \<ge> delivered_at) (sw_history w),
                   sw_event := None\<rparr>
               else w))"

definition event_expiry :: "py_std \<Rightarrow> shock_settings \<Rightarrow> pydict \<Rightarrow> int option" where
  "event_expiry std c event =
     (let anchor_at = event_datetime std event ''anchor_at'';
          extreme_times = List.map_filter (event_datetime std event) [''extreme_at'', ''extreme_es_at''];
          latest_extreme_at = (if extreme_times = [] then anchor_at else Some (Max (set extreme_times)))
      in case (anchor_at, latest_extreme_at) of
           (Some a, Some l) \<Rightarrow>
             Some (max (a + ss_event_expiry_seconds c * us_per_second) (l + ss_reclaim_window_seconds c * us_per_second))
         | _ \<Rightarrow> None)"

definition stage_expired :: "py_std \<Rightarrow> shock_settings \<Rightarrow> price_sample \<Rightarrow> shock_work \<Rightarrow> shock_work" where
  "stage_expired std c sample w =
     (case sw_event w of
        None \<Rightarrow> w
      | Some event \<Rightarrow>
          if (case event_expiry std c event of None \<Rightarrow> True | Some e \<Rightarrow> ps_at sample > e) then
            w\<lparr>sw_state := dset (sw_state w) ''last_event''
                (VDict (dmerge event [(''status'', VStr ''expired''), (''expired_at'', iso_text (ps_at sample))])),
              sw_rearm := Some [(''direction'', dget event ''direction''), (''anchor_spx'', dget event ''anchor_spx''),
                (''extreme_spx'', dget event ''extreme_spx''), (''provider'', dget event ''provider''),
                (''neutral_since'', VNone)],
              sw_event := None\<rparr>
          else w)"

definition stage_rearm :: "py_std \<Rightarrow> shock_settings \<Rightarrow> price_sample \<Rightarrow> shock_work \<Rightarrow> shock_work res" where
  "stage_rearm std c sample w =
     (case (sw_event w, sw_rearm w) of
        (None, Some rearm) \<Rightarrow>
          if dtext std rearm ''provider'' ''unknown'' \<in> {''unknown'', ps_provider sample} then
            rbind (py_float std (vor (dget rearm ''anchor_spx'') (VFloat (ps_spx sample)))) (\<lambda>anchor_spx.
            rbind (py_float std (vor (dget rearm ''extreme_spx'') (VFloat (ps_spx sample)))) (\<lambda>extreme_spx.
            rbind (recovery_fraction (py_str std (dget rearm ''direction'')) (ps_spx sample) anchor_spx extreme_spx) (\<lambda>recovery.
              Inr (if fle (ss_rearm_recovery_fraction c) recovery then
                     (case event_datetime std rearm ''neutral_since'' of
                        None \<Rightarrow> w\<lparr>sw_rearm := Some (dset rearm ''neutral_since'' (iso_text (ps_at sample)))\<rparr>
                      | Some since \<Rightarrow>
                          if fle (Fin (of_int (ss_rearm_neutral_seconds c))) (total_seconds (ps_at sample - since)) then
                            w\<lparr>sw_history := filter (\<lambda>p. ps_at p \<ge> since) (sw_history w), sw_rearm := None\<rparr>
                          else w)
                   else w\<lparr>sw_rearm := Some (dset rearm ''neutral_since'' VNone)\<rparr>))))
          else Inr w
      | _ \<Rightarrow> Inr w)"

definition source_or_at :: "int option \<Rightarrow> price_sample \<Rightarrow> int" where
  "source_or_at t s = (case t of Some x \<Rightarrow> x | None \<Rightarrow> ps_at s)"

definition new_shock_event :: "shock_settings \<Rightarrow> string \<Rightarrow> price_sample \<Rightarrow> shock_candidate \<Rightarrow> pydict" where
  "new_shock_event c session_date sample cand =
     (let anchor = sc_anchor cand in
      [(''event_id'', VStr (shock_event_id session_date (sc_direction cand) (ps_at anchor) (ps_provider sample))),
       (''direction'', VStr (sc_direction cand)), (''status'', VStr ''shock_confirmed''),
       (''anchor_at'', iso_text (ps_at anchor)), (''anchor_spx'', VFloat (ps_spx anchor)),
       (''anchor_es'', VFloat (ps_es anchor)), (''extreme_at'', iso_text (ps_at sample)),
       (''extreme_es_at'', iso_text (ps_at sample)), (''extreme_spx'', VFloat (ps_spx sample)),
       (''extreme_es'', VFloat (ps_es sample)), (''shock_spx_bps'', VFloat (sc_spx_move_bps cand)),
       (''shock_es_bps'', VFloat (sc_es_move_bps cand)), (''shock_threshold_bps'', VFloat (sc_threshold_bps cand)),
       (''shock_duration_seconds'', VFloat (total_seconds (ps_at sample - ps_at anchor))),
       (''provider'', VStr (ps_provider sample)), (''shock_delivered'', VBool False),
       (''shock_last_attempt_at'', VNone), (''reclaim_streak'', VInt 0), (''reclaim_confirmed_at'', VNone),
       (''reclaim_delivered'', VBool False), (''reclaim_last_attempt_at'', VNone),
       (''reclaim_threshold'', VFloat (ss_reclaim_fraction c)),
       (''reclaim_counted_spx_source_at'', iso_text (source_or_at (ps_spx_source_at sample) sample)),
       (''reclaim_counted_es_source_at'', iso_text (source_or_at (ps_es_source_at sample) sample)),
       (''spx_recovery_fraction'', VFloat (Fin 0)), (''es_recovery_fraction'', VFloat (Fin 0))])"

definition stage_candidate :: "py_std \<Rightarrow> shock_settings \<Rightarrow> price_sample \<Rightarrow> shock_work \<Rightarrow> shock_work res" where
  "stage_candidate std c sample w =
     (if sw_event w = None \<and> sw_rearm w = None then
        rbind (find_shock_candidate c (sw_history w) sample) (\<lambda>cand.
          case cand of
            None \<Rightarrow> Inr w
          | Some cand \<Rightarrow>
              rbind (ditem (sw_state w) ''session_date'') (\<lambda>d.
                Inr (w\<lparr>sw_event := Some (new_shock_event c (py_str std d) sample cand)\<rparr>)))
      else Inr w)"

subsection \<open>Following an open event\<close>

definition extend_extreme ::
  "bool \<Rightarrow> string \<Rightarrow> string \<Rightarrow> int \<Rightarrow> pyfloat \<Rightarrow> pydict \<Rightarrow> pydict" where
  "extend_extreme extension at_key price_key t price event =
     (if extension \<and> dget event ''reclaim_confirmed_at'' = VNone then
        dmerge event [(at_key, iso_text t), (price_key, VFloat price), (''reclaim_streak'', VInt 0)]
      else event)"

definition extend_extremes :: "py_std \<Rightarrow> price_sample \<Rightarrow> pydict \<Rightarrow> pydict res" where
  "extend_extremes std sample event =
     (let down = (py_str std (dget event ''direction'') = ''down'') in
      rbind (dfloat std event ''extreme_spx'') (\<lambda>extreme_spx.
      rbind (dfloat std event ''extreme_es'') (\<lambda>extreme_es.
        let spx_extension = (if down then flt (ps_spx sample) extreme_spx else flt extreme_spx (ps_spx sample));
            es_extension = (if down then flt (ps_es sample) extreme_es else flt extreme_es (ps_es sample));
            event = extend_extreme spx_extension ''extreme_at'' ''extreme_spx'' (ps_at sample) (ps_spx sample) event
        in Inr (extend_extreme es_extension ''extreme_es_at'' ''extreme_es'' (ps_at sample) (ps_es sample) event))))"

definition fresh_pair :: "py_std \<Rightarrow> pydict \<Rightarrow> int \<Rightarrow> int \<Rightarrow> bool" where
  "fresh_pair std event sample_spx_at sample_es_at =
     (case (event_datetime std event ''reclaim_counted_spx_source_at'',
            event_datetime std event ''reclaim_counted_es_source_at'') of
        (Some spx_at, Some es_at) \<Rightarrow> sample_spx_at > spx_at \<and> sample_es_at > es_at
      | _ \<Rightarrow> True)"

definition next_reclaim_streak :: "shock_settings \<Rightarrow> bool \<Rightarrow> pyfloat \<Rightarrow> pyfloat \<Rightarrow> int \<Rightarrow> int" where
  "next_reclaim_streak c in_window spx_recovery es_recovery streak =
     (let first_cross = (in_window \<and> fle (ss_reclaim_fraction c) spx_recovery \<and> fle (ss_es_reclaim_fraction c) es_recovery);
          hold_cross = (in_window \<and> fle (ss_reclaim_hold_fraction c) spx_recovery \<and> fle (ss_es_reclaim_hold_fraction c) es_recovery)
      in if streak = 0 then (if first_cross then 1 else 0) else (if hold_cross then streak + 1 else 0))"

definition count_reclaim ::
  "py_std \<Rightarrow> shock_settings \<Rightarrow> price_sample \<Rightarrow> bool \<Rightarrow> pyfloat \<Rightarrow> pyfloat \<Rightarrow> pydict \<Rightarrow> pydict res" where
  "count_reclaim std c sample in_window spx_recovery es_recovery event =
     (if dget event ''reclaim_confirmed_at'' \<noteq> VNone then Inr event
      else rbind (int_or_0 (dget event ''reclaim_streak'')) (\<lambda>streak.
        let spx_at = source_or_at (ps_spx_source_at sample) sample;
            es_at = source_or_at (ps_es_source_at sample) sample
        in if \<not> fresh_pair std event spx_at es_at then Inr event
           else
             let streak = next_reclaim_streak c in_window spx_recovery es_recovery streak;
                 event = dmerge event [(''reclaim_streak'', VInt streak),
                   (''reclaim_counted_spx_source_at'', iso_text spx_at), (''reclaim_counted_es_source_at'', iso_text es_at)]
             in Inr (if streak \<ge> ss_reclaim_confirm_samples c then
                       dmerge event [(''status'', VStr ''reclaim_confirmed''), (''reclaim_confirmed_at'', iso_text (ps_at sample))]
                     else event)))"

definition follow_event :: "py_std \<Rightarrow> shock_settings \<Rightarrow> price_sample \<Rightarrow> pydict \<Rightarrow> pydict res" where
  "follow_event std c sample event =
     rbind (extend_extremes std sample event) (\<lambda>event.
     rbind (dfloat std event ''anchor_spx'') (\<lambda>anchor_spx.
     rbind (dfloat std event ''anchor_es'') (\<lambda>anchor_es.
     rbind (dfloat std event ''extreme_spx'') (\<lambda>extreme_spx.
     rbind (dfloat std event ''extreme_es'') (\<lambda>extreme_es.
       let direction = py_str std (dget event ''direction'');
           extreme_spx_at = (case event_datetime std event ''extreme_at'' of Some t \<Rightarrow> t | None \<Rightarrow> ps_at sample);
           extreme_es_at = (case event_datetime std event ''extreme_es_at'' of Some t \<Rightarrow> t | None \<Rightarrow> extreme_spx_at);
           reclaim_anchor_at = max extreme_spx_at extreme_es_at
       in rbind (bps extreme_spx anchor_spx) (\<lambda>spx_bps.
          let event = dset event ''shock_spx_bps'' (VFloat spx_bps) in
          rbind (bps extreme_es anchor_es) (\<lambda>es_bps.
          let event = dset event ''shock_es_bps'' (VFloat es_bps);
              anchor_at = (case event_datetime std event ''anchor_at'' of Some t \<Rightarrow> t | None \<Rightarrow> extreme_spx_at);
              event = dset event ''shock_duration_seconds'' (VFloat (total_seconds (extreme_spx_at - anchor_at)))
          in rbind (recovery_fraction direction (ps_spx sample) anchor_spx extreme_spx) (\<lambda>spx_recovery.
             rbind (recovery_fraction direction (ps_es sample) anchor_es extreme_es) (\<lambda>es_recovery.
               let event = dmerge event [(''spx_recovery_fraction'', VFloat spx_recovery),
                                         (''es_recovery_fraction'', VFloat es_recovery)];
                   in_window = fle (total_seconds (ps_at sample - reclaim_anchor_at)) (Fin (of_int (ss_reclaim_window_seconds c)))
               in count_reclaim std c sample in_window spx_recovery es_recovery event)))))))))"

definition stage_follow :: "py_std \<Rightarrow> shock_settings \<Rightarrow> price_sample \<Rightarrow> shock_work \<Rightarrow> shock_work res" where
  "stage_follow std c sample w =
     (case sw_event w of
        None \<Rightarrow> Inr w
      | Some event \<Rightarrow>
          if dtext std event ''provider'' ''unknown'' \<in> {''unknown'', ps_provider sample} then
            rbind (follow_event std c sample event) (\<lambda>e. Inr (w\<lparr>sw_event := Some e\<rparr>))
          else Inr w)"

subsection \<open>Alerts\<close>

record alert =
  al_severity :: string
  al_kind :: string
  al_instrument_id :: string
  al_provider :: string
  al_quality :: string
  al_value :: pyfloat
  al_threshold :: pyfloat
  al_research_only :: bool
  al_source_gate :: string
  al_dedup_group :: "string option"
  al_event_id :: "string option"
  al_source_at :: "string option"

definition shock_kind :: string where "shock_kind = ''intraday_price_shock''"
definition reclaim_kind :: string where "reclaim_kind = ''intraday_price_reclaim''"

text \<open>\<^verbatim>\<open>str(a or b or "") or None\<close>.\<close>

definition text_or_none :: "py_std \<Rightarrow> pyval \<Rightarrow> string option" where
  "text_or_none std v = (let s = py_str std (vor v (VStr [])) in if s = [] then None else Some s)"

definition shock_alert :: "py_std \<Rightarrow> pydict \<Rightarrow> alert res" where
  "shock_alert std event =
     rbind (ditem event ''direction'') (\<lambda>_.
     rbind (dfloat std event ''shock_spx_bps'') (\<lambda>spx_move.
     rbind (dfloat std event ''shock_es_bps'') (\<lambda>es_move.
     rbind (ditem event ''event_id'') (\<lambda>id.
     rbind (dfloat std event ''shock_duration_seconds'') (\<lambda>duration.
     rbind (dfloat std event ''shock_threshold_bps'') (\<lambda>threshold.
       Inr \<lparr>al_severity = ''high'', al_kind = shock_kind, al_instrument_id = ''index:SPX'',
            al_provider = dtext std event ''provider'' ''unknown'', al_quality = ''live'', al_value = spx_move,
            al_threshold = threshold, al_research_only = True, al_source_gate = ''spx_es_intraday_shock_audit'',
            al_dedup_group = Some (py_str std id @ '':shock''), al_event_id = Some (py_str std id),
            al_source_at = text_or_none std (vor (dget event ''extreme_at'') (dget event ''anchor_at''))\<rparr>))))))"

definition reclaim_alert :: "py_std \<Rightarrow> pydict \<Rightarrow> alert res" where
  "reclaim_alert std event =
     rbind (ditem event ''direction'') (\<lambda>_.
     rbind (dfloat std event ''spx_recovery_fraction'') (\<lambda>spx_recovery.
     rbind (dfloat std event ''es_recovery_fraction'') (\<lambda>es_recovery.
     rbind (ditem event ''event_id'') (\<lambda>id.
     rbind (dfloat std event ''reclaim_threshold'') (\<lambda>threshold.
       Inr \<lparr>al_severity = ''high'', al_kind = reclaim_kind, al_instrument_id = ''index:SPX'',
            al_provider = dtext std event ''provider'' ''unknown'', al_quality = ''live'', al_value = spx_recovery,
            al_threshold = threshold, al_research_only = True, al_source_gate = ''spx_es_intraday_reclaim_audit'',
            al_dedup_group = Some (py_str std id @ '':reclaim''), al_event_id = Some (py_str std id),
            al_source_at = text_or_none std (vor (dget event ''reclaim_confirmed_at'') (dget event ''extreme_at''))\<rparr>)))))"

definition due_alerts :: "py_std \<Rightarrow> shock_settings \<Rightarrow> price_sample \<Rightarrow> pydict option \<Rightarrow> alert list res" where
  "due_alerts std c sample event =
     (case event of
        None \<Rightarrow> Inr []
      | Some e \<Rightarrow>
          rbind (if pending_due std e ''shock'' (ps_at sample) (ss_retry_seconds c)
                 then rbind (shock_alert std e) (\<lambda>a. Inr [a]) else Inr []) (\<lambda>a.
          rbind (if py_true (dget e ''reclaim_confirmed_at'')
                    \<and> pending_due std e ''reclaim'' (ps_at sample) (ss_retry_seconds c)
                 then rbind (reclaim_alert std e) (\<lambda>b. Inr [b]) else Inr []) (\<lambda>b.
          Inr (a @ b))))"

subsection \<open>One sample\<close>

definition same_source_pair :: "price_sample \<Rightarrow> price_sample \<Rightarrow> bool" where
  "same_source_pair prior sample =
     (ps_spx_source_at sample \<noteq> None \<and> ps_es_source_at sample \<noteq> None
      \<and> ps_spx_source_at prior = ps_spx_source_at sample \<and> ps_es_source_at prior = ps_es_source_at sample)"

definition recent_history :: "shock_settings \<Rightarrow> price_sample \<Rightarrow> price_sample list \<Rightarrow> price_sample list" where
  "recent_history c sample history =
     (let start = max (ss_three_minute_seconds c) (ss_event_expiry_seconds c) in
      filter (\<lambda>prior. fle (Fin 0) (total_seconds (ps_at sample - ps_at prior))
                     \<and> fle (total_seconds (ps_at sample - ps_at prior)) (Fin (of_int start))) history)"

definition opt_dict :: "pydict option \<Rightarrow> pyval" where
  "opt_dict d = (case d of Some e \<Rightarrow> VDict e | None \<Rightarrow> VNone)"

definition shock_stages :: "py_std \<Rightarrow> shock_settings \<Rightarrow> price_sample \<Rightarrow> shock_work \<Rightarrow> shock_work res" where
  "shock_stages std c sample w =
     rbind (stage_rearm std c sample (stage_expired std c sample (stage_completed std c sample (stage_provider std c sample w))))
       (\<lambda>w. rbind (stage_candidate std c sample w) (\<lambda>w. stage_follow std c sample w))"

definition stored_state :: "price_sample \<Rightarrow> shock_work \<Rightarrow> pydict" where
  "stored_state sample w =
     dmerge (sw_state w)
       [(''samples'', VList (map (\<lambda>p. VDict (sample_to_dict p)) (sw_history w @ [sample]))),
        (''active_event'', opt_dict (sw_event w)), (''rearm'', opt_dict (sw_rearm w)),
        (''updated_at'', iso_text (ps_at sample))]"

definition parsed_samples :: "py_std \<Rightarrow> pydict \<Rightarrow> price_sample list res" where
  "parsed_samples std state =
     rbind (iter_items (dget_default state ''samples'' (VList []))) (collect_some (sample_from_dict std))"

definition advance_monitor_state ::
  "py_std \<Rightarrow> shock_settings \<Rightarrow> pydict \<Rightarrow> price_sample \<Rightarrow> (pydict \<times> alert list) res" where
  "advance_monitor_state std c state sample =
     rbind (parsed_samples std state) (\<lambda>history.
       if history \<noteq> [] \<and> same_source_pair (last history) sample then Inr (state, [])
       else
         rbind (shock_stages std c sample
                  \<lparr>sw_state = state, sw_event = as_dict (dget state ''active_event''),
                   sw_rearm = as_dict (dget state ''rearm''), sw_history = recent_history c sample history\<rparr>) (\<lambda>w.
         rbind (due_alerts std c sample (sw_event w)) (\<lambda>alerts.
           Inr (stored_state sample w, alerts))))"

subsection \<open>Delivery acknowledgements\<close>

definition strategy_kind :: "string \<Rightarrow> bool" where
  "strategy_kind k = (k \<in> {''flip_reclaim_call'', ''call_wall_breakout_call''})"

definition empty_call_state :: pydict where
  "empty_call_state =
     [(''schema_version'', VInt 1), (''structure_snapshot'', VNone), (''flip_watch'', VNone), (''wall_watch'', VNone),
      (''active_bias'', VNone), (''last_signal'', VNone), (''last_spx_source_at'', VNone),
      (''last_es_source_at'', VNone), (''last_down_event_id'', VNone), (''structure_invalid_since'', VNone),
      (''updated_at'', VNone)]"

definition safe_call_state :: "pydict \<Rightarrow> pydict" where
  "safe_call_state monitor_state =
     (case dget monitor_state ''call_strategy'' of
        VDict d \<Rightarrow> if eq_int (dget d ''schema_version'') 1 then d else empty_call_state
      | _ \<Rightarrow> empty_call_state)"

definition mark_strategy_alert_attempts :: "py_std \<Rightarrow> pydict \<Rightarrow> string set \<Rightarrow> int \<Rightarrow> bool \<Rightarrow> pydict" where
  "mark_strategy_alert_attempts std state event_ids t delivered =
     (let call_state = safe_call_state state in
      case dget call_state ''last_signal'' of
        VDict raw \<Rightarrow>
          if dtext std raw ''event_id'' [] \<in> event_ids then
            let signal = dset raw ''last_attempt_at'' (iso_text t);
                signal = (if delivered then dmerge signal [(''delivered'', VBool True), (''delivered_at'', iso_text t)]
                          else signal)
            in dset state ''call_strategy'' (VDict (dset call_state ''last_signal'' (VDict signal)))
          else state
      | _ \<Rightarrow> state)"

definition alert_phase :: "alert \<Rightarrow> string option" where
  "alert_phase a = (if al_kind a = shock_kind then Some ''shock''
                    else if al_kind a = reclaim_kind then Some ''reclaim'' else None)"

definition same_event :: "alert \<Rightarrow> pydict \<Rightarrow> bool" where
  "same_event a event =
     ((case al_event_id a of Some i \<Rightarrow> VStr i | None \<Rightarrow> VNone) = dget event ''event_id'')"

definition mark_attempt :: "int \<Rightarrow> bool \<Rightarrow> pydict \<Rightarrow> alert \<Rightarrow> pydict" where
  "mark_attempt t delivered event a =
     (if \<not> same_event a event then event
      else case alert_phase a of
        None \<Rightarrow> event
      | Some phase \<Rightarrow>
          let event = dset event (phase @ ''_last_attempt_at'') (iso_text t) in
          if delivered then
            dmerge event [(phase @ ''_delivered'', VBool True), (phase @ ''_delivered_at'', iso_text t)]
          else event)"

definition mark_alert_attempts :: "py_std \<Rightarrow> pydict \<Rightarrow> alert list \<Rightarrow> int \<Rightarrow> bool \<Rightarrow> pydict" where
  "mark_alert_attempts std state alerts t delivered =
     (let ids = List.map_filter (\<lambda>a. if strategy_kind (al_kind a) \<and> text_true (al_event_id a) then al_event_id a else None) alerts;
          state = (if ids = [] then state else mark_strategy_alert_attempts std state (set ids) t delivered)
      in case dget state ''active_event'' of
           VDict event \<Rightarrow> dset state ''active_event'' (VDict (foldl (mark_attempt t delivered) event alerts))
         | _ \<Rightarrow> state)"

definition reconcile_acknowledged_alerts ::
  "py_std \<Rightarrow> pydict \<Rightarrow> alert list \<Rightarrow> string set \<Rightarrow> int \<Rightarrow> pydict \<times> alert list" where
  "reconcile_acknowledged_alerts std state alerts acknowledged t =
     (let recovered = filter (\<lambda>a. case al_dedup_group a of Some g \<Rightarrow> g \<in> acknowledged | None \<Rightarrow> False) alerts in
      (if recovered = [] then state else mark_alert_attempts std state recovered t True,
       filter (\<lambda>a. a \<notin> set recovered) alerts))"

definition event_greek_shadow_due :: "pydict \<Rightarrow> alert \<Rightarrow> bool" where
  "event_greek_shadow_due state a =
     (case (alert_phase a, al_event_id a) of
        (Some phase, Some (x # xs)) \<Rightarrow>
          (case find (\<lambda>e. dget e ''event_id'' = VStr (x # xs))
                  (List.map_filter (\<lambda>k. as_dict (dget state k)) [''active_event'', ''last_event'']) of
             Some e \<Rightarrow> \<not> py_true (dget e (phase @ ''_greeks_sampled_at''))
           | None \<Rightarrow> False)
      | _ \<Rightarrow> False)"

definition mark_sampled :: "int \<Rightarrow> pydict \<Rightarrow> alert \<Rightarrow> pydict" where
  "mark_sampled t event a =
     (if \<not> same_event a event then event
      else case alert_phase a of
        None \<Rightarrow> event
      | Some phase \<Rightarrow> dset event (phase @ ''_greeks_sampled_at'') (iso_text t))"

definition mark_event_greek_shadow_sampled :: "pydict \<Rightarrow> alert list \<Rightarrow> int \<Rightarrow> pydict" where
  "mark_event_greek_shadow_sampled state alerts t =
     foldl (\<lambda>st key. case dget st key of
              VDict raw \<Rightarrow> dset st key (VDict (foldl (mark_sampled t) raw alerts))
            | _ \<Rightarrow> st) state [''active_event'', ''last_event'']"

end
