(* ===== verification/Shock_Properties.thy ===== *)
theory Shock_Properties
  imports Shock_Machine
begin

section \<open>What the shock monitor guarantees\<close>

text \<open>
  A shock is opened only from a qualifying anchor; a repeated sample changes nothing; a
  confirmed recovery is final; an alert that was delivered is not sent again for the same
  open event. The proofs use the contract \<open>keyed\<close>: which keys of an event a stage writes.
\<close>

subsection \<open>Candidates\<close>

lemma rbind_map_eq: "rbind r (\<lambda>x. Inr (f x)) = Inr y \<longleftrightarrow> (\<exists>x. r = Inr x \<and> f x = y)"
  by (cases r) auto

lemma best_candidate_mem: "best_candidate cs = Some c \<Longrightarrow> c \<in> set cs"
  using py_max_by_mem by (fastforce simp: best_candidate_def split: list.splits)

definition qualifies :: "price_sample list \<Rightarrow> price_sample \<Rightarrow> pyfloat \<Rightarrow> shock_candidate \<Rightarrow> bool" where
  "qualifies history current ratio cand \<longleftrightarrow>
     sc_anchor cand \<in> set history \<and> eligible_anchor current (sc_horizon_seconds cand) (sc_anchor cand)
     \<and> sc_direction cand \<in> {''down'', ''up''}
     \<and> bps (ps_spx current) (ps_spx (sc_anchor cand)) = Inr (sc_spx_move_bps cand)
     \<and> bps (ps_es current) (ps_es (sc_anchor cand)) = Inr (sc_es_move_bps cand)
     \<and> direction_ok (sc_direction cand) (sc_threshold_bps cand) (sc_spx_move_bps cand)
     \<and> es_ok (sc_direction cand) ratio (sc_spx_move_bps cand) (sc_es_move_bps cand)"

lemma horizon_candidate_qualifies:
  assumes "candidate_for_horizon history current h th ratio = Inr (Some cand)"
  shows "qualifies history current ratio cand \<and> sc_horizon_seconds cand = h \<and> sc_threshold_bps cand = th"
proof -
  let ?el = "filter (eligible_anchor current h) history"
  obtain s ss where el: "?el = s # ss" using assms by (cases ?el) (auto simp: candidate_for_horizon_def)
  let ?d = "py_max_by (\<lambda>b x. flt (ps_spx b) (ps_spx x)) s ss" and ?u = "py_max_by (\<lambda>b x. flt (ps_spx x) (ps_spx b)) s ss"
  have "?d \<in> insert s (set ss)" "?u \<in> insert s (set ss)" by (rule py_max_by_mem)+
  moreover have "insert s (set ss) = {a \<in> set history. eligible_anchor current h a}"
    using arg_cong [OF el, of set] by simp
  ultimately have mem: "a \<in> set history" "eligible_anchor current h a" if "a \<in> {?d, ?u}" for a using that by blast+
  have "candidate_for_horizon history current h th ratio =
      rbind (collect_some (direction_candidate current h th ratio) [(''down'', ?d), (''up'', ?u)]) (\<lambda>cs. Inr (best_candidate cs))"
    unfolding candidate_for_horizon_def el list.case Let_def by (rule refl)
  from trans [OF this [symmetric] assms] obtain cs where "collect_some (direction_candidate current h th ratio) [(''down'', ?d), (''up'', ?u)] = Inr cs"
    and "best_candidate cs = Some cand"
    unfolding rbind_map_eq by blast
  from collect_some_mem [OF this(1) best_candidate_mem [OF this(2)]] obtain da where da: "da \<in> {(''down'', ?d), (''up'', ?u)}" "direction_candidate current h th ratio da = Inr (Some cand)"
    by auto
  then show ?thesis
    using mem unfolding direction_candidate_def qualifies_def
    by (elim insertE emptyE) (simp_all add: rbind_eq_Inr_iff split: if_splits, auto)
qed

lemma find_candidate_qualifies:
  assumes "find_shock_candidate c history current = Inr (Some cand)"
  shows "qualifies history current (ss_es_confirm_ratio c) cand
    \<and> (sc_horizon_seconds cand, sc_threshold_bps cand) \<in>
        {(ss_one_minute_seconds c, ss_one_minute_threshold_bps c), (ss_three_minute_seconds c, ss_three_minute_threshold_bps c)}"
proof -
  obtain cs where "collect_some (\<lambda>(h, th). candidate_for_horizon history current h th (ss_es_confirm_ratio c))
              [(ss_one_minute_seconds c, ss_one_minute_threshold_bps c),
               (ss_three_minute_seconds c, ss_three_minute_threshold_bps c)] = Inr cs" "cand \<in> set cs"
    using assms best_candidate_mem by (auto simp: find_shock_candidate_def rbind_eq_Inr_iff)
  from collect_some_mem [OF this] show ?thesis using horizon_candidate_qualifies by auto
qed

subsection \<open>Which keys a stage writes\<close>

definition measure_keys :: "string set" where
  "measure_keys = {''shock_spx_bps'', ''shock_es_bps'', ''shock_duration_seconds'', ''spx_recovery_fraction'', ''es_recovery_fraction''}"

definition extreme_keys :: "string set" where
  "extreme_keys = {''extreme_at'', ''extreme_spx'', ''extreme_es_at'', ''extreme_es'', ''reclaim_streak''}"

definition reclaim_keys :: "string set" where
  "reclaim_keys = {''reclaim_streak'', ''reclaim_counted_spx_source_at'', ''reclaim_counted_es_source_at'', ''status'',
     ''reclaim_confirmed_at''}"

definition provider_keys :: "string set" where
  "provider_keys = {''provider'', ''provider_mismatch_since''}"

lemma extend_extremes_agree:
  assumes "extend_extremes std s e = Inr e'"
  shows "K \<inter> extreme_keys = {} \<Longrightarrow> pd.agree K e e'" "dget e ''reclaim_confirmed_at'' \<noteq> VNone \<Longrightarrow> e' = e"
  using assms by (auto simp: extend_extremes_def extend_extreme_def extreme_keys_def rbind_eq_Inr_iff Let_def pd.agree_def
      split: if_splits)

lemma count_reclaim_agree:
  assumes "count_reclaim std c s b x y e = Inr e'"
  shows "K \<inter> reclaim_keys = {} \<Longrightarrow> pd.agree K e e'" "dget e ''reclaim_confirmed_at'' \<noteq> VNone \<Longrightarrow> e' = e"
  using assms by (auto simp: count_reclaim_def reclaim_keys_def rbind_eq_Inr_iff Let_def pd.agree_def split: if_splits)

lemma follow_event_split:
  assumes "follow_event std c s e = Inr e'"
  obtains e1 e2 b x y where "extend_extremes std s e = Inr e1"
    "pd.agree (- measure_keys) e1 e2" "count_reclaim std c s b x y e2 = Inr e'"
proof -
  from assms obtain e1 v1 v2 v3 v4 b x y where e1: "extend_extremes std s e = Inr e1"
    and e2: "count_reclaim std c s b x y
      (dmerge (dset (dset (dset e1 ''shock_spx_bps'' v1) ''shock_es_bps'' v2) ''shock_duration_seconds'' v3)
        [(''spx_recovery_fraction'', VFloat x), (''es_recovery_fraction'', VFloat y)]) = Inr e'"
    unfolding follow_event_def Let_def rbind_eq_Inr_iff by blast
  show thesis by (rule that [OF e1 _ e2]) (simp add: measure_keys_def)
qed

lemma follow_event_agree:
  assumes "follow_event std c s e = Inr e'" "K \<inter> (measure_keys \<union> extreme_keys \<union> reclaim_keys) = {}"
  shows "pd.agree K e e'"
proof -
  from assms(1) obtain e1 e2 b x y where f: "extend_extremes std s e = Inr e1"
    "pd.agree (- measure_keys) e1 e2" "count_reclaim std c s b x y e2 = Inr e'" by (rule follow_event_split)
  have "pd.agree K e1 e2" using f(2) assms(2) by (auto simp: pd.agree_def)
  then show ?thesis
    using extend_extremes_agree(1) [OF f(1), of K] count_reclaim_agree(1) [OF f(3), of K] assms(2) pd.agree_trans by blast
qed

lemma follow_event_confirmed:
  assumes "follow_event std c s e = Inr e'" "dget e ''reclaim_confirmed_at'' \<noteq> VNone" "K \<inter> measure_keys = {}"
  shows "pd.agree K e e'"
proof -
  from assms(1) obtain e1 e2 b x y where f: "extend_extremes std s e = Inr e1"
    "pd.agree (- measure_keys) e1 e2" "count_reclaim std c s b x y e2 = Inr e'" by (rule follow_event_split)
  have e1: "e1 = e" using extend_extremes_agree(2) [OF f(1) assms(2)] .
  have "dget e2 ''reclaim_confirmed_at'' = dget e1 ''reclaim_confirmed_at''"
    by (rule pd.agree_get [OF f(2)]) (simp add: measure_keys_def)
  then have "e' = e2" using count_reclaim_agree(2) [OF f(3)] assms(2) e1 by simp
  then show ?thesis using f(2) assms(3) e1 by (auto simp: pd.agree_def)
qed

text \<open>The three stages before a new candidate only keep the open event or drop it.\<close>

lemma switch_agree:
  "provider_switch_reset_due std e s r = (b, e') \<Longrightarrow> K \<inter> provider_keys = {} \<Longrightarrow> pd.agree K e e'"
  by (auto simp: provider_switch_reset_due_def provider_keys_def Let_def pd.agree_def split: if_splits option.splits)

lemma early_stages_event:
  assumes "sw_event (stage_expired std c s (stage_completed std c s (stage_provider std c s w))) = Some e'"
    and "K \<inter> provider_keys = {}"
  shows "\<exists>e. sw_event w = Some e \<and> pd.agree K e e'"
proof -
  have drop: "sw_event (stage_expired std c s w') = Some e' \<Longrightarrow> sw_event w' = Some e'"
    "sw_event (stage_completed std c s w') = Some e' \<Longrightarrow> sw_event w' = Some e'" for w'
    by (auto simp: stage_expired_def stage_completed_def split: option.splits if_splits)
  from assms(1) drop have "sw_event (stage_provider std c s w) = Some e'" by blast
  then show ?thesis
    using switch_agree [OF _ assms(2)]
    by (auto simp: stage_provider_def Let_def split: option.splits prod.splits bool.splits)
qed

lemma stage_rearm_event: "stage_rearm std c s w = Inr w' \<Longrightarrow> sw_event w' = sw_event w"
  by (auto simp: stage_rearm_def rbind_eq_Inr_iff split: option.splits if_splits)

definition opened_by :: "shock_settings \<Rightarrow> price_sample \<Rightarrow> pydict \<Rightarrow> bool" where
  "opened_by c s e \<longleftrightarrow> (\<exists>d cand history. e = new_shock_event c d s cand \<and> find_shock_candidate c history s = Inr (Some cand))"

text \<open>The event at the end continues the one at the start, or the step opened it.\<close>

lemma stages_event:
  assumes r: "shock_stages std c s w = Inr w'" and e': "sw_event w' = Some e'"
  obtains e1 e0 where "e' = e1 \<or> follow_event std c s e1 = Inr e'"
    "opened_by c s e1 \<or> (sw_event w = Some e0 \<and> pd.agree (- provider_keys) e0 e1)"
proof -
  let ?w0 = "stage_expired std c s (stage_completed std c s (stage_provider std c s w))"
  from r obtain w1 w2 where w1: "stage_rearm std c s ?w0 = Inr w1"
    and w2: "stage_candidate std c s w1 = Inr w2" and w3: "stage_follow std c s w2 = Inr w'"
    by (auto simp: shock_stages_def rbind_eq_Inr_iff)
  from w3 e' obtain e1 where e1: "sw_event w2 = Some e1" "e' = e1 \<or> follow_event std c s e1 = Inr e'"
    by (auto simp: stage_follow_def rbind_eq_Inr_iff split: option.splits if_splits)
  have "opened_by c s e1 \<or> (\<exists>e0. sw_event w = Some e0 \<and> pd.agree (- provider_keys) e0 e1)"
  proof (cases "sw_event w1")
    case None
    with w2 e1 have "\<exists>d cand history. e1 = new_shock_event c d s cand \<and> find_shock_candidate c history s = Inr (Some cand)"
      by (fastforce simp: stage_candidate_def rbind_eq_Inr_iff split: if_splits option.splits)
    then show ?thesis unfolding opened_by_def by blast
  next
    case (Some x)
    then have "sw_event w1 = Some e1" using w2 e1 by (simp add: stage_candidate_def)
    then have "sw_event ?w0 = Some e1" using stage_rearm_event [OF w1] by simp
    then show ?thesis using early_stages_event [of std c s w e1 "- provider_keys"] by auto
  qed
  then show thesis using that e1(2) by blast
qed

lemma advance_cases:
  assumes "advance_monitor_state std c st s = Inr (st', al)"
  obtains "st' = st" "al = []"
  | h w where "shock_stages std c s \<lparr>sw_state = st, sw_event = as_dict (dget st ''active_event''),
        sw_rearm = as_dict (dget st ''rearm''), sw_history = h\<rparr> = Inr w"
      "due_alerts std c s (sw_event w) = Inr al" "st' = stored_state s w"
  using assms by (auto simp: advance_monitor_state_def rbind_eq_Inr_iff split: if_splits)

lemma stored_active: "dget (stored_state s w) ''active_event'' = opt_dict (sw_event w)"
  by (simp add: stored_state_def)

lemma opt_dict_eq [simp]: "opt_dict e = VDict d \<longleftrightarrow> e = Some d"
  by (simp add: opt_dict_def split: option.split)

text \<open>The event of the result continues the stored one, or the sample opened it.\<close>

definition continues :: "py_std \<Rightarrow> shock_settings \<Rightarrow> price_sample \<Rightarrow> pydict \<Rightarrow> pydict \<Rightarrow> bool" where
  "continues std c s e e' \<longleftrightarrow> e' = e
     \<or> (\<exists>e1. pd.agree (- provider_keys) e e1 \<and> (e' = e1 \<or> follow_event std c s e1 = Inr e'))"

definition opened_now :: "py_std \<Rightarrow> shock_settings \<Rightarrow> price_sample \<Rightarrow> pydict \<Rightarrow> bool" where
  "opened_now std c s e' \<longleftrightarrow> (\<exists>e1. opened_by c s e1 \<and> (e' = e1 \<or> follow_event std c s e1 = Inr e'))"

lemma advance_event:
  assumes "advance_monitor_state std c st s = Inr (st', al)" "dget st' ''active_event'' = VDict e'"
  shows "opened_now std c s e' \<or> (\<exists>e. dget st ''active_event'' = VDict e \<and> continues std c s e e')"
  using assms(1)
proof (cases rule: advance_cases)
  case 1
  then show ?thesis using assms(2) by (auto simp: continues_def)
next
  case (2 h w)
  have "sw_event w = Some e'" using assms(2) 2(3) by (simp add: stored_active)
  from stages_event [OF 2(1) this] obtain e1 e0 where "e' = e1 \<or> follow_event std c s e1 = Inr e'"
    "opened_by c s e1 \<or> (dget st ''active_event'' = VDict e0 \<and> pd.agree (- provider_keys) e0 e1)" by auto
  then show ?thesis unfolding opened_now_def continues_def by blast
qed

lemma continues_agree:
  assumes "continues std c s e e'" "K \<inter> (measure_keys \<union> extreme_keys \<union> reclaim_keys \<union> provider_keys) = {}"
  shows "pd.agree K e e'"
proof -
  consider "e' = e" | e1 where "pd.agree (- provider_keys) e e1" "e' = e1 \<or> follow_event std c s e1 = Inr e'"
    using assms(1) by (auto simp: continues_def)
  then show ?thesis
  proof cases
    case 2
    have "pd.agree K e e1" using 2(1) assms(2) by (auto simp: pd.agree_def)
    moreover have "pd.agree K e1 e'" using 2(2) follow_event_agree [of std c s e1 e' K] assms(2) by auto
    ultimately show ?thesis by (rule pd.agree_trans)
  qed simp
qed

lemma continues_confirmed:
  assumes "continues std c s e e'" "dget e ''reclaim_confirmed_at'' \<noteq> VNone"
  shows "pd.agree (- (measure_keys \<union> provider_keys)) e e'"
proof -
  let ?K = "- (measure_keys \<union> provider_keys)"
  consider "e' = e" | e1 where "pd.agree (- provider_keys) e e1" "e' = e1 \<or> follow_event std c s e1 = Inr e'"
    using assms(1) by (auto simp: continues_def)
  then show ?thesis
  proof cases
    case 2
    have "dget e1 ''reclaim_confirmed_at'' = dget e ''reclaim_confirmed_at''"
      by (rule pd.agree_get [OF 2(1)]) (simp add: provider_keys_def)
    then have c1: "dget e1 ''reclaim_confirmed_at'' \<noteq> VNone" using assms(2) by simp
    have "pd.agree ?K e e1" using 2(1) by (auto simp: pd.agree_def)
    moreover have "pd.agree ?K e1 e'" using 2(2) follow_event_confirmed [OF _ c1, of std c s e' ?K] by auto
    ultimately show ?thesis by (rule pd.agree_trans)
  qed simp
qed

subsection \<open>Alerts\<close>

lemma alert_fields:
  "shock_alert std e = Inr a \<Longrightarrow> al_kind a = shock_kind \<and> (dget e ''event_id'' = VStr i \<longrightarrow> al_event_id a = Some i)"
  "reclaim_alert std e = Inr a \<Longrightarrow> al_kind a = reclaim_kind \<and> (dget e ''event_id'' = VStr i \<longrightarrow> al_event_id a = Some i)"
  unfolding shock_alert_def reclaim_alert_def rbind_eq_Inr_iff
  by (elim exE conjE, auto simp: ditem_def dget_def split: option.splits)+

lemma due_alerts_event:
  assumes "due_alerts std c s (Some e) = Inr al" "a \<in> set al"
  shows "(al_kind a = shock_kind \<and> dget e ''shock_delivered'' \<noteq> VBool True
       \<or> al_kind a = reclaim_kind \<and> dget e ''reclaim_delivered'' \<noteq> VBool True)
     \<and> (dget e ''event_id'' = VStr i \<longrightarrow> al_event_id a = Some i)"
proof -
  have "shock_alert std e = Inr a \<and> pending_due std e ''shock'' (ps_at s) (ss_retry_seconds c)
      \<or> reclaim_alert std e = Inr a \<and> pending_due std e ''reclaim'' (ps_at s) (ss_retry_seconds c)"
    using assms by (auto simp: due_alerts_def rbind_eq_Inr_iff split: if_splits)
  then show ?thesis using alert_fields [of std e a i] by (auto simp: pending_due_def split: if_splits)
qed

lemma kinds_differ [simp]: "shock_kind \<noteq> reclaim_kind" "reclaim_kind \<noteq> shock_kind"
  by (simp_all add: shock_kind_def reclaim_kind_def)

lemma mark_attempt_keeps:
  "dget (mark_attempt t d e a) ''event_id'' = dget e ''event_id''"
  "ph \<in> {''shock'', ''reclaim''} \<Longrightarrow> dget e (ph @ ''_delivered'') = VBool True
     \<Longrightarrow> dget (mark_attempt t d e a) (ph @ ''_delivered'') = VBool True"
  by (auto simp: mark_attempt_def alert_phase_def Let_def split: option.split)

lemma mark_attempt_sets:
  "same_event a e \<Longrightarrow> alert_phase a = Some ph \<Longrightarrow> dget (mark_attempt t True e a) (ph @ ''_delivered'') = VBool True"
  by (auto simp: mark_attempt_def alert_phase_def Let_def split: if_splits)

lemma marks_keep:
  "dget (foldl (mark_attempt t d) e al) ''event_id'' = dget e ''event_id''"
  "ph \<in> {''shock'', ''reclaim''} \<Longrightarrow> dget e (ph @ ''_delivered'') = VBool True
     \<Longrightarrow> dget (foldl (mark_attempt t d) e al) (ph @ ''_delivered'') = VBool True"
  by (induction al arbitrary: e) (simp_all add: mark_attempt_keeps)

lemma marks_set:
  assumes "a \<in> set al" "same_event a e" "alert_phase a = Some ph"
  shows "dget (foldl (mark_attempt t True) e al) (ph @ ''_delivered'') = VBool True"
  using assms
proof (induction al arbitrary: e)
  case (Cons b al)
  have ph: "ph \<in> {''shock'', ''reclaim''}" using Cons.prems(3) by (auto simp: alert_phase_def split: if_splits)
  show ?case
  proof (cases "b = a")
    case True
    then show ?thesis using Cons.prems marks_keep(2) [OF ph] mark_attempt_sets by auto
  next
    case False
    then have "same_event a (mark_attempt t True e b)" using Cons.prems by (simp add: same_event_def mark_attempt_keeps)
    then show ?thesis using Cons.IH Cons.prems False by simp
  qed
qed simp

subsection \<open>Repeated samples\<close>

text \<open>What the monitor relies on: \<^verbatim>\<open>fromisoformat\<close> reads back what \<^verbatim>\<open>isoformat\<close> wrote.\<close>

definition iso_roundtrip :: "py_std \<Rightarrow> int \<Rightarrow> bool" where
  "iso_roundtrip std t \<longleftrightarrow> std_fromiso std (isoformat t) = Some (Aware t 0)"

lemma parse_iso_text: "iso_roundtrip std t \<Longrightarrow> parse_datetime std (iso_text t) = Some t"
  using isoformat_T [of t] by (auto simp: iso_roundtrip_def parse_datetime_def iso_text_def)

lemma sample_parse_total: "\<exists>p. sample_from_dict std (VDict (sample_to_dict s)) = Inr p"
  by (simp add: sample_from_dict_def sample_to_dict_def is_number_def py_float_def split: option.split)

lemma sample_roundtrip:
  assumes "iso_roundtrip std (ps_at s)" "ps_spx_source_at s = Some x" "ps_es_source_at s = Some y"
    "iso_roundtrip std x" "iso_roundtrip std y" "\<not> fle (ps_spx s) (Fin 0)" "\<not> fle (ps_es s) (Fin 0)"
  shows "\<exists>p. sample_from_dict std (VDict (sample_to_dict s)) = Inr (Some p) \<and> same_source_pair p s"
  using assms
  by (simp add: sample_from_dict_def sample_to_dict_def is_number_def py_float_def parse_iso_text opt_iso_def
      same_source_pair_def)

lemma collect_total: "(\<And>x. x \<in> set xs \<Longrightarrow> \<exists>y. f x = Inr y) \<Longrightarrow> \<exists>ys. collect_some f xs = Inr ys"
  by (induction xs) (auto split: option.split, fastforce)

lemma parsed_total: "\<exists>h. parsed_samples std (stored_state s w) = Inr h"
proof -
  have "\<exists>ys. collect_some (sample_from_dict std) (map (\<lambda>p. VDict (sample_to_dict p)) xs) = Inr ys" for xs
    by (rule collect_total) (auto simp: sample_parse_total)
  then show ?thesis by (simp add: parsed_samples_def stored_state_def dget_default_def iter_items_def del: map_append)
qed

lemma parsed_other: "parsed_samples std (dset st ''active_event'' v) = parsed_samples std st"
  by (simp add: parsed_samples_def dget_default_def)

lemma parsed_stored:
  assumes "\<exists>p. sample_from_dict std (VDict (sample_to_dict s)) = Inr (Some p) \<and> same_source_pair p s"
  shows "\<exists>h. parsed_samples std (stored_state s w) = Inr h \<and> h \<noteq> [] \<and> same_source_pair (last h) s"
proof -
  let ?items = "map (\<lambda>p. VDict (sample_to_dict p)) (sw_history w)"
  obtain p where p: "sample_from_dict std (VDict (sample_to_dict s)) = Inr (Some p)" "same_source_pair p s"
    using assms by blast
  obtain ys where "collect_some (sample_from_dict std) ?items = Inr ys"
    using collect_total [of ?items "sample_from_dict std"] sample_parse_total by auto
  then have "parsed_samples std (stored_state s w) = Inr (ys @ [p])"
    using p by (simp add: parsed_samples_def stored_state_def dget_default_def iter_items_def collect_some_append)
  with p show ?thesis by simp
qed

subsection \<open>A concrete run\<close>

text \<open>
  One instant, one price: an open event whose recovery is confirmed and a sample at its own
  anchor price. \<open>quiet_event\<close> is what the step needs of such an event, and keeps.
\<close>

definition quiet_at :: int where "quiet_at = 62135683200000000"

definition quiet_std :: py_std where
  "quiet_std = \<lparr>std_str = (\<lambda>_. []), std_float = (\<lambda>_. None),
     std_fromiso = (\<lambda>s. if s = isoformat quiet_at then Some (Aware quiet_at 0) else None),
     std_fmt_g = (\<lambda>_. []), std_sha256 = (\<lambda>_. [])\<rparr>"

definition quiet_settings :: shock_settings where
  "quiet_settings = \<lparr>ss_provider_switch_reset_seconds = 30, ss_one_minute_seconds = 60, ss_three_minute_seconds = 180,
     ss_one_minute_threshold_bps = Fin 30, ss_three_minute_threshold_bps = Fin 50, ss_es_confirm_ratio = Fin (1 / 2),
     ss_reclaim_window_seconds = 300, ss_event_expiry_seconds = 600, ss_reclaim_fraction = Fin (1 / 2),
     ss_es_reclaim_fraction = Fin (1 / 2), ss_reclaim_hold_fraction = Fin (1 / 2), ss_es_reclaim_hold_fraction = Fin (1 / 2),
     ss_reclaim_confirm_samples = 2, ss_completion_hold_seconds = 60, ss_rearm_recovery_fraction = Fin (1 / 2),
     ss_rearm_neutral_seconds = 300, ss_retry_seconds = 30\<rparr>"

definition quiet_sample :: "int option \<Rightarrow> price_sample" where
  "quiet_sample t = \<lparr>ps_at = quiet_at, ps_spx = Fin 6000, ps_es = Fin 6000, ps_spx_source_at = t, ps_es_source_at = t,
     ps_provider = ''ibkr''\<rparr>"

definition quiet_event :: pydict where
  "quiet_event = [(''event_id'', VStr ''e''), (''direction'', VStr ''down''), (''anchor_at'', iso_text quiet_at),
     (''anchor_spx'', VFloat (Fin 6000)), (''anchor_es'', VFloat (Fin 6000)), (''extreme_at'', iso_text quiet_at),
     (''extreme_es_at'', iso_text quiet_at), (''extreme_spx'', VFloat (Fin 6000)), (''extreme_es'', VFloat (Fin 6000)),
     (''shock_threshold_bps'', VFloat (Fin 30)), (''provider'', VStr ''ibkr''), (''reclaim_confirmed_at'', iso_text quiet_at),
     (''reclaim_threshold'', VFloat (Fin (1 / 2)))]"

definition quiet_state :: pydict where
  "quiet_state = dset (empty_monitor_state ''2026-01-05'') ''active_event'' (VDict quiet_event)"

definition quiet :: "pydict \<Rightarrow> bool" where
  "quiet e \<longleftrightarrow> pd.agree (fst ` set quiet_event) quiet_event e \<and> dget e ''reclaim_delivered_at'' \<in> {VNone, iso_text quiet_at}"

lemma ditem_dget: "dget e k = v \<Longrightarrow> v \<noteq> VNone \<Longrightarrow> ditem e k = Inr v"
  by (auto simp: dget_def ditem_def split: option.splits)

lemma quiet_iso: "parse_datetime quiet_std (iso_text quiet_at) = Some quiet_at"
  by (rule parse_iso_text) (simp add: iso_roundtrip_def quiet_std_def)

lemma quiet_reads:
  assumes "quiet e"
  shows "dget e ''event_id'' = VStr ''e''" "dget e ''direction'' = VStr ''down''" "dget e ''anchor_at'' = iso_text quiet_at"
    "dget e ''anchor_spx'' = VFloat (Fin 6000)" "dget e ''anchor_es'' = VFloat (Fin 6000)" "dget e ''extreme_at'' = iso_text quiet_at"
    "dget e ''extreme_es_at'' = iso_text quiet_at" "dget e ''extreme_spx'' = VFloat (Fin 6000)" "dget e ''extreme_es'' = VFloat (Fin 6000)"
    "dget e ''shock_threshold_bps'' = VFloat (Fin 30)" "dget e ''provider'' = VStr ''ibkr''"
    "dget e ''reclaim_confirmed_at'' = iso_text quiet_at" "dget e ''reclaim_threshold'' = VFloat (Fin (1 / 2))"
    "dget e ''reclaim_delivered_at'' \<in> {VNone, iso_text quiet_at}"
  using assms unfolding quiet_def pd.agree_def by (simp_all add: quiet_event_def)

lemma quiet_agree: "quiet e \<Longrightarrow> pd.agree (- (measure_keys \<union> {''provider_mismatch_since''})) e e' \<Longrightarrow> quiet e'"
  unfolding quiet_def pd.agree_def quiet_event_def measure_keys_def by simp

lemma quiet_floats:
  assumes "quiet e"
  shows "dfloat quiet_std e ''anchor_spx'' = Inr (Fin 6000)" "dfloat quiet_std e ''anchor_es'' = Inr (Fin 6000)"
    "dfloat quiet_std e ''extreme_spx'' = Inr (Fin 6000)" "dfloat quiet_std e ''extreme_es'' = Inr (Fin 6000)"
    "dfloat quiet_std e ''shock_threshold_bps'' = Inr (Fin 30)" "dfloat quiet_std e ''reclaim_threshold'' = Inr (Fin (1 / 2))"
    "ditem e ''direction'' = Inr (VStr ''down'')" "ditem e ''event_id'' = Inr (VStr ''e'')"
  using quiet_reads [OF assms] by (simp_all add: dfloat_def ditem_dget py_float_def)

lemma quiet_extend: "quiet e \<Longrightarrow> extend_extremes quiet_std (quiet_sample t) e = Inr e"
  by (simp add: extend_extremes_def quiet_floats quiet_reads quiet_sample_def extend_extreme_def Let_def)

lemma count_reclaim_done: "dget e ''reclaim_confirmed_at'' \<noteq> VNone \<Longrightarrow> count_reclaim std c s b x y e = Inr e"
  by (simp add: count_reclaim_def)

lemma quiet_follow:
  assumes "quiet e"
  shows "\<exists>e'. follow_event quiet_std quiet_settings (quiet_sample t) e = Inr e' \<and> quiet e'
    \<and> dget e' ''shock_spx_bps'' = VFloat (Fin 0) \<and> dget e' ''shock_es_bps'' = VFloat (Fin 0)
    \<and> dget e' ''shock_duration_seconds'' = VFloat (Fin 0) \<and> dget e' ''spx_recovery_fraction'' = VFloat (Fin 0)
    \<and> dget e' ''es_recovery_fraction'' = VFloat (Fin 0)
    \<and> (\<forall>k. k \<notin> measure_keys \<longrightarrow> dget e' k = dget e k)"
proof -
  let ?e = "dmerge e [(''shock_spx_bps'', VFloat (Fin 0)), (''shock_es_bps'', VFloat (Fin 0)),
     (''shock_duration_seconds'', VFloat (Fin 0)), (''spx_recovery_fraction'', VFloat (Fin 0)), (''es_recovery_fraction'', VFloat (Fin 0))]"
  have b: "bps (Fin 6000) (Fin 6000) = Inr (Fin 0)" by (simp add: bps_def fdiv_def)
  have r: "recovery_fraction d (Fin 6000) (Fin 6000) (Fin 6000) = Inr (Fin 0)" for d by (simp add: recovery_fraction_def)
  have p: "ps_at (quiet_sample t) = quiet_at" "ps_spx (quiet_sample t) = Fin 6000" "ps_es (quiet_sample t) = Fin 6000"
    by (simp_all add: quiet_sample_def)
  have c: "iso_text quiet_at \<noteq> VNone" by (simp add: iso_text_def)
  have f: "follow_event quiet_std quiet_settings (quiet_sample t) e = Inr ?e"
    unfolding follow_event_def quiet_extend [OF assms] rbind_Inr quiet_floats [OF assms] Let_def b p r event_datetime_def
    by (simp only: dget_dset dmerge_simps quiet_reads [OF assms] quiet_iso option.case r rbind_Inr) (simp add: count_reclaim_done quiet_reads [OF assms] c quiet_iso)
  have k: "dget ?e k = dget e k" if "k \<notin> measure_keys" for k
    by (rule dget_dmerge_other) (use that in \<open>simp add: measure_keys_def\<close>)
  have "quiet ?e" by (rule quiet_agree [OF assms]) (simp add: pd.agree_def k del: dmerge_simps)
  moreover have "dget ?e ''shock_spx_bps'' = VFloat (Fin 0)" "dget ?e ''shock_es_bps'' = VFloat (Fin 0)"
    "dget ?e ''shock_duration_seconds'' = VFloat (Fin 0)" "dget ?e ''spx_recovery_fraction'' = VFloat (Fin 0)"
    "dget ?e ''es_recovery_fraction'' = VFloat (Fin 0)" by simp_all
  ultimately show ?thesis using f k by blast
qed

lemma quiet_stages:
  assumes e: "as_dict (dget st ''active_event'') = Some e" "quiet e"
  shows "\<exists>w e'. shock_stages quiet_std quiet_settings (quiet_sample t)
      \<lparr>sw_state = st, sw_event = as_dict (dget st ''active_event''), sw_rearm = as_dict (dget st ''rearm''), sw_history = h\<rparr> = Inr w
    \<and> sw_event w = Some e' \<and> quiet e' \<and> (\<exists>al. due_alerts quiet_std quiet_settings (quiet_sample t) (Some e') = Inr al
       \<and> (dget e ''shock_delivered'' = VNone \<and> dget e ''shock_last_attempt_at'' = VNone \<longrightarrow> al \<noteq> []))"
proof -
  let ?w = "\<lparr>sw_state = st, sw_event = as_dict (dget st ''active_event''), sw_rearm = as_dict (dget st ''rearm''), sw_history = h\<rparr>"
  let ?e = "dpop e ''provider_mismatch_since''"
  have q: "quiet ?e" by (rule quiet_agree [OF e(2)]) (simp add: pd.agree_def)
  obtain e' where e': "follow_event quiet_std quiet_settings (quiet_sample t) ?e = Inr e'" "quiet e'"
    "dget e' ''shock_spx_bps'' = VFloat (Fin 0)" "dget e' ''shock_es_bps'' = VFloat (Fin 0)"
    "dget e' ''shock_duration_seconds'' = VFloat (Fin 0)" "dget e' ''spx_recovery_fraction'' = VFloat (Fin 0)"
    "dget e' ''es_recovery_fraction'' = VFloat (Fin 0)"
    and keep: "\<And>k. k \<notin> measure_keys \<Longrightarrow> dget e' k = dget ?e k"
    using quiet_follow [OF q, of t] by blast
  have t: "dtext quiet_std e ''provider'' ''unknown'' = ''ibkr''" "dtext quiet_std ?e ''provider'' ''unknown'' = ''ibkr''"
    "ps_provider (quiet_sample t) = ''ibkr''" "ps_at (quiet_sample t) = quiet_at"
    using quiet_reads [OF e(2)] quiet_reads [OF q] by (simp_all add: dtext_def vor_def quiet_sample_def)
  have s1: "stage_provider quiet_std quiet_settings (quiet_sample t) ?w = ?w\<lparr>sw_event := Some ?e\<rparr>"
    using e(1) by (simp add: stage_provider_def provider_switch_reset_due_def t Let_def)
  have s2: "stage_completed quiet_std quiet_settings (quiet_sample t) (?w\<lparr>sw_event := Some ?e\<rparr>) = ?w\<lparr>sw_event := Some ?e\<rparr>"
  proof -
    have "event_datetime quiet_std ?e ''reclaim_delivered_at'' \<in> {None, Some quiet_at}"
      using quiet_reads(14) [OF q] quiet_iso unfolding event_datetime_def by (auto simp: parse_datetime_def)
    then show ?thesis by (auto simp: stage_completed_def t quiet_settings_def)
  qed
  have "event_expiry quiet_std quiet_settings ?e = Some (quiet_at + 600 * us_per_second)"
    using quiet_reads [OF q]
    by (simp add: event_expiry_def event_datetime_def quiet_iso List.map_filter_simps quiet_settings_def)
  then have s3: "stage_expired quiet_std quiet_settings (quiet_sample t) (?w\<lparr>sw_event := Some ?e\<rparr>) = ?w\<lparr>sw_event := Some ?e\<rparr>"
    by (simp add: stage_expired_def t)
  have "shock_stages quiet_std quiet_settings (quiet_sample t) ?w = Inr (?w\<lparr>sw_event := Some e'\<rparr>)"
    unfolding shock_stages_def s1 s2 s3 by (simp add: stage_rearm_def stage_candidate_def stage_follow_def t e'(1))
  moreover have "\<exists>al. due_alerts quiet_std quiet_settings (quiet_sample t) (Some e') = Inr al
       \<and> (dget e ''shock_delivered'' = VNone \<and> dget e ''shock_last_attempt_at'' = VNone \<longrightarrow> al \<noteq> [])"
  proof -
    have f: "dfloat quiet_std e' ''shock_spx_bps'' = Inr (Fin 0)" "dfloat quiet_std e' ''shock_es_bps'' = Inr (Fin 0)"
      "dfloat quiet_std e' ''shock_duration_seconds'' = Inr (Fin 0)" "dfloat quiet_std e' ''spx_recovery_fraction'' = Inr (Fin 0)"
      "dfloat quiet_std e' ''es_recovery_fraction'' = Inr (Fin 0)"
      using e'(3-7) by (simp_all add: dfloat_def ditem_dget py_float_def)
    obtain a b where "shock_alert quiet_std e' = Inr a" "reclaim_alert quiet_std e' = Inr b"
      by (simp add: shock_alert_def reclaim_alert_def f quiet_floats [OF e'(2)])
    moreover have "dget e' ''shock_delivered'' = dget e ''shock_delivered''" "dget e' ''shock_last_attempt_at'' = dget e ''shock_last_attempt_at''"
      by (simp_all add: keep measure_keys_def)
    ultimately have al: "shock_alert quiet_std e' = Inr a" "reclaim_alert quiet_std e' = Inr b"
      and "dget e ''shock_delivered'' = VNone \<and> dget e ''shock_last_attempt_at'' = VNone
        \<longrightarrow> pending_due quiet_std e' ''shock'' (ps_at (quiet_sample t)) (ss_retry_seconds quiet_settings)"
      by (simp_all add: pending_due_def event_datetime_def parse_datetime_def)
    then show ?thesis
      by (cases "pending_due quiet_std e' ''shock'' (ps_at (quiet_sample t)) (ss_retry_seconds quiet_settings)")
        (simp_all add: due_alerts_def)
  qed
  ultimately show ?thesis using e'(2) by (intro exI [of _ "?w\<lparr>sw_event := Some e'\<rparr>"] exI [of _ e']) simp
qed

lemma quiet_marks: "quiet e \<Longrightarrow> quiet (foldl (mark_attempt quiet_at True) e al)"
proof (induction al arbitrary: e)
  case (Cons a al)
  have "quiet (mark_attempt quiet_at True e a)"
    using Cons.prems unfolding quiet_def pd.agree_def quiet_event_def
    by (auto simp: mark_attempt_def alert_phase_def Let_def split: option.split)
  then show ?case using Cons.IH by simp
qed simp

lemma quiet_advance:
  assumes e: "dget st ''active_event'' = VDict e" "quiet e" and h: "parsed_samples quiet_std st = Inr h"
  shows "\<exists>st' al e' w. advance_monitor_state quiet_std quiet_settings st (quiet_sample None) = Inr (st', al)
     \<and> dget st' ''active_event'' = VDict e' \<and> quiet e' \<and> st' = stored_state (quiet_sample None) w
     \<and> (dget e ''shock_delivered'' = VNone \<and> dget e ''shock_last_attempt_at'' = VNone \<longrightarrow> al \<noteq> [])"
proof -
  have n: "\<not> same_source_pair p (quiet_sample None)" for p by (simp add: same_source_pair_def quiet_sample_def)
  obtain w e' al where "shock_stages quiet_std quiet_settings (quiet_sample None)
      \<lparr>sw_state = st, sw_event = as_dict (dget st ''active_event''), sw_rearm = as_dict (dget st ''rearm''),
       sw_history = recent_history quiet_settings (quiet_sample None) h\<rparr> = Inr w"
    "sw_event w = Some e'" "quiet e'" "due_alerts quiet_std quiet_settings (quiet_sample None) (Some e') = Inr al"
    "dget e ''shock_delivered'' = VNone \<and> dget e ''shock_last_attempt_at'' = VNone \<longrightarrow> al \<noteq> []"
    using quiet_stages [of st e None "recent_history quiet_settings (quiet_sample None) h"] e by auto
  moreover from this have "advance_monitor_state quiet_std quiet_settings st (quiet_sample None) = Inr (stored_state (quiet_sample None) w, al)"
    using h n by (simp add: advance_monitor_state_def)
  ultimately show ?thesis
    by (intro exI [of _ "stored_state (quiet_sample None) w"] exI [of _ al] exI [of _ e'] exI [of _ w]) (simp add: stored_active)
qed

subsection \<open>Correctness\<close>

text \<open>
  The monitor opens a shock event only on evidence: a candidate comes from an earlier sample
  of the same provider inside the one-minute or the three-minute horizon, the SPX move from it
  reaches that horizon's threshold in the event's direction, and ES moved the same way by at
  least the confirmation ratio.
\<close>

theorem shock_candidate_evidence:
  "{cand. find_shock_candidate c history current = Inr (Some cand)} \<subseteq>
   {cand. sc_anchor cand \<in> set history \<and> ps_provider (sc_anchor cand) = ps_provider current
     \<and> flt (Fin 0) (total_seconds (ps_at current - ps_at (sc_anchor cand)))
     \<and> fle (total_seconds (ps_at current - ps_at (sc_anchor cand))) (Fin (of_int (sc_horizon_seconds cand)))
     \<and> (sc_horizon_seconds cand, sc_threshold_bps cand) \<in> {(ss_one_minute_seconds c, ss_one_minute_threshold_bps c),
          (ss_three_minute_seconds c, ss_three_minute_threshold_bps c)}
     \<and> bps (ps_spx current) (ps_spx (sc_anchor cand)) = Inr (sc_spx_move_bps cand)
     \<and> bps (ps_es current) (ps_es (sc_anchor cand)) = Inr (sc_es_move_bps cand)
     \<and> (sc_direction cand = ''down'' \<and> fle (sc_spx_move_bps cand) (fneg (sc_threshold_bps cand)) \<and> flt (sc_es_move_bps cand) (Fin 0)
        \<or> sc_direction cand = ''up'' \<and> fle (sc_threshold_bps cand) (sc_spx_move_bps cand) \<and> flt (Fin 0) (sc_es_move_bps cand))
     \<and> fle (fmul (fabs (sc_spx_move_bps cand)) (ss_es_confirm_ratio c)) (fabs (sc_es_move_bps cand))}"
proof (rule subsetI, unfold mem_Collect_eq, goal_cases)
  case (1 cand)
  note q = find_candidate_qualifies [OF 1]
  have "sc_direction cand = ''down'' \<or> sc_direction cand = ''up''" using q by (simp add: qualifies_def)
  then show ?case
    using q by (elim disjE) (simp_all add: qualifies_def eligible_anchor_def direction_ok_def es_ok_def)
qed

text \<open>
  Delivering the same sample twice is harmless: when the source timestamps of SPX and ES are known,
  the second delivery returns the state it got and raises no alert. It relies on
  \<^verbatim>\<open>fromisoformat\<close> reading back the timestamps the monitor wrote.
\<close>

theorem repeated_sample_ignored:
  assumes adv: "advance_monitor_state std c st s = Inr (st', al)"
    and src: "ps_spx_source_at s = Some x" "ps_es_source_at s = Some y"
    and iso: "iso_roundtrip std (ps_at s)" "iso_roundtrip std x" "iso_roundtrip std y"
    and pos: "\<not> fle (ps_spx s) (Fin 0)" "\<not> fle (ps_es s) (Fin 0)"
  shows "advance_monitor_state std c st' s = Inr (st', [])"
  using adv
proof (cases rule: advance_cases)
  case 1
  then show ?thesis using adv by simp
next
  case (2 h w)
  obtain h' where "parsed_samples std (stored_state s w) = Inr h'" "h' \<noteq> []" "same_source_pair (last h') s"
    using parsed_stored [OF sample_roundtrip [OF iso(1) src iso(2,3) pos]] by blast
  then show ?thesis using 2(3) by (simp add: advance_monitor_state_def)
qed

lemma repeated_sample_ignored_witness:
  "\<exists>st' al. advance_monitor_state quiet_std quiet_settings (empty_monitor_state ''2026-01-05'') (quiet_sample (Some quiet_at)) = Inr (st', al)
     \<and> advance_monitor_state quiet_std quiet_settings st' (quiet_sample (Some quiet_at)) = Inr (st', [])"
proof -
  have "\<exists>st' al. advance_monitor_state quiet_std quiet_settings (empty_monitor_state ''2026-01-05'') (quiet_sample (Some quiet_at)) = Inr (st', al)"
    by (simp add: advance_monitor_state_def parsed_samples_def empty_monitor_state_def dget_default_def iter_items_def
        recent_history_def as_dict_def shock_stages_def stage_provider_def stage_completed_def stage_expired_def
        stage_rearm_def stage_candidate_def find_shock_candidate_def candidate_for_horizon_def best_candidate_def
        stage_follow_def due_alerts_def Let_def)
  then obtain st' al where r: "advance_monitor_state quiet_std quiet_settings (empty_monitor_state ''2026-01-05'') (quiet_sample (Some quiet_at)) = Inr (st', al)"
    by blast
  have "advance_monitor_state quiet_std quiet_settings st' (quiet_sample (Some quiet_at)) = Inr (st', [])"
    by (rule repeated_sample_ignored [OF r, of quiet_at quiet_at])
      (simp_all add: quiet_sample_def iso_roundtrip_def quiet_std_def)
  with r show ?thesis by blast
qed

lemma quiet_start:
  "dget quiet_state ''active_event'' = VDict quiet_event" "quiet quiet_event" "parsed_samples quiet_std quiet_state = Inr []"
  "dget quiet_event ''reclaim_confirmed_at'' \<noteq> VNone" "dget quiet_event ''shock_delivered'' = VNone"
  "dget quiet_event ''shock_last_attempt_at'' = VNone"
  by (simp_all add: quiet_state_def quiet_def parsed_samples_def empty_monitor_state_def dget_default_def iter_items_def
      quiet_event_def iso_text_def)

text \<open>
  A confirmed recovery is final: whatever the next sample, an event that stays open keeps its
  identity, direction, anchors, extremes, streak and confirmation time; only the measured moves
  and the provider bookkeeping may change. Any other event in the result was opened by that sample.
\<close>

theorem confirmed_reclaim_final:
  assumes "advance_monitor_state std c st s = Inr (st', al)" "dget st ''active_event'' = VDict e"
    "dget e ''reclaim_confirmed_at'' \<noteq> VNone" "dget st' ''active_event'' = VDict e'"
  shows "opened_now std c s e'
    \<or> (\<forall>k \<in> - {''provider'', ''provider_mismatch_since'', ''shock_spx_bps'', ''shock_es_bps'',
            ''shock_duration_seconds'', ''spx_recovery_fraction'', ''es_recovery_fraction''}. dget e' k = dget e k)"
proof -
  have k: "- {''provider'', ''provider_mismatch_since'', ''shock_spx_bps'', ''shock_es_bps'',
            ''shock_duration_seconds'', ''spx_recovery_fraction'', ''es_recovery_fraction''} = - (measure_keys \<union> provider_keys)"
    unfolding measure_keys_def provider_keys_def by simp
  show ?thesis
    using advance_event [OF assms(1,4)] assms(2) continues_confirmed [OF _ assms(3), of std c s e']
    unfolding k pd.agree_def by auto
qed

lemma confirmed_reclaim_final_witness:
  "\<exists>st' al e'. advance_monitor_state quiet_std quiet_settings quiet_state (quiet_sample None) = Inr (st', al)
     \<and> dget st' ''active_event'' = VDict e'
     \<and> (opened_now quiet_std quiet_settings (quiet_sample None) e' \<or> dget e' ''extreme_spx'' = dget quiet_event ''extreme_spx'')"
proof -
  obtain st' al e' where r: "advance_monitor_state quiet_std quiet_settings quiet_state (quiet_sample None) = Inr (st', al)"
    "dget st' ''active_event'' = VDict e'"
    using quiet_advance [OF quiet_start(1-3)] by blast
  from confirmed_reclaim_final [OF r(1) quiet_start(1,4) r(2)]
  have "opened_now quiet_std quiet_settings (quiet_sample None) e' \<or> dget e' ''extreme_spx'' = dget quiet_event ''extreme_spx''"
    by auto
  with r show ?thesis by blast
qed

text \<open>
  C8: An alert that was delivered is not raised again: after the alerts of one sample are marked
  delivered, the next sample raises no alert of the same kind for the event that stays open; if
  it does raise one, it is for an event that this next sample opened.
\<close>

theorem delivered_alert_not_repeated:
  assumes first: "advance_monitor_state std c st s = Inr (st1, al)" "a \<in> set al"
    and ev: "dget st1 ''active_event'' = VDict e1" "dget e1 ''event_id'' = VStr i"
    and second: "advance_monitor_state std c (mark_alert_attempts std st1 al t True) s2 = Inr (st2, al2)"
  shows "al_kind a \<notin> al_kind ` set al2 \<or> (\<exists>e2. dget st2 ''active_event'' = VDict e2 \<and> opened_now std c s2 e2)"
proof (rule disjCI)
  assume "\<not> (\<exists>e2. dget st2 ''active_event'' = VDict e2 \<and> opened_now std c s2 e2)"
  then have old: "\<not> opened_now std c s2 e2" if "dget st2 ''active_event'' = VDict e2" for e2 using that by blast
  have due1: "due_alerts std c s (Some e1) = Inr al"
    using first(1) by (cases rule: advance_cases) (use first(2) ev(1) in \<open>auto simp: stored_active\<close>)
  note al = due_alerts_event [OF due1, where i = i]
  obtain ph where ph: "alert_phase a = Some ph" "ph \<in> {''shock'', ''reclaim''}"
    using al [OF first(2)] by (auto simp: alert_phase_def)
  have no_strategy: "\<not> strategy_kind (al_kind b)" if "b \<in> set al" for b
    using al [OF that] by (auto simp: strategy_kind_def shock_kind_def reclaim_kind_def)
  define e1' where "e1' = foldl (mark_attempt t True) e1 al"
  have "List.map_filter (\<lambda>a. if strategy_kind (al_kind a) \<and> text_true (al_event_id a) then al_event_id a else None) al = []"
    using no_strategy by (induction al) (auto simp: List.map_filter_simps)
  then have active: "dget (mark_alert_attempts std st1 al t True) ''active_event'' = VDict e1'"
    using ev(1) by (simp add: mark_alert_attempts_def e1'_def)
  have "same_event a e1" using al [OF first(2)] ev(2) by (auto simp: same_event_def)
  then have marked: "dget e1' (ph @ ''_delivered'') = VBool True"
    unfolding e1'_def by (rule marks_set [OF first(2) _ ph(1)])
  show "al_kind a \<notin> al_kind ` set al2"
  proof
    assume "al_kind a \<in> al_kind ` set al2"
    then obtain b where b: "b \<in> set al2" "al_kind b = al_kind a" by auto
    from second obtain e2 where e2: "dget st2 ''active_event'' = VDict e2" "due_alerts std c s2 (Some e2) = Inr al2"
      by (cases rule: advance_cases) (use b(1) in \<open>auto simp: due_alerts_def stored_active split: option.splits\<close>)
    then have "continues std c s2 e1' e2" using advance_event [OF second e2(1)] old active by auto
    then have "pd.agree {ph @ ''_delivered''} e1' e2"
      by (rule continues_agree)
        (use ph(2) in \<open>auto simp: measure_keys_def extreme_keys_def reclaim_keys_def provider_keys_def\<close>)
    then have "dget e2 (ph @ ''_delivered'') = VBool True" using marked by (simp add: pd.agree_def)
    then show False
      using due_alerts_event [OF e2(2) b(1)] ph(1) b(2) by (auto simp: alert_phase_def split: if_splits)
  qed
qed

lemma delivered_alert_not_repeated_witness:
  "\<exists>st1 al a st2 al2. advance_monitor_state quiet_std quiet_settings quiet_state (quiet_sample None) = Inr (st1, al) \<and> a \<in> set al
     \<and> advance_monitor_state quiet_std quiet_settings (mark_alert_attempts quiet_std st1 al quiet_at True) (quiet_sample None) = Inr (st2, al2)
     \<and> (al_kind a \<notin> al_kind ` set al2
        \<or> (\<exists>e2. dget st2 ''active_event'' = VDict e2 \<and> opened_now quiet_std quiet_settings (quiet_sample None) e2))"
proof -
  obtain st1 al e1 w where r: "advance_monitor_state quiet_std quiet_settings quiet_state (quiet_sample None) = Inr (st1, al)"
    "dget st1 ''active_event'' = VDict e1" "quiet e1" "st1 = stored_state (quiet_sample None) w" "al \<noteq> []"
    using quiet_advance [OF quiet_start(1-3)] quiet_start(5,6) by blast
  have due: "due_alerts quiet_std quiet_settings (quiet_sample None) (Some e1) = Inr al"
    using r(1) by (cases rule: advance_cases) (use r(2,5) in \<open>auto simp: stored_active\<close>)
  have "\<not> strategy_kind (al_kind b)" if "b \<in> set al" for b
    using due_alerts_event [OF due that] by (auto simp: strategy_kind_def shock_kind_def reclaim_kind_def)
  then have "List.map_filter (\<lambda>a. if strategy_kind (al_kind a) \<and> text_true (al_event_id a) then al_event_id a else None) al = []"
    by (induction al) (auto simp: List.map_filter_simps)
  then have m: "mark_alert_attempts quiet_std st1 al quiet_at True = dset st1 ''active_event'' (VDict (foldl (mark_attempt quiet_at True) e1 al))"
    using r(2) by (simp add: mark_alert_attempts_def)
  have q: "quiet (foldl (mark_attempt quiet_at True) e1 al)" using r(3) by (rule quiet_marks)
  obtain h where h: "parsed_samples quiet_std st1 = Inr h" using parsed_total [of quiet_std "quiet_sample None" w] r(4) by auto
  obtain st2 al2 where r2: "advance_monitor_state quiet_std quiet_settings (mark_alert_attempts quiet_std st1 al quiet_at True) (quiet_sample None) = Inr (st2, al2)"
    unfolding m using quiet_advance [OF _ q, of "dset st1 ''active_event'' (VDict (foldl (mark_attempt quiet_at True) e1 al))" h] h
    by (auto simp: parsed_other)
  obtain a where a: "a \<in> set al" using r(5) by (cases al) auto
  from delivered_alert_not_repeated [OF r(1) a r(2) quiet_reads(1) [OF r(3)] r2] r(1) a r2 show ?thesis by blast
qed

end
