(* ===== verification/Stable_Structure.thy ===== *)
theory Stable_Structure
  imports Py_Dict "HOL-Library.Sublist"
begin

section \<open>Intraday wall hysteresis (\<^verbatim>\<open>application/order_map/stable_structure.py\<close>)\<close>

text \<open>
  The decision surface of OI/GEX walls: a new structure replaces the promoted one only after
  enough confirmations in increasing time buckets, on an expiry roll, or when there was none. The
  theorem is about runs of observations: \<open>state_backed\<close> traces each stored sample of a candidate to the
  observation it came from.
  State, structures and candidates are the stored dictionaries. \<^verbatim>\<open>statistics.median\<close> sorts
  numbers; a NaN among the levels of a structure is outside the model of that sort.
\<close>

definition level_names :: "string list" where
  "level_names = [''put_wall'', ''flip_low'', ''flip_high'', ''call_wall'']"

definition candidate_ttl_grace_seconds :: int where
  "candidate_ttl_grace_seconds = 60"

type_synonym levels = "(string \<times> pyfloat) list"

subsection \<open>Helpers\<close>

definition structure_utc :: "pydt \<Rightarrow> int res" where
  "structure_utc t = (case t of
     Naive _ \<Rightarrow> Inl (ValueError ''stable structure timestamps must be timezone-aware'')
   | Aware w off \<Rightarrow> Inr (w - off))"

definition structure_datetime :: "py_std \<Rightarrow> pyval \<Rightarrow> int option" where
  "structure_datetime std v = (case v of VStr s \<Rightarrow> map_option as_utc (std_fromiso std s) | _ \<Rightarrow> None)"

definition mapping_of :: "pyval \<Rightarrow> pydict" where
  "mapping_of v = (case v of VDict d \<Rightarrow> d | _ \<Rightarrow> [])"

definition level_item :: "py_std \<Rightarrow> pydict \<Rightarrow> string \<Rightarrow> (string \<times> pyfloat) option res" where
  "level_item std raw name =
     (if is_number (dget raw name) then rbind (py_float std (dget raw name)) (\<lambda>x. Inr (Some (name, x))) else Inr None)"

definition levels_of :: "py_std \<Rightarrow> pydict \<Rightarrow> levels res" where
  "levels_of std value =
     (case dget value ''levels'' of
        VDict raw \<Rightarrow> collect_some (level_item std raw) level_names
      | _ \<Rightarrow> Inr [])"

definition levels_value :: "levels \<Rightarrow> pyval" where
  "levels_value ls = VDict (map (\<lambda>(n, x). (n, VFloat x)) ls)"

text \<open>\<^verbatim>\<open>round(x, 2)\<close>: the exact value rounded half to even in the second decimal, read back as a float.\<close>

definition round2 :: "pyfloat \<Rightarrow> pyfloat" where
  "round2 x = (case x of Fin q \<Rightarrow> rne (of_int (round_half_even (q * 100)) / 100) | _ \<Rightarrow> x)"

definition bands :: "levels \<Rightarrow> pyfloat \<Rightarrow> pyval" where
  "bands ls half_width =
     VDict (map (\<lambda>(n, x). (n, VDict [(''center'', VFloat (round2 x)), (''low'', VFloat (round2 (fsub x half_width))),
                                     (''high'', VFloat (round2 (fadd x half_width)))])) ls)"

definition materially_different :: "levels \<Rightarrow> levels \<Rightarrow> pyfloat \<Rightarrow> bool" where
  "materially_different left right threshold =
     (fst ` set left \<inter> fst ` set right = {} \<or> fst ` set left \<noteq> fst ` set right
      \<or> list_ex (\<lambda>(n, x). case map_of right n of
            Some y \<Rightarrow> fle threshold (fabs (fsub x y)) | None \<Rightarrow> False) left)"

fun insert_float :: "pyfloat \<Rightarrow> pyfloat list \<Rightarrow> pyfloat list" where
  "insert_float x [] = [x]"
| "insert_float x (y # ys) = (if flt x y then x # y # ys else y # insert_float x ys)"

definition sort_floats :: "pyfloat list \<Rightarrow> pyfloat list" where
  "sort_floats xs = foldl (\<lambda>ys x. insert_float x ys) [] xs"

definition median :: "pyfloat list \<Rightarrow> pyfloat res" where
  "median xs =
     (let ys = sort_floats xs; n = length ys in
      if odd n then Inr (ys ! (n div 2))
      else fdiv (fadd (ys ! (n div 2 - 1)) (ys ! (n div 2))) (Fin 2))"

definition sample_level :: "py_std \<Rightarrow> string \<Rightarrow> pydict \<Rightarrow> pyfloat option res" where
  "sample_level std name row =
     (case dget row ''levels'' of
        VDict d \<Rightarrow> if is_number (dget d name) then rbind (py_float std (dget d name)) (\<lambda>x. Inr (Some x)) else Inr None
      | _ \<Rightarrow> Inr None)"

definition median_levels :: "py_std \<Rightarrow> pydict list \<Rightarrow> levels res" where
  "median_levels std samples =
     collect_some (\<lambda>name. rbind (collect_some (sample_level std name) samples) (\<lambda>vs.
        if vs = [] then Inr None else rbind (median vs) (\<lambda>m. Inr (Some (name, m))))) level_names"

definition promoted :: "py_std \<Rightarrow> pydict \<Rightarrow> int \<Rightarrow> pyfloat \<Rightarrow> levels \<Rightarrow> pydict res" where
  "promoted std source now band previous_levels =
     rbind (levels_of std source) (\<lambda>ls.
     rbind (py_int (vor (dget source ''confirmation_count'') (VInt 1))) (\<lambda>count.
       let base = filter (\<lambda>p. fst p \<notin> {''samples'', ''level_bands'', ''previous_levels''}) source;
           p = dmerge base [(''levels'', levels_value ls), (''level_bands'', bands ls band),
             (''promoted_at'', VStr (isoformat now)), (''last_confirmed_at'', VStr (isoformat now)),
             (''confirmation_count'', VInt count), (''duration_seconds'', VFloat (Fin 0)),
             (''source'', VStr ''stable_intraday_oi_gex'')]
       in Inr (if previous_levels = [] then p else dset p ''previous_levels'' (levels_value previous_levels))))"

definition elapsed_since :: "int \<Rightarrow> int option \<Rightarrow> pyfloat" where
  "elapsed_since now t = fmax (total_seconds (now - (case t of Some x \<Rightarrow> x | None \<Rightarrow> now))) (Fin 0)"

definition public_state :: "py_std \<Rightarrow> pydict \<Rightarrow> pydict \<Rightarrow> int \<Rightarrow> pyfloat \<Rightarrow> int \<Rightarrow> pydict res" where
  "public_state std state wall now band ttl =
     rbind (if wall = [] then Inr state
            else rbind (levels_of std wall) (\<lambda>ls.
              let row = dset wall ''level_bands'' (bands ls band);
                  row = dset row ''duration_seconds''
                    (VFloat (elapsed_since now (structure_datetime std (dget row ''promoted_at''))))
              in Inr (dset state ''stable'' (VDict row)))) (\<lambda>result.
       Inr (dmerge result [(''updated_at'', VStr (isoformat now)), (''candidate_ttl_seconds'', VInt ttl)]))"

definition last_seen :: "py_std \<Rightarrow> pydict \<Rightarrow> int option" where
  "last_seen std candidate =
     (case structure_datetime std (dget candidate ''last_seen_at'') of
        Some t \<Rightarrow> Some t
      | None \<Rightarrow>
          (case dget candidate ''samples'' of
             VList xs \<Rightarrow>
               (if xs = [] then None
                else (case last xs of VDict d \<Rightarrow> structure_datetime std (dget d ''at'') | _ \<Rightarrow> None))
           | _ \<Rightarrow> None))"

definition candidate_expired :: "py_std \<Rightarrow> pydict \<Rightarrow> int \<Rightarrow> int \<Rightarrow> bool" where
  "candidate_expired std candidate now ttl =
     (candidate \<noteq> [] \<and>
      (case last_seen std candidate of
         None \<Rightarrow> True
       | Some t \<Rightarrow> flt (Fin (of_int ttl)) (total_seconds (now - t))))"

subsection \<open>One observation\<close>

record structure_policy =
  sp_interval_seconds :: int
  sp_required_confirmations :: int
  sp_band_half_width_points :: pyfloat
  sp_switch_min_points :: pyfloat

text \<open>\<^verbatim>\<open>int(now.timestamp()) // interval\<close>.\<close>

definition bucket_of :: "int \<Rightarrow> int \<Rightarrow> int res" where
  "bucket_of now interval =
     rbind (py_int (VFloat (total_seconds (now - unix_epoch)))) (\<lambda>s.
       if interval = 0 then Inl ZeroDivisionError else Inr (s div interval))"

text \<open>\<^verbatim>\<open>xs[-n:]\<close>.\<close>

definition take_last :: "int \<Rightarrow> 'a list \<Rightarrow> 'a list" where
  "take_last n xs = (if n > 0 then drop (length xs - nat n) xs else drop (nat (- n)) xs)"

definition candidate_samples :: "pydict \<Rightarrow> pydict list res" where
  "candidate_samples candidate =
     rbind (iter_items (vor (dget candidate ''samples'') (VList [])))
       (\<lambda>xs. Inr (List.map_filter as_dict xs))"

definition sample_bucket :: "pydict \<Rightarrow> int res" where
  "sample_bucket s = py_int (vor (dget s ''bucket'') (VInt (- 1)))"

definition append_sample :: "pydict list \<Rightarrow> int \<Rightarrow> levels \<Rightarrow> int \<Rightarrow> pydict list res" where
  "append_sample samples bucket live_levels now =
     (let fresh = [(''bucket'', VInt bucket), (''levels'', levels_value live_levels), (''at'', VStr (isoformat now))] in
      if samples = [] then Inr [fresh]
      else rbind (sample_bucket (last samples)) (\<lambda>b. Inr (if b \<noteq> bucket then samples @ [fresh] else samples)))"

text \<open>
  What a step decides: the state and the structure before \<^verbatim>\<open>_public_state\<close>. The first
  three are the returns for an unusable structure, the bootstrap and the expiry roll.
\<close>

definition confirm_same ::
  "py_std \<Rightarrow> pydict \<Rightarrow> pydict \<Rightarrow> int \<Rightarrow> int \<Rightarrow> (pydict \<times> pydict) res" where
  "confirm_same std state wall now bucket =
     rbind (py_int (vor (dget wall ''confirmation_count'') (VInt 1))) (\<lambda>count.
       let wall' = dmerge wall [(''last_confirmed_at'', VStr (isoformat now)),
             (''duration_seconds'', VFloat (elapsed_since now (structure_datetime std (dget wall ''promoted_at'')))),
             (''confirmation_count'', VInt (count + (if eq_int (dget state ''last_bucket'') bucket then 0 else 1)))]
       in Inr (dmerge state [(''stable'', VDict wall'), (''candidate'', VNone), (''last_bucket'', VInt bucket)], wall'))"

definition confirm_candidate ::
  "py_std \<Rightarrow> structure_policy \<Rightarrow> pydict \<Rightarrow> pydict \<Rightarrow> pydict \<Rightarrow> levels \<Rightarrow> levels \<Rightarrow> int \<Rightarrow> int \<Rightarrow> (pydict \<times> pydict) res" where
  "confirm_candidate std pol state wall live stable_levels live_levels now bucket =
     (let candidate = mapping_of (dget state ''candidate'') in
      rbind (candidate_samples candidate) (\<lambda>stored.
      rbind (levels_of std candidate) (\<lambda>candidate_levels.
        let kept = (if candidate_levels = []
                       \<or> materially_different candidate_levels live_levels (sp_band_half_width_points pol)
                    then [] else stored)
        in rbind (append_sample kept bucket live_levels now) (\<lambda>all.
           let samples = take_last (sp_required_confirmations pol) all in
           rbind (median_levels std samples) (\<lambda>med.
           if samples = [] then Inl IndexError
           else rbind (ditem (hd samples) ''at'') (\<lambda>first_at.
                rbind (ditem (last samples) ''at'') (\<lambda>last_at.
                  let candidate = dmerge live [(''levels'', levels_value med),
                        (''samples'', VList (map VDict samples)), (''confirmation_count'', VInt (int (length samples))),
                        (''required_confirmations'', VInt (sp_required_confirmations pol)),
                        (''first_seen_at'', first_at), (''last_seen_at'', last_at)]
                  in if int (length samples) \<ge> sp_required_confirmations pol then
                       rbind (promoted std candidate now (sp_band_half_width_points pol) stable_levels) (\<lambda>wall'.
                         Inr (dmerge state [(''stable'', VDict wall'), (''candidate'', VNone), (''last_bucket'', VInt bucket),
                                (''promotion_reason'', VStr ''multi_bucket_confirmation'')], wall'))
                     else Inr (dmerge state [(''candidate'', VDict candidate), (''last_bucket'', VInt bucket)], wall))))))))"

definition replaced :: "pydict \<Rightarrow> int \<Rightarrow> string \<Rightarrow> pydict" where
  "replaced wall bucket reason =
     [(''schema_version'', VInt 1), (''stable'', VDict wall), (''candidate'', VNone),
      (''last_bucket'', VInt bucket), (''promotion_reason'', VStr reason)]"

definition decide_structure ::
  "py_std \<Rightarrow> structure_policy \<Rightarrow> pydict \<Rightarrow> pydict \<Rightarrow> pydict option \<Rightarrow> int \<Rightarrow> (pydict \<times> pydict) res" where
  "decide_structure std pol state wall live now =
     (let live_row = (case live of Some d \<Rightarrow> d | None \<Rightarrow> []) in
      rbind (if live_row = [] then Inr [] else levels_of std live_row) (\<lambda>live_levels.
        if live_levels = [] then Inr (state, wall)
        else rbind (bucket_of now (sp_interval_seconds pol)) (\<lambda>bucket.
          if wall = [] then
            rbind (promoted std live_row now (sp_band_half_width_points pol) []) (\<lambda>s.
              Inr (replaced s bucket ''bootstrap_first_usable_structure'', s))
          else
            let stable_expiry = dtext std wall ''expiry'' []; live_expiry = dtext std live_row ''expiry'' [] in
            rbind (levels_of std wall) (\<lambda>stable_levels.
            if live_expiry \<noteq> [] \<and> stable_expiry \<noteq> [] \<and> live_expiry \<noteq> stable_expiry then
              rbind (promoted std live_row now (sp_band_half_width_points pol) stable_levels) (\<lambda>s.
                Inr (replaced s bucket ''expiry_rollover'', s))
            else if \<not> materially_different stable_levels live_levels (sp_switch_min_points pol) then
              confirm_same std state wall now bucket
            else confirm_candidate std pol state wall live_row stable_levels live_levels now bucket))))"

text \<open>The part before the decision: the promotion of an undated structure and the expiry of the candidate.\<close>

definition candidate_ttl :: "structure_policy \<Rightarrow> int" where
  "candidate_ttl pol =
     sp_interval_seconds pol * max (sp_required_confirmations pol - 1) 1 + candidate_ttl_grace_seconds"

definition dated_structure :: "py_std \<Rightarrow> structure_policy \<Rightarrow> pydict \<Rightarrow> int \<Rightarrow> (pydict \<times> pydict) res" where
  "dated_structure std pol state now =
     (let wall = mapping_of (dget state ''stable'') in
      if wall \<noteq> [] \<and> \<not> py_true (dget wall ''promoted_at'') then
        rbind (promoted std wall now (sp_band_half_width_points pol) []) (\<lambda>s.
          Inr (dset state ''stable'' (VDict s), s))
      else Inr (state, wall))"

definition expire_candidate :: "py_std \<Rightarrow> structure_policy \<Rightarrow> pydict \<Rightarrow> int \<Rightarrow> pydict" where
  "expire_candidate std pol state now =
     (if candidate_expired std (mapping_of (dget state ''candidate'')) now (candidate_ttl pol) then
        dmerge state [(''candidate'', VNone), (''candidate_expired_at'', VStr (isoformat now)),
                      (''candidate_expiry_reason'', VStr ''confirmation_timeout'')]
      else state)"

definition advance_stable_structure ::
  "py_std \<Rightarrow> structure_policy \<Rightarrow> pydict option \<Rightarrow> pydict option \<Rightarrow> pydt \<Rightarrow> (pydict \<times> pydict) res" where
  "advance_stable_structure std pol previous live t =
     rbind (structure_utc t) (\<lambda>now.
     rbind (dated_structure std pol (case previous of Some d \<Rightarrow> d | None \<Rightarrow> []) now) (\<lambda>(state, wall).
     rbind (decide_structure std pol (expire_candidate std pol state now) wall live now) (\<lambda>(state', wall').
     rbind (public_state std state' wall' now (sp_band_half_width_points pol) (candidate_ttl pol)) (\<lambda>result.
       Inr (result, wall')))))"

subsection \<open>Levels survive promotion\<close>

lemma level_item_cong: "dget raw n = dget raw' n \<Longrightarrow> level_item std raw n = level_item std raw' n"
  by (simp add: level_item_def)

lemma collect_cong: "(\<And>x. x \<in> set xs \<Longrightarrow> f x = g x) \<Longrightarrow> collect_some f xs = collect_some g xs"
  by (induction xs) auto

lemma level_item_result: "level_item std raw n = Inr (Some (m, x)) \<Longrightarrow> m = n"
  by (auto simp: level_item_def rbind_eq_Inr_iff split: if_splits)

lemma collected_names: "collect_some (level_item std raw) ns = Inr ls \<Longrightarrow> fst ` set ls \<subseteq> set ns"
  by (induction ns arbitrary: ls) (fastforce simp: rbind_eq_Inr_iff dest: level_item_result split: option.splits)+

lemma dget_absent: "n \<notin> fst ` set d \<Longrightarrow> dget d n = VNone"
  by (simp add: dget_def map_of_eq_None_iff [THEN iffD2])

lemma levels_reread:
  "collect_some (level_item std raw) ns = Inr ls \<Longrightarrow> distinct ns \<Longrightarrow>
   collect_some (level_item std (map (\<lambda>(n, x). (n, VFloat x)) ls)) ns = Inr ls"
proof (induction ns arbitrary: ls)
  case (Cons n ns)
  let ?v = "map (\<lambda>(n, x). (n, VFloat x))"
  from Cons.prems obtain y ls' where y: "level_item std raw n = Inr y"
    and ls': "collect_some (level_item std raw) ns = Inr ls'" and ls: "ls = (case y of Some z \<Rightarrow> z # ls' | None \<Rightarrow> ls')"
    by (auto simp: rbind_eq_Inr_iff)
  have IH: "collect_some (level_item std (?v ls')) ns = Inr ls'" using Cons.IH [OF ls'] Cons.prems(2) by simp
  have absent: "dget (?v ls') n = VNone"
    using collected_names [OF ls'] Cons.prems(2) by (intro dget_absent) (force simp: image_image split_beta)
  show ?case
  proof (cases y)
    case None
    have "level_item std (?v ls') n = Inr None" using absent by (simp add: level_item_def is_number_def)
    then show ?thesis using None ls IH by simp
  next
    case (Some z)
    then obtain x where z: "z = (n, x)" using y level_item_result by (metis surj_pair)
    have "collect_some (level_item std (?v ls)) ns = collect_some (level_item std (?v ls')) ns"
      using Cons.prems(2) by (intro collect_cong level_item_cong) (auto simp: ls Some z)
    moreover have "level_item std (?v ls) n = Inr (Some (n, x))"
      by (simp add: ls Some z level_item_def is_number_def py_float_def)
    ultimately show ?thesis using IH Some z ls by simp
  qed
qed simp

lemma distinct_level_names: "distinct level_names"
  by (simp add: level_names_def)

lemma levels_of_value:
  assumes "levels_of std d = Inr ls" "dget e ''levels'' = levels_value ls"
  shows "levels_of std e = Inr ls"
proof (cases "dget d ''levels''")
  case (VDict raw)
  then show ?thesis using assms levels_reread [OF _ distinct_level_names] by (simp add: levels_of_def levels_value_def)
qed (use assms in \<open>simp_all add: levels_of_def levels_value_def level_names_def level_item_def is_number_def\<close>)

lemma dget_filter: "P k \<Longrightarrow> dget (filter (\<lambda>p. P (fst p)) d) k = dget d k"
  by (induction d) auto

lemma promoted_levels:
  assumes "promoted std src now band prev = Inr p"
  shows "levels_of std p = levels_of std src" "dget p ''expiry'' = dget src ''expiry''" "p \<noteq> []"
proof -
  obtain ls where ls: "levels_of std src = Inr ls" using assms by (auto simp: promoted_def rbind_eq_Inr_iff)
  have l: "dget p ''levels'' = levels_value ls"
    using assms ls by (auto simp: promoted_def rbind_eq_Inr_iff Let_def)
  show "levels_of std p = levels_of std src" using levels_of_value [OF ls l] ls by simp
  show "dget p ''expiry'' = dget src ''expiry''"
    using assms dget_filter [of "\<lambda>k. k \<notin> {''samples'', ''level_bands'', ''previous_levels''}" "''expiry''" src]
    by (auto simp: promoted_def rbind_eq_Inr_iff Let_def)
  show "p \<noteq> []" using l by (auto simp: levels_value_def)
qed

subsection \<open>Runs of observations\<close>

text \<open>
  The stored state under a sequence of observations, each a structure and the time of the tick; \<open>None\<close> is the state
  before the first one.
\<close>

type_synonym structure_obs = "pydict option \<times> pydt"

fun structure_run ::
  "py_std \<Rightarrow> structure_policy \<Rightarrow> pydict option \<Rightarrow> structure_obs list \<Rightarrow> pydict option res" where
  "structure_run std pol previous [] = Inr previous"
| "structure_run std pol previous ((live, t) # obs) =
     rbind (advance_stable_structure std pol previous live t) (\<lambda>(state, wall). structure_run std pol (Some state) obs)"

definition obs_bucket :: "structure_policy \<Rightarrow> structure_obs \<Rightarrow> int res" where
  "obs_bucket pol p = rbind (structure_utc (snd p)) (\<lambda>now. bucket_of now (sp_interval_seconds pol))"

text \<open>An observation that speaks against the structure \<open>w\<close>: dated, usable, and materially different from it.\<close>

definition votes_against :: "py_std \<Rightarrow> structure_policy \<Rightarrow> pydict \<Rightarrow> structure_obs \<Rightarrow> bool" where
  "votes_against std pol w p \<longleftrightarrow>
     (\<exists>d ll wl. fst p = Some d \<and> levels_of std d = Inr ll \<and> levels_of std w = Inr wl
        \<and> materially_different wl ll (sp_switch_min_points pol)) \<and> (\<exists>b. obs_bucket pol p = Inr b)"

text \<open>
  Each stored sample of the candidate goes back to an observation of its bucket against the promoted structure,
  neighbouring samples are from different buckets, and there are fewer than required.
\<close>

definition backed ::
  "py_std \<Rightarrow> structure_policy \<Rightarrow> structure_obs list \<Rightarrow> pydict \<Rightarrow> pydict \<Rightarrow> structure_obs list \<Rightarrow> bool" where
  "backed std pol obs candidate w ps \<longleftrightarrow>
     subseq ps obs \<and> list_all (votes_against std pol w) ps \<and> distinct_adj (map (obs_bucket pol) ps)
   \<and> int (length ps) < sp_required_confirmations pol
   \<and> (\<exists>stored. candidate_samples candidate = Inr stored \<and> list_all2 (\<lambda>p s. sample_bucket s = obs_bucket pol p) ps stored)"

definition state_backed :: "py_std \<Rightarrow> structure_policy \<Rightarrow> structure_obs list \<Rightarrow> pydict \<Rightarrow> bool" where
  "state_backed std pol obs state \<longleftrightarrow>
     (\<exists>ps. backed std pol obs (mapping_of (dget state ''candidate'')) (mapping_of (dget state ''stable'')) ps)"

lemma candidate_samples_Nil [simp]: "candidate_samples [] = Inr []"
  by (simp add: candidate_samples_def iter_items_def List.map_filter_simps)

lemma backed_Nil: "0 < sp_required_confirmations pol \<Longrightarrow> backed std pol obs [] w []"
  by (simp add: backed_def)

lemma backed_more: "backed std pol obs c w ps \<Longrightarrow> backed std pol (obs @ xs) c w ps"
  by (auto simp: backed_def intro: list_emb_append2)

lemma backed_levels: "levels_of std w' = levels_of std w \<Longrightarrow> backed std pol obs c w' ps = backed std pol obs c w ps"
proof -
  assume "levels_of std w' = levels_of std w"
  then have "votes_against std pol w' = votes_against std pol w" by (simp add: votes_against_def fun_eq_iff)
  then show ?thesis by (simp add: backed_def)
qed

subsection \<open>One confirmation\<close>

lemma confirm_same_levels: "confirm_same std state w now b = Inr (st, w') \<Longrightarrow> levels_of std w' = levels_of std w"
  by (auto simp: confirm_same_def rbind_eq_Inr_iff Let_def levels_of_def)

lemma fresh_bucket:
  "b \<noteq> 0 \<Longrightarrow> sample_bucket ((''bucket'', VInt b) # r) = Inr b"
  by (simp add: sample_bucket_def vor_def py_int_def)

lemma take_last_all: "int (length xs) \<le> n \<Longrightarrow> 0 < n \<Longrightarrow> take_last n xs = xs"
  by (simp add: take_last_def)

lemma stored_candidate:
  "dget c ''samples'' = VList (map VDict xs) \<Longrightarrow> candidate_samples c = Inr xs"
proof -
  assume c: "dget c ''samples'' = VList (map VDict xs)"
  have "List.map_filter as_dict (map VDict xs) = xs"
    by (induction xs) (simp_all add: List.map_filter_simps)
  then show ?thesis by (cases xs) (simp_all add: c candidate_samples_def iter_items_def vor_def)
qed

text \<open>The samples after an observation go back to the samples before it, with or without the observation itself.\<close>

lemma appended_backed:
  assumes "list_all2 (\<lambda>p s. sample_bucket s = obs_bucket pol p) ps kept" "distinct_adj (map (obs_bucket pol) ps)"
    and x: "obs_bucket pol x = Inr b" "b \<noteq> 0" and "append_sample kept b ll now = Inr xs"
  shows "\<exists>qs. qs \<in> {ps, ps @ [x]} \<and> (ps = [] \<longrightarrow> qs = [x]) \<and> list_all2 (\<lambda>p s. sample_bucket s = obs_bucket pol p) qs xs
    \<and> distinct_adj (map (obs_bucket pol) qs)"
proof -
  let ?fresh = "[(''bucket'', VInt b), (''levels'', levels_value ll), (''at'', VStr (isoformat now))]"
  have new: "sample_bucket ?fresh = obs_bucket pol x" using x by (simp add: fresh_bucket)
  show ?thesis
  proof (cases "kept = []")
    case True
    then show ?thesis using assms(1,5) new by (intro exI [of _ "[x]"]) (auto simp: append_sample_def Let_def)
  next
    case False
    then have ps: "ps \<noteq> []" using assms(1) by auto
    have l: "sample_bucket (last kept) = obs_bucket pol (last ps)"
      by (rule list_all2_last [OF assms(1) ps])
    show ?thesis
    proof (cases "sample_bucket (last kept) = Inr b")
      case True
      then have "xs = kept" using assms(5) False by (simp add: append_sample_def Let_def)
      then show ?thesis using assms(1,2) ps by (intro exI [of _ ps]) simp
    next
      case other: False
      then have "xs = kept @ [?fresh]"
        using assms(5) False by (auto simp: append_sample_def Let_def rbind_eq_Inr_iff)
      then show ?thesis
        using assms(1,2) ps new l x other
        by (intro exI [of _ "ps @ [x]"]) (auto simp: list_all2_appendI distinct_adj_append_iff last_map)
    qed
  qed
qed

text \<open>
  An observation that differs from the promoted structure either leaves it, with a candidate that is backed again, or replaces
  it after enough observations against it, the last of which is this one.
\<close>

lemma confirm_candidate_backed:
  assumes c: "confirm_candidate std pol state w d wl ll now b = Inr (st', w')"
    and "backed std pol obs (mapping_of (dget state ''candidate'')) w ps"
    and x: "obs_bucket pol (Some d, t) = Inr b" "b \<noteq> 0" "votes_against std pol w (Some d, t)"
    and n: "2 \<le> sp_required_confirmations pol" and w: "mapping_of (dget state ''stable'') = w"
  shows "mapping_of (dget st' ''stable'') = w' \<and>
    (w' = w \<and> (\<exists>qs. backed std pol (obs @ [(Some d, t)]) (mapping_of (dget st' ''candidate'')) w qs)
     \<or> mapping_of (dget st' ''candidate'') = [] \<and> int (length ps) + 1 = sp_required_confirmations pol
       \<and> distinct_adj (map (obs_bucket pol) (ps @ [(Some d, t)]))
       \<and> (\<exists>cl. levels_of std (mapping_of (dget state ''candidate'')) = Inr cl
            \<and> \<not> materially_different cl ll (sp_band_half_width_points pol)))"
proof -
  let ?c = "mapping_of (dget state ''candidate'')" and ?n = "sp_required_confirmations pol" and ?x = "(Some d, t)"
  obtain stored where st: "candidate_samples ?c = Inr stored" "list_all2 (\<lambda>p s. sample_bucket s = obs_bucket pol p) ps stored"
    using assms(2) by (auto simp: backed_def)
  from c obtain cl where cl: "levels_of std ?c = Inr cl"
    by (auto simp: confirm_candidate_def Let_def rbind_eq_Inr_iff)
  define fails where "fails \<longleftrightarrow> cl = [] \<or> materially_different cl ll (sp_band_half_width_points pol)"
  define kept where "kept = (if fails then [] else stored)"
  define ps0 where "ps0 = (if fails then [] else ps)"
  from c obtain xs where xs: "append_sample kept b ll now = Inr xs"
    by (auto simp: confirm_candidate_def Let_def rbind_eq_Inr_iff st(1) cl kept_def fails_def)
  have ps0: "list_all2 (\<lambda>p s. sample_bucket s = obs_bucket pol p) ps0 kept" "distinct_adj (map (obs_bucket pol) ps0)"
      "subseq ps0 obs" "list_all (votes_against std pol w) ps0" "int (length ps0) < ?n"
    using st(2) assms(2) n by (auto simp: ps0_def kept_def backed_def)
  obtain qs where qs: "qs \<in> {ps0, ps0 @ [?x]}" "ps0 = [] \<longrightarrow> qs = [?x]" "distinct_adj (map (obs_bucket pol) qs)"
      "list_all2 (\<lambda>p s. sample_bucket s = obs_bucket pol p) qs xs"
    using appended_backed [OF ps0(1,2) x(1,2) xs] by blast
  have len: "length xs = length qs" using qs(4) by (simp add: list_all2_lengthD)
  have "int (length xs) \<le> ?n" using qs(1) ps0(5) len by auto
  then have all: "take_last ?n xs = xs" using n by (simp add: take_last_all)
  have sub: "subseq qs (obs @ [?x])" "list_all (votes_against std pol w) qs"
    using qs(1) ps0(3,4) x(3) by (auto intro: list_emb_append2 list_emb_append_mono)
  show ?thesis
  proof (cases "?n \<le> int (length xs)")
    case True
    then have q: "qs = ps0 @ [?x]" "int (length ps0) + 1 = ?n" using qs(1) ps0(5) len by auto
    then have "\<not> fails" using n by (auto simp: ps0_def)
    then have "ps0 = ps" "\<not> materially_different cl ll (sp_band_half_width_points pol)" by (auto simp: ps0_def fails_def)
    moreover have "mapping_of (dget st' ''stable'') = w'" "mapping_of (dget st' ''candidate'') = []"
      using c True unfolding confirm_candidate_def Let_def st(1) cl rbind_Inr fails_def [symmetric] kept_def [symmetric] xs all
      by (auto simp: rbind_eq_Inr_iff mapping_of_def split: if_splits)
    ultimately show ?thesis using q qs(3) cl by auto
  next
    case False
    then have "w' = w" "mapping_of (dget st' ''stable'') = w"
      "candidate_samples (mapping_of (dget st' ''candidate'')) = Inr xs"
      using c w unfolding confirm_candidate_def Let_def st(1) cl rbind_Inr fails_def [symmetric] kept_def [symmetric] xs all
      by (auto simp: rbind_eq_Inr_iff mapping_of_def intro!: stored_candidate split: if_splits)
    moreover have "int (length qs) < ?n" using False len by simp
    ultimately show ?thesis using sub qs(3,4) by (auto simp: backed_def)
  qed
qed

subsection \<open>One observation, one run\<close>

text \<open>What \<open>decide_structure\<close> does to the promoted structure: nothing, a replacement on a bootstrap or an expiry roll, or a confirmation.\<close>

lemma decide_cases:
  assumes r: "decide_structure std pol state w live now = Inr (st', w')" and w: "mapping_of (dget state ''stable'') = w"
  obtains (quiet) "mapping_of (dget st' ''stable'') = w'" "levels_of std w' = levels_of std w"
      "mapping_of (dget st' ''candidate'') \<in> {[], mapping_of (dget state ''candidate'')}"
    | (anew) d where "mapping_of (dget st' ''stable'') = w'" "mapping_of (dget st' ''candidate'') = []" "live = Some d"
      "w = [] \<or> dtext std d ''expiry'' [] \<noteq> [] \<and> dtext std w ''expiry'' [] \<noteq> [] \<and> dtext std d ''expiry'' [] \<noteq> dtext std w ''expiry'' []"
    | (differs) d ll wl b where "live = Some d" "levels_of std d = Inr ll" "levels_of std w = Inr wl"
      "bucket_of now (sp_interval_seconds pol) = Inr b" "materially_different wl ll (sp_switch_min_points pol)"
      "confirm_candidate std pol state w d wl ll now b = Inr (st', w')"
proof (cases live)
  case None
  with r w show ?thesis by (intro quiet) (simp_all add: decide_structure_def)
next
  case (Some d)
  show ?thesis
  proof (cases "d = [] \<or> levels_of std d = Inr []")
    case True
    then have "(if d = [] then Inr [] else levels_of std d) = Inr []" by auto
    with r w Some show ?thesis by (intro quiet) (simp_all add: decide_structure_def)
  next
    case False
    then obtain ll where ll: "levels_of std d = Inr ll" "ll \<noteq> []" using r Some by (auto simp: decide_structure_def rbind_eq_Inr_iff)
    obtain b where b: "bucket_of now (sp_interval_seconds pol) = Inr b"
      using r Some ll False by (auto simp: decide_structure_def rbind_eq_Inr_iff)
    let ?roll = "dtext std d ''expiry'' [] \<noteq> [] \<and> dtext std w ''expiry'' [] \<noteq> [] \<and> dtext std d ''expiry'' [] \<noteq> dtext std w ''expiry'' []"
    show ?thesis
    proof (cases "w = [] \<or> ?roll")
      case True
      with r Some ll b False show ?thesis
        by (intro anew [of d]) (auto simp: decide_structure_def Let_def replaced_def mapping_of_def rbind_eq_Inr_iff split: if_splits)
    next
      case stays: False
      then obtain wl where wl: "levels_of std w = Inr wl"
        using r Some ll b False by (auto simp: decide_structure_def Let_def rbind_eq_Inr_iff split: if_splits)
      show ?thesis
      proof (cases "materially_different wl ll (sp_switch_min_points pol)")
        case True
        with r Some ll b False stays wl show ?thesis
          by (intro differs [of d ll wl b]) (auto simp: decide_structure_def Let_def)
      next
        case same: False
        with r Some ll b False stays wl have c: "confirm_same std state w now b = Inr (st', w')"
          by (auto simp: decide_structure_def Let_def)
        then show ?thesis
          by (intro quiet confirm_same_levels [OF c]) (auto simp: confirm_same_def Let_def mapping_of_def rbind_eq_Inr_iff)
      qed
    qed
  qed
qed

lemma expired_candidate: "mapping_of (dget (expire_candidate std pol state now) ''candidate'') =
    (if candidate_expired std (mapping_of (dget state ''candidate'')) now (candidate_ttl pol) then []
     else mapping_of (dget state ''candidate''))"
  by (simp add: expire_candidate_def mapping_of_def)

lemma expired_stable: "dget (expire_candidate std pol state now) ''stable'' = dget state ''stable''"
  by (simp add: expire_candidate_def)

lemma dated_keeps:
  assumes "dated_structure std pol st now = Inr (st1, w1)"
  shows "mapping_of (dget st1 ''stable'') = w1" "levels_of std w1 = levels_of std (mapping_of (dget st ''stable''))"
    "dtext std w1 ''expiry'' [] = dtext std (mapping_of (dget st ''stable'')) ''expiry'' []"
    "dget st1 ''candidate'' = dget st ''candidate''" "w1 = [] \<longleftrightarrow> mapping_of (dget st ''stable'') = []"
  using assms
  by (auto simp: dated_structure_def Let_def rbind_eq_Inr_iff dtext_def mapping_of_def promoted_levels(1,2) dest: promoted_levels(3)
      split: if_splits pyval.splits)

lemma public_keeps:
  assumes "public_state std st w now band ttl = Inr r" "mapping_of (dget st ''stable'') = w"
  shows "levels_of std (mapping_of (dget r ''stable'')) = levels_of std w" "dget r ''candidate'' = dget st ''candidate''"
  using assms by (auto simp: public_state_def Let_def rbind_eq_Inr_iff mapping_of_def levels_of_def split: if_splits)

definition state_of :: "pydict option \<Rightarrow> pydict" where
  "state_of previous = (case previous of Some d \<Rightarrow> d | None \<Rightarrow> [])"

text \<open>The decision of an observation starts from a backed candidate, the expired one being none.\<close>

lemma advance_decides:
  assumes adv: "advance_stable_structure std pol previous live t = Inr (st', w')"
    and b: "state_backed std pol obs (state_of previous)" and n: "0 < sp_required_confirmations pol"
  obtains now st w st2 ps where "structure_utc t = Inr now" "decide_structure std pol st w live now = Inr (st2, w')"
    "mapping_of (dget st ''stable'') = w" "backed std pol obs (mapping_of (dget st ''candidate'')) w ps"
    "levels_of std w = levels_of std (mapping_of (dget (state_of previous) ''stable''))"
    "dtext std w ''expiry'' [] = dtext std (mapping_of (dget (state_of previous) ''stable'')) ''expiry'' []"
    "w = [] \<longleftrightarrow> mapping_of (dget (state_of previous) ''stable'') = []"
    "mapping_of (dget st ''candidate'') =
       (if candidate_expired std (mapping_of (dget (state_of previous) ''candidate'')) now (candidate_ttl pol) then []
        else mapping_of (dget (state_of previous) ''candidate''))"
    "mapping_of (dget st2 ''stable'') = w' \<Longrightarrow> levels_of std (mapping_of (dget st' ''stable'')) = levels_of std w'"
    "mapping_of (dget st2 ''stable'') = w' \<Longrightarrow> dget st' ''candidate'' = dget st2 ''candidate''"
proof -
  let ?prev = "state_of previous"
  from adv obtain now st1 w1 st2 where now: "structure_utc t = Inr now" and d1: "dated_structure std pol ?prev now = Inr (st1, w1)"
    and d2: "decide_structure std pol (expire_candidate std pol st1 now) w1 live now = Inr (st2, w')"
    and pub: "public_state std st2 w' now (sp_band_half_width_points pol) (candidate_ttl pol) = Inr st'"
    by (auto simp: advance_stable_structure_def state_of_def rbind_eq_Inr_iff)
  note dated = dated_keeps [OF d1]
  let ?st = "expire_candidate std pol st1 now"
  have c: "mapping_of (dget ?st ''candidate'') =
      (if candidate_expired std (mapping_of (dget ?prev ''candidate'')) now (candidate_ttl pol) then []
       else mapping_of (dget ?prev ''candidate''))"
    by (simp add: expired_candidate dated(4))
  obtain ps where "backed std pol obs (mapping_of (dget ?prev ''candidate'')) (mapping_of (dget ?prev ''stable'')) ps"
    using b by (auto simp: state_backed_def)
  then have "\<exists>ps. backed std pol obs (mapping_of (dget ?st ''candidate'')) w1 ps"
    using backed_Nil [OF n] unfolding c backed_levels [OF dated(2)] by auto
  then obtain qs where qs: "backed std pol obs (mapping_of (dget ?st ''candidate'')) w1 qs" ..
  show thesis
    by (rule that [OF now d2 _ qs dated(2,3,5) c public_keeps(1) [OF pub] public_keeps(2) [OF pub]])
      (simp_all add: expired_stable dated(1))
qed

lemma advance_backed:
  assumes adv: "advance_stable_structure std pol previous live t = Inr (st', w')"
    and b: "state_backed std pol obs (state_of previous)" and n: "2 \<le> sp_required_confirmations pol"
    and x: "obs_bucket pol (live, t) \<noteq> Inr 0"
  shows "state_backed std pol (obs @ [(live, t)]) st'"
proof -
  have n0: "0 < sp_required_confirmations pol" using n by simp
  show ?thesis
  proof (rule advance_decides [OF adv b n0])
    fix now st w st2 ps
    assume now: "structure_utc t = Inr now" and d: "decide_structure std pol st w live now = Inr (st2, w')"
      and w: "mapping_of (dget st ''stable'') = w" and ps: "backed std pol obs (mapping_of (dget st ''candidate'')) w ps"
      and pub: "mapping_of (dget st2 ''stable'') = w' \<Longrightarrow> levels_of std (mapping_of (dget st' ''stable'')) = levels_of std w'"
        "mapping_of (dget st2 ''stable'') = w' \<Longrightarrow> dget st' ''candidate'' = dget st2 ''candidate''"
    have keep: "state_backed std pol (obs @ [(live, t)]) st'"
      if "mapping_of (dget st2 ''stable'') = w'" "backed std pol (obs @ [(live, t)]) (mapping_of (dget st2 ''candidate'')) w' qs" for qs
      using that pub backed_levels [OF pub(1) [OF that(1)]] by (auto simp: state_backed_def)
    from d w show ?thesis
    proof (cases rule: decide_cases)
      case quiet
      have "\<exists>qs. backed std pol (obs @ [(live, t)]) (mapping_of (dget st2 ''candidate'')) w' qs"
        using quiet(3) backed_Nil [OF n0, of std "obs @ [(live, t)]" w] backed_more [OF ps, of "[(live, t)]"]
        unfolding backed_levels [OF quiet(2)] by auto
      then show ?thesis using keep [OF quiet(1)] by blast
    next
      case (anew d)
      then show ?thesis using keep [OF anew(1), of "[]"] backed_Nil [OF n0] by simp
    next
      case (differs d ll wl b)
      have x: "obs_bucket pol (Some d, t) = Inr b" "b \<noteq> 0" "votes_against std pol w (Some d, t)"
        using differs x now by (auto simp: obs_bucket_def votes_against_def)
      note step = confirm_candidate_backed [OF differs(6) ps x n w]
      have "\<exists>qs. backed std pol (obs @ [(live, t)]) (mapping_of (dget st2 ''candidate'')) w' qs"
        using step backed_Nil [OF n0, of std "obs @ [(live, t)]" w'] differs(1) by auto
      then show ?thesis using keep step by blast
    qed
  qed
qed

lemma run_backed:
  assumes "structure_run std pol previous xs = Inr st" "state_backed std pol obs (state_of previous)"
    and "2 \<le> sp_required_confirmations pol" "\<forall>p \<in> set xs. obs_bucket pol p \<noteq> Inr 0"
  shows "state_backed std pol (obs @ xs) (state_of st)"
  using assms
proof (induction xs arbitrary: previous obs)
  case (Cons x xs)
  obtain live t where x: "x = (live, t)" by (cases x)
  obtain st1 w1 where adv: "advance_stable_structure std pol previous live t = Inr (st1, w1)"
    and rest: "structure_run std pol (Some st1) xs = Inr st"
    using Cons.prems(1) by (auto simp: x rbind_eq_Inr_iff)
  have "state_backed std pol (obs @ [(live, t)]) (state_of (Some st1))"
    using advance_backed [OF adv Cons.prems(2,3)] Cons.prems(4) by (simp add: x state_of_def)
  then have "state_backed std pol ((obs @ [(live, t)]) @ xs) (state_of st)"
    by (rule Cons.IH [OF rest _ Cons.prems(3)]) (use Cons.prems(4) in simp)
  then show ?case by (simp add: x)
qed simp

text \<open>With a clock that does not run backwards, buckets do not either.\<close>

lemma trunc_rat_mono: "p \<le> q \<Longrightarrow> trunc_rat p \<le> trunc_rat q"
proof (cases "0 \<le> p")
  case True
  assume "p \<le> q"
  then show ?thesis using True by (simp add: trunc_rat_def floor_mono)
next
  case False
  assume "p \<le> q"
  then have "\<lfloor>- q\<rfloor> \<le> \<lfloor>- p\<rfloor>" by (intro floor_mono) simp
  moreover have "0 \<le> \<lfloor>- p\<rfloor>" using False by simp
  ultimately show ?thesis using False by (auto simp: trunc_rat_def intro: order_trans [of _ 0])
qed

lemma bucket_mono:
  assumes "bucket_of s i = Inr b" "bucket_of t i = Inr c" "s \<le> t" "0 < i"
  shows "b \<le> c"
proof -
  obtain p q where p: "total_seconds (s - unix_epoch) = Fin p" "b = trunc_rat p div i"
    and q: "total_seconds (t - unix_epoch) = Fin q" "c = trunc_rat q div i"
    using assms(1,2) by (auto simp: bucket_of_def py_int_def rbind_eq_Inr_iff split: pyfloat.splits if_splits)
  have "p \<le> q" using total_seconds_mono [of "s - unix_epoch" "t - unix_epoch"] assms(3) p(1) q(1) by simp
  then show ?thesis using p(2) q(2) assms(4) by (simp add: trunc_rat_mono zdiv_mono1)
qed

definition obs_instant :: "structure_obs \<Rightarrow> int" where
  "obs_instant p = dt_instant (snd p)"

lemma obs_bucket_mono:
  assumes "obs_bucket pol p = Inr b" "obs_bucket pol q = Inr c" "obs_instant p \<le> obs_instant q" "0 < sp_interval_seconds pol"
  shows "b \<le> c"
  using assms bucket_mono
  by (auto simp: obs_bucket_def obs_instant_def structure_utc_def rbind_eq_Inr_iff split: pydt.splits)

lemma subseq_sorted_wrt: "subseq xs ys \<Longrightarrow> sorted_wrt P ys \<Longrightarrow> sorted_wrt P xs"
  by (induction rule: list_emb.induct) (auto dest: list_emb_set)

text \<open>Observations in order of time and in neighbouring different buckets have increasing buckets.\<close>

lemma increasing_buckets:
  assumes "sorted_wrt (\<lambda>p q. obs_instant p \<le> obs_instant q) ps" "distinct_adj (map (obs_bucket pol) ps)"
    and "\<forall>p \<in> set ps. \<exists>b. obs_bucket pol p = Inr b" "0 < sp_interval_seconds pol"
  shows "\<exists>bs. map (obs_bucket pol) ps = map Inr bs \<and> sorted_wrt (<) bs"
  using assms
proof (induction ps)
  case (Cons p ps)
  obtain b where b: "obs_bucket pol p = Inr b" using Cons.prems(3) by auto
  have "distinct_adj (map (obs_bucket pol) ps)" using Cons.prems(2) by (auto dest: distinct_adj_ConsD)
  then obtain bs where bs: "map (obs_bucket pol) ps = map Inr bs" "sorted_wrt (<) bs" using Cons by auto
  have "b < c" if "c \<in> set bs" for c
  proof (cases ps)
    case Nil
    then show ?thesis using that bs(1) by simp
  next
    case (Cons q qs)
    then obtain b' bs' where b': "bs = b' # bs'" "obs_bucket pol q = Inr b'" using bs(1) by (cases bs) auto
    have "b \<noteq> b'" using Cons.prems(2) b b'(2) Cons by simp
    moreover have "b \<le> b'"
      using obs_bucket_mono [OF b b'(2)] Cons.prems(1,4) Cons by simp
    ultimately show ?thesis using that bs(2) b'(1) by auto
  qed
  then show ?case using b bs by (intro exI [of _ "b # bs"]) simp
qed simp

subsection \<open>When a promoted structure moves\<close>

lemma levels_of_Nil [simp]: "levels_of std [] = Inr []"
  by (simp add: levels_of_def)

lemma decision_moves:
  assumes d: "decide_structure std pol st w live now = Inr (st2, w')" and w: "mapping_of (dget st ''stable'') = w"
    and ps: "backed std pol obs (mapping_of (dget st ''candidate'')) w ps" and now: "structure_utc t = Inr now"
    and moved: "levels_of std w' \<noteq> levels_of std w" and pol: "2 \<le> sp_required_confirmations pol"
    and x: "obs_bucket pol (live, t) \<noteq> Inr 0"
  shows "\<exists>d ll. live = Some d \<and> levels_of std d = Inr ll
    \<and> (w = [] \<or> dtext std d ''expiry'' [] \<noteq> [] \<and> dtext std w ''expiry'' [] \<noteq> [] \<and> dtext std d ''expiry'' [] \<noteq> dtext std w ''expiry'' []
       \<or> int (length ps) + 1 = sp_required_confirmations pol \<and> list_all (votes_against std pol w) (ps @ [(live, t)])
         \<and> distinct_adj (map (obs_bucket pol) (ps @ [(live, t)]))
         \<and> (\<exists>cl. levels_of std (mapping_of (dget st ''candidate'')) = Inr cl
              \<and> \<not> materially_different cl ll (sp_band_half_width_points pol)))"
  using d w
proof (cases rule: decide_cases)
  case quiet
  then show ?thesis using moved by simp
next
  case (anew e)
  then have "levels_of std e \<noteq> Inl x" for x
    using d by (auto simp: decide_structure_def split: if_splits)
  then obtain el where "levels_of std e = Inr el" by (cases "levels_of std e") auto
  then show ?thesis using anew by auto
next
  case (differs e el wl b)
  have x: "obs_bucket pol (Some e, t) = Inr b" "b \<noteq> 0" "votes_against std pol w (Some e, t)"
    using differs x now by (auto simp: obs_bucket_def votes_against_def)
  have "list_all (votes_against std pol w) ps" using ps by (simp add: backed_def)
  then show ?thesis
    using confirm_candidate_backed [OF differs(6) ps x pol w] moved differs(1,2) x(3) by auto
qed

lemma structure_moves:
  assumes run: "structure_run std pol None obs = Inr (Some st)"
    and r: "advance_stable_structure std pol (Some st) live t = Inr (st', w')"
    and old: "mapping_of (dget st ''stable'') = w" "w \<noteq> []" and moved: "levels_of std w' \<noteq> levels_of std w"
    and pol: "2 \<le> sp_required_confirmations pol" and clock: "\<forall>p \<in> set (obs @ [(live, t)]). obs_bucket pol p \<noteq> Inr 0"
  obtains d ll now where "live = Some d" "levels_of std d = Inr ll" "structure_utc t = Inr now"
      "dtext std d ''expiry'' [] \<noteq> [] \<and> dtext std w ''expiry'' [] \<noteq> [] \<and> dtext std d ''expiry'' [] \<noteq> dtext std w ''expiry'' []"
    | d ll now ps cl where "live = Some d" "levels_of std d = Inr ll" "structure_utc t = Inr now"
      "subseq ps obs" "int (length (ps @ [(live, t)])) = sp_required_confirmations pol"
      "\<forall>p \<in> set (ps @ [(live, t)]). votes_against std pol w p" "distinct_adj (map (obs_bucket pol) (ps @ [(live, t)]))"
      "\<not> candidate_expired std (mapping_of (dget st ''candidate'')) now (candidate_ttl pol)"
      "levels_of std (mapping_of (dget st ''candidate'')) = Inr cl" "\<not> materially_different cl ll (sp_band_half_width_points pol)"
proof -
  have n0: "0 < sp_required_confirmations pol" using pol by simp
  have "state_backed std pol [] (state_of None)" using backed_Nil [OF n0] by (auto simp: state_backed_def state_of_def mapping_of_def)
  then have b: "state_backed std pol obs (state_of (Some st))"
    using run_backed [OF run _ pol, of "[]"] clock by simp
  show thesis
  proof (rule advance_decides [OF r b n0])
    fix now s0 w0 st2 ps
    assume now: "structure_utc t = Inr now" and d: "decide_structure std pol s0 w0 live now = Inr (st2, w')"
      and w0: "mapping_of (dget s0 ''stable'') = w0" and ps: "backed std pol obs (mapping_of (dget s0 ''candidate'')) w0 ps"
      and same: "levels_of std w0 = levels_of std (mapping_of (dget (state_of (Some st)) ''stable''))"
        "dtext std w0 ''expiry'' [] = dtext std (mapping_of (dget (state_of (Some st)) ''stable'')) ''expiry'' []"
        "w0 = [] \<longleftrightarrow> mapping_of (dget (state_of (Some st)) ''stable'') = []"
      and cand: "mapping_of (dget s0 ''candidate'') =
        (if candidate_expired std (mapping_of (dget (state_of (Some st)) ''candidate'')) now (candidate_ttl pol) then []
         else mapping_of (dget (state_of (Some st)) ''candidate''))"
    note same = same [unfolded state_of_def option.case old(1)] and cand = cand [unfolded state_of_def option.case]
    have votes: "votes_against std pol w0 = votes_against std pol w" using same(1) by (simp add: votes_against_def fun_eq_iff)
    have "levels_of std w' \<noteq> levels_of std w0" using moved same(1) by simp
    note moves = decision_moves [OF d w0 ps now this pol]
    have sub: "subseq ps obs" using ps by (simp add: backed_def)
    have alive: "\<not> candidate_expired std (mapping_of (dget st ''candidate'')) now (candidate_ttl pol)"
      if "int (length ps) + 1 = sp_required_confirmations pol"
      using ps that pol cand by (auto simp: backed_def)
    obtain e el where e: "live = Some e" "levels_of std e = Inr el"
      and why: "dtext std e ''expiry'' [] \<noteq> [] \<and> dtext std w ''expiry'' [] \<noteq> [] \<and> dtext std e ''expiry'' [] \<noteq> dtext std w ''expiry'' []
        \<or> int (length ps) + 1 = sp_required_confirmations pol \<and> list_all (votes_against std pol w) (ps @ [(live, t)])
          \<and> distinct_adj (map (obs_bucket pol) (ps @ [(live, t)]))
          \<and> (\<exists>cl. levels_of std (mapping_of (dget s0 ''candidate'')) = Inr cl
               \<and> \<not> materially_different cl el (sp_band_half_width_points pol))"
      using moves clock old(2) same(2,3) unfolding votes by auto
    from why show thesis
    proof
      assume "dtext std e ''expiry'' [] \<noteq> [] \<and> dtext std w ''expiry'' [] \<noteq> [] \<and> dtext std e ''expiry'' [] \<noteq> dtext std w ''expiry'' []"
      then show thesis by (rule that(1) [OF e now])
    next
      assume c: "int (length ps) + 1 = sp_required_confirmations pol \<and> list_all (votes_against std pol w) (ps @ [(live, t)])
          \<and> distinct_adj (map (obs_bucket pol) (ps @ [(live, t)]))
          \<and> (\<exists>cl. levels_of std (mapping_of (dget s0 ''candidate'')) = Inr cl
               \<and> \<not> materially_different cl el (sp_band_half_width_points pol))"
      then obtain cl where "levels_of std (mapping_of (dget st ''candidate'')) = Inr cl"
          "\<not> materially_different cl el (sp_band_half_width_points pol)"
        using alive cand by auto
      with c alive show thesis by (intro that(2) [OF e now sub]) (simp_all add: list_all_iff)
    qed
  qed
qed

text \<open>
  C7: A promoted structure does not flicker. In every state that a run of observations reaches, with a clock that does not run
  backwards, at least two required confirmations and a positive interval, an observation moves the levels of the
  promoted structure only on an expiry roll or as the last of the required number of observations of the run
  that each differ materially from the promoted structure and that lie in increasing, hence different, time
  buckets; it agrees with the unexpired candidate within the band. (The bucket that contains 1970-01-01
  is excluded: the code reads its number 0 as a missing one.)
\<close>

theorem structure_moves_only_confirmed:
  assumes run: "structure_run std pol None obs = Inr (Some st)"
    and r: "advance_stable_structure std pol (Some st) live t = Inr (st', w')"
    and old: "mapping_of (dget st ''stable'') = w" "w \<noteq> []" and moved: "levels_of std w' \<noteq> levels_of std w"
    and pol: "2 \<le> sp_required_confirmations pol" "0 < sp_interval_seconds pol"
    and clock: "sorted_wrt (\<lambda>p q. obs_instant p \<le> obs_instant q) (obs @ [(live, t)])"
      "\<forall>p \<in> set (obs @ [(live, t)]). obs_bucket pol p \<noteq> Inr 0"
  shows "\<exists>d ll now. live = Some d \<and> levels_of std d = Inr ll \<and> structure_utc t = Inr now
    \<and> (dtext std d ''expiry'' [] \<noteq> [] \<and> dtext std w ''expiry'' [] \<noteq> [] \<and> dtext std d ''expiry'' [] \<noteq> dtext std w ''expiry'' []
       \<or> (\<exists>ps bs cl. subseq ps obs \<and> int (length (ps @ [(live, t)])) = sp_required_confirmations pol
            \<and> (\<forall>p \<in> set (ps @ [(live, t)]). votes_against std pol w p)
            \<and> map (obs_bucket pol) (ps @ [(live, t)]) = map Inr bs \<and> sorted_wrt (<) bs
            \<and> \<not> candidate_expired std (mapping_of (dget st ''candidate'')) now (candidate_ttl pol)
            \<and> levels_of std (mapping_of (dget st ''candidate'')) = Inr cl
            \<and> \<not> materially_different cl ll (sp_band_half_width_points pol)))"
  using run r old moved pol(1) clock(2)
proof (rule structure_moves)
  fix d ll now ps cl
  assume now: "live = Some d" "levels_of std d = Inr ll" "structure_utc t = Inr now" and sub: "subseq ps obs"
    and n: "int (length (ps @ [(live, t)])) = sp_required_confirmations pol"
    and votes: "\<forall>p \<in> set (ps @ [(live, t)]). votes_against std pol w p"
    and apart: "distinct_adj (map (obs_bucket pol) (ps @ [(live, t)]))"
    and cand: "\<not> candidate_expired std (mapping_of (dget st ''candidate'')) now (candidate_ttl pol)"
      "levels_of std (mapping_of (dget st ''candidate'')) = Inr cl" "\<not> materially_different cl ll (sp_band_half_width_points pol)"
  have "subseq (ps @ [(live, t)]) (obs @ [(live, t)])" using sub by (simp add: list_emb_append_mono)
  note sorted = subseq_sorted_wrt [OF this clock(1)]
  have "\<forall>p \<in> set (ps @ [(live, t)]). \<exists>b. obs_bucket pol p = Inr b"
    using votes unfolding votes_against_def by blast
  then obtain bs where "map (obs_bucket pol) (ps @ [(live, t)]) = map Inr bs" "sorted_wrt (<) bs"
    using increasing_buckets [OF sorted apart _ pol(2)] by blast
  then show ?thesis using now sub n votes cand by (metis (no_types, lifting))
qed blast

text \<open>A call wall at 6000 that is replaced by one at 6100, seen in two buckets: the second sight confirms it.\<close>

definition sample_time :: "int \<Rightarrow> int" where
  "sample_time minute = 62135683800000000 + minute * 60 * us_per_second"

definition sample_structure :: "rat \<Rightarrow> pydict" where
  "sample_structure x = [(''levels'', VDict [(''call_wall'', VFloat (Fin x))]), (''expiry'', VStr ''20260105'')]"

definition sample_std :: py_std where
  "sample_std = \<lparr>std_str = (\<lambda>_. []), std_float = (\<lambda>_. None),
     std_fromiso = (\<lambda>s. map_option (\<lambda>m. Aware (sample_time m) 0) (map_of
        [(''1970-01-01T00:10:00+00:00'', 0), (''1970-01-01T00:15:00+00:00'', 5), (''1970-01-01T00:20:00+00:00'', 10)] s)),
     std_fmt_g = (\<lambda>_. []), std_sha256 = (\<lambda>_. [])\<rparr>"

definition sample_policy :: structure_policy where
  "sample_policy = \<lparr>sp_interval_seconds = 300, sp_required_confirmations = 2, sp_band_half_width_points = Fin 5,
     sp_switch_min_points = Fin 5\<rparr>"

definition sample_obs :: "structure_obs list" where
  "sample_obs = [(Some (sample_structure 6000), Aware (sample_time 0) 0), (Some (sample_structure 6100), Aware (sample_time 5) 0)]"

lemma sample_numbers:
  "round2 (Fin 5995) = Fin 5995" "round2 (Fin 6000) = Fin 6000" "round2 (Fin 6005) = Fin 6005"
  "round2 (Fin 6095) = Fin 6095" "round2 (Fin 6100) = Fin 6100" "round2 (Fin 6105) = Fin 6105"
  "fsub (Fin 6000) (Fin 5) = Fin 5995" "fadd (Fin 6000) (Fin 5) = Fin 6005"
  "fsub (Fin 6100) (Fin 5) = Fin 6095" "fadd (Fin 6100) (Fin 5) = Fin 6105"
  "materially_different [(''call_wall'', Fin 6000)] [(''call_wall'', Fin 6100)] (Fin 5)"
  "\<not> materially_different [(''call_wall'', Fin 6100)] [(''call_wall'', Fin 6100)] (Fin 5)"
  "median [Fin 6100] = Inr (Fin 6100)" "median [Fin 6100, Fin 6100] = Inr (Fin 6100)"
  by code_simp+

lemma sample_buckets:
  "bucket_of (sample_time 0) 300 = Inr 2" "bucket_of (sample_time 5) 300 = Inr 3" "bucket_of (sample_time 10) 300 = Inr 4"
  by code_simp+

lemma sample_times:
  "isoformat (sample_time 0) = ''1970-01-01T00:10:00+00:00''" "isoformat (sample_time 5) = ''1970-01-01T00:15:00+00:00''"
  "isoformat (sample_time 10) = ''1970-01-01T00:20:00+00:00''"
  "total_seconds (sample_time 5 - sample_time 0) = Fin 300" "total_seconds (sample_time 10 - sample_time 5) = Fin 300"
  "total_seconds (sample_time 10 - sample_time 0) = Fin 600" "total_seconds (sample_time 0 - sample_time 0) = Fin 0"
  "total_seconds (sample_time 5 - sample_time 5) = Fin 0" "total_seconds (sample_time 10 - sample_time 10) = Fin 0"
  by code_simp+

lemmas sample_evaluation = sample_numbers sample_buckets sample_times advance_stable_structure_def structure_utc_def
  dated_structure_def mapping_of_def expire_candidate_def candidate_expired_def decide_structure_def sample_structure_def
  levels_of_def level_names_def level_item_def is_number_def py_float_def sample_policy_def promoted_def Let_def replaced_def
  public_state_def vor_def py_int_def levels_value_def bands_def dset_def dmerge_def sample_obs_def last_seen_def
  structure_datetime_def sample_std_def candidate_ttl_def candidate_ttl_grace_seconds_def confirm_candidate_def
  candidate_samples_def iter_items_def List.map_filter_simps append_sample_def sample_bucket_def take_last_def median_levels_def
  sample_level_def ditem_def dtext_def elapsed_since_def

lemma rbind_weak_cong: "x = y \<Longrightarrow> rbind x f = rbind y f"
  by simp

lemma sample_run:
  "case structure_run sample_std sample_policy None sample_obs of
     Inr (Some st) \<Rightarrow>
       levels_of sample_std (mapping_of (dget st ''stable'')) = Inr [(''call_wall'', Fin 6000)]
       \<and> mapping_of (dget st ''stable'') \<noteq> [] \<and> dtext sample_std (mapping_of (dget st ''stable'')) ''expiry'' [] = ''20260105''
       \<and> (case advance_stable_structure sample_std sample_policy (Some st) (Some (sample_structure 6100)) (Aware (sample_time 10) 0) of
            Inr (st', w') \<Rightarrow> levels_of sample_std w' = Inr [(''call_wall'', Fin 6100)]
          | Inl _ \<Rightarrow> False)
   | _ \<Rightarrow> False"
  by (simp cong: rbind_weak_cong add: sample_evaluation)

lemma res_option_cases:
  fixes x :: "'a option res"
  obtains (error) e where "x = Inl e" | (none) "x = Inr None" | (some) a where "x = Inr (Some a)"
  by (cases x; cases "projr x") auto

lemma res_pair_cases:
  fixes x :: "('a \<times> 'b) res"
  obtains (error) e where "x = Inl e" | (result) a b where "x = Inr (a, b)"
  by (cases x; cases "projr x") auto

lemma structure_moves_only_confirmed_witness:
  "\<exists>st st' w' ps bs. structure_run sample_std sample_policy None sample_obs = Inr (Some st)
     \<and> advance_stable_structure sample_std sample_policy (Some st) (Some (sample_structure 6100)) (Aware (sample_time 10) 0) = Inr (st', w')
     \<and> levels_of sample_std w' = Inr [(''call_wall'', Fin 6100)]
     \<and> subseq ps sample_obs \<and> length ps = 1 \<and> sorted_wrt (<) bs
     \<and> map (obs_bucket sample_policy) (ps @ [(Some (sample_structure 6100), Aware (sample_time 10) 0)]) = map Inr bs"
proof -
  let ?x = "(Some (sample_structure 6100), Aware (sample_time 10) 0)"
  obtain st where run: "structure_run sample_std sample_policy None sample_obs = Inr (Some st)"
    using sample_run by (cases "structure_run sample_std sample_policy None sample_obs" rule: res_option_cases) simp_all
  obtain st' w' where r: "advance_stable_structure sample_std sample_policy (Some st) (Some (sample_structure 6100)) (Aware (sample_time 10) 0) = Inr (st', w')"
    using sample_run [unfolded run]
    by (cases "advance_stable_structure sample_std sample_policy (Some st) (Some (sample_structure 6100)) (Aware (sample_time 10) 0)"
        rule: res_pair_cases) simp_all
  have w: "levels_of sample_std (mapping_of (dget st ''stable'')) = Inr [(''call_wall'', Fin 6000)]"
      "mapping_of (dget st ''stable'') \<noteq> []" "dtext sample_std (mapping_of (dget st ''stable'')) ''expiry'' [] = ''20260105''"
    and w': "levels_of sample_std w' = Inr [(''call_wall'', Fin 6100)]"
    using sample_run by (simp_all add: run r)
  have pol: "2 \<le> sp_required_confirmations sample_policy" "0 < sp_interval_seconds sample_policy"
      "sp_required_confirmations sample_policy = 2"
    by (simp_all add: sample_policy_def)
  have clock: "sorted_wrt (\<lambda>p q. obs_instant p \<le> obs_instant q) (sample_obs @ [?x])"
    by (simp add: sample_obs_def obs_instant_def sample_time_def)
  have buckets: "\<forall>p \<in> set (sample_obs @ [?x]). obs_bucket sample_policy p \<noteq> Inr 0"
    by (simp add: sample_obs_def obs_bucket_def structure_utc_def sample_policy_def sample_buckets)
  have same: "dtext sample_std (sample_structure 6100) ''expiry'' [] = ''20260105''"
    by (simp add: sample_structure_def dtext_def vor_def)
  have "levels_of sample_std w' \<noteq> levels_of sample_std (mapping_of (dget st ''stable''))" using w(1) w' by simp
  from structure_moves_only_confirmed [OF run r refl w(2) this pol(1,2) clock buckets] same w(3) pol(3)
  show ?thesis using run r w' by (auto simp del: map_append)
qed

end
