(* ===== verification/Py_Text.thy ===== *)
theory Py_Text
  imports Py_Value
begin

section \<open>Texts: splitting, prefixes and JSON\<close>

text \<open>\<^verbatim>\<open>text.split(c)\<close>, \<^verbatim>\<open>startswith\<close>, \<^verbatim>\<open>endswith\<close>, and the JSON text of dynamic values.\<close>

fun split_char :: "char \<Rightarrow> string \<Rightarrow> string list" where
  "split_char c [] = [[]]"
| "split_char c (x # xs) =
     (if x = c then [] # split_char c xs
      else (case split_char c xs of [] \<Rightarrow> [[x]] | y # ys \<Rightarrow> (x # y) # ys))"

definition starts_with :: "string \<Rightarrow> string \<Rightarrow> bool" where
  "starts_with prefix s \<longleftrightarrow> take (length prefix) s = prefix"

definition ends_with :: "string \<Rightarrow> string \<Rightarrow> bool" where
  "ends_with suffix s \<longleftrightarrow> starts_with (rev suffix) (rev s)"

definition hex_digit :: "nat \<Rightarrow> char" where
  "hex_digit n = char_of (if n < 10 then 48 + n else 87 + n)"

text \<open>\<^verbatim>\<open>json.dumps\<close> of an ASCII text with \<^verbatim>\<open>ensure_ascii=False\<close>, and the separators \<^verbatim>\<open>(',', ':')\<close>.\<close>

definition json_char :: "char \<Rightarrow> string" where
  "json_char c =
     (if c = CHR 0x22 then [CHR 0x5C, c] else if c = CHR 0x5C then [c, c]
      else if c = CHR 0x0A then [CHR 0x5C, CHR ''n''] else if c = CHR 0x0D then [CHR 0x5C, CHR ''r'']
      else if c = CHR 0x09 then [CHR 0x5C, CHR ''t''] else if c = CHR 0x0C then [CHR 0x5C, CHR ''f'']
      else if c = CHR 0x08 then [CHR 0x5C, CHR ''b'']
      else let n = of_char c :: nat in
        if n < 32 then CHR 0x5C # ''u00'' @ [hex_digit (n div 16), hex_digit (n mod 16)] else [c])"

definition json_quote :: "string \<Rightarrow> string" where
  "json_quote s = CHR 0x22 # concat (map json_char s) @ [CHR 0x22]"

fun join_comma :: "string list \<Rightarrow> string" where
  "join_comma [] = []"
| "join_comma [x] = x"
| "join_comma (x # y # ys) = x @ '','' @ join_comma (y # ys)"

text \<open>With \<^verbatim>\<open>ensure_ascii=True\<close> the character 127 is escaped as well.\<close>

definition json_ascii_char :: "char \<Rightarrow> string" where
  "json_ascii_char c = (if c = CHR 0x7F then CHR 0x5C # ''u007f'' else json_char c)"

definition json_ascii_quote :: "string \<Rightarrow> string" where
  "json_ascii_quote s = CHR 0x22 # concat (map json_ascii_char s) @ [CHR 0x22]"

text \<open>\<^verbatim>\<open>json.dumps(value, ensure_ascii=True, sort_keys=True, separators=(',', ':'))\<close> of a value without datetimes.\<close>

definition json_float :: "py_std \<Rightarrow> pyfloat \<Rightarrow> string" where
  "json_float std x =
     (case x of Fin _ \<Rightarrow> std_str std (VFloat x) | PInf \<Rightarrow> ''Infinity'' | NInf \<Rightarrow> ''-Infinity'' | NaN \<Rightarrow> ''NaN'')"

fun json_text :: "py_std \<Rightarrow> pyval \<Rightarrow> string" where
  "json_text std VNone = ''null''"
| "json_text std (VBool b) = (if b then ''true'' else ''false'')"
| "json_text std (VInt i) = dec_int i"
| "json_text std (VFloat x) = json_float std x"
| "json_text std (VStr s) = json_ascii_quote s"
| "json_text std (VTime t) = std_str std (VTime t)"
| "json_text std (VList xs) = ''['' @ join_comma (map (json_text std) xs) @ '']''"
| "json_text std (VDict d) =
     ''{'' @ join_comma (map snd (sort_key fst (map (\<lambda>(k, v). (k, json_ascii_quote k @ '':'' @ json_text std v)) d))) @ ''}''"

subsection \<open>Stripped texts\<close>

lemma dropWhile_idem_hd: "dropWhile P xs = xs \<longleftrightarrow> xs = [] \<or> \<not> P (hd xs)"
  by (cases xs) (auto simp: dropWhile_eq_Cons_conv)

lemma str_strip_idem [simp]: "str_strip (str_strip s) = str_strip s"
proof -
  let ?a = "dropWhile is_blank s"
  let ?b = "dropWhile is_blank (rev ?a)"
  have "dropWhile is_blank (rev ?b) = rev ?b"
  proof (cases "?b = []")
    case True
    then show ?thesis by (simp only: rev.simps dropWhile.simps)
  next
    case False
    then obtain pre where pre: "rev ?a = pre @ ?b" by (metis takeWhile_dropWhile_id)
    then have a: "?a = rev ?b @ rev pre" by (metis rev_append rev_rev_ident)
    have "?a \<noteq> []" using False a by (metis append_is_Nil_conv rev_is_Nil_conv)
    then have "\<not> is_blank (hd ?a)" by (rule hd_dropWhile)
    moreover have "hd ?a = hd (rev ?b)" using False a by (metis hd_append2 rev_is_Nil_conv)
    ultimately show ?thesis by (simp add: dropWhile_idem_hd)
  qed
  then show ?thesis by (simp add: str_strip_def)
qed

subsection \<open>Numerals and separators\<close>

text \<open>Decimal texts determine their number.\<close>

lemma digits_value_append: "digits_value (s @ [c]) = 10 * digits_value s + int (of_char c - 48)"
  by (simp add: digits_value_def)

lemma digits_value_dec_nat: "digits_value (dec_nat n) = int n"
proof (induction n rule: less_induct)
  case (less n)
  show ?case
  proof (cases "n < 10")
    case True
    then show ?thesis by (subst dec_nat.simps) (simp add: digits_value_def)
  next
    case False
    then have "digits_value (dec_nat n) = 10 * int (n div 10) + int (n mod 10)"
      using less.IH [of "n div 10"] by (subst dec_nat.simps) (simp add: digits_value_append)
    then show ?thesis by presburger
  qed
qed

lemma dec_nat_inject [simp]: "dec_nat m = dec_nat n \<longleftrightarrow> m = n"
  by (metis digits_value_dec_nat of_nat_eq_iff)

lemma dec_nat_not_minus [simp]: "dec_nat n \<noteq> CHR ''-'' # s" "CHR ''-'' # s \<noteq> dec_nat n"
proof -
  have "\<not> is_digit (CHR ''-'')" by (simp add: is_digit_def)
  then have "CHR ''-'' \<notin> set (dec_nat n)" using dec_nat_digits [of n] by blast
  then show "dec_nat n \<noteq> CHR ''-'' # s" "CHR ''-'' # s \<noteq> dec_nat n"
    by (metis list.set_intros(1))+
qed

lemma dec_int_inject [simp]: "dec_int i = dec_int j \<longleftrightarrow> i = j"
  by (simp add: dec_int_def nat_eq_iff)

lemma dec_int_no_colon: "CHR '':'' \<notin> set (dec_int i)"
proof -
  have "CHR '':'' \<notin> set (dec_nat n)" for n
    using dec_nat_digits [of n] by (auto simp: is_digit_def)
  then show ?thesis by (simp add: dec_int_def)
qed

lemma append_colon_inject:
  "CHR '':'' \<notin> set a \<Longrightarrow> CHR '':'' \<notin> set b \<Longrightarrow> a @ CHR '':'' # x = b @ CHR '':'' # y \<longleftrightarrow> a = b \<and> x = y"
  by (auto simp: append_eq_append_conv2 Cons_eq_append_conv append_eq_Cons_conv)

end
