(* ===== verification/Lake_Layout.thy ===== *)
theory Lake_Layout
  imports Py_Dict Py_Text "HOL-Library.Product_Lexorder"
begin

section \<open>Paths, partitions, snapshots and manifests of the data lake\<close>

text \<open>
  The vocabulary of the compactor: raw hourly partitions and the paths derived from them
  (\<^verbatim>\<open>lake/layout.py\<close>), file snapshots and row counts (\<^verbatim>\<open>lake/compact_support.py\<close>), compaction
  manifests (\<^verbatim>\<open>lake/manifest.py\<close>) and their identifiers (\<^verbatim>\<open>data_platform/ids.py\<close>). A path is the
  list of its components. What the operating system and DuckDB answer to a call is an
  argument of the definition that makes the call, an exception included, so that other
  processes may change the files between any two calls.
\<close>

subsection \<open>Input and output errors\<close>

text \<open>An exception with its class name and text; the code tells three classes apart.\<close>

datatype io_error = OSError string string | RuntimeError string | OtherError string string

type_synonym 'a io = "io_error + 'a"

definition exc_text :: "io_error \<Rightarrow> string" where
  "exc_text e =
     (case e of OSError name text \<Rightarrow> name @ '': '' @ text
      | RuntimeError text \<Rightarrow> ''RuntimeError: '' @ text
      | OtherError name text \<Rightarrow> name @ '': '' @ text)"

definition ibind :: "'a io \<Rightarrow> ('a \<Rightarrow> 'b io) \<Rightarrow> 'b io" where
  "ibind r f = (case r of Inl e \<Rightarrow> Inl e | Inr x \<Rightarrow> f x)"

lemma ibind_simps [simp]: "ibind (Inl e) f = Inl e" "ibind (Inr x) f = f x"
  by (simp_all add: ibind_def)

lemma ibind_eq_Inr_iff: "ibind r f = Inr y \<longleftrightarrow> (\<exists>x. r = Inr x \<and> f x = Inr y)"
  by (cases r) auto

definition value_error :: "string \<Rightarrow> io_error" where
  "value_error text = OtherError ''ValueError'' text"

subsection \<open>Paths\<close>

type_synonym path = "string list"

fun join_slash :: "string list \<Rightarrow> string" where
  "join_slash [] = []"
| "join_slash [x] = x"
| "join_slash (x # y # ys) = x @ ''/'' @ join_slash (y # ys)"

text \<open>\<^verbatim>\<open>str(p)\<close>, \<^verbatim>\<open>p.as_posix()\<close>: the first component of an absolute path is the root.\<close>

definition path_text :: "path \<Rightarrow> string" where
  "path_text p =
     (case p of [] \<Rightarrow> ''.'' | a # ps \<Rightarrow> if a = ''/'' then ''/'' @ join_slash ps else join_slash p)"

text \<open>\<^verbatim>\<open>Path(text).parts\<close> of a relative path, and the components \<^verbatim>\<open>base / text\<close> adds.\<close>

definition rel_parts :: "string \<Rightarrow> path" where
  "rel_parts text = filter (\<lambda>s. s \<noteq> [] \<and> s \<noteq> ''.'') (split_char (CHR ''/'') text)"

definition relative_to :: "path \<Rightarrow> path \<Rightarrow> path option" where
  "relative_to p base = (if take (length base) p = base then Some (drop (length base) p) else None)"

definition relative_posix :: "path \<Rightarrow> path \<Rightarrow> string io" where
  "relative_posix p base =
     (case relative_to p base of
        Some rel \<Rightarrow> Inr (path_text rel)
      | None \<Rightarrow> Inl (value_error (CHR 0x27 # path_text p @ [CHR 0x27] @ '' is not in the subpath of '' @ [CHR 0x27] @ path_text base @ [CHR 0x27])))"

definition path_name :: "path \<Rightarrow> string" where
  "path_name p = (if p = [] \<or> last p = ''/'' then [] else last p)"

text \<open>\<^verbatim>\<open>p.with_name(name)\<close>.\<close>

definition with_name :: "path \<Rightarrow> string \<Rightarrow> path" where
  "with_name p name = butlast p @ [name]"

subsection \<open>Raw partitions (\<^verbatim>\<open>layout.py\<close>)\<close>

definition quote_schema_version :: string where "quote_schema_version = ''v1''"

definition quote_writer_version :: string where "quote_writer_version = ''spx-spark-quote-compactor-v1''"

record raw_quote_partition =
  rp_data_root :: path
  rp_source_path :: path
  rp_provider :: string
  rp_session_date :: string
  rp_hour :: int

text \<open>
  \<^verbatim>\<open>datetime.strptime(s, '%Y-%m-%d')\<close>: a year of four digits, a month and a day of one or two
  digits (the day may have a blank for its first digit), and the whole text. \<open>None\<close> stands for the \<^verbatim>\<open>ValueError\<close>.
\<close>

definition field_1_2 :: "int \<Rightarrow> string \<Rightarrow> int option" where
  "field_1_2 hi t =
     (if list_all is_digit t \<and> length t \<in> {1, 2} \<and> 1 \<le> digits_value t \<and> digits_value t \<le> hi
      then Some (digits_value t) else None)"

definition day_field :: "string \<Rightarrow> int option" where
  "day_field t =
     (case t of [a, b] \<Rightarrow> if a = CHR '' '' then field_1_2 9 [b] else field_1_2 31 t | _ \<Rightarrow> field_1_2 31 t)"

definition strptime_date :: "string \<Rightarrow> int option" where
  "strptime_date s =
     (case split_char (CHR ''-'') s of
        [y, m, d] \<Rightarrow>
          if length y = 4 \<and> list_all is_digit y then
            (case (field_1_2 12 m, day_field d) of
               (Some mm, Some dd) \<Rightarrow>
                 if 1 \<le> digits_value y \<and> valid_ymd (digits_value y) mm dd then Some (ymd (digits_value y) mm dd) else None
             | _ \<Rightarrow> None)
          else None
      | _ \<Rightarrow> None)"

definition fmt02 :: "int \<Rightarrow> string" where
  "fmt02 h = (if h < 0 then dec_int h else pad_dec 2 h)"

definition start_at :: "raw_quote_partition \<Rightarrow> int io" where
  "start_at p =
     (case strptime_date (rp_session_date p) of
        Some day \<Rightarrow>
          if 0 \<le> rp_hour p \<and> rp_hour p \<le> 23 then Inr (combine day (hhmm (rp_hour p) 0))
          else Inl (value_error ''time data does not match format'')
      | None \<Rightarrow> Inl (value_error ''time data does not match format''))"

definition end_at :: "raw_quote_partition \<Rightarrow> int io" where
  "end_at p = ibind (start_at p) (\<lambda>t. Inr (t + hhmm 1 0))"

definition source_relative_path :: "raw_quote_partition \<Rightarrow> string io" where
  "source_relative_path p = relative_posix (rp_source_path p) (rp_data_root p)"

definition hour_dirs :: "raw_quote_partition \<Rightarrow> path" where
  "hour_dirs p = concat (map rel_parts
     [''schema='' @ quote_schema_version, ''date='' @ rp_session_date p, ''provider='' @ rp_provider p,
      ''hour='' @ fmt02 (rp_hour p)])"

definition parquet_path :: "raw_quote_partition \<Rightarrow> path" where
  "parquet_path p = rp_data_root p @ [''lake'', ''quotes''] @ hour_dirs p @ [''quotes.parquet'']"

definition manifest_path :: "raw_quote_partition \<Rightarrow> path" where
  "manifest_path p = rp_data_root p @ [''manifests'', ''compaction''] @ hour_dirs p @ [''quotes.json'']"

definition after_prefix :: "string \<Rightarrow> string \<Rightarrow> string" where
  "after_prefix prefix s = str_strip (if starts_with prefix s then drop (length prefix) s else s)"

definition parse_raw_quote_partition :: "path \<Rightarrow> path \<Rightarrow> raw_quote_partition option" where
  "parse_raw_quote_partition base p =
     (case relative_to p (base @ [''raw'']) of
        Some [provider_part, date_part, hour_part, _] \<Rightarrow>
          if \<not> starts_with ''provider='' provider_part then None
          else if \<not> starts_with ''date='' date_part \<or> \<not> starts_with ''hour='' hour_part then None
          else
            let provider = after_prefix ''provider='' provider_part;
                session_date = after_prefix ''date='' date_part;
                hour_raw = after_prefix ''hour='' hour_part
            in if provider = [] \<or> CHR ''/'' \<in> set provider \<or> CHR 0x5C \<in> set provider then None
               else (case (strptime_date session_date, int_of_text hour_raw) of
                   (Some _, Some hour) \<Rightarrow>
                     if \<not> (0 \<le> hour \<and> hour \<le> 23) \<or> hour_raw \<noteq> fmt02 hour then None
                     else Some \<lparr>rp_data_root = base, rp_source_path = p, rp_provider = provider,
                                rp_session_date = session_date, rp_hour = hour\<rparr>
                 | _ \<Rightarrow> None)
      | _ \<Rightarrow> None)"

text \<open>
  \<open>found\<close> is what the glob of the hourly landing files yields, each path with the answer of
  \<^verbatim>\<open>is_file\<close>; \<open>None\<close> is a missing raw directory.
\<close>

definition discover_raw_quote_partitions :: "path \<Rightarrow> (path \<times> bool) list option \<Rightarrow> raw_quote_partition list" where
  "discover_raw_quote_partitions base found =
     (case found of
        None \<Rightarrow> []
      | Some paths \<Rightarrow>
          sort_key (\<lambda>p. (rp_session_date p, rp_hour p, rp_provider p, path_text (rp_source_path p)))
            (List.map_filter (\<lambda>(p, is_file). if is_file then parse_raw_quote_partition base p else None) paths))"

subsection \<open>Snapshots and row counts (\<^verbatim>\<open>compact_support.py\<close>)\<close>

record file_stat =
  st_size :: int
  st_mtime_ns :: int
  st_mtime :: pyfloat

record source_snapshot =
  ss_size :: int
  ss_mtime_ns :: int
  ss_sha256 :: string

text \<open>The answers to the calls of one \<^verbatim>\<open>snapshot_source\<close>: two stats around the reads.\<close>

record file_reads =
  fr_before :: "file_stat io"
  fr_chunks :: "string list io"
  fr_after :: "file_stat io"

text \<open>The loop over \<^verbatim>\<open>handle.read(n)\<close> ends at the first empty chunk.\<close>

fun read_loop :: "string list \<Rightarrow> string" where
  "read_loop [] = []"
| "read_loop (chunk # chunks) = (if chunk = [] then [] else chunk @ read_loop chunks)"

definition snapshot_source :: "py_std \<Rightarrow> path \<Rightarrow> file_reads \<Rightarrow> source_snapshot io" where
  "snapshot_source std p reads =
     ibind (fr_before reads) (\<lambda>before.
     ibind (fr_chunks reads) (\<lambda>chunks.
     ibind (fr_after reads) (\<lambda>after.
       if st_size before \<noteq> st_size after \<or> st_mtime_ns before \<noteq> st_mtime_ns after
       then Inl (RuntimeError (''source changed while hashing: '' @ path_text p))
       else Inr \<lparr>ss_size = st_size after, ss_mtime_ns = st_mtime_ns after,
                 ss_sha256 = std_sha256 std (read_loop chunks)\<rparr>)))"

text \<open>Lines of a binary file keep their newline; \<^verbatim>\<open>bytes.strip\<close> removes six characters.\<close>

fun byte_lines :: "string \<Rightarrow> string list" where
  "byte_lines [] = []"
| "byte_lines (c # cs) =
     (if c = CHR 0x0A then [c] # byte_lines cs
      else (case byte_lines cs of [] \<Rightarrow> [[c]] | l # ls \<Rightarrow> (c # l) # ls))"

definition byte_blank :: "char \<Rightarrow> bool" where
  "byte_blank c = (let n = of_char c :: nat in n = 32 \<or> 9 \<le> n \<and> n \<le> 13)"

definition count_jsonl_rows :: "string io \<Rightarrow> int io" where
  "count_jsonl_rows content =
     ibind content (\<lambda>text. Inr (int (length (filter (\<lambda>l. \<not> list_all byte_blank l) (byte_lines text)))))"

text \<open>\<open>answer\<close> is the row DuckDB returns for the count.\<close>

definition count_parquet_rows :: "path \<Rightarrow> int option io \<Rightarrow> int io" where
  "count_parquet_rows p answer =
     ibind answer (\<lambda>row. case row of Some n \<Rightarrow> Inr n
       | None \<Rightarrow> Inl (RuntimeError (''unable to count parquet rows: '' @ path_text p)))"

subsection \<open>Identifiers (\<^verbatim>\<open>ids.py\<close>)\<close>

definition kind_char :: "char \<Rightarrow> bool" where
  "kind_char c = (let n = of_char c :: nat in 97 \<le> n \<and> n \<le> 122 \<or> 48 \<le> n \<and> n \<le> 57 \<or> n = 95)"

text \<open>\<^verbatim>\<open>deterministic_id\<close> on text components, which \<^verbatim>\<open>_canonical\<close> leaves as they are.\<close>

definition deterministic_id :: "py_std \<Rightarrow> string \<Rightarrow> string list \<Rightarrow> string res" where
  "deterministic_id std kind components =
     (let normalized = map (\<lambda>c. if c = CHR ''-'' then CHR ''_'' else c) (str_lower (str_strip kind)) in
      if normalized = [] \<or> \<not> list_all kind_char normalized
      then Inl (ValueError ''identifier kind must be alphanumeric with optional underscores'')
      else
        let payload = ''['' @ join_comma (map json_quote components) @ '']'';
            digest = std_sha256 std (''spx-spark-data-platform-id-v1'' @ [CHR 0x00] @ normalized @ [CHR 0x00] @ payload)
        in Inr (normalized @ ''_'' @ take 32 digest))"

definition make_compaction_manifest_id :: "py_std \<Rightarrow> string \<Rightarrow> string \<Rightarrow> string res" where
  "make_compaction_manifest_id std source_path source_sha256 = deterministic_id std ''compact'' [source_path, source_sha256]"

subsection \<open>Manifests (\<^verbatim>\<open>manifest.py\<close>)\<close>

definition manifest_version_1 :: int where "manifest_version_1 = 1"

record manifest =
  mf_manifest_version :: int
  mf_dataset :: string
  mf_schema_version :: string
  mf_writer_version :: string
  mf_status :: string
  mf_source_path :: string
  mf_source_size :: int
  mf_source_mtime_ns :: int
  mf_source_sha256 :: string
  mf_output_path :: "string option"
  mf_output_size :: "int option"
  mf_output_sha256 :: "string option"
  mf_row_count :: int
  mf_min_received_at :: "string option"
  mf_max_received_at :: "string option"
  mf_min_source_at :: "string option"
  mf_max_source_at :: "string option"
  mf_completed_at :: string

definition manifest_id :: "py_std \<Rightarrow> manifest \<Rightarrow> string res" where
  "manifest_id std m = make_compaction_manifest_id std (mf_source_path m) (mf_source_sha256 m)"

definition opt_text :: "string option \<Rightarrow> pyval" where
  "opt_text x = (case x of Some s \<Rightarrow> VStr s | None \<Rightarrow> VNone)"

definition opt_int :: "int option \<Rightarrow> pyval" where
  "opt_int x = (case x of Some i \<Rightarrow> VInt i | None \<Rightarrow> VNone)"

definition manifest_to_dict :: "py_std \<Rightarrow> manifest \<Rightarrow> pydict res" where
  "manifest_to_dict std m =
     rbind (manifest_id std m) (\<lambda>mid. Inr
       [(''manifest_version'', VInt (mf_manifest_version m)), (''dataset'', VStr (mf_dataset m)),
        (''schema_version'', VStr (mf_schema_version m)), (''writer_version'', VStr (mf_writer_version m)),
        (''status'', VStr (mf_status m)), (''source_path'', VStr (mf_source_path m)),
        (''source_size'', VInt (mf_source_size m)), (''source_mtime_ns'', VInt (mf_source_mtime_ns m)),
        (''source_sha256'', VStr (mf_source_sha256 m)), (''output_path'', opt_text (mf_output_path m)),
        (''output_size'', opt_int (mf_output_size m)), (''output_sha256'', opt_text (mf_output_sha256 m)),
        (''row_count'', VInt (mf_row_count m)), (''min_received_at'', opt_text (mf_min_received_at m)),
        (''max_received_at'', opt_text (mf_max_received_at m)), (''min_source_at'', opt_text (mf_min_source_at m)),
        (''max_source_at'', opt_text (mf_max_source_at m)), (''completed_at'', VStr (mf_completed_at m)),
        (''manifest_id'', VStr mid)])"

definition int_item :: "pydict \<Rightarrow> string \<Rightarrow> int res" where
  "int_item d k = rbind (ditem d k) py_int"

definition str_item :: "py_std \<Rightarrow> pydict \<Rightarrow> string \<Rightarrow> string res" where
  "str_item std d k = rbind (ditem d k) (\<lambda>v. Inr (py_str std v))"

text \<open>\<^verbatim>\<open>str(d[k]) if d.get(k) else None\<close>, and \<^verbatim>\<open>_optional_str(d.get(k))\<close>.\<close>

definition true_text :: "py_std \<Rightarrow> pyval \<Rightarrow> string option" where
  "true_text std v = (if py_true v then Some (py_str std v) else None)"

definition optional_str :: "py_std \<Rightarrow> pyval \<Rightarrow> string option" where
  "optional_str std v = (if v = VNone then None else Some (py_str std v))"

text \<open>\<^verbatim>\<open>int(v) if v is not None else None\<close>.\<close>

definition optional_int :: "pyval \<Rightarrow> int option res" where
  "optional_int v = (if v = VNone then Inr None else rbind (py_int v) (\<lambda>i. Inr (Some i)))"

definition manifest_from_dict :: "py_std \<Rightarrow> pydict \<Rightarrow> manifest res" where
  "manifest_from_dict std d =
     rbind (int_item d ''manifest_version'') (\<lambda>version.
     rbind (str_item std d ''dataset'') (\<lambda>dataset.
     rbind (str_item std d ''schema_version'') (\<lambda>schema.
     rbind (str_item std d ''writer_version'') (\<lambda>writer.
     rbind (str_item std d ''status'') (\<lambda>status.
     rbind (str_item std d ''source_path'') (\<lambda>source_path.
     rbind (int_item d ''source_size'') (\<lambda>source_size.
     rbind (int_item d ''source_mtime_ns'') (\<lambda>source_mtime_ns.
     rbind (str_item std d ''source_sha256'') (\<lambda>source_sha256.
     rbind (optional_int (dget d ''output_size'')) (\<lambda>output_size.
     rbind (int_item d ''row_count'') (\<lambda>row_count.
     rbind (str_item std d ''completed_at'') (\<lambda>completed_at.
       let m = \<lparr>mf_manifest_version = version, mf_dataset = dataset, mf_schema_version = schema,
                mf_writer_version = writer, mf_status = status, mf_source_path = source_path,
                mf_source_size = source_size, mf_source_mtime_ns = source_mtime_ns,
                mf_source_sha256 = source_sha256, mf_output_path = true_text std (dget d ''output_path''),
                mf_output_size = output_size, mf_output_sha256 = true_text std (dget d ''output_sha256''),
                mf_row_count = row_count,
                mf_min_received_at = optional_str std (dget d ''min_received_at''),
                mf_max_received_at = optional_str std (dget d ''max_received_at''),
                mf_min_source_at = optional_str std (dget d ''min_source_at''),
                mf_max_source_at = optional_str std (dget d ''max_source_at''),
                mf_completed_at = completed_at\<rparr>
       in rbind (manifest_id std m) (\<lambda>mid.
          rbind (guard_raise (dget d ''manifest_id'' \<noteq> VNone \<and> py_str std (dget d ''manifest_id'') \<noteq> mid)
                  (ValueError ''manifest_id does not match source lineage'')) (\<lambda>_. Inr m))))))))))))))"

text \<open>
  \<^verbatim>\<open>load_manifest\<close>: \<open>payload\<close> is the decoded file, \<open>None\<close> when it is absent, unreadable or not
  JSON. An \<^verbatim>\<open>OverflowError\<close> of \<^verbatim>\<open>int\<close> is not among the exceptions it catches.
\<close>

definition load_manifest :: "py_std \<Rightarrow> pyval option \<Rightarrow> manifest option io" where
  "load_manifest std payload =
     (case payload of
        Some (VDict d) \<Rightarrow>
          (case manifest_from_dict std d of
             Inr m \<Rightarrow> Inr (if mf_manifest_version m \<noteq> manifest_version_1 then None else Some m)
           | Inl OverflowError \<Rightarrow> Inl (OtherError ''OverflowError'' ''cannot convert float infinity to integer'')
           | Inl _ \<Rightarrow> Inr None)
      | _ \<Rightarrow> Inr None)"

subsection \<open>Properties\<close>

lemma compact_id_ok [simp]: "\<exists>mid. manifest_id std m = Inr mid"
  by (simp add: manifest_id_def make_compaction_manifest_id_def deterministic_id_def str_strip_def
      str_lower_def lower_char_def is_blank_def kind_char_def Let_def)

text \<open>Manifests the compactor writes: no empty text where \<^verbatim>\<open>None\<close> is read back.\<close>

definition manifest_wf :: "manifest \<Rightarrow> bool" where
  "manifest_wf m \<longleftrightarrow> mf_manifest_version m = manifest_version_1
     \<and> mf_output_path m \<noteq> Some [] \<and> mf_output_sha256 m \<noteq> Some []"

lemma true_text_opt_text [simp]: "x \<noteq> Some [] \<Longrightarrow> true_text std (opt_text x) = x"
  by (cases x) (auto simp: opt_text_def true_text_def py_str_def)

lemma optional_str_opt_text [simp]: "optional_str std (opt_text x) = x"
  by (cases x) (auto simp: opt_text_def optional_str_def py_str_def)

lemma optional_int_opt_int [simp]: "optional_int (opt_int x) = Inr x"
  by (cases x) (auto simp: opt_int_def optional_int_def py_int_def)

lemma item_Cons:
  "int_item ((k', v) # d) k = (if k' = k then py_int v else int_item d k)"
  "str_item std ((k', v) # d) k = (if k' = k then Inr (py_str std v) else str_item std d k)"
  "dget ((k', v) # d) k = (if k' = k then v else dget d k)"
  by (simp_all add: int_item_def str_item_def ditem_def dget_def)

lemma item_values:
  "py_int (VInt i) = Inr i" "py_str std (VStr s) = s"
  by (simp_all add: py_int_def py_str_def)

lemma manifest_roundtrip_res:
  assumes "manifest_wf m" "manifest_to_dict std m = Inr d"
  shows "manifest_from_dict std d = Inr m"
proof -
  obtain mid where mid: "make_compaction_manifest_id std (mf_source_path m) (mf_source_sha256 m) = Inr mid"
    using compact_id_ok [of std m] unfolding manifest_id_def by blast
  have wf: "mf_output_path m \<noteq> Some []" "mf_output_sha256 m \<noteq> Some []"
    using assms(1) by (simp_all add: manifest_wf_def)
  have d: "d = projr (manifest_to_dict std m)"
    using assms(2) by simp
  show ?thesis
    using mid wf unfolding d
    by (simp add: manifest_to_dict_def manifest_from_dict_def manifest_id_def item_Cons item_values
        Let_def guard_raise_def)
qed

end
