(* ===== verification/Lake_Compaction.thy ===== *)
theory Lake_Compaction
  imports Lake_Layout
begin

section \<open>The quote-lake compactor and the deletion of raw files\<close>

text \<open>
  \<^verbatim>\<open>lake/compact.py\<close> and \<^verbatim>\<open>lake/raw_delete_machine.py\<close>. An operation returns the list of file-system
  changes it made, in order, and its result or the exception that left it. The answers of the
  operating system and of DuckDB are records of arguments, one field per call, so every
  failure and every interference by another process is a value of these records. A change is
  listed when the call that makes it returned; of a failed call nothing is listed.
\<close>

subsection \<open>Actions\<close>

datatype fs_effect =
    TakeLock path
  | MakeDirs path
  | WriteParquet path
  | Chmod path
  | Replace path path
  | WriteManifest path manifest
  | AppendAudit path pydict
  | Rename path path
  | Unlink path

type_synonym 'a act = "fs_effect list \<times> 'a io"

definition ret :: "'a \<Rightarrow> 'a act" where "ret x = ([], Inr x)"

definition lift_io :: "'a io \<Rightarrow> 'a act" where "lift_io r = ([], r)"

definition abind :: "'a act \<Rightarrow> ('a \<Rightarrow> 'b act) \<Rightarrow> 'b act" where
  "abind m f =
     (case m of (t, Inl e) \<Rightarrow> (t, Inl e)
      | (t, Inr x) \<Rightarrow> (case f x of (t', r) \<Rightarrow> (t @ t', r)))"

text \<open>A call that changes the file system.\<close>

definition effect :: "fs_effect \<Rightarrow> unit io \<Rightarrow> unit act" where
  "effect e answer = (case answer of Inr _ \<Rightarrow> ([e], Inr ()) | Inl x \<Rightarrow> ([], Inl x))"

text \<open>\<^verbatim>\<open>except OSError\<close>, \<^verbatim>\<open>except (OSError, RuntimeError)\<close> and \<^verbatim>\<open>except Exception\<close>; effects of the body stay.\<close>

definition is_os_error :: "io_error \<Rightarrow> bool" where
  "is_os_error e = (case e of OSError _ _ \<Rightarrow> True | _ \<Rightarrow> False)"

definition is_io_or_runtime :: "io_error \<Rightarrow> bool" where
  "is_io_or_runtime e = (case e of OtherError _ _ \<Rightarrow> False | _ \<Rightarrow> True)"

definition catch_when :: "(io_error \<Rightarrow> bool) \<Rightarrow> 'a io \<Rightarrow> (io_error \<Rightarrow> 'b act) \<Rightarrow> ('a \<Rightarrow> 'b act) \<Rightarrow> 'b act" where
  "catch_when p r handler body =
     (case r of Inr x \<Rightarrow> body x | Inl e \<Rightarrow> if p e then handler e else ([], Inl e))"

definition acatch :: "(io_error \<Rightarrow> bool) \<Rightarrow> 'a act \<Rightarrow> (io_error \<Rightarrow> 'a act) \<Rightarrow> 'a act" where
  "acatch p m handler =
     (case m of (t, Inr x) \<Rightarrow> (t, Inr x)
      | (t, Inl e) \<Rightarrow> if p e then (case handler e of (t', r) \<Rightarrow> (t @ t', r)) else (t, Inl e))"

subsection \<open>Results\<close>

record compaction_result =
  cr_source_path :: string
  cr_output_path :: "string option"
  cr_status :: string
  cr_row_count :: int
  cr_source_sha256 :: "string option"
  cr_detail :: "string option"

record compactor =
  qc_data_root :: path
  qc_raw_file_name :: string
  qc_settle_seconds :: pyfloat
  qc_compression_level :: int
  qc_raw_delete_enabled :: bool
  qc_raw_delete_grace_hours :: int

definition compactor_init :: "compactor \<Rightarrow> unit res" where
  "compactor_init qc =
     rbind (guard_raise (flt (qc_settle_seconds qc) (Fin 0)) (ValueError ''settle_seconds must be >= 0'')) (\<lambda>_.
     rbind (guard_raise (\<not> (1 \<le> qc_compression_level qc \<and> qc_compression_level qc \<le> 22))
              (ValueError ''compression_level must be between 1 and 22'')) (\<lambda>_.
     guard_raise (qc_raw_delete_grace_hours qc < 24) (ValueError ''raw_delete_grace_hours must be at least 24'')))"

definition summary_failure_status :: "string \<Rightarrow> bool" where
  "summary_failure_status s \<longleftrightarrow> s \<in> {''failed'', ''raw_delete_blocked'', ''raw_delete_failed'', ''raw_delete_audit_failed''}"

definition limited_work_status :: "string \<Rightarrow> bool" where
  "limited_work_status s \<longleftrightarrow>
     s \<in> {''compacted'', ''empty'', ''would_compact'', ''would_mark_empty'', ''raw_deleted'', ''would_delete_raw''}"

definition summary_failed :: "compaction_result list \<Rightarrow> bool" where
  "summary_failed rs = list_ex (\<lambda>r. summary_failure_status (cr_status r)) rs"

subsection \<open>The gates of a deletion (\<^verbatim>\<open>raw_delete_machine.py\<close>)\<close>

datatype raw_delete_phase =
  Retained | Metadata | Content | Authorized | Quarantined | Deleted | Blocked | Failed

fun raw_delete_phase_value :: "raw_delete_phase \<Rightarrow> string" where
  "raw_delete_phase_value Retained = ''retained''"
| "raw_delete_phase_value Metadata = ''metadata''"
| "raw_delete_phase_value Content = ''content''"
| "raw_delete_phase_value Authorized = ''authorized''"
| "raw_delete_phase_value Quarantined = ''quarantined''"
| "raw_delete_phase_value Deleted = ''deleted''"
| "raw_delete_phase_value Blocked = ''blocked''"
| "raw_delete_phase_value Failed = ''failed''"

record raw_delete_gate =
  rg_phase :: raw_delete_phase
  rg_reason :: "string option"

record raw_delete_evidence =
  re_source :: source_snapshot
  re_output :: source_snapshot
  re_source_rows :: int
  re_parquet_rows :: int

definition raw_delete_gate_of ::
  "py_std \<Rightarrow> bool \<Rightarrow> string \<Rightarrow> manifest \<Rightarrow> int \<Rightarrow> int \<Rightarrow> int \<Rightarrow> raw_delete_gate" where
  "raw_delete_gate_of std enabled result_status m partition_end now grace_hours =
     (if \<not> enabled \<or> result_status \<notin> {''compacted'', ''up_to_date''} then \<lparr>rg_phase = Retained, rg_reason = None\<rparr>
      else if mf_status m \<noteq> ''verified'' \<or> partition_end > now then \<lparr>rg_phase = Retained, rg_reason = None\<rparr>
      else (case std_fromiso std (mf_completed_at m) of
          None \<Rightarrow> \<lparr>rg_phase = Blocked, rg_reason = Some ''manifest completed_at is invalid''\<rparr>
        | Some completed_at \<Rightarrow>
            if \<not> dt_aware completed_at
            then \<lparr>rg_phase = Blocked, rg_reason = Some ''manifest completed_at must be timezone-aware''\<rparr>
            else \<lparr>rg_phase = (if now \<ge> dt_instant completed_at + hhmm grace_hours 0 then Metadata else Retained),
                  rg_reason = None\<rparr>))"

definition evidence_mismatch_reason :: "raw_delete_evidence \<Rightarrow> manifest \<Rightarrow> string option" where
  "evidence_mismatch_reason ev m =
     (if Some (ss_sha256 (re_output ev)) \<noteq> mf_output_sha256 m \<or> Some (ss_size (re_output ev)) \<noteq> mf_output_size m
      then Some ''parquet checksum or size does not match manifest''
      else if ss_sha256 (re_source ev) \<noteq> mf_source_sha256 m \<or> ss_size (re_source ev) \<noteq> mf_source_size m
      then Some ''source checksum or size no longer matches manifest''
      else if re_source_rows ev \<noteq> mf_row_count m \<or> re_parquet_rows ev \<noteq> mf_row_count m
              \<or> re_source_rows ev \<noteq> re_parquet_rows ev
      then Some (''row count mismatch (source='' @ dec_int (re_source_rows ev) @ '' parquet='' @
                 dec_int (re_parquet_rows ev) @ '' manifest='' @ dec_int (mf_row_count m) @ '')'')
      else None)"

definition quarantined_evidence_matches :: "source_snapshot \<Rightarrow> int \<Rightarrow> manifest \<Rightarrow> bool" where
  "quarantined_evidence_matches snapshot row_count m \<longleftrightarrow>
     ss_sha256 snapshot = mf_source_sha256 m \<and> ss_size snapshot = mf_source_size m \<and> row_count = mf_row_count m"

text \<open>The answers to the path checks of one deletion target.\<close>

record target_reads =
  tr_source_symlink :: "bool io"
  tr_root_resolve :: "path io"
  tr_component_symlink :: "path \<Rightarrow> bool io"
  tr_source_resolve :: "path io"
  tr_source_regular :: "bool io"

definition path_components :: "path \<Rightarrow> path \<Rightarrow> path list" where
  "path_components data_root parts = map (\<lambda>n. data_root @ take n parts) [1 ..< length parts + 1]"

definition lstat_failed :: "io_error \<Rightarrow> string option act" where
  "lstat_failed e = ret (Some (''source path lstat failed: '' @ exc_text e))"

text \<open>The loop over the path components; \<open>k\<close> is the rest of the checks.\<close>

fun symlink_scan :: "(path \<Rightarrow> bool io) \<Rightarrow> path list \<Rightarrow> string option act \<Rightarrow> string option act" where
  "symlink_scan ask [] k = k"
| "symlink_scan ask (p # ps) k =
     catch_when is_os_error (ask p) lstat_failed (\<lambda>symlink.
       if symlink then ret (Some ''refusing to delete via symlink'') else symlink_scan ask ps k)"

definition malformed_segment :: "path \<Rightarrow> string option" where
  "malformed_segment parts =
     (if \<not> starts_with ''provider='' (parts ! 1) then Some ''provider''
      else if \<not> starts_with ''date='' (parts ! 2) then Some ''date''
      else if \<not> starts_with ''hour='' (parts ! 3) then Some ''hour'' else None)"

definition unsafe_raw_delete_target_reason ::
  "path \<Rightarrow> string \<Rightarrow> raw_quote_partition \<Rightarrow> target_reads \<Rightarrow> string option act" where
  "unsafe_raw_delete_target_reason data_root raw_file_name p tr =
     (let source = rp_source_path p in
      catch_when is_os_error (tr_source_symlink tr) lstat_failed (\<lambda>symlink.
      if symlink then ret (Some ''refusing to delete via symlink'')
      else catch_when is_os_error (tr_root_resolve tr) (\<lambda>_. ret (Some ''data root is not resolvable'')) (\<lambda>real_root.
      abind (lift_io (source_relative_path p)) (\<lambda>label.
      let parts = rel_parts label in
      if length parts \<noteq> 5 \<or> hd parts \<noteq> ''raw'' then ret (Some ''source path is not a raw hourly landing file'')
      else (case malformed_segment parts of
        Some name \<Rightarrow> ret (Some (''malformed '' @ name @ '' path segment''))
      | None \<Rightarrow>
          if list_ex (\<lambda>part. part \<in> {''latest'', ''runtime'', ''manifests'', ''lake'', ''analytics''}) parts
          then ret (Some ''refusing to touch latest/runtime/manifest/lake paths'')
          else if starts_with ''.'' (path_name source) \<or> ends_with ''.lock'' (path_name source)
          then ret (Some ''refusing to delete lock or hidden runtime files'')
          else if path_name source \<noteq> raw_file_name \<or> parts ! 4 \<noteq> raw_file_name
          then ret (Some ''source file name does not match configured raw landing name'')
          else symlink_scan (tr_component_symlink tr) (path_components data_root parts)
            (catch_when (\<lambda>e. is_os_error e) (tr_source_resolve tr)
               (\<lambda>_. ret (Some ''source path is outside the data root'')) (\<lambda>real_source.
             if relative_to real_source real_root = None then ret (Some ''source path is outside the data root'')
             else catch_when is_os_error (tr_source_regular tr) lstat_failed (\<lambda>regular.
               if \<not> regular then ret (Some ''source path is not a regular file'')
               else if parse_raw_quote_partition data_root source = None
               then ret (Some ''source path failed strict raw partition parse'')
               else ret None))))))))"

subsection \<open>Deletion of a raw file (\<^verbatim>\<open>compact.py\<close>)\<close>

text \<open>The answers to one audit append: the directory, then open, write and fsync as one call.\<close>

record audit_answers =
  au_mkdir :: "unit io"
  au_append :: "unit io"

record delete_answers =
  da_target :: target_reads
  da_parquet_symlink :: "bool io"
  da_parquet_is_file :: "bool io"
  da_output :: file_reads
  da_source :: file_reads
  da_source_content :: "string io"
  da_parquet_count :: "int option io"
  da_authorize :: audit_answers
  da_uuid :: string
  da_rename :: "unit io"
  da_quarantine :: file_reads
  da_quarantine_content :: "string io"
  da_unlink :: "unit io"
  da_final :: audit_answers

definition audit_path :: "compactor \<Rightarrow> path" where
  "audit_path qc = qc_data_root qc @ [''manifests'', ''compaction'', ''raw_deletion_audit.jsonl'']"

definition append_raw_deletion_audit :: "compactor \<Rightarrow> pydict \<Rightarrow> int \<Rightarrow> audit_answers \<Rightarrow> unit act" where
  "append_raw_deletion_audit qc entry now au =
     (let payload = dmerge [(''at'', VStr (isoformat now))] entry in
      abind (effect (MakeDirs (butlast (audit_path qc))) (au_mkdir au)) (\<lambda>_.
      effect (AppendAudit (audit_path qc) payload) (au_append au)))"

definition raw_delete_blocked :: "compaction_result \<Rightarrow> string \<Rightarrow> string option \<Rightarrow> compaction_result" where
  "raw_delete_blocked r detail sha =
     \<lparr>cr_source_path = cr_source_path r, cr_output_path = cr_output_path r, cr_status = ''raw_delete_blocked'',
      cr_row_count = cr_row_count r, cr_source_sha256 = (if sha \<noteq> None then sha else cr_source_sha256 r),
      cr_detail = Some detail\<rparr>"

text \<open>A result about the same files with another status.\<close>

definition with_status :: "compaction_result \<Rightarrow> string \<Rightarrow> string option \<Rightarrow> string option \<Rightarrow> compaction_result" where
  "with_status r status sha detail =
     \<lparr>cr_source_path = cr_source_path r, cr_output_path = cr_output_path r, cr_status = status,
      cr_row_count = cr_row_count r, cr_source_sha256 = sha, cr_detail = detail\<rparr>"

definition finalize_raw_deletion_audit ::
  "compactor \<Rightarrow> compaction_result \<Rightarrow> pydict \<Rightarrow> int \<Rightarrow> path option \<Rightarrow> audit_answers \<Rightarrow> compaction_result act" where
  "finalize_raw_deletion_audit qc r audit_base now quarantine au =
     (let label = map_option (\<lambda>q. case relative_to q (qc_data_root qc) of
                     Some rel \<Rightarrow> path_text rel | None \<Rightarrow> path_text q) quarantine;
          entry = dmerge audit_base [(''event'', VStr ''final''), (''status'', VStr (cr_status r)),
                    (''detail'', opt_text (cr_detail r)), (''quarantine_path'', opt_text label)]
      in acatch is_os_error (abind (append_raw_deletion_audit qc entry now au) (\<lambda>_. ret r)) (\<lambda>e.
           ret (with_status r ''raw_delete_audit_failed'' (cr_source_sha256 r)
             (Some (''final audit fsync failed after status='' @ cr_status r @ '': '' @ exc_text e @
                (if text_true (cr_detail r) then ''; prior_detail='' @ text_or (cr_detail r) [] else []))))))"

definition quarantine_failure ::
  "compactor \<Rightarrow> compaction_result \<Rightarrow> string \<Rightarrow> string \<Rightarrow> path \<Rightarrow> compaction_result io" where
  "quarantine_failure qc r sha detail quarantine =
     ibind (relative_posix quarantine (qc_data_root qc)) (\<lambda>label.
       Inr (with_status r ''raw_delete_failed'' (Some sha) (Some (detail @ ''; quarantine_path='' @ label))))"

definition raw_delete_metadata_reason ::
  "compactor \<Rightarrow> raw_quote_partition \<Rightarrow> manifest \<Rightarrow> delete_answers \<Rightarrow> string option act" where
  "raw_delete_metadata_reason qc p m da =
     abind (unsafe_raw_delete_target_reason (qc_data_root qc) (qc_raw_file_name qc) p (da_target da)) (\<lambda>unsafe.
     if unsafe \<noteq> None then ret unsafe
     else abind (lift_io (source_relative_path p)) (\<lambda>label.
     if mf_source_path m \<noteq> label then ret (Some ''manifest source_path does not match partition source path'')
     else if \<not> text_true (mf_output_path m) \<or> \<not> text_true (mf_output_sha256 m) \<or> mf_output_size m = None
     then ret (Some ''verified manifest is missing parquet output metadata'')
     else abind (lift_io (relative_posix (parquet_path p) (qc_data_root qc))) (\<lambda>expected_output.
     if mf_output_path m \<noteq> Some expected_output
     then ret (Some ''manifest output_path does not match partition parquet path'')
     else abind (lift_io (da_parquet_symlink da)) (\<lambda>symlink.
     if symlink then ret (Some ''parquet output is missing'')
     else abind (lift_io (da_parquet_is_file da)) (\<lambda>is_file.
     ret (if \<not> is_file then Some ''parquet output is missing'' else None))))))"

text \<open>The evidence, or the result that stops the deletion.\<close>

definition raw_delete_evidence_of ::
  "py_std \<Rightarrow> raw_quote_partition \<Rightarrow> manifest \<Rightarrow> compaction_result \<Rightarrow> delete_answers \<Rightarrow>
   (compaction_result + raw_delete_evidence) act" where
  "raw_delete_evidence_of std p m r da =
     catch_when is_io_or_runtime (snapshot_source std (parquet_path p) (da_output da))
       (\<lambda>e. ret (Inl (raw_delete_blocked r (''parquet verification failed: '' @ exc_text e) None))) (\<lambda>output.
     if Some (ss_sha256 output) \<noteq> mf_output_sha256 m \<or> Some (ss_size output) \<noteq> mf_output_size m
     then ret (Inl (raw_delete_blocked r ''parquet checksum or size does not match manifest'' None))
     else catch_when is_io_or_runtime (snapshot_source std (rp_source_path p) (da_source da))
       (\<lambda>e. ret (Inl (raw_delete_blocked r (''source verification failed: '' @ exc_text e) None))) (\<lambda>source.
     if ss_sha256 source \<noteq> mf_source_sha256 m \<or> ss_size source \<noteq> mf_source_size m
     then ret (Inl (raw_delete_blocked r ''source checksum or size no longer matches manifest'' (Some (ss_sha256 source))))
     else catch_when is_io_or_runtime
       (ibind (count_jsonl_rows (da_source_content da)) (\<lambda>source_rows.
        ibind (count_parquet_rows (parquet_path p) (da_parquet_count da)) (\<lambda>parquet_rows.
          Inr \<lparr>re_source = source, re_output = output, re_source_rows = source_rows, re_parquet_rows = parquet_rows\<rparr>)))
       (\<lambda>e. ret (Inl (raw_delete_blocked r (''row count verification failed: '' @ exc_text e) (Some (ss_sha256 source)))))
       (\<lambda>evidence. ret (case evidence_mismatch_reason evidence m of
          Some reason \<Rightarrow> Inl (raw_delete_blocked r reason (Some (ss_sha256 source)))
        | None \<Rightarrow> Inr evidence))))"

definition raw_delete_audit_base :: "string \<Rightarrow> manifest \<Rightarrow> raw_delete_evidence \<Rightarrow> pydict" where
  "raw_delete_audit_base label m ev =
     [(''source_path'', VStr label), (''output_path'', opt_text (mf_output_path m)),
      (''source_sha256'', VStr (ss_sha256 (re_source ev))), (''output_sha256'', VStr (ss_sha256 (re_output ev))),
      (''source_size'', VInt (ss_size (re_source ev))), (''output_size'', VInt (ss_size (re_output ev))),
      (''row_count'', VInt (mf_row_count m))]"

definition authorize_raw_delete ::
  "compactor \<Rightarrow> compaction_result \<Rightarrow> pydict \<Rightarrow> raw_delete_evidence \<Rightarrow> int \<Rightarrow> delete_answers \<Rightarrow> compaction_result option act" where
  "authorize_raw_delete qc r audit_base ev now da =
     acatch is_os_error
       (abind (append_raw_deletion_audit qc
          (dmerge audit_base [(''event'', VStr ''authorize''), (''status'', VStr (raw_delete_phase_value Authorized)),
             (''detail'', VStr ''pre-delete verification passed; quarantine unlink authorized'')])
          now (da_authorize da)) (\<lambda>_. ret None))
       (\<lambda>e. ret (Some (with_status r ''raw_delete_audit_failed'' (Some (ss_sha256 (re_source ev)))
          (Some (''pre-delete audit fsync failed: '' @ exc_text e)))))"

definition quarantine_path_of :: "raw_quote_partition \<Rightarrow> delete_answers \<Rightarrow> path" where
  "quarantine_path_of p da =
     with_name (rp_source_path p)
       (''.'' @ path_name (rp_source_path p) @ ''.raw-delete-quarantine.'' @ da_uuid da)"

text \<open>The quarantined file's digest, or the result of a failed verification.\<close>

definition verify_quarantine ::
  "py_std \<Rightarrow> compactor \<Rightarrow> path \<Rightarrow> compaction_result \<Rightarrow> manifest \<Rightarrow> raw_delete_evidence \<Rightarrow> pydict \<Rightarrow> int \<Rightarrow>
   delete_answers \<Rightarrow> (compaction_result + source_snapshot) act" where
  "verify_quarantine std qc quarantine r m ev audit_base now da =
     catch_when is_io_or_runtime
       (ibind (snapshot_source std quarantine (da_quarantine da)) (\<lambda>snapshot.
        ibind (count_jsonl_rows (da_quarantine_content da)) (\<lambda>rows. Inr (snapshot, rows))))
       (\<lambda>e. abind (lift_io (quarantine_failure qc r (ss_sha256 (re_source ev))
              (''quarantined raw preserved after re-verification error: '' @ exc_text e) quarantine)) (\<lambda>failure.
            abind (finalize_raw_deletion_audit qc failure audit_base now (Some quarantine) (da_final da)) (\<lambda>x. ret (Inl x))))
       (\<lambda>(snapshot, rows).
          if quarantined_evidence_matches snapshot rows m then ret (Inr snapshot)
          else abind (lift_io (quarantine_failure qc r (ss_sha256 snapshot)
                 ''quarantined raw preserved after post-rename mismatch (sha256/size/rows)'' quarantine)) (\<lambda>failure.
               abind (finalize_raw_deletion_audit qc failure
                 (dmerge audit_base [(''source_sha256'', VStr (ss_sha256 snapshot)),
                    (''source_size'', VInt (ss_size snapshot)), (''row_count'', VInt rows)])
                 now (Some quarantine) (da_final da)) (\<lambda>x. ret (Inl x))))"

definition verify_and_unlink_quarantine ::
  "py_std \<Rightarrow> compactor \<Rightarrow> path \<Rightarrow> compaction_result \<Rightarrow> manifest \<Rightarrow> raw_delete_evidence \<Rightarrow> pydict \<Rightarrow> int \<Rightarrow>
   delete_answers \<Rightarrow> compaction_result act" where
  "verify_and_unlink_quarantine std qc quarantine r m ev audit_base now da =
     abind (verify_quarantine std qc quarantine r m ev audit_base now da) (\<lambda>v.
     case v of
       Inl failure \<Rightarrow> ret failure
     | Inr verification \<Rightarrow>
         abind (acatch is_os_error (abind (effect (Unlink quarantine) (da_unlink da)) (\<lambda>_. ret None)) (\<lambda>e. ret (Some e))) (\<lambda>failed.
         case failed of
           Some e \<Rightarrow>
             abind (lift_io (quarantine_failure qc r (ss_sha256 (re_source ev))
               (''quarantined raw preserved after unlink failure: '' @ exc_text e) quarantine)) (\<lambda>failure.
             finalize_raw_deletion_audit qc failure audit_base now (Some quarantine) (da_final da))
         | None \<Rightarrow>
             finalize_raw_deletion_audit qc
               (with_status r ''raw_deleted'' (Some (ss_sha256 verification))
                 (Some ''deleted verified closed-hour raw JSONL after grace period''))
               audit_base now None (da_final da)))"

definition authorize_and_delete_raw ::
  "py_std \<Rightarrow> compactor \<Rightarrow> raw_quote_partition \<Rightarrow> compaction_result \<Rightarrow> manifest \<Rightarrow> raw_delete_evidence \<Rightarrow> int \<Rightarrow>
   delete_answers \<Rightarrow> compaction_result act" where
  "authorize_and_delete_raw std qc p r m ev now da =
     abind (lift_io (source_relative_path p)) (\<lambda>label.
     let audit_base = raw_delete_audit_base label m ev; quarantine = quarantine_path_of p da in
     abind (authorize_raw_delete qc r audit_base ev now da) (\<lambda>audit_failure.
     case audit_failure of
       Some failure \<Rightarrow> ret failure
     | None \<Rightarrow>
         abind (acatch is_os_error (abind (effect (Rename (rp_source_path p) quarantine) (da_rename da)) (\<lambda>_. ret None))
                  (\<lambda>e. ret (Some e))) (\<lambda>failed.
         case failed of
           Some e \<Rightarrow>
             finalize_raw_deletion_audit qc
               (with_status r ''raw_delete_failed'' (Some (ss_sha256 (re_source ev)))
                 (Some (''quarantine rename failed: '' @ exc_text e)))
               audit_base now None (da_final da)
         | None \<Rightarrow> verify_and_unlink_quarantine std qc quarantine r m ev audit_base now da)))"

definition maybe_delete_raw ::
  "py_std \<Rightarrow> compactor \<Rightarrow> raw_quote_partition \<Rightarrow> compaction_result \<Rightarrow> manifest \<Rightarrow> int \<Rightarrow> bool \<Rightarrow>
   delete_answers \<Rightarrow> compaction_result act" where
  "maybe_delete_raw std qc p r m now dry_run da =
     abind (lift_io (end_at p)) (\<lambda>partition_end.
     let gate = raw_delete_gate_of std (qc_raw_delete_enabled qc) (cr_status r) m partition_end now
                  (qc_raw_delete_grace_hours qc)
     in case rg_phase gate of
          Retained \<Rightarrow> ret r
        | Blocked \<Rightarrow> ret (raw_delete_blocked r (if text_true (rg_reason gate) then text_or (rg_reason gate) [] else ''eligibility blocked'') None)
        | Metadata \<Rightarrow>
            abind (raw_delete_metadata_reason qc p m da) (\<lambda>reason.
            case reason of
              Some text \<Rightarrow> ret (raw_delete_blocked r text None)
            | None \<Rightarrow>
                abind (raw_delete_evidence_of std p m r da) (\<lambda>found.
                case found of
                  Inl failure \<Rightarrow> ret failure
                | Inr evidence \<Rightarrow>
                    if dry_run then ret (with_status r ''would_delete_raw'' (Some (ss_sha256 (re_source evidence)))
                                           (Some ''raw JSONL eligible for verified deletion''))
                    else authorize_and_delete_raw std qc p r m evidence now da))
        | phase \<Rightarrow> lift_io (Inl (RuntimeError (''invalid raw-delete entry phase: '' @ raw_delete_phase_value phase))))"

subsection \<open>Publication of one partition\<close>

text \<open>The answers to one \<^verbatim>\<open>write_manifest\<close>; open, dump and fsync are one call.\<close>

record manifest_write =
  mw_mkdir :: "unit io"
  mw_uuid :: string
  mw_write :: "unit io"
  mw_chmod :: "unit io"
  mw_replace :: "unit io"
  mw_cleanup :: "unit io"

definition temp_of :: "path \<Rightarrow> string \<Rightarrow> path" where
  "temp_of p suffix = with_name p (''.'' @ path_name p @ suffix)"

text \<open>\<^verbatim>\<open>finally\<close>: an exception of the cleanup replaces the outcome of the body.\<close>

definition afinally :: "'a act \<Rightarrow> unit act \<Rightarrow> 'a act" where
  "afinally m cleanup =
     (case m of (t, r) \<Rightarrow> (case cleanup of (t', Inl e) \<Rightarrow> (t @ t', Inl e) | (t', Inr _) \<Rightarrow> (t @ t', r)))"

definition write_manifest :: "path \<Rightarrow> manifest \<Rightarrow> manifest_write \<Rightarrow> unit act" where
  "write_manifest p m mw =
     (let temp = temp_of p (''.'' @ mw_uuid mw @ ''.tmp'') in
      abind (effect (MakeDirs (butlast p)) (mw_mkdir mw)) (\<lambda>_.
      afinally
        (abind (effect (WriteManifest temp m) (mw_write mw)) (\<lambda>_.
         abind (effect (Chmod temp) (mw_chmod mw)) (\<lambda>_.
         effect (Replace temp p) (mw_replace mw))))
        (effect (Unlink temp) (mw_cleanup mw))))"

record quote_stats =
  qs_row_count :: int
  qs_min_received_at :: "string option"
  qs_max_received_at :: "string option"
  qs_min_source_at :: "string option"
  qs_max_source_at :: "string option"

record compact_answers =
  ca_stat :: "file_stat io"
  ca_manifest :: "pyval option"
  ca_fast_is_file :: "bool io"
  ca_fast_output :: file_reads
  ca_snapshot :: file_reads
  ca_empty_write :: manifest_write
  ca_verified_is_file :: "bool io"
  ca_verified_output :: file_reads
  ca_mkdir :: "unit io"
  ca_temp_unlink :: "unit io"
  ca_normalize :: "quote_stats io"
  ca_write_parquet :: "unit io"
  ca_verify :: "unit io"
  ca_after :: file_reads
  ca_chmod :: "unit io"
  ca_output :: file_reads
  ca_replace :: "unit io"
  ca_manifest_write :: manifest_write
  ca_cleanup :: "unit io"
  ca_delete :: delete_answers

definition result_of :: "string \<Rightarrow> string option \<Rightarrow> string \<Rightarrow> int \<Rightarrow> string option \<Rightarrow> string option \<Rightarrow> compaction_result" where
  "result_of source output status rows sha detail =
     \<lparr>cr_source_path = source, cr_output_path = output, cr_status = status, cr_row_count = rows,
      cr_source_sha256 = sha, cr_detail = detail\<rparr>"

definition manifest_matches_metadata ::
  "py_std \<Rightarrow> compactor \<Rightarrow> raw_quote_partition \<Rightarrow> manifest option \<Rightarrow> file_stat \<Rightarrow> compact_answers \<Rightarrow> bool io" where
  "manifest_matches_metadata std qc p existing st ca =
     (case existing of
        None \<Rightarrow> Inr False
      | Some m \<Rightarrow>
          if mf_status m \<notin> {''verified'', ''empty''} then Inr False
          else ibind (source_relative_path p) (\<lambda>label.
          if mf_source_path m \<noteq> label \<or> mf_schema_version m \<noteq> quote_schema_version
             \<or> mf_writer_version m \<noteq> quote_writer_version \<or> mf_source_size m \<noteq> st_size st
             \<or> mf_source_mtime_ns m \<noteq> st_mtime_ns st then Inr False
          else if mf_status m = ''empty'' then Inr (st_size st = 0 \<and> mf_output_path m = None)
          else ibind (relative_posix (parquet_path p) (qc_data_root qc)) (\<lambda>output_label.
          if mf_output_path m \<noteq> Some output_label \<or> mf_output_size m = None \<or> \<not> text_true (mf_output_sha256 m)
          then Inr False
          else ibind (ca_fast_is_file ca) (\<lambda>is_file.
          if \<not> is_file then Inr False
          else (case snapshot_source std (parquet_path p) (ca_fast_output ca) of
              Inr output \<Rightarrow> Inr (Some (ss_size output) = mf_output_size m \<and> Some (ss_sha256 output) = mf_output_sha256 m)
            | Inl e \<Rightarrow> if is_io_or_runtime e then Inr False else Inl e)))))"

definition verified_manifest_matches ::
  "py_std \<Rightarrow> raw_quote_partition \<Rightarrow> manifest option \<Rightarrow> source_snapshot \<Rightarrow> compact_answers \<Rightarrow> bool io" where
  "verified_manifest_matches std p existing source ca =
     (case existing of
        None \<Rightarrow> Inr False
      | Some m \<Rightarrow>
          if mf_status m \<noteq> ''verified'' then Inr False
          else ibind (source_relative_path p) (\<lambda>label.
          if mf_source_path m \<noteq> label \<or> mf_source_sha256 m \<noteq> ss_sha256 source \<or> mf_source_size m \<noteq> ss_size source
             \<or> mf_schema_version m \<noteq> quote_schema_version \<or> mf_writer_version m \<noteq> quote_writer_version
          then Inr False
          else ibind (ca_verified_is_file ca) (\<lambda>is_file.
          if \<not> is_file \<or> \<not> text_true (mf_output_sha256 m) then Inr False
          else (case snapshot_source std (parquet_path p) (ca_verified_output ca) of
              Inr output \<Rightarrow> Inr (Some (ss_sha256 output) = mf_output_sha256 m)
            | Inl e \<Rightarrow> if is_io_or_runtime e then Inr False else Inl e))))"

definition verified_manifest :: "string \<Rightarrow> string \<Rightarrow> source_snapshot \<Rightarrow> source_snapshot \<Rightarrow> quote_stats \<Rightarrow> int \<Rightarrow> manifest" where
  "verified_manifest label output_label source output stats now =
     \<lparr>mf_manifest_version = manifest_version_1, mf_dataset = ''quotes'', mf_schema_version = quote_schema_version,
      mf_writer_version = quote_writer_version, mf_status = ''verified'', mf_source_path = label,
      mf_source_size = ss_size source, mf_source_mtime_ns = ss_mtime_ns source, mf_source_sha256 = ss_sha256 source,
      mf_output_path = Some output_label, mf_output_size = Some (ss_size output),
      mf_output_sha256 = Some (ss_sha256 output), mf_row_count = qs_row_count stats,
      mf_min_received_at = qs_min_received_at stats, mf_max_received_at = qs_max_received_at stats,
      mf_min_source_at = qs_min_source_at stats, mf_max_source_at = qs_max_source_at stats,
      mf_completed_at = isoformat now\<rparr>"

definition empty_manifest :: "string \<Rightarrow> source_snapshot \<Rightarrow> int \<Rightarrow> manifest" where
  "empty_manifest label source now =
     \<lparr>mf_manifest_version = manifest_version_1, mf_dataset = ''quotes'', mf_schema_version = quote_schema_version,
      mf_writer_version = quote_writer_version, mf_status = ''empty'', mf_source_path = label,
      mf_source_size = ss_size source, mf_source_mtime_ns = ss_mtime_ns source, mf_source_sha256 = ss_sha256 source,
      mf_output_path = None, mf_output_size = None, mf_output_sha256 = None, mf_row_count = 0,
      mf_min_received_at = None, mf_max_received_at = None, mf_min_source_at = None, mf_max_source_at = None,
      mf_completed_at = isoformat now\<rparr>"

text \<open>The \<^verbatim>\<open>try\<close> block: normalise into a temporary file, verify it, and publish file and manifest.\<close>

definition publish_parquet ::
  "py_std \<Rightarrow> raw_quote_partition \<Rightarrow> string \<Rightarrow> string \<Rightarrow> source_snapshot \<Rightarrow> int \<Rightarrow> compact_answers \<Rightarrow> manifest act" where
  "publish_parquet std p label output_label snapshot now ca =
     (let temp = temp_of (parquet_path p) ''.tmp'' in
      abind (effect (MakeDirs (butlast (parquet_path p))) (ca_mkdir ca)) (\<lambda>_.
      abind (effect (Unlink temp) (ca_temp_unlink ca)) (\<lambda>_.
      abind (lift_io (ca_normalize ca)) (\<lambda>stats.
      abind (effect (WriteParquet temp) (ca_write_parquet ca)) (\<lambda>_.
      abind (lift_io (ca_verify ca)) (\<lambda>_.
      abind (lift_io (snapshot_source std (rp_source_path p) (ca_after ca))) (\<lambda>after.
      if after \<noteq> snapshot then lift_io (Inl (RuntimeError ''source changed while compaction was running''))
      else abind (effect (Chmod temp) (ca_chmod ca)) (\<lambda>_.
      abind (lift_io (snapshot_source std temp (ca_output ca))) (\<lambda>output.
      abind (effect (Replace temp (parquet_path p)) (ca_replace ca)) (\<lambda>_.
      let m = verified_manifest label output_label snapshot output stats now in
      abind (write_manifest (manifest_path p) m (ca_manifest_write ca)) (\<lambda>_. ret m)))))))))))"

text \<open>\<^verbatim>\<open>try: temp_path.unlink(missing_ok=True) except OSError: pass\<close>.\<close>

definition drop_temp :: "path \<Rightarrow> unit io \<Rightarrow> unit act" where
  "drop_temp temp answer = acatch is_os_error (effect (Unlink temp) answer) (\<lambda>_. ret ())"

definition compact_source ::
  "py_std \<Rightarrow> compactor \<Rightarrow> raw_quote_partition \<Rightarrow> string \<Rightarrow> string \<Rightarrow> source_snapshot \<Rightarrow> int \<Rightarrow> compact_answers \<Rightarrow>
   compaction_result act" where
  "compact_source std qc p label output_label snapshot now ca =
     abind (afinally
       (acatch (\<lambda>_. True)
          (abind (publish_parquet std p label output_label snapshot now ca) (\<lambda>m. ret (Inr m)))
          (\<lambda>e. ret (Inl (result_of label None ''failed'' 0 (Some (ss_sha256 snapshot)) (Some (exc_text e))))))
       (drop_temp (temp_of (parquet_path p) ''.tmp'') (ca_cleanup ca))) (\<lambda>out.
     case out of
       Inl failed \<Rightarrow> ret failed
     | Inr m \<Rightarrow>
         maybe_delete_raw std qc p
           (result_of label (Some output_label) ''compacted'' (mf_row_count m) (Some (ss_sha256 snapshot)) None)
           m now False (ca_delete ca))"

definition compact_empty ::
  "raw_quote_partition \<Rightarrow> string \<Rightarrow> string \<Rightarrow> manifest option \<Rightarrow> source_snapshot \<Rightarrow> int \<Rightarrow> bool \<Rightarrow> compact_answers \<Rightarrow>
   compaction_result act" where
  "compact_empty p label output_label existing snapshot now dry_run ca =
     (let sha = Some (ss_sha256 snapshot) in
      if map_option (\<lambda>m. (mf_status m, mf_source_path m, mf_source_sha256 m)) existing
           = Some (''empty'', label, ss_sha256 snapshot)
      then ret (result_of label None ''empty_up_to_date'' 0 sha None)
      else if map_option mf_status existing = Some ''verified''
      then ret (result_of label (Some output_label) ''failed'' (mf_row_count (the existing)) sha
                 (Some ''closed source became empty; preserved previous verified partition''))
      else if dry_run then ret (result_of label None ''would_mark_empty'' 0 sha None)
      else acatch is_os_error
             (abind (write_manifest (manifest_path p) (empty_manifest label snapshot now) (ca_empty_write ca))
                (\<lambda>_. ret (result_of label None ''empty'' 0 sha None)))
             (\<lambda>e. ret (result_of label None ''failed'' 0 sha (Some (exc_text e)))))"

text \<open>\<^verbatim>\<open>_as_utc\<close> of the compactor refuses a naive datetime.\<close>

definition strict_utc :: "pydt \<Rightarrow> int io" where
  "strict_utc t = (case t of Naive _ \<Rightarrow> Inl (value_error ''datetime must be timezone-aware'') | Aware w off \<Rightarrow> Inr (w - off))"

definition io_of_res :: "'a res \<Rightarrow> 'a io" where
  "io_of_res r =
     (case r of Inr x \<Rightarrow> Inr x | Inl (ValueError t) \<Rightarrow> Inl (value_error t) | Inl _ \<Rightarrow> Inl (OtherError ''OverflowError'' []))"

text \<open>The source's modification time, after the rounding of \<^verbatim>\<open>fromtimestamp\<close>.\<close>

definition mtime_of :: "file_stat \<Rightarrow> int io" where
  "mtime_of st = (case fromtimestamp (st_mtime st) of Some t \<Rightarrow> Inr t
     | None \<Rightarrow> Inl (value_error ''timestamp out of range''))"

text \<open>The part after the settle check.\<close>

definition compact_settled ::
  "py_std \<Rightarrow> compactor \<Rightarrow> raw_quote_partition \<Rightarrow> string \<Rightarrow> string \<Rightarrow> file_stat \<Rightarrow> int \<Rightarrow> bool \<Rightarrow> compact_answers \<Rightarrow>
   compaction_result act" where
  "compact_settled std qc p label output_label st now dry_run ca =
     abind (lift_io (load_manifest std (ca_manifest ca))) (\<lambda>existing.
     abind (lift_io (manifest_matches_metadata std qc p existing st ca)) (\<lambda>fast.
     if fast then
       (let m = the existing;
            status = (if mf_status m = ''empty'' then ''empty_up_to_date'' else ''up_to_date'')
        in maybe_delete_raw std qc p
             (result_of label (mf_output_path m) status (mf_row_count m) (Some (mf_source_sha256 m)) None)
             m now dry_run (ca_delete ca))
     else catch_when is_io_or_runtime (snapshot_source std (rp_source_path p) (ca_snapshot ca))
       (\<lambda>e. ret (result_of label None ''failed'' 0 None (Some (exc_text e)))) (\<lambda>snapshot.
     if ss_size snapshot = 0 then compact_empty p label output_label existing snapshot now dry_run ca
     else abind (lift_io (verified_manifest_matches std p existing snapshot ca)) (\<lambda>same.
     if same then
       maybe_delete_raw std qc p
         (result_of label (Some output_label) ''up_to_date'' (mf_row_count (the existing)) (Some (ss_sha256 snapshot)) None)
         (the existing) now dry_run (ca_delete ca)
     else if dry_run then ret (result_of label (Some output_label) ''would_compact'' 0 (Some (ss_sha256 snapshot)) None)
     else compact_source std qc p label output_label snapshot now ca))))"

definition compact_one_unlocked ::
  "py_std \<Rightarrow> compactor \<Rightarrow> raw_quote_partition \<Rightarrow> pydt \<Rightarrow> bool \<Rightarrow> compact_answers \<Rightarrow> compaction_result act" where
  "compact_one_unlocked std qc p clock dry_run ca =
     abind (lift_io (strict_utc clock)) (\<lambda>now.
     abind (lift_io (source_relative_path p)) (\<lambda>label.
     abind (lift_io (relative_posix (parquet_path p) (qc_data_root qc))) (\<lambda>output_label.
     abind (lift_io (end_at p)) (\<lambda>partition_end.
     if partition_end > now then ret (result_of label None ''active_hour'' 0 None (Some ''hour is not closed''))
     else (case ca_stat ca of
         Inl (OSError name text) \<Rightarrow>
           if name = ''FileNotFoundError'' then ret (result_of label None ''vanished'' 0 None None)
           else ret (result_of label None ''failed'' 0 None (Some text))
       | Inl e \<Rightarrow> lift_io (Inl e)
       | Inr st \<Rightarrow>
           abind (lift_io (io_of_res (td_seconds (qc_settle_seconds qc)))) (\<lambda>settle.
           abind (lift_io (mtime_of st)) (\<lambda>mtime.
           if mtime > now - settle then ret (result_of label None ''settling'' 0 None (Some ''source mtime is recent''))
           else compact_settled std qc p label output_label st now dry_run ca)))))))"

text \<open>The answers to taking a lock: the directory and the lock file.\<close>

record lock_answers =
  la_mkdir :: "unit io"
  la_take :: "unit io"

definition exclusive_lock :: "compactor \<Rightarrow> bool \<Rightarrow> lock_answers \<Rightarrow> unit act" where
  "exclusive_lock qc dry_run la =
     (if dry_run then ret ()
      else let lock = qc_data_root qc @ [''manifests'', ''compaction'', ''.compact.lock''] in
        abind (effect (MakeDirs (butlast lock)) (la_mkdir la)) (\<lambda>_. effect (TakeLock lock) (la_take la)))"

definition compact_one ::
  "py_std \<Rightarrow> compactor \<Rightarrow> raw_quote_partition \<Rightarrow> pydt \<Rightarrow> bool \<Rightarrow> lock_answers \<Rightarrow> compact_answers \<Rightarrow> compaction_result act" where
  "compact_one std qc p clock dry_run la ca =
     abind (exclusive_lock qc dry_run la) (\<lambda>_. compact_one_unlocked std qc p clock dry_run ca)"

text \<open>\<^verbatim>\<open>delete_raw_if_manifest_matches\<close>; \<open>payload\<close> is the decoded manifest file.\<close>

definition delete_raw_if_manifest_matches ::
  "py_std \<Rightarrow> compactor \<Rightarrow> raw_quote_partition \<Rightarrow> manifest \<Rightarrow> pydt \<Rightarrow> bool \<Rightarrow> lock_answers \<Rightarrow> unit io \<Rightarrow> pyval option \<Rightarrow>
   delete_answers \<Rightarrow> compaction_result act" where
  "delete_raw_if_manifest_matches std qc p expected clock dry_run la raw_lock payload da =
     abind (exclusive_lock qc dry_run la) (\<lambda>_.
     abind (effect (TakeLock (temp_of (rp_source_path p) ''.lock'')) raw_lock) (\<lambda>_.
     abind (lift_io (load_manifest std payload)) (\<lambda>current.
     abind (lift_io (source_relative_path p)) (\<lambda>label.
     if current \<noteq> Some expected then
       ret (result_of label (mf_output_path expected) ''raw_delete_blocked'' (mf_row_count expected)
             (Some (mf_source_sha256 expected)) (Some ''compaction manifest changed after replay authorization''))
     else
       let status = (if mf_status expected = ''empty'' then ''empty_up_to_date'' else ''up_to_date'') in
       abind (lift_io (strict_utc clock)) (\<lambda>now.
       maybe_delete_raw std qc p
         (result_of label (mf_output_path expected) status (mf_row_count expected) (Some (mf_source_sha256 expected)) None)
         expected now dry_run da)))))"

text \<open>
  The loop of \<^verbatim>\<open>run\<close> over the partitions with their answers; \<open>work_count\<close> counts the results
  that use up the limit. An exception ends the run.
\<close>

fun run_loop ::
  "py_std \<Rightarrow> compactor \<Rightarrow> pydt \<Rightarrow> bool \<Rightarrow> int option \<Rightarrow> int \<Rightarrow> (raw_quote_partition \<times> lock_answers \<times> compact_answers) list \<Rightarrow>
   compaction_result list act" where
  "run_loop std qc clock dry_run limit work_count [] = ret []"
| "run_loop std qc clock dry_run limit work_count ((p, la, ca) # rest) =
     (if (case limit of Some n \<Rightarrow> work_count \<ge> n | None \<Rightarrow> False) then ret []
      else abind (compact_one std qc p clock dry_run la ca) (\<lambda>r.
           abind (run_loop std qc clock dry_run limit
                    (if limited_work_status (cr_status r) then work_count + 1 else work_count) rest) (\<lambda>rs.
           ret (r # rs))))"

definition compact_run ::
  "py_std \<Rightarrow> compactor \<Rightarrow> pydt \<Rightarrow> bool \<Rightarrow> int option \<Rightarrow> string option \<Rightarrow> (path \<times> bool) list option \<Rightarrow>
   (raw_quote_partition \<Rightarrow> lock_answers) \<Rightarrow> (raw_quote_partition \<Rightarrow> compact_answers) \<Rightarrow> compaction_result list act" where
  "compact_run std qc clock dry_run limit provider found las cas =
     (if (case limit of Some n \<Rightarrow> n \<le> 0 | None \<Rightarrow> False) then lift_io (Inl (value_error ''limit must be positive''))
      else abind (lift_io (strict_utc clock)) (\<lambda>started.
        let all = discover_raw_quote_partitions (qc_data_root qc) found;
            mine = (case provider of Some x \<Rightarrow> filter (\<lambda>p. rp_provider p = x) all | None \<Rightarrow> all);
            order = (if limit \<noteq> None then rev mine else mine)
        in run_loop std qc (Aware started 0) dry_run limit 0 (map (\<lambda>p. (p, las p, cas p)) order)))"

end
