(* ===== verification/Lake_Properties.thy ===== *)
theory Lake_Properties
  imports Lake_Compaction
begin

section \<open>What the compactor never does\<close>

text \<open>
  A raw file is removed only after every gate, both verifications and a durable audit line;
  the reported status says what happened to it; a dry run changes nothing; a parquet file is
  published only from an unchanged source; a limited run does no more work than its limit;
  manifests survive being written and loaded.
\<close>

subsection \<open>Actions without effects\<close>

definition pure :: "'a act \<Rightarrow> bool" where "pure m \<longleftrightarrow> fst m = []"

named_theorems pure_intros "actions that change no file"

lemma pure_basic [simp, pure_intros]: "pure (ret x)" "pure (lift_io r)"
  by (simp_all add: pure_def ret_def lift_io_def)

lemma pure_abind [pure_intros]: "pure m \<Longrightarrow> (\<And>x. pure (f x)) \<Longrightarrow> pure (abind m f)"
  by (auto simp: pure_def abind_def split: prod.splits sum.splits) (metis fst_conv)

lemma pure_catch_when [pure_intros]:
  "(\<And>e. pure (h e)) \<Longrightarrow> (\<And>x. pure (f x)) \<Longrightarrow> pure (catch_when p r h f)"
  by (auto simp: pure_def catch_when_def split: sum.splits)

lemma pure_lstat_failed [simp, pure_intros]: "pure (lstat_failed e)"
  by (simp add: lstat_failed_def)

lemma pure_symlink_scan [pure_intros]: "pure k \<Longrightarrow> pure (symlink_scan ask ps k)"
  by (induction ps) (auto intro!: pure_intros)

lemma pure_if [pure_intros]: "pure a \<Longrightarrow> pure b \<Longrightarrow> pure (if c then a else b)"
  by simp

lemma pure_unsafe [pure_intros]: "pure (unsafe_raw_delete_target_reason base name p tr)"
  unfolding unsafe_raw_delete_target_reason_def Let_def
  by (auto intro!: pure_intros split: option.splits)

lemma pure_metadata [pure_intros]: "pure (raw_delete_metadata_reason qc p m da)"
  unfolding raw_delete_metadata_reason_def Let_def by (auto intro!: pure_intros)

lemma pure_evidence [pure_intros]: "pure (raw_delete_evidence_of std p m r da)"
  unfolding raw_delete_evidence_of_def Let_def by (auto intro!: pure_intros)

lemma abind_pure: "pure m \<Longrightarrow> abind m f = (case snd m of Inl e \<Rightarrow> ([], Inl e) | Inr x \<Rightarrow> f x)"
  by (cases m) (auto simp: pure_def abind_def split: sum.splits prod.splits)

subsection \<open>Effects of a sequence\<close>

lemma in_abind: "e \<in> set (fst (abind m f)) \<longleftrightarrow> e \<in> set (fst m) \<or> (\<exists>x. snd m = Inr x \<and> e \<in> set (fst (f x)))"
  by (cases m) (auto simp: abind_def split: sum.splits prod.splits)

lemma snd_abind: "snd (abind m f) = Inr y \<longleftrightarrow> (\<exists>x. snd m = Inr x \<and> snd (f x) = Inr y)"
  by (cases m) (auto simp: abind_def split: sum.splits prod.splits)

lemma fst_abind_Inr: "snd m = Inr x \<Longrightarrow> fst (abind m f) = fst m @ fst (f x)"
  by (cases m) (auto simp: abind_def split: prod.splits)

lemma act_simps [simp]:
  "fst (ret x) = []" "snd (ret x) = Inr x" "fst (lift_io r) = []" "snd (lift_io r) = r"
  by (simp_all add: ret_def lift_io_def)

lemma append_audit_effects:
  "set (fst (append_raw_deletion_audit qc entry now au)) \<subseteq>
     {MakeDirs (butlast (audit_path qc)), AppendAudit (audit_path qc) (dmerge [(''at'', VStr (isoformat now))] entry)}"
  by (auto simp: append_raw_deletion_audit_def Let_def abind_def effect_def split: sum.splits)

lemma append_audit_ok:
  "snd (append_raw_deletion_audit qc entry now au) = Inr u \<Longrightarrow>
   fst (append_raw_deletion_audit qc entry now au) =
     [MakeDirs (butlast (audit_path qc)), AppendAudit (audit_path qc) (dmerge [(''at'', VStr (isoformat now))] entry)]"
  by (auto simp: append_raw_deletion_audit_def Let_def abind_def effect_def split: sum.splits)

lemma fst_acatch_pure: "(\<And>e. pure (h e)) \<Longrightarrow> fst (acatch p m h) = fst m"
  by (cases m) (auto simp: acatch_def pure_def split: sum.splits prod.splits, metis fst_conv)

lemma finalize_effects:
  "set (fst (finalize_raw_deletion_audit qc r base now q au)) \<subseteq>
     {MakeDirs (butlast (audit_path qc))} \<union> range (AppendAudit (audit_path qc))"
proof -
  have "fst (abind (append_raw_deletion_audit qc entry now au) (\<lambda>_. ret r)) = fst (append_raw_deletion_audit qc entry now au)" for entry
    by (cases "append_raw_deletion_audit qc entry now au") (auto simp: abind_def ret_def split: sum.splits)
  then show ?thesis
    using append_audit_effects unfolding finalize_raw_deletion_audit_def Let_def
    by (fastforce simp: fst_acatch_pure)
qed

lemma finalize_no_file [simp]:
  "Unlink x \<notin> set (fst (finalize_raw_deletion_audit qc r base now q au))"
  "Rename x y \<notin> set (fst (finalize_raw_deletion_audit qc r base now q au))"
  using finalize_effects [of qc r base now q au] by blast+

subsection \<open>Deletion\<close>

text \<open>What must hold of manifest, clock and answers before a raw file may go.\<close>

definition delete_justified ::
  "py_std \<Rightarrow> compactor \<Rightarrow> raw_quote_partition \<Rightarrow> compaction_result \<Rightarrow> manifest \<Rightarrow> int \<Rightarrow> delete_answers \<Rightarrow> bool" where
  "delete_justified std qc p r m now da \<longleftrightarrow>
     qc_raw_delete_enabled qc \<and> cr_status r \<in> {''compacted'', ''up_to_date''} \<and> mf_status m = ''verified''
     \<and> (\<exists>e. end_at p = Inr e \<and> e \<le> now)
     \<and> (\<exists>c. std_fromiso std (mf_completed_at m) = Some c \<and> dt_aware c
           \<and> dt_instant c + hhmm (qc_raw_delete_grace_hours qc) 0 \<le> now)
     \<and> raw_delete_metadata_reason qc p m da = ret None
     \<and> (\<exists>output source. snapshot_source std (parquet_path p) (da_output da) = Inr output
           \<and> mf_output_sha256 m = Some (ss_sha256 output) \<and> mf_output_size m = Some (ss_size output)
           \<and> snapshot_source std (rp_source_path p) (da_source da) = Inr source
           \<and> mf_source_sha256 m = ss_sha256 source \<and> mf_source_size m = ss_size source)
     \<and> count_jsonl_rows (da_source_content da) = Inr (mf_row_count m)
     \<and> count_parquet_rows (parquet_path p) (da_parquet_count da) = Inr (mf_row_count m)"

lemma gate_metadata:
  "rg_phase (raw_delete_gate_of std en st m pe now g) = Metadata \<longleftrightarrow>
     en \<and> st \<in> {''compacted'', ''up_to_date''} \<and> mf_status m = ''verified'' \<and> pe \<le> now
     \<and> (\<exists>c. std_fromiso std (mf_completed_at m) = Some c \<and> dt_aware c \<and> dt_instant c + hhmm g 0 \<le> now)"
  by (auto simp: raw_delete_gate_of_def split: option.splits)

lemma gate_phases: "rg_phase (raw_delete_gate_of std en st m pe now g) \<in> {Retained, Blocked, Metadata}"
  by (auto simp: raw_delete_gate_of_def split: option.splits)

lemma pure_eq_ret: "pure m \<Longrightarrow> snd m = Inr x \<Longrightarrow> m = ret x"
  by (cases m) (simp add: pure_def ret_def)

lemma evidence_found:
  assumes "snd (raw_delete_evidence_of std p m r da) = Inr (Inr ev)"
  shows "\<exists>output source. snapshot_source std (parquet_path p) (da_output da) = Inr output
           \<and> mf_output_sha256 m = Some (ss_sha256 output) \<and> mf_output_size m = Some (ss_size output)
           \<and> snapshot_source std (rp_source_path p) (da_source da) = Inr source
           \<and> mf_source_sha256 m = ss_sha256 source \<and> mf_source_size m = ss_size source"
    and "count_jsonl_rows (da_source_content da) = Inr (mf_row_count m)"
    and "count_parquet_rows (parquet_path p) (da_parquet_count da) = Inr (mf_row_count m)"
  using assms
  by (auto simp: raw_delete_evidence_of_def catch_when_def ibind_eq_Inr_iff evidence_mismatch_reason_def
      split: sum.splits if_splits)

lemma evidence_source:
  "snd (raw_delete_evidence_of std p m r da) = Inr (Inr ev) \<Longrightarrow> ss_sha256 (re_source ev) = mf_source_sha256 m"
  by (auto simp: raw_delete_evidence_of_def catch_when_def ibind_eq_Inr_iff evidence_mismatch_reason_def
      split: sum.splits if_splits)

lemma evidence_blocked:
  "snd (raw_delete_evidence_of std p m r da) = Inr (Inl x) \<Longrightarrow> cr_status x = ''raw_delete_blocked''"
  by (auto simp: raw_delete_evidence_of_def catch_when_def raw_delete_blocked_def split: sum.splits if_splits option.splits)

text \<open>The statuses of a result that left the file alone.\<close>

definition kept_status :: "string \<Rightarrow> string \<Rightarrow> bool" where
  "kept_status before after \<longleftrightarrow> after = before \<or> after = ''raw_delete_blocked'' \<or> after = ''would_delete_raw''"

lemma kept_simps [simp]:
  "kept_status s s" "kept_status s (cr_status (raw_delete_blocked r d h))"
  "kept_status s (cr_status (with_status r ''would_delete_raw'' h d'))"
  by (simp_all add: kept_status_def raw_delete_blocked_def with_status_def)

lemma maybe_delete_cases:
  "pure (maybe_delete_raw std qc p r m now dry da)
      \<and> (\<forall>x. snd (maybe_delete_raw std qc p r m now dry da) = Inr x \<longrightarrow> kept_status (cr_status r) (cr_status x))
   \<or> (\<not> dry \<and> delete_justified std qc p r m now da
      \<and> (\<exists>ev. ss_sha256 (re_source ev) = mf_source_sha256 m
            \<and> maybe_delete_raw std qc p r m now dry da = authorize_and_delete_raw std qc p r m ev now da))"
proof (cases "end_at p")
  case (Inl e)
  then show ?thesis by (simp add: maybe_delete_raw_def abind_def lift_io_def pure_def)
next
  case (Inr pe)
  let ?g = "raw_delete_gate_of std (qc_raw_delete_enabled qc) (cr_status r) m pe now (qc_raw_delete_grace_hours qc)"
  show ?thesis
  proof (cases "rg_phase ?g = Metadata")
    case False
    then show ?thesis
      using gate_phases [of std "qc_raw_delete_enabled qc" "cr_status r" m pe now "qc_raw_delete_grace_hours qc"] Inr
      by (auto simp: maybe_delete_raw_def abind_pure Let_def)
  next
    case True
    show ?thesis
    proof (cases "snd (raw_delete_metadata_reason qc p m da) = Inr None")
      case False
      then show ?thesis using True Inr
        by (auto simp: maybe_delete_raw_def abind_pure Let_def pure_metadata split: sum.splits option.splits)
           (auto simp: pure_def)
    next
      case meta: True
      show ?thesis
      proof (cases "\<not> dry \<and> (\<exists>ev. snd (raw_delete_evidence_of std p m r da) = Inr (Inr ev))")
        case False
        then show ?thesis using True Inr meta evidence_blocked [of std p m r da]
          by (cases "snd (raw_delete_evidence_of std p m r da)")
             (auto simp: maybe_delete_raw_def abind_pure Let_def pure_metadata pure_evidence kept_status_def
               with_status_def pure_def [of "([], _)"] split: sum.splits)
      next
        case ev: True
        then obtain ev where e: "snd (raw_delete_evidence_of std p m r da) = Inr (Inr ev)" "\<not> dry" by blast
        have "delete_justified std qc p r m now da"
          using True [unfolded gate_metadata] Inr pure_eq_ret [OF pure_metadata meta] evidence_found [OF e(1)]
          unfolding delete_justified_def by blast
        moreover have "maybe_delete_raw std qc p r m now dry da = authorize_and_delete_raw std qc p r m ev now da"
          using True Inr meta e by (simp add: maybe_delete_raw_def abind_pure Let_def pure_metadata pure_evidence)
        ultimately show ?thesis using e(2) evidence_source [OF e(1)] by blast
      qed
    qed
  qed
qed

text \<open>The changes to the raw file, in order.\<close>

definition file_changes :: "fs_effect list \<Rightarrow> fs_effect list" where
  "file_changes t = filter (\<lambda>e. case e of Rename _ _ \<Rightarrow> True | Unlink _ \<Rightarrow> True | _ \<Rightarrow> False) t"

lemma file_changes_simps [simp]:
  "file_changes [] = []" "file_changes (s @ t) = file_changes s @ file_changes t"
  "file_changes (Rename x y # t) = Rename x y # file_changes t" "file_changes (Unlink x # t) = Unlink x # file_changes t"
  "file_changes (MakeDirs x # t) = file_changes t" "file_changes (AppendAudit x d # t) = file_changes t"
  by (simp_all add: file_changes_def)

lemma finalize_changes [simp]: "file_changes (fst (finalize_raw_deletion_audit qc r base now q au)) = []"
  using finalize_effects [of qc r base now q au] by (fastforce simp: file_changes_def filter_empty_conv split: fs_effect.splits)

lemma finalize_result:
  "snd (finalize_raw_deletion_audit qc r base now q au) = Inr x \<Longrightarrow>
   (x = r \<and> (\<exists>label. fst (finalize_raw_deletion_audit qc r base now q au) =
      [MakeDirs (butlast (audit_path qc)), AppendAudit (audit_path qc) (dmerge [(''at'', VStr (isoformat now))]
         (dmerge base [(''event'', VStr ''final''), (''status'', VStr (cr_status r)),
            (''detail'', opt_text (cr_detail r)), (''quarantine_path'', opt_text label)]))]))
   \<or> cr_status x = ''raw_delete_audit_failed''"
  unfolding finalize_raw_deletion_audit_def Let_def
  by (auto simp: acatch_def abind_def append_raw_deletion_audit_def effect_def ret_def with_status_def Let_def
      split: sum.splits if_splits)

lemma authorize_ok:
  "snd (authorize_raw_delete qc r base ev now da) = Inr None \<Longrightarrow>
   fst (authorize_raw_delete qc r base ev now da) =
     [MakeDirs (butlast (audit_path qc)), AppendAudit (audit_path qc) (dmerge [(''at'', VStr (isoformat now))]
        (dmerge base [(''event'', VStr ''authorize''), (''status'', VStr (raw_delete_phase_value Authorized)),
             (''detail'', VStr ''pre-delete verification passed; quarantine unlink authorized'')]))]"
  unfolding authorize_raw_delete_def
  by (auto simp: acatch_def abind_def append_raw_deletion_audit_def effect_def ret_def Let_def
      split: sum.splits if_splits)

lemma authorize_changes [simp]: "file_changes (fst (authorize_raw_delete qc r base ev now da)) = []"
  unfolding authorize_raw_delete_def
  by (auto simp: acatch_def abind_def append_raw_deletion_audit_def effect_def ret_def Let_def
      split: sum.splits if_splits)

lemma authorize_failed:
  "snd (authorize_raw_delete qc r base ev now da) = Inr (Some x) \<Longrightarrow> cr_status x = ''raw_delete_audit_failed''"
  unfolding authorize_raw_delete_def
  by (auto simp: acatch_def abind_def append_raw_deletion_audit_def effect_def ret_def with_status_def Let_def
      split: sum.splits if_splits)

text \<open>One file operation whose \<^verbatim>\<open>OSError\<close> is handled.\<close>

definition tried :: "fs_effect \<Rightarrow> unit io \<Rightarrow> io_error option act" where
  "tried e answer = acatch is_os_error (abind (effect e answer) (\<lambda>_. ret None)) (\<lambda>x. ret (Some x))"

lemma tried_eq:
  "tried e answer = (case answer of Inr _ \<Rightarrow> ([e], Inr None) | Inl x \<Rightarrow> ([], if is_os_error x then Inr (Some x) else Inl x))"
  by (auto simp: tried_def acatch_def abind_def effect_def ret_def split: sum.splits)

lemma quarantine_failure_status:
  "quarantine_failure qc r sha detail q = Inr x \<Longrightarrow> cr_status x = ''raw_delete_failed''"
  by (auto simp: quarantine_failure_def ibind_eq_Inr_iff with_status_def)

lemma verify_ok:
  assumes "snd (verify_quarantine std qc q r m ev base now da) = Inr (Inr s)"
  shows "fst (verify_quarantine std qc q r m ev base now da) = []"
    and "snapshot_source std q (da_quarantine da) = Inr s"
    and "ss_sha256 s = mf_source_sha256 m" "ss_size s = mf_source_size m"
    and "count_jsonl_rows (da_quarantine_content da) = Inr (mf_row_count m)"
  using assms
  by (auto simp: verify_quarantine_def catch_when_def ibind_eq_Inr_iff snd_abind quarantined_evidence_matches_def
      split: sum.splits if_splits)

lemma file_changes_abind:
  "file_changes (fst (abind a f)) = file_changes (fst a) @ (case snd a of Inr x \<Rightarrow> file_changes (fst (f x)) | Inl _ \<Rightarrow> [])"
  by (cases a) (auto simp: abind_def split: sum.splits prod.splits)

lemma verify_changes [simp]: "file_changes (fst (verify_quarantine std qc q r m ev base now da)) = []"
  by (auto simp: verify_quarantine_def catch_when_def file_changes_abind split: sum.splits if_splits)

lemma verify_failed:
  assumes "snd (verify_quarantine std qc q r m ev base now da) = Inr (Inl x)"
  shows "cr_status x \<in> {''raw_delete_failed'', ''raw_delete_audit_failed''}"
proof -
  obtain y b where "snd (finalize_raw_deletion_audit qc y b now (Some q) (da_final da)) = Inr x"
      "cr_status y = ''raw_delete_failed''"
    using assms
    by (auto simp: verify_quarantine_def catch_when_def ibind_eq_Inr_iff snd_abind
        dest!: quarantine_failure_status split: sum.splits if_splits)
  then show ?thesis using finalize_result by fastforce
qed

definition failed_status :: "string \<Rightarrow> bool" where
  "failed_status s \<longleftrightarrow> s \<in> {''raw_delete_failed'', ''raw_delete_audit_failed''}"

text \<open>
  A file that is gone is reported as deleted, with a durable final audit line, or as a failed
  audit.
\<close>

definition deletion_report :: "compactor \<Rightarrow> fs_effect list \<Rightarrow> compaction_result \<Rightarrow> bool" where
  "deletion_report qc tail x \<longleftrightarrow>
     cr_status x = ''raw_delete_audit_failed''
     \<or> cr_status x = ''raw_deleted''
        \<and> (\<exists>entry. tail = [MakeDirs (butlast (audit_path qc)), AppendAudit (audit_path qc) entry]
             \<and> dget entry ''event'' = VStr ''final'' \<and> dget entry ''status'' = VStr ''raw_deleted'')"

lemma distinct_dmerge: "distinct (map fst d) \<Longrightarrow> distinct (map fst (dmerge d e))"
  by (induction e arbitrary: d) (auto simp: dset_def distinct_update)

lemma map_of_rev_distinct: "distinct (map fst e) \<Longrightarrow> map_of (rev e) = map_of e"
  by (subst map_of_inject_set) (simp_all add: rev_map [symmetric])

lemma dget_dmerge: "distinct (map fst e) \<Longrightarrow> dget (dmerge d e) k = (case map_of e k of Some v \<Rightarrow> v | None \<Rightarrow> dget d k)"
  by (simp add: dget_def map_of_dmerge map_add_def map_of_rev_distinct split: option.split)

lemma finalize_deleted:
  assumes "snd (finalize_raw_deletion_audit qc r base now q au) = Inr x" "cr_status r = ''raw_deleted''"
    and base: "distinct (map fst base)"
  shows "deletion_report qc (fst (finalize_raw_deletion_audit qc r base now q au)) x"
  using finalize_result [OF assms(1)]
proof
  let ?e = "\<lambda>label. dmerge base [(''event'', VStr ''final''), (''status'', VStr (cr_status r)),
            (''detail'', opt_text (cr_detail r)), (''quarantine_path'', opt_text label)]"
  assume "x = r \<and> (\<exists>label. fst (finalize_raw_deletion_audit qc r base now q au) =
      [MakeDirs (butlast (audit_path qc)), AppendAudit (audit_path qc) (dmerge [(''at'', VStr (isoformat now))] (?e label))])"
  moreover have "dget (dmerge [(''at'', VStr (isoformat now))] (?e label)) ''event'' = VStr ''final''"
      "dget (dmerge [(''at'', VStr (isoformat now))] (?e label)) ''status'' = VStr ''raw_deleted''" for label
    using assms(2) by (simp_all add: dget_dmerge [OF distinct_dmerge [OF base]] map_of_dmerge del: dmerge_simps)
  ultimately show ?thesis unfolding deletion_report_def using assms(2) by blast
qed (simp add: deletion_report_def)

text \<open>The quarantined file is still the one the manifest describes.\<close>

definition quarantine_verified :: "py_std \<Rightarrow> path \<Rightarrow> manifest \<Rightarrow> delete_answers \<Rightarrow> bool" where
  "quarantine_verified std q m da \<longleftrightarrow>
     (\<exists>s. snapshot_source std q (da_quarantine da) = Inr s \<and> ss_sha256 s = mf_source_sha256 m \<and> ss_size s = mf_source_size m)
     \<and> count_jsonl_rows (da_quarantine_content da) = Inr (mf_row_count m)"

text \<open>What happens after the raw file has been moved to its quarantine name.\<close>

lemma unlink_outcomes:
  assumes a_def: "a = verify_and_unlink_quarantine std qc q r m ev base now da" and base: "distinct (map fst base)"
  shows "(file_changes (fst a) = [] \<and> (\<forall>x. snd a = Inr x \<longrightarrow> failed_status (cr_status x)))
     \<or> quarantine_verified std q m da
        \<and> (\<exists>tail. fst a = Unlink q # tail \<and> file_changes tail = []
             \<and> (\<forall>x. snd a = Inr x \<longrightarrow> deletion_report qc tail x))"
proof -
  let ?v = "verify_quarantine std qc q r m ev base now da"
  have a: "a = abind ?v (\<lambda>v. case v of Inl failure \<Rightarrow> ret failure | Inr verification \<Rightarrow>
         abind (tried (Unlink q) (da_unlink da)) (\<lambda>failed.
         case failed of
           Some e \<Rightarrow>
             abind (lift_io (quarantine_failure qc r (ss_sha256 (re_source ev))
               (''quarantined raw preserved after unlink failure: '' @ exc_text e) q)) (\<lambda>failure.
             finalize_raw_deletion_audit qc failure base now (Some q) (da_final da))
         | None \<Rightarrow>
             finalize_raw_deletion_audit qc
               (with_status r ''raw_deleted'' (Some (ss_sha256 verification))
                 (Some ''deleted verified closed-hour raw JSONL after grace period''))
               base now None (da_final da)))"
    unfolding a_def verify_and_unlink_quarantine_def tried_def ..
  consider (raised) e where "snd ?v = Inl e" | (refused) x where "snd ?v = Inr (Inl x)" | (ok) s where "snd ?v = Inr (Inr s)"
    by (metis sum.exhaust)
  then show ?thesis
  proof cases
    case raised
    then show ?thesis by (simp add: a file_changes_abind snd_abind)
  next
    case refused
    then show ?thesis using verify_failed [OF refused] by (simp add: a file_changes_abind snd_abind failed_status_def)
  next
    case (ok s)
    note v = verify_ok [OF ok]
    show ?thesis
    proof (cases "da_unlink da")
      case (Inl e)
      have "failed_status (cr_status x)"
        if "quarantine_failure qc r sha d q = Inr y" "snd (finalize_raw_deletion_audit qc y base now (Some q) (da_final da)) = Inr x"
        for sha d x y
        using finalize_result [OF that(2)] quarantine_failure_status [OF that(1)] by (auto simp: failed_status_def)
      then show ?thesis using ok Inl v(1)
        by (auto simp: a file_changes_abind snd_abind tried_eq split: sum.splits)
    next
      case (Inr u)
      let ?x = "with_status r ''raw_deleted'' (Some (ss_sha256 s)) (Some ''deleted verified closed-hour raw JSONL after grace period'')"
      let ?f = "finalize_raw_deletion_audit qc ?x base now None (da_final da)"
      have "fst a = Unlink q # fst ?f" "snd a = snd ?f"
        using ok Inr v(1) by (cases ?v; auto simp: a abind_def tried_eq split: sum.splits prod.splits)+
      moreover have "deletion_report qc (fst ?f) x" if "snd ?f = Inr x" for x
        using that by (rule finalize_deleted) (simp_all add: with_status_def base)
      moreover have "quarantine_verified std q m da"
        unfolding quarantine_verified_def using v by blast
      ultimately show ?thesis by (intro disjI2 conjI exI [of _ "fst ?f"]) auto
    qed
  qed
qed

lemma distinct_audit_base: "distinct (map fst (raw_delete_audit_base label m ev))"
  by (simp add: raw_delete_audit_base_def)

text \<open>The line that authorises a deletion names the verified digest.\<close>

definition authorize_entry :: "manifest \<Rightarrow> raw_quote_partition \<Rightarrow> pydict \<Rightarrow> bool" where
  "authorize_entry m p entry \<longleftrightarrow>
     dget entry ''event'' = VStr ''authorize'' \<and> dget entry ''status'' = VStr ''authorized''
     \<and> dget entry ''source_sha256'' = VStr (mf_source_sha256 m)
     \<and> (\<exists>label. source_relative_path p = Inr label \<and> dget entry ''source_path'' = VStr label)"

lemma authorize_entry_audit:
  assumes "source_relative_path p = Inr label" "ss_sha256 (re_source ev) = mf_source_sha256 m"
  shows "authorize_entry m p (dmerge [(''at'', VStr (isoformat now))]
        (dmerge (raw_delete_audit_base label m ev) [(''event'', VStr ''authorize''), (''status'', VStr (raw_delete_phase_value Authorized)),
             (''detail'', VStr detail)]))" (is "authorize_entry m p (dmerge ?a ?e)")
proof -
  have d: "distinct (map fst ?e)"
    by (rule distinct_dmerge [OF distinct_audit_base])
  have "map_of ?e = map_of (raw_delete_audit_base label m ev)
      ++ [''event'' \<mapsto> VStr ''authorize'', ''status'' \<mapsto> VStr ''authorized'', ''detail'' \<mapsto> VStr detail]"
    by (simp add: map_of_dmerge)
  then show ?thesis
    unfolding authorize_entry_def dget_dmerge [OF d] using assms
    by (simp add: raw_delete_audit_base_def map_add_def)
qed

lemma delete_outcomes:
  assumes a: "a = authorize_and_delete_raw std qc p r m ev now da"
    and sha: "ss_sha256 (re_source ev) = mf_source_sha256 m" and q: "q = quarantine_path_of p da"
  shows "(file_changes (fst a) \<in> {[], [Rename (rp_source_path p) q]} \<and> (\<forall>x. snd a = Inr x \<longrightarrow> failed_status (cr_status x)))
     \<or> quarantine_verified std q m da
        \<and> (\<exists>entry tail. fst a = [MakeDirs (butlast (audit_path qc)), AppendAudit (audit_path qc) entry,
                Rename (rp_source_path p) q, Unlink q] @ tail
             \<and> authorize_entry m p entry \<and> file_changes tail = []
             \<and> (\<forall>x. snd a = Inr x \<longrightarrow> deletion_report qc tail x))"
proof (cases "source_relative_path p")
  case (Inl e)
  then show ?thesis by (simp add: a authorize_and_delete_raw_def abind_def lift_io_def)
next
  case (Inr label)
  let ?b = "raw_delete_audit_base label m ev"
  let ?auth = "authorize_raw_delete qc r ?b ev now da"
  let ?u = "verify_and_unlink_quarantine std qc q r m ev ?b now da"
  have a2: "a = abind ?auth (\<lambda>audit_failure. case audit_failure of Some failure \<Rightarrow> ret failure
     | None \<Rightarrow> abind (tried (Rename (rp_source_path p) q) (da_rename da)) (\<lambda>failed. case failed of
           Some e \<Rightarrow> finalize_raw_deletion_audit qc
               (with_status r ''raw_delete_failed'' (Some (ss_sha256 (re_source ev)))
                 (Some (''quarantine rename failed: '' @ exc_text e))) ?b now None (da_final da)
         | None \<Rightarrow> ?u))"
    unfolding a authorize_and_delete_raw_def tried_def q abind_pure [OF pure_basic(2)] act_simps Inr sum.case Let_def ..
  consider (raised) e where "snd ?auth = Inl e" | (refused) x where "snd ?auth = Inr (Some x)" | (ok) "snd ?auth = Inr None"
    by (metis sum.exhaust option.exhaust)
  then show ?thesis
  proof cases
    case raised
    then show ?thesis by (simp add: a2 file_changes_abind snd_abind)
  next
    case refused
    then show ?thesis using authorize_failed [OF refused] by (simp add: a2 file_changes_abind snd_abind failed_status_def)
  next
    case ok
    show ?thesis
    proof (cases "da_rename da")
      case (Inl e)
      have "failed_status (cr_status x)"
        if "snd (finalize_raw_deletion_audit qc (with_status r ''raw_delete_failed'' s d) ?b now None (da_final da)) = Inr x"
        for x s d
        using finalize_result [OF that] by (auto simp: failed_status_def with_status_def)
      then show ?thesis using ok Inl
        by (auto simp: a2 file_changes_abind snd_abind tried_eq split: sum.splits)
    next
      case (Inr u)
      have f: "fst a = fst ?auth @ Rename (rp_source_path p) q # fst ?u" "snd a = snd ?u"
        using ok Inr by (cases ?auth; auto simp: a2 abind_def tried_eq split: sum.splits prod.splits)+
      show ?thesis
        using unlink_outcomes [OF refl distinct_audit_base, of std qc q r m ev label m ev now da]
      proof
        assume "file_changes (fst ?u) = [] \<and> (\<forall>x. snd ?u = Inr x \<longrightarrow> failed_status (cr_status x))"
        then show ?thesis by (simp add: f)
      next
        assume "quarantine_verified std q m da \<and> (\<exists>tail. fst ?u = Unlink q # tail \<and> file_changes tail = []
             \<and> (\<forall>x. snd ?u = Inr x \<longrightarrow> deletion_report qc tail x))"
        then show ?thesis
          using f authorize_ok [OF ok] authorize_entry_audit [OF \<open>source_relative_path p = Inr label\<close> sha]
          by (intro disjI2) (auto simp del: dmerge_simps)
      qed
    qed
  qed
qed

text \<open>
  C2: Whatever the operating system answers and whatever other processes do between its calls,
  \<open>maybe_delete_raw\<close> unlinks a file only in a real run, with deletion enabled, for a closed hour
  whose verified manifest is older than the grace period, after the target, the parquet file
  and the raw file matched the manifest by digest, size and row count, after an authorising
  audit line became durable and after the file, renamed to its quarantine name, matched the
  manifest again. What it unlinks is the quarantined file, and the four steps come in this
  order.
\<close>

theorem raw_file_removed_only_verified:
  assumes "Unlink y \<in> set (fst (maybe_delete_raw std qc p r m now dry da))"
  shows "\<not> dry \<and> delete_justified std qc p r m now da
     \<and> y = quarantine_path_of p da \<and> quarantine_verified std y m da
     \<and> (\<exists>entry tail. authorize_entry m p entry \<and> file_changes tail = []
          \<and> fst (maybe_delete_raw std qc p r m now dry da) =
              [MakeDirs (butlast (audit_path qc)), AppendAudit (audit_path qc) entry,
               Rename (rp_source_path p) y, Unlink y] @ tail)"
proof -
  let ?a = "maybe_delete_raw std qc p r m now dry da"
  let ?q = "quarantine_path_of p da"
  have *: "\<not> dry" "delete_justified std qc p r m now da"
    and "\<exists>ev. ?a = authorize_and_delete_raw std qc p r m ev now da \<and> ss_sha256 (re_source ev) = mf_source_sha256 m"
    using assms maybe_delete_cases [of std qc p r m now dry da] by (auto simp: pure_def)
  then obtain ev where ev: "?a = authorize_and_delete_raw std qc p r m ev now da" "ss_sha256 (re_source ev) = mf_source_sha256 m"
    by blast
  have mem: "Unlink y \<in> set (file_changes (fst ?a))" using assms by (simp add: file_changes_def)
  from delete_outcomes [OF ev refl] show ?thesis
  proof
    assume "file_changes (fst ?a) \<in> {[], [Rename (rp_source_path p) ?q]} \<and> (\<forall>x. snd ?a = Inr x \<longrightarrow> failed_status (cr_status x))"
    then show ?thesis using mem by auto
  next
    assume o: "quarantine_verified std ?q m da
        \<and> (\<exists>entry tail. fst ?a = [MakeDirs (butlast (audit_path qc)), AppendAudit (audit_path qc) entry,
                Rename (rp_source_path p) ?q, Unlink ?q] @ tail
             \<and> authorize_entry m p entry \<and> file_changes tail = []
             \<and> (\<forall>x. snd ?a = Inr x \<longrightarrow> deletion_report qc tail x))"
    moreover from o mem have "y = ?q" by auto
    ultimately show ?thesis using * by blast
  qed
qed

text \<open>
  C31: The result tells what happened to the raw file. A run renames it to its quarantine name and
  unlinks it there, or only renames it, or does not touch it. It reports a deletion only when
  the file is gone and the final audit line is durable; a file that is gone is otherwise
  reported as an audit failure; a file left in quarantine is always reported as a failure.
\<close>

theorem deletion_reported:
  assumes "maybe_delete_raw std qc p r m now dry da = (t, Inr x)" and "cr_status r \<noteq> ''raw_deleted''"
    and "q = quarantine_path_of p da"
  shows "file_changes t \<in> {[], [Rename (rp_source_path p) q], [Rename (rp_source_path p) q, Unlink q]}
     \<and> (file_changes t = [Rename (rp_source_path p) q] \<longrightarrow> summary_failure_status (cr_status x))
     \<and> (file_changes t = [Rename (rp_source_path p) q, Unlink q] \<longrightarrow>
          cr_status x \<in> {''raw_deleted'', ''raw_delete_audit_failed''})
     \<and> (cr_status x = ''raw_deleted'' \<longrightarrow>
          file_changes t = [Rename (rp_source_path p) q, Unlink q]
          \<and> (\<exists>before entry. t = before @ [AppendAudit (audit_path qc) entry]
               \<and> dget entry ''event'' = VStr ''final'' \<and> dget entry ''status'' = VStr ''raw_deleted''))"
  using maybe_delete_cases [of std qc p r m now dry da]
proof
  assume "pure (maybe_delete_raw std qc p r m now dry da)
      \<and> (\<forall>x. snd (maybe_delete_raw std qc p r m now dry da) = Inr x \<longrightarrow> kept_status (cr_status r) (cr_status x))"
  then show ?thesis using assms by (auto simp: pure_def kept_status_def)
next
  assume "\<not> dry \<and> delete_justified std qc p r m now da \<and> (\<exists>ev. ss_sha256 (re_source ev) = mf_source_sha256 m
            \<and> maybe_delete_raw std qc p r m now dry da = authorize_and_delete_raw std qc p r m ev now da)"
  then obtain ev where "(t, Inr x) = authorize_and_delete_raw std qc p r m ev now da" "ss_sha256 (re_source ev) = mf_source_sha256 m"
    using assms(1) by auto
  from delete_outcomes [OF this assms(3)] show ?thesis
    by (auto simp: failed_status_def deletion_report_def summary_failure_status_def)
qed

subsection \<open>Dry runs\<close>

lemma pure_maybe_delete_dry [pure_intros]: "pure (maybe_delete_raw std qc p r m now True da)"
  using maybe_delete_cases [of std qc p r m now True da] by simp

lemma pure_compact_empty_dry [pure_intros]: "pure (compact_empty p label out existing snapshot now True ca)"
  unfolding compact_empty_def Let_def by (auto intro!: pure_intros)

lemma pure_settled_dry [pure_intros]: "pure (compact_settled std qc p label out st now True ca)"
  unfolding compact_settled_def Let_def if_True by (auto intro!: pure_intros)

lemma pure_compact_one_dry [pure_intros]: "pure (compact_one std qc p clock True la ca)"
  unfolding compact_one_def compact_one_unlocked_def exclusive_lock_def
  by (auto intro!: pure_intros split: sum.splits io_error.splits)

lemma pure_run_loop_dry [pure_intros]: "pure (run_loop std qc clock True limit n ps)"
  by (induction ps arbitrary: n) (auto intro!: pure_intros)

text \<open>
  A dry run changes no file: neither compacting one partition nor a whole run over any
  partitions makes a single change, whatever the answers are.
\<close>

theorem dry_run_changes_nothing:
  "fst (compact_one std qc p clock True la ca) = []
   \<and> fst (compact_run std qc clock True limit provider found las cas) = []"
proof -
  have "pure (compact_run std qc clock True limit provider found las cas)"
    unfolding compact_run_def Let_def by (auto intro!: pure_intros)
  then show ?thesis using pure_compact_one_dry unfolding pure_def by blast
qed

subsection \<open>Work limit\<close>

lemma run_loop_work:
  assumes "snd (run_loop std qc clock dry (Some n) k ps) = Inr rs"
  shows "int (length (filter (\<lambda>r. limited_work_status (cr_status r)) rs)) \<le> max 0 (n - k)"
  using assms
proof (induction ps arbitrary: k rs)
  case (Cons a ps)
  obtain p la ca where a: "a = (p, la, ca)" by (cases a)
  show ?case
  proof (cases "k \<ge> n")
    case True
    then show ?thesis using Cons.prems a by simp
  next
    case False
    then obtain r rs' where r: "snd (run_loop std qc clock dry (Some n)
          (if limited_work_status (cr_status r) then k + 1 else k) ps) = Inr rs'" "rs = r # rs'"
      using Cons.prems a by (auto simp: snd_abind)
    then show ?thesis using Cons.IH [OF r(1)] False by (auto split: if_splits)
  qed
qed simp

text \<open>
  A run with a limit ends with at most that many results that did (or in a dry run would do)
  work, and a limit that is not positive is refused before any file is touched.
\<close>

theorem limited_run:
  "(limit \<le> 0 \<longrightarrow> compact_run std qc clock dry (Some limit) provider found las cas
      = ([], Inl (OtherError ''ValueError'' ''limit must be positive'')))
   \<and> (\<forall>rs. snd (compact_run std qc clock dry (Some limit) provider found las cas) = Inr rs \<longrightarrow>
        int (length (filter (\<lambda>r. limited_work_status (cr_status r)) rs)) \<le> limit)"
proof (intro conjI impI allI)
  show "compact_run std qc clock dry (Some limit) provider found las cas
      = ([], Inl (OtherError ''ValueError'' ''limit must be positive''))" if "limit \<le> 0"
    using that by (simp add: compact_run_def lift_io_def value_error_def)
next
  fix rs assume "snd (compact_run std qc clock dry (Some limit) provider found las cas) = Inr rs"
  then obtain c ps where "snd (run_loop std qc c dry (Some limit) 0 ps) = Inr rs" "0 < limit"
    by (auto simp: compact_run_def snd_abind Let_def split: if_splits)
  then show "int (length (filter (\<lambda>r. limited_work_status (cr_status r)) rs)) \<le> limit"
    using run_loop_work by fastforce
qed

subsection \<open>Which files a run may touch\<close>

definition confined :: "fs_effect set \<Rightarrow> 'a act \<Rightarrow> bool" where
  "confined S a \<longleftrightarrow> set (fst a) \<subseteq> S"

named_theorems confined_intros "bounds on the effects of an action"

lemma confined_pure: "pure a \<Longrightarrow> confined S a"
  by (simp add: confined_def pure_def)

lemma confined_basic [simp, confined_intros]: "confined S (ret x)" "confined S (lift_io r)"
  by (simp_all add: confined_def)

lemma abind_lift_Inr: "abind (lift_io (Inr x)) f = f x"
  by (simp add: abind_def lift_io_def)

lemma confined_effect [confined_intros]: "e \<in> S \<Longrightarrow> confined S (effect e answer)"
  by (simp add: confined_def effect_def split: sum.splits)

lemma confined_abind [confined_intros]: "confined S a \<Longrightarrow> (\<And>x. confined S (f x)) \<Longrightarrow> confined S (abind a f)"
  by (auto simp: confined_def in_abind subset_iff)

lemma confined_catch_when [confined_intros]:
  "(\<And>e. confined S (h e)) \<Longrightarrow> (\<And>x. confined S (f x)) \<Longrightarrow> confined S (catch_when c r h f)"
  by (auto simp: confined_def catch_when_def split: sum.splits)

lemma confined_acatch [confined_intros]: "confined S a \<Longrightarrow> (\<And>e. confined S (h e)) \<Longrightarrow> confined S (acatch c a h)"
  by (cases a) (auto simp: confined_def acatch_def subset_iff split: sum.splits prod.splits, metis fst_conv)

lemma confined_afinally [confined_intros]: "confined S a \<Longrightarrow> confined S c \<Longrightarrow> confined S (afinally a c)"
  by (auto simp: confined_def afinally_def subset_iff split: sum.splits prod.splits)

text \<open>The paths an effect acts on, and effects that stay in the lake and the manifests.\<close>

fun paths_of :: "fs_effect \<Rightarrow> path set" where
  "paths_of (TakeLock x) = {x}"
| "paths_of (MakeDirs x) = {x}"
| "paths_of (WriteParquet x) = {x}"
| "paths_of (Chmod x) = {x}"
| "paths_of (Replace x y) = {x, y}"
| "paths_of (WriteManifest x m) = {x}"
| "paths_of (AppendAudit x d) = {x}"
| "paths_of (Rename x y) = {x, y}"
| "paths_of (Unlink x) = {x}"

definition derived :: "path \<Rightarrow> path \<Rightarrow> bool" where
  "derived base x \<longleftrightarrow> (\<exists>d rest. d \<in> {''lake'', ''manifests''} \<and> x = base @ d # rest)"

definition derived_only :: "path \<Rightarrow> fs_effect set" where
  "derived_only base = {e. \<forall>x \<in> paths_of e. derived base x}"

lemma mem_derived_only: "e \<in> derived_only base \<longleftrightarrow> (\<forall>x \<in> paths_of e. derived base x)"
  by (simp add: derived_only_def)

lemma derived_parts [simp]:
  "derived base (base @ ''lake'' # rest)" "derived base (base @ ''manifests'' # rest)"
  by (auto simp: derived_def)

lemma butlast_tail: "butlast (base @ d # rest @ [f]) = base @ d # rest" "butlast (base @ [d, e, f]) = base @ [d, e]"
  by (simp_all add: butlast_append)

lemma with_name_tail: "with_name (base @ d # rest @ [f]) name = base @ d # rest @ [name]"
  by (simp add: with_name_def butlast_append)

lemma lake_paths:
  "parquet_path p = rp_data_root p @ ''lake'' # (''quotes'' # hour_dirs p) @ [''quotes.parquet'']"
  "manifest_path p = rp_data_root p @ ''manifests'' # (''compaction'' # hour_dirs p) @ [''quotes.json'']"
  "audit_path qc = qc_data_root qc @ [''manifests'', ''compaction'', ''raw_deletion_audit.jsonl'']"
  by (simp_all add: parquet_path_def manifest_path_def audit_path_def)

lemma derived_paths:
  "derived (rp_data_root p) (parquet_path p)" "derived (rp_data_root p) (manifest_path p)"
  "derived (rp_data_root p) (butlast (parquet_path p))" "derived (rp_data_root p) (butlast (manifest_path p))"
  "derived (rp_data_root p) (temp_of (parquet_path p) s)" "derived (rp_data_root p) (temp_of (manifest_path p) s)"
  "derived (qc_data_root qc) (audit_path qc)" "derived (qc_data_root qc) (butlast (audit_path qc))"
  unfolding lake_paths temp_of_def with_name_tail butlast_tail by simp_all

lemma confined_audit [confined_intros]:
  "confined (derived_only (qc_data_root qc)) (append_raw_deletion_audit qc entry now au)"
  unfolding append_raw_deletion_audit_def Let_def
  by (auto intro!: confined_intros simp: mem_derived_only derived_paths)

lemma confined_finalize [confined_intros]:
  "confined (derived_only (qc_data_root qc)) (finalize_raw_deletion_audit qc r b now q au)"
  unfolding finalize_raw_deletion_audit_def Let_def by (auto intro!: confined_intros)

lemma confined_lock [confined_intros]: "confined (derived_only (qc_data_root qc)) (exclusive_lock qc dry la)"
  unfolding exclusive_lock_def Let_def
  by (auto intro!: confined_intros simp: mem_derived_only butlast_tail)

lemma confined_write_manifest [confined_intros]:
  "confined (derived_only (rp_data_root p)) (write_manifest (manifest_path p) m mw)"
  unfolding write_manifest_def Let_def
  by (auto intro!: confined_intros simp: mem_derived_only derived_paths)

lemma confined_publish [confined_intros]:
  "confined (derived_only (rp_data_root p)) (publish_parquet std p label out snapshot now ca)"
  unfolding publish_parquet_def Let_def
  by (auto intro!: confined_intros simp: mem_derived_only derived_paths)

lemma confined_mono: "confined S a \<Longrightarrow> S \<subseteq> T \<Longrightarrow> confined T a"
  by (auto simp: confined_def)

text \<open>What a run may do to a partition: work on derived files, and a justified deletion.\<close>

definition permitted ::
  "py_std \<Rightarrow> compactor \<Rightarrow> raw_quote_partition \<Rightarrow> bool \<Rightarrow> int \<Rightarrow> delete_answers \<Rightarrow> fs_effect set" where
  "permitted std qc p dry now da =
     derived_only (rp_data_root p)
     \<union> {e. \<not> dry \<and> (\<exists>r m. delete_justified std qc p r m now da)
          \<and> e \<in> {Rename (rp_source_path p) (quarantine_path_of p da), Unlink (quarantine_path_of p da)}}"

lemma confined_derived: "confined (derived_only (rp_data_root p)) a \<Longrightarrow> confined (permitted std qc p dry now da) a"
  by (rule confined_mono) (auto simp: permitted_def)

lemma confined_deletion:
  assumes audit: "\<And>entry. {MakeDirs (butlast (audit_path qc)), AppendAudit (audit_path qc) entry} \<subseteq> S"
    and files: "Rename (rp_source_path p) (quarantine_path_of p da) \<in> S" "Unlink (quarantine_path_of p da) \<in> S"
  shows "confined S (authorize_and_delete_raw std qc p r m ev now da)"
proof -
  have a: "confined S (append_raw_deletion_audit qc entry now au)" for entry au
    using audit unfolding append_raw_deletion_audit_def Let_def by (auto intro!: confined_intros)
  have f: "confined S (finalize_raw_deletion_audit qc r' b now q au)" for r' b q au
    unfolding finalize_raw_deletion_audit_def Let_def by (auto intro!: confined_intros a)
  show ?thesis
    unfolding authorize_and_delete_raw_def authorize_raw_delete_def verify_and_unlink_quarantine_def
      verify_quarantine_def Let_def
    by (intro confined_intros a f files) (auto intro!: confined_intros a f files split: option.splits sum.splits)
qed

lemma confined_authorize_and_delete:
  assumes "qc_data_root qc = rp_data_root p" "\<not> dry" "delete_justified std qc p r m now da"
  shows "confined (permitted std qc p dry now da) (authorize_and_delete_raw std qc p r m ev now da)"
proof (rule confined_deletion)
  show "{MakeDirs (butlast (audit_path qc)), AppendAudit (audit_path qc) entry} \<subseteq> permitted std qc p dry now da" for entry
    using derived_paths(7,8) [of qc] assms(1) by (simp add: permitted_def mem_derived_only)
qed (use assms(2,3) in \<open>auto simp: permitted_def\<close>)

lemma confined_maybe_delete [confined_intros]:
  assumes "qc_data_root qc = rp_data_root p"
  shows "confined (permitted std qc p dry now da) (maybe_delete_raw std qc p r m now dry da)"
  using maybe_delete_cases [of std qc p r m now dry da] confined_authorize_and_delete [OF assms]
  by (auto simp: confined_pure)

lemma confined_compact_source [confined_intros]:
  assumes "qc_data_root qc = rp_data_root p"
  shows "confined (permitted std qc p False now (ca_delete ca)) (compact_source std qc p label out snapshot now ca)"
proof -
  have "Unlink (temp_of (parquet_path p) ''.tmp'') \<in> permitted std qc p False now (ca_delete ca)"
    by (simp add: permitted_def mem_derived_only derived_paths)
  then show ?thesis
    unfolding compact_source_def drop_temp_def
    by (auto intro!: confined_intros confined_derived [OF confined_publish] assms split: sum.splits)
qed

lemma confined_compact_empty [confined_intros]:
  "confined (permitted std qc p dry now da) (compact_empty p label out existing snapshot now dry ca)"
  unfolding compact_empty_def Let_def
  by (auto intro!: confined_intros confined_derived [OF confined_write_manifest])

lemma confined_compact_settled [confined_intros]:
  assumes "qc_data_root qc = rp_data_root p"
  shows "confined (permitted std qc p dry now (ca_delete ca)) (compact_settled std qc p label out st now dry ca)"
  using assms unfolding compact_settled_def Let_def
  by (cases dry) (auto intro!: confined_intros)

lemma confined_compact_one:
  assumes "qc_data_root qc = rp_data_root p" "strict_utc clock = Inr now"
  shows "confined (permitted std qc p dry now (ca_delete ca)) (compact_one std qc p clock dry la ca)"
proof -
  have "confined (permitted std qc p dry now (ca_delete ca)) (exclusive_lock qc dry la)"
    using assms(1) confined_lock [of qc dry la] by (simp add: confined_derived)
  then show ?thesis
    using assms(1)
    unfolding compact_one_def compact_one_unlocked_def assms(2) abind_lift_Inr
    by (auto intro!: confined_intros split: sum.splits io_error.splits)
qed

lemma parsed_source:
  assumes "parse_raw_quote_partition base src = Some p"
  shows "rp_data_root p = base" "rp_source_path p = src" "\<exists>a b c d. src = base @ [''raw'', a, b, c, d]"
proof -
  obtain a b c d where rel: "relative_to src (base @ [''raw'']) = Some [a, b, c, d]"
      and p: "rp_data_root p = base" "rp_source_path p = src"
    using assms by (auto simp: parse_raw_quote_partition_def Let_def split: option.splits list.splits if_splits)
  have "src = (base @ [''raw'']) @ [a, b, c, d]"
    using rel by (metis append_take_drop_id option.distinct(1) option.inject relative_to_def)
  then show "\<exists>a b c d. src = base @ [''raw'', a, b, c, d]" by simp
  from p show "rp_data_root p = base" "rp_source_path p = src" by simp_all
qed

lemma source_not_derived: "derived base (base @ ''raw'' # rest) \<longleftrightarrow> False"
  by (auto simp: derived_def)

lemma quarantine_other: "src = base @ [''raw'', a, b, c, d] \<Longrightarrow> rp_source_path p = src \<Longrightarrow> quarantine_path_of p da \<noteq> src"
  by (auto simp: quarantine_path_of_def with_name_def path_name_def dest!: arg_cong [where f = length])

text \<open>
  C11: Compacting a discovered partition never alters its raw file, with one exception: the rename
  into quarantine of a deletion whose every gate was passed. Everything else the compactor
  does acts on other paths.
\<close>

theorem raw_source_preserved:
  assumes "parse_raw_quote_partition (qc_data_root qc) src = Some p"
    and "e \<in> set (fst (compact_one std qc p clock dry la ca))" and "src \<in> paths_of e"
  shows "\<not> dry \<and> e = Rename src (quarantine_path_of p (ca_delete ca))
     \<and> (\<exists>r m now. strict_utc clock = Inr now \<and> delete_justified std qc p r m now (ca_delete ca))"
proof -
  note ps = parsed_source [OF assms(1)]
  have nd: "e \<notin> derived_only (rp_data_root p)"
    using ps assms(3) source_not_derived unfolding mem_derived_only by metis
  obtain now where now: "strict_utc clock = Inr now"
  proof (cases "strict_utc clock")
    case (Inl x)
    then have "e \<in> set (fst (exclusive_lock qc dry la))"
      using assms(2) by (auto simp: compact_one_def compact_one_unlocked_def in_abind)
    then show ?thesis using nd confined_lock [of qc dry la] ps(1) by (auto simp: confined_def)
  qed
  have "e \<in> permitted std qc p dry now (ca_delete ca)"
    using confined_compact_one [OF _ now, of qc p std dry ca la] ps(1) assms(2) by (auto simp: confined_def)
  moreover have "quarantine_path_of p (ca_delete ca) \<noteq> src"
    using ps quarantine_other by blast
  ultimately show ?thesis
    using nd now assms(3) ps(2) by (auto simp: permitted_def)
qed

subsection \<open>Manifests\<close>

text \<open>
  A manifest the compactor writes, for a published or for an empty partition, is loaded back
  unchanged; one whose identifier does not belong to its source is not loaded.
\<close>

theorem manifest_survives:
  assumes "m = empty_manifest label source now
      \<or> m = verified_manifest label output_label source output stats now \<and> output_label \<noteq> [] \<and> ss_sha256 output \<noteq> []"
  shows "\<exists>d. manifest_to_dict std m = Inr d \<and> load_manifest std (Some (VDict d)) = Inr (Some m)
     \<and> (\<forall>other. manifest_id std m \<noteq> Inr other \<longrightarrow>
          load_manifest std (Some (VDict (dset d ''manifest_id'' (VStr other)))) = Inr None)"
proof -
  obtain mid where mid: "manifest_id std m = Inr mid" using compact_id_ok by blast
  then obtain d where d: "manifest_to_dict std m = Inr d" by (simp add: manifest_to_dict_def)
  have wf: "manifest_wf m" using assms by (auto simp: manifest_wf_def empty_manifest_def verified_manifest_def)
  have rt: "manifest_from_dict std d = Inr m" by (rule manifest_roundtrip_res [OF wf d])
  have v: "mf_manifest_version m = manifest_version_1" using wf by (simp add: manifest_wf_def)
  have "load_manifest std (Some (VDict (dset d ''manifest_id'' (VStr other)))) = Inr None"
    if "manifest_id std m \<noteq> Inr other" for other
  proof -
    have items: "int_item (dset d ''manifest_id'' (VStr other)) k = int_item d k"
        "str_item std (dset d ''manifest_id'' (VStr other)) k = str_item std d k"
        "dget (dset d ''manifest_id'' (VStr other)) k = dget d k" if "k \<noteq> ''manifest_id''" for k
      using that by (simp_all add: int_item_def str_item_def)
    have "manifest_from_dict std (dset d ''manifest_id'' (VStr other))
        = Inl (ValueError ''manifest_id does not match source lineage'')"
      using rt mid that
      by (simp add: manifest_from_dict_def items rbind_eq_Inr_iff guard_raise_def Let_def item_values split: if_splits) auto
    then show ?thesis by (simp add: load_manifest_def)
  qed
  then show ?thesis using d rt v by (auto simp: load_manifest_def)
qed

lemma in_effect: "e \<in> set (fst (effect e' answer)) \<longleftrightarrow> e = e' \<and> (\<exists>u. answer = Inr u)"
  "snd (effect e' answer) = Inr u \<longleftrightarrow> (\<exists>v. answer = Inr v)"
  by (auto simp: effect_def split: sum.splits)

lemma in_catch_when:
  "e \<in> set (fst (catch_when c r h f)) \<longleftrightarrow>
     (\<exists>x. r = Inr x \<and> e \<in> set (fst (f x))) \<or> (\<exists>x. r = Inl x \<and> c x \<and> e \<in> set (fst (h x)))"
  by (auto simp: catch_when_def split: sum.splits)

lemma in_afinally: "e \<in> set (fst (afinally a c)) \<longleftrightarrow> e \<in> set (fst a) \<or> e \<in> set (fst c)"
  by (auto simp: afinally_def split: prod.splits sum.splits)

lemma fst_abind_ret: "fst (abind a (\<lambda>x. ret (f x))) = fst a"
  by (cases a) (auto simp: abind_def ret_def split: sum.splits)

lemma maybe_delete_no_manifest: "WriteManifest x m' \<notin> set (fst (maybe_delete_raw std qc p r m now dry da))"
proof -
  have "confined {e. e \<noteq> WriteManifest x m'} (authorize_and_delete_raw std qc p r m ev now da)" for ev
    by (rule confined_deletion) auto
  then show ?thesis
    using maybe_delete_cases [of std qc p r m now dry da] unfolding confined_def pure_def by fastforce
qed

lemma write_manifest_only:
  "WriteManifest x m \<in> set (fst (write_manifest target m' mw)) \<Longrightarrow> m = m'"
  by (auto simp: write_manifest_def Let_def in_abind in_afinally in_effect)

text \<open>What a manifest that is written as verified stands for.\<close>

definition published ::
  "py_std \<Rightarrow> raw_quote_partition \<Rightarrow> manifest \<Rightarrow> compact_answers \<Rightarrow> source_snapshot \<Rightarrow> bool" where
  "published std p m ca snapshot \<longleftrightarrow>
     (\<exists>label output_label output stats now.
        m = verified_manifest label output_label snapshot output stats now
        \<and> ca_normalize ca = Inr stats \<and> ca_verify ca = Inr ()
        \<and> snapshot_source std (rp_source_path p) (ca_after ca) = Inr snapshot
        \<and> snapshot_source std (temp_of (parquet_path p) ''.tmp'') (ca_output ca) = Inr output)"

lemma publish_manifest:
  assumes "WriteManifest x m \<in> set (fst (publish_parquet std p label out snapshot now ca))"
  shows "published std p m ca snapshot"
    and "Replace (temp_of (parquet_path p) ''.tmp'') (parquet_path p) \<in> set (fst (publish_parquet std p label out snapshot now ca))"
proof -
  obtain stats out_snap u where *: "ca_normalize ca = Inr stats" "ca_verify ca = Inr ()"
      "snapshot_source std (rp_source_path p) (ca_after ca) = Inr snapshot"
      "snapshot_source std (temp_of (parquet_path p) ''.tmp'') (ca_output ca) = Inr out_snap"
      "ca_mkdir ca = Inr u" "ca_temp_unlink ca = Inr u" "ca_write_parquet ca = Inr u" "ca_chmod ca = Inr u" "ca_replace ca = Inr u"
      "WriteManifest x m \<in> set (fst (write_manifest (manifest_path p) (verified_manifest label out snapshot out_snap stats now) (ca_manifest_write ca)))"
    using assms
    by (auto simp: publish_parquet_def Let_def in_abind in_effect fst_abind_ret snd_abind split: if_splits)
  show "published std p m ca snapshot"
    unfolding published_def using * write_manifest_only by blast
  show "Replace (temp_of (parquet_path p) ''.tmp'') (parquet_path p) \<in> set (fst (publish_parquet std p label out snapshot now ca))"
    by (simp add: publish_parquet_def Let_def in_abind in_effect *)
qed

lemma compact_source_manifest:
  assumes "WriteManifest x m \<in> set (fst (compact_source std qc p label out snapshot now ca))"
  shows "published std p m ca snapshot
     \<and> Replace (temp_of (parquet_path p) ''.tmp'') (parquet_path p) \<in> set (fst (compact_source std qc p label out snapshot now ca))"
proof -
  have temp: "WriteManifest x m \<notin> set (fst (drop_temp t answer))" for t answer
    by (auto simp: drop_temp_def fst_acatch_pure in_effect)
  have next_step: "WriteManifest x m \<notin> set (fst (case c of Inl failed \<Rightarrow> ret failed | Inr m \<Rightarrow> maybe_delete_raw std qc p (r m) m now False da))"
    for c r da
    using maybe_delete_no_manifest by (cases c) auto
  have "WriteManifest x m \<in> set (fst (publish_parquet std p label out snapshot now ca))"
    using assms next_step temp
    unfolding compact_source_def by (auto simp: in_abind in_afinally fst_acatch_pure fst_abind_ret)
  then show ?thesis
    using publish_manifest [of x m std p label out snapshot now ca]
    by (auto simp: compact_source_def in_abind in_afinally fst_acatch_pure fst_abind_ret)
qed

lemma compact_empty_manifest:
  assumes "WriteManifest x m \<in> set (fst (compact_empty p label out existing snapshot now dry ca))"
  shows "mf_status m = ''empty'' \<and> (\<forall>old. existing = Some old \<longrightarrow> mf_status old \<noteq> ''verified'')"
proof -
  have "map_option mf_status existing \<noteq> Some ''verified''"
      "WriteManifest x m \<in> set (fst (write_manifest (manifest_path p) (empty_manifest label snapshot now) (ca_empty_write ca)))"
    using assms by (auto simp: compact_empty_def Let_def fst_acatch_pure fst_abind_ret split: if_splits)
  then show ?thesis using write_manifest_only by (fastforce simp: empty_manifest_def)
qed

text \<open>What the manifest of a run says about the partition.\<close>

definition manifest_truth :: "py_std \<Rightarrow> raw_quote_partition \<Rightarrow> manifest \<Rightarrow> compact_answers \<Rightarrow> fs_effect set \<Rightarrow> bool" where
  "manifest_truth std p m ca effects \<longleftrightarrow>
     (\<exists>snapshot. snapshot_source std (rp_source_path p) (ca_snapshot ca) = Inr snapshot
        \<and> (if ss_size snapshot = 0
           then mf_status m = ''empty''
                \<and> (\<forall>old. load_manifest std (ca_manifest ca) = Inr (Some old) \<longrightarrow> mf_status old \<noteq> ''verified'')
           else published std p m ca snapshot
                \<and> Replace (temp_of (parquet_path p) ''.tmp'') (parquet_path p) \<in> effects))"

lemma compact_settled_manifest:
  assumes "WriteManifest x m \<in> set (fst (compact_settled std qc p label out st now dry ca))"
  shows "manifest_truth std p m ca (set (fst (compact_settled std qc p label out st now dry ca)))"
proof -
  obtain existing where old: "load_manifest std (ca_manifest ca) = Inr existing"
      "manifest_matches_metadata std qc p existing st ca = Inr False"
    using assms maybe_delete_no_manifest
    by (auto simp: compact_settled_def in_abind Let_def split: if_splits)
  obtain snapshot where s: "snapshot_source std (rp_source_path p) (ca_snapshot ca) = Inr snapshot"
    using assms old by (auto simp: compact_settled_def in_abind in_catch_when)
  show ?thesis
  proof (cases "ss_size snapshot = 0")
    case True
    then have "WriteManifest x m \<in> set (fst (compact_empty p label out existing snapshot now dry ca))"
      using assms old s by (simp add: compact_settled_def abind_lift_Inr catch_when_def)
    then show ?thesis unfolding manifest_truth_def using compact_empty_manifest old(1) s True by (intro exI [of _ snapshot]) fastforce
  next
    case False
    then have v: "verified_manifest_matches std p existing snapshot ca = Inr False" "\<not> dry"
        "WriteManifest x m \<in> set (fst (compact_source std qc p label out snapshot now ca))"
      using assms old s maybe_delete_no_manifest
      by (auto simp: compact_settled_def abind_lift_Inr catch_when_def in_abind split: if_splits)
    have "fst (compact_settled std qc p label out st now dry ca) = fst (compact_source std qc p label out snapshot now ca)"
      using old s v False by (simp add: compact_settled_def abind_lift_Inr catch_when_def)
    then show ?thesis
      unfolding manifest_truth_def using compact_source_manifest [OF v(3)] s False by (intro exI [of _ snapshot]) auto
  qed
qed

lemma manifest_truth_mono: "manifest_truth std p m ca E \<Longrightarrow> E \<subseteq> F \<Longrightarrow> manifest_truth std p m ca F"
  unfolding manifest_truth_def by (auto split: if_splits)

text \<open>
  C17: A manifest is written only in a real run, and it is true. A verified manifest carries the
  digest and size of the source as they were read before and, unchanged, after the conversion,
  and those of the verified temporary file, which was moved to its final place in the same
  run. A partition is marked empty only when its source was empty and no verified manifest
  existed, so published data is never disowned.
\<close>

theorem manifest_written_truthfully:
  assumes "WriteManifest x m \<in> set (fst (compact_one std qc p clock dry la ca))"
  shows "\<not> dry \<and> manifest_truth std p m ca (set (fst (compact_one std qc p clock dry la ca)))"
proof -
  have "\<not> dry" using assms pure_compact_one_dry [of std qc p clock la ca] by (cases dry) (auto simp: pure_def)
  have lock: "WriteManifest x m \<notin> set (fst (exclusive_lock qc dry la))"
    by (auto simp: exclusive_lock_def Let_def in_abind in_effect)
  then obtain u where u: "snd (exclusive_lock qc dry la) = Inr u"
      and one: "WriteManifest x m \<in> set (fst (compact_one_unlocked std qc p clock dry ca))"
    using assms by (auto simp: compact_one_def in_abind)
  obtain label out st now where "WriteManifest x m \<in> set (fst (compact_settled std qc p label out st now dry ca))"
      "fst (compact_one_unlocked std qc p clock dry ca) = fst (compact_settled std qc p label out st now dry ca)"
    using one by (auto simp: compact_one_unlocked_def in_abind abind_pure split: sum.splits if_splits io_error.splits)
  then have "manifest_truth std p m ca (set (fst (compact_one_unlocked std qc p clock dry ca)))"
    using compact_settled_manifest by metis
  then have "manifest_truth std p m ca (set (fst (compact_one std qc p clock dry la ca)))"
    by (rule manifest_truth_mono) (use u in \<open>auto simp: compact_one_def in_abind\<close>)
  then show ?thesis using \<open>\<not> dry\<close> by blast
qed

subsection \<open>A concrete hour\<close>

text \<open>
  One closed hour of two bytes and one row, an identity digest in place of SHA-256, and calls
  that all succeed.
\<close>

definition hour_std :: py_std where
  "hour_std = \<lparr>std_str = (\<lambda>_. []), std_float = (\<lambda>_. None), std_fromiso = (\<lambda>_. Some (Aware 0 0)),
     std_fmt_g = (\<lambda>_. []), std_sha256 = (\<lambda>s. s)\<rparr>"

definition hour_compactor :: compactor where
  "hour_compactor = \<lparr>qc_data_root = [''/'', ''d''], qc_raw_file_name = ''q'', qc_settle_seconds = Fin 120,
     qc_compression_level = 3, qc_raw_delete_enabled = True, qc_raw_delete_grace_hours = 72\<rparr>"

definition hour_source :: path where
  "hour_source = [''/'', ''d'', ''raw'', ''provider=s'', ''date=2026-01-05'', ''hour=15'', ''q'']"

definition hour_partition :: raw_quote_partition where
  "hour_partition = \<lparr>rp_data_root = [''/'', ''d''], rp_source_path = hour_source, rp_provider = ''s'',
     rp_session_date = ''2026-01-05'', rp_hour = 15\<rparr>"

definition hour_now :: int where "hour_now = 800000 * us_per_day"

definition hour_raw :: string where "hour_raw = [CHR ''x'', CHR 0x0A]"

definition hour_reads :: "string \<Rightarrow> file_reads" where
  "hour_reads text =
     (let st = \<lparr>st_size = int (length text), st_mtime_ns = 0, st_mtime = Fin 1\<rparr>
      in \<lparr>fr_before = Inr st, fr_chunks = Inr [text], fr_after = Inr st\<rparr>)"

definition hour_manifest :: manifest where
  "hour_manifest =
     verified_manifest ''raw/provider=s/date=2026-01-05/hour=15/q''
       ''lake/quotes/schema=v1/date=2026-01-05/provider=s/hour=15/quotes.parquet''
       \<lparr>ss_size = 2, ss_mtime_ns = 0, ss_sha256 = hour_raw\<rparr> \<lparr>ss_size = 1, ss_mtime_ns = 0, ss_sha256 = ''p''\<rparr>
       \<lparr>qs_row_count = 1, qs_min_received_at = None, qs_max_received_at = None, qs_min_source_at = None,
        qs_max_source_at = None\<rparr> 0"

definition hour_result :: compaction_result where
  "hour_result = result_of ''raw/provider=s/date=2026-01-05/hour=15/q'' None ''up_to_date'' 1 None None"

definition hour_audit :: audit_answers where "hour_audit = \<lparr>au_mkdir = Inr (), au_append = Inr ()\<rparr>"

definition hour_delete :: delete_answers where
  "hour_delete =
     \<lparr>da_target = \<lparr>tr_source_symlink = Inr False, tr_root_resolve = Inr [''/'', ''d''],
        tr_component_symlink = (\<lambda>_. Inr False), tr_source_resolve = Inr hour_source, tr_source_regular = Inr True\<rparr>,
      da_parquet_symlink = Inr False, da_parquet_is_file = Inr True, da_output = hour_reads ''p'',
      da_source = hour_reads hour_raw, da_source_content = Inr hour_raw, da_parquet_count = Inr (Some 1),
      da_authorize = hour_audit, da_uuid = ''u'', da_rename = Inr (), da_quarantine = hour_reads hour_raw,
      da_quarantine_content = Inr hour_raw, da_unlink = Inr (), da_final = hour_audit\<rparr>"

lemmas hour_defs = hour_std_def hour_compactor_def hour_source_def hour_partition_def hour_now_def hour_raw_def
  hour_reads_def hour_manifest_def hour_result_def hour_audit_def hour_delete_def

lemma hour_trace:
  "map_prod file_changes (map_sum id cr_status)
     (maybe_delete_raw hour_std hour_compactor hour_partition hour_result hour_manifest hour_now False hour_delete)
   = ([Rename hour_source (quarantine_path_of hour_partition hour_delete),
       Unlink (quarantine_path_of hour_partition hour_delete)], Inr ''raw_deleted'')"
  by code_simp

definition hour_write :: manifest_write where
  "hour_write = \<lparr>mw_mkdir = Inr (), mw_uuid = ''u'', mw_write = Inr (), mw_chmod = Inr (), mw_replace = Inr (), mw_cleanup = Inr ()\<rparr>"

text \<open>\<open>hour_answers\<close> takes the manifest file that is there before the run.\<close>

definition hour_answers :: "pyval option \<Rightarrow> compact_answers" where
  "hour_answers payload =
     \<lparr>ca_stat = fr_before (hour_reads hour_raw), ca_manifest = payload, ca_fast_is_file = Inr True,
      ca_fast_output = hour_reads ''p'', ca_snapshot = hour_reads hour_raw, ca_empty_write = hour_write,
      ca_verified_is_file = Inr True, ca_verified_output = hour_reads ''p'', ca_mkdir = Inr (), ca_temp_unlink = Inr (),
      ca_normalize = Inr \<lparr>qs_row_count = 1, qs_min_received_at = None, qs_max_received_at = None,
        qs_min_source_at = None, qs_max_source_at = None\<rparr>,
      ca_write_parquet = Inr (), ca_verify = Inr (), ca_after = hour_reads hour_raw, ca_chmod = Inr (),
      ca_output = hour_reads ''p'', ca_replace = Inr (), ca_manifest_write = hour_write, ca_cleanup = Inr (),
      ca_delete = hour_delete\<rparr>"

definition hour_lock :: lock_answers where "hour_lock = \<lparr>la_mkdir = Inr (), la_take = Inr ()\<rparr>"

definition hour_payload :: pyval where
  "hour_payload = VDict (projr (manifest_to_dict hour_std hour_manifest))"

lemma hour_deletes:
  "file_changes (fst (compact_one hour_std hour_compactor hour_partition (Aware hour_now 0) False hour_lock
     (hour_answers (Some hour_payload))))
   = [Rename hour_source (quarantine_path_of hour_partition hour_delete),
      Unlink (quarantine_path_of hour_partition hour_delete)]"
  by code_simp

definition is_write_manifest :: "fs_effect \<Rightarrow> bool" where
  "is_write_manifest e = (case e of WriteManifest _ _ \<Rightarrow> True | _ \<Rightarrow> False)"

lemma is_write_manifest_ex: "is_write_manifest e \<Longrightarrow> \<exists>x m. e = WriteManifest x m"
  by (cases e) (simp_all add: is_write_manifest_def)

lemma hour_publishes:
  "list_ex is_write_manifest (fst (compact_one hour_std hour_compactor hour_partition (Aware hour_now 0) False hour_lock
     (hour_answers None)))"
  by code_simp

lemma hour_parsed: "parse_raw_quote_partition (qc_data_root hour_compactor) hour_source = Some hour_partition"
  by code_simp

lemma file_changes_mem: "e \<in> set (file_changes t) \<Longrightarrow> e \<in> set t"
  by (simp add: file_changes_def)

lemma hour_trace_parts:
  "Unlink (quarantine_path_of hour_partition hour_delete)
     \<in> set (fst (maybe_delete_raw hour_std hour_compactor hour_partition hour_result hour_manifest hour_now False hour_delete))"
  "\<exists>t x. maybe_delete_raw hour_std hour_compactor hour_partition hour_result hour_manifest hour_now False hour_delete
      = (t, Inr x) \<and> cr_status x = ''raw_deleted''"
proof -
  obtain t s where ts: "maybe_delete_raw hour_std hour_compactor hour_partition hour_result hour_manifest hour_now False hour_delete = (t, s)"
    by fastforce
  with hour_trace have "file_changes t = [Rename hour_source (quarantine_path_of hour_partition hour_delete),
       Unlink (quarantine_path_of hour_partition hour_delete)]" "map_sum id cr_status s = Inr ''raw_deleted''" by simp_all
  then show "Unlink (quarantine_path_of hour_partition hour_delete)
     \<in> set (fst (maybe_delete_raw hour_std hour_compactor hour_partition hour_result hour_manifest hour_now False hour_delete))"
    "\<exists>t x. maybe_delete_raw hour_std hour_compactor hour_partition hour_result hour_manifest hour_now False hour_delete
      = (t, Inr x) \<and> cr_status x = ''raw_deleted''"
  proof -
    assume f: "file_changes t = [Rename hour_source (quarantine_path_of hour_partition hour_delete),
       Unlink (quarantine_path_of hour_partition hour_delete)]" and s: "map_sum id cr_status s = Inr ''raw_deleted''"
    from s obtain x where x: "s = Inr x" "cr_status x = ''raw_deleted''" by (cases s) simp_all
    then show "\<exists>t x. maybe_delete_raw hour_std hour_compactor hour_partition hour_result hour_manifest hour_now False hour_delete
      = (t, Inr x) \<and> cr_status x = ''raw_deleted''" using ts by blast
    have "Unlink (quarantine_path_of hour_partition hour_delete) \<in> set t"
      by (rule file_changes_mem) (simp add: f)
    then show "Unlink (quarantine_path_of hour_partition hour_delete)
     \<in> set (fst (maybe_delete_raw hour_std hour_compactor hour_partition hour_result hour_manifest hour_now False hour_delete))"
      unfolding ts by simp
  qed
qed

lemma raw_file_removed_only_verified_witness:
  "Unlink (quarantine_path_of hour_partition hour_delete)
     \<in> set (fst (maybe_delete_raw hour_std hour_compactor hour_partition hour_result hour_manifest hour_now False hour_delete))
   \<and> delete_justified hour_std hour_compactor hour_partition hour_result hour_manifest hour_now hour_delete
   \<and> quarantine_verified hour_std (quarantine_path_of hour_partition hour_delete) hour_manifest hour_delete"
  using hour_trace_parts(1) raw_file_removed_only_verified [OF hour_trace_parts(1)] by blast

lemma deletion_reported_witness:
  "\<exists>t x. maybe_delete_raw hour_std hour_compactor hour_partition hour_result hour_manifest hour_now False hour_delete = (t, Inr x)
     \<and> cr_status x = ''raw_deleted''
     \<and> file_changes t = [Rename (rp_source_path hour_partition) (quarantine_path_of hour_partition hour_delete),
          Unlink (quarantine_path_of hour_partition hour_delete)]"
proof -
  obtain t x where *: "maybe_delete_raw hour_std hour_compactor hour_partition hour_result hour_manifest hour_now False hour_delete
      = (t, Inr x)" "cr_status x = ''raw_deleted''"
    using hour_trace_parts(2) by blast
  have "cr_status hour_result \<noteq> ''raw_deleted''" by (simp add: hour_result_def result_of_def)
  from deletion_reported [OF *(1) this refl] * show ?thesis by blast
qed

lemma limited_run_witness:
  "compact_run hour_std hour_compactor (Aware hour_now 0) False (Some 0) None None (\<lambda>_. hour_lock) (\<lambda>_. hour_answers None)
      = ([], Inl (OtherError ''ValueError'' ''limit must be positive''))"
  using limited_run [of 0] by simp

lemma raw_source_preserved_witness:
  "Rename hour_source (quarantine_path_of hour_partition hour_delete)
     \<in> set (fst (compact_one hour_std hour_compactor hour_partition (Aware hour_now 0) False hour_lock (hour_answers (Some hour_payload))))
   \<and> (\<exists>r m now. delete_justified hour_std hour_compactor hour_partition r m now hour_delete)"
proof -
  have mem: "Rename hour_source (quarantine_path_of hour_partition hour_delete)
     \<in> set (fst (compact_one hour_std hour_compactor hour_partition (Aware hour_now 0) False hour_lock (hour_answers (Some hour_payload))))"
    by (rule file_changes_mem) (simp add: hour_deletes)
  from raw_source_preserved [OF hour_parsed mem] mem show ?thesis by (auto simp: hour_answers_def)
qed

lemma manifest_survives_witness:
  "\<exists>d. manifest_to_dict hour_std (empty_manifest ''raw/q'' \<lparr>ss_size = 0, ss_mtime_ns = 0, ss_sha256 = ''e''\<rparr> 0) = Inr d
     \<and> load_manifest hour_std (Some (VDict d))
         = Inr (Some (empty_manifest ''raw/q'' \<lparr>ss_size = 0, ss_mtime_ns = 0, ss_sha256 = ''e''\<rparr> 0))"
  using manifest_survives [OF disjI1 [OF refl], of hour_std "''raw/q''" "\<lparr>ss_size = 0, ss_mtime_ns = 0, ss_sha256 = ''e''\<rparr>" 0]
  by blast

lemma manifest_written_truthfully_witness:
  "\<exists>x m. WriteManifest x m \<in> set (fst (compact_one hour_std hour_compactor hour_partition (Aware hour_now 0) False hour_lock
          (hour_answers None)))
     \<and> manifest_truth hour_std hour_partition m (hour_answers None)
         (set (fst (compact_one hour_std hour_compactor hour_partition (Aware hour_now 0) False hour_lock (hour_answers None))))"
proof -
  obtain x m where mem: "WriteManifest x m \<in> set (fst (compact_one hour_std hour_compactor hour_partition (Aware hour_now 0) False hour_lock
          (hour_answers None)))"
    using hour_publishes is_write_manifest_ex unfolding list_ex_iff by blast
  with manifest_written_truthfully [OF mem] show ?thesis by blast
qed

end
