(* ===== verification/Candidate_Lifecycle.thy ===== *)
theory Candidate_Lifecycle
  imports Market_Calendar Line_Capacity Py_Dict
begin

section \<open>The lifecycle of overnight manual candidates (\<^verbatim>\<open>gth_candidate_lifecycle.py\<close>)\<close>

text \<open>
  A candidate is the dictionary of one evaluation of an overnight trade idea. This theory has
  the functions that decide whether missing data is transient, whether a recorded candidate is
  replayed, which pending notifications a candidate cancels, how an accepted plan survives a
  crash and which terminal message ends it. Of the message everything but the display texts
  (\<^verbatim>\<open>title\<close>, \<^verbatim>\<open>text\<close>, \<^verbatim>\<open>feishu_text\<close>) is modelled. Python sets are sets.
\<close>

subsection \<open>Reasons\<close>

text \<open>\<^verbatim>\<open>[str(item) for item in v or () if item]\<close>.\<close>

definition true_texts :: "py_std \<Rightarrow> pyval \<Rightarrow> string list res" where
  "true_texts std v = rbind (iter_items (vor v (VList []))) (\<lambda>xs. Inr (map (py_str std) (filter py_true xs)))"

definition block_reasons :: "py_std \<Rightarrow> pydict \<Rightarrow> string list res" where
  "block_reasons std candidate = true_texts std (dget candidate ''block_reasons'')"

definition refresh_blockers :: "string list" where
  "refresh_blockers =
     [''chain_implied_target_unavailable'', ''direct_es_invalidation_unavailable'', ''es_basis_unavailable'',
      ''long_leg_quote_in_future'', ''long_leg_quote_stale'', ''long_leg_quote_unavailable'',
      ''long_leg_transport_in_future'', ''long_leg_transport_stale'', ''provider_entry_control_blocked'',
      ''quote_unavailable'', ''short_leg_quote_in_future'', ''short_leg_quote_stale'', ''short_leg_quote_unavailable'',
      ''short_leg_transport_in_future'', ''short_leg_transport_stale'', ''spread_entry_limit_invalid'',
      ''spread_leg_nbbo_invalid'', ''spread_leg_provider_mismatch'', ''spread_leg_provider_unavailable'',
      ''spread_leg_source_time_unavailable'', ''spread_leg_source_timestamp_skew'',
      ''spread_leg_transport_time_unavailable'', ''spread_leg_transport_timestamp_skew'', ''spread_net_debit_invalid'',
      ''spread_net_nbbo_invalid'', ''spread_provider_not_ibkr'', ''spread_reward_risk_unavailable'',
      ''trend_anchor_geometry_unavailable'', ''trigger_level_unavailable'']"

definition active_plan_fields :: "string list" where
  "active_plan_fields =
     [''schema_version'', ''policy_version'', ''candidate_id'', ''source_signal_id'', ''reentry_generation'',
      ''direction'', ''path_kind'', ''position_type'', ''long_contract_id'', ''short_contract_id'', ''expiry'',
      ''session_date'', ''valid_until'', ''entry_limit'', ''trigger_level'', ''invalidation_spx'', ''invalidation_es'',
      ''invalidation_coordinate'', ''target_spx'', ''target_wall_kind'', ''exit_at'', ''automatic_ordering'']"

definition explicit_source_absence_reasons :: "string list" where
  "explicit_source_absence_reasons =
     [''level_source_expired'', ''level_source_expiry_unavailable'', ''level_source_formal_signal_absent'',
      ''level_source_invalidated'', ''level_source_not_confirmed'', ''level_source_quality_invalid'',
      ''trend_transition_session_mismatch'']"

definition global_source_lifecycle_end_reasons :: "string list" where
  "global_source_lifecycle_end_reasons = [''trend_transition_session_mismatch'']"

datatype source_lifecycle = Identified | ExplicitAbsence | TransientAbsence

definition classify_source_lifecycle :: "py_std \<Rightarrow> pydict \<Rightarrow> source_lifecycle res" where
  "classify_source_lifecycle std candidate =
     (if py_true (dget candidate ''source_signal_id'') then Inr Identified
      else rbind (block_reasons std candidate) (\<lambda>reasons.
        Inr (if set reasons \<inter> set explicit_source_absence_reasons \<noteq> {} then ExplicitAbsence else TransientAbsence)))"

definition mark_refresh_pending :: "py_std \<Rightarrow> pydict \<Rightarrow> pydict res" where
  "mark_refresh_pending std candidate =
     rbind (block_reasons std candidate) (\<lambda>reasons. Inr
       (if dget candidate ''status'' = VStr ''blocked'' \<and> py_true (dget candidate ''source_signal_id'')
           \<and> reasons \<noteq> [] \<and> set reasons \<subseteq> set refresh_blockers
        then dmerge candidate [(''status'', VStr ''refresh_pending''), (''manual_action_eligible'', VBool False),
               (''signal_absence_reason'', VStr ''market_data_refresh_pending'')]
        else candidate))"

subsection \<open>The active plan\<close>

definition active_manual_plan_snapshot :: "py_std \<Rightarrow> pydict \<Rightarrow> pyval \<Rightarrow> pydict" where
  "active_manual_plan_snapshot std candidate activated_at =
     (let candidate_id = dtext std candidate ''candidate_id'' [] in
      map (\<lambda>k. (k, dget candidate k)) active_plan_fields @
      [(''ready_event_id'', if candidate_id \<noteq> [] then VStr (candidate_id @ '':ready'') else VNone),
       (''activated_at'', activated_at)])"

text \<open>\<open>now_text\<close> is \<^verbatim>\<open>now.isoformat()\<close>.\<close>

definition recover_active_manual_plan :: "py_std \<Rightarrow> pydict \<Rightarrow> string \<Rightarrow> pydict res" where
  "recover_active_manual_plan std state now_text =
     (case dget state ''active_manual_plan'' of
        VDict (p # ps) \<Rightarrow> Inr (p # ps)
      | _ \<Rightarrow>
        (case dget state ''last_candidate'' of
           VDict previous \<Rightarrow>
             (let candidate_id = dtext std previous ''candidate_id'' [];
                  event_id = candidate_id @ '':ready''
              in rbind (true_texts std (dget state ''accepted_notification_event_ids'')) (\<lambda>accepted.
                 rbind (true_texts std (dget state ''notified_event_ids'')) (\<lambda>notified.
                 rbind (true_texts std (dget state ''settled_notification_event_ids'')) (\<lambda>settled.
                   Inr (if candidate_id = [] \<or> event_id \<notin> set accepted \<union> set notified \<or> event_id \<in> set settled then []
                        else active_manual_plan_snapshot std previous (vor (dget state ''updated_at'') (VStr now_text)))))))
         | _ \<Rightarrow> Inr []))"

subsection \<open>Cancellation\<close>

definition events_of :: "(string \<times> string) list \<Rightarrow> string \<Rightarrow> string set" where
  "events_of lifecycle_events source = set (map fst (filter (\<lambda>(_, s). s = source) lifecycle_events))"

definition cancellation_scope ::
  "(int \<Rightarrow> int) \<Rightarrow> py_std \<Rightarrow> pydict \<Rightarrow> (string \<times> string) list \<Rightarrow> pydt \<Rightarrow> string set res" where
  "cancellation_scope et std candidate lifecycle_events now =
     (let status = dtext std candidate ''status'' [] in
      rbind (block_reasons std candidate) (\<lambda>reasons.
         if status \<in> {''manual_ready'', ''refresh_pending''} then Inr {}
         else rbind (as_et et now) (\<lambda>wall.
         if \<not> is_spx_gth_open default_market_calendar wall
            \<or> set reasons \<inter> set global_source_lifecycle_end_reasons \<noteq> {}
         then Inr (set (map fst lifecycle_events))
         else if ''opposite_signal_conflicts_with_active_plan'' \<in> set reasons then Inr {}
         else
           let source_id = dtext std candidate ''source_signal_id'' [] in
           if source_id \<noteq> [] then Inr (events_of lifecycle_events source_id)
           else rbind (classify_source_lifecycle std candidate) (\<lambda>kind.
             if kind = ExplicitAbsence then
               let tombstone_id = dtext std candidate ''source_tombstone_id'' [] in
               Inr (if tombstone_id \<noteq> [] then events_of lifecycle_events tombstone_id else {})
             else Inr {}))))"

subsection \<open>Replay\<close>

definition replay_status :: "pyval \<Rightarrow> bool" where
  "replay_status v \<longleftrightarrow> v \<in> {VStr ''manual_ready'', VStr ''selector_candidate'', VStr ''structure_watch''}"

definition add_candidate :: "py_std \<Rightarrow> pyval \<Rightarrow> string set \<Rightarrow> string set" where
  "add_candidate std v replayed =
     (case v of
        VDict d \<Rightarrow>
          if replay_status (dget d ''status'') \<and> dtext std d ''candidate_id'' [] \<noteq> []
          then insert (dtext std d ''candidate_id'' []) replayed else replayed
      | _ \<Rightarrow> replayed)"

text \<open>
  \<open>rows\<close> are the decoded lines of the replay journal, without the lines that are not JSON;
  \<open>None\<close> is a journal that cannot be read.
\<close>

definition seed_replayed_candidate_ids :: "py_std \<Rightarrow> pydict \<Rightarrow> pyval list option \<Rightarrow> string set res" where
  "seed_replayed_candidate_ids std state rows =
     rbind (true_texts std (dget state ''replayed_candidate_ids'')) (\<lambda>ids.
       let replayed = set ids in
       Inr (if map_of state ''replayed_candidate_ids'' \<noteq> None then replayed
            else
              let replayed = add_candidate std (dget state ''last_candidate'') replayed in
              (case rows of None \<Rightarrow> replayed | Some rs \<Rightarrow> foldl (\<lambda>acc r. add_candidate std r acc) replayed rs)))"

definition unreplayed_candidate :: "py_std \<Rightarrow> pydict \<Rightarrow> string set \<Rightarrow> string option" where
  "unreplayed_candidate std candidate replayed =
     (if \<not> replay_status (dget candidate ''status'') then None
      else let candidate_id = dtext std candidate ''candidate_id'' [] in
        if candidate_id = [] \<or> candidate_id \<in> replayed then None else Some candidate_id)"

subsection \<open>The terminal message\<close>

definition terminal_priority :: "string list" where
  "terminal_priority =
     [''level_source_invalidated'', ''trend_transition_session_mismatch'', ''level_source_expired'',
      ''level_source_not_confirmed'', ''level_source_formal_signal_absent'', ''level_source_quality_invalid'']"

definition terminal_reason :: "string list \<Rightarrow> string" where
  "terminal_reason reasons =
     (case find (\<lambda>r. r \<in> set reasons) terminal_priority of
        Some r \<Rightarrow> r
      | None \<Rightarrow> (case reasons of r # _ \<Rightarrow> r | [] \<Rightarrow> ''source_candidate_no_longer_manual_ready''))"

definition operator_generation :: "pyval \<Rightarrow> int" where
  "operator_generation v = (case v of VInt n \<Rightarrow> max n 0 | _ \<Rightarrow> 0)"

definition terminal_ttl :: int where
  "terminal_ttl = 15 * 60 * us_per_second"

definition terminal_notification_intent ::
  "py_std \<Rightarrow> pydict \<Rightarrow> pydict \<Rightarrow> string \<Rightarrow> int \<Rightarrow> int option \<Rightarrow> string option \<Rightarrow> pydict res" where
  "terminal_notification_intent std plan candidate causation_event_id occurred_at enqueued_at release_reason =
     rbind (block_reasons std candidate) (\<lambda>reasons.
       let reason_code = (if text_true release_reason then the release_reason else terminal_reason reasons);
           action = (if release_reason \<noteq> None \<or> list_ex (text_contains ''invalidated'') reasons
                     then ''exit'' else ''cancel'');
           ready_event_id = dtext std plan ''ready_event_id'' causation_event_id;
           delivery_clock = (case enqueued_at of Some t \<Rightarrow> t | None \<Rightarrow> occurred_at)
       in Inr
         [(''event_id'', VStr (ready_event_id @ '':'' @ action)),
          (''causation_event_id'', VStr ready_event_id),
          (''source'', VStr ''gth_level_manual_candidate''),
          (''kind'', VStr ''virtual_strategy_exit''),
          (''lane'', VStr ''strategy_lifecycle''),
          (''occurred_at'', VStr (isoformat occurred_at)),
          (''expires_at'', VStr (isoformat (delivery_clock + terminal_ttl))),
          (''candidate_id'', dget plan ''candidate_id''),
          (''source_signal_id'', dget plan ''source_signal_id''),
          (''operator_opportunity_id'',
            VStr (py_str std (vor (vor (dget plan ''source_signal_id'') (dget plan ''candidate_id'')) (VStr ready_event_id)))),
          (''operator_generation'', VInt (operator_generation (dget plan ''reentry_generation''))),
          (''terminal_action'', VStr action),
          (''terminal_reason'', VStr reason_code),
          (''friend'', VBool True),
          (''enqueued_at'', VStr (isoformat delivery_clock))])"

end
