(* ===== verification/Candidate_Runtime.thy ===== *)
theory Candidate_Runtime
  imports Candidate_Lifecycle Level_Decision "HOL-Library.List_Lexorder" "HOL-Library.Char_ord"
begin

section \<open>The runtime of overnight manual candidates (\<^verbatim>\<open>gth_level_candidate_runtime.py\<close>)\<close>

text \<open>
  What the persisting tick does with the accepted plan: when it is released, how a candidate of
  the opposite direction is held back, which plan a terminal message speaks of, how long a
  delivery receipt is looked for and which accepted plans stay monitored. The clock \<open>now\<close> and
  parsed times are UTC instants; \<^verbatim>\<open>_time\<close> is \<open>optional_datetime\<close>. Reading and writing the state
  file, the lock and the flush of the outbox are not modelled.
\<close>

subsection \<open>The release of the plan\<close>

text \<open>\<^verbatim>\<open>_number\<close>: a finite int or float; an int beyond the float range raises.\<close>

definition finite_number :: "py_std \<Rightarrow> pyval \<Rightarrow> pyfloat option res" where
  "finite_number std v =
     (case v of
        VInt _ \<Rightarrow> rbind (py_float std v) (\<lambda>x. Inr (if is_finite x then Some x else None))
      | VFloat x \<Rightarrow> Inr (if is_finite x then Some x else None)
      | _ \<Rightarrow> Inr None)"

definition at_or_above :: "pyfloat \<Rightarrow> pyfloat option \<Rightarrow> bool" where
  "at_or_above x limit = (case limit of Some l \<Rightarrow> fle l x | None \<Rightarrow> False)"

definition at_or_below :: "pyfloat \<Rightarrow> pyfloat option \<Rightarrow> bool" where
  "at_or_below x limit = (case limit of Some l \<Rightarrow> fle x l | None \<Rightarrow> False)"

definition active_plan_release_reason ::
  "py_std \<Rightarrow> pydict \<Rightarrow> pyfloat option \<Rightarrow> int \<Rightarrow> string option res" where
  "active_plan_release_reason std active_plan current_spx now =
     (let exit_at = optional_datetime std (dget active_plan ''exit_at'') in
      if exit_at \<noteq> None \<and> now \<ge> the exit_at then Inr (Some ''time_exit_elapsed'')
      else case current_spx of
        None \<Rightarrow> Inr None
      | Some spx \<Rightarrow>
          (let direction = dtext std active_plan ''direction'' [] in
           rbind (finite_number std (dget active_plan ''invalidation_spx'')) (\<lambda>invalidation.
           rbind (finite_number std (dget active_plan ''target_spx'')) (\<lambda>target. Inr
             (if direction = ''down'' then
                if at_or_above spx invalidation then Some ''prior_put_invalidated''
                else if at_or_below spx target then Some ''prior_put_target_reached'' else None
              else if direction = ''up'' then
                if at_or_below spx invalidation then Some ''prior_call_invalidated''
                else if at_or_above spx target then Some ''prior_call_target_reached'' else None
              else None)))))"

subsection \<open>Coherence with the active plan\<close>

text \<open>\<^verbatim>\<open>list(dict.fromkeys(xs))\<close>.\<close>

definition unique_in_order :: "'a list \<Rightarrow> 'a list" where
  "unique_in_order xs = rev (remdups (rev xs))"

definition hold_opposite :: "py_std \<Rightarrow> pydict \<Rightarrow> pydict \<Rightarrow> pydict res" where
  "hold_opposite std candidate active =
     rbind (iter_items (vor (dget candidate ''block_reasons'') (VList []))) (\<lambda>items.
       let reasons = map (py_str std) items @ [''opposite_signal_conflicts_with_active_plan''];
           hard = VList (map VStr (unique_in_order reasons));
           gate_contract = (case dget candidate ''gate_contract'' of VDict d \<Rightarrow> d | _ \<Rightarrow> [])
       in Inr (dmerge candidate
            [(''status'', VStr ''blocked''), (''manual_action_eligible'', VBool False),
             (''signal_absence_reason'', VStr ''active_manual_plan_not_invalidated''),
             (''block_reasons'', hard), (''active_manual_plan'', VDict active),
             (''gate_contract'', VDict (dmerge gate_contract [(''hard_block_reasons'', hard)]))]))"

definition resolve_opposite :: "py_std \<Rightarrow> pydict \<Rightarrow> pydict \<Rightarrow> int \<Rightarrow> (pydict \<times> pydict) res" where
  "resolve_opposite std candidate active now =
     rbind (finite_number std (dget candidate ''current_parity_spx'')) (\<lambda>current_spx.
     rbind (active_plan_release_reason std active current_spx now) (\<lambda>release_reason.
       case release_reason of
         None \<Rightarrow> rbind (hold_opposite std candidate active) (\<lambda>blocked. Inr (blocked, active))
       | Some reason \<Rightarrow> Inr
           (dset candidate ''replaces_prior_plan''
              (VDict [(''candidate_id'', dget active ''candidate_id''),
                      (''direction'', VStr (dtext std active ''direction'' [])),
                      (''release_reason'', VStr reason)]), [])))"

definition apply_active_plan_coherence ::
  "py_std \<Rightarrow> pydict \<Rightarrow> pydict \<Rightarrow> int \<Rightarrow> (pydict \<times> pydict) res" where
  "apply_active_plan_coherence std candidate active now =
     (if dget candidate ''status'' \<noteq> VStr ''manual_ready'' \<or> active = [] then Inr (candidate, active)
      else
        let direction = dtext std candidate ''direction'' [];
            active_direction = dtext std active ''direction'' [] in
        if direction \<notin> {''up'', ''down''} \<or> active_direction \<notin> {''up'', ''down''} then Inr (candidate, active)
        else if direction = active_direction then Inr (candidate, active)
        else resolve_opposite std candidate active now)"

subsection \<open>Terminal receipts and monitors\<close>

definition removesuffix :: "string \<Rightarrow> string \<Rightarrow> string" where
  "removesuffix s suf =
     (if suf \<noteq> [] \<and> length suf \<le> length s \<and> drop (length s - length suf) s = suf
      then take (length s - length suf) s else s)"

definition terminal_plan_for_event ::
  "py_std \<Rightarrow> string \<Rightarrow> pydict \<Rightarrow> pydict option \<Rightarrow> int \<Rightarrow> pydict" where
  "terminal_plan_for_event std event_id active_plan previous now =
     (if dtext std active_plan ''ready_event_id'' [] = event_id then active_plan
      else
        let prev = (case previous of Some d \<Rightarrow> d | None \<Rightarrow> []);
            previous_candidate_id = dtext std prev ''candidate_id'' [] in
        if previous_candidate_id \<noteq> [] \<and> previous_candidate_id @ '':ready'' = event_id
        then active_manual_plan_snapshot std prev (vor (dget prev ''evaluated_at'') (VStr (isoformat now)))
        else [(''candidate_id'', VStr (removesuffix event_id '':ready'')), (''ready_event_id'', VStr event_id),
              (''activated_at'', VStr (isoformat now))])"

definition receipt_check_min :: int where "receipt_check_min = 2 * 60 * us_per_second"
definition receipt_check_max :: int where "receipt_check_max = 10 * 60 * us_per_second"
definition receipt_recovery_max :: int where "receipt_recovery_max = 24 * 60 * 60 * us_per_second"

definition terminal_receipt_check_until :: "py_std \<Rightarrow> pydict \<Rightarrow> int \<Rightarrow> int" where
  "terminal_receipt_check_until std active_plan occurred_at =
     (let minimum = occurred_at + receipt_check_min;
          maximum = occurred_at + receipt_check_max;
          ready_valid_until = optional_datetime std (dget active_plan ''valid_until'')
      in min (max minimum (case ready_valid_until of Some t \<Rightarrow> t | None \<Rightarrow> minimum)) maximum)"

definition terminal_receipt_recovery_until :: "int \<Rightarrow> int" where
  "terminal_receipt_recovery_until occurred_at = occurred_at + receipt_recovery_max"

record delivery_receipt =
  dr_receipt_id :: string
  dr_delivered_at :: int

record receipt_lookup =
  rl_observable :: bool
  rl_receipt :: "delivery_receipt option"
  rl_error :: "string option"

definition terminal_check_after_lookup ::
  "pydict \<Rightarrow> receipt_lookup \<Rightarrow> int \<Rightarrow> int \<Rightarrow> int \<Rightarrow> pydict" where
  "terminal_check_after_lookup check lookup now check_until recovery_until =
     (let attempts = (case dget check ''receipt_lookup_attempts'' of VInt n \<Rightarrow> n | _ \<Rightarrow> 0);
          error = take 200 (text_or (rl_error lookup) []);
          result = dmerge check
            [(''check_until'', VStr (isoformat check_until)),
             (''recovery_until'', VStr (isoformat recovery_until)),
             (''receipt_lookup_status'',
               VStr (if rl_observable lookup then ''observable_no_receipt'' else ''degraded_ledger_unavailable'')),
             (''receipt_lookup_degraded'', VBool (\<not> rl_observable lookup)),
             (''receipt_lookup_error'', if error = [] then VNone else VStr error),
             (''receipt_lookup_attempts'', VInt (min (attempts + 1) 1000000)),
             (''last_receipt_lookup_at'', VStr (isoformat now))]
      in if rl_observable lookup then result
         else dset result ''receipt_ledger_unavailable_since''
                (vor (dget check ''receipt_ledger_unavailable_since'') (VStr (isoformat now))))"

text \<open>\<^verbatim>\<open>xs[-n:]\<close> for a positive \<open>n\<close>.\<close>

definition last_items :: "nat \<Rightarrow> 'a list \<Rightarrow> 'a list" where
  "last_items n xs = drop (length xs - n) xs"

definition upsert_manual_plan_monitor ::
  "py_std \<Rightarrow> pydict list \<Rightarrow> pydict \<Rightarrow> delivery_receipt \<Rightarrow> pydict list" where
  "upsert_manual_plan_monitor std monitors active_plan receipt =
     (let ready_event_id = dtext std active_plan ''ready_event_id'' [] in
      case optional_datetime std (dget active_plan ''exit_at'') of
        None \<Rightarrow> monitors
      | Some exit_at \<Rightarrow>
          if ready_event_id = [] then monitors
          else last_items 100
            (filter (\<lambda>m. dtext std m ''ready_event_id'' [] \<noteq> ready_event_id) monitors @
             [[(''ready_event_id'', VStr ready_event_id), (''active_plan'', VDict active_plan),
               (''ready_receipt_id'', VStr (dr_receipt_id receipt)),
               (''ready_delivered_at'', VStr (isoformat (dr_delivered_at receipt))),
               (''monitor_until'', VStr (isoformat exit_at))]]))"

subsection \<open>What a tick cancels\<close>

text \<open>
  The source recorded for each notification: the entries of the state, then, where an event has none yet, the
  previous candidate, the pending notifications and the card of this tick (\<^verbatim>\<open>setdefault\<close>).
\<close>

definition source_entry :: "py_std \<Rightarrow> pydict \<Rightarrow> string \<times> string" where
  "source_entry std item = (dtext std item ''event_id'' [], dtext std item ''source_signal_id'' [])"

definition stored_sources :: "py_std \<Rightarrow> pydict \<Rightarrow> (string \<times> string) list res" where
  "stored_sources std state =
     rbind (iter_items (vor (dget state ''notification_lifecycle_events'') (VList []))) (\<lambda>items.
       Inr (foldl (\<lambda>acc (e, src). AList.update e src acc) []
         (map (source_entry std)
           (filter (\<lambda>d. py_true (dget d ''event_id'') \<and> py_true (dget d ''source_signal_id'')) (List.map_filter as_dict items)))))"

definition keep_first :: "(string \<times> string) list \<Rightarrow> string \<times> string \<Rightarrow> (string \<times> string) list" where
  "keep_first known entry = (if map_of known (fst entry) = None then known @ [entry] else known)"

definition previous_entry :: "py_std \<Rightarrow> pydict \<Rightarrow> (string \<times> string) list" where
  "previous_entry std state =
     (case dget state ''last_candidate'' of
        VDict d \<Rightarrow>
          (let candidate_id = dtext std d ''candidate_id'' []; source_id = dtext std d ''source_signal_id'' [] in
           if candidate_id \<noteq> [] \<and> source_id \<noteq> [] then [(candidate_id @ '':ready'', source_id)] else [])
      | _ \<Rightarrow> [])"

definition pending_entries :: "py_std \<Rightarrow> pydict list \<Rightarrow> (string \<times> string) list" where
  "pending_entries std pending =
     map (source_entry std)
       (filter (\<lambda>d. dtext std d ''event_id'' [] \<noteq> [] \<and> dtext std d ''source_signal_id'' [] \<noteq> []
          \<and> \<not> py_true (dget d ''causation_event_id'')) pending)"

definition notification_event_id :: "py_std \<Rightarrow> pydict \<Rightarrow> string option res" where
  "notification_event_id std candidate =
     (if dget candidate ''status'' = VStr ''manual_ready''
      then rbind (ditem candidate ''candidate_id'') (\<lambda>v. Inr (Some (py_str std v @ '':ready''))) else Inr None)"

definition notification_sources ::
  "py_std \<Rightarrow> pydict \<Rightarrow> pydict list \<Rightarrow> pydict \<Rightarrow> string option \<Rightarrow> (string \<times> string) list res" where
  "notification_sources std state pending candidate own =
     rbind (stored_sources std state) (\<lambda>known. Inr (foldl keep_first known
       (previous_entry std state @ pending_entries std pending
        @ (case own of Some e \<Rightarrow> [(e, dtext std candidate ''source_signal_id'' [])] | None \<Rightarrow> []))))"

text \<open>
  The notifications a tick newly cancels, from the candidate as it was evaluated: data gaps are marked, the accepted plan
  is recovered and may hold the candidate back, and then the scope is decided. \<open>pending\<close> are the
  pending notifications at that point and \<open>now\<close> is the UTC instant of the tick.
\<close>

definition tick_cancellations ::
  "(int \<Rightarrow> int) \<Rightarrow> py_std \<Rightarrow> pydict \<Rightarrow> pydict list \<Rightarrow> pydict \<Rightarrow> int \<Rightarrow> string set res" where
  "tick_cancellations et std state pending candidate now =
     rbind (mark_refresh_pending std candidate) (\<lambda>candidate.
     rbind (recover_active_manual_plan std state (isoformat now)) (\<lambda>active_plan.
     rbind (apply_active_plan_coherence std candidate active_plan now) (\<lambda>(candidate, active_plan).
     rbind (notification_event_id std candidate) (\<lambda>own.
     rbind (notification_sources std state pending candidate own) (\<lambda>sources.
       cancellation_scope et std candidate sources (Aware now 0))))))"

subsection \<open>The replay journal\<close>

text \<open>
  One tick as far as the journal is concerned: \<open>same_gate\<close> says that the gate record of the tick has
  the key of the previous one. The second component is the set stored for the next tick, the
  last 500 identifiers in sorted order.
\<close>

definition retained_ids :: "string set \<Rightarrow> string set" where
  "retained_ids ids = set (last_items 500 (sorted_list_of_set ids))"

definition replay_tick :: "py_std \<Rightarrow> bool \<times> pydict \<Rightarrow> string set \<Rightarrow> string option \<times> string set" where
  "replay_tick std tick replayed =
     (let (same_gate, candidate) = tick;
          recorded = (if same_gate then None else unreplayed_candidate std candidate replayed)
      in (recorded, retained_ids (case recorded of Some i \<Rightarrow> insert i replayed | None \<Rightarrow> replayed)))"

fun replay_run :: "py_std \<Rightarrow> (bool \<times> pydict) list \<Rightarrow> string set \<Rightarrow> string list" where
  "replay_run std [] replayed = []"
| "replay_run std (t # ts) replayed =
     (let (recorded, replayed') = replay_tick std t replayed
      in (case recorded of Some i \<Rightarrow> [i] | None \<Rightarrow> []) @ replay_run std ts replayed')"

end
