(* ===== verification/Candidate_Properties.thy ===== *)
theory Candidate_Properties
  imports Candidate_Runtime
begin

section \<open>What the lifecycle of overnight candidates guarantees\<close>

text \<open>
  What a tick may cancel: notifications of the source its candidate is about, once that is not ready, or those of a
  session that is over; a candidate waiting for market data cancels nothing. No opposite card becomes ready while an
  accepted plan is unresolved, a candidate enters the replay journal again only after 500 greater identifiers, and a
  terminal message names its card.
\<close>

subsection \<open>Texts and dictionaries\<close>

lemma dtext_default: "dtext std d k [] = e \<Longrightarrow> e \<noteq> [] \<Longrightarrow> dtext std d k x = e"
  by (auto simp: dtext_def vor_def split: if_splits)

lemma dtext_dset [simp]: "dtext std (dset d k v) j x = (if j = k then py_str std (vor v (VStr x)) else dtext std d j x)"
  by (simp add: dtext_def)

lemma true_texts_dset [simp]:
  "k \<noteq> ''block_reasons'' \<Longrightarrow> block_reasons std (dset d k v) = block_reasons std d"
  by (simp add: block_reasons_def)

subsection \<open>Cancellation\<close>

lemma events_of_mem: "e \<in> events_of evs src \<longleftrightarrow> (e, src) \<in> set evs"
  by (force simp: events_of_def)

lemma cancelled_only_if:
  assumes "cancellation_scope et std c evs now = Inr cancelled" "e \<in> cancelled"
    and "block_reasons std c = Inr reasons" and w: "as_et et now = Inr wall"
  shows "dtext std c ''status'' [] \<notin> {''manual_ready'', ''refresh_pending''} \<and> e \<in> fst ` set evs
    \<and> (\<not> is_spx_gth_open default_market_calendar wall
       \<or> ''trend_transition_session_mismatch'' \<in> set reasons
       \<or> ''opposite_signal_conflicts_with_active_plan'' \<notin> set reasons
         \<and> (\<exists>src. (e, src) \<in> set evs
            \<and> (src = dtext std c ''source_signal_id'' []
               \<or> \<not> py_true (dget c ''source_signal_id'') \<and> src = dtext std c ''source_tombstone_id'' []
                 \<and> set reasons \<inter> set explicit_source_absence_reasons \<noteq> {})))"
proof (cases "dtext std c ''status'' [] \<in> {''manual_ready'', ''refresh_pending''}")
  case True
  then show ?thesis
    using assms by (auto simp: cancellation_scope_def)
next
  case False
  have known: "e \<in> fst ` set evs"
    using assms w False
    by (auto simp: cancellation_scope_def events_of_def Let_def rbind_eq_Inr_iff split: if_splits)
  show ?thesis
  proof (cases "\<not> is_spx_gth_open default_market_calendar wall \<or> ''trend_transition_session_mismatch'' \<in> set reasons")
    case True
    then show ?thesis using False w known by blast
  next
    case open_session: False
    then have "set reasons \<inter> set global_source_lifecycle_end_reasons = {}"
      by (simp add: global_source_lifecycle_end_reasons_def)
    then show ?thesis
      using assms False w open_session known
      by (auto simp: cancellation_scope_def classify_source_lifecycle_def events_of_mem Let_def rbind_eq_Inr_iff
          split: if_splits)
  qed
qed

text \<open>The candidate a tick goes on with is the evaluated one, marked as waiting or held behind the accepted plan.\<close>

definition waits_for_market_data :: "pydict \<Rightarrow> string list \<Rightarrow> bool" where
  "waits_for_market_data c reasons \<longleftrightarrow>
     dget c ''status'' = VStr ''blocked'' \<and> py_true (dget c ''source_signal_id'') \<and> reasons \<noteq> []
     \<and> set reasons \<subseteq> set refresh_blockers"

definition kept_or_held :: "py_std \<Rightarrow> pydict \<Rightarrow> pydict \<Rightarrow> bool" where
  "kept_or_held std c c' \<longleftrightarrow>
     (\<forall>k. k \<noteq> ''replaces_prior_plan'' \<longrightarrow> dget c' k = dget c k)
     \<or> dget c ''status'' = VStr ''manual_ready'' \<and> (\<exists>plan. hold_opposite std c plan = Inr c')"

lemma coherence_cases:
  assumes "apply_active_plan_coherence std c active now = Inr (c', active')"
  shows "kept_or_held std c c'"
proof (cases "dget c ''status'' = VStr ''manual_ready''")
  case True
  with assms show ?thesis
    by (auto simp: kept_or_held_def apply_active_plan_coherence_def resolve_opposite_def Let_def rbind_eq_Inr_iff
        split: if_splits option.splits)
next
  case False
  with assms show ?thesis by (simp add: apply_active_plan_coherence_def kept_or_held_def)
qed

lemma set_unique_in_order [simp]: "set (unique_in_order xs) = set xs"
  by (simp add: unique_in_order_def)

lemma block_reasons_texts:
  assumes "dget c ''block_reasons'' = VList (map VStr rs)"
  shows "block_reasons std c = Inr (filter (\<lambda>r. r \<noteq> []) rs)"
proof -
  have "map (py_str std) (filter py_true (map VStr rs)) = filter (\<lambda>r. r \<noteq> []) rs"
    by (induction rs) simp_all
  moreover have "iter_items (vor (VList (map VStr rs)) (VList [])) = Inr (map VStr rs)"
    by (cases rs) (simp_all add: vor_def iter_items_def)
  ultimately show ?thesis
    by (simp add: block_reasons_def true_texts_def assms)
qed

lemma held_reasons:
  assumes "hold_opposite std c active = Inr c'"
  shows "\<exists>items reasons. iter_items (vor (dget c ''block_reasons'') (VList [])) = Inr items \<and> block_reasons std c' = Inr reasons
    \<and> ''opposite_signal_conflicts_with_active_plan'' \<in> set reasons
    \<and> set reasons \<subseteq> insert ''opposite_signal_conflicts_with_active_plan'' (py_str std ` set items)"
proof -
  from assms obtain items where items: "iter_items (vor (dget c ''block_reasons'') (VList [])) = Inr items"
    and c': "dget c' ''block_reasons'' = VList (map VStr (unique_in_order
       (map (py_str std) items @ [''opposite_signal_conflicts_with_active_plan''])))"
    by (auto simp: hold_opposite_def rbind_eq_Inr_iff Let_def)
  show ?thesis using items block_reasons_texts [OF c', of std] by auto
qed

lemma block_reasons_cong: "dget c' ''block_reasons'' = dget c ''block_reasons'' \<Longrightarrow> block_reasons std c' = block_reasons std c"
  by (simp add: block_reasons_def)

text \<open>The sources recorded for a notification that is not the card of the tick itself.\<close>

definition recorded_source :: "py_std \<Rightarrow> pydict \<Rightarrow> pydict list \<Rightarrow> string \<Rightarrow> string \<Rightarrow> bool" where
  "recorded_source std state pending e src \<longleftrightarrow>
     (\<exists>items d. iter_items (vor (dget state ''notification_lifecycle_events'') (VList [])) = Inr items
        \<and> VDict d \<in> set items \<and> source_entry std d = (e, src))
   \<or> (e, src) \<in> set (previous_entry std state) \<or> (e, src) \<in> set (pending_entries std pending)"

lemma keep_first_mem: "x \<in> set (foldl keep_first known xs) \<Longrightarrow> x \<in> set known \<union> set xs"
proof (induction xs arbitrary: known)
  case (Cons y xs)
  have "set (keep_first known y) \<subseteq> insert y (set known)" by (auto simp: keep_first_def)
  then show ?case using Cons by fastforce
qed simp

lemma set_update: "set (AList.update k v xs) \<subseteq> insert (k, v) (set xs)"
  by (induction xs) auto

lemma updated_mem: "x \<in> set (foldl (\<lambda>acc (e, src). AList.update e src acc) known xs) \<Longrightarrow> x \<in> set known \<union> set xs"
proof (induction xs arbitrary: known)
  case (Cons y xs)
  then have "x \<in> set (AList.update (fst y) (snd y) known) \<union> set xs" by (simp add: split_beta)
  then show ?case using set_update [of "fst y" "snd y" known] by auto
qed simp

lemma notification_sources_mem:
  assumes "notification_sources std state pending c None = Inr sources" "(e, src) \<in> set sources"
  shows "recorded_source std state pending e src"
proof -
  from assms(1) obtain items where items: "iter_items (vor (dget state ''notification_lifecycle_events'') (VList [])) = Inr items"
    and sources: "sources = foldl keep_first (foldl (\<lambda>acc (e, src). AList.update e src acc) []
       (map (source_entry std)
         (filter (\<lambda>d. py_true (dget d ''event_id'') \<and> py_true (dget d ''source_signal_id'')) (List.map_filter as_dict items))))
       (previous_entry std state @ pending_entries std pending)"
    by (auto simp: notification_sources_def stored_sources_def rbind_eq_Inr_iff)
  have "\<exists>d. VDict d \<in> set items \<and> source_entry std d = (e, src)" if "(e, src) \<in> source_entry std ` set (List.map_filter as_dict items)"
    using that by (force simp: List.map_filter_def as_dict_def split: pyval.splits)
  then show ?thesis
    using keep_first_mem [OF assms(2) [unfolded sources]] items
    by (auto simp: recorded_source_def dest!: updated_mem)
qed

lemma cancelled_status:
  assumes "cancellation_scope et std c evs (Aware now 0) = Inr cancelled" "e \<in> cancelled"
  shows "dget c ''status'' \<notin> {VStr ''manual_ready'', VStr ''refresh_pending''}" "\<exists>src. (e, src) \<in> set evs"
    "\<exists>reasons. block_reasons std c = Inr reasons"
proof -
  obtain reasons where r: "block_reasons std c = Inr reasons"
    using assms(1) by (cases "block_reasons std c") (simp_all add: cancellation_scope_def)
  have "as_et et (Aware now 0) = Inr (et now)" by (simp add: as_et_def)
  note only = cancelled_only_if [OF assms r this]
  show "dget c ''status'' \<notin> {VStr ''manual_ready'', VStr ''refresh_pending''}" using only by (auto simp: dtext_def)
  show "\<exists>src. (e, src) \<in> set evs" using only by auto
  show "\<exists>reasons. block_reasons std c = Inr reasons" using r by blast
qed

text \<open>The candidate \<open>c'\<close> whose scope is decided, when something is cancelled.\<close>

lemma tick_candidate:
  assumes "tick_cancellations et std state pending c now = Inr cancelled" "e \<in> cancelled"
  obtains c' sources where "cancellation_scope et std c' sources (Aware now 0) = Inr cancelled" "kept_or_held std c c'"
    "\<And>src. (e, src) \<in> set sources \<Longrightarrow> recorded_source std state pending e src"
    "\<exists>reasons. block_reasons std c = Inr reasons \<and> \<not> waits_for_market_data c reasons"
proof -
  from assms(1) obtain c1 plan c' plan' own sources where
    c1: "mark_refresh_pending std c = Inr c1" and c': "apply_active_plan_coherence std c1 plan now = Inr (c', plan')"
    and own: "notification_event_id std c' = Inr own" and sources: "notification_sources std state pending c' own = Inr sources"
    and scope: "cancellation_scope et std c' sources (Aware now 0) = Inr cancelled"
    by (auto simp: tick_cancellations_def rbind_eq_Inr_iff)
  note status = cancelled_status(1) [OF scope assms(2)]
  obtain reasons where reasons: "block_reasons std c = Inr reasons"
    using c1 by (auto simp: mark_refresh_pending_def rbind_eq_Inr_iff)
  have waiting: "\<not> waits_for_market_data c reasons"
  proof
    assume "waits_for_market_data c reasons"
    then have "dget c1 ''status'' = VStr ''refresh_pending''"
      using c1 reasons by (auto simp: mark_refresh_pending_def waits_for_market_data_def)
    then show False using c' status by (auto simp: apply_active_plan_coherence_def)
  qed
  then have "c1 = c" using c1 reasons by (simp add: mark_refresh_pending_def flip: waits_for_market_data_def)
  have "own = None" using own status by (simp add: notification_event_id_def)
  then have "recorded_source std state pending e src" if "(e, src) \<in> set sources" for src
    using notification_sources_mem sources that by blast
  then show thesis using that scope coherence_cases [OF c' [unfolded \<open>c1 = c\<close>]] reasons waiting by blast
qed

text \<open>
  C15: A notification is cancelled only when the overnight session is closed or changed, or when the evaluated
  candidate is about the source recorded for this notification and has nothing ready any more: it names the source
  and is not ready, or it names none and carries the tombstone of the source with an explicit reason.
  A candidate that is only waiting for market data, or is held behind the accepted plan
  while the session lasts, cancels nothing.
\<close>

theorem cancellation_is_precise:
  assumes "tick_cancellations et std state pending c now = Inr cancelled" "e \<in> cancelled"
  shows "\<exists>reasons items src. block_reasons std c = Inr reasons
    \<and> iter_items (vor (dget c ''block_reasons'') (VList [])) = Inr items
    \<and> \<not> waits_for_market_data c reasons \<and> recorded_source std state pending e src
    \<and> (\<not> is_spx_gth_open default_market_calendar (et now)
       \<or> ''trend_transition_session_mismatch'' \<in> py_str std ` set items
       \<or> dget c ''status'' \<noteq> VStr ''manual_ready'' \<and> ''opposite_signal_conflicts_with_active_plan'' \<notin> set reasons
         \<and> (src = dtext std c ''source_signal_id'' []
            \<or> \<not> py_true (dget c ''source_signal_id'') \<and> src = dtext std c ''source_tombstone_id'' []
              \<and> set reasons \<inter> set explicit_source_absence_reasons \<noteq> {}))"
proof -
  obtain c' sources where scope: "cancellation_scope et std c' sources (Aware now 0) = Inr cancelled" and c': "kept_or_held std c c'"
    and recorded: "\<And>src. (e, src) \<in> set sources \<Longrightarrow> recorded_source std state pending e src"
    and reasons_ex: "\<exists>reasons. block_reasons std c = Inr reasons \<and> \<not> waits_for_market_data c reasons"
    using tick_candidate [OF assms] by metis
  obtain reasons where reasons: "block_reasons std c = Inr reasons" and waiting: "\<not> waits_for_market_data c reasons"
    using reasons_ex by blast
  obtain items where items: "iter_items (vor (dget c ''block_reasons'') (VList [])) = Inr items"
      "reasons = map (py_str std) (filter py_true items)"
    using reasons by (auto simp: block_reasons_def true_texts_def rbind_eq_Inr_iff)
  have status: "dget c' ''status'' \<notin> {VStr ''manual_ready'', VStr ''refresh_pending''}"
    using cancelled_status [OF scope assms(2)] by blast
  obtain src0 where known: "recorded_source std state pending e src0"
    using cancelled_status [OF scope assms(2)] recorded by blast
  obtain reasons' where reasons': "block_reasons std c' = Inr reasons'"
    using cancelled_status [OF scope assms(2)] by blast
  have "as_et et (Aware now 0) = Inr (et now)" by (simp add: as_et_def)
  note only = cancelled_only_if [OF scope assms(2) reasons' this]
  from c' [unfolded kept_or_held_def] show ?thesis
  proof
    assume same: "\<forall>k. k \<noteq> ''replaces_prior_plan'' \<longrightarrow> dget c' k = dget c k"
    then have r: "reasons' = reasons" using reasons reasons' block_reasons_cong [of c' c std] by simp
    have k: "dtext std c' ''source_signal_id'' [] = dtext std c ''source_signal_id'' []"
        "dtext std c' ''source_tombstone_id'' [] = dtext std c ''source_tombstone_id'' []"
        "dget c' ''source_signal_id'' = dget c ''source_signal_id''"
      and ready: "dget c ''status'' \<noteq> VStr ''manual_ready''"
      using same status by (simp_all add: dtext_def)
    consider "\<not> is_spx_gth_open default_market_calendar (et now)" | "''trend_transition_session_mismatch'' \<in> set reasons"
      | src where "''opposite_signal_conflicts_with_active_plan'' \<notin> set reasons" "(e, src) \<in> set sources"
          "src = dtext std c ''source_signal_id'' [] \<or> \<not> py_true (dget c ''source_signal_id'')
            \<and> src = dtext std c ''source_tombstone_id'' [] \<and> set reasons \<inter> set explicit_source_absence_reasons \<noteq> {}"
      using only [unfolded r k] by metis
    then show ?thesis
    proof cases
      case 1
      then show ?thesis using known reasons items(1) waiting by blast
    next
      case 2
      then show ?thesis using known reasons items waiting by auto
    next
      case (3 src)
      show ?thesis
        by (rule exI [of _ reasons], rule exI [of _ items], rule exI [of _ src])
          (use 3 recorded reasons items(1) waiting ready in simp)
    qed
  next
    assume "dget c ''status'' = VStr ''manual_ready'' \<and> (\<exists>plan. hold_opposite std c plan = Inr c')"
    then obtain plan where held: "hold_opposite std c plan = Inr c'" by blast
    obtain reasons'' where "block_reasons std c' = Inr reasons''" "''opposite_signal_conflicts_with_active_plan'' \<in> set reasons''"
        "set reasons'' \<subseteq> insert ''opposite_signal_conflicts_with_active_plan'' (py_str std ` set items)"
      using held_reasons [of std c plan c'] held items(1) by auto
    then have "\<not> is_spx_gth_open default_market_calendar (et now) \<or> ''trend_transition_session_mismatch'' \<in> py_str std ` set items"
      using only reasons' by auto
    then show ?thesis using known recorded reasons items(1) waiting by blast
  qed
qed

definition any_std :: py_std where
  "any_std = \<lparr>std_str = (\<lambda>_. []), std_float = (\<lambda>_. None), std_fromiso = (\<lambda>_. None), std_fmt_g = (\<lambda>_. []),
     std_sha256 = (\<lambda>_. [])\<rparr>"

definition blocked_candidate :: "string list \<Rightarrow> pydict" where
  "blocked_candidate reasons =
     [(''status'', VStr ''blocked''), (''source_signal_id'', VStr ''s''), (''block_reasons'', VList (map VStr reasons))]"

lemma block_reasons_blocked: "block_reasons std (blocked_candidate rs) = Inr (filter (\<lambda>r. r \<noteq> []) rs)"
  by (rule block_reasons_texts) (simp add: blocked_candidate_def)

text \<open>Tuesday 2026-08-25, 03:00 in New York, inside the overnight session, with notifications of two sources pending.\<close>

definition overnight_now :: int where
  "overnight_now = combine (ymd 2026 8 25) (hhmm 3 0)"

lemma overnight_open: "is_spx_gth_open default_market_calendar overnight_now"
  by code_simp

definition two_pending :: "pydict list" where
  "two_pending =
     [[(''event_id'', VStr ''e''), (''source_signal_id'', VStr ''s'')],
      [(''event_id'', VStr ''f''), (''source_signal_id'', VStr ''other'')]]"

lemma two_pending_sources:
  "notification_sources std [] two_pending c None = Inr [(''e'', ''s''), (''f'', ''other'')]"
  by (simp add: notification_sources_def stored_sources_def two_pending_def previous_entry_def pending_entries_def source_entry_def
      keep_first_def vor_def iter_items_def List.map_filter_simps dtext_def)

lemma plain_tick:
  "dget c ''status'' = VStr ''blocked'' \<Longrightarrow> mark_refresh_pending std c = Inr c' \<Longrightarrow> dget c' ''status'' \<noteq> VStr ''manual_ready'' \<Longrightarrow>
   tick_cancellations et std [] two_pending c now
     = cancellation_scope et std c' [(''e'', ''s''), (''f'', ''other'')] (Aware now 0)"
  by (simp add: tick_cancellations_def recover_active_manual_plan_def apply_active_plan_coherence_def notification_event_id_def
      two_pending_sources)

theorem cancellation_is_precise_witness:
  "tick_cancellations (\<lambda>t. t) any_std [] two_pending (blocked_candidate [''risk'']) overnight_now = Inr {''e''}
   \<and> recorded_source any_std [] two_pending ''e'' ''s''"
proof -
  let ?c = "blocked_candidate [''risk'']"
  have mark: "mark_refresh_pending any_std ?c = Inr ?c"
    by (simp add: mark_refresh_pending_def block_reasons_blocked refresh_blockers_def)
  have "cancellation_scope (\<lambda>t. t) any_std ?c [(''e'', ''s''), (''f'', ''other'')] (Aware overnight_now 0) = Inr {''e''}"
    unfolding cancellation_scope_def block_reasons_blocked
    by (simp add: as_et_def overnight_open blocked_candidate_def dtext_def global_source_lifecycle_end_reasons_def vor_def events_of_def)
  then have run: "tick_cancellations (\<lambda>t. t) any_std [] two_pending ?c overnight_now = Inr {''e''}"
    using plain_tick [OF _ mark] by (simp add: blocked_candidate_def)
  have "iter_items (vor (dget ?c ''block_reasons'') (VList [])) = Inr [VStr ''risk'']"
    by (simp add: blocked_candidate_def vor_def iter_items_def)
  then have "recorded_source any_std [] two_pending ''e'' ''s''"
    using cancellation_is_precise [OF run, of "''e''"] overnight_open
    by (auto simp: block_reasons_blocked) (auto simp: blocked_candidate_def dtext_def)
  then show ?thesis using run by blast
qed

subsection \<open>Replay\<close>

lemma unreplayed_candidate_new: "unreplayed_candidate std c ids = Some i \<Longrightarrow> i \<notin> ids \<and> i = dtext std c ''candidate_id'' []"
  by (auto simp: unreplayed_candidate_def Let_def split: if_splits)

text \<open>The stored identifiers are the 500 greatest.\<close>

lemma retained_subset: "finite ids \<Longrightarrow> retained_ids ids \<subseteq> ids"
  unfolding retained_ids_def last_items_def using set_drop_subset by fastforce

lemma retained_ids_small: "finite ids \<Longrightarrow> card ids \<le> 500 \<Longrightarrow> retained_ids ids = ids"
  by (simp add: retained_ids_def last_items_def)

lemma retained_greatest:
  assumes "finite ids" "z \<in> ids" "z \<notin> retained_ids ids"
  shows "card (retained_ids ids) = 500" "\<forall>y \<in> retained_ids ids. z < y"
proof -
  let ?xs = "sorted_list_of_set ids" and ?n = "card ids - 500"
  have n: "500 < card ids" using assms retained_ids_small [of ids] by fastforce
  have retained: "retained_ids ids = set (drop ?n ?xs)" by (simp add: retained_ids_def last_items_def)
  then show "card (retained_ids ids) = 500" using n by (simp add: distinct_card)
  have "z \<in> set (take ?n ?xs)"
    using assms retained set_append [of "take ?n ?xs" "drop ?n ?xs"] by auto
  moreover have "sorted_wrt (<) (take ?n ?xs @ drop ?n ?xs)" by (simp add: strict_sorted_list_of_set)
  ultimately show "\<forall>y \<in> retained_ids ids. z < y" unfolding retained sorted_wrt_append by blast
qed

lemma retained_above:
  assumes "finite ids"
  shows "500 \<le> card {y \<in> ids. x < y} \<Longrightarrow> 500 \<le> card {y \<in> retained_ids ids. x < y}"
    and "x \<in> ids \<Longrightarrow> x \<in> retained_ids ids \<or> 500 \<le> card {y \<in> retained_ids ids. x < y}"
proof -
  have above: "{y \<in> retained_ids ids. x < y} = retained_ids ids" if "z \<in> ids" "z \<notin> retained_ids ids" "x \<le> z" for z
    using retained_greatest(2) [OF assms that(1,2)] that(3) by fastforce
  show "500 \<le> card {y \<in> retained_ids ids. x < y}" if many: "500 \<le> card {y \<in> ids. x < y}"
  proof (cases "\<exists>z \<in> ids. z \<notin> retained_ids ids \<and> x < z")
    case True
    then show ?thesis using above retained_greatest(1) [OF assms] by force
  next
    case False
    then have "{y \<in> ids. x < y} = {y \<in> retained_ids ids. x < y}" using retained_subset [OF assms] by auto
    then show ?thesis using many by simp
  qed
  show "x \<in> retained_ids ids \<or> 500 \<le> card {y \<in> retained_ids ids. x < y}" if "x \<in> ids"
    using above [OF that] retained_greatest(1) [OF assms that] by fastforce
qed

text \<open>The identifiers seen so far and those of them still stored.\<close>

definition remembered :: "string set \<Rightarrow> string set \<Rightarrow> bool" where
  "remembered known ids \<longleftrightarrow> ids \<subseteq> known \<and> (\<forall>x \<in> known. x \<in> ids \<or> 500 \<le> card {y \<in> ids. x < y})"

lemma remembered_insert:
  assumes "finite known" "remembered known ids"
  shows "remembered (insert i known) (insert i ids)"
proof -
  have "finite (insert i ids)" using assms finite_subset by (auto simp: remembered_def)
  then have "card {y \<in> ids. x < y} \<le> card {y \<in> insert i ids. x < y}" for x by (intro card_mono) auto
  then show ?thesis using assms(2) by (fastforce simp: remembered_def intro: order_trans)
qed

lemma remembered_retained:
  assumes "finite known" "remembered known ids"
  shows "remembered known (retained_ids ids)"
proof -
  have "finite ids" using assms finite_subset by (auto simp: remembered_def)
  then show ?thesis
    using assms(2) retained_subset retained_above [of ids] by (fastforce simp: remembered_def)
qed

lemma replayed_again:
  assumes "finite known" "remembered known ids" "replay_run std ticks ids = us @ i # vs" "i \<in> known \<union> set us"
  shows "500 \<le> card {x \<in> known \<union> set us. i < x}"
  using assms
proof (induction ticks arbitrary: known ids us)
  case (Cons t ts)
  note fin = Cons.prems(1) and mem = Cons.prems(2)
  define recorded where "recorded = fst (replay_tick std t ids)"
  have tick: "replay_tick std t ids = (recorded, retained_ids (case recorded of Some j \<Rightarrow> insert j ids | None \<Rightarrow> ids))"
    by (cases t) (simp add: replay_tick_def Let_def recorded_def)
  have new: "recorded = Some j \<Longrightarrow> j \<notin> ids" for j
    by (cases t) (auto simp: replay_tick_def Let_def recorded_def dest: unreplayed_candidate_new split: if_splits)
  show ?case
  proof (cases recorded)
    case None
    then show ?thesis
      using Cons.IH [OF fin remembered_retained [OF fin mem]] Cons.prems(3,4) tick by simp
  next
    case (Some j)
    then have run: "j # replay_run std ts (retained_ids (insert j ids)) = us @ i # vs" using Cons.prems(3) tick by simp
    show ?thesis
    proof (cases us)
      case Nil
      then have "i \<in> known" "i \<notin> ids" using run new Some Cons.prems(4) by auto
      then have "500 \<le> card {y \<in> ids. i < y}" "ids \<subseteq> known" using mem by (auto simp: remembered_def)
      moreover have "card {y \<in> ids. i < y} \<le> card {y \<in> known. i < y}"
        using fin \<open>ids \<subseteq> known\<close> by (intro card_mono) auto
      ultimately show ?thesis using Nil by simp
    next
      case (Cons k us')
      then have "500 \<le> card {x \<in> insert j known \<union> set us'. i < x}"
        using run Cons.prems(4) fin
        by (intro Cons.IH [OF _ remembered_retained [OF _ remembered_insert [OF fin mem]]]) auto
      then show ?thesis using run Cons by simp
    qed
  qed
qed simp

lemma replay_run_ids: "set (replay_run std ticks ids) \<subseteq> (\<lambda>t. dtext std (snd t) ''candidate_id'' []) ` set ticks"
proof (induction ticks arbitrary: ids)
  case (Cons t ts)
  have "fst (replay_tick std t ids) = Some i \<Longrightarrow> i = dtext std (snd t) ''candidate_id'' []" for i
    by (cases t) (auto simp: replay_tick_def Let_def dest: unreplayed_candidate_new split: if_splits)
  then show ?case using Cons.IH by (force simp: split_beta Let_def split: option.splits)
qed simp

text \<open>
  C16: Over any sequence of ticks an identifier that was stored or has entered the journal enters it again only after
  500 identifiers above it in text order have been stored or have entered: as long as no more than 500
  identifiers occur, every candidate enters the journal at most once and none that was stored does.
\<close>

theorem replayed_at_most_once:
  assumes "finite ids"
  shows "(\<forall>us i vs. replay_run std ticks ids = us @ i # vs \<longrightarrow> i \<in> ids \<union> set us \<longrightarrow>
      500 \<le> card {x \<in> ids \<union> set us. i < x})
    \<and> (card (ids \<union> (\<lambda>t. dtext std (snd t) ''candidate_id'' []) ` set ticks) \<le> 500 \<longrightarrow>
      distinct (replay_run std ticks ids) \<and> set (replay_run std ticks ids) \<inter> ids = {})"
proof -
  let ?all = "ids \<union> (\<lambda>t. dtext std (snd t) ''candidate_id'' []) ` set ticks"
  have again: "500 \<le> card {x \<in> ids \<union> set us. i < x}" if "replay_run std ticks ids = us @ i # vs" "i \<in> ids \<union> set us" for us i vs
    using replayed_again [OF assms _ that] by (simp add: remembered_def)
  have once: "i \<notin> ids \<union> set us" if run: "replay_run std ticks ids = us @ i # vs" and few: "card ?all \<le> 500" for us i vs
  proof
    assume i: "i \<in> ids \<union> set us"
    have us: "set us \<subseteq> ?all" using replay_run_ids [of std ticks ids] run by auto
    have "i \<in> ?all" using i us by blast
    then have "{x \<in> ids \<union> set us. i < x} \<subseteq> ?all - {i}" using us by auto
    then have "card {x \<in> ids \<union> set us. i < x} \<le> card (?all - {i})"
      using assms by (intro card_mono) auto
    also have "\<dots> < card ?all" using \<open>i \<in> ?all\<close> assms by (intro psubset_card_mono) auto
    finally show False using again [OF run i] few by simp
  qed
  have "distinct (replay_run std ticks ids) \<and> set (replay_run std ticks ids) \<inter> ids = {}" if few: "card ?all \<le> 500"
  proof
    show "distinct (replay_run std ticks ids)"
    proof (rule ccontr)
      assume "\<not> distinct (replay_run std ticks ids)"
      then obtain xs ys zs i where "replay_run std ticks ids = xs @ [i] @ ys @ [i] @ zs" by (blast dest: not_distinct_decomp)
      then show False using once [of "xs @ [i] @ ys" i zs] few by simp
    qed
    show "set (replay_run std ticks ids) \<inter> ids = {}"
      using once few by (fastforce dest: split_list)
  qed
  with again show ?thesis by blast
qed

text \<open>A stored state of 500 greater identifiers forgets a new candidate at once, and its next gate journals it again.\<close>

lemma smaller_candidate_repeats:
  assumes "finite ids" "card ids = 500" "\<forall>x \<in> ids. i < x"
    and "replay_status (dget c ''status'')" "dtext std c ''candidate_id'' [] = i" "i \<noteq> []"
  shows "replay_run std [(False, c), (False, c)] ids = [i, i]"
proof -
  have new: "i \<notin> ids" using assms(3) by auto
  have "i \<notin> retained_ids (insert i ids)"
  proof
    assume i: "i \<in> retained_ids (insert i ids)"
    have "\<exists>z. z \<in> insert i ids \<and> z \<notin> retained_ids (insert i ids)"
    proof (rule ccontr)
      assume "\<not> ?thesis"
      then have "insert i ids \<subseteq> retained_ids (insert i ids)" by blast
      then have "card (insert i ids) \<le> card (retained_ids (insert i ids))"
        by (intro card_mono) (simp_all add: retained_ids_def)
      moreover have "card (retained_ids (insert i ids)) \<le> 500"
        unfolding retained_ids_def last_items_def by (rule order_trans [OF card_length]) simp
      ultimately show False using assms(1,2) new by simp
    qed
    then obtain z where "z \<in> insert i ids" "z \<notin> retained_ids (insert i ids)" by blast
    then show False using retained_greatest(2) [of "insert i ids" z] i assms(1,3) by fastforce
  qed
  then show ?thesis
    using new assms(4-6) by (simp add: replay_tick_def unreplayed_candidate_def)
qed

theorem replayed_at_most_once_witness:
  "let c = [(''status'', VStr ''manual_ready''), (''candidate_id'', VStr ''c1'')] in
   replay_run any_std [(False, c), (True, c), (False, c)] {''c0''} = [''c1'']
   \<and> distinct (replay_run any_std [(False, c), (True, c), (False, c)] {''c0''})"
proof -
  let ?c = "[(''status'', VStr ''manual_ready''), (''candidate_id'', VStr ''c1'')]"
  have "distinct (replay_run any_std [(False, ?c), (True, ?c), (False, ?c)] {''c0''})"
    using replayed_at_most_once [of "{''c0''}" any_std "[(False, ?c), (True, ?c), (False, ?c)]"]
    by (simp add: dtext_def vor_def)
  moreover have "replay_run any_std [(False, ?c), (True, ?c), (False, ?c)] {''c0''} = [''c1'']"
    by (simp add: replay_tick_def unreplayed_candidate_def replay_status_def dtext_def vor_def retained_ids_small)
  ultimately show ?thesis by (simp add: Let_def)
qed

subsection \<open>One direction at a time\<close>

lemma hold_opposite_blocked: "hold_opposite std c active = Inr c' \<Longrightarrow> dget c' ''status'' = VStr ''blocked''"
  by (auto simp: hold_opposite_def rbind_eq_Inr_iff Let_def)

lemma resolve_opposite_cases:
  "resolve_opposite std c active now = Inr (c', active') \<Longrightarrow>
     hold_opposite std c active = Inr c' \<and> active' = active
     \<or> active' = [] \<and> (\<exists>spx reason. finite_number std (dget c ''current_parity_spx'') = Inr spx
         \<and> active_plan_release_reason std active spx now = Inr (Some reason))"
  by (auto simp: resolve_opposite_def rbind_eq_Inr_iff split: option.splits)

text \<open>
  C10: A candidate that comes out ready beside an accepted plan does not contradict its direction; the plan
  is dropped only for a recorded reason of its own: its exit time, its invalidation or its target.
\<close>

theorem opposite_card_waits:
  assumes "apply_active_plan_coherence std c active now = Inr (c', active')"
  shows "(dget c' ''status'' = VStr ''manual_ready'' \<and> active' \<noteq> [] \<longrightarrow>
      (dtext std c' ''direction'' [], dtext std active' ''direction'' []) \<notin> {(''up'', ''down''), (''down'', ''up'')})
    \<and> (active' \<noteq> active \<longrightarrow> active' = [] \<and>
      (\<exists>spx reason. finite_number std (dget c ''current_parity_spx'') = Inr spx
         \<and> active_plan_release_reason std active spx now = Inr (Some reason)))"
proof -
  consider (kept) "c' = c" "active' = active" "dget c ''status'' = VStr ''manual_ready'' \<and> active \<noteq> [] \<longrightarrow>
      dtext std c ''direction'' [] \<notin> {''up'', ''down''} \<or> dtext std active ''direction'' [] \<notin> {''up'', ''down''}
      \<or> dtext std c ''direction'' [] = dtext std active ''direction'' []"
    | (held) "hold_opposite std c active = Inr c'" "active' = active"
    | (released) spx reason where "active' = []" "finite_number std (dget c ''current_parity_spx'') = Inr spx"
        "active_plan_release_reason std active spx now = Inr (Some reason)"
  proof (cases "dget c ''status'' \<noteq> VStr ''manual_ready'' \<or> active = []
      \<or> dtext std c ''direction'' [] \<notin> {''up'', ''down''} \<or> dtext std active ''direction'' [] \<notin> {''up'', ''down''}
      \<or> dtext std c ''direction'' [] = dtext std active ''direction'' []")
    case True
    then have "apply_active_plan_coherence std c active now = Inr (c, active)"
      unfolding apply_active_plan_coherence_def Let_def by (elim disjE) simp_all
    then show ?thesis using assms True kept by auto
  next
    case False
    then have "resolve_opposite std c active now = Inr (c', active')"
      using assms unfolding apply_active_plan_coherence_def Let_def by simp
    then show ?thesis using held released by (auto dest: resolve_opposite_cases)
  qed
  then show ?thesis
    by cases (auto dest: hold_opposite_blocked)
qed

definition put_plan :: pydict where
  "put_plan = [(''direction'', VStr ''down''), (''invalidation_spx'', VFloat (Fin 6400)), (''target_spx'', VFloat (Fin 6300))]"

definition call_card :: pydict where
  "call_card = [(''status'', VStr ''manual_ready''), (''direction'', VStr ''up''), (''current_parity_spx'', VFloat (Fin 6405))]"

theorem opposite_card_waits_witness:
  "\<exists>c'. apply_active_plan_coherence any_std call_card put_plan 0 = Inr (c', [])
     \<and> (\<exists>spx reason. finite_number any_std (dget call_card ''current_parity_spx'') = Inr spx
          \<and> active_plan_release_reason any_std put_plan spx 0 = Inr (Some reason))"
proof -
  have "\<exists>c'. apply_active_plan_coherence any_std call_card put_plan 0 = Inr (c', [])"
    by (simp add: apply_active_plan_coherence_def resolve_opposite_def active_plan_release_reason_def call_card_def put_plan_def dtext_def
        vor_def finite_number_def optional_datetime_def at_or_above_def)
  then obtain c' where "apply_active_plan_coherence any_std call_card put_plan 0 = Inr (c', [])" by blast
  with opposite_card_waits [OF this] show ?thesis
    by (auto simp: put_plan_def)
qed

subsection \<open>The terminal message\<close>

lemma terminal_plan_ready_event:
  assumes "event_id \<noteq> []"
  shows "dtext std (terminal_plan_for_event std event_id active previous now) ''ready_event_id'' x = event_id"
  using assms
  by (auto simp: terminal_plan_for_event_def Let_def active_manual_plan_snapshot_def dtext_default
      active_plan_fields_def dtext_def vor_def split: option.splits)

text \<open>
  The message that ends a card names the card it ends, whatever plan is stored; it is an exit exactly
  when the plan was released or a source was invalidated, has its own identifier and lives fifteen
  minutes after it is queued.
\<close>

theorem terminal_message_names_its_card:
  assumes "event_id \<noteq> []" "block_reasons std c = Inr reasons"
    and "plan = terminal_plan_for_event std event_id active previous now"
    and "action = (if release \<noteq> None \<or> (\<exists>r \<in> set reasons. text_contains ''invalidated'' r) then ''exit'' else ''cancel'')"
  shows "\<exists>m. terminal_notification_intent std plan c event_id occurred queued release = Inr m
    \<and> dget m ''causation_event_id'' = VStr event_id
    \<and> dget m ''event_id'' = VStr (event_id @ '':'' @ action) \<and> dget m ''terminal_action'' = VStr action
    \<and> dget m ''expires_at'' = VStr (isoformat ((case queued of Some t \<Rightarrow> t | None \<Rightarrow> occurred) + 900000000))"
proof -
  have "dtext std plan ''ready_event_id'' event_id = event_id"
    unfolding assms(3) by (rule terminal_plan_ready_event [OF assms(1)])
  then show ?thesis
    using assms(2) unfolding assms(4)
    by (simp add: terminal_notification_intent_def Let_def list_ex_iff terminal_ttl_def)
qed

theorem terminal_message_names_its_card_witness:
  "\<exists>m. terminal_notification_intent any_std
         (terminal_plan_for_event any_std ''c1:ready'' [] (Some [(''candidate_id'', VStr ''c1'')]) 0)
         (blocked_candidate [''level_source_invalidated'']) ''c1:ready'' 0 None None = Inr m
    \<and> dget m ''causation_event_id'' = VStr ''c1:ready'' \<and> dget m ''event_id'' = VStr ''c1:ready:exit''"
  using terminal_message_names_its_card [of "''c1:ready''" any_std "blocked_candidate [''level_source_invalidated'']"
      "[''level_source_invalidated'']" "terminal_plan_for_event any_std ''c1:ready'' [] (Some [(''candidate_id'', VStr ''c1'')]) 0"
      "[]" "Some [(''candidate_id'', VStr ''c1'')]" 0 "''exit''" None 0 None]
  by (auto simp: block_reasons_blocked)

end
