(* ===== verification/Notification_Policy.thy ===== *)
theory Notification_Policy
  imports Market_Calendar Line_Capacity Py_Dict
begin

section \<open>Which alerts reach a person (\<^verbatim>\<open>notifier/policy.py\<close>, \<^verbatim>\<open>notifier/human_policy.py\<close>)\<close>

text \<open>
  The routing of alerts, the dictionaries of the alert engine: visible or not, direct push,
  context only, review, the cheap score before a review, the verdict of a review message and the
  quiet window. Sets of kinds are lists. The delivery cues are Chinese; here a text is a list of bytes
  and they are written in UTF-8. Blanks and line breaks of a message are the ASCII ones.
\<close>

subsection \<open>Constants\<close>

definition positive_delivery_cues :: "string list" where
  "positive_delivery_cues =
     [[CHR 0xE9, CHR 0x9C, CHR 0x80, CHR 0xE8, CHR 0xA6, CHR 0x81, CHR 0xE7, CHR 0x9C, CHR 0x8B, CHR 0xE7, CHR 0x9B, CHR 0x98],
      [CHR 0xE9, CHR 0x9C, CHR 0x80, CHR 0xE8, CHR 0xA6, CHR 0x81, CHR 0xE4, CHR 0xBA, CHR 0xBA, CHR 0xE7, CHR 0xB1, CHR 0xBB],
      [CHR 0xE9, CHR 0x9C, CHR 0x80, CHR 0xE8, CHR 0xA6, CHR 0x81, CHR 0xE5, CHR 0x85, CHR 0xB3, CHR 0xE6, CHR 0xB3, CHR 0xA8],
      [CHR 0xE9, CHR 0x9C, CHR 0x80, CHR 0xE8, CHR 0xA6, CHR 0x81, CHR 0xE7, CHR 0xAB, CHR 0x8B, CHR 0xE5, CHR 0x8D, CHR 0xB3],
      [CHR 0xE9, CHR 0xAB, CHR 0x98, CHR 0xE9, CHR 0xA3, CHR 0x8E, CHR 0xE9, CHR 0x99, CHR 0xA9]]"

definition negative_delivery_cues :: "string list" where
  "negative_delivery_cues =
     [[CHR 0xE4, CHR 0xB8, CHR 0x8D, CHR 0xE9, CHR 0x9C, CHR 0x80, CHR 0xE8, CHR 0xA6, CHR 0x81, CHR 0xE6, CHR 0x8E, CHR 0xA8, CHR 0xE9, CHR 0x80, CHR 0x81],
      [CHR 0xE6, CHR 0x97, CHR 0xA0, CHR 0xE9, CHR 0x9C, CHR 0x80, CHR 0xE6, CHR 0x8E, CHR 0xA8, CHR 0xE9, CHR 0x80, CHR 0x81],
      [CHR 0xE4, CHR 0xB8, CHR 0x8D, CHR 0xE8, CHR 0xA6, CHR 0x81, CHR 0xE6, CHR 0x8E, CHR 0xA8, CHR 0xE9, CHR 0x80, CHR 0x81],
      [CHR 0xE4, CHR 0xB8, CHR 0x8D, CHR 0xE6, CHR 0x8E, CHR 0xA8, CHR 0xE9, CHR 0x80, CHR 0x81],
      [CHR 0xE4, CHR 0xB8, CHR 0x8D, CHR 0xE9, CHR 0x9C, CHR 0x80, CHR 0xE8, CHR 0xA6, CHR 0x81, CHR 0xE7, CHR 0x9C, CHR 0x8B, CHR 0xE7, CHR 0x9B, CHR 0x98],
      [CHR 0xE6, CHR 0x97, CHR 0xA0, CHR 0xE9, CHR 0x9C, CHR 0x80, CHR 0xE7, CHR 0x9C, CHR 0x8B, CHR 0xE7, CHR 0x9B, CHR 0x98]]"

definition human_visible_alert_prefixes :: "string list" where
  "human_visible_alert_prefixes =
     [''index:SPX'', ''future:ES'', ''option:SPX:SPXW'', ''option_map:SPXW'', ''iv_surface:SPXW'']"

definition blocked_human_message_phrases :: "string list" where
  "blocked_human_message_phrases =
     [''hyperliquid'', ''polymarket'', ''crypto_perp'', ''prediction market'']"

definition system_event_alert_kinds :: "string list" where
  "system_event_alert_kinds =
     [''ibkr_session_interrupted'', ''ibkr_session_restored'', ''ibkr_session_login'',
      ''market_data_ibkr_fallback_activated'', ''market_data_all_providers_unavailable'',
      ''market_data_schwab_restored'', ''spxw_position_event_store_corrupt'']"

definition direct_push_system_event_kinds :: "string list" where
  "direct_push_system_event_kinds =
     [''ibkr_session_interrupted'', ''ibkr_session_restored'', ''market_data_ibkr_fallback_activated'',
      ''market_data_all_providers_unavailable'', ''market_data_schwab_restored'',
      ''spxw_position_event_store_corrupt'']"

definition intraday_direct_push_kinds :: "string list" where
  "intraday_direct_push_kinds =
     [''flip_reclaim_call'', ''call_wall_breakout_call'', ''gth_dip_reclaim_call'', ''gth_advisory_invalidated'',
      ''gth_bias_transition'', ''captured_net_premium_bearish_divergence'',
      ''captured_net_premium_bullish_divergence'']"

definition high_magnitude_direct_push_kinds :: "string list" where
  "high_magnitude_direct_push_kinds =
     []"

definition context_only_alert_kinds :: "string list" where
  "context_only_alert_kinds =
     [''ibkr_session_login'', ''broker_unavailable_proxy_watch'', ''required_data_missing'',
      ''optional_data_missing'', ''required_data_degraded'', ''optional_data_degraded'',
      ''option_quote_freshness_degraded'', ''option_underlier_gate_suppressed'', ''iv_surface_degraded'',
      ''iv_surface_stale'', ''price_move_from_close'', ''intraday_price_shock'', ''intraday_price_reclaim'',
      ''globex_trend_transition'', ''globex_trend_continuation'', ''gth_directional_advisory'',
      ''gth_advisory_management'', ''option_gamma_regime'', ''option_wall_proximity'']"

definition review_failure_failopen_kinds :: "string list" where
  "review_failure_failopen_kinds =
     [''ibkr_session_interrupted'', ''market_data_all_providers_unavailable'',
      ''spxw_position_event_store_corrupt'']"

definition position_direct_push_kinds :: "string list" where
  "position_direct_push_kinds =
     [''spxw_position_opened'', ''spxw_position_closed'', ''spxw_position_qty_changed'',
      ''spxw_position_book_pnl'']"

definition offhours_capture_vol_kinds :: "string list" where
  "offhours_capture_vol_kinds =
     [''put_skew_steepening_5m'', ''atm_iv_jump_5m'']"

definition market_signal_alert_kinds :: "string list" where
  "market_signal_alert_kinds =
     [''price_move_from_close'', ''intraday_price_shock'', ''intraday_price_reclaim'',
      ''captured_net_premium_bearish_divergence'', ''captured_net_premium_bullish_divergence'',
      ''globex_trend_transition'', ''gth_bias_transition'', ''globex_trend_continuation'',
      ''gth_directional_advisory'', ''gth_advisory_management'', ''flip_reclaim_call'',
      ''call_wall_breakout_call'', ''option_gamma_regime'', ''option_wall_proximity'', ''iv_term_gap'',
      ''atm_iv_jump_5m'', ''put_skew_steepening_5m'', ''iv_surface_shift_5m'', ''iv_surface_shift_1h'',
      ''atm_iv_change_1h'']"

definition low_value_review_kinds :: "string list" where
  "low_value_review_kinds =
     [''required_data_missing'', ''optional_data_missing'', ''required_data_degraded'',
      ''optional_data_degraded'', ''option_quote_freshness_degraded'', ''iv_surface_stale'']"


definition position_holding_source_gate :: string where
  "position_holding_source_gate = ''ibkr_positions''"

definition quiet_window_exception_lanes :: "string list" where
  "quiet_window_exception_lanes =
     [''position_safety'', ''execution_safety'', ''trade_ready'', ''gth_manual_candidate'', ''gth_level_manual_candidate'',
      ''growth_dislocation'']"

subsection \<open>Alerts\<close>

abbreviation kind_of :: "py_std \<Rightarrow> pydict \<Rightarrow> string" where
  "kind_of std alert \<equiv> dtext std alert ''kind'' []"

definition severity_value :: "py_std \<Rightarrow> pyval \<Rightarrow> int" where
  "severity_value std value =
     (let s = str_lower (py_str std (vor value (VStr []))) in
      if s = ''info'' then 0 else if s = ''low'' then 1 else if s = ''medium'' then 2
      else if s = ''high'' then 3 else if s = ''critical'' then 4 else - 1)"

definition alert_key :: "py_std \<Rightarrow> pydict \<Rightarrow> string" where
  "alert_key std alert =
     kind_of std alert @ ''|'' @ dtext std alert ''instrument_id'' [] @ ''|'' @
     (case dget alert ''dedup_group'' of VNone \<Rightarrow> [] | v \<Rightarrow> py_str std v)"

definition payload_spxw_sampling_off :: "py_std \<Rightarrow> pydict \<Rightarrow> bool" where
  "payload_spxw_sampling_off std payload =
     (case dget payload ''window'' of VDict w \<Rightarrow> dtext std w ''spxw_sampling_mode'' [] = ''off'' | _ \<Rightarrow> False)"

definition is_offhours_vol_signal_alert :: "py_std \<Rightarrow> pydict \<Rightarrow> pydict \<Rightarrow> bool" where
  "is_offhours_vol_signal_alert std alert payload \<longleftrightarrow>
     kind_of std alert \<in> set offhours_capture_vol_kinds \<and> payload_spxw_sampling_off std payload"

definition human_visible_instrument :: "py_std \<Rightarrow> pydict \<Rightarrow> bool" where
  "human_visible_instrument std alert =
     list_ex (\<lambda>p. text_prefix p (dtext std alert ''instrument_id'' [])) human_visible_alert_prefixes"

definition is_human_visible_alert :: "py_std \<Rightarrow> pydict \<Rightarrow> bool" where
  "is_human_visible_alert std alert =
     (if dget alert ''research_only'' = VBool True then False
      else
        let kind = str_lower (kind_of std alert);
            source_gate = str_lower (dtext std alert ''source_gate'' []) in
        if list_ex (\<lambda>t. text_contains t kind \<or> text_contains t source_gate)
             [''smart'', ''wallet'', ''onchain'', ''hyperliquid_proxy''] then False
        else human_visible_instrument std alert)"

definition is_system_event_alert :: "py_std \<Rightarrow> pydict \<Rightarrow> bool" where
  "is_system_event_alert std alert \<longleftrightarrow> kind_of std alert \<in> set system_event_alert_kinds"

definition is_position_holding_alert :: "py_std \<Rightarrow> pydict \<Rightarrow> bool" where
  "is_position_holding_alert std alert \<longleftrightarrow>
     kind_of std alert \<in> set position_direct_push_kinds
     \<and> dtext std alert ''source_gate'' [] = position_holding_source_gate"

definition is_review_failure_failopen_alert :: "py_std \<Rightarrow> pydict \<Rightarrow> bool" where
  "is_review_failure_failopen_alert std alert \<longleftrightarrow>
     is_position_holding_alert std alert \<or> kind_of std alert \<in> set review_failure_failopen_kinds"

definition is_direct_push_alert :: "py_std \<Rightarrow> pydict \<Rightarrow> bool" where
  "is_direct_push_alert std alert \<longleftrightarrow>
     (let kind = kind_of std alert in
      kind \<in> set direct_push_system_event_kinds
      \<or> kind \<in> set intraday_direct_push_kinds
      \<or> (kind \<in> set high_magnitude_direct_push_kinds
         \<and> severity_value std (dget alert ''severity'') \<ge> severity_value std (VStr ''high''))
      \<or> is_position_holding_alert std alert)"

definition direct_push_alerts :: "py_std \<Rightarrow> pydict list \<Rightarrow> pydict list" where
  "direct_push_alerts std alerts = filter (is_direct_push_alert std) alerts"

definition is_context_only_alert :: "py_std \<Rightarrow> pydict \<Rightarrow> bool" where
  "is_context_only_alert std alert \<longleftrightarrow>
     kind_of std alert \<in> set context_only_alert_kinds \<or> dget alert ''research_only'' = VBool True"

definition context_only_alerts :: "py_std \<Rightarrow> pydict list \<Rightarrow> pydict list" where
  "context_only_alerts std alerts = filter (is_context_only_alert std) alerts"

definition alerts_are_latency_critical :: "py_std \<Rightarrow> pydict list \<Rightarrow> bool" where
  "alerts_are_latency_critical std alerts \<longleftrightarrow>
     alerts \<noteq> [] \<and> list_all (\<lambda>a. kind_of std a \<in> set intraday_direct_push_kinds
        \<or> kind_of std a \<in> set high_magnitude_direct_push_kinds
           \<and> severity_value std (dget a ''severity'') \<ge> severity_value std (VStr ''high'')) alerts"

definition is_market_signal_alert :: "py_std \<Rightarrow> pydict \<Rightarrow> bool" where
  "is_market_signal_alert std alert \<longleftrightarrow> kind_of std alert \<in> set market_signal_alert_kinds"

definition alerts_are_market_signals :: "py_std \<Rightarrow> pydict list \<Rightarrow> bool" where
  "alerts_are_market_signals std alerts \<longleftrightarrow> alerts \<noteq> [] \<and> list_all (is_market_signal_alert std) alerts"

subsection \<open>The score before a review\<close>

definition window_priority :: "py_std \<Rightarrow> pydict \<Rightarrow> string" where
  "window_priority std payload =
     (case dget payload ''window'' of VDict w \<Rightarrow> str_lower (dtext std w ''priority'' []) | _ \<Rightarrow> [])"

definition has_spxw_structure :: "pydict \<Rightarrow> bool" where
  "has_spxw_structure payload =
     (case dget payload ''human_focus_context'' of
        VDict focus \<Rightarrow>
          (case dget focus ''spxw_options'' of
             VDict spxw \<Rightarrow>
               (case dget spxw ''expiries'' of
                  VList expiries \<Rightarrow>
                    list_ex (\<lambda>e. case e of
                        VDict x \<Rightarrow> list_ex (\<lambda>k. dget x k \<noteq> VNone) [''put_wall'', ''call_wall'', ''zero_gamma'']
                      | _ \<Rightarrow> False) (take 2 expiries)
                | _ \<Rightarrow> False)
           | _ \<Rightarrow> False)
      | _ \<Rightarrow> False)"

definition has_iv_surface_history :: "pydict \<Rightarrow> bool" where
  "has_iv_surface_history payload =
     (case dget payload ''human_focus_context'' of
        VDict focus \<Rightarrow>
          (case dget focus ''spxw_iv_surface'' of
             VDict surface \<Rightarrow>
               (case dget surface ''history_1h'' of VDict h \<Rightarrow> py_true (dget h ''snapshot_count'') | _ \<Rightarrow> False)
           | _ \<Rightarrow> False)
      | _ \<Rightarrow> False)"

text \<open>Sums of small whole floats are exact, so the score is an int.\<close>

definition strong_time_sensitive_score :: "py_std \<Rightarrow> pydict \<Rightarrow> pydict \<Rightarrow> int" where
  "strong_time_sensitive_score std alert payload =
     (if is_system_event_alert std alert \<or> is_position_holding_alert std alert then 100
      else
        let severity = str_lower (dtext std alert ''severity'' []);
            kind = kind_of std alert in
        if severity = ''critical'' then 100
        else if kind \<in> set low_value_review_kinds then 0
        else
          (if severity = ''high'' then 25 else if severity = ''medium'' then 10 else 0)
          + (if is_market_signal_alert std alert then 35 else 0)
          + (if kind \<in> {''option_gamma_regime'', ''option_wall_proximity''} then 35 else 0)
          + (if human_visible_instrument std alert then 10 else 0)
          + (if window_priority std payload \<in> {''critical'', ''high'', ''elevated''} then 10 else 0)
          + (if has_spxw_structure payload then 10 else 0)
          + (if has_iv_surface_history payload then 5 else 0))"

definition split_time_sensitive_review_candidates ::
  "py_std \<Rightarrow> pydict \<Rightarrow> pydict list \<Rightarrow> pyfloat \<Rightarrow> pydict list \<times> pydict list" where
  "split_time_sensitive_review_candidates std payload alerts min_score =
     (let strong = (\<lambda>a. fle min_score (Fin (of_int (strong_time_sensitive_score std a payload))))
      in (filter strong alerts, filter (\<lambda>a. \<not> strong a) alerts))"

subsection \<open>The verdict of a review\<close>

datatype review_verdict = Deliver | Veto | Invalid_Reply

definition is_line_break :: "char \<Rightarrow> bool" where
  "is_line_break c \<longleftrightarrow> (of_char c :: nat) \<in> {10, 11, 12, 13, 28, 29, 30}"

definition codex_message_delivery_verdict :: "string \<Rightarrow> review_verdict" where
  "codex_message_delivery_verdict message =
     (let normalized = str_lower (str_strip message);
          first_line = str_strip (takeWhile (\<lambda>c. \<not> is_line_break c) normalized)
      in if list_ex (\<lambda>cue. text_prefix cue first_line) negative_delivery_cues then Veto
         else if list_ex (\<lambda>cue. text_prefix cue first_line) positive_delivery_cues then Deliver
         else Invalid_Reply)"

text \<open>No symbol is blocked: \<^verbatim>\<open>BLOCKED_HUMAN_MESSAGE_SYMBOLS\<close> is empty.\<close>

definition codex_message_respects_human_scope :: "string \<Rightarrow> bool" where
  "codex_message_respects_human_scope message \<longleftrightarrow>
     \<not> list_ex (\<lambda>p. text_contains p (str_lower message)) blocked_human_message_phrases"

definition quiet_window_suppresses :: "(int \<Rightarrow> int) \<Rightarrow> string \<Rightarrow> pydt \<Rightarrow> bool res" where
  "quiet_window_suppresses et lane now =
     (if lane \<in> set quiet_window_exception_lanes then Inr False
      else rbind (as_et et now) (\<lambda>wall. Inr (is_post_rth_pre_gth_quiet default_market_calendar wall)))"

subsection \<open>The three routes are disjoint\<close>

lemma direct_not_context_kind:
  "set direct_push_system_event_kinds \<inter> set context_only_alert_kinds = {}"
  "set intraday_direct_push_kinds \<inter> set context_only_alert_kinds = {}"
  "set position_direct_push_kinds \<inter> set context_only_alert_kinds = {}"
  "set review_failure_failopen_kinds \<inter> set context_only_alert_kinds = {}"
  by code_simp+

lemma direct_not_context:
  "is_direct_push_alert std a \<Longrightarrow> is_human_visible_alert std a \<Longrightarrow> \<not> is_context_only_alert std a"
  using direct_not_context_kind
  by (auto simp: is_direct_push_alert_def is_context_only_alert_def Let_def is_human_visible_alert_def
      is_position_holding_alert_def high_magnitude_direct_push_kinds_def)

lemma failopen_is_direct: "is_review_failure_failopen_alert std a \<Longrightarrow> is_direct_push_alert std a"
  by (auto simp: is_review_failure_failopen_alert_def is_direct_push_alert_def Let_def
      review_failure_failopen_kinds_def direct_push_system_event_kinds_def)

lemma price_move_not_direct: "kind_of std a = ''price_move_from_close'' \<Longrightarrow> \<not> is_direct_push_alert std a"
  by (simp add: is_direct_push_alert_def Let_def direct_push_system_event_kinds_def intraday_direct_push_kinds_def
      high_magnitude_direct_push_kinds_def is_position_holding_alert_def position_direct_push_kinds_def)

end
