(* ===== verification/Notification_State.thy ===== *)
theory Notification_State
  imports Notification_Policy
begin

section \<open>The memory of sent alerts (\<^verbatim>\<open>notifier/state.py\<close>)\<close>

text \<open>
  The stored time of the last push per alert key, the rate limit of alerts whose dedup group is
  a magnitude bucket, and the selection of alerts for notification. The state file is the decoded
  payload, or \<open>None\<close> when it is missing or not JSON; each function that reads it takes it as an
  argument, and the locked read-merge-write operations map the old file to the new one. \<open>now_ts\<close> is
  \<^verbatim>\<open>now.timestamp()\<close>.
\<close>

type_synonym sent_state = "(string \<times> pyfloat) list"

record notification_settings =
  ns_enabled :: bool
  ns_min_severity :: string
  ns_cooldown_seconds :: int
  ns_kind_rate_limit_seconds :: pyfloat
  ns_openclaw_enabled :: bool
  ns_openclaw_agent_enabled :: bool
  ns_openclaw_agent_deliver :: bool
  ns_codex_enabled :: bool
  ns_codex_deliver :: bool
  ns_codex_require_delivery_cue :: bool
  ns_deepseek_enabled :: bool
  ns_deepseek_deliver :: bool
  ns_review_min_time_sensitive_score :: pyfloat
  ns_bark_enabled :: bool
  ns_feishu_enabled :: bool

definition timestamp_of :: "int \<Rightarrow> pyfloat" where
  "timestamp_of now = total_seconds (now - unix_epoch)"

definition bucket_rate_limited_kinds :: "string list" where
  "bucket_rate_limited_kinds =
     [''put_skew_steepening_5m'', ''atm_iv_jump_5m'', ''iv_surface_shift_5m'', ''iv_surface_shift_1h'',
      ''atm_iv_change_1h'', ''price_move_from_close'', ''spxw_position_book_pnl'']"

text \<open>\<^verbatim>\<open>^(up|down):(\d+)$\<close>, where the end may be before one final newline.\<close>

definition drop_final_newline :: "string \<Rightarrow> string" where
  "drop_final_newline s = (if s \<noteq> [] \<and> last s = CHR 0x0A then butlast s else s)"

definition signed_bucket :: "py_std \<Rightarrow> pydict \<Rightarrow> pyfloat option" where
  "signed_bucket std alert =
     (let s = drop_final_newline (dtext std alert ''dedup_group'' []) in
      if text_prefix ''up:'' s \<and> str_isdigit (drop 3 s) then Some (rne (of_int (digits_value (drop 3 s))))
      else if text_prefix ''down:'' s \<and> str_isdigit (drop 5 s)
           then Some (fneg (rne (of_int (digits_value (drop 5 s)))))
      else None)"

definition rate_limit_base :: "py_std \<Rightarrow> pydict \<Rightarrow> string" where
  "rate_limit_base std alert =
     py_str std (dget alert ''kind'') @ ''|'' @ py_str std (dget alert ''instrument_id'')"

definition rate_at_key :: "py_std \<Rightarrow> pydict \<Rightarrow> string" where
  "rate_at_key std alert = ''ratelimit_at|'' @ rate_limit_base std alert"

definition rate_bucket_key :: "py_std \<Rightarrow> pydict \<Rightarrow> string" where
  "rate_bucket_key std alert = ''ratelimit_bucket|'' @ rate_limit_base std alert"

text \<open>The bucket breaks through: another direction, or a jump of at least two steps.\<close>

definition bucket_breaks_through :: "pyfloat option \<Rightarrow> pyfloat option \<Rightarrow> bool" where
  "bucket_breaks_through bucket previous =
     (case (bucket, previous) of
        (Some b, Some p) \<Rightarrow> flt (Fin 0) b \<noteq> flt (Fin 0) p \<or> fle (Fin 2) (fabs (fsub b p))
      | _ \<Rightarrow> False)"

definition kind_rate_limit_blocks ::
  "py_std \<Rightarrow> pydict \<Rightarrow> sent_state \<Rightarrow> pyfloat \<Rightarrow> pyfloat \<Rightarrow> bool" where
  "kind_rate_limit_blocks std alert sent now_ts rate_limit_seconds =
     (if fle rate_limit_seconds (Fin 0) then False
      else if kind_of std alert \<notin> set bucket_rate_limited_kinds then False
      else if severity_value std (dget alert ''severity'') \<ge> severity_value std (VStr ''critical'') then False
      else case map_of sent (rate_at_key std alert) of
          None \<Rightarrow> False
        | Some last_ts \<Rightarrow>
            if fle rate_limit_seconds (fsub now_ts last_ts) then False
            else \<not> bucket_breaks_through (signed_bucket std alert) (map_of sent (rate_bucket_key std alert)))"

definition mark_rate_limit_sent :: "py_std \<Rightarrow> pydict \<Rightarrow> sent_state \<Rightarrow> pyfloat \<Rightarrow> sent_state" where
  "mark_rate_limit_sent std alert sent now_ts =
     (if kind_of std alert \<notin> set bucket_rate_limited_kinds then sent
      else
        let sent = AList.update (rate_at_key std alert) now_ts sent in
        (case signed_bucket std alert of
           Some b \<Rightarrow> AList.update (rate_bucket_key std alert) b sent
         | None \<Rightarrow> sent))"

definition text_suffix :: "string \<Rightarrow> string \<Rightarrow> bool" where
  "text_suffix p s = text_prefix (rev p) (rev s)"

definition recent_intraday_shock_blocks_price_move ::
  "py_std \<Rightarrow> pydict \<Rightarrow> sent_state \<Rightarrow> pyfloat \<Rightarrow> bool" where
  "recent_intraday_shock_blocks_price_move std alert sent now_ts =
     (if kind_of std alert \<noteq> ''price_move_from_close'' then False
      else if dtext std alert ''instrument_id'' [] \<notin> {''index:SPX'', ''future:ES''} then False
      else
        let direction = takeWhile (\<lambda>c. c \<noteq> CHR '':'') (dtext std alert ''dedup_group'' []) in
        if direction \<notin> {''up'', ''down''} then False
        else list_ex (\<lambda>(key, sent_at).
            text_prefix ''intraday_price_shock|index:SPX|spx_shock:'' key
            \<and> text_contains ('':'' @ direction @ '':'') key \<and> text_suffix '':shock'' key
            \<and> fle (Fin (- 60)) (fsub now_ts sent_at) \<and> flt (fsub now_ts sent_at) (Fin 900)) sent)"

subsection \<open>The state file\<close>

definition state_payload :: "pyval option \<Rightarrow> pydict" where
  "state_payload file = (case file of Some (VDict d) \<Rightarrow> d | _ \<Rightarrow> [])"

fun sent_entries :: "py_std \<Rightarrow> pydict \<Rightarrow> sent_state res" where
  "sent_entries std [] = Inr []"
| "sent_entries std ((k, v) # d) =
     (if is_number v
      then rbind (py_float std v) (\<lambda>x. rbind (sent_entries std d) (\<lambda>s. Inr ((k, x) # s)))
      else sent_entries std d)"

definition load_sent_state :: "py_std \<Rightarrow> pyval option \<Rightarrow> sent_state res" where
  "load_sent_state std file =
     (case dget (state_payload file) ''sent_at_by_key'' of VDict d \<Rightarrow> sent_entries std d | _ \<Rightarrow> Inr [])"

definition load_acknowledged_event_ids :: "py_std \<Rightarrow> pyval option \<Rightarrow> string set" where
  "load_acknowledged_event_ids std file =
     (case dget (state_payload file) ''acknowledged_event_ids'' of
        VList xs \<Rightarrow> set (map (py_str std) (filter py_true xs)) | _ \<Rightarrow> {})"

text \<open>\<^verbatim>\<open>merged[key] = max(value, merged.get(key, value))\<close> for every item.\<close>

definition merge_entry :: "sent_state \<Rightarrow> string \<times> pyfloat \<Rightarrow> sent_state" where
  "merge_entry merged item =
     (let (key, value) = item in
      AList.update key (fmax value (case map_of merged key of Some old \<Rightarrow> old | None \<Rightarrow> value)) merged)"

definition merge_sent :: "sent_state \<Rightarrow> sent_state \<Rightarrow> sent_state" where
  "merge_sent stored sent = foldl merge_entry stored sent"

text \<open>The content of the file after a locked update, as the pair of its two tables.\<close>

definition save_sent_state ::
  "py_std \<Rightarrow> pyval option \<Rightarrow> sent_state \<Rightarrow> string set \<Rightarrow> (sent_state \<times> string set) res" where
  "save_sent_state std file sent acknowledged =
     rbind (load_sent_state std file) (\<lambda>stored.
       Inr (merge_sent stored sent, load_acknowledged_event_ids std file \<union> acknowledged))"

definition mark_one :: "py_std \<Rightarrow> pyfloat \<Rightarrow> sent_state \<Rightarrow> pydict \<Rightarrow> sent_state" where
  "mark_one std now_ts sent alert =
     mark_rate_limit_sent std alert (AList.update (alert_key std alert) now_ts sent) now_ts"

definition mark_alerts_sent ::
  "py_std \<Rightarrow> pyval option \<Rightarrow> pydict list \<Rightarrow> sent_state \<Rightarrow> pyfloat \<Rightarrow> string set \<Rightarrow> (sent_state \<times> string set) res" where
  "mark_alerts_sent std file alerts sent now_ts acknowledged =
     rbind (load_sent_state std file) (\<lambda>stored.
       Inr (foldl (mark_one std now_ts) (merge_sent stored sent) alerts,
            load_acknowledged_event_ids std file \<union> acknowledged))"

text \<open>The payload that is written, as the next load finds it.\<close>

definition stored_file :: "sent_state \<times> string list \<Rightarrow> pyval option" where
  "stored_file tables =
     (let (sent, acknowledged) = tables in
      Some (VDict [(''sent_at_by_key'', VDict (map (\<lambda>(k, x). (k, VFloat x)) sent)),
                   (''acknowledged_event_ids'', VList (map VStr acknowledged))]))"

subsection \<open>Selection\<close>

definition effective_cooldown :: "py_std \<Rightarrow> pydict \<Rightarrow> notification_settings \<Rightarrow> pyfloat res" where
  "effective_cooldown std alert settings =
     (case dget alert ''cooldown_seconds'' of
        VInt n \<Rightarrow> if n > 0 then float_of_int n else float_of_int (ns_cooldown_seconds settings)
      | VFloat x \<Rightarrow> if flt (Fin 0) x then Inr x else float_of_int (ns_cooldown_seconds settings)
      | _ \<Rightarrow> float_of_int (ns_cooldown_seconds settings))"

definition in_cooldown :: "py_std \<Rightarrow> pydict \<Rightarrow> sent_state \<Rightarrow> pyfloat \<Rightarrow> pyfloat \<Rightarrow> bool" where
  "in_cooldown std alert sent now_ts cooldown =
     (case map_of sent (alert_key std alert) of
        Some previous \<Rightarrow> flt (fsub now_ts previous) cooldown | None \<Rightarrow> False)"

definition select_alert ::
  "py_std \<Rightarrow> pydict \<Rightarrow> notification_settings \<Rightarrow> sent_state \<Rightarrow> pyfloat \<Rightarrow> pyval \<Rightarrow> pydict option res" where
  "select_alert std payload settings sent now_ts item =
     (case item of
        VDict alert \<Rightarrow>
          if \<not> is_human_visible_alert std alert then Inr None
          else if severity_value std (dget alert ''severity'') < severity_value std (VStr (ns_min_severity settings))
             \<and> \<not> is_offhours_vol_signal_alert std alert payload then Inr None
          else rbind (effective_cooldown std alert settings) (\<lambda>cooldown. Inr
            (if in_cooldown std alert sent now_ts cooldown
               \<or> recent_intraday_shock_blocks_price_move std alert sent now_ts
               \<or> kind_rate_limit_blocks std alert sent now_ts (ns_kind_rate_limit_seconds settings)
             then None else Some alert))
      | _ \<Rightarrow> Inr None)"

definition select_alerts_for_notification ::
  "py_std \<Rightarrow> pydict \<Rightarrow> notification_settings \<Rightarrow> pyval option \<Rightarrow> pyfloat \<Rightarrow> (pydict list \<times> sent_state) res" where
  "select_alerts_for_notification std payload settings file now_ts =
     rbind (load_sent_state std file) (\<lambda>sent.
       case dget payload ''alerts'' of
         VList items \<Rightarrow>
           rbind (collect_some (select_alert std payload settings sent now_ts) items) (\<lambda>selected. Inr (selected, sent))
       | _ \<Rightarrow> Inr ([], sent))"

subsection \<open>Reading back what was stored\<close>

lemma sent_entries_floats [simp]: "sent_entries std (map (\<lambda>(k, x). (k, VFloat x)) s) = Inr s"
  by (induction s) (auto simp: is_number_def py_float_def)

lemma load_stored_file [simp]: "load_sent_state std (stored_file (s, ids)) = Inr s"
  by (simp add: load_sent_state_def stored_file_def state_payload_def)

lemma load_stored_ids: "load_acknowledged_event_ids std (stored_file (s, ids)) = set ids - {[]}"
proof -
  have "map (py_str std) (filter py_true (map VStr ids)) = filter (\<lambda>i. i \<noteq> []) ids"
    by (induction ids) simp_all
  then show ?thesis
    by (auto simp: load_acknowledged_event_ids_def stored_file_def state_payload_def simp del: set_map)
qed

subsection \<open>Merging\<close>

lemma map_of_merge_entry:
  "map_of (merge_entry m (k, v)) =
     (map_of m)(k \<mapsto> fmax v (case map_of m k of Some old \<Rightarrow> old | None \<Rightarrow> v))"
  by (simp add: merge_entry_def update_conv')

definition newer :: "pyfloat option \<Rightarrow> pyfloat option \<Rightarrow> pyfloat option" where
  "newer a b = (case (a, b) of (Some x, Some y) \<Rightarrow> Some (fmax y x) | (None, _) \<Rightarrow> b | (_, None) \<Rightarrow> a)"

lemma fmax_same [simp]: "fmax x x = x"
  by (simp add: fmax_def)

lemma map_of_merge_sent:
  "distinct (map fst sent) \<Longrightarrow> map_of (merge_sent stored sent) k = newer (map_of stored k) (map_of sent k)"
proof (induction sent arbitrary: stored)
  case (Cons item sent)
  obtain j v where item: "item = (j, v)" by (cases item)
  have "map_of sent j = None"
    using Cons.prems by (simp add: item map_of_eq_None_iff)
  then show ?case
    using Cons by (auto simp: merge_sent_def item map_of_merge_entry newer_def split: option.splits)
qed (auto simp: merge_sent_def newer_def split: option.splits)

lemma fmax_commute: "a \<noteq> NaN \<Longrightarrow> b \<noteq> NaN \<Longrightarrow> fmax a b = fmax b a"
  by (cases a; cases b) (auto simp: fmax_def)

lemma fmax_assoc: "a \<noteq> NaN \<Longrightarrow> b \<noteq> NaN \<Longrightarrow> c \<noteq> NaN \<Longrightarrow> fmax (fmax a b) c = fmax a (fmax b c)"
  by (cases a; cases b; cases c) (auto simp: fmax_def)

lemma fmax_not_NaN: "a \<noteq> NaN \<Longrightarrow> b \<noteq> NaN \<Longrightarrow> fmax a b \<noteq> NaN"
  by (simp add: fmax_def)

lemma fmax_left_commute:
  assumes "a \<noteq> NaN" "b \<noteq> NaN" "c \<noteq> NaN"
  shows "fmax b (fmax a c) = fmax a (fmax b c)"
  using fmax_assoc [OF assms] fmax_assoc [OF assms(2,1,3)] fmax_commute [OF assms(1,2)] by simp

lemma newer_swap:
  assumes "x \<noteq> Some NaN" "a \<noteq> Some NaN" "b \<noteq> Some NaN"
  shows "newer (newer x a) b = newer (newer x b) a"
  using assms fmax_left_commute fmax_commute
  by (cases x; cases a; cases b) (simp_all add: newer_def)

definition no_nan :: "sent_state \<Rightarrow> bool" where
  "no_nan s \<longleftrightarrow> NaN \<notin> snd ` set s"

lemma no_nanD: "no_nan s \<Longrightarrow> map_of s k = Some x \<Longrightarrow> x \<noteq> NaN"
  by (force simp: no_nan_def dest: map_of_SomeD)

text \<open>
  Saving is a merge that loses nothing: no stored time goes back, and two processes that
  save their tables one after the other leave the same file in either order.
\<close>

theorem saved_times_merge:
  assumes "distinct (map fst a)" "distinct (map fst b)" "no_nan stored" "no_nan a" "no_nan b"
  shows "(\<forall>k x. map_of stored k = Some x \<longrightarrow> (\<exists>y. map_of (merge_sent stored a) k = Some y \<and> fle x y))
    \<and> (\<forall>k x. map_of a k = Some x \<longrightarrow> (\<exists>y. map_of (merge_sent stored a) k = Some y \<and> fle x y))
    \<and> map_of (merge_sent (merge_sent stored a) b) = map_of (merge_sent (merge_sent stored b) a)"
proof (intro conjI allI impI ext)
  note nan = no_nanD [OF assms(3)] no_nanD [OF assms(4)] no_nanD [OF assms(5)]
  note merged = map_of_merge_sent [OF assms(1)] map_of_merge_sent [OF assms(2)]
  fix k x assume k: "map_of stored k = Some x"
  show "\<exists>y. map_of (merge_sent stored a) k = Some y \<and> fle x y"
    using nan(1) [OF k] nan(2) [of k] k
    by (cases "map_of a k") (auto simp: merged newer_def fle_refl fmax_ge)
next
  fix k x assume k: "map_of a k = Some x"
  show "\<exists>y. map_of (merge_sent stored a) k = Some y \<and> fle x y"
    using no_nanD [OF assms(3), of k] no_nanD [OF assms(4) k] k
    by (cases "map_of stored k") (auto simp: map_of_merge_sent [OF assms(1)] newer_def fle_refl fmax_ge)
next
  fix k
  show "map_of (merge_sent (merge_sent stored a) b) k = map_of (merge_sent (merge_sent stored b) a) k"
    using no_nanD [OF assms(3)] no_nanD [OF assms(4)] no_nanD [OF assms(5)]
    unfolding map_of_merge_sent [OF assms(1)] map_of_merge_sent [OF assms(2)]
    by (intro newer_swap) blast+
qed

theorem saved_times_merge_witness:
  "map_of (merge_sent (merge_sent [(''k'', Fin 5)] [(''k'', Fin 7)]) [(''j'', Fin 1), (''k'', Fin 6)]) ''k'' = Some (Fin 7)
   \<and> map_of (merge_sent (merge_sent [(''k'', Fin 5)] [(''k'', Fin 7)]) [(''j'', Fin 1), (''k'', Fin 6)])
     = map_of (merge_sent (merge_sent [(''k'', Fin 5)] [(''j'', Fin 1), (''k'', Fin 6)]) [(''k'', Fin 7)])"
  using saved_times_merge [of "[(''k'', Fin 7)]" "[(''j'', Fin 1), (''k'', Fin 6)]" "[(''k'', Fin 5)]"]
  by (simp add: no_nan_def map_of_merge_sent newer_def fmax_def)

subsection \<open>The cooldown\<close>

definition rate_bucket_text :: "string \<Rightarrow> bool" where
  "rate_bucket_text k = text_prefix ''ratelimit_bucket|'' k"

lemma rate_bucket_key_text: "rate_bucket_text (rate_bucket_key std a)"
  by (simp add: rate_bucket_text_def rate_bucket_key_def)

lemma mark_rate_limit_keeps:
  assumes "map_of s k = Some t" "\<not> rate_bucket_text k"
  shows "map_of (mark_rate_limit_sent std a s t) k = Some t"
proof -
  have "k \<noteq> rate_bucket_key std a"
    using assms(2) rate_bucket_key_text by blast
  then show ?thesis
    using assms(1) by (simp add: mark_rate_limit_sent_def Let_def update_conv' split: option.split)
qed

lemma mark_one_keeps:
  "map_of s k = Some t \<Longrightarrow> \<not> rate_bucket_text k \<Longrightarrow> map_of (mark_one std t s a) k = Some t"
  unfolding mark_one_def by (rule mark_rate_limit_keeps) (simp_all add: update_conv')

lemma mark_one_own: "\<not> rate_bucket_text (alert_key std a) \<Longrightarrow> map_of (mark_one std t s a) (alert_key std a) = Some t"
  unfolding mark_one_def by (rule mark_rate_limit_keeps) (simp_all add: update_conv')

lemma mark_fold_keeps:
  "map_of s k = Some t \<Longrightarrow> \<not> rate_bucket_text k \<Longrightarrow> map_of (foldl (mark_one std t) s as) k = Some t"
  by (induction as arbitrary: s) (simp_all add: mark_one_keeps)

lemma mark_fold_own:
  "a \<in> set as \<Longrightarrow> \<not> rate_bucket_text (alert_key std a) \<Longrightarrow>
     map_of (foldl (mark_one std t) s as) (alert_key std a) = Some t"
  by (induction as arbitrary: s) (auto simp: mark_one_own intro: mark_fold_keeps)

lemma selectedD:
  assumes "select_alerts_for_notification std payload settings (stored_file (s, ids)) now_ts = Inr (selected, s')"
    and "b \<in> set selected"
  shows "select_alert std payload settings s now_ts (VDict b) = Inr (Some b)"
proof -
  obtain items where "collect_some (select_alert std payload settings s now_ts) items = Inr selected"
    using assms by (auto simp: select_alerts_for_notification_def rbind_eq_Inr_iff split: pyval.splits)
  with assms(2) obtain item where "select_alert std payload settings s now_ts item = Inr (Some b)"
    by (blast dest: collect_some_mem)
  moreover from this have "item = VDict b"
    by (auto simp: select_alert_def rbind_eq_Inr_iff split: pyval.splits if_splits)
  ultimately show ?thesis by simp
qed

text \<open>
  C12: Once an alert is marked as sent, no alert with its key is selected from the stored state
  before the cooldown of that alert has passed.
\<close>

theorem sent_alert_cools_down:
  assumes "mark_alerts_sent std file alerts sent now_ts acknowledged = Inr (sent', acknowledged')"
    and "a \<in> set alerts" "\<not> rate_bucket_text (alert_key std a)"
    and "select_alerts_for_notification std payload settings (stored_file (sent', ids)) later = Inr (selected, s)"
    and "b \<in> set selected" "alert_key std b = alert_key std a"
    and "effective_cooldown std b settings = Inr cooldown"
  shows "\<not> flt (fsub later now_ts) cooldown"
proof -
  have "map_of sent' (alert_key std a) = Some now_ts"
    using assms(1-3) by (auto simp: mark_alerts_sent_def rbind_eq_Inr_iff mark_fold_own)
  moreover have "select_alert std payload settings sent' later (VDict b) = Inr (Some b)"
    by (rule selectedD [OF assms(4,5)])
  ultimately show ?thesis
    using assms(6,7) by (auto simp: select_alert_def in_cooldown_def split: if_splits)
qed

definition plain_std :: py_std where
  "plain_std = \<lparr>std_str = (\<lambda>_. []), std_float = (\<lambda>_. None), std_fromiso = (\<lambda>_. None), std_fmt_g = (\<lambda>_. []),
     std_sha256 = (\<lambda>_. [])\<rparr>"

definition sample_settings :: notification_settings where
  "sample_settings = \<lparr>ns_enabled = True, ns_min_severity = ''high'', ns_cooldown_seconds = 600,
     ns_kind_rate_limit_seconds = Fin 3600, ns_openclaw_enabled = False, ns_openclaw_agent_enabled = False,
     ns_openclaw_agent_deliver = False, ns_codex_enabled = False, ns_codex_deliver = False,
     ns_codex_require_delivery_cue = True, ns_deepseek_enabled = True, ns_deepseek_deliver = True,
     ns_review_min_time_sensitive_score = Fin 30, ns_bark_enabled = True, ns_feishu_enabled = False\<rparr>"

definition iv_alert :: "string \<Rightarrow> pydict" where
  "iv_alert dedup =
     [(''kind'', VStr ''atm_iv_jump_5m''), (''instrument_id'', VStr ''index:SPX''), (''severity'', VStr ''high''),
      (''dedup_group'', VStr dedup)]"

abbreviation iv_payload :: "string \<Rightarrow> pydict" where
  "iv_payload dedup \<equiv> [(''alerts'', VList [VDict (iv_alert dedup)])]"

lemma iv_texts [simp]:
  "dget (iv_alert d) ''severity'' = VStr ''high''" "dget (iv_alert d) ''cooldown_seconds'' = VNone"
  "dget (iv_alert d) ''research_only'' = VNone" "dtext std (iv_alert d) ''kind'' [] = ''atm_iv_jump_5m''"
  "dtext std (iv_alert d) ''instrument_id'' [] = ''index:SPX''" "dtext std (iv_alert d) ''source_gate'' [] = []"
  "dtext std (iv_alert d) ''dedup_group'' [] = d"
  by (cases d; simp add: iv_alert_def dtext_def)+

lemma iv_keys [simp]:
  "alert_key std (iv_alert d) = ''atm_iv_jump_5m|index:SPX|'' @ d"
  "rate_limit_base std (iv_alert d) = ''atm_iv_jump_5m|index:SPX''"
  "rate_at_key std (iv_alert d) = ''ratelimit_at|atm_iv_jump_5m|index:SPX''"
  "rate_bucket_key std (iv_alert d) = ''ratelimit_bucket|atm_iv_jump_5m|index:SPX''"
  by (simp_all add: alert_key_def rate_at_key_def rate_bucket_key_def rate_limit_base_def, simp_all add: iv_alert_def)

lemma iv_buckets [simp]:
  "signed_bucket std (iv_alert ''up:3'') = Some (Fin 3)" "signed_bucket std (iv_alert ''up:5'') = Some (Fin 5)"
  "signed_bucket std (iv_alert ''down:2'') = Some (Fin (- 2))"
  by (simp_all add: signed_bucket_def drop_final_newline_def str_isdigit_def is_digit_def digits_value_def)

lemma severity_simps [simp]:
  "severity_value std (VStr ''high'') = 3" "severity_value std (VStr ''critical'') = 4"
  by (simp_all add: severity_value_def str_lower_def lower_char_def)

lemma iv_visible [simp]: "is_human_visible_alert std (iv_alert d)"
  by (simp add: is_human_visible_alert_def human_visible_instrument_def human_visible_alert_prefixes_def str_lower_def
      lower_char_def)

lemma iv_limited [simp]: "''atm_iv_jump_5m'' \<in> set bucket_rate_limited_kinds"
  by (simp add: bucket_rate_limited_kinds_def)

abbreviation iv_sent :: sent_state where
  "iv_sent \<equiv> [(''atm_iv_jump_5m|index:SPX|up:3'', Fin 1000), (''ratelimit_at|atm_iv_jump_5m|index:SPX'', Fin 1000),
              (''ratelimit_bucket|atm_iv_jump_5m|index:SPX'', Fin 3)]"

lemma iv_marked: "mark_alerts_sent plain_std None [iv_alert ''up:3''] [] (Fin 1000) {} = Inr (iv_sent, {})"
  by (simp add: mark_alerts_sent_def load_sent_state_def load_acknowledged_event_ids_def state_payload_def merge_sent_def
      mark_one_def mark_rate_limit_sent_def)

lemma iv_cooldown: "effective_cooldown plain_std (iv_alert d) sample_settings = Inr (Fin 600)"
  by (simp add: effective_cooldown_def sample_settings_def float_of_int_def)

lemma sample_simps [simp]:
  "ns_min_severity sample_settings = ''high''" "ns_kind_rate_limit_seconds sample_settings = Fin 3600"
  by (simp_all add: sample_settings_def)

lemma iv_select:
  "select_alert plain_std (iv_payload d) sample_settings s t (VDict (iv_alert d)) =
     Inr (if in_cooldown plain_std (iv_alert d) s t (Fin 600)
            \<or> kind_rate_limit_blocks plain_std (iv_alert d) s t (Fin 3600) then None else Some (iv_alert d))"
  by (simp add: select_alert_def iv_cooldown recent_intraday_shock_blocks_price_move_def)

lemma iv_selected_later:
  "select_alerts_for_notification plain_std (iv_payload ''up:3'') sample_settings (stored_file (iv_sent, [])) (Fin 5000)
   = Inr ([iv_alert ''up:3''], iv_sent)"
  by (simp add: select_alerts_for_notification_def iv_select in_cooldown_def kind_rate_limit_blocks_def)

theorem sent_alert_cools_down_witness:
  "\<not> flt (fsub (Fin 5000) (Fin 1000)) (Fin 600)"
  by (rule sent_alert_cools_down [OF iv_marked _ _ iv_selected_later _ _ iv_cooldown [of "''up:3''"],
      of "iv_alert ''up:3''"])
    (simp_all add: rate_bucket_text_def)

subsection \<open>The rate limit of bucketed kinds\<close>

lemma rate_keys_differ [simp]: "rate_at_key std a \<noteq> rate_bucket_key std b" "rate_bucket_key std b \<noteq> rate_at_key std a"
  by (simp_all add: rate_at_key_def rate_bucket_key_def)

lemma mark_one_rate:
  "kind_of std a \<in> set bucket_rate_limited_kinds \<Longrightarrow>
     map_of (mark_one std t s a) (rate_at_key std a) = Some t"
  "kind_of std a \<in> set bucket_rate_limited_kinds \<Longrightarrow> signed_bucket std a = Some b \<Longrightarrow>
     map_of (mark_one std t s a) (rate_bucket_key std a) = Some b"
  by (auto simp: mark_one_def mark_rate_limit_sent_def Let_def update_conv' split: option.split)

text \<open>
  After a bucketed alert was sent, an alert of the same kind and instrument is selected within the
  rate-limit window only if it is critical, points the other way or jumps at least two buckets.
\<close>

theorem drifting_bucket_held_back:
  assumes "mark_alerts_sent std file [a] sent now_ts acknowledged = Inr (sent', acknowledged')"
    and "select_alerts_for_notification std payload settings (stored_file (sent', ids)) later = Inr (selected, s)"
    and "b \<in> set selected" "kind_of std b = kind_of std a" "rate_limit_base std b = rate_limit_base std a"
    and "kind_of std a \<in> set bucket_rate_limited_kinds"
    and "signed_bucket std a = Some old" "signed_bucket std b = Some new"
    and "flt (Fin 0) (ns_kind_rate_limit_seconds settings)"
  shows "fle (ns_kind_rate_limit_seconds settings) (fsub later now_ts)
    \<or> severity_value std (dget b ''severity'') \<ge> severity_value std (VStr ''critical'')
    \<or> flt (Fin 0) new \<noteq> flt (Fin 0) old \<or> fle (Fin 2) (fabs (fsub new old))"
proof -
  have keys: "rate_at_key std b = rate_at_key std a" "rate_bucket_key std b = rate_bucket_key std a"
    using assms(5) by (simp_all add: rate_at_key_def rate_bucket_key_def)
  have "\<exists>m. sent' = mark_one std now_ts m a"
    using assms(1) by (auto simp: mark_alerts_sent_def rbind_eq_Inr_iff)
  then have stored: "map_of sent' (rate_at_key std b) = Some now_ts" "map_of sent' (rate_bucket_key std b) = Some old"
    using mark_one_rate [OF assms(6)] assms(7) by (auto simp: keys)
  have limit: "\<not> fle (ns_kind_rate_limit_seconds settings) (Fin 0)"
    using assms(9) by (cases "ns_kind_rate_limit_seconds settings") auto
  have "\<not> kind_rate_limit_blocks std b sent' later (ns_kind_rate_limit_seconds settings)"
    using selectedD [OF assms(2,3)] by (auto simp: select_alert_def rbind_eq_Inr_iff split: if_splits)
  then show ?thesis
    using assms(4,6,8) limit
    by (auto simp: kind_rate_limit_blocks_def stored bucket_breaks_through_def split: if_splits)
qed

lemma iv_jump_selected:
  "select_alerts_for_notification plain_std (iv_payload ''up:5'') sample_settings (stored_file (iv_sent, [])) (Fin 1100)
   = Inr ([iv_alert ''up:5''], iv_sent)"
  by (simp add: select_alerts_for_notification_def iv_select in_cooldown_def kind_rate_limit_blocks_def
      bucket_breaks_through_def)

theorem drifting_bucket_held_back_witness:
  "fle (Fin 3600) (fsub (Fin 1100) (Fin 1000))
    \<or> severity_value plain_std (dget (iv_alert ''up:5'') ''severity'') \<ge> severity_value plain_std (VStr ''critical'')
    \<or> flt (Fin 0) (Fin 5) \<noteq> flt (Fin 0) (Fin 3) \<or> fle (Fin 2) (fabs (fsub (Fin 5) (Fin 3)))"
  using drifting_bucket_held_back [OF iv_marked iv_jump_selected, of "iv_alert ''up:5''" "Fin 3" "Fin 5"]
  by simp

text \<open>
  The merge takes the larger value of every entry, also of the signed buckets, where larger is
  not later. A process whose snapshot has the bucket up:3 and that marks nothing of this kind puts
  it back over the down:1 that another process stored meanwhile; the next down:2 then counts
  as a change of direction and passes the rate limit that the down:1 alone would have applied.
\<close>

lemma merge_restores_stale_bucket:
  "let down1 = [(''ratelimit_at|atm_iv_jump_5m|index:SPX'', Fin 2000),
                (''ratelimit_bucket|atm_iv_jump_5m|index:SPX'', Fin (- 1))];
       snapshot = [(''ratelimit_at|atm_iv_jump_5m|index:SPX'', Fin 1000),
                   (''ratelimit_bucket|atm_iv_jump_5m|index:SPX'', Fin 3)]
   in kind_rate_limit_blocks plain_std (iv_alert ''down:2'') down1 (Fin 2100) (Fin 3600)
      \<and> \<not> kind_rate_limit_blocks plain_std (iv_alert ''down:2'') (merge_sent down1 snapshot) (Fin 2100) (Fin 3600)"
  by (simp add: kind_rate_limit_blocks_def bucket_breaks_through_def merge_sent_def merge_entry_def fmax_def)

end
