(* ===== verification/Notification_Pipeline.thy ===== *)
theory Notification_Pipeline
  imports Notification_State
begin

section \<open>The notification pipeline (\<^verbatim>\<open>notifier/pipeline.py\<close>)\<close>

text \<open>
  One call of \<^verbatim>\<open>notify_payload\<close>: the selected alerts are pushed directly, kept as context or
  reviewed, and the alerts that were dealt with are marked as sent. The delivery of a batch and the
  three reviewers are outside the code; their answers are the fields of \<open>pipeline_env\<close>, where the
  n-th delivery and the n-th read of the state file have answers of their own. The trace
  \<open>ps_deliveries\<close> records what was handed over. Alerts are compared as dictionaries in one order of
  keys. Formatting, lanes, review audits, the record of the last push and telemetry do not
  influence the outcome and are left out, as is the difference between the two branches of the direct
  push, which only format differently.
\<close>

record sink_result =
  sr_sink :: string
  sr_attempted :: bool
  sr_ok :: bool
  sr_verdict :: "string option"

record review_reply =
  rp_sink :: string
  rp_ok :: bool
  rp_error :: "string option"
  rp_message :: string

record pipeline_env =
  pe_answer :: "nat \<Rightarrow> sink_result list"
  pe_sent_now :: "nat \<Rightarrow> sent_state"
  pe_deepseek :: "pydict list \<Rightarrow> review_reply"
  pe_agent :: "pydict list \<Rightarrow> review_reply"
  pe_codex :: "pydict list \<Rightarrow> review_reply"

record pipeline_state =
  ps_marked :: "pydict list"
  ps_acknowledged :: "string set"
  ps_sinks :: "sink_result list"
  ps_deliveries :: "(string \<times> pydict list \<times> sink_result list) list"
  ps_reads :: nat

definition pipeline_start :: pipeline_state where
  "pipeline_start = \<lparr>ps_marked = [], ps_acknowledged = {}, ps_sinks = [], ps_deliveries = [], ps_reads = 0\<rparr>"

definition gate_sink :: "string \<Rightarrow> bool \<Rightarrow> string \<Rightarrow> sink_result" where
  "gate_sink name ok verdict = \<lparr>sr_sink = name, sr_attempted = True, sr_ok = ok, sr_verdict = Some verdict\<rparr>"

definition add_sink :: "sink_result \<Rightarrow> pipeline_state \<Rightarrow> pipeline_state" where
  "add_sink sink st = st\<lparr>ps_sinks := ps_sinks st @ [sink]\<rparr>"

definition mark :: "pydict list \<Rightarrow> pipeline_state \<Rightarrow> pipeline_state" where
  "mark alerts st = st\<lparr>ps_marked := ps_marked st @ alerts\<rparr>"

definition acknowledge :: "string set \<Rightarrow> pipeline_state \<Rightarrow> pipeline_state" where
  "acknowledge ids st = st\<lparr>ps_acknowledged := ps_acknowledged st \<union> ids\<rparr>"

definition count_read :: "pipeline_state \<Rightarrow> pipeline_state" where
  "count_read st = st\<lparr>ps_reads := Suc (ps_reads st)\<rparr>"

definition record_delivery_of :: "string \<Rightarrow> pydict list \<Rightarrow> sink_result list \<Rightarrow> pipeline_state \<Rightarrow> pipeline_state" where
  "record_delivery_of kind alerts r st =
     st\<lparr>ps_deliveries := ps_deliveries st @ [(kind, alerts, r)], ps_sinks := ps_sinks st @ r\<rparr>"

lemma pipeline_step_simps [simp]:
  "ps_marked (add_sink s st) = ps_marked st" "ps_marked (mark as st) = ps_marked st @ as"
  "ps_marked (acknowledge ids st) = ps_marked st" "ps_marked (count_read st) = ps_marked st"
  "ps_marked (record_delivery_of k as r st) = ps_marked st"
  "ps_acknowledged (add_sink s st) = ps_acknowledged st" "ps_acknowledged (mark as st) = ps_acknowledged st"
  "ps_acknowledged (acknowledge ids st) = ps_acknowledged st \<union> ids" "ps_acknowledged (count_read st) = ps_acknowledged st"
  "ps_acknowledged (record_delivery_of k as r st) = ps_acknowledged st"
  "ps_deliveries (add_sink s st) = ps_deliveries st" "ps_deliveries (mark as st) = ps_deliveries st"
  "ps_deliveries (acknowledge ids st) = ps_deliveries st" "ps_deliveries (count_read st) = ps_deliveries st"
  "ps_deliveries (record_delivery_of k as r st) = ps_deliveries st @ [(k, as, r)]"
  by (simp_all add: add_sink_def mark_def acknowledge_def count_read_def record_delivery_of_def)

subsection \<open>Helpers (\<^verbatim>\<open>pipeline_support.py\<close>, \<^verbatim>\<open>deepseek.py\<close>)\<close>

definition notification_handled :: "sink_result list \<Rightarrow> bool" where
  "notification_handled sinks =
     list_ex (\<lambda>s. sr_ok s \<and> (sr_sink s \<in> {''feishu'', ''bark''} \<and> sr_attempted s \<or> sr_verdict s = Some ''suppressed'')) sinks"

definition phase_acknowledged_kinds :: "string list" where
  "phase_acknowledged_kinds =
     [''intraday_price_shock'', ''intraday_price_reclaim'', ''flip_reclaim_call'', ''call_wall_breakout_call'']"

definition delivered_event_ids :: "py_std \<Rightarrow> pydict list \<Rightarrow> string set" where
  "delivered_event_ids std alerts =
     (\<Union>a \<in> set alerts.
        (if py_true (dget a ''event_id'') then {py_str std (dget a ''event_id'')} else {}) \<union>
        (if kind_of std a \<in> set phase_acknowledged_kinds \<and> py_true (dget a ''dedup_group'')
         then {py_str std (dget a ''dedup_group'')} else {}))"

definition deepseek_usage_limited :: "string option \<Rightarrow> bool" where
  "deepseek_usage_limited error =
     (let lowered = str_lower (text_or error []) in
      list_ex (\<lambda>t. text_contains t lowered) [''429'', ''rate limit'', ''usage limit''])"

definition deepseek_temporarily_unavailable :: "string option \<Rightarrow> bool" where
  "deepseek_temporarily_unavailable error \<longleftrightarrow>
     deepseek_usage_limited error
     \<or> list_ex (\<lambda>t. text_contains t (str_lower (text_or error [])))
         [''timed out'', ''timeout'', ''read operation timed out'', ''connection reset'', ''connection refused'',
          ''temporary failure'', ''service unavailable'', ''http=500'', ''http=502'', ''http=503'', ''http=504'']"

definition low_priority :: "py_std \<Rightarrow> pydict \<Rightarrow> bool" where
  "low_priority std alert \<longleftrightarrow>
     str_lower (py_str std (dget_default alert ''severity'' (VStr []))) \<notin> {''critical'', ''high''}"

definition without :: "'a list \<Rightarrow> 'a list \<Rightarrow> 'a list" where
  "without xs ys = filter (\<lambda>x. x \<notin> set ys) xs"

subsection \<open>Delivery\<close>

definition deliver_batch ::
  "py_std \<Rightarrow> pipeline_env \<Rightarrow> string \<Rightarrow> pydict list \<Rightarrow> pipeline_state \<Rightarrow> bool \<times> pipeline_state" where
  "deliver_batch std env kind alerts st =
     (let r = pe_answer env (length (ps_deliveries st));
          st = record_delivery_of kind alerts r st
      in if notification_handled r
         then (True, acknowledge (delivered_event_ids std alerts) (mark alerts st))
         else (False, st))"

definition filter_recent_shock_correlations ::
  "py_std \<Rightarrow> pipeline_env \<Rightarrow> pyfloat \<Rightarrow> pydict list \<Rightarrow> pipeline_state \<Rightarrow>
     pydict list \<times> pydict list \<times> pipeline_state" where
  "filter_recent_shock_correlations std env now_ts alerts st =
     (let sent = foldl (\<lambda>s a. if kind_of std a = ''intraday_price_shock'' then AList.update (alert_key std a) now_ts s else s)
                   (pe_sent_now env (ps_reads st)) (ps_marked st);
          blocks = (\<lambda>a. recent_intraday_shock_blocks_price_move std a sent now_ts);
          kept = filter (\<lambda>a. \<not> blocks a) alerts;
          suppressed = filter blocks alerts;
          st = count_read st
      in (kept, suppressed,
          if suppressed = [] then st
          else add_sink (gate_sink ''intraday_shock_correlation_gate'' True ''suppressed'') (mark suppressed st)))"

text \<open>The result is the list of the alerts that are dealt with.\<close>

definition failopen_safety_alerts ::
  "py_std \<Rightarrow> pipeline_env \<Rightarrow> pyfloat \<Rightarrow> pydict list \<Rightarrow> pipeline_state \<Rightarrow> pydict list \<times> pipeline_state" where
  "failopen_safety_alerts std env now_ts candidates st =
     (let (failopen, suppressed, st) =
            filter_recent_shock_correlations std env now_ts
              (filter (is_review_failure_failopen_alert std) candidates) st
      in if failopen = [] then (suppressed, st)
         else
           let (handled, st) = deliver_batch std env ''direct_event'' failopen st
           in (if handled then suppressed @ failopen else suppressed, st))"

subsection \<open>Review\<close>

definition deliver_review_message ::
  "py_std \<Rightarrow> notification_settings \<Rightarrow> pipeline_env \<Rightarrow> pyfloat \<Rightarrow> string \<Rightarrow> string \<Rightarrow> bool \<Rightarrow>
     pydict list \<Rightarrow> pipeline_state \<Rightarrow> pydict list \<times> pipeline_state" where
  "deliver_review_message std settings env now_ts reviewer message deliver candidates st =
     (let verdict = codex_message_delivery_verdict message;
          require_cue = ns_codex_require_delivery_cue settings;
          should_deliver = (if require_cue then verdict = Deliver else True);
          scope_ok = codex_message_respects_human_scope message
      in if require_cue \<and> verdict = Invalid_Reply then
           let (dealt, st) = failopen_safety_alerts std env now_ts candidates
                               (add_sink (gate_sink (reviewer @ ''_parser_gate'') False ''blocked'') st)
           in (without candidates dealt, st)
         else if should_deliver \<and> scope_ok then
           (if deliver then
              let (kept, suppressed, st) = filter_recent_shock_correlations std env now_ts candidates st
              in if kept = [] then ([], st)
                 else
                   let (handled, st) = deliver_batch std env ''intraday_alert'' kept st
                   in (if handled then [] else kept, st)
            else ([], mark candidates st))
         else if should_deliver then
           let (dealt, st) = failopen_safety_alerts std env now_ts candidates
                               (add_sink (gate_sink (reviewer @ ''_scope_gate'') False ''blocked'') st)
           in (without candidates dealt, st)
         else ([], mark candidates (add_sink (gate_sink (reviewer @ ''_delivery_gate'') True ''vetoed'') st)))"

definition mark_noncritical ::
  "py_std \<Rightarrow> string \<Rightarrow> pydict list \<Rightarrow> pipeline_state \<Rightarrow> pipeline_state" where
  "mark_noncritical std sink_name candidates st =
     (let noncritical = filter (low_priority std) candidates in
      if noncritical = [] then st
      else add_sink (gate_sink (sink_name @ ''_rate_limit_cooldown'') True ''reviewed'') (mark noncritical st))"

definition handle_reviewer_failure ::
  "py_std \<Rightarrow> notification_settings \<Rightarrow> pipeline_env \<Rightarrow> pyfloat \<Rightarrow> review_reply \<Rightarrow>
     pydict list \<Rightarrow> pipeline_state \<Rightarrow> pydict list \<times> pipeline_state" where
  "handle_reviewer_failure std settings env now_ts reply candidates st =
     (let limited = deepseek_usage_limited (rp_error reply);
          st = (if limited then mark_noncritical std (rp_sink reply) candidates st else st);
          (dealt, st) = failopen_safety_alerts std env now_ts candidates st;
          consumed = (if limited then filter (low_priority std) candidates else []);
          remaining = without (without candidates dealt) consumed;
          fallback = (ns_openclaw_agent_enabled settings \<or> ns_codex_enabled settings)
      in if rp_sink reply = ''deepseek_reviewer'' \<and> deepseek_temporarily_unavailable (rp_error reply) \<and> \<not> fallback
         then ([], mark remaining st)
         else (remaining, st))"

definition review_with ::
  "py_std \<Rightarrow> notification_settings \<Rightarrow> pipeline_env \<Rightarrow> pyfloat \<Rightarrow> string \<Rightarrow> bool \<Rightarrow> bool \<Rightarrow>
     (pydict list \<Rightarrow> review_reply) \<Rightarrow> pydict list \<times> pipeline_state \<Rightarrow> pydict list \<times> pipeline_state" where
  "review_with std settings env now_ts reviewer enabled deliver ask cs =
     (let (candidates, st) = cs in
      if \<not> enabled \<or> candidates = [] then (candidates, st)
      else
        let reply = ask candidates;
            st = add_sink (gate_sink (rp_sink reply) (rp_ok reply) (if rp_ok reply then ''reviewed'' else ''failed'')) st
        in if rp_ok reply
           then deliver_review_message std settings env now_ts reviewer (rp_message reply) deliver candidates st
           else handle_reviewer_failure std settings env now_ts reply candidates st)"

subsection \<open>The whole call\<close>

definition review_candidates_of :: "py_std \<Rightarrow> pydict list \<Rightarrow> pydict list" where
  "review_candidates_of std selected = without (without selected (direct_push_alerts std selected)) (context_only_alerts std selected)"

definition direct_stage :: "py_std \<Rightarrow> pipeline_env \<Rightarrow> pyfloat \<Rightarrow> pydict list \<Rightarrow> pipeline_state" where
  "direct_stage std env now_ts selected =
     (let context = context_only_alerts std selected;
          (bypass, _, st) = filter_recent_shock_correlations std env now_ts (direct_push_alerts std selected) pipeline_start;
          st = (if context = [] then st
                else add_sink (gate_sink ''context_policy'' True ''consumed'')
                  (acknowledge (delivered_event_ids std context) (mark context st)))
      in if bypass = [] then st else snd (deliver_batch std env ''direct_event'' bypass st))"

definition prefilter_stage ::
  "py_std \<Rightarrow> pydict \<Rightarrow> notification_settings \<Rightarrow> pydict list \<Rightarrow> pipeline_state \<Rightarrow> pydict list \<times> pipeline_state" where
  "prefilter_stage std payload settings candidates st =
     (let (strong, weak) = split_time_sensitive_review_candidates std payload candidates
                             (ns_review_min_time_sensitive_score settings)
      in (strong, if weak = [] then st
                  else add_sink (gate_sink ''review_prefilter'' True ''reviewed'') (mark weak st)))"

definition run_pipeline ::
  "py_std \<Rightarrow> pydict \<Rightarrow> notification_settings \<Rightarrow> pipeline_env \<Rightarrow> pyfloat \<Rightarrow> pydict list \<Rightarrow>
     pydict list \<times> pipeline_state" where
  "run_pipeline std payload settings env now_ts selected =
     (let cs = prefilter_stage std payload settings (review_candidates_of std selected) (direct_stage std env now_ts selected);
          cs = review_with std settings env now_ts ''deepseek'' (ns_deepseek_enabled settings)
                 (ns_deepseek_deliver settings) (pe_deepseek env) cs;
          cs = review_with std settings env now_ts ''openclaw_agent'' (ns_openclaw_agent_enabled settings)
                 (ns_openclaw_agent_deliver settings) (pe_agent env) cs
      in review_with std settings env now_ts ''codex'' (ns_codex_enabled settings) (ns_codex_deliver settings)
           (pe_codex env) cs)"

record notification_result =
  nr_selected :: "pydict list"
  nr_sent_count :: nat
  nr_acknowledged :: "string set"
  nr_outcome :: string
  nr_stored :: "(sent_state \<times> string set) option"

definition notify_payload ::
  "py_std \<Rightarrow> pydict \<Rightarrow> notification_settings \<Rightarrow> pipeline_env \<Rightarrow> pyval option \<Rightarrow> pyval option \<Rightarrow> pyfloat \<Rightarrow>
     notification_result res" where
  "notify_payload std payload settings env file file_at_end now_ts =
     (if \<not> ns_enabled settings
      then Inr \<lparr>nr_selected = [], nr_sent_count = 0, nr_acknowledged = {}, nr_outcome = ''disabled'', nr_stored = None\<rparr>
      else rbind (select_alerts_for_notification std payload settings file now_ts) (\<lambda>(selected, sent).
        if selected = []
        then Inr \<lparr>nr_selected = [], nr_sent_count = 0, nr_acknowledged = {}, nr_outcome = ''filtered'', nr_stored = None\<rparr>
        else
          let (pending, st) = run_pipeline std payload settings env now_ts selected;
              sent_count = length (filter (\<lambda>s. sr_sink s \<in> {''bark'', ''feishu''} \<and> sr_ok s \<and> sr_verdict s \<noteq> Some ''queued'')
                                     (ps_sinks st));
              queued_count = length (filter (\<lambda>s. sr_sink s \<in> {''bark'', ''feishu'', ''bark_friend''} \<and> sr_ok s
                                                 \<and> sr_verdict s = Some ''queued'') (ps_sinks st));
              changed = (ps_marked st \<noteq> [] \<or> ps_acknowledged st \<noteq> {});
              outcome = (if sent_count > 0 then ''delivered'' else if queued_count > 0 then ''queued''
                         else if pending \<noteq> [] then ''pending'' else if changed then ''consumed''
                         else if ps_sinks st \<noteq> [] then ''failed'' else ''no_sink'')
          in rbind (if changed
                    then rbind (mark_alerts_sent std file_at_end (ps_marked st) sent now_ts (ps_acknowledged st))
                           (\<lambda>w. Inr (Some w))
                    else Inr None) (\<lambda>stored.
             Inr \<lparr>nr_selected = selected, nr_sent_count = sent_count, nr_acknowledged = ps_acknowledged st,
                   nr_outcome = outcome, nr_stored = stored\<rparr>)))"

end
