(* ===== verification/Notification_Properties.thy ===== *)
theory Notification_Properties
  imports Notification_Pipeline
begin

section \<open>What the notification pipeline guarantees\<close>

text \<open>
  The locale \<open>pipeline_invariant\<close> is the contract of an invariant of the pipeline: it survives every
  elementary step, where alerts of the class \<open>C\<close> may be marked without a delivery and a reviewed
  batch is delivered only with an approval. Its one theorem is that the whole call keeps it; the
  interpretations below are the delivery of direct alerts, the approval of reviewed ones and the
  acknowledgements.
\<close>

definition approved_batch :: "notification_settings \<Rightarrow> pipeline_env \<Rightarrow> pydict list \<Rightarrow> bool" where
  "approved_batch settings env batch \<longleftrightarrow>
     (\<exists>ask \<in> {pe_deepseek env, pe_agent env, pe_codex env}. \<exists>candidates.
        set batch \<subseteq> set candidates \<and> rp_ok (ask candidates)
        \<and> codex_message_respects_human_scope (rp_message (ask candidates))
        \<and> (ns_codex_require_delivery_cue settings \<longrightarrow>
             codex_message_delivery_verdict (rp_message (ask candidates)) = Deliver))"

lemma blocked_is_price_move:
  "recent_intraday_shock_blocks_price_move std a sent t \<Longrightarrow> kind_of std a = ''price_move_from_close''"
  by (rule ccontr) (simp add: recent_intraday_shock_blocks_price_move_def)

locale pipeline_invariant =
  fixes std :: py_std and settings :: notification_settings and env :: pipeline_env
    and I :: "pipeline_state \<Rightarrow> bool" and C :: "pydict \<Rightarrow> bool"
  assumes start: "I pipeline_start"
    and sink: "I st \<Longrightarrow> I (add_sink s st)"
    and read: "I st \<Longrightarrow> I (count_read st)"
    and mark_plain: "I st \<Longrightarrow> (\<And>a. a \<in> set as \<Longrightarrow> C a) \<Longrightarrow> I (mark as st)"
    and mark_context: "I st \<Longrightarrow> (\<And>a. a \<in> set as \<Longrightarrow> is_context_only_alert std a) \<Longrightarrow>
      I (acknowledge (delivered_event_ids std as) (mark as st))"
    and deliver: "I st \<Longrightarrow> kind = ''direct_event'' \<or> approved_batch settings env as \<Longrightarrow>
      I (snd (deliver_batch std env kind as st))"
    and reviewed_class: "\<not> is_direct_push_alert std a \<Longrightarrow> C a"
begin

lemma filter_keeps:
  assumes "I st" "filter_recent_shock_correlations std env now_ts as st = (kept, suppressed, st')"
  shows "I st'"
proof -
  have "C a" if "a \<in> set suppressed" for a
  proof -
    have "kind_of std a = ''price_move_from_close''"
      using that assms(2) blocked_is_price_move
      by (auto simp: filter_recent_shock_correlations_def Let_def simp del: filter_False)
    then show ?thesis by (intro reviewed_class price_move_not_direct)
  qed
  then have "I (mark suppressed (count_read st))"
    by (intro mark_plain read assms(1))
  then have "I (add_sink (gate_sink ''intraday_shock_correlation_gate'' True ''suppressed'') (mark suppressed (count_read st)))"
    by (rule sink)
  moreover have "st' = (if suppressed = [] then count_read st
      else add_sink (gate_sink ''intraday_shock_correlation_gate'' True ''suppressed'') (mark suppressed (count_read st)))"
    using assms(2) unfolding filter_recent_shock_correlations_def Let_def by blast
  ultimately show ?thesis
    using read [OF assms(1)] by simp
qed

lemma failopen_keeps:
  assumes "I st" "failopen_safety_alerts std env now_ts cs st = (dealt, st')"
  shows "I st'"
proof -
  obtain failopen suppressed st1 where f:
    "filter_recent_shock_correlations std env now_ts (filter (is_review_failure_failopen_alert std) cs) st
       = (failopen, suppressed, st1)"
    by (metis prod_cases3)
  have "I st1" by (rule filter_keeps [OF assms(1) f])
  then show ?thesis
    using assms(2) f deliver [of st1 "''direct_event''" failopen]
    by (auto simp: failopen_safety_alerts_def Let_def split: if_splits prod.splits)
qed

lemma review_message_keeps:
  assumes "I st" "\<And>a. a \<in> set cs \<Longrightarrow> C a"
    and "ask \<in> {pe_deepseek env, pe_agent env, pe_codex env}" "rp_ok (ask cs)"
    and "deliver_review_message std settings env now_ts reviewer (rp_message (ask cs)) dlv cs st = (remaining, st')"
  shows "I st'"
proof -
  let ?m = "rp_message (ask cs)"
  let ?should = "if ns_codex_require_delivery_cue settings then codex_message_delivery_verdict ?m = Deliver else True"
  let ?gate = "\<lambda>suffix ok v. add_sink (gate_sink (reviewer @ suffix) ok v) st"
  consider (parser) "ns_codex_require_delivery_cue settings \<and> codex_message_delivery_verdict ?m = Invalid_Reply"
    | (ok) "\<not> (ns_codex_require_delivery_cue settings \<and> codex_message_delivery_verdict ?m = Invalid_Reply)"
        "?should" "codex_message_respects_human_scope ?m"
    | (scope) "\<not> (ns_codex_require_delivery_cue settings \<and> codex_message_delivery_verdict ?m = Invalid_Reply)"
        "?should" "\<not> codex_message_respects_human_scope ?m"
    | (veto) "\<not> (ns_codex_require_delivery_cue settings \<and> codex_message_delivery_verdict ?m = Invalid_Reply)" "\<not> ?should"
    by blast
  then show ?thesis
  proof cases
    case parser
    obtain dealt st2 where f: "failopen_safety_alerts std env now_ts cs (?gate ''_parser_gate'' False ''blocked'') = (dealt, st2)"
      by fastforce
    then have "I st2" by (rule failopen_keeps [OF sink [OF assms(1)]])
    then show ?thesis
      using assms(5) parser f unfolding deliver_review_message_def Let_def by simp
  next
    case ok
    obtain kept suppressed st2 where f: "filter_recent_shock_correlations std env now_ts cs st = (kept, suppressed, st2)"
      by (metis prod_cases3)
    have "I st2" by (rule filter_keeps [OF assms(1) f])
    have "set kept \<subseteq> set cs"
      using f by (auto simp: filter_recent_shock_correlations_def Let_def)
    then have "approved_batch settings env kept"
      unfolding approved_batch_def using assms(3,4) ok by (intro bexI [of _ ask] exI [of _ cs]) auto
    then have "I (snd (deliver_batch std env ''intraday_alert'' kept st2))"
      using deliver \<open>I st2\<close> by blast
    moreover have "I (mark cs st)"
      by (rule mark_plain [OF assms(1,2)])
    ultimately show ?thesis
      using assms(5) ok f \<open>I st2\<close>
      by (auto simp: deliver_review_message_def Let_def split: if_splits prod.splits)
  next
    case scope
    obtain dealt st2 where f: "failopen_safety_alerts std env now_ts cs (?gate ''_scope_gate'' False ''blocked'') = (dealt, st2)"
      by fastforce
    then have "I st2" by (rule failopen_keeps [OF sink [OF assms(1)]])
    then show ?thesis
      using assms(5) scope f unfolding deliver_review_message_def Let_def by (auto split: if_splits)
  next
    case veto
    have "I (mark cs (?gate ''_delivery_gate'' True ''vetoed''))"
      by (rule mark_plain [OF sink [OF assms(1)] assms(2)])
    then show ?thesis
      using assms(5) veto unfolding deliver_review_message_def Let_def by (simp only: if_True if_False simp_thms) simp
  qed
qed

lemma failure_keeps:
  assumes "I st" "\<And>a. a \<in> set cs \<Longrightarrow> C a"
    and "handle_reviewer_failure std settings env now_ts reply cs st = (remaining, st')"
  shows "I st'"
proof -
  let ?st = "if deepseek_usage_limited (rp_error reply) then mark_noncritical std (rp_sink reply) cs st else st"
  have "I ?st"
    using assms(1,2) by (auto simp: mark_noncritical_def Let_def intro!: sink mark_plain)
  moreover obtain dealt st2 where f: "failopen_safety_alerts std env now_ts cs ?st = (dealt, st2)"
    by fastforce
  ultimately have "I st2" by (rule failopen_keeps)
  then have "I (mark as st2)" if "set as \<subseteq> set cs" for as
    using mark_plain that assms(2) by blast
  then show ?thesis
    using assms(3) f \<open>I st2\<close>
    by (auto simp: handle_reviewer_failure_def Let_def without_def split: if_splits)
qed

lemma review_keeps:
  assumes "I st" "\<And>a. a \<in> set cs \<Longrightarrow> C a" "ask \<in> {pe_deepseek env, pe_agent env, pe_codex env}"
    and "review_with std settings env now_ts reviewer enabled dlv ask (cs, st) = (remaining, st')"
  shows "I st'"
proof (cases "\<not> enabled \<or> cs = []")
  case True
  then show ?thesis using assms by (auto simp: review_with_def)
next
  case False
  let ?st = "add_sink (gate_sink (rp_sink (ask cs)) (rp_ok (ask cs)) (if rp_ok (ask cs) then ''reviewed'' else ''failed'')) st"
  have st: "I ?st" by (rule sink [OF assms(1)])
  show ?thesis
  proof (cases "rp_ok (ask cs)")
    case True
    then have "deliver_review_message std settings env now_ts reviewer (rp_message (ask cs)) dlv cs ?st = (remaining, st')"
      using assms(4) False unfolding review_with_def by (simp add: Let_def)
    from st assms(2,3) True this show ?thesis by (rule review_message_keeps)
  next
    case failed: False
    then have "handle_reviewer_failure std settings env now_ts (ask cs) cs ?st = (remaining, st')"
      using assms(4) False unfolding review_with_def by (simp add: Let_def)
    from st assms(2) this show ?thesis by (rule failure_keeps)
  qed
qed

lemma direct_stage_keeps: "I (direct_stage std env now_ts selected)"
proof -
  obtain bypass suppressed st where f:
    "filter_recent_shock_correlations std env now_ts (direct_push_alerts std selected) pipeline_start
       = (bypass, suppressed, st)"
    by (metis prod_cases3)
  have "I st" by (rule filter_keeps [OF start f])
  moreover have "I (acknowledge (delivered_event_ids std (context_only_alerts std selected))
      (mark (context_only_alerts std selected) st))"
    by (rule mark_context [OF \<open>I st\<close>]) (simp add: context_only_alerts_def)
  ultimately have "I (if context_only_alerts std selected = [] then st
      else add_sink (gate_sink ''context_policy'' True ''consumed'')
        (acknowledge (delivered_event_ids std (context_only_alerts std selected))
          (mark (context_only_alerts std selected) st)))"
    using sink by simp
  then show ?thesis
    using deliver [of _ "''direct_event''"] unfolding direct_stage_def f Let_def by simp
qed

lemma prefilter_keeps:
  assumes "I st" "\<And>a. a \<in> set cs \<Longrightarrow> C a" "prefilter_stage std payload settings cs st = (strong, st')"
  shows "I st'"
proof -
  define weak where "weak = snd (split_time_sensitive_review_candidates std payload cs
      (ns_review_min_time_sensitive_score settings))"
  have "set weak \<subseteq> set cs"
    by (auto simp: weak_def split_time_sensitive_review_candidates_def Let_def)
  then have "I (add_sink (gate_sink ''review_prefilter'' True ''reviewed'') (mark weak st))"
    using assms(1,2) by (intro sink mark_plain) auto
  moreover have "st' = (if weak = [] then st
      else add_sink (gate_sink ''review_prefilter'' True ''reviewed'') (mark weak st))"
    using assms(3) unfolding prefilter_stage_def weak_def by (auto split: prod.splits)
  ultimately show ?thesis
    using assms(1) by simp
qed

end

subsection \<open>Candidates only shrink\<close>

lemma without_mem: "a \<in> set (without xs ys) \<longleftrightarrow> a \<in> set xs \<and> a \<notin> set ys"
  by (auto simp: without_def)

lemma filter_parts:
  "filter_recent_shock_correlations std env now_ts as st = (kept, suppressed, st') \<Longrightarrow>
     set as = set kept \<union> set suppressed \<and> set suppressed \<subseteq> set (ps_marked st') \<and> set (ps_marked st) \<subseteq> set (ps_marked st')"
  by (auto simp: filter_recent_shock_correlations_def Let_def filter_empty_conv simp del: filter_False split: if_splits)

lemma deliver_parts:
  "deliver_batch std env kind as st = (handled, st') \<Longrightarrow>
     set (ps_marked st') = set (ps_marked st) \<union> (if handled then set as else {})
     \<and> (\<exists>r. (kind, as, r) \<in> set (ps_deliveries st') \<and> notification_handled r = handled)
     \<and> set (ps_deliveries st) \<subseteq> set (ps_deliveries st')"
  by (auto simp: deliver_batch_def Let_def split: if_splits)

lemma failopen_parts:
  assumes "failopen_safety_alerts std env now_ts cs st = (dealt, st')"
  shows "set dealt \<subseteq> set (ps_marked st') \<and> set (ps_marked st) \<subseteq> set (ps_marked st')
    \<and> set (ps_deliveries st) \<subseteq> set (ps_deliveries st')"
proof -
  obtain failopen suppressed st1 where f:
    "filter_recent_shock_correlations std env now_ts (filter (is_review_failure_failopen_alert std) cs) st
       = (failopen, suppressed, st1)"
    by (metis prod_cases3)
  have same: "ps_deliveries st1 = ps_deliveries st"
    using f by (auto simp: filter_recent_shock_correlations_def Let_def split: if_splits)
  show ?thesis
  proof (cases "failopen = []")
    case True
    then show ?thesis
      using assms f filter_parts [OF f] same by (simp add: failopen_safety_alerts_def)
  next
    case False
    obtain handled st2 where d: "deliver_batch std env ''direct_event'' failopen st1 = (handled, st2)"
      by fastforce
    show ?thesis
      using assms False d f filter_parts [OF f] deliver_parts [OF d] same
      by (auto simp: failopen_safety_alerts_def split: if_splits)
  qed
qed

text \<open>A step with candidates marks them or gives them back.\<close>

definition accounted :: "pydict list \<Rightarrow> pipeline_state \<Rightarrow> pydict list \<times> pipeline_state \<Rightarrow> bool" where
  "accounted cs st after \<longleftrightarrow>
     set cs \<subseteq> set (ps_marked (snd after)) \<union> set (fst after) \<and> set (fst after) \<subseteq> set cs
     \<and> set (ps_marked st) \<subseteq> set (ps_marked (snd after)) \<and> set (ps_deliveries st) \<subseteq> set (ps_deliveries (snd after))"

lemma accounted_trans:
  "accounted cs st (cs1, st1) \<Longrightarrow> accounted cs1 st1 after \<Longrightarrow> accounted cs st after"
  by (auto simp: accounted_def)

lemma accounted_step: "ps_marked st0 = ps_marked st \<Longrightarrow> ps_deliveries st0 = ps_deliveries st \<Longrightarrow>
    accounted cs st0 after \<Longrightarrow> accounted cs st after"
  by (simp add: accounted_def)

lemma accounted_failopen:
  assumes "failopen_safety_alerts std env now_ts cs st = (dealt, st')"
  shows "accounted cs st (without cs dealt, st')"
  using failopen_parts [OF assms] by (auto simp: accounted_def without_mem)

lemma accounted_mark: "set as \<subseteq> set cs \<Longrightarrow> accounted cs st (without cs as, mark as st)"
  by (auto simp: accounted_def without_mem)

lemma accounted_mark_all: "accounted cs st ([], mark cs st)"
  by (auto simp: accounted_def)

lemma accounted_deliver:
  assumes "filter_recent_shock_correlations std env now_ts cs st = (kept, suppressed, st1)"
    and "deliver_batch std env kind kept st1 = (handled, st')"
  shows "accounted cs st (if handled then [] else kept, st')"
proof -
  have "ps_deliveries st1 = ps_deliveries st"
    using assms(1) by (auto simp: filter_recent_shock_correlations_def Let_def split: if_splits)
  then show ?thesis
    using filter_parts [OF assms(1)] deliver_parts [OF assms(2)] by (auto simp: accounted_def)
qed

lemma accounted_suppressed:
  assumes "filter_recent_shock_correlations std env now_ts cs st = ([], suppressed, st')"
  shows "accounted cs st ([], st')"
proof -
  have "ps_deliveries st' = ps_deliveries st"
    using assms(1) by (auto simp: filter_recent_shock_correlations_def Let_def split: if_splits)
  then show ?thesis
    using filter_parts [OF assms(1)] by (auto simp: accounted_def)
qed

lemma accounted_review_message:
  "accounted cs st (deliver_review_message std settings env now_ts reviewer m dlv cs st)"
proof -
  let ?parser = "add_sink (gate_sink (reviewer @ ''_parser_gate'') False ''blocked'') st"
  let ?scope = "add_sink (gate_sink (reviewer @ ''_scope_gate'') False ''blocked'') st"
  obtain d1 s1 where f1: "failopen_safety_alerts std env now_ts cs ?parser = (d1, s1)" by fastforce
  obtain d2 s2 where f2: "failopen_safety_alerts std env now_ts cs ?scope = (d2, s2)" by fastforce
  obtain kept suppressed s3 where f3: "filter_recent_shock_correlations std env now_ts cs st = (kept, suppressed, s3)"
    by (metis prod_cases3)
  obtain handled s4 where f4: "deliver_batch std env ''intraday_alert'' kept s3 = (handled, s4)" by fastforce
  have parser: "accounted cs st (without cs d1, s1)"
    by (rule accounted_step [OF _ _ accounted_failopen [OF f1]]) simp_all
  have scope: "accounted cs st (without cs d2, s2)"
    by (rule accounted_step [OF _ _ accounted_failopen [OF f2]]) simp_all
  have veto: "accounted cs st ([], mark cs (add_sink s st))" for s
    by (rule accounted_step [OF _ _ accounted_mark_all]) simp_all
  have none: "kept = [] \<Longrightarrow> accounted cs st ([], s3)"
    using f3 accounted_suppressed by blast
  show ?thesis
    using parser scope veto accounted_mark_all none accounted_deliver [OF f3 f4]
    by (auto simp: deliver_review_message_def Let_def f1 f2 f3 f4 split: if_splits)
qed

lemma accounted_failure: "accounted cs st (handle_reviewer_failure std settings env now_ts reply cs st)"
proof -
  let ?limited = "deepseek_usage_limited (rp_error reply)"
  let ?low = "filter (low_priority std) cs"
  define st0 where "st0 = (if ?limited then mark_noncritical std (rp_sink reply) cs st else st)"
  have st0: "set (ps_marked st0) = set (ps_marked st) \<union> (if ?limited then set ?low else {})"
    "ps_deliveries st0 = ps_deliveries st"
    by (auto simp: st0_def mark_noncritical_def Let_def filter_empty_conv)
  obtain dealt st1 where f: "failopen_safety_alerts std env now_ts cs st0 = (dealt, st1)" by fastforce
  define remaining where "remaining = without (without cs dealt) (if ?limited then ?low else [])"
  have a: "accounted cs st (remaining, st1)"
    using st0 accounted_failopen [OF f] by (auto simp: accounted_def remaining_def without_mem subset_iff)
  then have b: "accounted cs st ([], mark remaining st1)"
    by (rule accounted_trans [OF _ accounted_mark_all])
  show ?thesis
    using a b unfolding handle_reviewer_failure_def Let_def st0_def [symmetric] f
    by (auto simp: remaining_def split: if_splits)
qed

lemma accounted_review: "accounted cs st (review_with std settings env now_ts reviewer enabled dlv ask (cs, st))"
proof -
  have "accounted cs st (deliver_review_message std settings env now_ts reviewer m dlv cs (add_sink s st))" for m s
    by (rule accounted_step [OF _ _ accounted_review_message]) simp_all
  moreover have "accounted cs st (handle_reviewer_failure std settings env now_ts reply cs (add_sink s st))" for reply s
    by (rule accounted_step [OF _ _ accounted_failure]) simp_all
  moreover have "accounted cs st (cs, st)"
    by (simp add: accounted_def)
  ultimately show ?thesis
    by (simp add: review_with_def Let_def)
qed

lemma accounted_prefilter: "accounted cs st (prefilter_stage std payload settings cs st)"
  by (auto simp: prefilter_stage_def split_time_sensitive_review_candidates_def Let_def accounted_def filter_empty_conv)

subsection \<open>The whole call\<close>

lemma accounted_set: "accounted cs st (cs', st') \<Longrightarrow> set cs' \<subseteq> set cs"
  by (simp add: accounted_def)

context pipeline_invariant
begin

lemma pipeline_keeps:
  assumes "run_pipeline std payload settings env now_ts selected = (pending, st)"
  shows "I st"
proof -
  let ?review = "\<lambda>name enabled dlv ask. review_with std settings env now_ts name (enabled settings) (dlv settings) (ask env)"
  let ?start = "direct_stage std env now_ts selected"
  obtain c0 s0 where p: "prefilter_stage std payload settings (review_candidates_of std selected) ?start = (c0, s0)"
    by fastforce
  obtain c1 s1 where r1: "?review ''deepseek'' ns_deepseek_enabled ns_deepseek_deliver pe_deepseek (c0, s0) = (c1, s1)"
    by fastforce
  obtain c2 s2 where r2: "?review ''openclaw_agent'' ns_openclaw_agent_enabled ns_openclaw_agent_deliver pe_agent (c1, s1) = (c2, s2)"
    by fastforce
  have r3: "?review ''codex'' ns_codex_enabled ns_codex_deliver pe_codex (c2, s2) = (pending, st)"
    using assms unfolding run_pipeline_def p r1 r2 Let_def .
  have C: "C a" if "a \<in> set (review_candidates_of std selected)" for a
    using that by (intro reviewed_class) (auto simp: review_candidates_of_def without_mem direct_push_alerts_def)
  have sub: "set c0 \<subseteq> set (review_candidates_of std selected)" "set c1 \<subseteq> set c0" "set c2 \<subseteq> set c1"
    using accounted_prefilter [of _ _ std payload settings] accounted_review accounted_set p r1 r2 by metis+
  have "I s0" by (rule prefilter_keeps [OF direct_stage_keeps C p])
  then have "I s1" by (rule review_keeps [OF _ _ _ r1]) (use sub C in auto)
  then have "I s2" by (rule review_keeps [OF _ _ _ r2]) (use sub C in auto)
  then show ?thesis by (rule review_keeps [OF _ _ _ r3]) (use sub C in auto)
qed

end

definition handed_over :: "pipeline_state \<Rightarrow> pydict \<Rightarrow> bool" where
  "handed_over st a \<longleftrightarrow> (\<exists>(kind, batch, r) \<in> set (ps_deliveries st). a \<in> set batch \<and> notification_handled r)"

definition plain_direct :: "py_std \<Rightarrow> pydict \<Rightarrow> bool" where
  "plain_direct std a \<longleftrightarrow> is_direct_push_alert std a \<and> \<not> is_context_only_alert std a"

lemma handed_over_steps [simp]:
  "handed_over (add_sink s st) a = handed_over st a" "handed_over (mark as st) a = handed_over st a"
  "handed_over (acknowledge ids st) a = handed_over st a" "handed_over (count_read st) a = handed_over st a"
  "handed_over (record_delivery_of k as r st) a \<longleftrightarrow> handed_over st a \<or> a \<in> set as \<and> notification_handled r"
  by (auto simp: handed_over_def)

interpretation direct: pipeline_invariant std settings env
    "\<lambda>st. \<forall>a \<in> set (ps_marked st). plain_direct std a \<longrightarrow> handed_over st a" "\<lambda>a. \<not> plain_direct std a"
  for std settings env
  by unfold_locales (auto simp: pipeline_start_def plain_direct_def deliver_batch_def Let_def)

interpretation approved: pipeline_invariant std settings env
    "\<lambda>st. \<forall>(kind, batch, r) \<in> set (ps_deliveries st). kind = ''direct_event'' \<or> approved_batch settings env batch" "\<lambda>_. True"
  for std settings env
  by unfold_locales (auto simp: pipeline_start_def deliver_batch_def Let_def)

lemma delivered_event_ids_append [simp]:
  "delivered_event_ids std (as @ bs) = delivered_event_ids std as \<union> delivered_event_ids std bs"
  by (simp add: delivered_event_ids_def Un_assoc)

interpretation acknowledged: pipeline_invariant std settings env
    "\<lambda>st. ps_acknowledged st \<subseteq> delivered_event_ids std (ps_marked st)" "\<lambda>_. True"
  for std settings env
  by unfold_locales (auto simp: pipeline_start_def deliver_batch_def Let_def)

text \<open>
  C9: An alert that must reach a person directly is marked as sent only if a batch with it was
  delivered or consumed by the final policy: neither a reviewer, nor a rate limit, nor a failed
  delivery makes it count as sent.
\<close>

theorem direct_alert_needs_delivery:
  assumes "run_pipeline std payload settings env now_ts selected = (pending, st)"
    and "a \<in> set (ps_marked st)" "is_direct_push_alert std a" "is_human_visible_alert std a"
  shows "\<exists>kind batch r. (kind, batch, r) \<in> set (ps_deliveries st) \<and> a \<in> set batch \<and> notification_handled r"
proof -
  have "plain_direct std a"
    using assms(3,4) direct_not_context by (simp add: plain_direct_def)
  then have "handed_over st a"
    using direct.pipeline_keeps [OF assms(1)] assms(2) by blast
  then show ?thesis
    by (auto simp: handed_over_def)
qed

text \<open>
  C14: A model never delivers on its own: every batch that is not a direct event was approved by a
  reviewer that answered without an error, within the scope, and with an explicit delivery cue
  where one is required.
\<close>

theorem reviewed_delivery_is_approved:
  assumes "run_pipeline std payload settings env now_ts selected = (pending, st)"
    and "(kind, batch, r) \<in> set (ps_deliveries st)" "kind \<noteq> ''direct_event''"
  shows "\<exists>ask \<in> {pe_deepseek env, pe_agent env, pe_codex env}. \<exists>candidates.
      set batch \<subseteq> set candidates \<and> rp_ok (ask candidates)
      \<and> codex_message_respects_human_scope (rp_message (ask candidates))
      \<and> (ns_codex_require_delivery_cue settings \<longrightarrow>
           codex_message_delivery_verdict (rp_message (ask candidates)) = Deliver)"
  using approved.pipeline_keeps [OF assms(1)] assms(2,3) unfolding approved_batch_def by blast

lemma direct_stage_parts:
  "set (context_only_alerts std selected) \<subseteq> set (ps_marked (direct_stage std env now_ts selected))
    \<and> (\<forall>a \<in> set (direct_push_alerts std selected). \<exists>kind batch r.
         (kind, batch, r) \<in> set (ps_deliveries (direct_stage std env now_ts selected)) \<and> a \<in> set batch)"
proof -
  let ?direct = "direct_push_alerts std selected"
  obtain bypass suppressed st where f:
    "filter_recent_shock_correlations std env now_ts ?direct pipeline_start = (bypass, suppressed, st)"
    by (metis prod_cases3)
  have "bypass = ?direct"
  proof -
    have "\<not> recent_intraday_shock_blocks_price_move std a sent now_ts" if "a \<in> set ?direct" for a sent
      using that price_move_not_direct blocked_is_price_move by (auto simp: direct_push_alerts_def)
    then show ?thesis
      using f by (auto simp: filter_recent_shock_correlations_def Let_def filter_id_conv)
  qed
  then show ?thesis
    unfolding direct_stage_def f by (auto simp: Let_def deliver_batch_def split: if_splits)
qed

lemma pipeline_accounted:
  "accounted (review_candidates_of std selected) (direct_stage std env now_ts selected)
     (run_pipeline std payload settings env now_ts selected)"
proof -
  have step: "accounted cs st (review_with std settings env now_ts name enabled dlv ask after)"
    if "accounted cs st after" for cs st name enabled dlv ask after
    using that accounted_trans accounted_review by (cases after) blast
  show ?thesis
    unfolding run_pipeline_def Let_def by (intro step accounted_prefilter)
qed

text \<open>
  C13: No selected alert is lost: at the end it is marked as sent, waits for the next cycle as
  pending, or is a direct alert that was handed over for delivery (and stays unmarked if that failed).
\<close>

theorem no_alert_lost:
  assumes "run_pipeline std payload settings env now_ts selected = (pending, st)" "a \<in> set selected"
  shows "a \<in> set (ps_marked st) \<or> a \<in> set pending
    \<or> is_direct_push_alert std a \<and> (\<exists>kind batch r. (kind, batch, r) \<in> set (ps_deliveries st) \<and> a \<in> set batch)"
proof -
  have acc: "accounted (review_candidates_of std selected) (direct_stage std env now_ts selected) (pending, st)"
    using pipeline_accounted [of std selected env now_ts payload settings] assms(1) by simp
  consider "a \<in> set (direct_push_alerts std selected)" | "a \<in> set (context_only_alerts std selected)"
    | "a \<in> set (review_candidates_of std selected)"
    using assms(2) by (auto simp: review_candidates_of_def without_mem)
  then show ?thesis
  proof cases
    case 1
    then have "is_direct_push_alert std a" by (simp add: direct_push_alerts_def)
    moreover obtain kind batch r where
      "(kind, batch, r) \<in> set (ps_deliveries (direct_stage std env now_ts selected))" "a \<in> set batch"
      using 1 direct_stage_parts [of std selected env now_ts] by blast
    moreover have "set (ps_deliveries (direct_stage std env now_ts selected)) \<subseteq> set (ps_deliveries st)"
      using acc by (simp add: accounted_def)
    ultimately show ?thesis by blast
  next
    case 2
    then show ?thesis
      using direct_stage_parts [of std selected env now_ts] acc by (auto simp: accounted_def)
  next
    case 3
    then show ?thesis
      using acc by (auto simp: accounted_def)
  qed
qed

text \<open>
  Every alert of the fail-open class is a direct alert, so no reviewer ever holds one: the
  fail-open branches of the reviewer failures have nothing to deliver.
\<close>

lemma failopen_branch_idle:
  assumes "\<And>a. a \<in> set cs \<Longrightarrow> a \<in> set (review_candidates_of std selected)"
  shows "failopen_safety_alerts std env now_ts cs st = ([], count_read st)"
proof -
  have "filter (is_review_failure_failopen_alert std) cs = []"
    using assms failopen_is_direct
    by (force simp: filter_empty_conv review_candidates_of_def without_mem direct_push_alerts_def)
  then show ?thesis
    by (simp add: failopen_safety_alerts_def filter_recent_shock_correlations_def Let_def)
qed

subsection \<open>Witnesses\<close>

definition bias_alert :: pydict where
  "bias_alert = [(''kind'', VStr ''gth_bias_transition''), (''instrument_id'', VStr ''index:SPX''), (''severity'', VStr ''high'')]"

definition sample_env :: "string \<Rightarrow> pipeline_env" where
  "sample_env message = \<lparr>pe_answer = (\<lambda>_. [\<lparr>sr_sink = ''bark'', sr_attempted = True, sr_ok = True, sr_verdict = None\<rparr>]),
     pe_sent_now = (\<lambda>_. []),
     pe_deepseek = (\<lambda>_. \<lparr>rp_sink = ''deepseek_reviewer'', rp_ok = True, rp_error = None, rp_message = message\<rparr>),
     pe_agent = (\<lambda>_. \<lparr>rp_sink = ''openclaw_agent'', rp_ok = False, rp_error = None, rp_message = []\<rparr>),
     pe_codex = (\<lambda>_. \<lparr>rp_sink = ''codex'', rp_ok = False, rp_error = None, rp_message = []\<rparr>)\<rparr>"

abbreviation bark_ok :: "sink_result list" where
  "bark_ok \<equiv> [\<lparr>sr_sink = ''bark'', sr_attempted = True, sr_ok = True, sr_verdict = None\<rparr>]"

lemma sample_env_simps [simp]:
  "pe_answer (sample_env m) n = bark_ok" "pe_sent_now (sample_env m) n = []"
  "pe_deepseek (sample_env m) cs = \<lparr>rp_sink = ''deepseek_reviewer'', rp_ok = True, rp_error = None, rp_message = m\<rparr>"
  "notification_handled bark_ok"
  by (simp_all add: sample_env_def notification_handled_def)

lemma sample_flags [simp]:
  "ns_deepseek_enabled sample_settings" "ns_deepseek_deliver sample_settings" "\<not> ns_openclaw_agent_enabled sample_settings"
  "\<not> ns_codex_enabled sample_settings" "ns_codex_require_delivery_cue sample_settings"
  "ns_review_min_time_sensitive_score sample_settings = Fin 30"
  by (simp_all add: sample_settings_def)

lemma bias_alert_routes:
  "is_direct_push_alert std bias_alert" "\<not> is_context_only_alert std bias_alert" "is_human_visible_alert std bias_alert"
proof -
  have texts: "dtext std bias_alert ''kind'' [] = ''gth_bias_transition''" "dget bias_alert ''research_only'' = VNone"
    "dtext std bias_alert ''instrument_id'' [] = ''index:SPX''" "dtext std bias_alert ''source_gate'' [] = []"
    by (simp_all add: bias_alert_def dtext_def)
  show "is_direct_push_alert std bias_alert"
    by (simp add: is_direct_push_alert_def texts intraday_direct_push_kinds_def)
  show "\<not> is_context_only_alert std bias_alert"
    by (simp add: is_context_only_alert_def texts context_only_alert_kinds_def)
  show "is_human_visible_alert std bias_alert"
    by (simp add: is_human_visible_alert_def texts human_visible_instrument_def human_visible_alert_prefixes_def
        str_lower_def lower_char_def)
qed

lemma no_shock_block: "kind_of std a \<noteq> ''price_move_from_close'' \<Longrightarrow> \<not> recent_intraday_shock_blocks_price_move std a s t"
  using blocked_is_price_move by blast

lemma bias_run:
  "run_pipeline plain_std [] sample_settings (sample_env []) (Fin 0) [bias_alert] =
     ([], acknowledge (delivered_event_ids plain_std [bias_alert]) (mark [bias_alert]
            (record_delivery_of ''direct_event'' [bias_alert] bark_ok (count_read pipeline_start))))"
proof -
  have "kind_of plain_std bias_alert \<noteq> ''price_move_from_close''"
    using bias_alert_routes(1) price_move_not_direct by blast
  then show ?thesis
    by (simp add: run_pipeline_def prefilter_stage_def split_time_sensitive_review_candidates_def review_candidates_of_def
        without_def direct_push_alerts_def context_only_alerts_def bias_alert_routes review_with_def direct_stage_def
        filter_recent_shock_correlations_def no_shock_block deliver_batch_def)
qed

theorem direct_alert_needs_delivery_witness:
  "\<exists>kind batch r. (kind, batch, r) \<in> set (ps_deliveries (snd (run_pipeline plain_std [] sample_settings (sample_env [])
       (Fin 0) [bias_alert]))) \<and> bias_alert \<in> set batch \<and> notification_handled r"
  unfolding bias_run snd_conv
  by (rule direct_alert_needs_delivery [OF bias_run]) (simp_all add: bias_alert_routes)

theorem no_alert_lost_witness:
  "bias_alert \<in> set (ps_marked (snd (run_pipeline plain_std [] sample_settings (sample_env []) (Fin 0) [bias_alert])))
   \<or> bias_alert \<in> set []
   \<or> is_direct_push_alert plain_std bias_alert \<and> (\<exists>kind batch r. (kind, batch, r) \<in>
        set (ps_deliveries (snd (run_pipeline plain_std [] sample_settings (sample_env []) (Fin 0) [bias_alert]))) \<and> bias_alert \<in> set batch)"
  unfolding bias_run snd_conv by (rule no_alert_lost [OF bias_run]) simp

text \<open>The delivery cue \<open>xu yao kan pan\<close>, then a reason.\<close>

definition deliver_message :: string where
  "deliver_message = hd positive_delivery_cues @ ''. breakout''"

lemma deliver_message_verdict:
  "codex_message_delivery_verdict deliver_message = Deliver" "codex_message_respects_human_scope deliver_message"
  by code_simp+

lemma iv_routes:
  "\<not> is_direct_push_alert std (iv_alert d)" "\<not> is_context_only_alert std (iv_alert d)"
  by (simp_all add: is_direct_push_alert_def is_context_only_alert_def direct_push_system_event_kinds_def
      intraday_direct_push_kinds_def high_magnitude_direct_push_kinds_def is_position_holding_alert_def
      position_direct_push_kinds_def context_only_alert_kinds_def)

lemma iv_strong: "strong_time_sensitive_score std (iv_alert d) [] = 70"
proof -
  have "str_lower (dtext std (iv_alert d) ''severity'' []) = ''high''"
    by (simp add: dtext_def str_lower_def lower_char_def)
  then show ?thesis
    by (simp add: strong_time_sensitive_score_def Let_def is_system_event_alert_def system_event_alert_kinds_def
        is_position_holding_alert_def position_direct_push_kinds_def low_value_review_kinds_def is_market_signal_alert_def
        market_signal_alert_kinds_def window_priority_def has_spxw_structure_def has_iv_surface_history_def
        human_visible_instrument_def human_visible_alert_prefixes_def)
qed

lemma iv_run:
  "\<exists>st. run_pipeline plain_std [] sample_settings (sample_env deliver_message) (Fin 0) [iv_alert ''up:3''] = ([], st)
     \<and> (''intraday_alert'', [iv_alert ''up:3''], bark_ok) \<in> set (ps_deliveries st)"
  by (simp add: run_pipeline_def prefilter_stage_def split_time_sensitive_review_candidates_def review_candidates_of_def
      without_def direct_push_alerts_def context_only_alerts_def iv_routes iv_strong review_with_def direct_stage_def
      deliver_review_message_def deliver_message_verdict filter_recent_shock_correlations_def no_shock_block
      deliver_batch_def)

theorem reviewed_delivery_is_approved_witness:
  "\<exists>ask \<in> {pe_deepseek (sample_env deliver_message), pe_agent (sample_env deliver_message), pe_codex (sample_env deliver_message)}.
     \<exists>candidates. set [iv_alert ''up:3''] \<subseteq> set candidates \<and> rp_ok (ask candidates)
      \<and> codex_message_delivery_verdict (rp_message (ask candidates)) = Deliver"
proof -
  obtain st where run: "run_pipeline plain_std [] sample_settings (sample_env deliver_message) (Fin 0) [iv_alert ''up:3''] = ([], st)"
    and handed: "(''intraday_alert'', [iv_alert ''up:3''], bark_ok) \<in> set (ps_deliveries st)"
    using iv_run by blast
  have "ns_codex_require_delivery_cue sample_settings" by simp
  then show ?thesis
    using reviewed_delivery_is_approved [OF run handed] by fastforce
qed

end
