(* ===== verification/Es_Bars.thy ===== *)
theory Es_Bars
  imports Market_Calendar Py_Dict "HOL-Library.List_Lexorder" "HOL-Library.Char_ord"
begin

section \<open>Five-minute bars of ES (\<^verbatim>\<open>application/market_features/es_bar_state.py\<close>)\<close>

text \<open>
  The bars sampled from the freshest ES quote: one open bar, the closed bars, the history of
  regular-hours bars for the moving averages. The state is the stored dictionary. Instants are UTC;
  \<open>et\<close> is the New York wall clock. Sorting by \<^verbatim>\<open>str(bar_start)\<close> is the stable sort by the text.
\<close>

definition bar_schema :: string where "bar_schema = ''es_5m_bar_state.v1''"
definition interval_seconds :: int where "interval_seconds = 300"
definition max_closed_bars :: nat where "max_closed_bars = 432"
definition max_rth_ma_bars :: nat where "max_rth_ma_bars = 320"
definition min_rth_ma_seed_bars :: nat where "min_rth_ma_seed_bars = 206"
definition min_ok_samples :: int where "min_ok_samples = 20"
definition max_ok_gap_seconds :: pyfloat where "max_ok_gap_seconds = Fin 30"
definition max_edge_gap_seconds :: pyfloat where "max_edge_gap_seconds = Fin 30"
definition future_tolerance :: int where "future_tolerance = 5 * us_per_second"

abbreviation iso :: "int \<Rightarrow> pyval" where "iso t \<equiv> VStr (isoformat t)"

subsection \<open>Values\<close>

definition bar_number :: "pyval \<Rightarrow> pyfloat option res" where
  "bar_number v =
     (case v of
        VInt n \<Rightarrow> rbind (float_of_int n) (\<lambda>x. Inr (if is_finite x then Some x else None))
      | VFloat x \<Rightarrow> Inr (if is_finite x then Some x else None)
      | _ \<Rightarrow> Inr None)"

definition parse_at :: "py_std \<Rightarrow> pyval \<Rightarrow> int option" where
  "parse_at std v =
     (let parsed = (case v of
          VTime t \<Rightarrow> Some t
        | VStr s \<Rightarrow> if s = [] then None else std_fromiso std (replace_Z s)
        | _ \<Rightarrow> None)
      in case parsed of Some (Aware w off) \<Rightarrow> Some (w - off) | _ \<Rightarrow> None)"

definition as_mapping :: "pyval \<Rightarrow> pydict" where
  "as_mapping v = (case v of VDict d \<Rightarrow> d | _ \<Rightarrow> [])"

definition bar_key :: "py_std \<Rightarrow> pydict \<Rightarrow> string" where
  "bar_key std row = dtext std row ''bar_start'' []"

definition price_keys :: "string list" where
  "price_keys = [''open'', ''high'', ''low'', ''close'']"

fun all_numbers :: "pydict \<Rightarrow> string list \<Rightarrow> bool res" where
  "all_numbers row [] = Inr True"
| "all_numbers row (k # ks) =
     rbind (bar_number (dget row k)) (\<lambda>x. if x = None then Inr False else all_numbers row ks)"

definition valid_row :: "py_std \<Rightarrow> pyval \<Rightarrow> pydict option res" where
  "valid_row std v =
     (case v of
        VDict row \<Rightarrow>
          if parse_at std (dget row ''bar_start'') = None then Inr None
          else rbind (py_int (vor (dget row ''interval_seconds'') (VInt 0))) (\<lambda>n.
            if n \<noteq> interval_seconds then Inr None
            else rbind (all_numbers row price_keys) (\<lambda>ok. Inr (if ok then Some row else None)))
      | _ \<Rightarrow> Inr None)"

definition bar_rows :: "py_std \<Rightarrow> pyval \<Rightarrow> pydict list res" where
  "bar_rows std v =
     (case v of
        VList rows \<Rightarrow> rbind (collect_some (valid_row std) rows) (\<lambda>ds. Inr (sort_key (bar_key std) ds))
      | _ \<Rightarrow> Inr [])"

definition is_rth_row :: "pydict \<Rightarrow> bool" where
  "is_rth_row row \<longleftrightarrow> dget row ''segment'' = VStr ''rth''"

definition rth_ma_rows :: "py_std \<Rightarrow> pyval \<Rightarrow> pydict list res" where
  "rth_ma_rows std v = rbind (bar_rows std v) (\<lambda>rows. Inr (filter is_rth_row rows))"

text \<open>\<^verbatim>\<open>_bucket_start\<close>: the timestamp is a float, truncated to whole seconds.\<close>

definition bucket_start :: "int \<Rightarrow> int" where
  "bucket_start t =
     (case total_seconds (t - unix_epoch) of
        Fin q \<Rightarrow> (let stamp = trunc_rat q in unix_epoch + (stamp - stamp mod interval_seconds) * us_per_second)
      | _ \<Rightarrow> t)"

text \<open>The ends of the session segments of \<^verbatim>\<open>MarketFeatureSettings\<close>, as times of the day.\<close>

record segment_ends =
  se_asia :: int
  se_europe :: int
  se_premarket :: int
  se_rth :: int
  se_curb :: int

definition default_segment_ends :: segment_ends where
  "default_segment_ends = \<lparr>se_asia = hhmm 3 0, se_europe = hhmm 8 0, se_premarket = hhmm 9 30, se_rth = hhmm 16 0,
     se_curb = hhmm 17 0\<rparr>"

definition session_segment :: "(int \<Rightarrow> int) \<Rightarrow> segment_ends \<Rightarrow> int \<Rightarrow> string" where
  "session_segment et p t =
     (let clock = time_of (et t) in
      if clock \<ge> hhmm 18 0 \<or> clock < se_asia p then ''asia''
      else if clock < se_europe p then ''europe''
      else if clock < se_premarket p then ''us_premarket''
      else if clock < se_rth p then ''rth''
      else if clock < se_curb p then ''curb''
      else ''maintenance'')"

subsection \<open>One bar\<close>

definition new_bar ::
  "(int \<Rightarrow> int) \<Rightarrow> int \<Rightarrow> int \<Rightarrow> pyfloat \<Rightarrow> string \<Rightarrow> string \<Rightarrow> bool \<Rightarrow> string option \<Rightarrow> bool \<Rightarrow> pydict" where
  "new_bar et start source_at price provider segment gap_before identity ambiguous =
     [(''bar_start'', iso start),
      (''bar_end'', iso (start + interval_seconds * us_per_second)),
      (''interval_seconds'', VInt interval_seconds),
      (''open'', VFloat price), (''high'', VFloat price), (''low'', VFloat price), (''close'', VFloat price),
      (''sample_count'', VInt 1),
      (''first_source_at'', iso source_at), (''last_source_at'', iso source_at),
      (''max_sample_gap_seconds'', VFloat (Fin 0)),
      (''provider_counts'', VDict [(provider, VInt 1)]),
      (''provider'', VStr provider),
      (''contract_identity'', (case identity of Some i \<Rightarrow> VStr i | None \<Rightarrow> VNone)),
      (''contract_identity_ambiguous'', VBool ambiguous),
      (''segment'', VStr segment),
      (''trading_date_et'', VStr (date_isoformat (date_of (et source_at)))),
      (''gap_before'', VBool gap_before),
      (''quality'', VStr ''open'')]"

fun provider_counts :: "pydict \<Rightarrow> (string \<times> int) list res" where
  "provider_counts [] = Inr []"
| "provider_counts ((k, v) # d) =
     (if is_number v then rbind (py_int v) (\<lambda>n. rbind (provider_counts d) (\<lambda>r. Inr ((k, n) # r)))
      else provider_counts d)"

definition count_provider :: "string \<Rightarrow> (string \<times> int) list \<Rightarrow> (string \<times> int) list" where
  "count_provider provider counts =
     AList.update provider ((case map_of counts provider of Some n \<Rightarrow> n | None \<Rightarrow> 0) + 1) counts"

definition most_counted :: "(string \<times> int) list \<Rightarrow> string" where
  "most_counted counts =
     (case counts of [] \<Rightarrow> [] | c # cs \<Rightarrow> fst (py_max_by (\<lambda>a b. snd a < snd b) c cs))"

definition identity_conflict :: "pydict \<Rightarrow> string option \<Rightarrow> bool" where
  "identity_conflict bar incoming \<longleftrightarrow>
     dget bar ''contract_identity_ambiguous'' = VBool True
     \<or> (case dget bar ''contract_identity'' of
          VStr (c # s) \<Rightarrow> incoming \<noteq> Some (c # s)
        | _ \<Rightarrow> text_true incoming)"

definition add_observation ::
  "py_std \<Rightarrow> pydict \<Rightarrow> int \<Rightarrow> pyfloat \<Rightarrow> string \<Rightarrow> string option \<Rightarrow> pydict res" where
  "add_observation std bar source_at price provider identity =
     (let gap = (case parse_at std (dget bar ''last_source_at'') of
                   Some t \<Rightarrow> fmax (total_seconds (source_at - t)) (Fin 0) | None \<Rightarrow> Fin 0)
      in rbind (dfloat std bar ''high'') (\<lambda>high.
         rbind (dfloat std (dset bar ''high'' (VFloat (fmax high price))) ''low'') (\<lambda>low.
         rbind (py_int (vor (dget bar ''sample_count'') (VInt 0))) (\<lambda>n.
         rbind (py_float std (vor (dget bar ''max_sample_gap_seconds'') (VFloat (Fin 0)))) (\<lambda>max_gap.
         rbind (provider_counts (as_mapping (dget bar ''provider_counts''))) (\<lambda>counts.
           let counts = count_provider provider counts;
               result = dmerge bar
                 [(''high'', VFloat (fmax high price)), (''low'', VFloat (fmin low price)), (''close'', VFloat price),
                  (''sample_count'', VInt (n + 1)), (''last_source_at'', iso source_at),
                  (''max_sample_gap_seconds'', VFloat (fmax max_gap gap)),
                  (''provider_counts'', VDict (map (\<lambda>(k, c). (k, VInt c)) counts)),
                  (''provider'', VStr (most_counted counts))]
           in Inr (if identity_conflict bar identity
                   then dmerge result [(''contract_identity'', VNone), (''contract_identity_ambiguous'', VBool True)]
                   else result)))))))"

definition edge_ok :: "pyfloat option \<Rightarrow> bool" where
  "edge_ok gap = (case gap of Some g \<Rightarrow> fle (Fin 0) g \<and> fle g max_edge_gap_seconds | None \<Rightarrow> False)"

definition span :: "int option \<Rightarrow> int option \<Rightarrow> pyfloat option" where
  "span a b = (case (a, b) of (Some x, Some y) \<Rightarrow> Some (total_seconds (y - x)) | _ \<Rightarrow> None)"

definition opt_float :: "pyfloat option \<Rightarrow> pyval" where
  "opt_float x = (case x of Some f \<Rightarrow> VFloat f | None \<Rightarrow> VNone)"

definition finalize_bar :: "py_std \<Rightarrow> pydict \<Rightarrow> pydict res" where
  "finalize_bar std bar =
     rbind (py_int (vor (dget bar ''sample_count'') (VInt 0))) (\<lambda>n.
     rbind (bar_number (dget bar ''max_sample_gap_seconds'')) (\<lambda>max_gap.
       let leading = span (parse_at std (dget bar ''bar_start'')) (parse_at std (dget bar ''first_source_at''));
           trailing = span (parse_at std (dget bar ''last_source_at'')) (parse_at std (dget bar ''bar_end''));
           ok = (n \<ge> min_ok_samples
                 \<and> (case max_gap of Some g \<Rightarrow> fle g max_ok_gap_seconds | None \<Rightarrow> False)
                 \<and> dget bar ''contract_identity_ambiguous'' \<noteq> VBool True
                 \<and> edge_ok leading \<and> edge_ok trailing)
       in Inr (dmerge bar
            [(''leading_edge_gap_seconds'', opt_float leading), (''trailing_edge_gap_seconds'', opt_float trailing),
             (''quality'', VStr (if ok then ''ok'' else ''partial''))])))"

subsection \<open>Tables of bars\<close>

definition upsert_closed :: "py_std \<Rightarrow> pydict list \<Rightarrow> pydict \<Rightarrow> pydict list" where
  "upsert_closed std rows bar =
     sort_key (bar_key std) (filter (\<lambda>r. bar_key std r \<noteq> bar_key std bar) rows @ [bar])"

definition put_row :: "py_std \<Rightarrow> (string \<times> pydict) list \<Rightarrow> pydict \<Rightarrow> (string \<times> pydict) list" where
  "put_row std by_start row =
     (if bar_key std row = [] then by_start else AList.update (bar_key std row) row by_start)"

definition merge_bars :: "py_std \<Rightarrow> pydict list \<Rightarrow> pydict list \<Rightarrow> pydict list" where
  "merge_bars std older newer = map snd (sort_key fst (foldl (put_row std) [] (older @ newer)))"

definition last_n :: "nat \<Rightarrow> 'a list \<Rightarrow> 'a list" where
  "last_n n xs = drop (length xs - n) xs"

definition compact_fields :: "string list" where
  "compact_fields =
     [''bar_start'', ''bar_end'', ''interval_seconds'', ''open'', ''high'', ''low'', ''close'', ''quality'', ''gap_before'',
      ''segment'', ''trading_date_et'', ''contract_identity'', ''contract_identity_ambiguous'', ''ma_history_source'']"

definition compact_rth_bar :: "pydict \<Rightarrow> pydict" where
  "compact_rth_bar row = map (\<lambda>k. (k, dget row k)) compact_fields"

subsection \<open>The state\<close>

definition sampling_constants :: pydict where
  "sampling_constants =
     [(''sampling'', VStr ''fresh_live_es_source_timestamps_no_gap_fill''), (''min_ok_samples'', VInt min_ok_samples),
      (''max_ok_gap_seconds'', VFloat max_ok_gap_seconds), (''max_edge_gap_seconds'', VFloat max_edge_gap_seconds)]"

definition empty_bar_state :: pydict where
  "empty_bar_state =
     [(''schema_version'', VStr bar_schema), (''interval_seconds'', VInt interval_seconds), (''updated_at'', VNone),
      (''last_source_at'', VNone), (''last_provider'', VNone), (''contract_identity'', VNone), (''current_bar'', VDict []),
      (''closed_bars'', VList []), (''rth_ma_history'', VList []),
      (''diagnostics'', VDict ([(''last_rejection'', VNone), (''closed_bar_count'', VInt 0), (''rth_ma_bar_count'', VInt 0)]
          @ sampling_constants))]"

definition valid_state :: "pydict option \<Rightarrow> pydict" where
  "valid_state previous =
     (case previous of
        Some d \<Rightarrow> if dget d ''schema_version'' = VStr bar_schema then d else empty_bar_state
      | None \<Rightarrow> empty_bar_state)"

definition es_quote :: "pydict \<Rightarrow> pydict" where
  "es_quote sample = as_mapping (dget (as_mapping (dget sample ''instruments'')) ''future:ES'')"

definition contract_identity_of :: "pydict \<Rightarrow> string option" where
  "contract_identity_of selected = (case dget selected ''contract_identity'' of VStr (c # s) \<Rightarrow> Some (c # s) | _ \<Rightarrow> None)"

definition provider_identity_conflict :: "pydict \<Rightarrow> bool" where
  "provider_identity_conflict sample =
     (let identities = List.map_filter (\<lambda>(_, v). case v of VDict d \<Rightarrow> contract_identity_of d | _ \<Rightarrow> None)
                         (as_mapping (dget sample ''es_by_provider''))
      in 1 < length (remdups identities))"

definition rejection_reason ::
  "int option \<Rightarrow> pyfloat option \<Rightarrow> int \<Rightarrow> int option \<Rightarrow> string option" where
  "rejection_reason source_at price now last_source_at =
     (case source_at of
        None \<Rightarrow> Some ''es_source_timestamp_missing''
      | Some s \<Rightarrow>
          (case price of
             None \<Rightarrow> Some ''es_price_missing_or_invalid''
           | Some p \<Rightarrow>
               if fle p (Fin 0) then Some ''es_price_missing_or_invalid''
               else if s > now + future_tolerance then Some ''es_source_timestamp_future''
               else (case last_source_at of
                   Some l \<Rightarrow> if s \<le> l then Some ''es_source_timestamp_duplicate_or_out_of_order'' else None
                 | None \<Rightarrow> None)))"

definition with_diagnostic :: "py_std \<Rightarrow> pydict \<Rightarrow> int \<Rightarrow> string \<Rightarrow> pydict res" where
  "with_diagnostic std state now rejection =
     rbind (bar_rows std (dget state ''closed_bars'')) (\<lambda>rows_closed.
     rbind (rth_ma_rows std (dget state ''rth_ma_history'')) (\<lambda>rth.
       Inr (dset state ''diagnostics'' (VDict (dmerge (as_mapping (dget state ''diagnostics''))
         [(''last_rejection'', VStr rejection), (''last_rejection_at'', iso now),
          (''closed_bar_count'', VInt (int (length rows_closed))), (''rth_ma_bar_count'', VInt (int (length rth)))])))))"

definition contract_reset :: "pydict \<Rightarrow> string option \<Rightarrow> string \<Rightarrow> int \<Rightarrow> pydict" where
  "contract_reset state identity previous_identity now =
     (if identity \<noteq> None \<and> previous_identity \<noteq> [] \<and> identity \<noteq> Some previous_identity
      then dset empty_bar_state ''diagnostics'' (VDict (dmerge (as_mapping (dget empty_bar_state ''diagnostics''))
             [(''contract_reset_at'', iso now), (''contract_reset_from'', VStr previous_identity),
              (''contract_reset_to'', VStr (the identity))]))
      else state)"

text \<open>The old bar is closed and a new one opened: the closed rows, the history and the gap flag.\<close>

definition close_current ::
  "py_std \<Rightarrow> pydict \<Rightarrow> pydict list \<Rightarrow> pydict list \<Rightarrow> int \<Rightarrow> (pydict list \<times> pydict list \<times> bool) res" where
  "close_current std current rows_closed history start =
     (if current = [] then Inr (rows_closed, history, False)
      else rbind (finalize_bar std current) (\<lambda>finalized.
        Inr (upsert_closed std rows_closed finalized,
             (if is_rth_row finalized
              then last_n max_rth_ma_bars (merge_bars std history [compact_rth_bar finalized]) else history),
             (case parse_at std (dget current ''bar_start'') of
                None \<Rightarrow> True
              | Some previous \<Rightarrow> start > previous + interval_seconds * us_per_second
                  \<or> dget finalized ''quality'' \<noteq> VStr ''ok''))))"

definition accept_sample ::
  "(int \<Rightarrow> int) \<Rightarrow> py_std \<Rightarrow> segment_ends \<Rightarrow> pydict \<Rightarrow> int \<Rightarrow> int \<Rightarrow> pyfloat \<Rightarrow> string \<Rightarrow> string option \<Rightarrow> string \<Rightarrow>
     pydict res" where
  "accept_sample et std policy state now source_at price provider identity previous_identity =
     (let start = bucket_start source_at;
          current = as_mapping (dget state ''current_bar'')
      in rbind (bar_rows std (dget state ''closed_bars'')) (\<lambda>rows_closed.
         rbind (rth_ma_rows std (dget state ''rth_ma_history'')) (\<lambda>rth.
           let history = last_n max_rth_ma_bars (merge_bars std rth (map compact_rth_bar (filter is_rth_row rows_closed))) in
           rbind
             (if current \<noteq> [] \<and> parse_at std (dget current ''bar_start'') = Some start
              then rbind (add_observation std current source_at price provider identity) (\<lambda>bar. Inr (bar, rows_closed, history))
              else rbind (close_current std current rows_closed history start) (\<lambda>(rows_closed, history, gap_before).
                Inr (new_bar et start source_at price provider (session_segment et policy source_at) gap_before identity
                       (previous_identity \<noteq> [] \<and> identity = None), rows_closed, history)))
             (\<lambda>(bar, rows_closed, history). Inr
               [(''schema_version'', VStr bar_schema), (''interval_seconds'', VInt interval_seconds),
                (''updated_at'', iso now), (''last_source_at'', iso source_at), (''last_provider'', VStr provider),
                (''contract_identity'',
                  (case identity of Some i \<Rightarrow> VStr i
                   | None \<Rightarrow> if previous_identity = [] then VNone else VStr previous_identity)),
                (''current_bar'', VDict bar),
                (''closed_bars'', VList (map VDict (last_n max_closed_bars rows_closed))),
                (''rth_ma_history'', VList (map VDict history)),
                (''diagnostics'', VDict (dmerge (as_mapping (dget state ''diagnostics''))
                   ([(''last_rejection'', VNone),
                     (''closed_bar_count'', VInt (int (length (last_n max_closed_bars rows_closed)))),
                     (''rth_ma_bar_count'', VInt (int (length history)))] @ sampling_constants)))]))))"

definition advance_es_bar_state ::
  "(int \<Rightarrow> int) \<Rightarrow> py_std \<Rightarrow> segment_ends \<Rightarrow> pydict option \<Rightarrow> pydict \<Rightarrow> int \<Rightarrow> pydict res" where
  "advance_es_bar_state et std policy previous sample now =
     (let state = valid_state previous;
          quote = es_quote sample;
          source_at = (if quote = [] then None else parse_at std (dget quote ''source_at''))
      in rbind (if quote = [] then Inr None else bar_number (dget quote ''price'')) (\<lambda>price.
         let provider = (if quote = [] then ''unknown'' else dtext std quote ''provider'' ''unknown'');
             identity = contract_identity_of quote;
             rejection = (if provider_identity_conflict sample \<and> identity = None
                          then Some ''es_contract_identity_provider_conflict''
                          else rejection_reason source_at price now (parse_at std (dget state ''last_source_at'')))
         in case (rejection, source_at, price) of
              (None, Some s, Some p) \<Rightarrow>
                (let previous_identity = dtext std state ''contract_identity'' [] in
                 accept_sample et std policy (contract_reset state identity previous_identity now) now s p provider identity
                   previous_identity)
            | _ \<Rightarrow> with_diagnostic std state now (case rejection of Some r \<Rightarrow> r | None \<Rightarrow> [])))"

definition completed_es_bars :: "py_std \<Rightarrow> pydict option \<Rightarrow> pydict list res" where
  "completed_es_bars std previous =
     (let valid = valid_state previous in
      rbind (rth_ma_rows std (dget valid ''rth_ma_history'')) (\<lambda>history.
      rbind (bar_rows std (dget valid ''closed_bars'')) (\<lambda>rows_closed. Inr (merge_bars std history rows_closed))))"

subsection \<open>Seeding the moving-average history\<close>

definition seed_error :: "string \<Rightarrow> py_error" where
  "seed_error reason = ValueError (''rth_ma_seed_'' @ reason)"

definition date_part :: "pydt \<Rightarrow> int" where
  "date_part t = (case t of Naive w \<Rightarrow> date_of w | Aware w _ \<Rightarrow> date_of w)"

definition seed_prices :: "pydict \<Rightarrow> (pyfloat \<times> pyfloat \<times> pyfloat \<times> pyfloat) option res" where
  "seed_prices row =
     rbind (bar_number (dget row ''open'')) (\<lambda>op. rbind (bar_number (dget row ''high'')) (\<lambda>h.
     rbind (bar_number (dget row ''low'')) (\<lambda>l. rbind (bar_number (dget row ''close'')) (\<lambda>c.
       Inr (case (op, h, l, c) of (Some x, Some y, Some z, Some w) \<Rightarrow> Some (x, y, z, w) | _ \<Rightarrow> None)))))"

definition ohlc_ok :: "pyfloat \<times> pyfloat \<times> pyfloat \<times> pyfloat \<Rightarrow> bool" where
  "ohlc_ok p = (let (op, h, l, c) = p in
     \<not> (fle l (Fin 0) \<or> flt h (fmax op c) \<or> flt (fmin op c) l))"

definition validated_seed_bar ::
  "(int \<Rightarrow> int) \<Rightarrow> py_std \<Rightarrow> pydict \<Rightarrow> string \<Rightarrow> int \<Rightarrow> pydict res" where
  "validated_seed_bar et std value identity now =
     (let row = compact_rth_bar value in
      case (parse_at std (dget row ''bar_start''), parse_at std (dget row ''bar_end'')) of
        (Some start, Some end_at) \<Rightarrow>
          if end_at \<noteq> start + interval_seconds * us_per_second \<or> end_at > now
          then Inl (seed_error ''timestamp_invalid'')
          else if dget row ''segment'' \<noteq> VStr ''rth'' \<or> dget row ''quality'' \<noteq> VStr ''ok''
          then Inl (seed_error ''not_closed_ok_rth'')
          else if dget row ''contract_identity'' \<noteq> VStr identity \<or> dget row ''contract_identity_ambiguous'' = VBool True
          then Inl (seed_error ''bar_contract_identity_mismatch'')
          else
            let local = et start in
            (case session default_market_calendar (date_of local) of
               None \<Rightarrow> Inl (seed_error ''outside_rth'')
             | Some s \<Rightarrow>
                 if \<not> (ms_open_at s \<le> local \<and> local < ms_close_at s) then Inl (seed_error ''outside_rth'')
                 else if dget row ''trading_date_et'' \<noteq> VStr (date_isoformat (date_of local))
                 then Inl (seed_error ''trading_date_mismatch'')
                 else rbind (seed_prices row) (\<lambda>prices.
                   case prices of
                     None \<Rightarrow> Inl (seed_error ''price_invalid'')
                   | Some p \<Rightarrow> if ohlc_ok p then Inr row else Inl (seed_error ''ohlc_invalid'')))
      | _ \<Rightarrow> Inl (seed_error ''timestamp_invalid''))"

definition seed_step_ok :: "(int \<Rightarrow> int) \<Rightarrow> py_std \<Rightarrow> pydict \<Rightarrow> pydict \<Rightarrow> unit res" where
  "seed_step_ok et std previous current =
     (case (parse_at std (dget previous ''bar_start''), parse_at std (dget current ''bar_start'')) of
        (Some previous_start, Some current_start) \<Rightarrow>
          (let previous_day = dtext std previous ''trading_date_et'' [];
               current_day = dtext std current ''trading_date_et'' [] in
           if previous_day = current_day then
             guard_raise (current_start \<noteq> previous_start + 300 * us_per_second \<or> dget current ''gap_before'' = VBool True)
               (seed_error ''intraday_gap'')
           else
             (case (std_fromiso std previous_day, std_fromiso std current_day) of
                (Some p, Some n) \<Rightarrow>
                  (case (session default_market_calendar (date_part p), session default_market_calendar (date_part n)) of
                     (Some prior, Some following) \<Rightarrow>
                       guard_raise (et previous_start \<noteq> ms_close_at prior - 300 * us_per_second
                           \<or> et current_start \<noteq> ms_open_at following
                           \<or> next_trading_day default_market_calendar (date_part p) \<noteq> date_part n)
                         (seed_error ''session_boundary_gap'')
                   | _ \<Rightarrow> Inl (seed_error ''session_boundary_gap''))
              | _ \<Rightarrow> Inl (seed_error ''trading_date_invalid'')))
      | _ \<Rightarrow> Inl (seed_error ''timestamp_invalid''))"

fun validate_seed_continuity :: "(int \<Rightarrow> int) \<Rightarrow> py_std \<Rightarrow> pydict list \<Rightarrow> unit res" where
  "validate_seed_continuity et std (p # c # rows) =
     rbind (seed_step_ok et std p c) (\<lambda>_. validate_seed_continuity et std (c # rows))"
| "validate_seed_continuity et std rows = Inr ()"

text \<open>The first loop: validated rows with their source, no start twice.\<close>

fun validate_rows ::
  "(int \<Rightarrow> int) \<Rightarrow> py_std \<Rightarrow> string \<Rightarrow> string \<Rightarrow> int \<Rightarrow> string list \<Rightarrow> pydict list \<Rightarrow> pydict list res" where
  "validate_rows et std identity source now starts [] = Inr []"
| "validate_rows et std identity source now starts (raw # rows) =
     rbind (validated_seed_bar et std raw identity now) (\<lambda>row.
       let row = dset row ''ma_history_source'' (VStr source);
           start = py_str std (dget row ''bar_start'') in
       if start \<in> set starts then Inl (seed_error ''duplicate_bar'')
       else rbind (validate_rows et std identity source now (start # starts) rows) (\<lambda>rest. Inr (row # rest)))"

text \<open>The second loop, over the stored history.\<close>

definition keep_existing ::
  "(int \<Rightarrow> int) \<Rightarrow> py_std \<Rightarrow> string \<Rightarrow> int \<Rightarrow> pydict \<Rightarrow> pydict option res" where
  "keep_existing et std identity now value =
     (if dget value ''contract_identity'' \<noteq> VStr identity then Inr None
      else if (case parse_at std (dget value ''bar_end'') of Some e \<Rightarrow> e > now | None \<Rightarrow> False)
      then Inl (ValueError ''rth_ma_existing_history_future'')
      else if dget value ''quality'' \<noteq> VStr ''ok'' \<or> dget value ''contract_identity_ambiguous'' = VBool True then Inr None
      else rbind (validated_seed_bar et std value identity now) (\<lambda>row. Inr (Some row)))"

definition seed_state_ok :: "pydict option \<Rightarrow> bool" where
  "seed_state_ok previous =
     (case previous of
        Some d \<Rightarrow> dget d ''schema_version'' = VStr bar_schema \<and> eq_int (dget d ''interval_seconds'') interval_seconds
      | None \<Rightarrow> False)"

definition seeded_history ::
  "(int \<Rightarrow> int) \<Rightarrow> py_std \<Rightarrow> pydict \<Rightarrow> pydict list \<Rightarrow> string \<Rightarrow> string \<Rightarrow> int \<Rightarrow> pydict list res" where
  "seeded_history et std state bars identity source now =
     rbind (validate_rows et std identity source now [] bars) (\<lambda>validated.
       let selected = last_n max_rth_ma_bars (sort_key (bar_key std) validated) in
       rbind (guard_raise (length selected < min_rth_ma_seed_bars) (seed_error ''insufficient_bars'')) (\<lambda>_.
       rbind (validate_seed_continuity et std selected) (\<lambda>_.
       rbind (rth_ma_rows std (dget state ''rth_ma_history'')) (\<lambda>stored.
       rbind (collect_some (keep_existing et std identity now) stored) (\<lambda>existing.
         let history = last_n max_rth_ma_bars (merge_bars std selected existing) in
         rbind (guard_raise (length history < min_rth_ma_seed_bars) (seed_error ''insufficient_merged_bars'')) (\<lambda>_.
         rbind (validate_seed_continuity et std history) (\<lambda>_. Inr history)))))))"

definition seed_rth_ma_history ::
  "(int \<Rightarrow> int) \<Rightarrow> py_std \<Rightarrow> pydict option \<Rightarrow> pydict list \<Rightarrow> string \<Rightarrow> int \<Rightarrow> string \<Rightarrow> bool \<Rightarrow> pydict res" where
  "seed_rth_ma_history et std previous bars contract_identity now source promote =
     (let identity = str_strip contract_identity in
      if identity = [] then Inl (seed_error ''contract_identity_missing'')
      else if \<not> seed_state_ok previous then Inl (seed_error ''state_schema_invalid'')
      else
        let state = the previous in
        if (case dget state ''contract_identity'' of VStr (c # s) \<Rightarrow> c # s \<noteq> identity | _ \<Rightarrow> False)
        then Inl (seed_error ''contract_identity_mismatch'')
        else if bars = [] then Inl (seed_error ''empty'')
        else rbind (seeded_history et std state bars identity source now) (\<lambda>history.
          Inr (dmerge state
            [(''contract_identity'', if promote then VStr identity else dget state ''contract_identity''),
             (''rth_ma_history'', VList (map VDict history)),
             (''diagnostics'', VDict (dmerge (as_mapping (dget state ''diagnostics''))
                [(''rth_ma_bar_count'', VInt (int (length history))), (''rth_ma_seeded_at'', iso now),
                 (''rth_ma_seed_source'', VStr source), (''rth_ma_seed_contract_identity'', VStr identity),
                 (''rth_ma_seed_first_bar_start'', dget (hd history) ''bar_start''),
                 (''rth_ma_seed_last_bar_end'', dget (last history) ''bar_end'')]))])))"

end
