(* ===== verification/Stored_Times.thy ===== *)
theory Stored_Times
  imports Py_Dict
begin

section \<open>Timestamps that are stored and read back\<close>

text \<open>
  What the state machines rely on of the standard library: \<^verbatim>\<open>fromisoformat\<close> reads back what
  \<^verbatim>\<open>isoformat\<close> wrote of an instant.
\<close>

definition iso_ok :: "py_std \<Rightarrow> int \<Rightarrow> bool" where
  "iso_ok std t \<longleftrightarrow> std_fromiso std (isoformat t) = Some (Aware t 0)"

lemma iso_ok_fromiso [simp]: "iso_ok std t \<Longrightarrow> std_fromiso std (isoformat t) = Some (Aware t 0)"
  by (simp add: iso_ok_def)

lemma iso_ok_inject: "iso_ok std s \<Longrightarrow> iso_ok std t \<Longrightarrow> isoformat s = isoformat t \<longleftrightarrow> s = t"
  by (metis iso_ok_def option.inject pydt.inject(2))

lemma isoformat_not_Nil [simp]: "isoformat t \<noteq> []"
  using isoformat_T [of t] by auto

lemma ditem_dget_some: "dget d k = v \<Longrightarrow> v \<noteq> VNone \<Longrightarrow> ditem d k = Inr v"
  by (auto simp: ditem_def dget_def split: option.splits)

end
