(* ===== verification/Es_Properties.thy ===== *)
theory Es_Properties
  imports Es_Bars Stored_Times
begin

section \<open>What the five-minute bars guarantee\<close>

text \<open>
  The type of the stored state: every bar has positive prices in order, an interval of five
  minutes around its samples and a count per provider that adds up; the closed bars are in order, without
  duplicates and bounded. A step from a well-typed state never raises and gives a well-typed
  state. What the code relies on of the standard library is that \<^verbatim>\<open>fromisoformat\<close> reads back what
  \<^verbatim>\<open>isoformat\<close> wrote.
\<close>

subsection \<open>Buckets\<close>

lemma total_seconds_trunc:
  assumes "0 \<le> us" "us < 2 ^ 32 * 1000000"
  obtains q where "total_seconds us = Fin q" "trunc_rat q = us div 1000000"
proof -
  let ?k = "us div 1000000"
  have k: "0 \<le> ?k" "?k < 2 ^ 32" using assms by auto
  have low: "fle (Fin (of_int ?k)) (total_seconds us)"
  proof -
    have "fle (total_seconds (?k * 1000000)) (total_seconds us)"
      by (rule total_seconds_mono) simp
    then show ?thesis using k by (simp add: total_seconds_whole)
  qed
  let ?m = "(?k + 1) * 2 ^ 20 - 1"
  have m: "0 < ?m" "?m < 2 ^ 53" using k by auto
  have step: "of_int ?m * pow2 (- 20) = (of_int ?k + 1 - 1 / 1048576 :: rat)"
    by (simp add: pow2_def left_diff_distrib distrib_right)
  have "us \<le> ?k * 1000000 + 999999" using assms(1) by simp
  then have "(of_int us :: rat) \<le> of_int (?k * 1000000 + 999999)"
    by (simp only: of_int_le_iff)
  then have "of_int us / 1000000 \<le> (of_int ?k + 999999 / 1000000 :: rat)"
    by simp
  also have "\<dots> \<le> of_int ?m * pow2 (- 20)"
    unfolding step by simp
  finally have "fle (total_seconds us) (Fin (of_int ?m * pow2 (- 20)))"
    unfolding total_seconds_def rne_dyadic [OF m, symmetric] by (rule rne_mono)
  moreover have "(of_int ?m * pow2 (- 20) :: rat) < of_int ?k + 1"
    unfolding step by simp
  ultimately obtain q where q: "total_seconds us = Fin q" "of_int ?k \<le> q" "q < of_int ?k + 1"
    using low by (cases "total_seconds us") auto
  then have "\<lfloor>q\<rfloor> = ?k" by (simp add: floor_eq_iff)
  moreover have "0 \<le> q" using q(2) k(1) by (meson of_int_0_le_iff order_trans)
  ultimately show ?thesis using that [OF q(1)] by (simp add: trunc_rat_def)
qed

definition sampling_era :: "int \<Rightarrow> bool" where
  "sampling_era t \<longleftrightarrow> unix_epoch \<le> t \<and> t < unix_epoch + 2 ^ 32 * 1000000"

lemma bucket_bounds:
  assumes "sampling_era t"
  shows "bucket_start t \<le> t" "t < bucket_start t + interval_seconds * us_per_second"
proof -
  obtain q where q: "total_seconds (t - unix_epoch) = Fin q" "trunc_rat q = (t - unix_epoch) div 1000000"
    using assms total_seconds_trunc [of "t - unix_epoch"] by (auto simp: sampling_era_def)
  define s where "s = (t - unix_epoch) div 1000000"
  define r where "r = s mod 300"
  have start: "bucket_start t = unix_epoch + (s - r) * 1000000"
    by (simp add: bucket_start_def q Let_def interval_seconds_def s_def r_def)
  have "s * 1000000 \<le> t - unix_epoch" "t - unix_epoch < s * 1000000 + 1000000" by (auto simp: s_def)
  moreover have "0 \<le> r" "r < 300" by (auto simp: r_def)
  ultimately have "bucket_start t \<le> t \<and> t < bucket_start t + interval_seconds * us_per_second"
    unfolding start interval_seconds_def left_diff_distrib by auto
  then show "bucket_start t \<le> t" "t < bucket_start t + interval_seconds * us_per_second" by simp_all
qed

subsection \<open>The type of a bar\<close>

lemma parse_at_iso [simp]: "iso_ok std t \<Longrightarrow> parse_at std (iso t) = Some t"
  using isoformat_T [of t] by (auto simp: iso_ok_def parse_at_def)

definition price_ok :: "pyfloat \<Rightarrow> bool" where
  "price_ok x \<longleftrightarrow> is_finite x \<and> flt (Fin 0) x"

definition counts_ok :: "pydict \<Rightarrow> int \<Rightarrow> bool" where
  "counts_ok d n \<longleftrightarrow>
     (\<exists>cs. d = map (\<lambda>(k, c). (k, VInt c)) cs \<and> distinct (map fst cs) \<and> sum_list (map snd cs) = n
        \<and> list_all (\<lambda>c. 1 \<le> c) (map snd cs))"

definition bar_ok :: "py_std \<Rightarrow> pydict \<Rightarrow> bool" where
  "bar_ok std b \<longleftrightarrow>
     (\<exists>start first lst.
        dget b ''bar_start'' = iso start \<and> dget b ''bar_end'' = iso (start + interval_seconds * us_per_second)
        \<and> dget b ''first_source_at'' = iso first \<and> dget b ''last_source_at'' = iso lst
        \<and> iso_ok std start \<and> iso_ok std (start + interval_seconds * us_per_second) \<and> iso_ok std first \<and> iso_ok std lst
        \<and> start \<le> first \<and> first \<le> lst \<and> lst < start + interval_seconds * us_per_second)
     \<and> (\<exists>op h l c. dget b ''open'' = VFloat op \<and> dget b ''high'' = VFloat h \<and> dget b ''low'' = VFloat l
        \<and> dget b ''close'' = VFloat c \<and> price_ok op \<and> price_ok h \<and> price_ok l \<and> price_ok c
        \<and> fle l op \<and> fle op h \<and> fle l c \<and> fle c h)
     \<and> (\<exists>n d. dget b ''sample_count'' = VInt n \<and> 1 \<le> n \<and> dget b ''provider_counts'' = VDict d \<and> counts_ok d n)
     \<and> (\<exists>g. dget b ''max_sample_gap_seconds'' = VFloat g)
     \<and> dget b ''interval_seconds'' = VInt interval_seconds"

definition closed_ok :: "py_std \<Rightarrow> pydict \<Rightarrow> bool" where
  "closed_ok std b \<longleftrightarrow> bar_ok std b \<and> dget b ''quality'' \<in> {VStr ''ok'', VStr ''partial''}"

definition bar_keys :: "string set" where
  "bar_keys = {''bar_start'', ''bar_end'', ''first_source_at'', ''last_source_at'', ''open'', ''high'', ''low'', ''close'',
     ''sample_count'', ''provider_counts'', ''max_sample_gap_seconds'', ''interval_seconds''}"

lemma bar_ok_agree: "pd.agree bar_keys b b' \<Longrightarrow> bar_ok std b' = bar_ok std b"
  unfolding pd.agree_def bar_keys_def bar_ok_def by simp

lemma price_fmax: "price_ok a \<Longrightarrow> price_ok b \<Longrightarrow> price_ok (fmax a b)"
  by (simp add: price_ok_def fmax_def)

lemma price_fmin: "price_ok a \<Longrightarrow> price_ok b \<Longrightarrow> price_ok (fmin a b)"
  by (simp add: price_ok_def fmin_def)

lemma fmax_upper: "price_ok a \<Longrightarrow> price_ok b \<Longrightarrow> fle a (fmax a b) \<and> fle b (fmax a b)"
  by (cases a; cases b) (auto simp: price_ok_def fmax_def)

lemma fmin_lower: "price_ok a \<Longrightarrow> price_ok b \<Longrightarrow> fle (fmin a b) a \<and> fle (fmin a b) b"
  by (cases a; cases b) (auto simp: price_ok_def fmin_def)

lemma new_bar_ok:
  assumes "price_ok price" "iso_ok std start" "iso_ok std (start + interval_seconds * us_per_second)" "iso_ok std source_at"
    and "start \<le> source_at" "source_at < start + interval_seconds * us_per_second"
  shows "bar_ok std (new_bar et start source_at price provider segment gap identity ambiguous)"
proof -
  let ?b = "new_bar et start source_at price provider segment gap identity ambiguous"
  have fields: "dget ?b ''bar_start'' = iso start" "dget ?b ''bar_end'' = iso (start + interval_seconds * us_per_second)"
    "dget ?b ''first_source_at'' = iso source_at" "dget ?b ''last_source_at'' = iso source_at"
    "dget ?b ''open'' = VFloat price" "dget ?b ''high'' = VFloat price" "dget ?b ''low'' = VFloat price"
    "dget ?b ''close'' = VFloat price" "dget ?b ''sample_count'' = VInt 1"
    "dget ?b ''provider_counts'' = VDict [(provider, VInt 1)]" "dget ?b ''max_sample_gap_seconds'' = VFloat (Fin 0)"
    "dget ?b ''interval_seconds'' = VInt interval_seconds"
    by (simp_all add: new_bar_def)
  have "counts_ok [(provider, VInt 1)] 1"
    unfolding counts_ok_def by (rule exI [of _ "[(provider, 1)]"]) simp
  moreover have "fle price price" using assms(1) by (auto simp: price_ok_def fle_refl)
  ultimately show ?thesis
    unfolding bar_ok_def fields using assms by blast
qed

lemma provider_counts_ints: "provider_counts (map (\<lambda>(k, c). (k, VInt c)) cs) = Inr cs"
  by (induction cs) (auto simp: is_number_def py_int_def)

lemma count_provider_ok:
  assumes "distinct (map fst cs)" "list_all (\<lambda>c. 1 \<le> c) (map snd cs)"
  shows "distinct (map fst (count_provider p cs))" "sum_list (map snd (count_provider p cs)) = sum_list (map snd cs) + 1"
    "list_all (\<lambda>c. 1 \<le> c) (map snd (count_provider p cs))"
proof -
  have "distinct (map fst cs) \<Longrightarrow> list_all (\<lambda>c. 1 \<le> c) (map snd cs) \<Longrightarrow>
      sum_list (map snd (AList.update p ((case map_of cs p of Some n \<Rightarrow> n | None \<Rightarrow> 0) + 1) cs)) = sum_list (map snd cs) + 1
      \<and> list_all (\<lambda>c. 1 \<le> c) (map snd (AList.update p ((case map_of cs p of Some n \<Rightarrow> n | None \<Rightarrow> 0) + 1) cs))"
    by (induction cs) (auto split: option.splits)
  then show "sum_list (map snd (count_provider p cs)) = sum_list (map snd cs) + 1"
    "list_all (\<lambda>c. 1 \<le> c) (map snd (count_provider p cs))"
    using assms by (simp_all add: count_provider_def)
  show "distinct (map fst (count_provider p cs))"
    using assms(1) by (simp add: count_provider_def distinct_update)
qed

lemma add_observation_ok:
  assumes bar: "bar_ok std b" and new: "price_ok price" "iso_ok std source_at"
    and start: "dget b ''bar_start'' = iso start" "iso_ok std start" "source_at < start + interval_seconds * us_per_second"
    and last: "dget b ''last_source_at'' = iso lst" "iso_ok std lst" "lst \<le> source_at"
  shows "\<exists>b'. add_observation std b source_at price provider identity = Inr b' \<and> bar_ok std b'
    \<and> dget b' ''bar_start'' = iso start \<and> dget b' ''last_source_at'' = iso source_at"
proof -
  obtain start' first lst' where times: "dget b ''bar_start'' = iso start'"
      "dget b ''bar_end'' = iso (start' + interval_seconds * us_per_second)"
      "dget b ''first_source_at'' = iso first" "dget b ''last_source_at'' = iso lst'" "iso_ok std start'"
      "iso_ok std (start' + interval_seconds * us_per_second)" "iso_ok std first" "iso_ok std lst'" "start' \<le> first" "first \<le> lst'"
    using bar unfolding bar_ok_def by blast
  obtain op h l c where prices: "dget b ''open'' = VFloat op" "dget b ''high'' = VFloat h" "dget b ''low'' = VFloat l"
      "dget b ''close'' = VFloat c" "price_ok op" "price_ok h" "price_ok l" "fle l op" "fle op h"
    using bar unfolding bar_ok_def by blast
  obtain n d where n: "dget b ''sample_count'' = VInt n" "1 \<le> n" "dget b ''provider_counts'' = VDict d" "counts_ok d n"
    using bar unfolding bar_ok_def by blast
  obtain g where g: "dget b ''max_sample_gap_seconds'' = VFloat g" and iv: "dget b ''interval_seconds'' = VInt interval_seconds"
    using bar unfolding bar_ok_def by blast
  obtain cs where cs: "d = map (\<lambda>(k, c). (k, VInt c)) cs" "distinct (map fst cs)" "sum_list (map snd cs) = n"
      "list_all (\<lambda>c. 1 \<le> c) (map snd cs)"
    using n(4) unfolding counts_ok_def by blast
  have same: "start' = start" "lst' = lst"
    using times start last parse_at_iso by (metis option.inject)+
  define cs' where "cs' = count_provider provider cs"
  define gap where "gap = (case parse_at std (dget b ''last_source_at'') of
      Some t \<Rightarrow> fmax (total_seconds (source_at - t)) (Fin 0) | None \<Rightarrow> Fin 0)"
  define g' where "g' = (if fneq0 g then g else Fin 0)"
  define r where "r = dmerge b
      [(''high'', VFloat (fmax h price)), (''low'', VFloat (fmin l price)), (''close'', VFloat price),
       (''sample_count'', VInt (n + 1)), (''last_source_at'', iso source_at), (''max_sample_gap_seconds'', VFloat (fmax g' gap)),
       (''provider_counts'', VDict (map (\<lambda>(k, c). (k, VInt c)) cs')), (''provider'', VStr (most_counted cs'))]"
  define r' where "r' = (if identity_conflict b identity
      then dmerge r [(''contract_identity'', VNone), (''contract_identity_ambiguous'', VBool True)] else r)"
  have reads: "dfloat std b ''high'' = Inr h" "dfloat std (dset b ''high'' (VFloat (fmax h price))) ''low'' = Inr l"
    "py_int (vor (VInt n) (VInt 0)) = Inr n" "py_float std (vor (VFloat g) (VFloat (Fin 0))) = Inr g'"
    using prices(2,3) by (simp_all add: dfloat_def ditem_dget_some py_float_def py_int_def vor_def g'_def)
  have result: "add_observation std b source_at price provider identity = Inr r'"
    unfolding add_observation_def n(1,3) g reads as_mapping_def pyval.case cs(1) provider_counts_ints rbind_Inr Let_def
      gap_def [symmetric] r'_def r_def cs'_def ..
  have counts: "counts_ok (map (\<lambda>(k, c). (k, VInt c)) cs') (n + 1)"
    unfolding counts_ok_def cs'_def using count_provider_ok [OF cs(2,4)] cs(3) by blast
  have order: "fle (fmin l price) op" "fle op (fmax h price)" "fle (fmin l price) price" "fle price (fmax h price)"
    using prices(6-9) new(1) fmin_lower [of l price] fmax_upper [of h price] fle_trans by blast+
  have times': "dget r ''bar_start'' = iso start" "dget r ''bar_end'' = iso (start + interval_seconds * us_per_second)"
    "dget r ''first_source_at'' = iso first" "dget r ''last_source_at'' = iso source_at"
    "dget r ''interval_seconds'' = VInt interval_seconds"
    using times(1-3) iv same by (simp_all add: r_def)
  have prices': "dget r ''open'' = VFloat op" "dget r ''high'' = VFloat (fmax h price)"
    "dget r ''low'' = VFloat (fmin l price)" "dget r ''close'' = VFloat price"
    using prices(1) by (simp_all add: r_def)
  have numbers': "dget r ''sample_count'' = VInt (n + 1)" "dget r ''max_sample_gap_seconds'' = VFloat (fmax g' gap)"
    "dget r ''provider_counts'' = VDict (map (\<lambda>(k, c). (k, VInt c)) cs')"
    by (simp_all add: r_def)
  have "bar_ok std r"
    unfolding bar_ok_def times' prices' numbers'
  proof (intro conjI)
    show "\<exists>starta firsta lsta. iso start = iso starta
        \<and> iso (start + interval_seconds * us_per_second) = iso (starta + interval_seconds * us_per_second)
        \<and> iso first = iso firsta \<and> iso source_at = iso lsta \<and> iso_ok std starta
        \<and> iso_ok std (starta + interval_seconds * us_per_second) \<and> iso_ok std firsta \<and> iso_ok std lsta
        \<and> starta \<le> firsta \<and> firsta \<le> lsta \<and> lsta < starta + interval_seconds * us_per_second"
      using times(5-10) same new(2) start(3) last(3)
      by (intro exI [of _ start] exI [of _ first] exI [of _ source_at]) auto
    show "\<exists>opa ha la c. VFloat op = VFloat opa \<and> VFloat (fmax h price) = VFloat ha \<and> VFloat (fmin l price) = VFloat la
        \<and> VFloat price = VFloat c \<and> price_ok opa \<and> price_ok ha \<and> price_ok la \<and> price_ok c
        \<and> fle la opa \<and> fle opa ha \<and> fle la c \<and> fle c ha"
      using order prices(5-7) new(1) price_fmax price_fmin by blast
    show "\<exists>na d. VInt (n + 1) = VInt na \<and> 1 \<le> na \<and> VDict (map (\<lambda>(k, c). (k, VInt c)) cs') = VDict d \<and> counts_ok d na"
      using counts n(2) by (intro exI [of _ "n + 1"] exI [of _ "map (\<lambda>(k, c). (k, VInt c)) cs'"]) simp
  qed simp_all
  moreover have "pd.agree bar_keys r r'"
    by (simp add: r'_def bar_keys_def)
  ultimately have "bar_ok std r'"
    using bar_ok_agree by blast
  moreover have "dget r' ''bar_start'' = iso start" "dget r' ''last_source_at'' = iso source_at"
    using times' by (simp_all add: r'_def)
  ultimately show ?thesis using result by blast
qed

lemma finalize_bar_ok:
  assumes "bar_ok std b"
  shows "\<exists>f. finalize_bar std b = Inr f \<and> closed_ok std f \<and> dget f ''bar_start'' = dget b ''bar_start''
    \<and> dget f ''segment'' = dget b ''segment''"
proof -
  obtain n g where n: "dget b ''sample_count'' = VInt n" and g: "dget b ''max_sample_gap_seconds'' = VFloat g"
    using assms unfolding bar_ok_def by blast
  have "py_int (vor (VInt n) (VInt 0)) = Inr n"
    by (simp add: vor_def py_int_def)
  then obtain leading trailing q where f: "finalize_bar std b = Inr (dmerge b
      [(''leading_edge_gap_seconds'', leading), (''trailing_edge_gap_seconds'', trailing), (''quality'', VStr q)])"
      and q: "q \<in> {''ok'', ''partial''}"
    unfolding finalize_bar_def n g by (simp add: bar_number_def Let_def)
  let ?f = "dmerge b [(''leading_edge_gap_seconds'', leading), (''trailing_edge_gap_seconds'', trailing), (''quality'', VStr q)]"
  have "pd.agree bar_keys b ?f"
    by (simp add: bar_keys_def)
  then have "bar_ok std ?f"
    using assms bar_ok_agree by blast
  then have "closed_ok std ?f"
    using q by (auto simp: closed_ok_def)
  then show ?thesis
    using f by simp
qed

subsection \<open>Tables of bars\<close>

lemma number_price: "price_ok x \<Longrightarrow> bar_number (VFloat x) = Inr (Some x)"
  by (simp add: bar_number_def price_ok_def)

lemma valid_row_agree:
  assumes "bar_ok std b" "dget r ''bar_start'' = dget b ''bar_start''" "dget r ''interval_seconds'' = dget b ''interval_seconds''"
    and "\<And>k. k \<in> set price_keys \<Longrightarrow> dget r k = dget b k"
  shows "valid_row std (VDict r) = Inr (Some r)"
proof -
  obtain start where start: "dget b ''bar_start'' = iso start" "iso_ok std start"
    using assms(1) unfolding bar_ok_def by blast
  obtain op h l c where prices: "dget b ''open'' = VFloat op" "dget b ''high'' = VFloat h" "dget b ''low'' = VFloat l"
      "dget b ''close'' = VFloat c" "price_ok op" "price_ok h" "price_ok l" "price_ok c"
    using assms(1) unfolding bar_ok_def by blast
  have iv: "dget b ''interval_seconds'' = VInt interval_seconds"
    using assms(1) unfolding bar_ok_def by blast
  have keys: "dget r ''open'' = VFloat op" "dget r ''high'' = VFloat h" "dget r ''low'' = VFloat l" "dget r ''close'' = VFloat c"
    using assms(4) prices(1-4) by (simp_all add: price_keys_def)
  have "py_int (vor (VInt interval_seconds) (VInt 0)) = Inr interval_seconds"
    by (simp add: vor_def py_int_def)
  then show ?thesis
    using start prices(5-8)
    by (simp add: valid_row_def assms(2,3) start(1) iv price_keys_def keys number_price)
qed

lemma closed_valid: "closed_ok std b \<Longrightarrow> valid_row std (VDict b) = Inr (Some b)"
  by (rule valid_row_agree) (auto simp: closed_ok_def)

lemma dget_compact: "k \<in> set compact_fields \<Longrightarrow> dget (compact_rth_bar r) k = dget r k"
  by (auto simp: compact_rth_bar_def dget_def map_of_map_restrict)

lemma compact_valid: "bar_ok std b \<Longrightarrow> valid_row std (VDict (compact_rth_bar b)) = Inr (Some (compact_rth_bar b))"
  by (rule valid_row_agree [of std b]) (auto simp: dget_compact compact_fields_def price_keys_def)

lemma compact_rth: "is_rth_row (compact_rth_bar r) = is_rth_row r"
  by (simp add: is_rth_row_def dget_compact compact_fields_def)

lemma collect_all: "(\<And>r. r \<in> set rows \<Longrightarrow> f (VDict r) = Inr (Some r)) \<Longrightarrow> collect_some f (map VDict rows) = Inr rows"
  by (induction rows) simp_all

lemma bar_rows_sorted:
  assumes "\<And>r. r \<in> set rows \<Longrightarrow> valid_row std (VDict r) = Inr (Some r)"
  shows "bar_rows std (VList (map VDict rows)) = Inr (sort_key (bar_key std) rows)"
  using collect_all [OF assms] by (simp add: bar_rows_def)

lemma sort_key_sorted: "sorted (map f xs) \<Longrightarrow> sort_key f xs = xs"
  by (rule sort_key_id_if_sorted)

lemma set_update_sub: "set (AList.update k v al) \<subseteq> insert (k, v) (set al)"
  by (induction al) auto

lemma merge_bars_set: "set (merge_bars std a b) \<subseteq> set a \<union> set b"
proof -
  have "snd ` set (foldl (put_row std) t rows) \<subseteq> snd ` set t \<union> set rows" for t rows
  proof (induction rows arbitrary: t)
    case (Cons r rows)
    have "snd ` set (put_row std t r) \<subseteq> insert r (snd ` set t)"
      using set_update_sub [of "bar_key std r" r t] by (auto simp: put_row_def)
    moreover have "snd ` set (foldl (put_row std) t (r # rows)) \<subseteq> snd ` set (put_row std t r) \<union> set rows"
      using Cons.IH by simp
    ultimately show ?case unfolding list.set by blast
  qed simp
  from this [of "[]" "a @ b"] show ?thesis
    by (simp add: merge_bars_def)
qed

lemma last_n_set: "set (last_n n xs) \<subseteq> set xs"
  by (auto simp: last_n_def dest: in_set_dropD)

lemma last_n_length [simp]: "length (last_n n xs) \<le> n"
  by (simp add: last_n_def)

definition rows_in_order :: "py_std \<Rightarrow> pydict list \<Rightarrow> bool" where
  "rows_in_order std rows \<longleftrightarrow> sorted (map (bar_key std) rows) \<and> distinct (map (bar_key std) rows)"

lemma rows_in_order_last_n: "rows_in_order std rows \<Longrightarrow> rows_in_order std (last_n n rows)"
  by (simp add: rows_in_order_def last_n_def drop_map [symmetric] sorted_wrt_drop)

lemma distinct_map_sort_key: "distinct (map f (sort_key f xs)) = distinct (map f xs)"
  by (simp add: distinct_map)

lemma upsert_in_order:
  assumes "rows_in_order std rows"
  shows "rows_in_order std (upsert_closed std rows bar)"
  using assms by (auto simp: rows_in_order_def upsert_closed_def distinct_map_sort_key distinct_map inj_on_def)

subsection \<open>The type of the state\<close>

definition state_ok :: "py_std \<Rightarrow> pydict \<Rightarrow> bool" where
  "state_ok std d \<longleftrightarrow>
     dget d ''schema_version'' = VStr bar_schema
     \<and> (\<exists>cur. dget d ''current_bar'' = VDict cur
          \<and> (cur = [] \<or> bar_ok std cur \<and> dget cur ''last_source_at'' = dget d ''last_source_at''))
     \<and> (\<exists>rows. dget d ''closed_bars'' = VList (map VDict rows) \<and> (\<forall>r \<in> set rows. closed_ok std r)
          \<and> rows_in_order std rows \<and> length rows \<le> max_closed_bars)
     \<and> (\<exists>hist. dget d ''rth_ma_history'' = VList (map VDict hist)
          \<and> (\<forall>h \<in> set hist. valid_row std (VDict h) = Inr (Some h) \<and> is_rth_row h) \<and> length hist \<le> max_rth_ma_bars)"

lemma empty_state_ok: "state_ok std empty_bar_state"
  by (simp add: state_ok_def empty_bar_state_def rows_in_order_def)

lemma state_ok_agree:
  "pd.agree {''schema_version'', ''current_bar'', ''last_source_at'', ''closed_bars'', ''rth_ma_history''} d d' \<Longrightarrow>
     state_ok std d' = state_ok std d"
  unfolding pd.agree_def state_ok_def by simp

lemma with_diagnostic_ok:
  assumes "state_ok std d"
  shows "\<exists>v. with_diagnostic std d now r = Inr (dset d ''diagnostics'' v) \<and> state_ok std (dset d ''diagnostics'' v)"
proof -
  obtain rows hist where t: "dget d ''closed_bars'' = VList (map VDict rows)" "\<forall>r \<in> set rows. closed_ok std r"
      "dget d ''rth_ma_history'' = VList (map VDict hist)" "\<forall>h \<in> set hist. valid_row std (VDict h) = Inr (Some h) \<and> is_rth_row h"
    using assms unfolding state_ok_def by blast
  have "bar_rows std (VList (map VDict rows)) = Inr (sort_key (bar_key std) rows)"
    "bar_rows std (VList (map VDict hist)) = Inr (sort_key (bar_key std) hist)"
    using t(2,4) closed_valid by (auto intro!: bar_rows_sorted)
  then obtain v where "with_diagnostic std d now r = Inr (dset d ''diagnostics'' v)"
    by (simp add: with_diagnostic_def rth_ma_rows_def t(1,3))
  moreover have "state_ok std (dset d ''diagnostics'' v)"
    using assms state_ok_agree [of d "dset d ''diagnostics'' v" std] by simp
  ultimately show ?thesis by blast
qed

lemma close_current_ok:
  assumes "cur = [] \<or> bar_ok std cur" "\<forall>r \<in> set rows. closed_ok std r" "rows_in_order std rows"
    and "\<forall>h \<in> set hist. valid_row std (VDict h) = Inr (Some h) \<and> is_rth_row h" "length hist \<le> max_rth_ma_bars"
  shows "\<exists>rows' hist' gap. close_current std cur rows hist start = Inr (rows', hist', gap)
    \<and> (\<forall>r \<in> set rows'. closed_ok std r) \<and> rows_in_order std rows'
    \<and> (\<forall>h \<in> set hist'. valid_row std (VDict h) = Inr (Some h) \<and> is_rth_row h) \<and> length hist' \<le> max_rth_ma_bars"
proof (cases "cur = []")
  case True
  then show ?thesis using assms by (auto simp: close_current_def)
next
  case False
  then obtain f where f: "finalize_bar std cur = Inr f" "closed_ok std f"
    using assms(1) finalize_bar_ok by blast
  define hist' where "hist' = (if is_rth_row f
      then last_n max_rth_ma_bars (merge_bars std hist [compact_rth_bar f]) else hist)"
  have "set hist' \<subseteq> set hist \<union> (if is_rth_row f then {compact_rth_bar f} else {})"
    using last_n_set [of max_rth_ma_bars "merge_bars std hist [compact_rth_bar f]"]
      merge_bars_set [of std hist "[compact_rth_bar f]"] by (auto simp: hist'_def)
  moreover have "is_rth_row f \<Longrightarrow> valid_row std (VDict (compact_rth_bar f)) = Inr (Some (compact_rth_bar f))
      \<and> is_rth_row (compact_rth_bar f)"
    using f(2) compact_valid compact_rth by (simp add: closed_ok_def)
  ultimately have "\<forall>h \<in> set hist'. valid_row std (VDict h) = Inr (Some h) \<and> is_rth_row h"
    using assms(4) by (auto split: if_splits)
  moreover have "length hist' \<le> max_rth_ma_bars"
    using assms(5) by (simp add: hist'_def)
  moreover have "\<forall>r \<in> set (upsert_closed std rows f). closed_ok std r"
    using assms(2) f(2) by (auto simp: upsert_closed_def)
  moreover have "\<exists>gap. close_current std cur rows hist start = Inr (upsert_closed std rows f, hist', gap)"
    using False f(1) by (simp add: close_current_def hist'_def)
  ultimately show ?thesis
    using upsert_in_order [OF assms(3)] by blast
qed

lemma accept_sample_ok:
  assumes d: "state_ok std d" and price: "price_ok price" and era: "sampling_era s"
    and iso: "iso_ok std s" "iso_ok std (bucket_start s)" "iso_ok std (bucket_start s + interval_seconds * us_per_second)"
    and later: "\<And>l. parse_at std (dget d ''last_source_at'') = Some l \<Longrightarrow> l < s"
  shows "\<exists>d'. accept_sample et std policy d now s price provider identity prev = Inr d' \<and> state_ok std d'
    \<and> dget d' ''last_source_at'' = VStr (isoformat s)"
proof -
  let ?start = "bucket_start s"
  obtain cur where cur: "dget d ''current_bar'' = VDict cur"
      "cur = [] \<or> bar_ok std cur \<and> dget cur ''last_source_at'' = dget d ''last_source_at''"
    using d unfolding state_ok_def by blast
  obtain rows where rows: "dget d ''closed_bars'' = VList (map VDict rows)" "\<forall>r \<in> set rows. closed_ok std r"
      "rows_in_order std rows" "length rows \<le> max_closed_bars"
    using d unfolding state_ok_def by blast
  obtain hist0 where hist0: "dget d ''rth_ma_history'' = VList (map VDict hist0)"
      "\<forall>h \<in> set hist0. valid_row std (VDict h) = Inr (Some h) \<and> is_rth_row h"
    using d unfolding state_ok_def by blast
  define hist where "hist = last_n max_rth_ma_bars (merge_bars std (sort_key (bar_key std) hist0)
      (map compact_rth_bar (filter is_rth_row rows)))"
  have reads: "bar_rows std (dget d ''closed_bars'') = Inr rows"
    "rth_ma_rows std (dget d ''rth_ma_history'') = Inr (sort_key (bar_key std) hist0)"
  proof -
    have "bar_rows std (VList (map VDict rows)) = Inr (sort_key (bar_key std) rows)"
      using rows(2) closed_valid by (intro bar_rows_sorted) blast
    then show "bar_rows std (dget d ''closed_bars'') = Inr rows"
      using rows(1,3) sort_key_sorted [of "bar_key std" rows] by (simp add: rows_in_order_def)
    have "bar_rows std (VList (map VDict hist0)) = Inr (sort_key (bar_key std) hist0)"
      using hist0(2) by (intro bar_rows_sorted) blast
    moreover have "filter is_rth_row (sort_key (bar_key std) hist0) = sort_key (bar_key std) hist0"
      using hist0(2) by (intro filter_True) simp
    ultimately show "rth_ma_rows std (dget d ''rth_ma_history'') = Inr (sort_key (bar_key std) hist0)"
      by (simp add: rth_ma_rows_def hist0(1))
  qed
  have "set hist \<subseteq> set hist0 \<union> compact_rth_bar ` {r \<in> set rows. is_rth_row r}"
    using last_n_set [of max_rth_ma_bars "merge_bars std (sort_key (bar_key std) hist0) (map compact_rth_bar (filter is_rth_row rows))"]
      merge_bars_set [of std "sort_key (bar_key std) hist0" "map compact_rth_bar (filter is_rth_row rows)"]
    by (auto simp: hist_def)
  then have hist: "\<forall>h \<in> set hist. valid_row std (VDict h) = Inr (Some h) \<and> is_rth_row h"
    using hist0(2) rows(2) compact_valid compact_rth by (auto simp: closed_ok_def subset_iff)
  have hist_len: "length hist \<le> max_rth_ma_bars"
    by (simp add: hist_def last_n_length)
  define inner where "inner =
     (if cur \<noteq> [] \<and> parse_at std (dget cur ''bar_start'') = Some ?start
      then rbind (add_observation std cur s price provider identity) (\<lambda>bar. Inr (bar, rows, hist))
      else rbind (close_current std cur rows hist ?start) (\<lambda>(rows', hist', gap).
        Inr (new_bar et ?start s price provider (session_segment et policy s) gap identity (prev \<noteq> [] \<and> identity = None),
             rows', hist')))"
  have "\<exists>bar rows' hist'. inner = Inr (bar, rows', hist') \<and> bar_ok std bar \<and> dget bar ''last_source_at'' = VStr (isoformat s)
      \<and> (\<forall>r \<in> set rows'. closed_ok std r) \<and> rows_in_order std rows'
      \<and> (\<forall>h \<in> set hist'. valid_row std (VDict h) = Inr (Some h) \<and> is_rth_row h) \<and> length hist' \<le> max_rth_ma_bars"
  proof (cases "cur \<noteq> [] \<and> parse_at std (dget cur ''bar_start'') = Some ?start")
    case True
    then have ok: "bar_ok std cur" "dget cur ''last_source_at'' = dget d ''last_source_at''"
      using cur(2) by blast+
    obtain start lst where t: "dget cur ''bar_start'' = VStr (isoformat start)" "iso_ok std start"
        "dget cur ''last_source_at'' = VStr (isoformat lst)" "iso_ok std lst"
      using ok(1) unfolding bar_ok_def by blast
    have "start = ?start" using True t(1,2) by simp
    moreover have "lst < s" using later [of lst] t(3,4) ok(2) by simp
    ultimately obtain bar where "add_observation std cur s price provider identity = Inr bar" "bar_ok std bar"
        "dget bar ''last_source_at'' = VStr (isoformat s)"
      using add_observation_ok [OF ok(1) price iso(1), of ?start lst provider identity] t iso(2) bucket_bounds(2) [OF era]
      by auto
    then show ?thesis
      using True rows(2,3) hist hist_len by (simp add: inner_def)
  next
    case False
    have "cur = [] \<or> bar_ok std cur" using cur(2) by blast
    then obtain rows' hist' gap where c: "close_current std cur rows hist ?start = Inr (rows', hist', gap)"
        "\<forall>r \<in> set rows'. closed_ok std r" "rows_in_order std rows'"
        "\<forall>h \<in> set hist'. valid_row std (VDict h) = Inr (Some h) \<and> is_rth_row h" "length hist' \<le> max_rth_ma_bars"
      using close_current_ok [OF _ rows(2,3) hist hist_len, of cur ?start] by blast
    let ?bar = "new_bar et ?start s price provider (session_segment et policy s) gap identity (prev \<noteq> [] \<and> identity = None)"
    have "bar_ok std ?bar"
      using new_bar_ok [OF price iso(2,3,1)] bucket_bounds [OF era] by blast
    moreover have "dget ?bar ''last_source_at'' = VStr (isoformat s)"
      by (simp add: new_bar_def)
    moreover have "inner = Inr (?bar, rows', hist')"
      using False c(1) unfolding inner_def by auto
    ultimately show ?thesis using c(2-5) by blast
  qed
  then obtain bar rows' hist' where r: "inner = Inr (bar, rows', hist')" "bar_ok std bar"
      "dget bar ''last_source_at'' = VStr (isoformat s)" "\<forall>r \<in> set rows'. closed_ok std r" "rows_in_order std rows'"
      "\<forall>h \<in> set hist'. valid_row std (VDict h) = Inr (Some h) \<and> is_rth_row h" "length hist' \<le> max_rth_ma_bars"
    by blast
  have "\<exists>d'. accept_sample et std policy d now s price provider identity prev = Inr d'
      \<and> dget d' ''schema_version'' = VStr bar_schema \<and> dget d' ''current_bar'' = VDict bar
      \<and> dget d' ''last_source_at'' = VStr (isoformat s)
      \<and> dget d' ''closed_bars'' = VList (map VDict (last_n max_closed_bars rows'))
      \<and> dget d' ''rth_ma_history'' = VList (map VDict hist')"
    unfolding accept_sample_def reads rbind_Inr Let_def hist_def [symmetric] cur(1) as_mapping_def pyval.case
      inner_def [symmetric] r(1) prod.case by simp
  then obtain d' where d': "accept_sample et std policy d now s price provider identity prev = Inr d'"
      "dget d' ''schema_version'' = VStr bar_schema" "dget d' ''current_bar'' = VDict bar"
      "dget d' ''last_source_at'' = VStr (isoformat s)"
      "dget d' ''closed_bars'' = VList (map VDict (last_n max_closed_bars rows'))"
      "dget d' ''rth_ma_history'' = VList (map VDict hist')"
    by blast
  have "\<forall>r \<in> set (last_n max_closed_bars rows'). closed_ok std r"
    using r(4) last_n_set [of max_closed_bars rows'] by blast
  then have "state_ok std d'"
    unfolding state_ok_def d'(2-6) using r(2,3,5-7) rows_in_order_last_n last_n_length by blast
  then show ?thesis using d'(1,4) by blast
qed

subsection \<open>A run of samples\<close>

definition quote_time :: "py_std \<Rightarrow> pydict \<Rightarrow> int option" where
  "quote_time std sample = (if es_quote sample = [] then None else parse_at std (dget (es_quote sample) ''source_at''))"

text \<open>The sample can be read: its price is no int beyond the floats, its time is readable text when written.\<close>

definition readable :: "py_std \<Rightarrow> pydict \<Rightarrow> bool" where
  "readable std sample \<longleftrightarrow>
     (\<exists>p. bar_number (dget (es_quote sample) ''price'') = Inr p)
     \<and> (\<forall>s. quote_time std sample = Some s \<longrightarrow> sampling_era s \<and> iso_ok std s \<and> iso_ok std (bucket_start s)
            \<and> iso_ok std (bucket_start s + interval_seconds * us_per_second))"

lemma rejected_price:
  "rejection_reason source_at price now lst = None \<Longrightarrow> \<exists>s p. source_at = Some s \<and> price = Some p \<and> \<not> fle p (Fin 0)
     \<and> s \<le> now + future_tolerance \<and> (\<forall>l. lst = Some l \<longrightarrow> l < s)"
  by (auto simp: rejection_reason_def split: option.splits if_splits)

lemma contract_reset_ok:
  assumes "state_ok std d"
  shows "state_ok std (contract_reset d identity prev now)"
    "parse_at std (dget (contract_reset d identity prev now) ''last_source_at'') \<in> {None, parse_at std (dget d ''last_source_at'')}"
proof -
  have "state_ok std (dset empty_bar_state ''diagnostics'' v)" for v
    using empty_state_ok [of std] state_ok_agree [of empty_bar_state "dset empty_bar_state ''diagnostics'' v" std] by simp
  moreover have "parse_at std (dget (dset empty_bar_state ''diagnostics'' v) ''last_source_at'') = None" for v
    by (simp add: empty_bar_state_def parse_at_def)
  ultimately show "state_ok std (contract_reset d identity prev now)"
    "parse_at std (dget (contract_reset d identity prev now) ''last_source_at'') \<in> {None, parse_at std (dget d ''last_source_at'')}"
    using assms by (simp_all add: contract_reset_def)
qed

lemma es_advance_ok:
  assumes "state_ok std d" "readable std sample"
  shows "\<exists>d'. advance_es_bar_state et std policy (Some d) sample now = Inr d' \<and> state_ok std d'
    \<and> (case parse_at std (dget d ''last_source_at'') of None \<Rightarrow> True
       | Some l \<Rightarrow> \<exists>l'. parse_at std (dget d' ''last_source_at'') = Some l' \<and> l \<le> l')
    \<and> ((\<exists>s. quote_time std sample = Some s \<and> s \<le> now + future_tolerance
          \<and> (\<forall>l. parse_at std (dget d ''last_source_at'') = Some l \<longrightarrow> l < s))
       \<or> (\<exists>v. d' = dset d ''diagnostics'' v))"
proof -
  have valid: "valid_state (Some d) = d"
    using assms(1) by (simp add: valid_state_def state_ok_def)
  define price where "price = (if es_quote sample = [] then None
      else (case bar_number (dget (es_quote sample) ''price'') of Inr p \<Rightarrow> p | Inl e \<Rightarrow> None))"
  have price: "(if es_quote sample = [] then Inr None else bar_number (dget (es_quote sample) ''price'')) = Inr price"
    using assms(2) by (auto simp: price_def readable_def)
  have finite: "price = Some p \<Longrightarrow> is_finite p" for p
    using assms(2)
    by (auto simp: price_def readable_def bar_number_def rbind_eq_Inr_iff split: if_splits pyval.splits)
  let ?identity = "contract_identity_of (es_quote sample)"
  let ?provider = "if es_quote sample = [] then ''unknown'' else dtext std (es_quote sample) ''provider'' ''unknown''"
  let ?prev = "dtext std d ''contract_identity'' []"
  let ?last = "parse_at std (dget d ''last_source_at'')"
  define rejection where "rejection = (if provider_identity_conflict sample \<and> ?identity = None
      then Some ''es_contract_identity_provider_conflict''
      else rejection_reason (quote_time std sample) price now ?last)"
  have step: "advance_es_bar_state et std policy (Some d) sample now =
    (case (rejection, quote_time std sample, price) of
       (None, Some s, Some p) \<Rightarrow>
         accept_sample et std policy (contract_reset d ?identity ?prev now) now s p ?provider ?identity ?prev
     | _ \<Rightarrow> with_diagnostic std d now (case rejection of Some r \<Rightarrow> r | None \<Rightarrow> []))"
    unfolding advance_es_bar_state_def Let_def valid price rbind_Inr rejection_def quote_time_def ..
  show ?thesis
  proof (cases rejection)
    case None
    then have none: "rejection_reason (quote_time std sample) price now ?last = None"
      by (auto simp: rejection_def split: if_splits)
    obtain s p where sp: "quote_time std sample = Some s" "price = Some p" "\<not> fle p (Fin 0)"
        "\<And>l. ?last = Some l \<Longrightarrow> l < s" "s \<le> now + future_tolerance"
      using rejected_price [OF none] by blast
    have "price_ok p"
      using finite [OF sp(2)] sp(3) by (auto simp: price_ok_def is_finite_iff)
    moreover have "parse_at std (dget (contract_reset d ?identity ?prev now) ''last_source_at'') = Some l \<Longrightarrow> l < s" for l
      using contract_reset_ok(2) [OF assms(1), of ?identity ?prev now] sp(4) by auto
    moreover have "sampling_era s" "iso_ok std s" "iso_ok std (bucket_start s)"
        "iso_ok std (bucket_start s + interval_seconds * us_per_second)"
      using assms(2) sp(1) by (auto simp: readable_def)
    ultimately obtain d' where d': "accept_sample et std policy (contract_reset d ?identity ?prev now) now s p ?provider ?identity ?prev = Inr d'"
        "state_ok std d'" "dget d' ''last_source_at'' = VStr (isoformat s)"
      using accept_sample_ok [OF contract_reset_ok(1) [OF assms(1)]] by blast
    moreover have "parse_at std (dget d' ''last_source_at'') = Some s"
      using d'(3) \<open>iso_ok std s\<close> by simp
    ultimately show ?thesis
      using sp(4,5) None sp(1,2) unfolding step by (auto split: option.split dest: less_imp_le)
  next
    case (Some r)
    then obtain v where "with_diagnostic std d now r = Inr (dset d ''diagnostics'' v)" "state_ok std (dset d ''diagnostics'' v)"
      using with_diagnostic_ok [OF assms(1)] by blast
    then show ?thesis
      unfolding step Some by (auto split: option.split)
  qed
qed

fun es_run ::
  "(int \<Rightarrow> int) \<Rightarrow> py_std \<Rightarrow> segment_ends \<Rightarrow> pydict \<Rightarrow> (pydict \<times> int) list \<Rightarrow> pydict res" where
  "es_run et std policy d [] = Inr d"
| "es_run et std policy d ((sample, now) # rest) =
     rbind (advance_es_bar_state et std policy (Some d) sample now) (\<lambda>d'. es_run et std policy d' rest)"

text \<open>
  C40: The stored state is well typed and never goes wrong: from the empty state any run of readable
  samples (no price is an int too large for a float, every time lies between 1970 and 2106 and its
  text is read back) ends without an exception in a state where the open bar and every closed bar have positive
  prices with low \<open>\<le>\<close> open, close \<open>\<le>\<close> high, samples inside their five minutes and provider counts
  that add up, where the closed bars are in order without duplicates, and where both tables are bounded.
\<close>

theorem es_state_well_typed:
  assumes "\<forall>(sample, now) \<in> set samples. readable std sample"
  shows "\<exists>d. es_run et std policy empty_bar_state samples = Inr d \<and> state_ok std d"
proof -
  have "\<exists>d'. es_run et std policy d samples = Inr d' \<and> state_ok std d'" if "state_ok std d" for d
    using that assms
  proof (induction samples arbitrary: d)
    case (Cons x samples)
    obtain sample now where x: "x = (sample, now)" by (cases x)
    have "readable std sample" using Cons.prems(2) x by simp
    then obtain d1 where "advance_es_bar_state et std policy (Some d) sample now = Inr d1" "state_ok std d1"
      using es_advance_ok [OF Cons.prems(1)] by blast
    then show ?case
      using Cons.IH [of d1] Cons.prems(2) by (auto simp: x)
  qed simp
  then show ?thesis using empty_state_ok by blast
qed

text \<open>
  Source time never runs backwards: a sample that is not newer than the last accepted one, and every
  other rejected sample, changes nothing but the diagnostics, and the time of the last accepted
  sample only grows.
\<close>

theorem stale_sample_changes_nothing:
  assumes "state_ok std d" "readable std sample" "parse_at std (dget d ''last_source_at'') = Some l"
  shows "\<exists>d'. advance_es_bar_state et std policy (Some d) sample now = Inr d'
    \<and> (\<exists>l'. parse_at std (dget d' ''last_source_at'') = Some l' \<and> l \<le> l')
    \<and> ((\<forall>s. quote_time std sample = Some s \<longrightarrow> s \<le> l \<or> now + future_tolerance < s) \<longrightarrow>
        (\<forall>k. k \<noteq> ''diagnostics'' \<longrightarrow> dget d' k = dget d k))"
proof -
  obtain d' where "advance_es_bar_state et std policy (Some d) sample now = Inr d'"
      "\<exists>l'. parse_at std (dget d' ''last_source_at'') = Some l' \<and> l \<le> l'"
      "(\<exists>s. quote_time std sample = Some s \<and> s \<le> now + future_tolerance \<and> l < s) \<or> (\<exists>v. d' = dset d ''diagnostics'' v)"
    using es_advance_ok [OF assms(1,2), of et policy now] assms(3) by auto
  then show ?thesis
    by (intro exI [of _ d']) auto
qed

subsection \<open>Witnesses\<close>

text \<open>Tuesday 2026-08-25, 14:00 UTC, the start of a bucket.\<close>

definition bar_time :: int where
  "bar_time = combine (ymd 2026 8 25) (hhmm 14 0)"

definition bar_std :: py_std where
  "bar_std = \<lparr>std_str = (\<lambda>_. []), std_float = (\<lambda>_. None),
     std_fromiso = (\<lambda>s. if s = ''2026-08-25T14:00:00+00:00'' then Some (Aware bar_time 0)
        else if s = ''2026-08-25T14:05:00+00:00'' then Some (Aware (bar_time + 300000000) 0) else None),
     std_fmt_g = (\<lambda>_. []), std_sha256 = (\<lambda>_. [])\<rparr>"

definition bar_sample :: pydict where
  "bar_sample = [(''instruments'', VDict [(''future:ES'', VDict [(''source_at'', VStr ''2026-08-25T14:00:00+00:00''),
     (''price'', VFloat (Fin 6400)), (''provider'', VStr ''ibkr'')])])]"

lemma bar_texts:
  "isoformat bar_time = ''2026-08-25T14:00:00+00:00''"
  "isoformat (bar_time + 300000000) = ''2026-08-25T14:05:00+00:00''"
  by code_simp+

lemma bar_iso: "iso_ok bar_std bar_time" "iso_ok bar_std (bar_time + 300000000)"
  unfolding iso_ok_def bar_texts by (simp_all add: bar_std_def)

lemma bar_bucket: "bucket_start bar_time = bar_time"
proof -
  have "bar_time - unix_epoch = 1787666400 * 1000000"
    by code_simp
  then have "total_seconds (bar_time - unix_epoch) = Fin 1787666400"
    using total_seconds_whole [of 1787666400] by simp
  moreover have "bar_time = unix_epoch + 1787666400 * 1000000"
    by code_simp
  ultimately show ?thesis
    by (simp add: bucket_start_def trunc_rat_def interval_seconds_def)
qed

lemma bar_readable: "readable bar_std bar_sample" "quote_time bar_std bar_sample = Some bar_time"
proof -
  have quote: "es_quote bar_sample = [(''source_at'', VStr ''2026-08-25T14:00:00+00:00''), (''price'', VFloat (Fin 6400)),
      (''provider'', VStr ''ibkr'')]"
    by (simp add: es_quote_def bar_sample_def as_mapping_def)
  have t: "parse_at bar_std (VStr ''2026-08-25T14:00:00+00:00'') = Some bar_time"
    using parse_at_iso [OF bar_iso(1)] by (simp add: bar_texts)
  then show time: "quote_time bar_std bar_sample = Some bar_time"
    by (simp add: quote_time_def quote)
  have "sampling_era bar_time" by code_simp
  then show "readable bar_std bar_sample"
    using bar_iso by (simp add: readable_def time bar_bucket quote bar_number_def interval_seconds_def)
qed

theorem es_state_well_typed_witness:
  "\<exists>d. es_run (\<lambda>t. t) bar_std default_segment_ends empty_bar_state [(bar_sample, bar_time), (bar_sample, bar_time)] = Inr d
     \<and> state_ok bar_std d"
  by (rule es_state_well_typed) (simp add: bar_readable)

theorem stale_sample_changes_nothing_witness:
  "\<exists>d d'. advance_es_bar_state (\<lambda>t. t) bar_std default_segment_ends (Some empty_bar_state) bar_sample bar_time = Inr d
     \<and> advance_es_bar_state (\<lambda>t. t) bar_std default_segment_ends (Some d) bar_sample bar_time = Inr d'
     \<and> (\<forall>k. k \<noteq> ''diagnostics'' \<longrightarrow> dget d' k = dget d k)"
proof -
  have accepted: "rejection_reason (Some bar_time) (Some (Fin 6400)) bar_time None = None"
    by (simp add: rejection_reason_def future_tolerance_def)
  have empty: "valid_state (Some empty_bar_state) = empty_bar_state"
    "parse_at bar_std (dget empty_bar_state ''last_source_at'') = None"
    "dtext bar_std empty_bar_state ''contract_identity'' [] = []"
    by (simp_all add: valid_state_def empty_bar_state_def parse_at_def dtext_def)
  have sample: "es_quote bar_sample \<noteq> []" "bar_number (dget (es_quote bar_sample) ''price'') = Inr (Some (Fin 6400))"
    "parse_at bar_std (dget (es_quote bar_sample) ''source_at'') = Some bar_time"
    "contract_identity_of (es_quote bar_sample) = None" "provider_identity_conflict bar_sample = False"
    using bar_readable(2)
    by (simp_all add: quote_time_def es_quote_def bar_sample_def as_mapping_def bar_number_def contract_identity_of_def
        provider_identity_conflict_def split: if_splits)
  have "price_ok (Fin 6400)" by (simp add: price_ok_def)
  then obtain d where d: "accept_sample (\<lambda>t. t) bar_std default_segment_ends empty_bar_state bar_time bar_time (Fin 6400)
        (dtext bar_std (es_quote bar_sample) ''provider'' ''unknown'') None [] = Inr d"
      "state_ok bar_std d" "dget d ''last_source_at'' = VStr (isoformat bar_time)"
    using accept_sample_ok [OF empty_state_ok, of "Fin 6400" bar_time bar_std] bar_iso bar_readable(1,2) empty(2)
    by (fastforce simp: bar_bucket interval_seconds_def readable_def)
  have "advance_es_bar_state (\<lambda>t. t) bar_std default_segment_ends (Some empty_bar_state) bar_sample bar_time = Inr d"
    using d(1) by (simp add: advance_es_bar_state_def Let_def empty sample accepted contract_reset_def)
  moreover have "parse_at bar_std (dget d ''last_source_at'') = Some bar_time"
    using d(3) bar_iso(1) by simp
  ultimately show ?thesis
    using stale_sample_changes_nothing [OF d(2) bar_readable(1), of bar_time "\<lambda>t. t" default_segment_ends bar_time]
      bar_readable(2) by auto
qed

subsection \<open>The seeded history\<close>

definition qualified_row :: "py_std \<Rightarrow> string \<Rightarrow> int \<Rightarrow> pydict \<Rightarrow> bool" where
  "qualified_row std identity now row \<longleftrightarrow>
     is_rth_row row \<and> dget row ''quality'' = VStr ''ok'' \<and> dget row ''contract_identity'' = VStr identity
     \<and> (\<exists>start. parse_at std (dget row ''bar_start'') = Some start
          \<and> parse_at std (dget row ''bar_end'') = Some (start + interval_seconds * us_per_second)
          \<and> start + interval_seconds * us_per_second \<le> now)"

lemma validated_row:
  assumes "validated_seed_bar et std value identity now = Inr row"
  shows "row = compact_rth_bar value"
proof -
  define r where "r = compact_rth_bar value"
  have "row = r"
    using assms unfolding validated_seed_bar_def r_def [symmetric]
    by (auto simp: Let_def rbind_eq_Inr_iff split: option.splits if_splits)
  then show ?thesis by (simp add: r_def)
qed

lemma validated_qualified:
  assumes "validated_seed_bar et std value identity now = Inr row"
  shows "qualified_row std identity now row"
  using assms validated_row [OF assms, symmetric]
  by (simp add: validated_seed_bar_def qualified_row_def is_rth_row_def Let_def split: option.splits if_splits)

lemma qualified_source: "qualified_row std identity now (dset row ''ma_history_source'' v) = qualified_row std identity now row"
  by (simp add: qualified_row_def is_rth_row_def)

lemma validated_rows_qualified:
  "validate_rows et std identity source now starts bars = Inr rows \<Longrightarrow> r \<in> set rows \<Longrightarrow> qualified_row std identity now r"
proof (induction bars arbitrary: starts rows)
  case (Cons b bars)
  then show ?case
    using validated_qualified [of et std b identity now]
    by (auto simp: rbind_eq_Inr_iff Let_def qualified_source split: if_splits)
qed simp

text \<open>
  A seeded history has between 206 and 320 bars, all closed regular-hours bars of the given
  contract, without a gap over sessions; nothing else of the state changes.
\<close>

theorem seeded_history_qualified:
  assumes "seed_rth_ma_history et std previous bars contract now source promote = Inr d'"
  shows "\<exists>d history. previous = Some d \<and> dget d' ''rth_ma_history'' = VList (map VDict history)
    \<and> min_rth_ma_seed_bars \<le> length history \<and> length history \<le> max_rth_ma_bars
    \<and> validate_seed_continuity et std history = Inr ()
    \<and> (\<forall>r \<in> set history. qualified_row std (str_strip contract) now r)
    \<and> (\<forall>k. k \<notin> {''contract_identity'', ''rth_ma_history'', ''diagnostics''} \<longrightarrow> dget d' k = dget d k)"
proof -
  obtain d where d: "previous = Some d"
    using assms by (auto simp: seed_rth_ma_history_def seed_state_ok_def Let_def split: if_splits option.splits)
  obtain history where h: "seeded_history et std d bars (str_strip contract) source now = Inr history"
      "dget d' ''rth_ma_history'' = VList (map VDict history)"
      "\<forall>k. k \<notin> {''contract_identity'', ''rth_ma_history'', ''diagnostics''} \<longrightarrow> dget d' k = dget d k"
    using assms by (auto simp: seed_rth_ma_history_def d Let_def rbind_eq_Inr_iff split: if_splits)
  obtain validated selected stored existing where v:
      "validate_rows et std (str_strip contract) source now [] bars = Inr validated"
      "selected = last_n max_rth_ma_bars (sort_key (bar_key std) validated)"
      "collect_some (keep_existing et std (str_strip contract) now) stored = Inr existing"
      "history = last_n max_rth_ma_bars (merge_bars std selected existing)"
      "min_rth_ma_seed_bars \<le> length history" "validate_seed_continuity et std history = Inr ()"
    using h(1) by (auto simp: seeded_history_def Let_def rbind_eq_Inr_iff not_less)
  have "qualified_row std (str_strip contract) now r" if "r \<in> set existing" for r
  proof -
    obtain x where "keep_existing et std (str_strip contract) now x = Inr (Some r)"
      using collect_some_mem [OF v(3)] \<open>r \<in> set existing\<close> by blast
    then show ?thesis
      using validated_qualified [of et std x "str_strip contract" now]
      by (auto simp: keep_existing_def rbind_eq_Inr_iff split: if_splits)
  qed
  moreover have "set selected \<subseteq> set validated"
    using last_n_set [of max_rth_ma_bars "sort_key (bar_key std) validated"] by (simp add: v(2))
  moreover have "set history \<subseteq> set selected \<union> set existing"
    using last_n_set [of max_rth_ma_bars "merge_bars std selected existing"] merge_bars_set [of std selected existing]
    by (auto simp: v(4))
  ultimately have "\<forall>r \<in> set history. qualified_row std (str_strip contract) now r"
    using validated_rows_qualified [OF v(1)] by blast
  then show ?thesis
    using d h v(4-6) by auto
qed

end
