(* ===== verification/Globex_Trend.thy ===== *)
theory Globex_Trend
  imports Market_Calendar Market_Data Py_Dict
begin

section \<open>The ES trend machine (\<^verbatim>\<open>application/globex_trend/machine.py\<close>, \<^verbatim>\<open>service.py\<close>)\<close>

text \<open>
  The overnight trend of ES: samples, horizon returns, the regime with its confirmation, the
  milestones of an established leg (continuations) and of a session without a leg (advances), and
  the life of an advisory from its delivery to its end. The state is the stored dictionary; instants
  are UTC. The values of a metrics dictionary are floats or absent, as its type annotation says.
\<close>

datatype trend_regime = Neutral | Bearish | Bullish

primrec regime_text :: "trend_regime \<Rightarrow> string" where
  "regime_text Neutral = ''neutral''"
| "regime_text Bearish = ''bearish''"
| "regime_text Bullish = ''bullish''"

text \<open>\<^verbatim>\<open>GlobexTrendRegime(text)\<close>.\<close>

definition regime_of :: "string \<Rightarrow> trend_regime res" where
  "regime_of s =
     (if s = ''neutral'' then Inr Neutral else if s = ''bearish'' then Inr Bearish
      else if s = ''bullish'' then Inr Bullish else Inl (ValueError ''not a valid GlobexTrendRegime''))"

subsection \<open>The policy (\<^verbatim>\<open>settings/globex_trend.py\<close>)\<close>

record trend_policy =
  tp_enabled :: bool
  tp_interval_seconds :: int
  tp_sample_interval :: int
  tp_short_minutes :: int
  tp_medium_minutes :: int
  tp_long_minutes :: int
  tp_short_move :: pyfloat
  tp_medium_move :: pyfloat
  tp_long_move :: pyfloat
  tp_reversal :: pyfloat
  tp_confirmations :: int
  tp_max_quote_age :: pyfloat
  tp_retention_hours :: int
  tp_pending_ttl :: int
  tp_step_points :: pyfloat
  tp_step_confirmations :: int
  tp_cooldown :: int
  tp_max_milestones :: int
  tp_budget :: int

definition default_trend_policy :: trend_policy where
  "default_trend_policy = \<lparr>tp_enabled = True, tp_interval_seconds = 30, tp_sample_interval = 60,
     tp_short_minutes = 15, tp_medium_minutes = 60, tp_long_minutes = 180, tp_short_move = Fin (7 / 2),
     tp_medium_move = Fin 8, tp_long_move = Fin 15, tp_reversal = Fin 10, tp_confirmations = 2,
     tp_max_quote_age = Fin 90, tp_retention_hours = 18, tp_pending_ttl = 300, tp_step_points = Fin 10,
     tp_step_confirmations = 2, tp_cooldown = 1800, tp_max_milestones = 2, tp_budget = 3\<rparr>"

definition trend_policy_post_init :: "trend_policy \<Rightarrow> unit res" where
  "trend_policy_post_init p =
     (let ints = [tp_interval_seconds p, tp_sample_interval p, tp_short_minutes p, tp_medium_minutes p, tp_long_minutes p,
            tp_confirmations p, tp_retention_hours p, tp_pending_ttl p, tp_step_confirmations p, tp_cooldown p,
            tp_max_milestones p, tp_budget p];
          floats = [tp_short_move p, tp_medium_move p, tp_long_move p, tp_reversal p, tp_max_quote_age p, tp_step_points p]
      in if list_ex (\<lambda>n. n \<le> 0) ints \<or> list_ex (\<lambda>x. fle x (Fin 0)) floats
         then Inl (ValueError ''globex trend settings must be positive'')
         else guard_raise (\<not> (tp_short_minutes p < tp_medium_minutes p \<and> tp_medium_minutes p < tp_long_minutes p))
                (ValueError ''globex trend horizons must be strictly increasing''))"

subsection \<open>Reading the state\<close>

abbreviation trend_iso :: "int \<Rightarrow> pyval" where "trend_iso t \<equiv> VStr (isoformat t)"

text \<open>\<^verbatim>\<open>datetime.fromisoformat(text)\<close>, and the difference of an aware instant and such a datetime, which raises for
  a naive one.\<close>

definition trend_fromiso :: "py_std \<Rightarrow> string \<Rightarrow> pydt res" where
  "trend_fromiso std s =
     (case std_fromiso std s of Some t \<Rightarrow> Inr t | None \<Rightarrow> Inl (ValueError ''Invalid isoformat string''))"

definition since :: "pydt \<Rightarrow> pydt \<Rightarrow> int res" where
  "since a b =
     (case (a, b) of
        (Aware w off, Aware w' off') \<Rightarrow> Inr ((w - off) - (w' - off'))
      | (Naive w, Naive w') \<Rightarrow> Inr (w - w')
      | _ \<Rightarrow> Inl (TypeError ''can't subtract offset-naive and offset-aware datetimes''))"

definition row_at :: "py_std \<Rightarrow> pydict \<Rightarrow> pydt res" where
  "row_at std row = rbind (ditem row ''at'') (\<lambda>v. trend_fromiso std (py_str std v))"

definition earlier_by :: "pydt \<Rightarrow> int \<Rightarrow> pydt" where
  "earlier_by t us = (case t of Aware w off \<Rightarrow> Aware (w - us) off | Naive w \<Rightarrow> Naive (w - us))"

text \<open>The value of a metric, a float or \<open>None\<close>.\<close>

definition metric :: "pydict \<Rightarrow> string \<Rightarrow> pyfloat option" where
  "metric d k = (case dget d k of VFloat x \<Rightarrow> Some x | _ \<Rightarrow> None)"

definition metric_value :: "pyfloat option \<Rightarrow> pyval" where
  "metric_value x = (case x of Some v \<Rightarrow> VFloat v | None \<Rightarrow> VNone)"

definition dsetdefault :: "pydict \<Rightarrow> string \<Rightarrow> pyval \<Rightarrow> pydict" where
  "dsetdefault d k v = (if map_of d k = None then dset d k v else d)"

definition trend_samples :: "pydict \<Rightarrow> pydict list" where
  "trend_samples d = (case dget d ''samples'' of VList rows \<Rightarrow> List.map_filter as_dict rows | _ \<Rightarrow> [])"

subsection \<open>Initial state and migration\<close>

definition initial_trend_state :: "string \<Rightarrow> pydict" where
  "initial_trend_state session_id =
     [(''version'', VInt 2), (''session_id'', VStr session_id), (''regime'', VStr ''neutral''), (''candidate_regime'', VNone),
      (''candidate_observations'', VInt 0), (''transition_sequence'', VInt 0), (''regime_started_at'', VNone),
      (''regime_high'', VNone), (''regime_low'', VNone), (''samples'', VList []), (''metrics'', VDict []),
      (''last_transition'', VNone), (''pending_event'', VNone), (''continuation_milestone_index'', VInt 0),
      (''continuation_candidate_index'', VNone), (''continuation_candidate_observations'', VInt 0),
      (''continuation_candidate_provider'', VNone), (''continuation_events_in_context'', VInt 0),
      (''last_continuation_at'', VNone), (''last_continuation'', VNone), (''last_advance'', VNone),
      (''last_advance_at'', VNone), (''advance_milestone_index'', VInt 0), (''advance_candidate_index'', VNone),
      (''advance_candidate_observations'', VInt 0), (''advance_events_in_session'', VInt 0),
      (''pending_directional_advisory_id'', VNone), (''active_directional_advisory_id'', VNone),
      (''active_directional_advisory_accepted_at'', VNone), (''continuation_migration_budget_consumed'', VBool False),
      (''continuation_suppressed_reason'', VNone), (''updated_at'', VNone)]"

definition legacy_reason :: string where
  "legacy_reason = ''legacy_active_context_no_hindsight''"

definition set_missing :: "pydict \<Rightarrow> pydict \<Rightarrow> pydict" where
  "set_missing d kvs = foldl (\<lambda>a (k, v). dsetdefault a k v) d kvs"

definition advance_defaults :: pydict where
  "advance_defaults =
     [(''last_continuation'', VNone), (''last_advance'', VNone), (''last_advance_at'', VNone),
      (''advance_milestone_index'', VInt 0), (''advance_candidate_index'', VNone),
      (''advance_candidate_observations'', VInt 0), (''advance_events_in_session'', VInt 0),
      (''pending_directional_advisory_id'', VNone), (''active_directional_advisory_id'', VNone),
      (''active_directional_advisory_accepted_at'', VNone)]"

text \<open>\<^verbatim>\<open>state.get("regime") in {...}\<close> raises for a value that cannot be hashed.\<close>

definition directed_regime :: "pyval \<Rightarrow> bool res" where
  "directed_regime v =
     (case v of VDict _ \<Rightarrow> Inl (TypeError ''unhashable type'') | VList _ \<Rightarrow> Inl (TypeError ''unhashable type'')
      | _ \<Rightarrow> Inr (v = VStr ''bullish'' \<or> v = VStr ''bearish''))"

definition migrate_continuation_state :: "trend_policy \<Rightarrow> pydict \<Rightarrow> pydict res" where
  "migrate_continuation_state p d =
     (if map_of d ''continuation_milestone_index'' \<noteq> None then
        (let d = set_missing d advance_defaults in
         rbind (if dget d ''continuation_suppressed_reason'' = VStr legacy_reason
                then rbind (int_or_0 (dget d ''continuation_events_in_context'')) (\<lambda>n. Inr (n \<ge> tp_budget p))
                else Inr False) (\<lambda>spent.
           Inr (dsetdefault d ''continuation_migration_budget_consumed'' (VBool spent))))
      else
        rbind (directed_regime (dget d ''regime'')) (\<lambda>directed.
          let active = (directed \<and> is_dict (dget d ''last_transition''));
              consumed = (if active then tp_budget p else 0) in
          Inr (dmerge d
            [(''version'', VInt 2), (''continuation_milestone_index'', VInt consumed),
             (''continuation_candidate_index'', VNone), (''continuation_candidate_observations'', VInt 0),
             (''continuation_candidate_provider'', VNone), (''continuation_events_in_context'', VInt consumed),
             (''last_continuation_at'', VNone), (''last_continuation'', VNone), (''last_advance'', VNone),
             (''last_advance_at'', VNone), (''advance_milestone_index'', VInt 0), (''advance_candidate_index'', VNone),
             (''advance_candidate_observations'', VInt 0), (''advance_events_in_session'', VInt 0),
             (''pending_directional_advisory_id'', VNone), (''active_directional_advisory_id'', VNone),
             (''active_directional_advisory_accepted_at'', VNone),
             (''continuation_migration_budget_consumed'', VBool active),
             (''continuation_suppressed_reason'', if active then VStr legacy_reason else VNone)])))"

subsection \<open>Metrics and the target regime\<close>

fun collect_res :: "('a \<Rightarrow> 'b res) \<Rightarrow> 'a list \<Rightarrow> 'b list res" where
  "collect_res f [] = Inr []"
| "collect_res f (x # xs) = rbind (f x) (\<lambda>y. rbind (collect_res f xs) (\<lambda>ys. Inr (y # ys)))"

text \<open>\<^verbatim>\<open>[row for row in rows if test(row)]\<close>, where the test may raise.\<close>

fun filter_res :: "('a \<Rightarrow> bool res) \<Rightarrow> 'a list \<Rightarrow> 'a list res" where
  "filter_res f [] = Inr []"
| "filter_res f (x # xs) =
     rbind (f x) (\<lambda>b. rbind (filter_res f xs) (\<lambda>ys. Inr (if b then x # ys else ys)))"

definition reaches_target :: "py_std \<Rightarrow> pydt \<Rightarrow> pydict \<Rightarrow> bool res" where
  "reaches_target std target row = rbind (row_at std row) (\<lambda>t. rbind (since target t) (\<lambda>us. Inr (us \<ge> 0)))"

text \<open>\<^verbatim>\<open>max(rows, key=at)\<close>: the first row with the largest time.\<close>

fun latest_row :: "py_std \<Rightarrow> pydict \<times> pydt \<Rightarrow> pydict list \<Rightarrow> (pydict \<times> pydt) res" where
  "latest_row std best [] = Inr best"
| "latest_row std best (row # rows) =
     rbind (row_at std row) (\<lambda>t. rbind (since t (snd best)) (\<lambda>us.
       latest_row std (if us > 0 then (row, t) else best) rows))"

definition horizon_tolerance :: "int \<Rightarrow> pyfloat res" where
  "horizon_tolerance minutes =
     rbind (float_of_int minutes) (\<lambda>m. Inr (fmax (Fin 180) (fmul (fmul m (Fin 60)) (rne (1 / 5)))))"

definition horizon_return :: "py_std \<Rightarrow> pydict list \<Rightarrow> pydt \<Rightarrow> pyfloat \<Rightarrow> int \<Rightarrow> pyfloat option res" where
  "horizon_return std samples now price minutes =
     (let target = earlier_by now (minutes * 60 * us_per_second) in
      rbind (filter_res (reaches_target std target) (butlast samples)) (\<lambda>candidates.
        case candidates of
          [] \<Rightarrow> Inr None
        | row # rows \<Rightarrow>
            rbind (row_at std row) (\<lambda>t. rbind (latest_row std (row, t) rows) (\<lambda>(reference, reference_at).
              rbind (horizon_tolerance minutes) (\<lambda>tolerance. rbind (since target reference_at) (\<lambda>us.
                if flt tolerance (total_seconds us) then Inr None
                else rbind (dfloat std reference ''price'') (\<lambda>x. Inr (Some (fsub price x)))))))))"

definition compute_metrics :: "py_std \<Rightarrow> trend_policy \<Rightarrow> pydict list \<Rightarrow> pydict res" where
  "compute_metrics std p samples =
     (if samples = [] then Inr []
      else let latest = last samples in
        rbind (row_at std latest) (\<lambda>now. rbind (dfloat std latest ''price'') (\<lambda>price.
        rbind (collect_res (\<lambda>row. dfloat std row ''price'') samples) (\<lambda>prices.
        rbind (horizon_return std samples now price (tp_short_minutes p)) (\<lambda>short.
        rbind (horizon_return std samples now price (tp_medium_minutes p)) (\<lambda>medium.
        rbind (horizon_return std samples now price (tp_long_minutes p)) (\<lambda>long.
          let high = foldl fmax (hd prices) (tl prices); low = foldl fmin (hd prices) (tl prices) in
          Inr [(''price'', VFloat price), (''return_15m_points'', metric_value short),
               (''return_60m_points'', metric_value medium), (''return_180m_points'', metric_value long),
               (''session_high'', VFloat high), (''session_low'', VFloat low),
               (''drawdown_from_high_points'', VFloat (fsub price high)),
               (''rebound_from_low_points'', VFloat (fsub price low))])))))))"

definition at_least :: "pyfloat option \<Rightarrow> pyfloat \<Rightarrow> bool" where
  "at_least x b = (case x of Some v \<Rightarrow> fle b v | None \<Rightarrow> False)"

definition at_most :: "pyfloat option \<Rightarrow> pyfloat \<Rightarrow> bool" where
  "at_most x b = (case x of Some v \<Rightarrow> fle v b | None \<Rightarrow> False)"

definition target_regime :: "trend_policy \<Rightarrow> trend_regime \<Rightarrow> pydict \<Rightarrow> (trend_regime \<times> string) option" where
  "target_regime p regime metrics =
     (let short = metric metrics ''return_15m_points''; medium = metric metrics ''return_60m_points'';
          long = metric metrics ''return_180m_points'';
          rebound = metric metrics ''rebound_from_regime_low_points'';
          drawdown = metric metrics ''drawdown_from_regime_high_points'' in
      if regime = Bearish \<and> at_least short (tp_short_move p) \<and> at_least rebound (tp_reversal p)
      then Some (Bullish, ''confirmed_reversal_from_regime_low'')
      else if regime = Bullish \<and> at_most short (fneg (tp_short_move p)) \<and> at_most drawdown (fneg (tp_reversal p))
      then Some (Bearish, ''confirmed_reversal_from_regime_high'')
      else if regime \<noteq> Neutral then None
      else if medium = None \<and> long = None \<and> at_most short (fneg (tp_short_move p))
      then Some (Bearish, ''initial_short_impulse'')
      else if medium = None \<and> long = None \<and> at_least short (tp_short_move p)
      then Some (Bullish, ''initial_short_impulse'')
      else if (at_most medium (fneg (tp_medium_move p)) \<or> at_most long (fneg (tp_long_move p)))
           \<and> (short = None \<or> at_most short (Fin 0))
      then Some (Bearish, ''multi_horizon_downtrend'')
      else if (at_least medium (tp_medium_move p) \<or> at_least long (tp_long_move p))
           \<and> (short = None \<or> at_least short (Fin 0))
      then Some (Bullish, ''multi_horizon_uptrend'')
      else None)"

definition widen :: "py_std \<Rightarrow> (pyfloat \<Rightarrow> pyfloat \<Rightarrow> pyfloat) \<Rightarrow> pyval \<Rightarrow> pyfloat \<Rightarrow> pyfloat res" where
  "widen std pick v price = (if is_number v then rbind (py_float std v) (\<lambda>x. Inr (pick x price)) else Inr price)"

definition update_regime_extrema :: "py_std \<Rightarrow> pydict \<Rightarrow> pyfloat \<Rightarrow> pydict res" where
  "update_regime_extrema std d price =
     rbind (widen std fmax (dget d ''regime_high'') price) (\<lambda>high.
     rbind (widen std fmin (dget d ''regime_low'') price) (\<lambda>low.
       Inr (dmerge d [(''regime_high'', VFloat high), (''regime_low'', VFloat low)])))"


subsection \<open>Milestones\<close>

definition advisory_contract_version :: string where
  "advisory_contract_version = ''gth_directional_advisory.v1''"

definition hold_buffer :: pyfloat where "hold_buffer = Fin (3 / 2)"

definition reset_advance :: "pydict \<Rightarrow> pydict" where
  "reset_advance d = dmerge d [(''advance_candidate_index'', VNone), (''advance_candidate_observations'', VInt 0)]"

definition reset_continuation :: "pydict \<Rightarrow> pydict" where
  "reset_continuation d = dmerge d [(''continuation_candidate_index'', VNone),
     (''continuation_candidate_observations'', VInt 0), (''continuation_candidate_provider'', VNone)]"

text \<open>\<^verbatim>\<open>policy.continuation_step_points * milestone_index\<close>.\<close>

definition milestone_points :: "trend_policy \<Rightarrow> int \<Rightarrow> pyfloat res" where
  "milestone_points p m = rbind (float_of_int m) (\<lambda>x. Inr (fmul (tp_step_points p) x))"

text \<open>The cooldown since the last event; a stored text that is not a timestamp does not hold it.\<close>

definition cooling_down :: "py_std \<Rightarrow> trend_policy \<Rightarrow> pyval \<Rightarrow> int \<Rightarrow> bool res" where
  "cooling_down std p last_at now =
     (case last_at of
        VStr s \<Rightarrow>
          (case std_fromiso std s of
             None \<Rightarrow> Inr False
           | Some t \<Rightarrow> rbind (since (Aware now 0) t) (\<lambda>us. Inr (flt (total_seconds us) (Fin (of_int (tp_cooldown p))))))
      | _ \<Rightarrow> Inr False)"

text \<open>Observations of a milestone in a row: \<^verbatim>\<open>state[count_key] + 1\<close> while the candidate stays the same.\<close>

definition candidate_count :: "pydict \<Rightarrow> string \<Rightarrow> string \<Rightarrow> int \<Rightarrow> int res" where
  "candidate_count d index_key count_key m =
     (if eq_int (dget d index_key) m then rbind (int_or_0 (dget d count_key)) (\<lambda>n. Inr (n + 1)) else Inr 1)"

definition block_reasons :: pyval where
  "block_reasons = VList [VStr ''gth_directional_advisory_only'', VStr ''exact_same_coordinate_option_expression_required'',
     VStr ''rth_trade_ready_authority_not_reused'']"

definition es_coordinate :: pyval where
  "es_coordinate = VDict [(''kind'', VStr ''future''), (''instrument_id'', VStr ''future:ES'')]"

definition direction_text :: "bool \<Rightarrow> string" where
  "direction_text up = (if up then ''up'' else ''down'')"

definition right_text :: "bool \<Rightarrow> string" where
  "right_text up = (if up then ''C'' else ''P'')"

definition setup_action :: "bool \<Rightarrow> string" where
  "setup_action up = (if up then ''evaluate_call_setup'' else ''evaluate_put_setup'')"

subsection \<open>A session without a leg: advances\<close>

definition nonneg_or_none :: "pyfloat option \<Rightarrow> bool" where
  "nonneg_or_none x = (x = None \<or> at_least x (Fin 0))"

definition nonpos_or_none :: "pyfloat option \<Rightarrow> bool" where
  "nonpos_or_none x = (x = None \<or> at_most x (Fin 0))"

text \<open>Direction, extension and anchor of a grind that holds the session extreme.\<close>

definition grind_of :: "trend_policy \<Rightarrow> pydict \<Rightarrow> pyfloat \<Rightarrow> pyfloat \<Rightarrow> pyfloat \<Rightarrow> pyfloat \<Rightarrow> (bool \<times> pyfloat \<times> pyfloat) option" where
  "grind_of p metrics price high low short =
     (let medium = metric metrics ''return_60m_points''; long = metric metrics ''return_180m_points'';
          rebound = fsub price low; drawdown = fsub high price in
      if fle (Fin 0) short \<and> nonneg_or_none medium \<and> nonneg_or_none long
         \<and> fle (tp_step_points p) rebound \<and> fle drawdown hold_buffer
      then Some (True, rebound, low)
      else if fle short (Fin 0) \<and> nonpos_or_none medium \<and> nonpos_or_none long
         \<and> fle (tp_step_points p) drawdown \<and> fle rebound hold_buffer
      then Some (False, drawdown, high)
      else None)"

definition advance_event ::
  "string \<Rightarrow> bool \<Rightarrow> int \<Rightarrow> pyfloat \<Rightarrow> pyfloat \<Rightarrow> pyfloat \<Rightarrow> int \<Rightarrow> int \<Rightarrow> pyfloat \<Rightarrow> string \<Rightarrow> pydict \<Rightarrow> pydict" where
  "advance_event sid up m anchor extension threshold now source_at price provider metrics =
     [(''event_type'', VStr ''advance''),
      (''event_id'', VStr (''globex-advance:'' @ sid @ '':'' @ direction_text up @ '':m'' @ dec_int m)),
      (''session_id'', VStr sid), (''sequence'', VInt m), (''regime'', VStr (if up then ''bullish'' else ''bearish'')),
      (''direction'', VStr (direction_text up)), (''milestone_index'', VInt m), (''anchor_price'', VFloat anchor),
      (''extension_points'', VFloat extension), (''threshold_points'', VFloat threshold), (''at'', trend_iso now),
      (''source_at'', trend_iso source_at), (''price'', VFloat price), (''provider'', VStr provider),
      (''metrics'', VDict metrics), (''advisory_contract_version'', VStr advisory_contract_version),
      (''advisory_id'', VStr (''gth-advance:'' @ sid @ '':'' @ direction_text up @ '':m'' @ dec_int m)),
      (''advisory_status'', VStr ''advisory_ready''), (''signal_stage'', VStr ''entry_advisory''),
      (''option_right'', VStr (right_text up)), (''direction_source'', VStr ''session_extreme_hold''),
      (''signal_coordinate'', es_coordinate), (''option_coordinate_status'', VStr ''not_authorized_from_es_direction''),
      (''quote_attachment_status'', VStr ''direction_only''), (''parent_advisory_id'', VNone), (''contract_id'', VNone),
      (''entry_limit'', VNone), (''execution_eligible'', VBool False), (''automatic_ordering'', VBool False),
      (''operator_action'', VStr (setup_action up)), (''execution_block_reasons'', block_reasons),
      (''operator_action_note'', VStr ''gth_trend_advance'')]"

definition count_advance ::
  "py_std \<Rightarrow> trend_policy \<Rightarrow> pydict \<Rightarrow> int \<Rightarrow> pyfloat \<Rightarrow> string \<Rightarrow> int \<Rightarrow> pydict \<Rightarrow> bool \<times> pyfloat \<times> pyfloat \<Rightarrow> int \<Rightarrow> pyfloat \<Rightarrow>
     (pydict \<times> pydict option) res" where
  "count_advance std p d now price provider source_at metrics grind m threshold =
     (let (up, extension, anchor) = grind in
      rbind (candidate_count d ''advance_candidate_index'' ''advance_candidate_observations'' m) (\<lambda>n.
        let d = dmerge d [(''advance_candidate_index'', VInt m), (''advance_candidate_observations'', VInt n)] in
        if n < tp_step_confirmations p then Inr (d, None)
        else rbind (ditem d ''session_id'') (\<lambda>sid.
          let event = advance_event (py_str std sid) up m anchor extension threshold now source_at price provider metrics in
          rbind (int_or_0 (dget d ''advance_events_in_session'')) (\<lambda>k.
            Inr (reset_advance (dmerge d
                   [(''advance_milestone_index'', VInt m), (''advance_events_in_session'', VInt (k + 1)),
                    (''last_advance_at'', trend_iso now), (''last_advance'', VDict event), (''pending_event'', VDict event)]),
                 Some event)))))"

definition advance_session_trend ::
  "py_std \<Rightarrow> trend_policy \<Rightarrow> pydict \<Rightarrow> int \<Rightarrow> pyfloat \<Rightarrow> string \<Rightarrow> int \<Rightarrow> bool \<Rightarrow> (pydict \<times> pydict option) res" where
  "advance_session_trend std p d now price provider source_at allowed =
     (let metrics = (case dget d ''metrics'' of VDict m \<Rightarrow> m | _ \<Rightarrow> []);
          idle = Inr (reset_advance d, None) in
      case (metric metrics ''session_high'', metric metrics ''session_low'', metric metrics ''return_15m_points'') of
        (Some high, Some low, Some short) \<Rightarrow>
          rbind (int_or_0 (dget d ''advance_events_in_session'')) (\<lambda>used.
          if used \<ge> tp_budget p then idle
          else (case grind_of p metrics price high low short of
              None \<Rightarrow> idle
            | Some (up, extension, anchor) \<Rightarrow>
                rbind (cooling_down std p (dget d ''last_advance_at'') now) (\<lambda>cooling.
                if cooling then idle
                else rbind (int_or_0 (dget d ''advance_milestone_index'')) (\<lambda>i.
                  rbind (milestone_points p (i + 1)) (\<lambda>threshold.
                  if flt extension threshold then idle
                  else if \<not> allowed then Inr (reset_advance (dset d ''advance_milestone_index'' (VInt (i + 1))), None)
                  else count_advance std p d now price provider source_at metrics (up, extension, anchor) (i + 1) threshold)))))
      | _ \<Rightarrow> idle)"

subsection \<open>An established leg: continuations\<close>

definition continuation_event ::
  "string \<Rightarrow> string \<Rightarrow> pyval \<Rightarrow> trend_regime \<Rightarrow> int \<Rightarrow> string option \<Rightarrow> pyfloat \<Rightarrow> pyfloat \<Rightarrow> pyfloat \<Rightarrow> int \<Rightarrow> int \<Rightarrow> pyfloat \<Rightarrow>
     string \<Rightarrow> pydict \<Rightarrow> pydict" where
  "continuation_event sid seq_text seq regime m parent anchor extension threshold now source_at price provider metrics =
     (let up = (regime = Bullish) in
     [(''event_type'', VStr ''continuation''),
      (''event_id'', VStr (''globex-cont:'' @ sid @ '':'' @ seq_text @ '':'' @ direction_text up @ '':m'' @ dec_int m)),
      (''session_id'', VStr sid), (''sequence'', seq), (''regime'', VStr (regime_text regime)),
      (''direction'', VStr (direction_text up)), (''milestone_index'', VInt m), (''anchor_price'', VFloat anchor),
      (''extension_points'', VFloat extension), (''threshold_points'', VFloat threshold), (''at'', trend_iso now),
      (''source_at'', trend_iso source_at), (''price'', VFloat price), (''provider'', VStr provider),
      (''metrics'', VDict metrics), (''advisory_contract_version'', VStr advisory_contract_version),
      (''advisory_id'', VStr (''gth-advisory:'' @ sid @ '':'' @ seq_text @ '':'' @ direction_text up)),
      (''advisory_status'', VStr ''advisory_ready''),
      (''signal_stage'', VStr (if m = 1 then ''entry_advisory'' else ''opportunity_management'')),
      (''option_right'', VStr (right_text up)), (''direction_source'', VStr ''direct_live_es''),
      (''signal_coordinate'', es_coordinate), (''option_coordinate_status'', VStr ''not_authorized_from_es_direction''),
      (''quote_attachment_status'', VStr ''direction_only''),
      (''parent_advisory_id'', case parent of Some a \<Rightarrow> VStr a | None \<Rightarrow> VNone), (''contract_id'', VNone),
      (''entry_limit'', VNone), (''execution_eligible'', VBool False), (''automatic_ordering'', VBool False),
      (''operator_action'', VStr (if m = 1 then setup_action up else ''conditional_take_profit_or_raise_stop'')),
      (''execution_block_reasons'', block_reasons)])"

text \<open>\<^verbatim>\<open>dict(state.get("metrics") or {})\<close>.\<close>

definition copied_metrics :: "pydict \<Rightarrow> pydict res" where
  "copied_metrics d =
     (case vor (dget d ''metrics'') (VDict []) of VDict m \<Rightarrow> Inr m | _ \<Rightarrow> Inl (TypeError ''cannot convert to a dict''))"

definition is_py_int :: "pyval \<Rightarrow> bool" where
  "is_py_int v = (case v of VInt _ \<Rightarrow> True | VBool _ \<Rightarrow> True | _ \<Rightarrow> False)"

definition emit_continuation ::
  "py_std \<Rightarrow> pydict \<Rightarrow> string option \<Rightarrow> int \<Rightarrow> pyfloat \<Rightarrow> string \<Rightarrow> int \<Rightarrow> trend_regime \<Rightarrow> pyval \<Rightarrow> pyfloat \<Rightarrow> pyfloat \<Rightarrow>
     pyfloat \<Rightarrow> int \<Rightarrow> (pydict \<times> pydict option) res" where
  "emit_continuation std d parent now price provider source_at regime seq anchor extension threshold m =
     rbind (ditem d ''session_id'') (\<lambda>sid_value. rbind (copied_metrics d) (\<lambda>metrics.
     rbind (int_or_0 (dget d ''continuation_events_in_context'')) (\<lambda>used.
       let sid = py_str std sid_value; seq_text = py_str std seq;
           event = continuation_event sid seq_text seq regime m parent anchor extension threshold now source_at price provider
                     metrics;
           d = (if m = 1
                then dset d ''pending_directional_advisory_id''
                       (VStr (''gth-advisory:'' @ sid @ '':'' @ seq_text @ '':'' @ direction_text (regime = Bullish)))
                else d)
       in Inr (reset_continuation (dmerge d
              [(''continuation_milestone_index'', VInt m), (''continuation_events_in_context'', VInt (used + 1)),
               (''last_continuation_at'', trend_iso now), (''last_continuation'', VDict event),
               (''continuation_suppressed_reason'', VNone), (''pending_event'', VDict event)]), Some event))))"

definition count_continuation ::
  "py_std \<Rightarrow> trend_policy \<Rightarrow> pydict \<Rightarrow> int \<Rightarrow> pyfloat \<Rightarrow> string \<Rightarrow> int \<Rightarrow> trend_regime \<Rightarrow> pyval \<Rightarrow> pyfloat \<Rightarrow> pyfloat \<Rightarrow>
     pyfloat \<Rightarrow> int \<Rightarrow> (pydict \<times> pydict option) res" where
  "count_continuation std p d now price provider source_at regime seq anchor extension threshold m =
     rbind (candidate_count d ''continuation_candidate_index'' ''continuation_candidate_observations'' m) (\<lambda>n.
       let d = dmerge d [(''continuation_candidate_index'', VInt m), (''continuation_candidate_observations'', VInt n),
                         (''continuation_candidate_provider'', VStr provider)];
           parent = dtext std d ''active_directional_advisory_id'' [] in
       if n < tp_step_confirmations p then Inr (d, None)
       else if m = 1 then emit_continuation std d None now price provider source_at regime seq anchor extension threshold m
       else if parent = []
       then Inr (reset_continuation (dset d ''continuation_suppressed_reason'' (VStr ''management_without_accepted_entry_advisory'')),
                 None)
       else emit_continuation std d (Some parent) now price provider source_at regime seq anchor extension threshold m)"

text \<open>\<^verbatim>\<open>int(state.get(key) or 0) >= limit\<close> for the two limits, the second only when the first does not hold.\<close>

definition continuation_spent :: "trend_policy \<Rightarrow> pydict \<Rightarrow> bool res" where
  "continuation_spent p d =
     rbind (int_or_0 (dget d ''continuation_events_in_context'')) (\<lambda>used.
       if used \<ge> tp_budget p then Inr True
       else rbind (int_or_0 (dget d ''continuation_milestone_index'')) (\<lambda>i. Inr (i \<ge> tp_max_milestones p)))"

definition advance_continuation ::
  "py_std \<Rightarrow> trend_policy \<Rightarrow> pydict \<Rightarrow> int \<Rightarrow> pyfloat \<Rightarrow> string \<Rightarrow> int \<Rightarrow> trend_regime \<Rightarrow> bool \<Rightarrow> (pydict \<times> pydict option) res" where
  "advance_continuation std p d now price provider source_at regime allowed =
     (let idle = Inr (reset_continuation d, None) in
      case dget d ''last_transition'' of
        VDict transition \<Rightarrow>
          if regime = Neutral then idle
          else rbind (continuation_spent p d) (\<lambda>spent.
          if spent then idle
          else let seq = dget transition ''sequence'' in
            if \<not> is_number (dget transition ''price'') \<or> \<not> is_py_int seq then idle
            else rbind (int_or_0 (dget d ''continuation_milestone_index'')) (\<lambda>i.
              rbind (py_float std (dget transition ''price'')) (\<lambda>anchor.
              rbind (milestone_points p (i + 1)) (\<lambda>threshold.
                let extension = (if regime = Bullish then fsub price anchor else fsub anchor price) in
                if \<not> fle threshold extension then idle
                else rbind (cooling_down std p (dget d ''last_continuation_at'') now) (\<lambda>cooling.
                  if cooling then idle
                  else if \<not> allowed
                  then Inr (reset_continuation (dmerge d [(''continuation_milestone_index'', VInt (i + 1)),
                         (''continuation_suppressed_reason'', VStr ''continuation_gate_closed'')]), None)
                  else count_continuation std p d now price provider source_at regime seq anchor extension threshold (i + 1))))))
      | _ \<Rightarrow> idle)"


subsection \<open>One sample\<close>

text \<open>A repeated source time, or a sample before the interval has passed, is not recorded.\<close>

definition sample_skipped :: "py_std \<Rightarrow> trend_policy \<Rightarrow> pydict list \<Rightarrow> int \<Rightarrow> int \<Rightarrow> bool res" where
  "sample_skipped std p samples now source_at =
     (if samples = [] then Inr False
      else if py_str std (dget (last samples) ''source_at'') = isoformat source_at then Inr True
      else rbind (row_at std (last samples)) (\<lambda>t. rbind (since (Aware now 0) t) (\<lambda>us.
        Inr (flt (total_seconds us) (Fin (of_int (tp_sample_interval p)))))))"

definition new_sample :: "int \<Rightarrow> int \<Rightarrow> pyfloat \<Rightarrow> string \<Rightarrow> pydict" where
  "new_sample now source_at price provider =
     [(''at'', trend_iso now), (''source_at'', trend_iso source_at), (''price'', VFloat price), (''provider'', VStr provider)]"

definition retained :: "py_std \<Rightarrow> trend_policy \<Rightarrow> int \<Rightarrow> pydict \<Rightarrow> bool res" where
  "retained std p now row =
     rbind (row_at std row) (\<lambda>t. rbind (since t (Aware (now - tp_retention_hours p * 3600 * us_per_second) 0)) (\<lambda>us.
       Inr (us \<ge> 0)))"

text \<open>The samples, the metrics and the extremes of the leg after a sample.\<close>

definition record_sample ::
  "py_std \<Rightarrow> trend_policy \<Rightarrow> pydict \<Rightarrow> int \<Rightarrow> int \<Rightarrow> pyfloat \<Rightarrow> string \<Rightarrow> (pydict \<times> pydict) res" where
  "record_sample std p d now source_at price provider =
     rbind (filter_res (retained std p now) (trend_samples d @ [new_sample now source_at price provider])) (\<lambda>samples.
     rbind (compute_metrics std p samples) (\<lambda>metrics.
     rbind (update_regime_extrema std (dset d ''samples'' (VList (map VDict samples))) price) (\<lambda>d.
     rbind (dfloat std d ''regime_high'') (\<lambda>high. rbind (dfloat std d ''regime_low'') (\<lambda>low.
       let metrics = dmerge metrics
             [(''regime_high'', dget d ''regime_high''), (''regime_low'', dget d ''regime_low''),
              (''drawdown_from_regime_high_points'', VFloat (fsub price high)),
              (''rebound_from_regime_low_points'', VFloat (fsub price low))]
       in Inr (dmerge d [(''metrics'', VDict metrics), (''updated_at'', trend_iso now)], metrics))))))"

definition transition_event ::
  "string \<Rightarrow> int \<Rightarrow> trend_regime \<Rightarrow> trend_regime \<Rightarrow> string \<Rightarrow> int \<Rightarrow> int \<Rightarrow> pyfloat \<Rightarrow> string \<Rightarrow> pydict \<Rightarrow> string \<Rightarrow> pydict" where
  "transition_event sid n from_regime target reason now source_at price provider metrics invalidated =
     [(''event_type'', VStr ''transition''),
      (''event_id'', VStr (''globex-trend:'' @ sid @ '':'' @ dec_int n @ '':'' @ regime_text target)),
      (''session_id'', VStr sid), (''sequence'', VInt n), (''from_regime'', VStr (regime_text from_regime)),
      (''to_regime'', VStr (regime_text target)), (''reason'', VStr reason), (''at'', trend_iso now),
      (''source_at'', trend_iso source_at), (''price'', VFloat price), (''provider'', VStr provider),
      (''metrics'', VDict metrics), (''automatic_ordering'', VBool False), (''operator_action'', VStr ''observe_only''),
      (''invalidated_advisory_id'', if invalidated = [] then VNone else VStr invalidated),
      (''advisory_lifecycle_action'', if invalidated = [] then VNone else VStr ''invalidated'')]"

definition enter_regime :: "pydict \<Rightarrow> trend_regime \<Rightarrow> int \<Rightarrow> int \<Rightarrow> pyfloat \<Rightarrow> pydict \<Rightarrow> pydict" where
  "enter_regime d target n now price event =
     (let d = dmerge d [(''regime'', VStr (regime_text target)), (''candidate_regime'', VNone),
                (''candidate_observations'', VInt 0), (''transition_sequence'', VInt n), (''regime_started_at'', trend_iso now),
                (''regime_high'', VFloat price), (''regime_low'', VFloat price), (''last_transition'', VDict event),
                (''pending_event'', VDict event), (''continuation_milestone_index'', VInt 0)];
          d = dmerge (reset_continuation d) [(''last_continuation_at'', VNone), (''pending_directional_advisory_id'', VNone),
                (''active_directional_advisory_id'', VNone), (''active_directional_advisory_accepted_at'', VNone)];
          d = (if dget d ''continuation_migration_budget_consumed'' = VBool True
               then dmerge d [(''continuation_events_in_context'', VInt 0),
                              (''continuation_migration_budget_consumed'', VBool False)]
               else d)
      in dset d ''continuation_suppressed_reason'' VNone)"

text \<open>A sample that points to another regime: the candidate is counted, and confirmed when it was seen often enough in a row.\<close>

definition count_candidate ::
  "py_std \<Rightarrow> trend_policy \<Rightarrow> pydict \<Rightarrow> string \<Rightarrow> int \<Rightarrow> int \<Rightarrow> pyfloat \<Rightarrow> string \<Rightarrow> pydict \<Rightarrow> trend_regime \<Rightarrow> trend_regime \<Rightarrow> string \<Rightarrow>
     (pydict \<times> pydict option) res" where
  "count_candidate std p d session_id now source_at price provider metrics regime target reason =
     (let d = reset_continuation d in
      rbind (if dget d ''candidate_regime'' = VStr (regime_text target)
             then rbind (int_or_0 (dget d ''candidate_observations'')) (\<lambda>n. Inr (n + 1)) else Inr 1) (\<lambda>observations.
        let d = dmerge d [(''candidate_regime'', VStr (regime_text target)), (''candidate_observations'', VInt observations)] in
        if observations < tp_confirmations p then Inr (d, None)
        else rbind (int_or_0 (dget d ''transition_sequence'')) (\<lambda>sequence.
          let event = transition_event session_id (sequence + 1) regime target reason now source_at price provider metrics
                        (dtext std d ''active_directional_advisory_id'' [])
          in Inr (enter_regime d target (sequence + 1) now price event, Some event))))"

text \<open>A sample that confirms the regime: the candidate is dropped and the milestones are looked at.\<close>

definition hold_regime ::
  "py_std \<Rightarrow> trend_policy \<Rightarrow> pydict \<Rightarrow> int \<Rightarrow> int \<Rightarrow> pyfloat \<Rightarrow> string \<Rightarrow> trend_regime \<Rightarrow> bool \<Rightarrow> (pydict \<times> pydict option) res" where
  "hold_regime std p d now source_at price provider regime allowed =
     (let d = dmerge d [(''candidate_regime'', VNone), (''candidate_observations'', VInt 0)] in
      if regime = Neutral then advance_session_trend std p d now price provider source_at allowed
      else advance_continuation std p d now price provider source_at regime allowed)"

definition accept_trend_sample ::
  "py_std \<Rightarrow> trend_policy \<Rightarrow> pydict \<Rightarrow> string \<Rightarrow> int \<Rightarrow> pyfloat \<Rightarrow> string \<Rightarrow> int \<Rightarrow> bool \<Rightarrow> (pydict \<times> pydict option) res" where
  "accept_trend_sample std p d session_id now price provider source_at allowed =
     rbind (record_sample std p d now source_at price provider) (\<lambda>(d, metrics).
     rbind (regime_of (dtext std d ''regime'' ''neutral'')) (\<lambda>regime.
       case target_regime p regime metrics of
         None \<Rightarrow> hold_regime std p d now source_at price provider regime allowed
       | Some (target, reason) \<Rightarrow>
           if target = regime then hold_regime std p d now source_at price provider regime allowed
           else count_candidate std p d session_id now source_at price provider metrics regime target reason))"

definition session_state :: "pydict \<Rightarrow> string \<Rightarrow> pydict" where
  "session_state d session_id =
     (if dget d ''session_id'' = VStr session_id then d else initial_trend_state session_id)"

definition advance_trend_state ::
  "py_std \<Rightarrow> trend_policy \<Rightarrow> pydict \<Rightarrow> string \<Rightarrow> int \<Rightarrow> pyfloat \<Rightarrow> string \<Rightarrow> int \<Rightarrow> bool \<Rightarrow> (pydict \<times> pydict option) res" where
  "advance_trend_state std p d session_id now price provider source_at allowed =
     rbind (migrate_continuation_state p (session_state d session_id)) (\<lambda>d.
     rbind (sample_skipped std p (trend_samples d) now source_at) (\<lambda>skipped.
       if skipped then Inr (dset d ''updated_at'' (trend_iso now), None)
       else accept_trend_sample std p d session_id now price provider source_at allowed))"

subsection \<open>The advisory after its delivery (\<^verbatim>\<open>service.py\<close>)\<close>

definition acknowledge_advisory_delivery :: "py_std \<Rightarrow> pydict \<Rightarrow> pydict \<Rightarrow> int \<Rightarrow> pydict" where
  "acknowledge_advisory_delivery std d event accepted_at =
     (let advisory_id = dtext std event ''advisory_id'' [] in
      if dget event ''signal_stage'' = VStr ''entry_advisory'' \<and> advisory_id \<noteq> []
         \<and> dget d ''pending_directional_advisory_id'' = VStr advisory_id
      then dmerge d [(''pending_directional_advisory_id'', VNone), (''active_directional_advisory_id'', VStr advisory_id),
                     (''active_directional_advisory_accepted_at'', trend_iso accepted_at)]
      else d)"

definition reconcile_acknowledged_advisory :: "py_std \<Rightarrow> pydict \<Rightarrow> string list \<Rightarrow> int \<Rightarrow> pydict \<times> bool" where
  "reconcile_acknowledged_advisory std d acknowledged accepted_at =
     (case dget d ''pending_event'' of
        VDict event \<Rightarrow>
          if dget event ''signal_stage'' \<noteq> VStr ''entry_advisory'' \<or> dtext std event ''event_id'' [] \<notin> set acknowledged
          then (d, False)
          else let d = acknowledge_advisory_delivery std d event accepted_at in
            if dget d ''active_directional_advisory_id'' \<noteq> dget event ''advisory_id'' then (d, False)
            else (dset d ''pending_event'' VNone, True)
      | _ \<Rightarrow> (d, False))"

definition expire_pending_advisory :: "py_std \<Rightarrow> pydict \<Rightarrow> pydict \<Rightarrow> pydict" where
  "expire_pending_advisory std d event =
     (let advisory_id = dtext std event ''advisory_id'' [] in
      if dget event ''signal_stage'' = VStr ''entry_advisory'' \<and> advisory_id \<noteq> []
         \<and> dget d ''pending_directional_advisory_id'' = VStr advisory_id
      then dmerge d [(''pending_directional_advisory_id'', VNone),
                     (''continuation_suppressed_reason'', VStr ''entry_advisory_delivery_expired'')]
      else d)"

text \<open>The pending event, or the state without it when it is unreadable or too old.\<close>

definition pending_trend_event :: "py_std \<Rightarrow> trend_policy \<Rightarrow> pydict \<Rightarrow> int \<Rightarrow> (pydict \<times> pydict option) res" where
  "pending_trend_event std p d now =
     (case dget d ''pending_event'' of
        VDict event \<Rightarrow>
          (case ditem event ''at'' of
             Inl e \<Rightarrow> Inr (dset d ''pending_event'' VNone, None)
           | Inr v \<Rightarrow>
               (case std_fromiso std (py_str std v) of
                  None \<Rightarrow> Inr (dset d ''pending_event'' VNone, None)
                | Some created \<Rightarrow> rbind (since (Aware now 0) created) (\<lambda>us.
                    if flt (Fin (of_int (tp_pending_ttl p))) (total_seconds us)
                    then Inr (dset (expire_pending_advisory std d event) ''pending_event'' VNone, None)
                    else Inr (d, Some event))))
      | _ \<Rightarrow> Inr (d, None))"

text \<open>The section of \<^verbatim>\<open>run\<close> under the lock: reconcile, advance, take the pending event.\<close>

definition trend_tick ::
  "py_std \<Rightarrow> trend_policy \<Rightarrow> pydict \<Rightarrow> string list \<Rightarrow> string \<Rightarrow> int \<Rightarrow> pyfloat \<Rightarrow> string \<Rightarrow> int \<Rightarrow> bool \<Rightarrow>
     (pydict \<times> pydict option \<times> pydict option) res" where
  "trend_tick std p d acknowledged session_id now price provider source_at allowed =
     rbind (advance_trend_state std p (fst (reconcile_acknowledged_advisory std d acknowledged now)) session_id now price
              provider source_at allowed) (\<lambda>(d, event).
     rbind (pending_trend_event std p d now) (\<lambda>(d, pending). Inr (d, event, pending)))"

text \<open>The second locked section: the delivered event is accepted when it is still the pending one.\<close>

definition trend_delivered :: "py_std \<Rightarrow> pydict \<Rightarrow> string \<Rightarrow> int \<Rightarrow> pydict" where
  "trend_delivered std d event_id now =
     (case dget d ''pending_event'' of
        VDict event \<Rightarrow>
          if dget event ''event_id'' = VStr event_id
          then dset (acknowledge_advisory_delivery std d event now) ''pending_event'' VNone else d
      | _ \<Rightarrow> d)"

subsection \<open>What feeds the machine\<close>

definition globex_session_id :: "(int \<Rightarrow> int) \<Rightarrow> int \<Rightarrow> string" where
  "globex_session_id et now =
     (let local = et now in
      date_isoformat (if time_of local \<ge> hhmm 18 0 then date_of local + 1 else date_of local))"

text \<open>The context of the trend: a new one at the overnight and cash-session boundaries.\<close>

definition trend_context_id :: "(int \<Rightarrow> int) \<Rightarrow> int \<Rightarrow> string" where
  "trend_context_id et now =
     globex_session_id et now @
     (if is_rth_open default_market_calendar (et now) then '':rth''
      else if is_spx_gth_open default_market_calendar (et now) then '':gth'' else '':globex'')"

definition gth_advisory_allowed :: "(int \<Rightarrow> int) \<Rightarrow> int \<Rightarrow> pydict \<Rightarrow> bool" where
  "gth_advisory_allowed et now macro_state \<longleftrightarrow>
     is_spx_gth_open default_market_calendar (et now) \<and> dget macro_state ''mode'' = VStr ''normal''
     \<and> dget macro_state ''entry_allowed'' = VBool True"

record live_es_observation =
  lo_quote :: quote
  lo_price :: pyfloat
  lo_price_kind :: string
  lo_source_at :: int

definition last_observation :: "quote \<Rightarrow> (pyfloat \<times> string \<times> int) option" where
  "last_observation q =
     (case (q_last q, q_trade_time q) of
        (Some x, Some t) \<Rightarrow> if flt (Fin 0) x then Some (x, ''last'', as_utc t) else None
      | _ \<Rightarrow> None)"

definition es_price_observation :: "quote \<Rightarrow> (pyfloat \<times> string \<times> int) option" where
  "es_price_observation q =
     (case (q_bid q, mid q, q_ask q, q_quote_time q) of
        (Some b, Some m, Some a, Some t) \<Rightarrow>
          if flt (Fin 0) b \<and> fle b m \<and> fle m a then Some (m, ''mid'', as_utc t)
          else last_observation q
      | _ \<Rightarrow> last_observation q)"

text \<open>The rank of the two providers, \<^verbatim>\<open>None\<close> for any other.\<close>

definition es_provider_rank :: "provider \<Rightarrow> int option" where
  "es_provider_rank pr = (if pr = Schwab then Some 0 else if pr = Ibkr then Some 1 else None)"

definition fresh_age :: "trend_policy \<Rightarrow> int \<Rightarrow> int \<Rightarrow> bool" where
  "fresh_age p now t \<longleftrightarrow> fle (Fin (- 5)) (total_seconds (now - t)) \<and> fle (total_seconds (now - t)) (tp_max_quote_age p)"

definition live_match :: "trend_policy \<Rightarrow> int \<Rightarrow> quote \<Rightarrow> live_es_observation option" where
  "live_match p now q =
     (case es_price_observation q of
        None \<Rightarrow> None
      | Some (price, kind, source_at) \<Rightarrow>
          if es_provider_rank (q_provider q) = None \<or> \<not> instrument_matches_id (q_instrument q) ''future:ES''
             \<or> q_quality q \<noteq> Live then None
          else let transport_at = as_utc (case q_last_update_at q of Some t \<Rightarrow> t | None \<Rightarrow> q_received_at q) in
            if fresh_age p now transport_at \<and> fresh_age p now source_at
            then Some \<lparr>lo_quote = q, lo_price = price, lo_price_kind = kind, lo_source_at = source_at\<rparr> else None)"

definition preferred_provider :: "(int \<Rightarrow> int) \<Rightarrow> int \<Rightarrow> provider option" where
  "preferred_provider et now =
     (if is_spx_gth_open default_market_calendar (et now) then Some Ibkr
      else if is_rth_open default_market_calendar (et now) then Some Schwab else None)"

text \<open>\<^verbatim>\<open>max(matches, key=(source_at, -rank))\<close>.\<close>

definition older_observation :: "live_es_observation \<Rightarrow> live_es_observation \<Rightarrow> bool" where
  "older_observation a b \<longleftrightarrow>
     (let rank = (\<lambda>x. the (es_provider_rank (q_provider (lo_quote x)))) in
      lo_source_at a < lo_source_at b \<or> (lo_source_at a = lo_source_at b \<and> - rank a < - rank b))"

definition select_live_es :: "(int \<Rightarrow> int) \<Rightarrow> trend_policy \<Rightarrow> int \<Rightarrow> quote list \<Rightarrow> live_es_observation option" where
  "select_live_es et p now quotes =
     (let matches = List.map_filter (live_match p now) quotes;
          preferred = filter (\<lambda>x. Some (q_provider (lo_quote x)) = preferred_provider et now) matches
      in case (if preferred \<noteq> [] then preferred else matches) of
           [] \<Rightarrow> None
         | x # xs \<Rightarrow> Some (py_max_by older_observation x xs))"

end
