(* ===== verification/Trend_Spec.thy ===== *)
theory Trend_Spec
  imports Globex_Trend Py_Text
begin

section \<open>The trend machine without dictionaries\<close>

text \<open>
  A specification of one trend context: typed samples, the leg with its milestones and the life of
  an advisory, with no parsing, no dictionary and no exception. Events are values; their identifiers are
  the texts the code writes. \<open>Trend_Refinement\<close> shows that the code implements it.
\<close>

subsection \<open>Events and their identifiers\<close>

datatype trend_event =
    Transition int trend_regime
  | Continuation int bool int
  | Advance bool int

definition advisory_text :: "string \<Rightarrow> int \<times> bool \<Rightarrow> string" where
  "advisory_text sid k = ''gth-advisory:'' @ sid @ '':'' @ dec_int (fst k) @ '':'' @ direction_text (snd k)"

primrec event_text :: "string \<Rightarrow> trend_event \<Rightarrow> string" where
  "event_text sid (Transition n r) = ''globex-trend:'' @ sid @ '':'' @ dec_int n @ '':'' @ regime_text r"
| "event_text sid (Continuation n up m) =
     ''globex-cont:'' @ sid @ '':'' @ dec_int n @ '':'' @ direction_text up @ '':m'' @ dec_int m"
| "event_text sid (Advance up m) = ''globex-advance:'' @ sid @ '':'' @ direction_text up @ '':m'' @ dec_int m"

lemma direction_inject: "direction_text a @ x = direction_text b @ y \<longleftrightarrow> a = b \<and> x = y"
  by (simp add: direction_text_def)

lemma direction_text_inject [simp]: "direction_text a = direction_text b \<longleftrightarrow> a = b"
  by (simp add: direction_text_def)

lemma regime_text_inject [simp]: "regime_text a = regime_text b \<longleftrightarrow> a = b"
  by (cases a; cases b) simp_all

lemma advisory_text_inject [simp]: "advisory_text sid k = advisory_text sid k' \<longleftrightarrow> k = k'"
  by (cases k; cases k') (simp add: advisory_text_def append_colon_inject dec_int_no_colon)

lemma event_text_inject [simp]: "event_text sid e = event_text sid e' \<longleftrightarrow> e = e'"
  by (cases e; cases e')
    (simp_all add: append_colon_inject dec_int_no_colon direction_inject)

subsection \<open>The state of a context\<close>

record es_sample =
  es_at :: int
  es_source :: int
  es_price :: pyfloat

record trend_leg =
  tl_samples :: "es_sample list"
  tl_regime :: trend_regime
  tl_sequence :: int
  tl_anchor :: pyfloat
  tl_high :: "pyfloat option"
  tl_low :: "pyfloat option"
  tl_candidate :: "(trend_regime \<times> int) option"
  tl_milestone :: int
  tl_step :: "(int \<times> int) option"
  tl_used :: int
  tl_last :: "int option"
  tl_adv_milestone :: int
  tl_adv_step :: "(int \<times> int) option"
  tl_adv_used :: int
  tl_adv_last :: "int option"
  tl_offered :: "(int \<times> bool) option"
  tl_accepted :: "(int \<times> bool) option"
  tl_pending :: "(trend_event \<times> int) option"

definition fresh_leg :: trend_leg where
  "fresh_leg = \<lparr>tl_samples = [], tl_regime = Neutral, tl_sequence = 0, tl_anchor = NaN, tl_high = None, tl_low = None,
     tl_candidate = None, tl_milestone = 0, tl_step = None, tl_used = 0, tl_last = None, tl_adv_milestone = 0,
     tl_adv_step = None, tl_adv_used = 0, tl_adv_last = None, tl_offered = None, tl_accepted = None, tl_pending = None\<rparr>"

subsection \<open>Metrics\<close>

definition spec_tolerance :: "int \<Rightarrow> pyfloat" where
  "spec_tolerance minutes = fmax (Fin 180) (fmul (fmul (Fin (of_int minutes)) (Fin 60)) (rne (1 / 5)))"

definition spec_return :: "es_sample list \<Rightarrow> int \<Rightarrow> pyfloat \<Rightarrow> int \<Rightarrow> pyfloat option" where
  "spec_return samples now price minutes =
     (let target = now - minutes * 60 * us_per_second in
      case filter (\<lambda>s. es_at s \<le> target) (butlast samples) of
        [] \<Rightarrow> None
      | s # rows \<Rightarrow>
          let reference = py_max_by (\<lambda>a b. es_at a < es_at b) s rows in
          if flt (spec_tolerance minutes) (total_seconds (target - es_at reference)) then None
          else Some (fsub price (es_price reference)))"

definition spec_metrics :: "trend_policy \<Rightarrow> es_sample list \<Rightarrow> pydict" where
  "spec_metrics p samples =
     (let now = es_at (last samples); price = es_price (last samples); prices = map es_price samples;
          high = foldl fmax (hd prices) (tl prices); low = foldl fmin (hd prices) (tl prices) in
      [(''price'', VFloat price), (''return_15m_points'', metric_value (spec_return samples now price (tp_short_minutes p))),
       (''return_60m_points'', metric_value (spec_return samples now price (tp_medium_minutes p))),
       (''return_180m_points'', metric_value (spec_return samples now price (tp_long_minutes p))),
       (''session_high'', VFloat high), (''session_low'', VFloat low),
       (''drawdown_from_high_points'', VFloat (fsub price high)), (''rebound_from_low_points'', VFloat (fsub price low))])"

definition leg_metrics :: "trend_policy \<Rightarrow> es_sample list \<Rightarrow> pyfloat \<Rightarrow> pyfloat \<Rightarrow> pyfloat \<Rightarrow> pydict" where
  "leg_metrics p samples price high low =
     dmerge (spec_metrics p samples)
       [(''regime_high'', VFloat high), (''regime_low'', VFloat low),
        (''drawdown_from_regime_high_points'', VFloat (fsub price high)),
        (''rebound_from_regime_low_points'', VFloat (fsub price low))]"

subsection \<open>One sample\<close>

definition spec_skipped :: "trend_policy \<Rightarrow> trend_leg \<Rightarrow> int \<Rightarrow> int \<Rightarrow> bool" where
  "spec_skipped p a now source_at \<longleftrightarrow>
     tl_samples a \<noteq> [] \<and> (es_source (last (tl_samples a)) = source_at
       \<or> flt (total_seconds (now - es_at (last (tl_samples a)))) (Fin (of_int (tp_sample_interval p))))"

definition spec_record :: "trend_policy \<Rightarrow> trend_leg \<Rightarrow> int \<Rightarrow> int \<Rightarrow> pyfloat \<Rightarrow> trend_leg" where
  "spec_record p a now source_at price = a\<lparr>
     tl_samples := filter (\<lambda>s. es_at s \<ge> now - tp_retention_hours p * 3600 * us_per_second)
                     (tl_samples a @ [\<lparr>es_at = now, es_source = source_at, es_price = price\<rparr>]),
     tl_high := Some (case tl_high a of Some h \<Rightarrow> fmax h price | None \<Rightarrow> price),
     tl_low := Some (case tl_low a of Some l \<Rightarrow> fmin l price | None \<Rightarrow> price)\<rparr>"

definition recorded_metrics :: "trend_policy \<Rightarrow> trend_leg \<Rightarrow> pyfloat \<Rightarrow> pydict" where
  "recorded_metrics p a price = leg_metrics p (tl_samples a) price (the (tl_high a)) (the (tl_low a))"

definition spec_cooling :: "trend_policy \<Rightarrow> int option \<Rightarrow> int \<Rightarrow> bool" where
  "spec_cooling p last_at now \<longleftrightarrow>
     (case last_at of Some t \<Rightarrow> flt (total_seconds (now - t)) (Fin (of_int (tp_cooldown p))) | None \<Rightarrow> False)"

definition spec_count :: "(int \<times> int) option \<Rightarrow> int \<Rightarrow> int" where
  "spec_count step m = (case step of Some (i, n) \<Rightarrow> if i = m then n + 1 else 1 | None \<Rightarrow> 1)"

definition spec_threshold :: "trend_policy \<Rightarrow> int \<Rightarrow> pyfloat" where
  "spec_threshold p m = fmul (tp_step_points p) (Fin (of_int m))"

definition spec_advance ::
  "trend_policy \<Rightarrow> trend_leg \<Rightarrow> pydict \<Rightarrow> int \<Rightarrow> pyfloat \<Rightarrow> bool \<Rightarrow> trend_leg \<times> trend_event option" where
  "spec_advance p a metrics now price allowed =
     (let idle = (a\<lparr>tl_adv_step := None\<rparr>, None); m = tl_adv_milestone a + 1 in
      case (metric metrics ''session_high'', metric metrics ''session_low'', metric metrics ''return_15m_points'') of
        (Some high, Some low, Some short) \<Rightarrow>
          if tl_adv_used a \<ge> tp_budget p then idle
          else (case grind_of p metrics price high low short of
              None \<Rightarrow> idle
            | Some (up, extension, anchor) \<Rightarrow>
                if spec_cooling p (tl_adv_last a) now \<or> flt extension (spec_threshold p m) then idle
                else if \<not> allowed then (a\<lparr>tl_adv_milestone := m, tl_adv_step := None\<rparr>, None)
                else let n = spec_count (tl_adv_step a) m in
                  if n < tp_step_confirmations p then (a\<lparr>tl_adv_step := Some (m, n)\<rparr>, None)
                  else (a\<lparr>tl_adv_milestone := m, tl_adv_step := None, tl_adv_used := tl_adv_used a + 1, tl_adv_last := Some now,
                          tl_pending := Some (Advance up m, now)\<rparr>, Some (Advance up m)))
      | _ \<Rightarrow> idle)"

definition spec_continue ::
  "trend_policy \<Rightarrow> trend_leg \<Rightarrow> int \<Rightarrow> pyfloat \<Rightarrow> bool \<Rightarrow> trend_leg \<times> trend_event option" where
  "spec_continue p a now price allowed =
     (let idle = (a\<lparr>tl_step := None\<rparr>, None); up = (tl_regime a = Bullish); m = tl_milestone a + 1;
          extension = (if up then fsub price (tl_anchor a) else fsub (tl_anchor a) price) in
      if tl_used a \<ge> tp_budget p \<or> tl_milestone a \<ge> tp_max_milestones p then idle
      else if \<not> fle (spec_threshold p m) extension \<or> spec_cooling p (tl_last a) now then idle
      else if \<not> allowed then (a\<lparr>tl_milestone := m, tl_step := None\<rparr>, None)
      else let n = spec_count (tl_step a) m in
        if n < tp_step_confirmations p then (a\<lparr>tl_step := Some (m, n)\<rparr>, None)
        else if m \<noteq> 1 \<and> tl_accepted a = None then idle
        else let e = Continuation (tl_sequence a) up m in
          (a\<lparr>tl_milestone := m, tl_step := None, tl_used := tl_used a + 1, tl_last := Some now,
             tl_offered := (if m = 1 then Some (tl_sequence a, up) else tl_offered a), tl_pending := Some (e, now)\<rparr>, Some e))"

definition spec_enter :: "trend_leg \<Rightarrow> trend_regime \<Rightarrow> int \<Rightarrow> pyfloat \<Rightarrow> trend_leg \<times> trend_event option" where
  "spec_enter a target now price =
     (let n = tl_sequence a + 1; e = Transition n target in
      (a\<lparr>tl_regime := target, tl_sequence := n, tl_anchor := price, tl_high := Some price, tl_low := Some price,
         tl_candidate := None, tl_milestone := 0, tl_step := None, tl_last := None, tl_offered := None,
         tl_accepted := None, tl_pending := Some (e, now)\<rparr>, Some e))"

definition candidate_seen :: "trend_leg \<Rightarrow> trend_regime \<Rightarrow> int" where
  "candidate_seen a target = (case tl_candidate a of Some (r, n) \<Rightarrow> if r = target then n + 1 else 1 | None \<Rightarrow> 1)"

definition spec_candidate ::
  "trend_policy \<Rightarrow> trend_leg \<Rightarrow> trend_regime \<Rightarrow> int \<Rightarrow> pyfloat \<Rightarrow> trend_leg \<times> trend_event option" where
  "spec_candidate p a target now price =
     (let n = candidate_seen a target in
      if n < tp_confirmations p then (a\<lparr>tl_candidate := Some (target, n), tl_step := None\<rparr>, None)
      else spec_enter a target now price)"

text \<open>The regime the sample points to, \<open>None\<close> when it confirms the current one.\<close>

definition spec_points :: "trend_policy \<Rightarrow> trend_leg \<Rightarrow> int \<Rightarrow> int \<Rightarrow> pyfloat \<Rightarrow> trend_regime option" where
  "spec_points p a now source_at price =
     (case target_regime p (tl_regime a) (recorded_metrics p (spec_record p a now source_at price) price) of
        Some (target, reason) \<Rightarrow> if target = tl_regime a then None else Some target
      | None \<Rightarrow> None)"

definition spec_sample ::
  "trend_policy \<Rightarrow> trend_leg \<Rightarrow> int \<Rightarrow> pyfloat \<Rightarrow> int \<Rightarrow> bool \<Rightarrow> trend_leg \<times> trend_event option" where
  "spec_sample p a now price source_at allowed =
     (if spec_skipped p a now source_at then (a, None)
      else let b = spec_record p a now source_at price in
        case spec_points p a now source_at price of
          Some target \<Rightarrow> spec_candidate p b target now price
        | None \<Rightarrow>
            if tl_regime b = Neutral
            then spec_advance p (b\<lparr>tl_candidate := None\<rparr>) (recorded_metrics p b price) now price allowed
            else spec_continue p (b\<lparr>tl_candidate := None\<rparr>) now price allowed)"

subsection \<open>The advisory\<close>

text \<open>The delivered event is the offered entry of the leg.\<close>

definition spec_accept :: "trend_leg \<Rightarrow> trend_event \<Rightarrow> trend_leg" where
  "spec_accept a e =
     (case e of Continuation n up m \<Rightarrow>
        if m = 1 \<and> tl_offered a = Some (n, up) then a\<lparr>tl_offered := None, tl_accepted := Some (n, up)\<rparr> else a
      | _ \<Rightarrow> a)"

definition spec_reconcile :: "string \<Rightarrow> trend_leg \<Rightarrow> string list \<Rightarrow> trend_leg" where
  "spec_reconcile sid a acknowledged =
     (case tl_pending a of
        Some (Continuation n up m, t) \<Rightarrow>
          if m = 1 \<and> event_text sid (Continuation n up m) \<in> set acknowledged then
            let b = spec_accept a (Continuation n up m) in
            if tl_accepted b = Some (n, up) then b\<lparr>tl_pending := None\<rparr> else b
          else a
      | _ \<Rightarrow> a)"

definition spec_expire :: "trend_policy \<Rightarrow> trend_leg \<Rightarrow> int \<Rightarrow> trend_leg" where
  "spec_expire p a now =
     (case tl_pending a of
        Some (e, t) \<Rightarrow>
          if flt (Fin (of_int (tp_pending_ttl p))) (total_seconds (now - t))
          then (case e of Continuation n up m \<Rightarrow>
                  if m = 1 \<and> tl_offered a = Some (n, up) then a\<lparr>tl_offered := None, tl_pending := None\<rparr>
                  else a\<lparr>tl_pending := None\<rparr>
                | _ \<Rightarrow> a\<lparr>tl_pending := None\<rparr>)
          else a
      | None \<Rightarrow> a)"

definition spec_delivered :: "string \<Rightarrow> trend_leg \<Rightarrow> string \<Rightarrow> trend_leg" where
  "spec_delivered sid a event_id =
     (case tl_pending a of
        Some (e, t) \<Rightarrow> if event_text sid e = event_id then (spec_accept a e)\<lparr>tl_pending := None\<rparr> else a
      | None \<Rightarrow> a)"

subsection \<open>Runs\<close>

text \<open>One pass of the service, and the report that an event was delivered.\<close>

datatype trend_op =
    Tick "string list" int pyfloat string int bool
  | Delivered string int

primrec spec_op :: "trend_policy \<Rightarrow> string \<Rightarrow> trend_leg \<Rightarrow> trend_op \<Rightarrow> trend_leg \<times> trend_event option" where
  "spec_op p sid a (Tick acknowledged now price provider source_at allowed) =
     (let (b, e) = spec_sample p (spec_reconcile sid a acknowledged) now price source_at allowed in (spec_expire p b now, e))"
| "spec_op p sid a (Delivered event_id now) = (spec_delivered sid a event_id, None)"

primrec spec_run :: "trend_policy \<Rightarrow> string \<Rightarrow> trend_leg \<Rightarrow> trend_op list \<Rightarrow> trend_leg \<times> trend_event option list" where
  "spec_run p sid a [] = (a, [])"
| "spec_run p sid a (x # xs) =
     (let (b, e) = spec_op p sid a x; (c, es) = spec_run p sid b xs in (c, e # es))"

end
