(* ===== verification/Trend_Encoding.thy ===== *)
theory Trend_Encoding
  imports Trend_Spec Stored_Times
begin

section \<open>The stored state of the trend machine\<close>

text \<open>
  \<open>encodes\<close> relates the stored dictionary to the leg of \<open>Trend_Spec\<close>; the metrics computed from stored samples
  are those of the specification, and the writes of the code act on the leg.
\<close>

subsection \<open>Samples and metrics\<close>

definition row_ok :: "py_std \<Rightarrow> pydict \<Rightarrow> es_sample \<Rightarrow> bool" where
  "row_ok std row s \<longleftrightarrow>
     dget row ''at'' = trend_iso (es_at s) \<and> dget row ''source_at'' = trend_iso (es_source s)
     \<and> dget row ''price'' = VFloat (es_price s) \<and> iso_ok std (es_at s) \<and> iso_ok std (es_source s)"

lemma row_at_ok [simp]: "row_ok std row s \<Longrightarrow> row_at std row = Inr (Aware (es_at s) 0)"
  by (simp add: row_ok_def row_at_def ditem_dget_some trend_fromiso_def)

lemma row_price_ok [simp]: "row_ok std row s \<Longrightarrow> dfloat std row ''price'' = Inr (es_price s)"
  by (simp add: row_ok_def dfloat_def ditem_dget_some py_float_def)

lemma since_aware [simp]: "since (Aware a 0) (Aware b 0) = Inr (a - b)"
  by (simp add: since_def)

lemma filter_res_rows:
  assumes "list_all2 R rows ss" "\<And>row s. R row s \<Longrightarrow> f row = Inr (P s)"
  shows "\<exists>rows'. filter_res f rows = Inr rows' \<and> list_all2 R rows' (filter P ss)"
  using assms(1)
proof (induction rule: list_all2_induct)
  case (Cons row rows s ss)
  then obtain rows' where "filter_res f rows = Inr rows'" "list_all2 R rows' (filter P ss)" by blast
  then show ?case using assms(2) [OF Cons.hyps(1)] Cons.hyps(1) by simp
qed simp

lemma collect_res_rows:
  "list_all2 (row_ok std) rows ss \<Longrightarrow> collect_res (\<lambda>row. dfloat std row ''price'') rows = Inr (map es_price ss)"
  by (induction rule: list_all2_induct) simp_all

lemma latest_row_ok:
  "list_all2 (row_ok std) rows ss \<Longrightarrow> row_ok std row s \<Longrightarrow>
     \<exists>r. latest_row std (row, Aware (es_at s) 0) rows
           = Inr (r, Aware (es_at (py_max_by (\<lambda>a b. es_at a < es_at b) s ss)) 0)
       \<and> row_ok std r (py_max_by (\<lambda>a b. es_at a < es_at b) s ss)"
  by (induction arbitrary: row s rule: list_all2_induct) simp_all

lemma horizon_tolerance_ok: "0 < minutes \<Longrightarrow> minutes < 2 ^ 53 \<Longrightarrow> horizon_tolerance minutes = Inr (spec_tolerance minutes)"
  by (simp add: horizon_tolerance_def spec_tolerance_def float_of_int_small)

lemma list_all2_butlast: "list_all2 R xs ys \<Longrightarrow> list_all2 R (butlast xs) (butlast ys)"
  by (simp add: butlast_conv_take list_all2_takeI list_all2_lengthD)

lemma horizon_return_ok:
  assumes "list_all2 (row_ok std) rows ss" "0 < minutes" "minutes < 2 ^ 53"
  shows "horizon_return std rows (Aware now 0) price minutes = Inr (spec_return ss now price minutes)"
proof -
  define t where "t = now - minutes * 60 * us_per_second"
  have "reaches_target std (Aware t 0) row = Inr (es_at s \<le> t)" if "row_ok std row s" for row s
    using that by (simp add: reaches_target_def)
  then obtain cs where cs: "filter_res (reaches_target std (Aware t 0)) (butlast rows) = Inr cs"
      "list_all2 (row_ok std) cs (filter (\<lambda>s. es_at s \<le> t) (butlast ss))"
    using filter_res_rows [OF list_all2_butlast [OF assms(1)], of "reaches_target std (Aware t 0)" "\<lambda>s. es_at s \<le> t"] by auto
  show ?thesis
  proof (cases cs)
    case Nil
    then have "filter (\<lambda>s. es_at s \<le> t) (butlast ss) = []" using cs(2) by simp
    then show ?thesis
      using cs(1) unfolding horizon_return_def spec_return_def earlier_by_def Let_def pydt.case t_def [symmetric]
      by (simp add: Nil)
  next
    case (Cons row more)
    then obtain s rest where s: "filter (\<lambda>s. es_at s \<le> t) (butlast ss) = s # rest" "row_ok std row s"
        "list_all2 (row_ok std) more rest"
      using cs(2) by (auto simp: list_all2_Cons1)
    obtain r where "latest_row std (row, Aware (es_at s) 0) more
        = Inr (r, Aware (es_at (py_max_by (\<lambda>a b. es_at a < es_at b) s rest)) 0)"
      "row_ok std r (py_max_by (\<lambda>a b. es_at a < es_at b) s rest)"
      using latest_row_ok [OF s(3,2)] by blast
    then show ?thesis
      using cs(1) s(1,2) assms(2,3)
      unfolding horizon_return_def spec_return_def earlier_by_def Let_def pydt.case t_def [symmetric]
      by (simp add: Cons horizon_tolerance_ok)
  qed
qed

definition policy_ok :: "trend_policy \<Rightarrow> bool" where
  "policy_ok p \<longleftrightarrow> trend_policy_post_init p = Inr () \<and> tp_long_minutes p < 2 ^ 53 \<and> tp_max_milestones p < 2 ^ 52"

lemma policy_okD:
  assumes "policy_ok p"
  shows "0 < tp_short_minutes p" "tp_short_minutes p < 2 ^ 53" "0 < tp_medium_minutes p" "tp_medium_minutes p < 2 ^ 53"
    "0 < tp_long_minutes p" "tp_long_minutes p < 2 ^ 53" "0 < tp_retention_hours p" "0 < tp_confirmations p"
    "0 < tp_step_confirmations p" "0 < tp_max_milestones p" "0 < tp_budget p" "tp_max_milestones p < 2 ^ 52"
  using assms by (auto simp: policy_ok_def trend_policy_post_init_def Let_def not_le split: if_splits)

lemma compute_metrics_ok:
  assumes "list_all2 (row_ok std) rows ss" "ss \<noteq> []" "policy_ok p"
  shows "compute_metrics std p rows = Inr (spec_metrics p ss)"
proof -
  have rows: "rows \<noteq> []" using assms(1,2) by auto
  show ?thesis
    using list_all2_last [OF assms(1) rows] policy_okD [OF assms(3)] rows
    by (simp add: compute_metrics_def spec_metrics_def Let_def horizon_return_ok [OF assms(1)] collect_res_rows [OF assms(1)])
qed

subsection \<open>The stored state of a leg\<close>

text \<open>What a stored event says of the event it renders.\<close>

primrec stage_value :: "trend_event \<Rightarrow> pyval" where
  "stage_value (Transition n r) = VNone"
| "stage_value (Continuation n up m) = VStr (if m = 1 then ''entry_advisory'' else ''opportunity_management'')"
| "stage_value (Advance up m) = VStr ''entry_advisory''"

primrec advisory_value :: "string \<Rightarrow> trend_event \<Rightarrow> pyval" where
  "advisory_value sid (Transition n r) = VNone"
| "advisory_value sid (Continuation n up m) = VStr (advisory_text sid (n, up))"
| "advisory_value sid (Advance up m) = VStr (''gth-advance:'' @ sid @ '':'' @ direction_text up @ '':m'' @ dec_int m)"

primrec parent_value :: "string \<Rightarrow> trend_event \<Rightarrow> pyval" where
  "parent_value sid (Transition n r) = VNone"
| "parent_value sid (Continuation n up m) = (if m = 1 then VNone else VStr (advisory_text sid (n, up)))"
| "parent_value sid (Advance up m) = VNone"

primrec type_value :: "trend_event \<Rightarrow> pyval" where
  "type_value (Transition n r) = VStr ''transition''"
| "type_value (Continuation n up m) = VStr ''continuation''"
| "type_value (Advance up m) = VStr ''advance''"

primrec target_value :: "trend_event \<Rightarrow> pyval" where
  "target_value (Transition n r) = VStr (regime_text r)"
| "target_value (Continuation n up m) = VNone"
| "target_value (Advance up m) = VNone"

definition renders :: "py_std \<Rightarrow> string \<Rightarrow> trend_event \<Rightarrow> int \<Rightarrow> pydict \<Rightarrow> bool" where
  "renders std sid e t ev \<longleftrightarrow>
     dget ev ''event_id'' = VStr (event_text sid e) \<and> dget ev ''event_type'' = type_value e
     \<and> dget ev ''at'' = trend_iso t \<and> iso_ok std t
     \<and> dget ev ''signal_stage'' = stage_value e \<and> dget ev ''advisory_id'' = advisory_value sid e
     \<and> dget ev ''parent_advisory_id'' = parent_value sid e
     \<and> dget ev ''automatic_ordering'' = VBool False \<and> dget ev ''execution_eligible'' \<noteq> VBool True
     \<and> dget ev ''contract_id'' = VNone \<and> dget ev ''to_regime'' = target_value e"

definition advisory_ref :: "string \<Rightarrow> (int \<times> bool) option \<Rightarrow> pyval" where
  "advisory_ref sid k = (case k of Some x \<Rightarrow> VStr (advisory_text sid x) | None \<Rightarrow> VNone)"

definition stored_time :: "int option \<Rightarrow> pyval" where
  "stored_time t = (case t of Some x \<Rightarrow> trend_iso x | None \<Rightarrow> VNone)"

definition stored_index :: "('a \<Rightarrow> pyval) \<Rightarrow> ('a \<times> int) option \<Rightarrow> pyval" where
  "stored_index f x = (case x of Some y \<Rightarrow> f (fst y) | None \<Rightarrow> VNone)"

definition stored_count :: "('a \<times> int) option \<Rightarrow> pyval" where
  "stored_count x = VInt (case x of Some y \<Rightarrow> snd y | None \<Rightarrow> 0)"

definition time_ok :: "py_std \<Rightarrow> int option \<Rightarrow> bool" where
  "time_ok std t \<longleftrightarrow> (\<forall>x. t = Some x \<longrightarrow> iso_ok std x)"

definition stored_samples :: "py_std \<Rightarrow> pyval \<Rightarrow> es_sample list \<Rightarrow> bool" where
  "stored_samples std v ss \<longleftrightarrow> (\<exists>rows. v = VList (map VDict rows) \<and> list_all2 (row_ok std) rows ss)"

definition stored_event :: "py_std \<Rightarrow> string \<Rightarrow> pyval \<Rightarrow> (trend_event \<times> int) option \<Rightarrow> bool" where
  "stored_event std sid v x \<longleftrightarrow>
     (case x of None \<Rightarrow> v = VNone | Some (e, t) \<Rightarrow> \<exists>ev. v = VDict ev \<and> renders std sid e t ev)"

definition stored_transition :: "pyval \<Rightarrow> pyfloat \<Rightarrow> int \<Rightarrow> bool" where
  "stored_transition v anchor n \<longleftrightarrow> (\<exists>tr. v = VDict tr \<and> dget tr ''price'' = VFloat anchor \<and> dget tr ''sequence'' = VInt n)"

definition encodes :: "py_std \<Rightarrow> string \<Rightarrow> pydict \<Rightarrow> trend_leg \<Rightarrow> bool" where
  "encodes std sid d a \<longleftrightarrow>
     dget d ''session_id'' = VStr sid
   \<and> stored_samples std (dget d ''samples'') (tl_samples a) \<and> is_dict (dget d ''metrics'')
   \<and> dget d ''regime'' = VStr (regime_text (tl_regime a)) \<and> dget d ''transition_sequence'' = VInt (tl_sequence a)
   \<and> dget d ''regime_high'' = metric_value (tl_high a) \<and> dget d ''regime_low'' = metric_value (tl_low a)
   \<and> dget d ''candidate_regime'' = stored_index (\<lambda>r. VStr (regime_text r)) (tl_candidate a)
   \<and> dget d ''candidate_observations'' = stored_count (tl_candidate a)
   \<and> dget d ''continuation_milestone_index'' = VInt (tl_milestone a)
   \<and> dget d ''continuation_candidate_index'' = stored_index VInt (tl_step a)
   \<and> dget d ''continuation_candidate_observations'' = stored_count (tl_step a)
   \<and> dget d ''continuation_events_in_context'' = VInt (tl_used a) \<and> dget d ''last_continuation_at'' = stored_time (tl_last a)
   \<and> dget d ''advance_milestone_index'' = VInt (tl_adv_milestone a)
   \<and> dget d ''advance_candidate_index'' = stored_index VInt (tl_adv_step a)
   \<and> dget d ''advance_candidate_observations'' = stored_count (tl_adv_step a)
   \<and> dget d ''advance_events_in_session'' = VInt (tl_adv_used a) \<and> dget d ''last_advance_at'' = stored_time (tl_adv_last a)
   \<and> dget d ''pending_directional_advisory_id'' = advisory_ref sid (tl_offered a)
   \<and> dget d ''active_directional_advisory_id'' = advisory_ref sid (tl_accepted a)
   \<and> dget d ''continuation_migration_budget_consumed'' = VBool False
   \<and> stored_event std sid (dget d ''pending_event'') (tl_pending a)
   \<and> (tl_regime a \<noteq> Neutral \<longrightarrow> stored_transition (dget d ''last_transition'') (tl_anchor a) (tl_sequence a))
   \<and> time_ok std (tl_last a) \<and> time_ok std (tl_adv_last a)"

named_theorems encoded_simps \<open>values of an encoded state\<close>

lemma stored_simps [encoded_simps]:
  "stored_index f None = VNone" "stored_index f (Some (i, n)) = f i" "stored_count None = VInt 0"
  "stored_count (Some (i, n)) = VInt n" "stored_time None = VNone" "stored_time (Some t) = trend_iso t"
  "advisory_ref sid None = VNone" "advisory_ref sid (Some k) = VStr (advisory_text sid k)"
  "metric_value None = VNone" "metric_value (Some x) = VFloat x" "stored_event std sid VNone None"
  "time_ok std None" "time_ok std (Some t) = iso_ok std t" "stored_samples std (VList []) []"
  by (simp_all add: stored_index_def stored_count_def stored_time_def advisory_ref_def metric_value_def stored_event_def
      time_ok_def stored_samples_def)

lemma is_dict_VDict [simp]: "is_dict (VDict d)"
  by (simp add: is_dict_def)

lemma fresh_encoded: "encodes std sid (initial_trend_state sid) fresh_leg"
  by (simp add: encodes_def initial_trend_state_def fresh_leg_def encoded_simps)

text \<open>Writing other keys, and writing the fields of one candidate.\<close>

lemma encodes_updated_at: "encodes std sid d a \<Longrightarrow> encodes std sid (dset d ''updated_at'' v) a"
  unfolding encodes_def by simp

lemma encodes_reset_advance: "encodes std sid d a \<Longrightarrow> encodes std sid (reset_advance d) (a\<lparr>tl_adv_step := None\<rparr>)"
  unfolding encodes_def reset_advance_def by (simp add: encoded_simps)

lemma encodes_reset_continuation: "encodes std sid d a \<Longrightarrow> encodes std sid (reset_continuation d) (a\<lparr>tl_step := None\<rparr>)"
  unfolding encodes_def reset_continuation_def by (simp add: encoded_simps)

lemma encodes_hold:
  "encodes std sid d a \<Longrightarrow>
     encodes std sid (dmerge d [(''candidate_regime'', VNone), (''candidate_observations'', VInt 0)]) (a\<lparr>tl_candidate := None\<rparr>)"
  unfolding encodes_def by (simp add: encoded_simps)

end
