(* ===== verification/Trend_Refinement.thy ===== *)
theory Trend_Refinement
  imports Trend_Encoding
begin

section \<open>The trend machine implements its specification\<close>

text \<open>
  Every operation of the code on an encoded state returns without an exception, gives the encoding of
  the leg the specification computes, and its event renders the event of the specification.
\<close>

subsection \<open>Migration and the skipped sample\<close>

lemma encodes_cong: "dget d' = dget d \<Longrightarrow> encodes std sid d' a = encodes std sid d a"
  by (simp add: encodes_def)

lemma dget_dsetdefault: "v = VNone \<or> dget d k \<noteq> VNone \<Longrightarrow> dget (dsetdefault d k v) = dget d"
  by (rule ext) (auto simp: dsetdefault_def dget_def split: option.splits)

lemma dget_set_missing:
  "\<forall>(k, v) \<in> set kvs. v = VNone \<or> dget d k \<noteq> VNone \<Longrightarrow> dget (set_missing d kvs) = dget d"
proof (induction kvs arbitrary: d)
  case (Cons kv kvs)
  obtain k v where kv: "kv = (k, v)" by (cases kv)
  have same: "dget (dsetdefault d k v) = dget d" using Cons.prems by (intro dget_dsetdefault) (simp add: kv)
  have "dget (set_missing (dsetdefault d k v) kvs) = dget (dsetdefault d k v)"
    using Cons.prems by (intro Cons.IH) (simp add: kv same)
  then show ?case by (simp add: set_missing_def kv same)
qed (simp add: set_missing_def)

lemma migrate_encoded:
  assumes "encodes std sid d a"
  shows "\<exists>d'. migrate_continuation_state p d = Inr d' \<and> encodes std sid d' a"
proof -
  have ints: "dget d ''advance_milestone_index'' \<noteq> VNone" "dget d ''advance_candidate_observations'' \<noteq> VNone"
      "dget d ''advance_events_in_session'' \<noteq> VNone" "dget d ''continuation_milestone_index'' \<noteq> VNone"
      "dget d ''continuation_migration_budget_consumed'' \<noteq> VNone"
      "dget d ''continuation_events_in_context'' = VInt (tl_used a)"
    using assms unfolding encodes_def by (simp_all add: stored_count_def)
  let ?e = "set_missing d advance_defaults"
  have e: "dget ?e = dget d"
    using ints by (intro dget_set_missing) (simp add: advance_defaults_def)
  have present: "map_of d ''continuation_milestone_index'' \<noteq> None"
    using ints(4) by (cases "map_of d ''continuation_milestone_index''") (simp_all add: dget_def)
  have same: "encodes std sid (dsetdefault ?e ''continuation_migration_budget_consumed'' v) a" for v
    using ints(5) assms encodes_cong [of "dsetdefault ?e ''continuation_migration_budget_consumed'' v" d std sid a]
    by (simp add: dget_dsetdefault e)
  show ?thesis
    using present same ints(6) by (simp add: migrate_continuation_state_def Let_def e)
qed

lemma trend_samples_stored: "stored_samples std (dget d ''samples'') ss \<Longrightarrow> list_all2 (row_ok std) (trend_samples d) ss"
proof -
  assume "stored_samples std (dget d ''samples'') ss"
  then obtain rows where "dget d ''samples'' = VList (map VDict rows)" "list_all2 (row_ok std) rows ss"
    by (auto simp: stored_samples_def)
  moreover have "List.map_filter as_dict (map VDict rows) = rows"
    by (induction rows) (simp_all add: List.map_filter_simps)
  ultimately show ?thesis by (simp add: trend_samples_def)
qed

lemma trend_samples_encoded: "encodes std sid d a \<Longrightarrow> list_all2 (row_ok std) (trend_samples d) (tl_samples a)"
  by (rule trend_samples_stored) (simp add: encodes_def)

lemma row_source_ok: "row_ok std row s \<Longrightarrow> dget row ''source_at'' = trend_iso (es_source s)"
  by (simp add: row_ok_def)

lemma skipped_encoded:
  assumes "encodes std sid d a" "iso_ok std source_at"
  shows "sample_skipped std p (trend_samples d) now source_at = Inr (spec_skipped p a now source_at)"
proof -
  note rows = trend_samples_encoded [OF assms(1)]
  show ?thesis
  proof (cases "trend_samples d = []")
    case True
    then show ?thesis using rows by (simp add: sample_skipped_def spec_skipped_def)
  next
    case False
    let ?l = "last (tl_samples a)"
    have l: "row_ok std (last (trend_samples d)) ?l" by (rule list_all2_last [OF rows False])
    have some: "tl_samples a \<noteq> []" using list_all2_lengthD [OF rows] False by (metis length_0_conv)
    have "iso_ok std (es_source ?l)" using l by (simp add: row_ok_def)
    then have same: "isoformat (es_source ?l) = isoformat source_at \<longleftrightarrow> es_source ?l = source_at"
      by (rule iso_ok_inject) (rule assms(2))
    show ?thesis
      by (simp add: sample_skipped_def spec_skipped_def False some row_source_ok [OF l] row_at_ok [OF l] same)
  qed
qed

subsection \<open>Recording a sample\<close>

lemma retained_ok:
  "row_ok std row s \<Longrightarrow> retained std p now row = Inr (now - tp_retention_hours p * 3600 * us_per_second \<le> es_at s)"
  by (simp add: retained_def)

lemma new_sample_ok:
  "iso_ok std now \<Longrightarrow> iso_ok std source_at \<Longrightarrow>
     row_ok std (new_sample now source_at price provider) \<lparr>es_at = now, es_source = source_at, es_price = price\<rparr>"
  by (simp add: new_sample_def row_ok_def)

lemma widen_ok: "widen std pick (metric_value x) price = Inr (case x of Some v \<Rightarrow> pick v price | None \<Rightarrow> price)"
  by (cases x) (simp_all add: widen_def metric_value_def is_number_def py_float_def)

lemma encodes_record:
  assumes "encodes std sid d a" "list_all2 (row_ok std) rows (tl_samples (spec_record p a now source_at price))"
  shows "encodes std sid
    (dmerge (dmerge (dset d ''samples'' (VList (map VDict rows)))
        [(''regime_high'', VFloat (the (tl_high (spec_record p a now source_at price)))),
         (''regime_low'', VFloat (the (tl_low (spec_record p a now source_at price))))])
        [(''metrics'', VDict m), (''updated_at'', v)]) (spec_record p a now source_at price)"
proof -
  have "stored_samples std (VList (map VDict rows)) (tl_samples (spec_record p a now source_at price))"
    using assms(2) unfolding stored_samples_def by blast
  then show ?thesis
    using assms(1) unfolding encodes_def by (simp add: encoded_simps spec_record_def)
qed

lemma record_sample_encoded:
  assumes "encodes std sid d a" "policy_ok p" "iso_ok std now" "iso_ok std source_at"
    and b: "b = spec_record p a now source_at price"
  shows "\<exists>d'. record_sample std p d now source_at price provider = Inr (d', recorded_metrics p b price)
    \<and> encodes std sid d' b \<and> dget d' ''metrics'' = VDict (recorded_metrics p b price)"
proof -
  let ?ss = "tl_samples a @ [\<lparr>es_at = now, es_source = source_at, es_price = price\<rparr>]"
  have all: "list_all2 (row_ok std) (trend_samples d @ [new_sample now source_at price provider]) ?ss"
    using trend_samples_encoded [OF assms(1)] new_sample_ok [OF assms(3,4)] by (simp add: list_all2_appendI)
  have b': "tl_samples b = filter (\<lambda>s. es_at s \<ge> now - tp_retention_hours p * 3600 * us_per_second) ?ss"
    by (simp add: b spec_record_def)
  obtain rows where rows: "filter_res (retained std p now) (trend_samples d @ [new_sample now source_at price provider]) = Inr rows"
      "list_all2 (row_ok std) rows (tl_samples b)"
    unfolding b' using filter_res_rows [OF all, of "retained std p now"
        "\<lambda>s. es_at s \<ge> now - tp_retention_hours p * 3600 * us_per_second"] retained_ok by auto
  have "tl_samples b \<noteq> []" using policy_okD(7) [OF assms(2)] by (simp add: b')
  then have metrics: "compute_metrics std p rows = Inr (spec_metrics p (tl_samples b))"
    using compute_metrics_ok [OF rows(2) _ assms(2)] by simp
  let ?d = "dset d ''samples'' (VList (map VDict rows))"
  have high: "dget ?d ''regime_high'' = metric_value (tl_high a)" "dget ?d ''regime_low'' = metric_value (tl_low a)"
    using assms(1) unfolding encodes_def by simp_all
  have some: "tl_high b = Some (the (tl_high b))" "tl_low b = Some (the (tl_low b))"
    by (simp_all add: b spec_record_def)
  have extrema: "update_regime_extrema std ?d price = Inr (dmerge ?d
      [(''regime_high'', VFloat (the (tl_high b))), (''regime_low'', VFloat (the (tl_low b)))])"
    unfolding update_regime_extrema_def high by (simp add: widen_ok b spec_record_def)
  let ?m = "recorded_metrics p b price"
  define e where "e = dmerge ?d [(''regime_high'', VFloat (the (tl_high b))), (''regime_low'', VFloat (the (tl_low b)))]"
  have e: "dget e ''regime_high'' = VFloat (the (tl_high b))" "dget e ''regime_low'' = VFloat (the (tl_low b))"
    by (simp_all add: e_def)
  then have floats: "dfloat std e ''regime_high'' = Inr (the (tl_high b))" "dfloat std e ''regime_low'' = Inr (the (tl_low b))"
    by (simp_all add: dfloat_def ditem_dget_some py_float_def)
  have "record_sample std p d now source_at price provider
      = Inr (dmerge e [(''metrics'', VDict ?m), (''updated_at'', trend_iso now)], ?m)"
    unfolding record_sample_def rows(1) rbind_Inr metrics extrema e_def [symmetric] floats e
    by (simp only: Let_def recorded_metrics_def leg_metrics_def)
  then show ?thesis
    using encodes_record [OF assms(1), of rows p now source_at price] rows(2)
    unfolding b [symmetric] e_def [symmetric] by (intro exI conjI) auto
qed

end
