(* ===== verification/Trend_Legs.thy ===== *)
theory Trend_Legs
  imports Trend_Spec
begin

section \<open>Invariants of a leg\<close>

text \<open>
  What every reachable leg of the specification satisfies: the transition number is positive exactly when
  there is a direction, milestones stay within their limits, and an offered or accepted advisory
  belongs to the current transition and its direction.
\<close>

definition own_advisory :: "trend_leg \<Rightarrow> (int \<times> bool) option \<Rightarrow> bool" where
  "own_advisory a k \<longleftrightarrow> k = None \<or> (k = Some (tl_sequence a, tl_regime a = Bullish) \<and> tl_regime a \<noteq> Neutral)"

definition leg_ok :: "trend_policy \<Rightarrow> nat \<Rightarrow> trend_leg \<Rightarrow> bool" where
  "leg_ok p n a \<longleftrightarrow>
     0 \<le> tl_sequence a \<and> (tl_regime a = Neutral \<longleftrightarrow> tl_sequence a = 0)
   \<and> 0 \<le> tl_milestone a \<and> tl_milestone a \<le> tp_max_milestones p
   \<and> 0 \<le> tl_adv_milestone a \<and> tl_adv_milestone a \<le> int n
   \<and> own_advisory a (tl_offered a) \<and> own_advisory a (tl_accepted a)"

lemma fresh_leg_ok: "0 < tp_max_milestones p \<Longrightarrow> leg_ok p 0 fresh_leg"
  by (simp add: leg_ok_def fresh_leg_def own_advisory_def)

lemma leg_ok_mono: "leg_ok p n a \<Longrightarrow> n \<le> m \<Longrightarrow> leg_ok p m a"
  by (auto simp: leg_ok_def)

lemma target_not_neutral: "target_regime p r metrics = Some (target, reason) \<Longrightarrow> target \<noteq> Neutral"
  by (auto simp: target_regime_def Let_def split: if_splits)

lemma points_not_neutral: "spec_points p a now source_at price = Some target \<Longrightarrow> target \<noteq> Neutral"
  using target_not_neutral by (fastforce simp: spec_points_def split: option.splits if_splits)

lemma leg_ok_record: "leg_ok p n a \<Longrightarrow> leg_ok p n (spec_record p a now source_at price)"
  by (auto simp: leg_ok_def spec_record_def own_advisory_def)

lemma leg_ok_candidate: "leg_ok p n a \<Longrightarrow> leg_ok p n (a\<lparr>tl_candidate := c\<rparr>)"
  by (auto simp: leg_ok_def own_advisory_def)

lemma leg_ok_advance: "leg_ok p n a \<Longrightarrow> leg_ok p (Suc n) (fst (spec_advance p a metrics now price allowed))"
  by (auto simp: leg_ok_def spec_advance_def own_advisory_def Let_def split: option.splits)

lemma leg_ok_continue:
  "leg_ok p n a \<Longrightarrow> tl_regime a \<noteq> Neutral \<Longrightarrow> leg_ok p n (fst (spec_continue p a now price allowed))"
  by (auto simp: leg_ok_def spec_continue_def own_advisory_def Let_def)

lemma leg_ok_enter:
  "leg_ok p n a \<Longrightarrow> target \<noteq> Neutral \<Longrightarrow> 0 < tp_max_milestones p \<Longrightarrow> leg_ok p n (fst (spec_enter a target now price))"
  by (auto simp: leg_ok_def spec_enter_def own_advisory_def Let_def)

lemma leg_ok_count:
  "leg_ok p n a \<Longrightarrow> target \<noteq> Neutral \<Longrightarrow> 0 < tp_max_milestones p \<Longrightarrow>
     leg_ok p n (fst (spec_candidate p a target now price))"
  using leg_ok_enter [of p n a target now price]
  by (auto simp: spec_candidate_def Let_def leg_ok_def own_advisory_def)

lemma leg_ok_sample:
  assumes "leg_ok p n a" "0 < tp_max_milestones p"
  shows "leg_ok p (Suc n) (fst (spec_sample p a now price source_at allowed))"
proof -
  let ?b = "spec_record p a now source_at price"
  note b = leg_ok_record [OF assms(1), of now source_at price]
  show ?thesis
  proof (cases "spec_points p a now source_at price")
    case None
    then show ?thesis
      using leg_ok_advance [OF leg_ok_candidate [OF b, of None]] leg_ok_continue [OF leg_ok_candidate [OF b, of None]]
        leg_ok_mono [OF assms(1)] leg_ok_mono [of p n _ "Suc n"]
      by (simp add: spec_sample_def Let_def)
  next
    case (Some target)
    then show ?thesis
      using leg_ok_count [OF b points_not_neutral [OF Some] assms(2), of now price] leg_ok_mono [OF assms(1)]
        leg_ok_mono [of p n _ "Suc n"]
      by (simp add: spec_sample_def Let_def)
  qed
qed

lemma leg_ok_accept: "leg_ok p n a \<Longrightarrow> leg_ok p n (spec_accept a e)"
  by (auto simp: leg_ok_def spec_accept_def own_advisory_def split: trend_event.splits)

lemma leg_ok_pending: "leg_ok p n (a\<lparr>tl_pending := x\<rparr>) = leg_ok p n a"
  by (simp add: leg_ok_def own_advisory_def)

lemma leg_ok_reconcile: "leg_ok p n a \<Longrightarrow> leg_ok p n (spec_reconcile sid a acknowledged)"
  using leg_ok_accept [of p n a]
  by (auto simp: spec_reconcile_def Let_def leg_ok_pending split: option.splits trend_event.splits)

lemma leg_ok_expire: "leg_ok p n a \<Longrightarrow> leg_ok p n (spec_expire p a now)"
  by (auto simp: spec_expire_def leg_ok_def own_advisory_def split: option.splits trend_event.splits)

lemma leg_ok_delivered: "leg_ok p n a \<Longrightarrow> leg_ok p n (spec_delivered sid a event_id)"
  using leg_ok_accept [of p n a] by (auto simp: spec_delivered_def leg_ok_pending split: option.splits)

lemma leg_ok_op:
  assumes "leg_ok p n a" "0 < tp_max_milestones p"
  shows "leg_ok p (Suc n) (fst (spec_op p sid a x))"
proof (cases x)
  case (Tick acknowledged now price provider source_at allowed)
  then show ?thesis
    using leg_ok_expire [OF leg_ok_sample [OF leg_ok_reconcile [OF assms(1)] assms(2)]]
    by (simp add: case_prod_unfold Let_def)
next
  case (Delivered event_id now)
  then show ?thesis using leg_ok_mono [OF leg_ok_delivered [OF assms(1)]] by simp
qed

end
