(* ===== verification/Trend_Steps.thy ===== *)
theory Trend_Steps
  imports Trend_Refinement Trend_Legs
begin

section \<open>The steps of the trend machine implement the specification\<close>

text \<open>
  Advances, continuations and transitions: what the code returns for an encoded state is the
  encoding of the leg of the specification together with a rendering of its event.
\<close>

definition implements ::
  "py_std \<Rightarrow> string \<Rightarrow> int \<Rightarrow> (pydict \<times> pydict option) res \<Rightarrow> trend_leg \<times> trend_event option \<Rightarrow> bool" where
  "implements std sid now r s \<longleftrightarrow>
     (\<exists>d ev. r = Inr (d, ev) \<and> encodes std sid d (fst s) \<and> rel_option (\<lambda>v e. renders std sid e now v) ev (snd s))"

lemma implements_quiet: "encodes std sid d a \<Longrightarrow> implements std sid now (Inr (d, None)) (a, None)"
  by (simp add: implements_def)

lemma implements_event:
  "encodes std sid d a \<Longrightarrow> renders std sid e now v \<Longrightarrow> implements std sid now (Inr (d, Some v)) (a, Some e)"
  by (simp add: implements_def)

lemma milestone_points_ok: "\<bar>m\<bar> < 2 ^ 53 \<Longrightarrow> milestone_points p m = Inr (spec_threshold p m)"
  by (simp add: milestone_points_def spec_threshold_def float_of_int_small)

lemma cooling_ok: "time_ok std t \<Longrightarrow> cooling_down std p (stored_time t) now = Inr (spec_cooling p t now)"
  by (cases t) (simp_all add: cooling_down_def spec_cooling_def encoded_simps)

lemma candidate_count_ok:
  "dget d ik = stored_index VInt x \<Longrightarrow> dget d ck = stored_count x \<Longrightarrow> candidate_count d ik ck m = Inr (spec_count x m)"
  by (cases x) (auto simp: candidate_count_def spec_count_def stored_index_def stored_count_def eq_int_def)

lemma session_item: "encodes std sid d a \<Longrightarrow> ditem d ''session_id'' = Inr (VStr sid)"
  by (rule ditem_dget_some) (simp_all add: encodes_def)

subsection \<open>Advances\<close>

lemma renders_advance:
  "iso_ok std now \<Longrightarrow>
     renders std sid (Advance up m) now (advance_event sid up m anchor extension threshold now source_at price provider metrics)"
  by (simp add: renders_def advance_event_def)

lemma encodes_adv_milestone:
  "encodes std sid d a \<Longrightarrow>
     encodes std sid (reset_advance (dset d ''advance_milestone_index'' (VInt m))) (a\<lparr>tl_adv_milestone := m, tl_adv_step := None\<rparr>)"
  unfolding encodes_def reset_advance_def by (simp add: encoded_simps)

lemma encodes_adv_count:
  "encodes std sid d a \<Longrightarrow>
     encodes std sid (dmerge d [(''advance_candidate_index'', VInt m), (''advance_candidate_observations'', VInt n)])
       (a\<lparr>tl_adv_step := Some (m, n)\<rparr>)"
  unfolding encodes_def by (simp add: encoded_simps)

lemma encodes_adv_event:
  assumes "encodes std sid d a" "iso_ok std now" "renders std sid e now v"
  shows "encodes std sid (reset_advance (dmerge d
       [(''advance_milestone_index'', VInt m), (''advance_events_in_session'', VInt k),
        (''last_advance_at'', trend_iso now), (''last_advance'', VDict v), (''pending_event'', VDict v)]))
     (a\<lparr>tl_adv_milestone := m, tl_adv_step := None, tl_adv_used := k, tl_adv_last := Some now, tl_pending := Some (e, now)\<rparr>)"
proof -
  have "stored_event std sid (VDict v) (Some (e, now))" using assms(3) by (simp add: stored_event_def)
  then show ?thesis
    using assms(1,2) unfolding encodes_def reset_advance_def by (simp add: encoded_simps)
qed

lemma count_advance_ok:
  assumes "encodes std sid d a" "iso_ok std now"
  shows "implements std sid now (count_advance std p d now price provider source_at metrics (up, extension, anchor) m threshold)
    (let n = spec_count (tl_adv_step a) m in
     if n < tp_step_confirmations p then (a\<lparr>tl_adv_step := Some (m, n)\<rparr>, None)
     else (a\<lparr>tl_adv_milestone := m, tl_adv_step := None, tl_adv_used := tl_adv_used a + 1, tl_adv_last := Some now,
             tl_pending := Some (Advance up m, now)\<rparr>, Some (Advance up m)))"
proof -
  let ?n = "spec_count (tl_adv_step a) m"
  define e where "e = dmerge d [(''advance_candidate_index'', VInt m), (''advance_candidate_observations'', VInt ?n)]"
  have enc: "encodes std sid e (a\<lparr>tl_adv_step := Some (m, ?n)\<rparr>)"
    unfolding e_def by (rule encodes_adv_count [OF assms(1)])
  have count: "candidate_count d ''advance_candidate_index'' ''advance_candidate_observations'' m = Inr ?n"
    using assms(1) by (intro candidate_count_ok) (simp_all add: encodes_def)
  have used: "int_or_0 (dget e ''advance_events_in_session'') = Inr (tl_adv_used a)"
    using enc by (simp add: encodes_def)
  show ?thesis
    using implements_quiet [OF enc, of now]
      implements_event [OF encodes_adv_event [OF enc assms(2) renders_advance [OF assms(2)]] renders_advance [OF assms(2)]]
    by (simp add: count_advance_def count Let_def e_def [symmetric] session_item [OF enc] used del: dmerge_simps)
qed

lemma advance_session_ok:
  assumes "encodes std sid d a" "dget d ''metrics'' = VDict m" "\<bar>tl_adv_milestone a + 1\<bar> < 2 ^ 53" "iso_ok std now"
  shows "implements std sid now (advance_session_trend std p d now price provider source_at allowed)
    (spec_advance p a m now price allowed)"
proof -
  note idle = implements_quiet [OF encodes_reset_advance [OF assms(1)], of now]
  have fields: "int_or_0 (dget d ''advance_events_in_session'') = Inr (tl_adv_used a)"
      "int_or_0 (dget d ''advance_milestone_index'') = Inr (tl_adv_milestone a)"
      "cooling_down std p (dget d ''last_advance_at'') now = Inr (spec_cooling p (tl_adv_last a) now)"
    using assms(1) by (simp_all add: encodes_def cooling_ok)
  note moved = implements_quiet [OF encodes_adv_milestone [OF assms(1)], of now "tl_adv_milestone a + 1"]
  show ?thesis
    using idle moved count_advance_ok [OF assms(1,4)]
    by (auto simp: advance_session_trend_def spec_advance_def Let_def assms(2) fields milestone_points_ok [OF assms(3)]
        simp del: dmerge_simps split: option.splits if_splits)
qed

subsection \<open>Continuations\<close>

lemma advisory_text_not_Nil [simp]: "advisory_text sid k \<noteq> []"
  by (simp add: advisory_text_def)

lemma renders_continuation:
  assumes "iso_ok std now" "up = (regime = Bullish)" "parent = (if m = 1 then None else Some (advisory_text sid (n, up)))"
  shows "renders std sid (Continuation n up m) now
     (continuation_event sid (dec_int n) (VInt n) regime m parent anchor extension threshold now source_at price provider metrics)"
  using assms by (simp add: renders_def continuation_event_def Let_def advisory_text_def)

lemma encodes_cont_milestone:
  "encodes std sid d a \<Longrightarrow>
     encodes std sid (reset_continuation (dmerge d [(''continuation_milestone_index'', VInt m),
        (''continuation_suppressed_reason'', v)])) (a\<lparr>tl_milestone := m, tl_step := None\<rparr>)"
  unfolding encodes_def reset_continuation_def by (simp add: encoded_simps)

lemma encodes_suppressed:
  "encodes std sid d a \<Longrightarrow> encodes std sid (dset d ''continuation_suppressed_reason'' v) a"
  unfolding encodes_def by simp

lemma encodes_cont_count:
  "encodes std sid d a \<Longrightarrow>
     encodes std sid (dmerge d [(''continuation_candidate_index'', VInt m), (''continuation_candidate_observations'', VInt n),
        (''continuation_candidate_provider'', v)]) (a\<lparr>tl_step := Some (m, n)\<rparr>)"
  unfolding encodes_def by (simp add: encoded_simps)

lemma encodes_offer:
  "encodes std sid d a \<Longrightarrow> v = VStr (advisory_text sid k) \<Longrightarrow>
     encodes std sid (dset d ''pending_directional_advisory_id'' v) (a\<lparr>tl_offered := Some k\<rparr>)"
  unfolding encodes_def by (simp add: encoded_simps)

lemma encodes_cont_event:
  assumes "encodes std sid d a" "iso_ok std now" "renders std sid e now v"
  shows "encodes std sid (reset_continuation (dmerge d
       [(''continuation_milestone_index'', VInt m), (''continuation_events_in_context'', VInt k),
        (''last_continuation_at'', trend_iso now), (''last_continuation'', VDict v),
        (''continuation_suppressed_reason'', VNone), (''pending_event'', VDict v)]))
     (a\<lparr>tl_milestone := m, tl_step := None, tl_used := k, tl_last := Some now, tl_pending := Some (e, now)\<rparr>)"
proof -
  have "stored_event std sid (VDict v) (Some (e, now))" using assms(3) by (simp add: stored_event_def)
  then show ?thesis
    using assms(1,2) unfolding encodes_def reset_continuation_def by (simp add: encoded_simps)
qed

lemma copied_metrics_ok: "encodes std sid d a \<Longrightarrow> \<exists>m. copied_metrics d = Inr m"
  by (auto simp: copied_metrics_def encodes_def is_dict_def vor_def split: pyval.splits)

lemma emit_continuation_ok:
  assumes enc: "encodes std sid d a" and now: "iso_ok std now" and up: "up = (regime = Bullish)"
    and parent: "parent = (if m = 1 then None else Some (advisory_text sid (n, up)))"
  shows "implements std sid now (emit_continuation std d parent now price provider source_at regime (VInt n) anchor extension threshold m)
    (a\<lparr>tl_milestone := m, tl_step := None, tl_used := tl_used a + 1, tl_last := Some now,
       tl_offered := (if m = 1 then Some (n, up) else tl_offered a), tl_pending := Some (Continuation n up m, now)\<rparr>,
     Some (Continuation n up m))"
proof -
  obtain metrics where metrics: "copied_metrics d = Inr metrics" using copied_metrics_ok [OF enc] by blast
  have used: "int_or_0 (dget d ''continuation_events_in_context'') = Inr (tl_used a)"
    using enc by (simp add: encodes_def)
  have str: "py_str std (VInt n) = dec_int n" by (simp add: py_str_def)
  note v = renders_continuation [OF now up parent, of anchor extension threshold source_at price provider metrics]
  have offer: "encodes std sid (dset d ''pending_directional_advisory_id''
       (VStr (''gth-advisory:'' @ sid @ '':'' @ dec_int n @ '':'' @ direction_text (regime = Bullish)))) (a\<lparr>tl_offered := Some (n, up)\<rparr>)"
    by (rule encodes_offer [OF enc]) (simp add: advisory_text_def up)
  show ?thesis
  proof (cases "m = 1")
    case True
    have leg: "(a\<lparr>tl_offered := Some (n, up)\<rparr>)\<lparr>tl_milestone := m, tl_step := None, tl_used := tl_used a + 1, tl_last := Some now,
          tl_pending := Some (Continuation n up m, now)\<rparr>
        = a\<lparr>tl_milestone := m, tl_step := None, tl_used := tl_used a + 1, tl_last := Some now,
          tl_offered := Some (n, up), tl_pending := Some (Continuation n up m, now)\<rparr>"
      by simp
    show ?thesis
      using implements_event [OF encodes_cont_event [OF offer now v, of m "tl_used a + 1", unfolded leg] v] True
      by (simp add: emit_continuation_def session_item [OF enc] metrics used str Let_def del: dmerge_simps)
  next
    case False
    then show ?thesis
      using implements_event [OF encodes_cont_event [OF enc now v] v]
      by (simp add: emit_continuation_def session_item [OF enc] metrics used str Let_def del: dmerge_simps)
  qed
qed

lemma count_continuation_ok:
  assumes "encodes std sid d a" "iso_ok std now" "up = (regime = Bullish)" "tl_accepted a \<in> {None, Some (n, up)}"
  shows "implements std sid now (count_continuation std p d now price provider source_at regime (VInt n) anchor extension threshold m)
    (let k = spec_count (tl_step a) m in
     if k < tp_step_confirmations p then (a\<lparr>tl_step := Some (m, k)\<rparr>, None)
     else if m \<noteq> 1 \<and> tl_accepted a = None then (a\<lparr>tl_step := None\<rparr>, None)
     else (a\<lparr>tl_milestone := m, tl_step := None, tl_used := tl_used a + 1, tl_last := Some now,
             tl_offered := (if m = 1 then Some (n, up) else tl_offered a), tl_pending := Some (Continuation n up m, now)\<rparr>,
           Some (Continuation n up m)))"
proof -
  let ?k = "spec_count (tl_step a) m"
  define e where "e = dmerge d [(''continuation_candidate_index'', VInt m), (''continuation_candidate_observations'', VInt ?k),
      (''continuation_candidate_provider'', VStr provider)]"
  have enc: "encodes std sid e (a\<lparr>tl_step := Some (m, ?k)\<rparr>)"
    unfolding e_def by (rule encodes_cont_count [OF assms(1)])
  have count: "candidate_count d ''continuation_candidate_index'' ''continuation_candidate_observations'' m = Inr ?k"
    using assms(1) by (intro candidate_count_ok) (simp_all add: encodes_def)
  have "dget e ''active_directional_advisory_id'' = advisory_ref sid (tl_accepted a)"
    using enc by (simp add: encodes_def)
  then have parent: "dtext std e ''active_directional_advisory_id'' []
      = (case tl_accepted a of None \<Rightarrow> [] | Some x \<Rightarrow> advisory_text sid x)"
    by (cases "tl_accepted a") (simp_all add: dtext_def encoded_simps vor_def)
  have idle: "encodes std sid (reset_continuation (dset e ''continuation_suppressed_reason'' v)) (a\<lparr>tl_step := None\<rparr>)" for v
    using encodes_reset_continuation [OF encodes_suppressed [OF enc]] by simp
  note event = emit_continuation_ok [OF enc assms(2,3), of _ m n price provider source_at anchor extension threshold]
  have step: "count_continuation std p d now price provider source_at regime (VInt n) anchor extension threshold m =
     (if ?k < tp_step_confirmations p then Inr (e, None)
      else if m = 1
      then emit_continuation std e None now price provider source_at regime (VInt n) anchor extension threshold m
      else if tl_accepted a = None
      then Inr (reset_continuation
             (dset e ''continuation_suppressed_reason'' (VStr ''management_without_accepted_entry_advisory'')), None)
      else emit_continuation std e (Some (advisory_text sid (the (tl_accepted a)))) now price provider source_at regime
             (VInt n) anchor extension threshold m)"
    unfolding count_continuation_def count rbind_Inr Let_def e_def [symmetric] parent
    by (cases "tl_accepted a") simp_all
  show ?thesis
    using assms(4) implements_quiet [OF enc, of now] implements_quiet [OF idle, of now] event [of None]
      event [of "Some (advisory_text sid (n, up))"]
    unfolding step Let_def by auto
qed

lemma advance_continuation_ok:
  assumes "encodes std sid d a" "tl_regime a \<noteq> Neutral" "\<bar>tl_milestone a + 1\<bar> < 2 ^ 53" "iso_ok std now"
    "tl_accepted a \<in> {None, Some (tl_sequence a, tl_regime a = Bullish)}"
  shows "implements std sid now (advance_continuation std p d now price provider source_at (tl_regime a) allowed)
    (spec_continue p a now price allowed)"
proof -
  obtain tr where tr: "dget d ''last_transition'' = VDict tr" "dget tr ''price'' = VFloat (tl_anchor a)"
      "dget tr ''sequence'' = VInt (tl_sequence a)"
    using assms(1,2) by (auto simp: encodes_def stored_transition_def)
  have fields: "int_or_0 (dget d ''continuation_events_in_context'') = Inr (tl_used a)"
      "int_or_0 (dget d ''continuation_milestone_index'') = Inr (tl_milestone a)"
      "cooling_down std p (dget d ''last_continuation_at'') now = Inr (spec_cooling p (tl_last a) now)"
    using assms(1) by (simp_all add: encodes_def cooling_ok)
  have numbers: "is_number (VFloat (tl_anchor a))" "is_py_int (VInt (tl_sequence a))"
      "py_float std (VFloat (tl_anchor a)) = Inr (tl_anchor a)"
    by (simp_all add: is_number_def is_py_int_def py_float_def)
  define m where "m = tl_milestone a + 1"
  define extension where "extension = (if tl_regime a = Bullish then fsub price (tl_anchor a) else fsub (tl_anchor a) price)"
  let ?r = "count_continuation std p d now price provider source_at (tl_regime a) (VInt (tl_sequence a)) (tl_anchor a) extension
      (spec_threshold p m) m"
  note points = milestone_points_ok [OF assms(3), folded m_def]
  have code: "advance_continuation std p d now price provider source_at (tl_regime a) allowed =
     (if tl_used a \<ge> tp_budget p \<or> tl_milestone a \<ge> tp_max_milestones p then Inr (reset_continuation d, None)
      else if \<not> fle (spec_threshold p m) extension \<or> spec_cooling p (tl_last a) now then Inr (reset_continuation d, None)
      else if \<not> allowed
      then Inr (reset_continuation (dmerge d [(''continuation_milestone_index'', VInt m),
             (''continuation_suppressed_reason'', VStr ''continuation_gate_closed'')]), None)
      else ?r)"
    using assms(2)
    by (simp add: advance_continuation_def continuation_spent_def Let_def tr fields numbers points m_def [symmetric]
        extension_def [symmetric] del: dmerge_simps)
  have idle: "implements std sid now (Inr (reset_continuation d, None)) (a\<lparr>tl_step := None\<rparr>, None)"
    by (rule implements_quiet [OF encodes_reset_continuation [OF assms(1)]])
  define s where "s = (if spec_count (tl_step a) m < tp_step_confirmations p
       then (a\<lparr>tl_step := Some (m, spec_count (tl_step a) m)\<rparr>, None)
       else if m \<noteq> 1 \<and> tl_accepted a = None then (a\<lparr>tl_step := None\<rparr>, None)
       else (a\<lparr>tl_milestone := m, tl_step := None, tl_used := tl_used a + 1, tl_last := Some now,
               tl_offered := (if m = 1 then Some (tl_sequence a, tl_regime a = Bullish) else tl_offered a),
               tl_pending := Some (Continuation (tl_sequence a) (tl_regime a = Bullish) m, now)\<rparr>,
             Some (Continuation (tl_sequence a) (tl_regime a = Bullish) m)))"
  have counted: "implements std sid now ?r s"
    unfolding s_def by (rule count_continuation_ok [OF assms(1,4) refl assms(5), unfolded Let_def])
  show ?thesis
    unfolding code spec_continue_def Let_def m_def [symmetric] extension_def [symmetric] s_def [symmetric]
    using idle implements_quiet [OF encodes_cont_milestone [OF assms(1)], of now m] counted by simp
qed

subsection \<open>Transitions\<close>

lemma renders_transition:
  "iso_ok std now \<Longrightarrow>
     renders std sid (Transition n target) now
       (transition_event sid n regime target reason now source_at price provider metrics invalidated)"
  by (simp add: renders_def transition_event_def)

lemma encodes_enter:
  assumes "encodes std sid d a" "renders std sid e now v" "dget v ''price'' = VFloat price" "dget v ''sequence'' = VInt n"
    "e = Transition n target"
  shows "encodes std sid (enter_regime d target n now price v)
     (a\<lparr>tl_regime := target, tl_sequence := n, tl_anchor := price, tl_high := Some price, tl_low := Some price,
        tl_candidate := None, tl_milestone := 0, tl_step := None, tl_last := None, tl_offered := None,
        tl_accepted := None, tl_pending := Some (e, now)\<rparr>)"
proof -
  have "stored_event std sid (VDict v) (Some (e, now))" "stored_transition (VDict v) price n"
    using assms(2-4) by (simp_all add: stored_event_def stored_transition_def)
  then show ?thesis
    using assms(1) unfolding encodes_def enter_regime_def reset_continuation_def Let_def by (simp add: encoded_simps)
qed

lemma encodes_candidate:
  "encodes std sid d a \<Longrightarrow>
     encodes std sid (dmerge d [(''candidate_regime'', VStr (regime_text r)), (''candidate_observations'', VInt n)])
       (a\<lparr>tl_candidate := Some (r, n)\<rparr>)"
  unfolding encodes_def by (simp add: encoded_simps)

lemma count_candidate_ok:
  assumes "encodes std sid d a" "iso_ok std now"
  shows "implements std sid now (count_candidate std p d sid now source_at price provider metrics regime target reason)
    (spec_candidate p a target now price)"
proof -
  let ?n = "candidate_seen a target"
  let ?a = "a\<lparr>tl_step := None, tl_candidate := Some (target, ?n)\<rparr>"
  have swap: "a\<lparr>tl_step := None, tl_candidate := x\<rparr> = a\<lparr>tl_candidate := x, tl_step := None\<rparr>" for x by simp
  define c where "c = reset_continuation d"
  have c: "encodes std sid c (a\<lparr>tl_step := None\<rparr>)"
    unfolding c_def by (rule encodes_reset_continuation [OF assms(1)])
  have seen: "(if dget c ''candidate_regime'' = VStr (regime_text target)
      then rbind (int_or_0 (dget c ''candidate_observations'')) (\<lambda>n. Inr (n + 1)) else Inr 1) = Inr ?n"
  proof -
    have "dget c ''candidate_regime'' = stored_index (\<lambda>r. VStr (regime_text r)) (tl_candidate a)"
        "dget c ''candidate_observations'' = stored_count (tl_candidate a)"
      using c by (simp_all add: encodes_def)
    then show ?thesis
      by (cases "tl_candidate a") (auto simp: candidate_seen_def stored_index_def stored_count_def)
  qed
  define e where "e = dmerge c [(''candidate_regime'', VStr (regime_text target)), (''candidate_observations'', VInt ?n)]"
  have e: "encodes std sid e ?a"
    unfolding e_def using encodes_candidate [OF c] by simp
  have sequence: "int_or_0 (dget e ''transition_sequence'') = Inr (tl_sequence a)"
    using e by (simp add: encodes_def)
  let ?v = "transition_event sid (tl_sequence a + 1) regime target reason now source_at price provider metrics
      (dtext std e ''active_directional_advisory_id'' [])"
  note v = renders_transition [OF assms(2), of sid "tl_sequence a + 1" target regime reason source_at price provider metrics
      "dtext std e ''active_directional_advisory_id'' []"]
  have fields: "dget ?v ''price'' = VFloat price" "dget ?v ''sequence'' = VInt (tl_sequence a + 1)"
    by (simp_all add: transition_event_def)
  have code: "count_candidate std p d sid now source_at price provider metrics regime target reason =
     (if ?n < tp_confirmations p then Inr (e, None)
      else Inr (enter_regime e target (tl_sequence a + 1) now price ?v, Some ?v))"
    unfolding count_candidate_def Let_def c_def [symmetric] seen rbind_Inr e_def [symmetric] sequence by (rule refl)
  have quiet: "implements std sid now (Inr (e, None)) (a\<lparr>tl_candidate := Some (target, ?n), tl_step := None\<rparr>, None)"
    using implements_quiet [OF e, of now, unfolded swap] .
  have moved: "implements std sid now (Inr (enter_regime e target (tl_sequence a + 1) now price ?v, Some ?v))
      (spec_enter a target now price)"
    using implements_event [OF encodes_enter [OF e v fields refl] v] by (simp add: spec_enter_def Let_def)
  show ?thesis
    unfolding code spec_candidate_def Let_def using quiet moved by simp
qed

subsection \<open>One sample\<close>

lemma hold_regime_ok:
  assumes "encodes std sid d a" "dget d ''metrics'' = VDict m" "leg_ok p n a" "int n < 2 ^ 52" "policy_ok p" "iso_ok std now"
  shows "implements std sid now (hold_regime std p d now source_at price provider (tl_regime a) allowed)
    (if tl_regime a = Neutral then spec_advance p (a\<lparr>tl_candidate := None\<rparr>) m now price allowed
     else spec_continue p (a\<lparr>tl_candidate := None\<rparr>) now price allowed)"
proof -
  define e where "e = dmerge d [(''candidate_regime'', VNone), (''candidate_observations'', VInt 0)]"
  let ?a = "a\<lparr>tl_candidate := None\<rparr>"
  have e: "encodes std sid e ?a" unfolding e_def by (rule encodes_hold [OF assms(1)])
  have m: "dget e ''metrics'' = VDict m" using assms(2) by (simp add: e_def)
  have small: "\<bar>tl_adv_milestone ?a + 1\<bar> < 2 ^ 53" "\<bar>tl_milestone ?a + 1\<bar> < 2 ^ 53"
    using assms(3,4) policy_okD(12) [OF assms(5)] by (auto simp: leg_ok_def)
  have own: "tl_accepted ?a \<in> {None, Some (tl_sequence ?a, tl_regime ?a = Bullish)}"
    using assms(3) by (auto simp: leg_ok_def own_advisory_def)
  show ?thesis
    using advance_session_ok [OF e m small(1) assms(6)] advance_continuation_ok [OF e _ small(2) assms(6) own]
    unfolding hold_regime_def Let_def e_def [symmetric] by simp
qed

lemma regime_of_text [simp]: "regime_of (regime_text r) = Inr r"
  by (cases r) (simp_all add: regime_of_def)

lemma regime_encoded:
  assumes "encodes std sid d a"
  shows "regime_of (dtext std d ''regime'' ''neutral'') = Inr (tl_regime a)"
proof -
  have "dget d ''regime'' = VStr (regime_text (tl_regime a))" using assms by (simp add: encodes_def)
  then show ?thesis by (cases "tl_regime a") (simp_all add: dtext_def vor_def regime_of_def)
qed

lemma trend_sample_ok:
  assumes "encodes std sid d a" "leg_ok p n a" "int n < 2 ^ 52" "policy_ok p" "iso_ok std now" "iso_ok std source_at"
    "\<not> spec_skipped p a now source_at"
  shows "implements std sid now (accept_trend_sample std p d sid now price provider source_at allowed)
    (spec_sample p a now price source_at allowed)"
proof -
  define b where "b = spec_record p a now source_at price"
  obtain e where e: "record_sample std p d now source_at price provider = Inr (e, recorded_metrics p b price)"
      "encodes std sid e b" "dget e ''metrics'' = VDict (recorded_metrics p b price)"
    using record_sample_encoded [OF assms(1,4,5,6) b_def] by blast
  note regime = regime_encoded [OF e(2)]
  have same: "tl_regime b = tl_regime a" by (simp add: b_def spec_record_def)
  have b: "leg_ok p n b" unfolding b_def by (rule leg_ok_record [OF assms(2)])
  note hold = hold_regime_ok [OF e(2,3) b assms(3-5), of source_at price provider allowed]
  show ?thesis
    using assms(7) hold count_candidate_ok [OF e(2) assms(5)]
    by (auto simp: accept_trend_sample_def e(1) regime spec_sample_def Let_def b_def [symmetric] spec_points_def same
        split: option.splits)
qed

lemma advance_trend_ok:
  assumes "encodes std sid d a" "leg_ok p n a" "int n < 2 ^ 52" "policy_ok p" "iso_ok std now" "iso_ok std source_at"
  shows "implements std sid now (advance_trend_state std p d sid now price provider source_at allowed)
    (spec_sample p a now price source_at allowed)"
proof -
  obtain e where e: "migrate_continuation_state p d = Inr e" "encodes std sid e a"
    using migrate_encoded [OF assms(1)] by blast
  have "session_state d sid = d" using assms(1) by (simp add: session_state_def encodes_def)
  then have code: "advance_trend_state std p d sid now price provider source_at allowed =
     (if spec_skipped p a now source_at then Inr (dset e ''updated_at'' (trend_iso now), None)
      else accept_trend_sample std p e sid now price provider source_at allowed)"
    by (simp add: advance_trend_state_def e(1) skipped_encoded [OF e(2) assms(6)])
  show ?thesis
    unfolding code
    using implements_quiet [OF encodes_updated_at [OF e(2)], of now] trend_sample_ok [OF e(2) assms(2-6)]
    by (simp add: spec_sample_def)
qed

end
