(* ===== verification/Trend_Runs.thy ===== *)
theory Trend_Runs
  imports Trend_Steps
begin

section \<open>Runs of the trend service\<close>

text \<open>
  The operations of the service on the stored state, one context at a time: a pass with a fresh price
  and the report of a delivery. Any run of them on stored times that can be read back returns, and
  its state and its events are those of the specification.
\<close>

primrec trend_apply :: "py_std \<Rightarrow> trend_policy \<Rightarrow> string \<Rightarrow> pydict \<Rightarrow> trend_op \<Rightarrow> (pydict \<times> pydict option) res" where
  "trend_apply std p sid d (Tick acknowledged now price provider source_at allowed) =
     rbind (trend_tick std p d acknowledged sid now price provider source_at allowed) (\<lambda>(d, event, pending). Inr (d, event))"
| "trend_apply std p sid d (Delivered event_id now) = Inr (trend_delivered std d event_id now, None)"

primrec trend_run :: "py_std \<Rightarrow> trend_policy \<Rightarrow> string \<Rightarrow> pydict \<Rightarrow> trend_op list \<Rightarrow> (pydict \<times> pydict option list) res" where
  "trend_run std p sid d [] = Inr (d, [])"
| "trend_run std p sid d (x # xs) =
     rbind (trend_apply std p sid d x) (\<lambda>(d, ev). rbind (trend_run std p sid d xs) (\<lambda>(d, evs). Inr (d, ev # evs)))"

subsection \<open>The advisory\<close>

lemma encodes_no_pending:
  "encodes std sid d a \<Longrightarrow> encodes std sid (dset d ''pending_event'' VNone) (a\<lparr>tl_pending := None\<rparr>)"
  unfolding encodes_def by (simp add: encoded_simps)

lemma encodes_accept:
  "encodes std sid d a \<Longrightarrow>
     encodes std sid (dmerge d [(''pending_directional_advisory_id'', VNone),
        (''active_directional_advisory_id'', VStr (advisory_text sid k)), (''active_directional_advisory_accepted_at'', v)])
       (a\<lparr>tl_offered := None, tl_accepted := Some k\<rparr>)"
  unfolding encodes_def by (simp add: encoded_simps)

lemma encodes_withdraw:
  "encodes std sid d a \<Longrightarrow>
     encodes std sid (dmerge d [(''pending_directional_advisory_id'', VNone), (''continuation_suppressed_reason'', v)])
       (a\<lparr>tl_offered := None\<rparr>)"
  unfolding encodes_def by (simp add: encoded_simps)

text \<open>The advisory of an advance begins with another word.\<close>

lemma advance_is_no_advisory [simp]:
  "advisory_text sid k \<noteq> CHR ''g'' # CHR ''t'' # CHR ''h'' # CHR ''-'' # CHR ''a'' # CHR ''d'' # CHR ''v'' # CHR ''a'' # s"
  by (simp add: advisory_text_def)

lemma advisory_ref_eq: "advisory_ref sid k = VStr (advisory_text sid x) \<longleftrightarrow> k = Some x"
  by (cases k) (simp_all add: advisory_ref_def)

lemma advisory_ref_advance [simp]:
  "advisory_ref sid k \<noteq> VStr (CHR ''g'' # CHR ''t'' # CHR ''h'' # CHR ''-'' # CHR ''a'' # CHR ''d'' # CHR ''v'' # CHR ''a'' # s)"
  by (cases k) (simp_all add: advisory_ref_def)

definition entry_of :: "trend_leg \<Rightarrow> trend_event \<Rightarrow> bool" where
  "entry_of a e \<longleftrightarrow> (case e of Continuation n up m \<Rightarrow> m = 1 \<and> tl_offered a = Some (n, up) | _ \<Rightarrow> False)"

text \<open>The test the code makes before it accepts or withdraws an advisory.\<close>

lemma entry_test:
  assumes "encodes std sid d a" "renders std sid e t ev"
  shows "(dget ev ''signal_stage'' = VStr ''entry_advisory'' \<and> dtext std ev ''advisory_id'' [] \<noteq> []
     \<and> dget d ''pending_directional_advisory_id'' = VStr (dtext std ev ''advisory_id'' [])) \<longleftrightarrow> entry_of a e"
proof -
  have "dget d ''pending_directional_advisory_id'' = advisory_ref sid (tl_offered a)"
    using assms(1) by (simp add: encodes_def)
  moreover have "dget ev ''signal_stage'' = stage_value e" "dget ev ''advisory_id'' = advisory_value sid e"
    using assms(2) by (simp_all add: renders_def)
  ultimately show ?thesis
    by (cases e) (auto simp: entry_of_def dtext_def vor_def advisory_ref_eq)
qed

lemma entry_text:
  "renders std sid (Continuation n up m) t ev \<Longrightarrow> dtext std ev ''advisory_id'' [] = advisory_text sid (n, up)"
  by (simp add: renders_def dtext_def vor_def)

lemma acknowledge_ok:
  assumes "encodes std sid d a" "renders std sid e t ev"
  shows "encodes std sid (acknowledge_advisory_delivery std d ev now) (spec_accept a e)"
proof (cases "entry_of a e")
  case True
  then obtain n up m where e: "e = Continuation n up m" "m = 1" "tl_offered a = Some (n, up)"
    by (auto simp: entry_of_def split: trend_event.splits)
  have "spec_accept a e = a\<lparr>tl_offered := None, tl_accepted := Some (n, up)\<rparr>" by (simp add: spec_accept_def e)
  then show ?thesis
    using encodes_accept [OF assms(1), of "(n, up)" "trend_iso now"] True
    unfolding acknowledge_advisory_delivery_def Let_def entry_test [OF assms]
    by (simp add: entry_text [OF assms(2) [unfolded e(1)]] del: dmerge_simps)
next
  case False
  then have "spec_accept a e = a" by (cases e) (simp_all add: spec_accept_def entry_of_def, blast)
  then show ?thesis
    using assms(1) False unfolding acknowledge_advisory_delivery_def Let_def entry_test [OF assms] by simp
qed

lemma expire_advisory_ok:
  assumes "encodes std sid d a" "renders std sid e t ev"
  shows "encodes std sid (expire_pending_advisory std d ev) (if entry_of a e then a\<lparr>tl_offered := None\<rparr> else a)"
  using assms(1) encodes_withdraw [OF assms(1)] unfolding expire_pending_advisory_def Let_def entry_test [OF assms] by simp

lemma pending_encoded:
  assumes "encodes std sid d a"
  shows "tl_pending a = None \<Longrightarrow> dget d ''pending_event'' = VNone"
    "tl_pending a = Some (e, t) \<Longrightarrow> \<exists>ev. dget d ''pending_event'' = VDict ev \<and> renders std sid e t ev"
  using assms by (simp_all add: encodes_def stored_event_def)

lemma pending_ok:
  assumes "encodes std sid d a"
  shows "\<exists>d' x. pending_trend_event std p d now = Inr (d', x) \<and> encodes std sid d' (spec_expire p a now)"
proof (cases "tl_pending a")
  case None
  then show ?thesis
    using assms pending_encoded(1) [OF assms None] by (simp add: pending_trend_event_def spec_expire_def)
next
  case (Some et)
  obtain e t where et: "et = (e, t)" by (cases et)
  obtain ev where ev: "dget d ''pending_event'' = VDict ev" "renders std sid e t ev"
    using pending_encoded(2) [OF assms Some [unfolded et]] by blast
  have created: "ditem ev ''at'' = Inr (trend_iso t)" "iso_ok std t"
    using ev(2) by (simp_all add: renders_def ditem_dget_some)
  have spec: "spec_expire p a now = (if flt (Fin (of_int (tp_pending_ttl p))) (total_seconds (now - t))
      then (if entry_of a e then a\<lparr>tl_offered := None\<rparr> else a)\<lparr>tl_pending := None\<rparr> else a)"
    by (simp add: spec_expire_def Some et entry_of_def split: trend_event.splits)
  show ?thesis
    using assms encodes_no_pending [OF expire_advisory_ok [OF assms ev(2)]]
    unfolding spec by (simp add: pending_trend_event_def ev(1) created)
qed

lemma reconcile_ok:
  assumes "encodes std sid d a"
  shows "encodes std sid (fst (reconcile_acknowledged_advisory std d acknowledged now)) (spec_reconcile sid a acknowledged)"
proof (cases "tl_pending a")
  case None
  then show ?thesis
    using assms pending_encoded(1) [OF assms None] by (simp add: reconcile_acknowledged_advisory_def spec_reconcile_def)
next
  case (Some et)
  obtain e t where et: "et = (e, t)" by (cases et)
  obtain ev where ev: "dget d ''pending_event'' = VDict ev" "renders std sid e t ev"
    using pending_encoded(2) [OF assms Some [unfolded et]] by blast
  define b where "b = acknowledge_advisory_delivery std d ev now"
  have b: "encodes std sid b (spec_accept a e)" unfolding b_def by (rule acknowledge_ok [OF assms ev(2)])
  have active: "dget b ''active_directional_advisory_id'' = advisory_ref sid (tl_accepted (spec_accept a e))"
    using b by (simp add: encodes_def)
  have r: "dget ev ''signal_stage'' = stage_value e" "dtext std ev ''event_id'' [] = event_text sid e"
      "dget ev ''advisory_id'' = advisory_value sid e"
    using ev(2) by (auto simp: renders_def dtext_def vor_def)
  have code: "fst (reconcile_acknowledged_advisory std d acknowledged now) =
     (if stage_value e = VStr ''entry_advisory'' \<and> event_text sid e \<in> set acknowledged
      then (if dget b ''active_directional_advisory_id'' = advisory_value sid e then dset b ''pending_event'' VNone else b) else d)"
    by (simp add: reconcile_acknowledged_advisory_def ev(1) r b_def [symmetric])
  show ?thesis
  proof (cases e)
    case (Continuation n up m)
    then show ?thesis
      using assms b encodes_no_pending [OF b]
      unfolding code active by (cases "m = 1") (simp_all add: spec_reconcile_def Some et Let_def advisory_ref_eq)
  next
    case (Transition n r)
    then show ?thesis using assms unfolding code by (simp add: spec_reconcile_def Some et)
  next
    case (Advance up m)
    then show ?thesis
      using assms b unfolding code active
      by (simp add: spec_reconcile_def Some et spec_accept_def)
  qed
qed

lemma delivered_ok:
  assumes "encodes std sid d a"
  shows "encodes std sid (trend_delivered std d event_id now) (spec_delivered sid a event_id)"
proof (cases "tl_pending a")
  case None
  then show ?thesis
    using assms pending_encoded(1) [OF assms None] by (simp add: trend_delivered_def spec_delivered_def)
next
  case (Some et)
  obtain e t where et: "et = (e, t)" by (cases et)
  obtain ev where ev: "dget d ''pending_event'' = VDict ev" "renders std sid e t ev"
    using pending_encoded(2) [OF assms Some [unfolded et]] by blast
  have "dget ev ''event_id'' = VStr (event_text sid e)" using ev(2) by (simp add: renders_def)
  then show ?thesis
    using assms encodes_no_pending [OF acknowledge_ok [OF assms ev(2)]]
    by (simp add: trend_delivered_def spec_delivered_def ev(1) Some et)
qed

subsection \<open>Operations and runs\<close>

primrec op_ok :: "py_std \<Rightarrow> trend_op \<Rightarrow> bool" where
  "op_ok std (Tick acknowledged now price provider source_at allowed) \<longleftrightarrow> iso_ok std now \<and> iso_ok std source_at"
| "op_ok std (Delivered event_id now) \<longleftrightarrow> True"

primrec op_time :: "trend_op \<Rightarrow> int" where
  "op_time (Tick acknowledged now price provider source_at allowed) = now"
| "op_time (Delivered event_id now) = now"

lemma apply_ok:
  assumes "encodes std sid d a" "leg_ok p n a" "int n < 2 ^ 52" "policy_ok p" "op_ok std x"
  shows "implements std sid (op_time x) (trend_apply std p sid d x) (spec_op p sid a x)"
proof (cases x)
  case (Tick acknowledged now price provider source_at allowed)
  let ?a = "spec_reconcile sid a acknowledged"
  have iso: "iso_ok std now" "iso_ok std source_at" using assms(5) by (simp_all add: Tick)
  obtain d1 ev where d1: "advance_trend_state std p (fst (reconcile_acknowledged_advisory std d acknowledged now)) sid now price
        provider source_at allowed = Inr (d1, ev)"
      "encodes std sid d1 (fst (spec_sample p ?a now price source_at allowed))"
      "rel_option (\<lambda>v e. renders std sid e now v) ev (snd (spec_sample p ?a now price source_at allowed))"
    using advance_trend_ok [OF reconcile_ok [OF assms(1), of acknowledged now] leg_ok_reconcile [OF assms(2)] assms(3,4) iso,
        of price provider allowed]
    unfolding implements_def by blast
  obtain d2 pending where d2: "pending_trend_event std p d1 now = Inr (d2, pending)"
      "encodes std sid d2 (spec_expire p (fst (spec_sample p ?a now price source_at allowed)) now)"
    using pending_ok [OF d1(2)] by blast
  show ?thesis
    using d1(3) d2(2) by (simp add: Tick implements_def trend_tick_def d1(1) d2(1) case_prod_unfold Let_def)
next
  case (Delivered event_id now)
  then show ?thesis using implements_quiet [OF delivered_ok [OF assms(1)]] by simp
qed

text \<open>A run returns, its state encodes the leg of the specification, and its events render those of the specification.\<close>

theorem trend_run_refines:
  assumes "encodes std sid d a" "leg_ok p n a" "int (n + length xs) < 2 ^ 52" "policy_ok p" "list_all (op_ok std) xs"
  shows "\<exists>d' evs. trend_run std p sid d xs = Inr (d', evs) \<and> encodes std sid d' (fst (spec_run p sid a xs))
    \<and> leg_ok p (n + length xs) (fst (spec_run p sid a xs))
    \<and> list_all2 (rel_option (\<lambda>v e. \<exists>x \<in> set xs. renders std sid e (op_time x) v)) evs (snd (spec_run p sid a xs))"
  using assms
proof (induction xs arbitrary: d a n)
  case (Cons x xs)
  obtain d1 ev where d1: "trend_apply std p sid d x = Inr (d1, ev)" "encodes std sid d1 (fst (spec_op p sid a x))"
      "rel_option (\<lambda>v e. renders std sid e (op_time x) v) ev (snd (spec_op p sid a x))"
    using apply_ok [OF Cons.prems(1,2) _ Cons.prems(4), of x] Cons.prems(3,5) by (auto simp: implements_def)
  obtain d2 evs where d2: "trend_run std p sid d1 xs = Inr (d2, evs)"
      "encodes std sid d2 (fst (spec_run p sid (fst (spec_op p sid a x)) xs))"
      "leg_ok p (Suc n + length xs) (fst (spec_run p sid (fst (spec_op p sid a x)) xs))"
      "list_all2 (rel_option (\<lambda>v e. \<exists>x \<in> set xs. renders std sid e (op_time x) v)) evs
         (snd (spec_run p sid (fst (spec_op p sid a x)) xs))"
    using Cons.IH [OF d1(2) leg_ok_op [OF Cons.prems(2)]] policy_okD(10) [OF Cons.prems(4)] Cons.prems(3-5) by auto
  have "rel_option (\<lambda>v e. \<exists>y \<in> set (x # xs). renders std sid e (op_time y) v) ev (snd (spec_op p sid a x))"
    by (rule option.rel_mono_strong [OF d1(3)]) auto
  moreover have "list_all2 (rel_option (\<lambda>v e. \<exists>y \<in> set (x # xs). renders std sid e (op_time y) v)) evs
      (snd (spec_run p sid (fst (spec_op p sid a x)) xs))"
    by (rule list.rel_mono_strong [OF d2(4)]) (auto elim!: option.rel_mono_strong)
  ultimately show ?case
    using d2(2,3) by (simp add: d1(1) d2(1) case_prod_unfold Let_def)
qed simp

end
