(* ===== verification/Trend_Properties.thy ===== *)
theory Trend_Properties
  imports Trend_Runs Streaks
begin

section \<open>What the trend service guarantees\<close>

text \<open>
  Runs of one trend context: the events are unique, a transition is written exactly when its target has its
  confirmations in a row (over the verdicts of the samples, which are independent of the counter), the number of
  advisories is bounded, and a management card refers to an entry card that was delivered. The
  arguments are about the legs of \<open>Trend_Spec\<close>; \<open>trend_run_refines\<close> carries them over to the stored state.
\<close>

subsection \<open>Runs of the specification\<close>

lemma spec_run_snoc:
  "spec_run p sid a (xs @ [x]) =
     (let (b, es) = spec_run p sid a xs; (c, e) = spec_op p sid b x in (c, es @ [e]))"
  by (induction xs arbitrary: a) (simp_all add: Let_def case_prod_unfold)

lemma spec_run_length: "length (snd (spec_run p sid a xs)) = length xs"
  by (induction xs arbitrary: a) (simp_all add: Let_def case_prod_unfold)

text \<open>Reconciling, expiring and accepting leave the milestones of the leg alone.\<close>

definition progress :: "trend_leg \<Rightarrow> int \<times> int \<times> int \<times> int \<times> int \<times> (trend_regime \<times> int) option" where
  "progress a = (tl_sequence a, tl_milestone a, tl_adv_milestone a, tl_used a, tl_adv_used a, tl_candidate a)"

lemma progress_accept [simp]: "progress (spec_accept a e) = progress a"
  by (cases e) (simp_all add: spec_accept_def progress_def)

lemma progress_pending [simp]: "progress (a\<lparr>tl_pending := x\<rparr>) = progress a" "progress (a\<lparr>tl_offered := y\<rparr>) = progress a"
  by (simp_all add: progress_def)

lemma progress_reconcile [simp]: "progress (spec_reconcile sid a acknowledged) = progress a"
  by (simp add: spec_reconcile_def Let_def split: option.split prod.split trend_event.split)

lemma progress_expire [simp]: "progress (spec_expire p a now) = progress a"
  by (simp add: spec_expire_def progress_def split: option.split prod.split trend_event.split)

lemma progress_delivered [simp]: "progress (spec_delivered sid a event_id) = progress a"
  by (simp add: spec_delivered_def split: option.split prod.split)

text \<open>What one recorded sample does to the progress of the leg.\<close>

inductive moves :: "trend_policy \<Rightarrow> trend_leg \<Rightarrow> trend_leg \<Rightarrow> trend_event option \<Rightarrow> bool" for p a b where
  stay: "tl_sequence b = tl_sequence a \<Longrightarrow> tl_used b = tl_used a \<Longrightarrow> tl_adv_used b = tl_adv_used a \<Longrightarrow>
     tl_milestone a \<le> tl_milestone b \<Longrightarrow> tl_adv_milestone a \<le> tl_adv_milestone b \<Longrightarrow>
     tl_candidate b \<in> {None, tl_candidate a} \<or> (\<exists>r. tl_candidate b = Some (r, candidate_seen a r)) \<Longrightarrow> moves p a b None"
| turn: "tl_sequence b = tl_sequence a + 1 \<Longrightarrow> tl_used b = tl_used a \<Longrightarrow> tl_adv_used b = tl_adv_used a \<Longrightarrow>
     tl_adv_milestone b = tl_adv_milestone a \<Longrightarrow> tl_milestone b = 0 \<Longrightarrow> tl_candidate b = None \<Longrightarrow>
     tp_confirmations p \<le> candidate_seen a r \<Longrightarrow> moves p a b (Some (Transition (tl_sequence b) r))"
| go_on: "tl_sequence b = tl_sequence a \<Longrightarrow> tl_used a < tp_budget p \<Longrightarrow> tl_used b = tl_used a + 1 \<Longrightarrow>
     tl_adv_used b = tl_adv_used a \<Longrightarrow> tl_adv_milestone b = tl_adv_milestone a \<Longrightarrow> tl_milestone a < tp_max_milestones p \<Longrightarrow>
     tl_milestone b = tl_milestone a + 1 \<Longrightarrow> tl_candidate b = None \<Longrightarrow>
     moves p a b (Some (Continuation (tl_sequence a) up (tl_milestone b)))"
| grind: "tl_sequence b = tl_sequence a \<Longrightarrow> tl_adv_used a < tp_budget p \<Longrightarrow> tl_adv_used b = tl_adv_used a + 1 \<Longrightarrow>
     tl_used b = tl_used a \<Longrightarrow> tl_milestone b = tl_milestone a \<Longrightarrow> tl_adv_milestone b = tl_adv_milestone a + 1 \<Longrightarrow>
     tl_candidate b = None \<Longrightarrow> moves p a b (Some (Advance up (tl_adv_milestone b)))"

lemma moves_progress:
  "moves p a b e \<Longrightarrow> progress a' = progress a \<Longrightarrow> progress b' = progress b \<Longrightarrow> moves p a' b' e"
proof (induction rule: moves.induct)
  case stay
  then show ?case by (intro moves.stay) (auto simp: progress_def candidate_seen_def)
next
  case (turn r)
  then have "moves p a' b' (Some (Transition (tl_sequence b') r))"
    by (intro moves.turn) (auto simp: progress_def candidate_seen_def)
  then show ?case using turn by (simp add: progress_def)
next
  case (go_on up)
  then have "moves p a' b' (Some (Continuation (tl_sequence a') up (tl_milestone b')))"
    by (intro moves.go_on) (auto simp: progress_def)
  then show ?case using go_on by (simp add: progress_def)
next
  case (grind up)
  then have "moves p a' b' (Some (Advance up (tl_adv_milestone b')))"
    by (intro moves.grind) (auto simp: progress_def)
  then show ?case using grind by (simp add: progress_def)
qed

lemma progress_record [simp]: "progress (spec_record p a now source_at price) = progress a"
  by (simp add: spec_record_def progress_def)

lemma moves_quiet:
  "tl_sequence b = tl_sequence a \<Longrightarrow> tl_used b = tl_used a \<Longrightarrow> tl_adv_used b = tl_adv_used a \<Longrightarrow>
     tl_milestone b \<in> {tl_milestone a, tl_milestone a + 1} \<Longrightarrow> tl_adv_milestone b \<in> {tl_adv_milestone a, tl_adv_milestone a + 1} \<Longrightarrow>
     tl_candidate b = None \<Longrightarrow> moves p a b None"
  by (rule moves.stay) auto

text \<open>The rules with their result as a pair, in a form the simplifier can apply.\<close>

definition moves_to :: "trend_policy \<Rightarrow> trend_leg \<Rightarrow> trend_leg \<times> trend_event option \<Rightarrow> bool" where
  "moves_to p a r \<longleftrightarrow> moves p a (fst r) (snd r)"

lemma moves_if: "(c \<Longrightarrow> moves_to p a x) \<Longrightarrow> (\<not> c \<Longrightarrow> moves_to p a y) \<Longrightarrow> moves_to p a (if c then x else y)"
  by simp

lemma moves_go_on:
  "n = tl_sequence a \<Longrightarrow> m = tl_milestone a + 1 \<Longrightarrow> tl_sequence b = tl_sequence a \<Longrightarrow> tl_used a < tp_budget p \<Longrightarrow>
     tl_used b = tl_used a + 1 \<Longrightarrow> tl_adv_used b = tl_adv_used a \<Longrightarrow> tl_adv_milestone b = tl_adv_milestone a \<Longrightarrow>
     tl_milestone a < tp_max_milestones p \<Longrightarrow> tl_milestone b = m \<Longrightarrow> tl_candidate b = None \<Longrightarrow>
     moves p a b (Some (Continuation n up m))"
  using moves.go_on [of b a p up] by simp

lemma moves_grind:
  "m = tl_adv_milestone a + 1 \<Longrightarrow> tl_sequence b = tl_sequence a \<Longrightarrow> tl_adv_used a < tp_budget p \<Longrightarrow>
     tl_adv_used b = tl_adv_used a + 1 \<Longrightarrow> tl_used b = tl_used a \<Longrightarrow> tl_milestone b = tl_milestone a \<Longrightarrow>
     tl_adv_milestone b = m \<Longrightarrow> tl_candidate b = None \<Longrightarrow> moves p a b (Some (Advance up m))"
  using moves.grind [of b a p up] by simp

lemma moves_advance: "moves_to p a (spec_advance p (a\<lparr>tl_candidate := None\<rparr>) m now price allowed)"
  unfolding spec_advance_def Let_def
  by (simp split: option.split prod.split, intro conjI allI impI moves_if)
    (simp_all add: moves_to_def moves_quiet moves_grind not_le)

lemma moves_continue: "moves_to p a (spec_continue p (a\<lparr>tl_candidate := None\<rparr>) now price allowed)"
  unfolding spec_continue_def Let_def
  by (intro moves_if) (simp_all add: moves_to_def moves_quiet moves_go_on not_le)

lemma moves_candidate: "moves_to p a (spec_candidate p a target now price)"
proof (cases "candidate_seen a target < tp_confirmations p")
  case True
  then show ?thesis
    by (auto simp: spec_candidate_def Let_def moves_to_def intro!: moves.stay)
next
  case False
  let ?b = "fst (spec_enter a target now price)"
  have "moves p a ?b (Some (Transition (tl_sequence ?b) target))"
    using False by (intro moves.turn) (simp_all add: spec_enter_def Let_def)
  then show ?thesis using False by (simp add: spec_candidate_def Let_def moves_to_def spec_enter_def)
qed

lemma moves_sample: "moves_to p a (spec_sample p a now price source_at allowed)"
proof -
  let ?b = "spec_record p a now source_at price"
  have same: "moves_to p ?b r \<Longrightarrow> moves_to p a r" for r
    unfolding moves_to_def by (erule moves_progress) simp_all
  have "moves_to p a (a, None)" by (simp add: moves_to_def moves.stay)
  then show ?thesis
    using same [OF moves_advance] same [OF moves_continue] same [OF moves_candidate]
    by (simp add: spec_sample_def Let_def split: option.split)
qed

lemma moves_op: "moves p a (fst (spec_op p sid a x)) (snd (spec_op p sid a x))"
proof (cases x)
  case (Tick acknowledged now price provider source_at allowed)
  have "moves p a (spec_expire p (fst (spec_sample p (spec_reconcile sid a acknowledged) now price source_at allowed)) now)
      (snd (spec_sample p (spec_reconcile sid a acknowledged) now price source_at allowed))"
    by (rule moves_progress [OF moves_sample [unfolded moves_to_def]]) simp_all
  then show ?thesis by (simp add: Tick Let_def case_prod_unfold)
next
  case (Delivered event_id now)
  have "moves p a (spec_delivered sid a event_id) None"
    by (rule moves_progress [where b = a and a = a, OF moves.stay]) simp_all
  then show ?thesis by (simp add: Delivered)
qed

subsection \<open>Histories\<close>

text \<open>The event lies behind the progress of the leg.\<close>

primrec seen :: "trend_leg \<Rightarrow> trend_event \<Rightarrow> bool" where
  "seen a (Transition n r) \<longleftrightarrow> n \<le> tl_sequence a"
| "seen a (Continuation n up m) \<longleftrightarrow> n < tl_sequence a \<or> (n = tl_sequence a \<and> m \<le> tl_milestone a)"
| "seen a (Advance up m) \<longleftrightarrow> m \<le> tl_adv_milestone a"

lemma moves_seen:
  assumes "moves p a b e"
  shows "seen a x \<Longrightarrow> seen b x" "e = Some y \<Longrightarrow> \<not> seen a y \<and> seen b y"
  using assms by (induction rule: moves.induct; cases x; auto)+

definition somes :: "'a option list \<Rightarrow> 'a list" where
  "somes xs = List.map_filter id xs"

lemma somes_simps [simp]:
  "somes [] = []" "somes (None # xs) = somes xs" "somes (Some x # xs) = x # somes xs" "somes (xs @ ys) = somes xs @ somes ys"
  by (simp_all add: somes_def List.map_filter_def)

lemma somes_set: "x \<in> set (somes xs) \<longleftrightarrow> Some x \<in> set xs"
  by (induction xs) (auto simp: somes_def List.map_filter_def)

lemma somes_rel: "list_all2 (rel_option R) xs ys \<Longrightarrow> list_all2 R (somes xs) (somes ys)"
proof (induction rule: list_all2_induct)
  case (Cons x xs y ys)
  then show ?case by (cases x; cases y) simp_all
qed simp

definition is_turn :: "trend_event option \<Rightarrow> bool" where
  "is_turn e \<longleftrightarrow> (\<exists>n r. e = Some (Transition n r))"

definition is_continuation :: "trend_event option \<Rightarrow> bool" where
  "is_continuation e \<longleftrightarrow> (\<exists>n up m. e = Some (Continuation n up m))"

definition is_advance :: "trend_event option \<Rightarrow> bool" where
  "is_advance e \<longleftrightarrow> (\<exists>up m. e = Some (Advance up m))"

lemmas kind_defs = is_turn_def is_continuation_def is_advance_def

text \<open>What a history of events says of the leg it leads to.\<close>

definition history :: "trend_policy \<Rightarrow> trend_event option list \<Rightarrow> trend_leg \<Rightarrow> bool" where
  "history p es a \<longleftrightarrow>
     distinct (somes es) \<and> (\<forall>e \<in> set (somes es). seen a e)
   \<and> int (length (filter is_continuation es)) = tl_used a \<and> tl_used a \<le> tp_budget p
   \<and> int (length (filter is_advance es)) = tl_adv_used a \<and> tl_adv_used a \<le> tp_budget p
   \<and> (\<forall>n up m. Some (Continuation n up m) \<in> set es \<longrightarrow> m \<le> tp_max_milestones p)"

lemma history_step:
  assumes "history p es a" "moves p a b e"
  shows "history p (es @ [e]) b"
proof -
  have unique: "distinct (somes (es @ [e])) \<and> (\<forall>x \<in> set (somes (es @ [e])). seen b x)"
    using assms(1) moves_seen [OF assms(2)] by (cases e) (auto simp: history_def)
  have used: "int (length (filter is_continuation (es @ [e]))) = tl_used b \<and> tl_used b \<le> tp_budget p"
    using assms(2,1) by (cases rule: moves.cases) (simp_all add: history_def kind_defs)
  have advances: "int (length (filter is_advance (es @ [e]))) = tl_adv_used b \<and> tl_adv_used b \<le> tp_budget p"
    using assms(2,1) by (cases rule: moves.cases) (simp_all add: history_def kind_defs)
  have limit: "\<forall>n up m. Some (Continuation n up m) \<in> set (es @ [e]) \<longrightarrow> m \<le> tp_max_milestones p"
    using assms(2,1) by (cases rule: moves.cases) (auto simp: history_def)
  show ?thesis unfolding history_def using unique used advances limit by blast
qed

lemma history_run: "0 < tp_budget p \<Longrightarrow> history p (snd (spec_run p sid fresh_leg xs)) (fst (spec_run p sid fresh_leg xs))"
proof (induction xs rule: rev_induct)
  case (snoc x xs)
  then show ?case
    using history_step [OF _ moves_op] by (simp add: spec_run_snoc Let_def case_prod_unfold)
qed (simp add: history_def fresh_leg_def)

subsection \<open>Confirmations\<close>

text \<open>
  The verdict of a pass: none when the sample is skipped, otherwise the regime the sample points to or \<open>None\<close> for a sample
  that confirms the current one. A run of equal verdicts is what the counter of the leg counts.
\<close>

primrec spec_verdict :: "trend_policy \<Rightarrow> string \<Rightarrow> trend_leg \<Rightarrow> trend_op \<Rightarrow> trend_regime option list" where
  "spec_verdict p sid a (Tick acknowledged now price provider source_at allowed) =
     (let a = spec_reconcile sid a acknowledged in
      if spec_skipped p a now source_at then [] else [spec_points p a now source_at price])"
| "spec_verdict p sid a (Delivered event_id now) = []"

primrec spec_verdicts :: "trend_policy \<Rightarrow> string \<Rightarrow> trend_leg \<Rightarrow> trend_op list \<Rightarrow> trend_regime option list" where
  "spec_verdicts p sid a [] = []"
| "spec_verdicts p sid a (x # xs) = spec_verdict p sid a x @ spec_verdicts p sid (fst (spec_op p sid a x)) xs"

lemma spec_verdicts_snoc:
  "spec_verdicts p sid a (xs @ [x]) = spec_verdicts p sid a xs @ spec_verdict p sid (fst (spec_run p sid a xs)) x"
  by (induction xs arbitrary: a) (simp_all add: Let_def case_prod_unfold)

definition aim :: "trend_leg \<Rightarrow> trend_regime \<times> (trend_regime \<times> int) option" where
  "aim a = (tl_regime a, tl_candidate a)"

lemma aim_accept [simp]: "aim (spec_accept a e) = aim a"
  by (cases e) (simp_all add: spec_accept_def aim_def)

lemma aim_pending [simp]: "aim (a\<lparr>tl_pending := x\<rparr>) = aim a" "aim (a\<lparr>tl_offered := y\<rparr>) = aim a"
  by (simp_all add: aim_def)

lemma aim_reconcile [simp]: "aim (spec_reconcile sid a acknowledged) = aim a"
  by (simp add: spec_reconcile_def Let_def split: option.split prod.split trend_event.split)

lemma aim_expire [simp]: "aim (spec_expire p a now) = aim a"
  by (simp add: spec_expire_def aim_def split: option.split prod.split trend_event.split)

lemma aim_delivered [simp]: "aim (spec_delivered sid a event_id) = aim a"
  by (simp add: spec_delivered_def split: option.split prod.split)

lemma aim_record [simp]: "aim (spec_record p a now source_at price) = aim a"
  by (simp add: spec_record_def aim_def)

text \<open>A step after a sample that confirms the regime drops the candidate and does not turn.\<close>

definition stays :: "trend_leg \<Rightarrow> trend_leg \<times> trend_event option \<Rightarrow> bool" where
  "stays a r \<longleftrightarrow> aim (fst r) = (tl_regime a, None) \<and> \<not> is_turn (snd r)"

lemma stays_if: "(c \<Longrightarrow> stays a x) \<Longrightarrow> (\<not> c \<Longrightarrow> stays a y) \<Longrightarrow> stays a (if c then x else y)"
  by simp

lemma stays_advance: "stays a (spec_advance p (a\<lparr>tl_candidate := None\<rparr>) m now price allowed)"
  unfolding spec_advance_def Let_def
  by (simp split: option.split prod.split, intro conjI allI impI stays_if) (simp_all add: stays_def aim_def is_turn_def)

lemma stays_continue: "stays a (spec_continue p (a\<lparr>tl_candidate := None\<rparr>) now price allowed)"
  unfolding spec_continue_def Let_def by (intro stays_if) (simp_all add: stays_def aim_def is_turn_def)

definition counted :: "trend_leg \<Rightarrow> trend_regime \<Rightarrow> int" where
  "counted a r = (case tl_candidate a of Some (r', n) \<Rightarrow> if r' = r then n else 0 | None \<Rightarrow> 0)"

text \<open>The counter of the leg is the length of the last run of verdicts for another regime.\<close>

definition tracks :: "trend_regime option list \<Rightarrow> trend_leg \<Rightarrow> bool" where
  "tracks vs a \<longleftrightarrow> (\<forall>r. r \<noteq> tl_regime a \<longrightarrow> int (trailing (\<lambda>v. v = Some r) vs) = counted a r)"

lemma tracks_aim: "aim a = aim b \<Longrightarrow> tracks vs a = tracks vs b"
  by (simp add: tracks_def counted_def aim_def)

lemma candidate_seen_counted: "candidate_seen a r = counted a r + 1"
  by (simp add: candidate_seen_def counted_def split: option.split)

lemma points_elsewhere: "spec_points p a now source_at price = Some r \<Longrightarrow> r \<noteq> tl_regime a"
  by (auto simp: spec_points_def split: option.splits if_splits)

lemma sample_tracks:
  assumes "tracks vs a" "\<not> spec_skipped p a now source_at"
    and r_def: "r = spec_sample p a now price source_at allowed" and v_def: "v = spec_points p a now source_at price"
  shows "tracks (vs @ [v]) (fst r)
    \<and> (\<forall>t. (\<exists>n. snd r = Some (Transition n t)) \<longleftrightarrow> v = Some t \<and> tp_confirmations p \<le> int (trailing (\<lambda>v. v = Some t) (vs @ [v])))"
proof (cases v)
  case None
  let ?b = "spec_record p a now source_at price"
  have "r = (if tl_regime ?b = Neutral
      then spec_advance p (?b\<lparr>tl_candidate := None\<rparr>) (recorded_metrics p ?b price) now price allowed
      else spec_continue p (?b\<lparr>tl_candidate := None\<rparr>) now price allowed)"
    using None assms(2) by (simp add: r_def v_def spec_sample_def Let_def)
  then have "stays ?b r" using stays_advance stays_continue by simp
  then have "aim (fst r) = (tl_regime a, None)" "\<not> is_turn (snd r)" by (simp_all add: stays_def spec_record_def)
  then show ?thesis by (auto simp: None tracks_def counted_def aim_def is_turn_def)
next
  case (Some t)
  let ?b = "spec_record p a now source_at price"
  have other: "t \<noteq> tl_regime a" using Some points_elsewhere by (simp add: v_def)
  have "candidate_seen ?b t = candidate_seen a t" by (simp add: candidate_seen_def spec_record_def)
  then have n: "candidate_seen ?b t = int (trailing (\<lambda>v. v = Some t) (vs @ [v]))"
    using assms(1) other Some by (simp add: candidate_seen_counted tracks_def)
  have r: "r = spec_candidate p ?b t now price" using Some assms(2) by (simp add: r_def v_def spec_sample_def Let_def)
  show ?thesis
  proof (cases "candidate_seen ?b t < tp_confirmations p")
    case True
    then have "fst r = ?b\<lparr>tl_candidate := Some (t, candidate_seen ?b t), tl_step := None\<rparr>" "snd r = None"
      by (simp_all add: r spec_candidate_def Let_def)
    then show ?thesis using True n Some by (auto simp: tracks_def counted_def)
  next
    case False
    then have "r = spec_enter ?b t now price" by (simp add: r spec_candidate_def Let_def)
    then show ?thesis using False n Some by (auto simp: tracks_def counted_def spec_enter_def Let_def)
  qed
qed

lemma op_tracks:
  assumes "tracks vs a"
  shows "tracks (vs @ spec_verdict p sid a x) (fst (spec_op p sid a x))
    \<and> (\<forall>t. (\<exists>n. snd (spec_op p sid a x) = Some (Transition n t)) \<longleftrightarrow>
          spec_verdict p sid a x = [Some t] \<and> tp_confirmations p \<le> int (trailing (\<lambda>v. v = Some t) (vs @ spec_verdict p sid a x)))"
proof (cases x)
  case (Tick acknowledged now price provider source_at allowed)
  let ?a = "spec_reconcile sid a acknowledged"
  have a: "tracks vs ?a" using assms tracks_aim [of ?a a vs] by simp
  show ?thesis
  proof (cases "spec_skipped p ?a now source_at")
    case True
    then have "spec_op p sid a x = (spec_expire p ?a now, None)" "spec_verdict p sid a x = []"
      by (simp_all add: Tick spec_sample_def Let_def)
    then show ?thesis using a tracks_aim [of "spec_expire p ?a now" ?a vs] by simp
  next
    case False
    then show ?thesis
      using sample_tracks [OF a False refl refl, of price allowed] tracks_aim [OF aim_expire]
      by (simp add: Tick Let_def case_prod_unfold)
  qed
next
  case (Delivered event_id now)
  then show ?thesis using assms tracks_aim [of "spec_delivered sid a event_id" a vs] by simp
qed

lemma run_tracks: "tracks (spec_verdicts p sid fresh_leg xs) (fst (spec_run p sid fresh_leg xs))"
proof (induction xs rule: rev_induct)
  case Nil
  then show ?case by (simp add: tracks_def counted_def fresh_leg_def)
next
  case (snoc x xs)
  then show ?case
    using op_tracks by (simp add: spec_verdicts_snoc spec_run_snoc Let_def case_prod_unfold)
qed

lemma spec_run_nth:
  assumes "i < length xs"
  shows "snd (spec_run p sid a xs) ! i = snd (spec_op p sid (fst (spec_run p sid a (take i xs))) (xs ! i))"
  using assms
proof (induction xs rule: rev_induct)
  case (snoc x xs)
  then show ?case
    by (cases "i < length xs") (auto simp: spec_run_snoc Let_def case_prod_unfold nth_append spec_run_length)
qed simp

text \<open>A transition is written exactly when a run of verdicts reaches the configured length.\<close>

lemma turn_iff:
  assumes "i < length xs"
    and before_def: "before = spec_verdicts p sid fresh_leg (take i xs)"
    and after_def: "after = spec_verdicts p sid fresh_leg (take (Suc i) xs)"
  shows "(\<exists>n. snd (spec_run p sid fresh_leg xs) ! i = Some (Transition n t)) \<longleftrightarrow>
     after = before @ [Some t] \<and> tp_confirmations p \<le> int (trailing (\<lambda>v. v = Some t) after)"
proof -
  let ?a = "fst (spec_run p sid fresh_leg (take i xs))"
  have "after = before @ spec_verdict p sid ?a (xs ! i)"
    using assms(1) by (simp add: after_def before_def take_Suc_conv_app_nth spec_verdicts_snoc)
  then show ?thesis
    using op_tracks [OF run_tracks [of p sid "take i xs"], of p sid "xs ! i"]
    by (simp add: spec_run_nth [OF assms(1)] before_def)
qed

subsection \<open>Management needs a delivered entry\<close>

text \<open>The operation reports the delivery of the event with this identifier; the operation found the gate open.\<close>

primrec reports :: "string \<Rightarrow> trend_op \<Rightarrow> bool" where
  "reports text_id (Tick acknowledged now price provider source_at allowed) \<longleftrightarrow> text_id \<in> set acknowledged"
| "reports text_id (Delivered event_id now) \<longleftrightarrow> event_id = text_id"

primrec gate_open :: "trend_op \<Rightarrow> bool" where
  "gate_open (Tick acknowledged now price provider source_at allowed) \<longleftrightarrow> allowed"
| "gate_open (Delivered event_id now) \<longleftrightarrow> False"

definition entered :: "string \<Rightarrow> trend_op list \<Rightarrow> trend_event option list \<Rightarrow> int \<times> bool \<Rightarrow> bool" where
  "entered sid xs es k \<longleftrightarrow>
     (\<exists>j l. j < l \<and> l < length xs \<and> es ! j = Some (Continuation (fst k) (snd k) 1)
        \<and> reports (event_text sid (Continuation (fst k) (snd k) 1)) (xs ! l))"

lemma entered_more:
  assumes "length es = length xs" "entered sid xs es k"
  shows "entered sid (xs @ [x]) (es @ [e]) k"
proof -
  obtain j l where "j < l" "l < length xs" "es ! j = Some (Continuation (fst k) (snd k) 1)"
      "reports (event_text sid (Continuation (fst k) (snd k) 1)) (xs ! l)"
    using assms(2) unfolding entered_def by blast
  then show ?thesis
    using assms(1) unfolding entered_def by (intro exI [of _ j] exI [of _ l]) (simp add: nth_append)
qed

lemma entered_now:
  assumes "length es = length xs" "Some (Continuation n up 1) \<in> set es" "reports (event_text sid (Continuation n up 1)) x"
  shows "entered sid (xs @ [x]) (es @ [e]) (n, up)"
proof -
  obtain j where "j < length es" "es ! j = Some (Continuation n up 1)"
    using assms(2) by (auto simp: in_set_conv_nth)
  then show ?thesis
    using assms(1,3) unfolding entered_def by (intro exI [of _ j] exI [of _ "length xs"]) (simp add: nth_append)
qed

text \<open>What a sample does to the advisory and to the pending event, and when it emits a card.\<close>

definition keeps :: "trend_leg \<Rightarrow> int \<Rightarrow> bool \<Rightarrow> trend_leg \<times> trend_event option \<Rightarrow> bool" where
  "keeps a now allowed r \<longleftrightarrow>
     tl_accepted (fst r) \<in> {None, tl_accepted a}
   \<and> tl_pending (fst r) = (case snd r of None \<Rightarrow> tl_pending a | Some e \<Rightarrow> Some (e, now))
   \<and> (case snd r of Some (Continuation n up m) \<Rightarrow>
         n = tl_sequence a \<and> up = (tl_regime a = Bullish) \<and> allowed \<and> (m = 1 \<or> tl_accepted a \<noteq> None)
       | _ \<Rightarrow> True)"

lemma keeps_if: "(c \<Longrightarrow> keeps a now g x) \<Longrightarrow> (\<not> c \<Longrightarrow> keeps a now g y) \<Longrightarrow> keeps a now g (if c then x else y)"
  by simp

lemma keeps_fields:
  "tl_accepted b = tl_accepted a \<Longrightarrow> tl_pending b = tl_pending a \<Longrightarrow> tl_sequence b = tl_sequence a \<Longrightarrow>
     tl_regime b = tl_regime a \<Longrightarrow> keeps b now g r \<Longrightarrow> keeps a now g r"
  by (cases "snd r") (auto simp: keeps_def split: trend_event.splits)

lemma keeps_advance: "keeps a now g (spec_advance p a m now price g)"
  unfolding spec_advance_def Let_def
  by (simp split: option.split prod.split, intro conjI allI impI keeps_if) (simp_all add: keeps_def)

lemma keeps_continue: "keeps a now g (spec_continue p a now price g)"
  unfolding spec_continue_def Let_def
  by (intro keeps_if) (simp_all add: keeps_def)

lemma keeps_candidate: "keeps a now g (spec_candidate p a target now price)"
  unfolding spec_candidate_def spec_enter_def Let_def
  by (intro keeps_if) (simp_all add: keeps_def)

lemma keeps_sample: "keeps a now allowed (spec_sample p a now price source_at allowed)"
proof -
  let ?b = "spec_record p a now source_at price"
  have same: "keeps b now allowed r \<Longrightarrow> keeps a now allowed r" if "b = ?b \<or> b = ?b\<lparr>tl_candidate := None\<rparr>" for b r
    by (erule keeps_fields [rotated -1]) (use that in \<open>auto simp: spec_record_def\<close>)
  have "keeps a now allowed (a, None)" by (simp add: keeps_def)
  then show ?thesis
    using same [of "?b\<lparr>tl_candidate := None\<rparr>", OF _ keeps_advance] same [of "?b\<lparr>tl_candidate := None\<rparr>", OF _ keeps_continue]
      same [of ?b, OF _ keeps_candidate]
    by (simp add: spec_sample_def Let_def split: option.split)
qed

lemma sample_keeps:
  "tl_accepted (fst (spec_sample p a now price source_at allowed)) \<in> {None, tl_accepted a}"
  "tl_pending (fst (spec_sample p a now price source_at allowed)) =
     (case snd (spec_sample p a now price source_at allowed) of None \<Rightarrow> tl_pending a | Some e \<Rightarrow> Some (e, now))"
  using keeps_sample [of a now allowed p price source_at] by (simp_all add: keeps_def)

lemma sample_continuation:
  assumes "snd (spec_sample p a now price source_at allowed) = Some (Continuation n up m)"
  shows "n = tl_sequence a \<and> up = (tl_regime a = Bullish) \<and> allowed \<and> (m = 1 \<or> tl_accepted a \<noteq> None)"
  using keeps_sample [of a now allowed p price source_at] assms by (simp add: keeps_def)

lemma reconcile_keeps:
  "tl_accepted (spec_reconcile sid a acknowledged) = tl_accepted a
   \<or> (\<exists>n up t. tl_accepted (spec_reconcile sid a acknowledged) = Some (n, up) \<and> tl_pending a = Some (Continuation n up 1, t)
        \<and> event_text sid (Continuation n up 1) \<in> set acknowledged)"
  "tl_pending (spec_reconcile sid a acknowledged) \<in> {None, tl_pending a}"
  by (auto simp: spec_reconcile_def spec_accept_def Let_def split: option.splits trend_event.splits)

lemma expire_keeps:
  "tl_accepted (spec_expire p a now) = tl_accepted a" "tl_pending (spec_expire p a now) \<in> {None, tl_pending a}"
  by (auto simp: spec_expire_def split: option.splits trend_event.splits)

lemma delivered_keeps:
  "tl_accepted (spec_delivered sid a event_id) = tl_accepted a
   \<or> (\<exists>n up t. tl_accepted (spec_delivered sid a event_id) = Some (n, up) \<and> tl_pending a = Some (Continuation n up 1, t)
        \<and> event_text sid (Continuation n up 1) = event_id)"
  "tl_pending (spec_delivered sid a event_id) \<in> {None, tl_pending a}"
  by (auto simp: spec_delivered_def spec_accept_def split: option.splits trend_event.splits)

text \<open>The pending event was emitted, the accepted advisory was delivered, and so was the parent of every management card.\<close>

definition advised :: "string \<Rightarrow> trend_op list \<Rightarrow> trend_event option list \<Rightarrow> trend_leg \<Rightarrow> bool" where
  "advised sid xs es a \<longleftrightarrow>
     length es = length xs
   \<and> (\<forall>e t. tl_pending a = Some (e, t) \<longrightarrow> Some e \<in> set es)
   \<and> (\<forall>k. tl_accepted a = Some k \<longrightarrow> entered sid xs es k)
   \<and> (\<forall>i n up m. i < length es \<longrightarrow> es ! i = Some (Continuation n up m) \<longrightarrow>
        gate_open (xs ! i) \<and> (m \<noteq> 1 \<longrightarrow> entered sid (take (Suc i) xs) (take (Suc i) es) (n, up)))"

lemma advised_tick:
  assumes inv: "advised sid xs es a" and ok: "leg_ok p n a"
    and x: "x = Tick acknowledged now price provider source_at allowed"
  shows "advised sid (xs @ [x]) (es @ [snd (spec_op p sid a x)]) (fst (spec_op p sid a x))"
proof -
  let ?r = "spec_reconcile sid a acknowledged"
  let ?s = "spec_sample p ?r now price source_at allowed"
  have len: "length es = length xs" using inv by (simp add: advised_def)
  have op: "spec_op p sid a x = (spec_expire p (fst ?s) now, snd ?s)"
    by (simp add: x Let_def case_prod_unfold)
  have entered: "entered sid (xs @ [x]) (es @ [snd ?s]) k" if "tl_accepted ?r = Some k" for k
    using reconcile_keeps(1) [of sid a acknowledged]
  proof
    assume "tl_accepted ?r = tl_accepted a"
    then have "entered sid xs es k" using that inv unfolding advised_def by metis
    then show ?thesis by (rule entered_more [OF len])
  next
    assume "\<exists>n up t. tl_accepted ?r = Some (n, up) \<and> tl_pending a = Some (Continuation n up 1, t)
        \<and> event_text sid (Continuation n up 1) \<in> set acknowledged"
    then obtain n up t where d: "tl_accepted ?r = Some (n, up)" "tl_pending a = Some (Continuation n up 1, t)"
        "event_text sid (Continuation n up 1) \<in> set acknowledged"
      by blast
    have k: "k = (n, up)" using that d(1) by simp
    have "Some (Continuation n up 1) \<in> set es" using inv d(2) unfolding advised_def by blast
    then show ?thesis using entered_now [OF len, of n up sid x] d(3) by (simp add: x k del: event_text.simps)
  qed
  have pending: "Some e \<in> set (es @ [snd ?s])" if "tl_pending (spec_expire p (fst ?s) now) = Some (e, t)" for e t
  proof -
    have "tl_pending (fst ?s) = Some (e, t)" using that expire_keeps(2) [of p "fst ?s" now] by auto
    then show ?thesis
      using sample_keeps(2) [of p ?r now price source_at allowed] reconcile_keeps(2) [of sid a acknowledged] inv
      by (auto simp: advised_def split: option.splits) metis+
  qed
  have accepted: "entered sid (xs @ [x]) (es @ [snd ?s]) k" if "tl_accepted (spec_expire p (fst ?s) now) = Some k" for k
    using that sample_keeps(1) [of p ?r now price source_at allowed] entered by (auto simp: expire_keeps(1))
  have cards: "gate_open ((xs @ [x]) ! i) \<and>
      (m \<noteq> 1 \<longrightarrow> entered sid (take (Suc i) (xs @ [x])) (take (Suc i) (es @ [snd ?s])) (n, up))"
    if i: "i < length (es @ [snd ?s])" and e: "(es @ [snd ?s]) ! i = Some (Continuation n up m)" for i n up m
  proof (cases "i < length es")
    case True
    then show ?thesis using inv e len by (simp add: advised_def nth_append)
  next
    case False
    then have i: "i = length es" using i by simp
    then have c: "n = tl_sequence ?r" "up = (tl_regime ?r = Bullish)" "allowed" "m = 1 \<or> tl_accepted ?r \<noteq> None"
      using sample_continuation [of p ?r now price source_at allowed n up m] e by simp_all
    have "own_advisory ?r (tl_accepted ?r)" using leg_ok_reconcile [OF ok] by (simp add: leg_ok_def)
    then have "m = 1 \<or> tl_accepted ?r = Some (n, up)" using c by (auto simp: own_advisory_def)
    then show ?thesis using entered [of "(n, up)"] c(3) by (auto simp: i len x)
  qed
  show ?thesis
    unfolding op advised_def using len pending accepted cards by simp
qed

lemma advised_delivered:
  assumes inv: "advised sid xs es a" and x: "x = Delivered event_id now"
  shows "advised sid (xs @ [x]) (es @ [snd (spec_op p sid a x)]) (fst (spec_op p sid a x))"
proof -
  have len: "length es = length xs" using inv by (simp add: advised_def)
  have op: "spec_op p sid a x = (spec_delivered sid a event_id, None)" by (simp add: x)
  have accepted: "entered sid (xs @ [x]) (es @ [None]) k" if "tl_accepted (spec_delivered sid a event_id) = Some k" for k
    using delivered_keeps(1) [of sid a event_id]
  proof
    assume "tl_accepted (spec_delivered sid a event_id) = tl_accepted a"
    then have "entered sid xs es k" using that inv unfolding advised_def by metis
    then show ?thesis by (rule entered_more [OF len])
  next
    assume "\<exists>n up t. tl_accepted (spec_delivered sid a event_id) = Some (n, up) \<and>
        tl_pending a = Some (Continuation n up 1, t) \<and> event_text sid (Continuation n up 1) = event_id"
    then obtain n up t where d: "tl_accepted (spec_delivered sid a event_id) = Some (n, up)"
        "tl_pending a = Some (Continuation n up 1, t)" "event_text sid (Continuation n up 1) = event_id"
      by blast
    have k: "k = (n, up)" using that d(1) by simp
    have "Some (Continuation n up 1) \<in> set es" using inv d(2) unfolding advised_def by blast
    then show ?thesis using entered_now [OF len, of n up sid x] by (simp add: x k d(3) del: event_text.simps)
  qed
  have "Some e \<in> set es" if "tl_pending (spec_delivered sid a event_id) = Some (e, t)" for e t
    using that delivered_keeps(2) [of sid a event_id] inv by (auto simp: advised_def) metis
  moreover have "gate_open ((xs @ [x]) ! i) \<and>
      (m \<noteq> 1 \<longrightarrow> entered sid (take (Suc i) (xs @ [x])) (take (Suc i) (es @ [None])) (n, up))"
    if "i < length (es @ [None])" "(es @ [None]) ! i = Some (Continuation n up m)" for i n up m
    using that inv len by (cases "i < length es") (simp_all add: advised_def nth_append)
  ultimately show ?thesis
    unfolding op advised_def using len accepted by simp
qed

lemma advised_run:
  assumes "0 < tp_max_milestones p"
  shows "advised sid xs (snd (spec_run p sid fresh_leg xs)) (fst (spec_run p sid fresh_leg xs))
    \<and> leg_ok p (length xs) (fst (spec_run p sid fresh_leg xs))"
proof (induction xs rule: rev_induct)
  case Nil
  then show ?case using fresh_leg_ok [OF assms] by (simp add: advised_def fresh_leg_def)
next
  case (snoc x xs)
  let ?a = "fst (spec_run p sid fresh_leg xs)" and ?es = "snd (spec_run p sid fresh_leg xs)"
  have "advised sid (xs @ [x]) (?es @ [snd (spec_op p sid ?a x)]) (fst (spec_op p sid ?a x))"
  proof (cases x)
    case (Tick acknowledged now price provider source_at allowed)
    show ?thesis by (rule advised_tick [OF conjunct1 [OF snoc] conjunct2 [OF snoc] Tick])
  next
    case (Delivered event_id now)
    show ?thesis by (rule advised_delivered [OF conjunct1 [OF snoc] Delivered])
  qed
  then show ?case
    using leg_ok_op [of p "length xs" ?a sid x] snoc assms by (simp add: spec_run_snoc Let_def case_prod_unfold)
qed

end
