(* ===== verification/Trend_Guarantees.thy ===== *)
theory Trend_Guarantees
  imports Trend_Properties
begin

section \<open>Guarantees of the trend service\<close>

text \<open>
  The theorems about runs of the code on the stored state. A run starts from the state of a new context;
  its timestamps can be read back and it is shorter than \<open>2 ^ 52\<close> passes, so that milestone numbers are exact floats.
\<close>

definition run_ok :: "py_std \<Rightarrow> trend_policy \<Rightarrow> trend_op list \<Rightarrow> bool" where
  "run_ok std p xs \<longleftrightarrow> policy_ok p \<and> list_all (op_ok std) xs \<and> int (length xs) < 2 ^ 52"

definition event_of_type :: "string \<Rightarrow> pydict option \<Rightarrow> bool" where
  "event_of_type s ev \<longleftrightarrow> (\<exists>v. ev = Some v \<and> dget v ''event_type'' = VStr s)"

text \<open>
  C22: The trend service implements its specification: from the state of a new context every run of passes and
  deliveries returns without an exception, whatever the prices and the policy, its stored state
  encodes the leg the specification reaches, and the events are those of the specification.
\<close>

theorem trend_service_refines_spec:
  assumes "run_ok std p xs"
  shows "\<exists>d evs. trend_run std p sid (initial_trend_state sid) xs = Inr (d, evs)
    \<and> encodes std sid d (fst (spec_run p sid fresh_leg xs))
    \<and> list_all2 (rel_option (\<lambda>v e. \<exists>x \<in> set xs. renders std sid e (op_time x) v)) evs (snd (spec_run p sid fresh_leg xs))"
  using trend_run_refines [OF fresh_encoded fresh_leg_ok, of p xs std sid] assms policy_okD(10) [of p]
  by (auto simp: run_ok_def)

lemma run_events:
  assumes "run_ok std p xs" "trend_run std p sid (initial_trend_state sid) xs = Inr (d, evs)"
  shows "list_all2 (rel_option (\<lambda>v e. \<exists>x \<in> set xs. renders std sid e (op_time x) v)) evs (snd (spec_run p sid fresh_leg xs))"
    "length evs = length xs"
proof -
  have ok: "0 < tp_max_milestones p" using assms(1) policy_okD(10) [of p] by (simp add: run_ok_def)
  show "list_all2 (rel_option (\<lambda>v e. \<exists>x \<in> set xs. renders std sid e (op_time x) v)) evs (snd (spec_run p sid fresh_leg xs))"
    using trend_run_refines [OF fresh_encoded fresh_leg_ok [OF ok], of xs std sid] assms by (auto simp: run_ok_def)
  then show "length evs = length xs"
    by (simp add: list_all2_lengthD spec_run_length)
qed

lemma run_history:
  assumes "run_ok std p xs"
  shows "history p (snd (spec_run p sid fresh_leg xs)) (fst (spec_run p sid fresh_leg xs))"
  using history_run policy_okD(11) [of p] assms by (simp add: run_ok_def)

lemma renders_kind:
  "renders std sid e t v \<Longrightarrow>
     event_of_type ''transition'' (Some v) = is_turn (Some e) \<and> event_of_type ''continuation'' (Some v) = is_continuation (Some e)
     \<and> event_of_type ''advance'' (Some v) = is_advance (Some e)"
  by (cases e) (simp_all add: event_of_type_def kind_defs renders_def)

lemma renders_type:
  "rel_option (\<lambda>v e. \<exists>x \<in> X. renders std sid e (op_time x) v) ev e \<Longrightarrow>
     event_of_type ''transition'' ev = is_turn e \<and> event_of_type ''continuation'' ev = is_continuation e
     \<and> event_of_type ''advance'' ev = is_advance e"
proof (cases ev)
  case None
  assume "rel_option (\<lambda>v e. \<exists>x \<in> X. renders std sid e (op_time x) v) ev e"
  then show ?thesis using None by (simp add: event_of_type_def kind_defs)
next
  case (Some v)
  assume "rel_option (\<lambda>v e. \<exists>x \<in> X. renders std sid e (op_time x) v) ev e"
  then obtain y x where "e = Some y" "renders std sid y (op_time x) v" using Some by (auto simp: option_rel_Some1)
  then show ?thesis using Some renders_kind by blast
qed

lemma filter_length_rel:
  "list_all2 R xs ys \<Longrightarrow> (\<And>x y. R x y \<Longrightarrow> P x = Q y) \<Longrightarrow> length (filter P xs) = length (filter Q ys)"
  by (induction rule: list_all2_induct) auto

text \<open>
  C23: An event of a context is written once: the identifiers of all events of a run are distinct, whatever is lost,
  expires or is repeated in between, and no event authorizes an order.
\<close>

theorem trend_events_unique:
  assumes "run_ok std p xs" "trend_run std p sid (initial_trend_state sid) xs = Inr (d, evs)"
  shows "distinct (map (\<lambda>v. dget v ''event_id'') (somes evs))
    \<and> (\<forall>v \<in> set (somes evs). dget v ''automatic_ordering'' = VBool False \<and> dget v ''execution_eligible'' \<noteq> VBool True
         \<and> dget v ''contract_id'' = VNone)"
proof -
  let ?es = "snd (spec_run p sid fresh_leg xs)"
  have rel: "list_all2 (\<lambda>v e. \<exists>x \<in> set xs. renders std sid e (op_time x) v) (somes evs) (somes ?es)"
    by (rule somes_rel [OF run_events(1) [OF assms]])
  then have ids: "map (\<lambda>v. dget v ''event_id'') (somes evs) = map (\<lambda>e. VStr (event_text sid e)) (somes ?es)"
    by (induction rule: list_all2_induct) (auto simp: renders_def)
  have "distinct (somes ?es)" using run_history [OF assms(1)] by (simp add: history_def)
  then have "distinct (map (\<lambda>e. VStr (event_text sid e)) (somes ?es))"
    by (simp add: distinct_map inj_on_def del: event_text.simps)
  moreover have "\<forall>v \<in> set (somes evs). dget v ''automatic_ordering'' = VBool False \<and> dget v ''execution_eligible'' \<noteq> VBool True
      \<and> dget v ''contract_id'' = VNone"
    using rel by (induction rule: list_all2_induct) (auto simp: renders_def)
  ultimately show ?thesis by (simp add: ids)
qed

text \<open>
  The verdict of a pass of the code on its stored state: nothing for a skipped sample or a delivery report, otherwise the regime
  the sample points to, \<open>None\<close> when it confirms the current one. The steps are those of \<^verbatim>\<open>advance_trend_state\<close> up to the
  call of \<^verbatim>\<open>_target_regime\<close>; the counter of the candidate is not read.
\<close>

definition sample_verdict ::
  "py_std \<Rightarrow> trend_policy \<Rightarrow> pydict \<Rightarrow> string \<Rightarrow> int \<Rightarrow> pyfloat \<Rightarrow> string \<Rightarrow> int \<Rightarrow> trend_regime option list res" where
  "sample_verdict std p d sid now price provider source_at =
     rbind (migrate_continuation_state p (session_state d sid)) (\<lambda>d.
     rbind (sample_skipped std p (trend_samples d) now source_at) (\<lambda>skipped.
       if skipped then Inr []
       else rbind (record_sample std p d now source_at price provider) (\<lambda>(d, metrics).
            rbind (regime_of (dtext std d ''regime'' ''neutral'')) (\<lambda>regime.
              Inr [case target_regime p regime metrics of
                     Some (target, reason) \<Rightarrow> if target = regime then None else Some target
                   | None \<Rightarrow> None]))))"

primrec pass_verdict :: "py_std \<Rightarrow> trend_policy \<Rightarrow> string \<Rightarrow> pydict \<Rightarrow> trend_op \<Rightarrow> trend_regime option list res" where
  "pass_verdict std p sid d (Tick acknowledged now price provider source_at allowed) =
     sample_verdict std p (fst (reconcile_acknowledged_advisory std d acknowledged now)) sid now price provider source_at"
| "pass_verdict std p sid d (Delivered event_id now) = Inr []"

primrec trend_verdicts :: "py_std \<Rightarrow> trend_policy \<Rightarrow> string \<Rightarrow> pydict \<Rightarrow> trend_op list \<Rightarrow> trend_regime option list res" where
  "trend_verdicts std p sid d [] = Inr []"
| "trend_verdicts std p sid d (x # xs) =
     rbind (pass_verdict std p sid d x) (\<lambda>v.
     rbind (trend_apply std p sid d x) (\<lambda>(d, event).
     rbind (trend_verdicts std p sid d xs) (\<lambda>vs. Inr (v @ vs))))"

lemma pass_verdict_ok:
  assumes "encodes std sid d a" "policy_ok p" "op_ok std x"
  shows "pass_verdict std p sid d x = Inr (spec_verdict p sid a x)"
proof (cases x)
  case (Tick acknowledged now price provider source_at allowed)
  let ?a = "spec_reconcile sid a acknowledged" and ?d = "fst (reconcile_acknowledged_advisory std d acknowledged now)"
  define b where "b = spec_record p ?a now source_at price"
  have iso: "iso_ok std now" "iso_ok std source_at" using assms(3) by (simp_all add: Tick)
  note enc = reconcile_ok [OF assms(1), of acknowledged now]
  have same: "session_state ?d sid = ?d" using enc by (simp add: session_state_def encodes_def)
  obtain e where e: "migrate_continuation_state p ?d = Inr e" "encodes std sid e ?a" using migrate_encoded [OF enc] by blast
  obtain e' where e': "record_sample std p e now source_at price provider = Inr (e', recorded_metrics p b price)" "encodes std sid e' b"
    using record_sample_encoded [OF e(2) assms(2) iso b_def] by blast
  have "tl_regime b = tl_regime ?a" by (simp add: b_def spec_record_def)
  then show ?thesis
    by (simp add: Tick sample_verdict_def same e(1) skipped_encoded [OF e(2) iso(2)] e'(1) regime_encoded [OF e'(2)] Let_def
        spec_points_def b_def [symmetric])
qed simp

lemma trend_verdicts_ok:
  assumes "encodes std sid d a" "leg_ok p n a" "int (n + length xs) < 2 ^ 52" "policy_ok p" "list_all (op_ok std) xs"
  shows "trend_verdicts std p sid d xs = Inr (spec_verdicts p sid a xs)"
  using assms
proof (induction xs arbitrary: d a n)
  case (Cons x xs)
  obtain d1 ev where d1: "trend_apply std p sid d x = Inr (d1, ev)" "encodes std sid d1 (fst (spec_op p sid a x))"
    using apply_ok [OF Cons.prems(1,2) _ Cons.prems(4), of x] Cons.prems(3,5) by (auto simp: implements_def)
  have "trend_verdicts std p sid d1 xs = Inr (spec_verdicts p sid (fst (spec_op p sid a x)) xs)"
    using Cons.IH [OF d1(2) leg_ok_op [OF Cons.prems(2)]] policy_okD(10) [OF Cons.prems(4)] Cons.prems(3-5) by auto
  then show ?case
    using pass_verdict_ok [OF Cons.prems(1,4)] Cons.prems(5) by (simp add: d1(1))
qed simp

lemma run_verdicts:
  assumes "run_ok std p xs"
  shows "trend_verdicts std p sid (initial_trend_state sid) (take i xs) = Inr (spec_verdicts p sid fresh_leg (take i xs))"
proof -
  have "0 < tp_max_milestones p" using assms policy_okD(10) [of p] by (simp add: run_ok_def)
  then have "leg_ok p 0 fresh_leg" by (rule fresh_leg_ok)
  moreover have "policy_ok p" "int (0 + length (take i xs)) < 2 ^ 52" "list_all (op_ok std) (take i xs)"
    using assms in_set_takeD [of _ i xs] by (auto simp: run_ok_def list_all_iff)
  ultimately show ?thesis by (intro trend_verdicts_ok [OF fresh_encoded])
qed

lemma renders_target:
  "rel_option (\<lambda>v e. \<exists>x \<in> X. renders std sid e (op_time x) v) ev e \<Longrightarrow>
     (\<exists>v. ev = Some v \<and> dget v ''event_type'' = VStr ''transition'' \<and> dget v ''to_regime'' = VStr (regime_text r))
     \<longleftrightarrow> (\<exists>n. e = Some (Transition n r))"
proof (cases ev)
  case (Some v)
  assume "rel_option (\<lambda>v e. \<exists>x \<in> X. renders std sid e (op_time x) v) ev e"
  then obtain y x where y: "e = Some y" "renders std sid y (op_time x) v" using Some by (auto simp: option_rel_Some1)
  then show ?thesis using Some by (cases y) (auto simp: renders_def)
qed simp

text \<open>
  C24: A change of regime is debounced exactly: a pass writes a transition to a regime if and only if its sample points to this
  regime and, over the passes with a sample of their own, so did the samples before it, at least the
  configured number in a row. A sample that points to another regime or confirms the current
  one starts the count again; skipped samples and delivery reports do not matter.
\<close>

theorem transition_needs_confirmations:
  assumes "run_ok std p xs" "trend_run std p sid (initial_trend_state sid) xs = Inr (d, evs)" "i < length xs"
  shows "\<exists>before after. trend_verdicts std p sid (initial_trend_state sid) (take i xs) = Inr before
    \<and> trend_verdicts std p sid (initial_trend_state sid) (take (Suc i) xs) = Inr after
    \<and> ((\<exists>v. evs ! i = Some v \<and> dget v ''event_type'' = VStr ''transition'' \<and> dget v ''to_regime'' = VStr (regime_text r))
       \<longleftrightarrow> after = before @ [Some r] \<and> tp_confirmations p \<le> int (trailing (\<lambda>v. v = Some r) after))"
proof -
  have "i < length evs" using run_events(2) [OF assms(1,2)] assms(3) by simp
  note target = renders_target [OF list_all2_nthD [OF run_events(1) [OF assms(1,2)] this]]
  show ?thesis
    using turn_iff [OF assms(3) refl refl] target by (simp add: run_verdicts [OF assms(1)])
qed

text \<open>
  C37: Advisories are bounded: a context emits at most the budget of continuation cards and at most the budget of
  advance cards, whatever happens to their delivery.
\<close>

theorem advisories_within_budget:
  assumes "run_ok std p xs" "trend_run std p sid (initial_trend_state sid) xs = Inr (d, evs)"
  shows "int (length (filter (event_of_type ''continuation'') evs)) \<le> tp_budget p
    \<and> int (length (filter (event_of_type ''advance'') evs)) \<le> tp_budget p"
proof -
  let ?es = "snd (spec_run p sid fresh_leg xs)"
  have "length (filter (event_of_type ''continuation'') evs) = length (filter is_continuation ?es)"
      "length (filter (event_of_type ''advance'') evs) = length (filter is_advance ?es)"
    using renders_type by (auto intro!: filter_length_rel [OF run_events(1) [OF assms]])
  then show ?thesis
    using run_history [OF assms(1), of sid] by (simp add: history_def)
qed

text \<open>
  C18: A management card has an accepted parent: it is emitted only while the gate is open, and before it the entry card
  of the same advisory was emitted and then reported as delivered.
\<close>

theorem management_follows_delivered_entry:
  assumes "run_ok std p xs" "trend_run std p sid (initial_trend_state sid) xs = Inr (d, evs)"
    and "i < length evs" "evs ! i = Some v" "dget v ''signal_stage'' = VStr ''opportunity_management''"
  shows "gate_open (xs ! i) \<and> dget v ''parent_advisory_id'' = dget v ''advisory_id''
    \<and> (\<exists>j l entry event_id. j < l \<and> l \<le> i \<and> evs ! j = Some entry \<and> dget entry ''signal_stage'' = VStr ''entry_advisory''
         \<and> dget entry ''advisory_id'' = dget v ''parent_advisory_id'' \<and> dget entry ''event_id'' = VStr event_id
         \<and> reports event_id (xs ! l))"
proof -
  let ?es = "snd (spec_run p sid fresh_leg xs)"
  note rel = run_events(1) [OF assms(1,2)]
  have len: "length ?es = length xs" "length evs = length xs" by (simp_all add: spec_run_length run_events(2) [OF assms(1,2)])
  have at: "\<exists>v. evs ! j = Some v \<and> (\<exists>t. renders std sid e t v)" if "j < length evs" "?es ! j = Some e" for j e
    using list_all2_nthD [OF rel that(1)] that(2) by (auto simp: option_rel_Some2)
  obtain e t where e: "?es ! i = Some e" "renders std sid e t v"
    using list_all2_nthD [OF rel assms(3)] assms(4) by (auto simp: option_rel_Some1)
  obtain n up m where m: "e = Continuation n up m" "m \<noteq> 1"
    using e(2) assms(5) by (cases e) (auto simp: renders_def split: if_splits)
  have parent: "dget v ''parent_advisory_id'' = VStr (advisory_text sid (n, up))" "dget v ''advisory_id'' = VStr (advisory_text sid (n, up))"
    using e(2) m by (simp_all add: renders_def)
  have "0 < tp_max_milestones p" using assms(1) policy_okD(10) [of p] by (simp add: run_ok_def)
  then have "advised sid xs ?es (fst (spec_run p sid fresh_leg xs))" using advised_run by blast
  then have card: "gate_open (xs ! i)" "entered sid (take (Suc i) xs) (take (Suc i) ?es) (n, up)"
    using e(1) m assms(3) by (auto simp: advised_def len)
  obtain j l where j: "j < l" "l < Suc i" "?es ! j = Some (Continuation n up 1)"
      "reports (event_text sid (Continuation n up 1)) (xs ! l)"
    using card(2) assms(3) by (auto simp: entered_def len simp del: event_text.simps)
  obtain entry t' where entry: "evs ! j = Some entry" "renders std sid (Continuation n up 1) t' entry"
    using at [OF _ j(3)] j(1,2) assms(3) by auto
  show ?thesis
    using card(1) parent j(1,2,4) entry
    by (intro conjI exI [of _ j] exI [of _ l] exI [of _ entry] exI [of _ "event_text sid (Continuation n up 1)"])
      (simp_all add: renders_def del: event_text.simps)
qed

subsection \<open>A night with an upward leg\<close>

text \<open>
  A rise of four points in a quarter of an hour turns the regime, eleven more points bring the entry card, it is
  delivered, and after the cooldown the second milestone brings the management card.
\<close>

definition night_minute :: "int \<Rightarrow> int" where
  "night_minute m = combine (ymd 2026 7 27) (hhmm 1 0) + m * 60 * us_per_second"

text \<open>For evaluation: the tolerance of a horizon is decided by bounds first.\<close>

definition beyond_tolerance :: "int \<Rightarrow> pyfloat \<Rightarrow> bool" where
  "beyond_tolerance minutes x \<longleftrightarrow> flt (spec_tolerance minutes) x"

lemma tolerance_lower: "fle x (Fin 180) \<Longrightarrow> \<not> flt (spec_tolerance minutes) x"
  using flt_fle_trans [of "spec_tolerance minutes" x "Fin 180"] by (auto simp: spec_tolerance_def fmax_def split: if_splits)
    (metis flt_fle_trans flt_irrefl flt_imp_fle fle_flt_trans)

lemma tolerance_upper: "flt (Fin 900) x \<Longrightarrow> flt (spec_tolerance 15) x"
proof -
  assume x: "flt (Fin 900) x"
  have fifth: "fle (rne (1 / 5)) (Fin 1)" using rne_mono [of "1 / 5" 1] by simp
  have "fle (Fin 0) (rne (1 / 5))" by (rule rne_nonneg_iff) simp
  then obtain q where q: "rne (1 / 5) = Fin q" "q \<le> 1" using fifth by (cases "rne (1 / 5)") auto
  have "fle (rne (900 * q)) (rne 900)" using q(2) by (intro rne_mono) simp
  then have "fle (spec_tolerance 15) (Fin 900)"
    by (simp add: spec_tolerance_def q(1) fmax_def)
  then show ?thesis using x by (rule fle_flt_trans)
qed

lemma beyond_tolerance_eval [code]:
  "beyond_tolerance minutes x =
     (if fle x (Fin 180) then False else if minutes = 15 \<and> flt (Fin 900) x then True else flt (spec_tolerance minutes) x)"
  using tolerance_lower tolerance_upper by (auto simp: beyond_tolerance_def)

lemma spec_return_eval [code]:
  "spec_return samples now price minutes =
     (let target = now - minutes * 60 * us_per_second in
      case filter (\<lambda>s. es_at s \<le> target) (butlast samples) of
        [] \<Rightarrow> None
      | s # rows \<Rightarrow>
          let reference = py_max_by (\<lambda>a b. es_at a < es_at b) s rows in
          if beyond_tolerance minutes (total_seconds (target - es_at reference)) then None
          else Some (fsub price (es_price reference)))"
  unfolding spec_return_def beyond_tolerance_def by (rule refl)

definition night_std :: py_std where
  "night_std = \<lparr>std_str = (\<lambda>_. []), std_float = (\<lambda>_. None),
     std_fromiso = (\<lambda>s. map_option (\<lambda>m. Aware (night_minute m) 0) (map_of
        [(''2026-07-27T01:00:00+00:00'', 0), (''2026-07-27T01:15:00+00:00'', 15), (''2026-07-27T01:16:00+00:00'', 16),
         (''2026-07-27T01:17:00+00:00'', 17), (''2026-07-27T01:18:00+00:00'', 18), (''2026-07-27T01:49:00+00:00'', 49),
         (''2026-07-27T01:50:00+00:00'', 50)] s)),
     std_fmt_g = (\<lambda>_. []), std_sha256 = (\<lambda>_. [])\<rparr>"

lemma night_text:
  assumes "0 \<le> m" "m < 60"
  shows "isoformat (night_minute m) = ''2026-07-27T01:'' @ pad_dec 2 m @ '':00+00:00''"
proof -
  let ?d = "ymd 2026 7 27" and ?t = "hhmm 1 0 + m * 60 * us_per_second"
  have t: "?t = (3600 + 60 * m) * us_per_second" by (simp add: hhmm_def)
  have split: "night_minute m = combine ?d ?t" by (simp add: night_minute_def combine_def)
  have range: "0 \<le> ?t" "?t < us_per_day" unfolding t using assms by simp_all
  have date: "date_isoformat ?d = ''2026-07-27''" by code_simp
  have clock: "pad_dec 2 1 = ''01''" "pad_dec 2 0 = ''00''" by code_simp+
  have hour: "(3600 + 60 * m) div 3600 = 1" by (rule int_div_pos_eq [of _ _ _ "60 * m"]) (use assms in simp_all)
  have sixty: "3600 + 60 * m = 60 * (60 + m)" by simp
  have minute: "(3600 + 60 * m) div 60 mod 60 = m" "(3600 + 60 * m) mod 60 = 0"
    unfolding sixty using assms by simp_all
  have "time_of (night_minute m) = (3600 + 60 * m) * us_per_second"
    unfolding split t [symmetric] by (rule time_of_combine [OF range])
  moreover have "date_of (night_minute m) = ?d"
    unfolding split by (rule date_of_combine [OF range])
  ultimately show ?thesis
    unfolding isoformat_def Let_def by (simp add: date hour minute clock assms)
qed

lemma night_minutes: "pad_dec 2 0 = ''00''" "pad_dec 2 15 = ''15''" "pad_dec 2 16 = ''16''" "pad_dec 2 17 = ''17''"
  "pad_dec 2 18 = ''18''" "pad_dec 2 49 = ''49''" "pad_dec 2 50 = ''50''"
  by code_simp+

lemmas night_texts = night_text [of 0] night_text [of 15] night_text [of 16] night_text [of 17] night_text [of 18]
  night_text [of 49] night_text [of 50]

definition night_tick :: "int \<Rightarrow> rat \<Rightarrow> trend_op" where
  "night_tick m price = Tick [] (night_minute m) (Fin price) ''ibkr'' (night_minute m) True"

definition night_ops :: "trend_op list" where
  "night_ops = [night_tick 0 6400, night_tick 15 6404, night_tick 16 6404, night_tick 17 6415, night_tick 18 6415,
     Delivered ''globex-cont:S:1:up:m1'' (night_minute 18), night_tick 49 6425, night_tick 50 6425]"

lemma night_run_ok: "run_ok night_std default_trend_policy night_ops"
proof -
  have "policy_ok default_trend_policy" by code_simp
  moreover have "list_all (op_ok night_std) night_ops" 
    by (simp add: night_ops_def night_tick_def iso_ok_def night_texts night_minutes) (simp add: night_std_def)
  ultimately show ?thesis by (simp add: run_ok_def night_ops_def)
qed

lemma night_events:
  "snd (spec_run default_trend_policy ''S'' fresh_leg night_ops) =
     [None, None, Some (Transition 1 Bullish), None, Some (Continuation 1 True 1), None, None, Some (Continuation 1 True 2)]"
  by code_simp

theorem trend_service_refines_spec_witness:
  "\<exists>d evs. trend_run night_std default_trend_policy ''S'' (initial_trend_state ''S'') night_ops = Inr (d, evs)
    \<and> encodes night_std ''S'' d (fst (spec_run default_trend_policy ''S'' fresh_leg night_ops))
    \<and> list_all2 (rel_option (\<lambda>v e. \<exists>x \<in> set night_ops. renders night_std ''S'' e (op_time x) v)) evs
        [None, None, Some (Transition 1 Bullish), None, Some (Continuation 1 True 1), None, None, Some (Continuation 1 True 2)]"
  using trend_service_refines_spec [OF night_run_ok, of "''S''"] unfolding night_events .

lemma night_run:
  obtains d evs where "trend_run night_std default_trend_policy ''S'' (initial_trend_state ''S'') night_ops = Inr (d, evs)"
    "length evs = 8" "event_of_type ''transition'' (evs ! 2)"
    "\<exists>v. evs ! 7 = Some v \<and> dget v ''signal_stage'' = VStr ''opportunity_management''"
proof -
  have "0 < tp_max_milestones default_trend_policy" by (simp add: default_trend_policy_def)
  then obtain d evs where run: "trend_run night_std default_trend_policy ''S'' (initial_trend_state ''S'') night_ops = Inr (d, evs)"
    using trend_run_refines [OF fresh_encoded fresh_leg_ok, of default_trend_policy night_ops night_std "''S''"] night_run_ok
    by (auto simp: run_ok_def)
  note rel = run_events(1) [OF night_run_ok run, unfolded night_events]
  have len: "length evs = 8" using list_all2_lengthD [OF rel] by simp
  have "event_of_type ''transition'' (evs ! 2)"
    using renders_type [OF list_all2_nthD [OF rel, of 2]] by (simp add: len is_turn_def)
  moreover have "\<exists>v. evs ! 7 = Some v \<and> dget v ''signal_stage'' = VStr ''opportunity_management''"
    using list_all2_nthD [OF rel, of 7] by (auto simp: len option_rel_Some2 renders_def)
  ultimately show ?thesis using that run len by blast
qed

theorem trend_events_unique_witness:
  "\<exists>d evs. trend_run night_std default_trend_policy ''S'' (initial_trend_state ''S'') night_ops = Inr (d, evs)
    \<and> distinct (map (\<lambda>v. dget v ''event_id'') (somes evs)) \<and> length evs = 8"
proof (rule night_run)
  fix d evs assume run: "trend_run night_std default_trend_policy ''S'' (initial_trend_state ''S'') night_ops = Inr (d, evs)"
    and "length evs = 8"
  then show ?thesis using trend_events_unique [OF night_run_ok run] by blast
qed

lemma night_verdicts:
  "spec_verdicts default_trend_policy ''S'' fresh_leg (take 2 night_ops) = [None, Some Bullish]"
  "spec_verdicts default_trend_policy ''S'' fresh_leg (take 3 night_ops) = [None, Some Bullish, Some Bullish]"
  by code_simp+

text \<open>The third pass is the second in a row that points up, which is what the policy asks for.\<close>

theorem transition_needs_confirmations_witness:
  "\<exists>d evs v. trend_run night_std default_trend_policy ''S'' (initial_trend_state ''S'') night_ops = Inr (d, evs)
    \<and> evs ! 2 = Some v \<and> dget v ''event_type'' = VStr ''transition'' \<and> dget v ''to_regime'' = VStr (regime_text Bullish)"
proof (rule night_run)
  fix d evs assume run: "trend_run night_std default_trend_policy ''S'' (initial_trend_state ''S'') night_ops = Inr (d, evs)"
  have two: "tp_confirmations default_trend_policy = 2" by (simp add: default_trend_policy_def)
  have "2 < length night_ops" by (simp add: night_ops_def)
  then have "\<exists>v. evs ! 2 = Some v \<and> dget v ''event_type'' = VStr ''transition'' \<and> dget v ''to_regime'' = VStr (regime_text Bullish)"
    using transition_needs_confirmations [OF night_run_ok run, of 2 Bullish]
    by (simp add: run_verdicts [OF night_run_ok] night_verdicts two trailing_def)
  then show ?thesis using run by blast
qed

theorem advisories_within_budget_witness:
  "\<exists>d evs. trend_run night_std default_trend_policy ''S'' (initial_trend_state ''S'') night_ops = Inr (d, evs)
    \<and> length (filter (event_of_type ''continuation'') evs) \<le> 3"
proof (rule night_run)
  fix d evs assume run: "trend_run night_std default_trend_policy ''S'' (initial_trend_state ''S'') night_ops = Inr (d, evs)"
  then show ?thesis using advisories_within_budget [OF night_run_ok run] by (auto simp: default_trend_policy_def)
qed

theorem management_follows_delivered_entry_witness:
  "\<exists>d evs v. trend_run night_std default_trend_policy ''S'' (initial_trend_state ''S'') night_ops = Inr (d, evs)
    \<and> evs ! 7 = Some v \<and> gate_open (night_ops ! 7)
    \<and> (\<exists>j l entry event_id. j < l \<and> l \<le> 7 \<and> evs ! j = Some entry \<and> dget entry ''event_id'' = VStr event_id
         \<and> reports event_id (night_ops ! l))"
proof (rule night_run)
  fix d evs assume run: "trend_run night_std default_trend_policy ''S'' (initial_trend_state ''S'') night_ops = Inr (d, evs)"
    and len: "length evs = 8" and "\<exists>v. evs ! 7 = Some v \<and> dget v ''signal_stage'' = VStr ''opportunity_management''"
  then obtain v where v: "evs ! 7 = Some v" "dget v ''signal_stage'' = VStr ''opportunity_management''" by blast
  show ?thesis
    using management_follows_delivered_entry [OF night_run_ok run _ v] len run v(1) by auto
qed

end
