(* ===== verification/Strategy_Contract.thy ===== *)
theory Strategy_Contract
  imports Py_Text Py_Dict Stored_Times
begin

section \<open>The envelope of strategy events (\<^verbatim>\<open>strategy_contract.py\<close>)\<close>

text \<open>
  Every decision and lifecycle event carries a schema version, a policy version, an expiry, the
  coordinate of its trigger and its block reasons. The checks of this envelope, over dictionaries.
\<close>

definition strategy_event_schema_version :: int where
  "strategy_event_schema_version = 3"

definition coordinate_instrument :: "string \<Rightarrow> string option" where
  "coordinate_instrument kind =
     (if kind = ''official_spx'' then Some ''index:SPX''
      else if kind = ''chain_implied_spx'' then Some ''synthetic:SPXW_PARITY''
      else if kind = ''es_equivalent'' then Some ''future:ES''
      else if kind = ''raw_es'' then Some ''future:ES'' else None)"

definition pricing_outcome_semantic_key :: "py_std \<Rightarrow> pydict \<Rightarrow> string option" where
  "pricing_outcome_semantic_key std r =
     (let touch = str_strip (dtext std r ''first_touch_at'' []); contract = str_strip (dtext std r ''contract_id'' []);
          play = str_strip (dtext std r ''play'' [])
      in if touch \<noteq> [] \<and> contract \<noteq> [] \<and> play \<noteq> []
         then Some (touch @ [CHR 0x1F] @ contract @ [CHR 0x1F] @ play) else None)"

subsection \<open>Timestamps and numbers\<close>

definition parse_aware_time :: "py_std \<Rightarrow> pyval \<Rightarrow> int option" where
  "parse_aware_time std value =
     (case (case value of VTime t \<Rightarrow> Some t | VStr s \<Rightarrow> std_fromiso std (replace_Z s) | _ \<Rightarrow> None) of
        Some (Aware w off) \<Rightarrow> Some (w - off)
      | _ \<Rightarrow> None)"

text \<open>\<^verbatim>\<open>_canonical_time\<close>: a text, or \<^verbatim>\<open>None\<close> for \<^verbatim>\<open>None\<close>.\<close>

definition strategy_time :: "py_std \<Rightarrow> pyval \<Rightarrow> pyval res" where
  "strategy_time std value =
     (if value = VNone then Inr VNone
      else case parse_aware_time std value of
        Some t \<Rightarrow> Inr (VStr (isoformat t))
      | None \<Rightarrow> Inl (ValueError ''strategy timestamps must be timezone-aware ISO-8601 values''))"

definition finite_number :: "pyval \<Rightarrow> pyval res" where
  "finite_number value =
     (case value of
        VInt i \<Rightarrow> rbind (float_of_int i) (\<lambda>x. Inr (VFloat x))
      | VFloat x \<Rightarrow> Inr (if is_finite x then VFloat x else VNone)
      | _ \<Rightarrow> Inr VNone)"

subsection \<open>Policy versions\<close>

text \<open>\<^verbatim>\<open>_jsonable\<close> of a value without objects of the program: only a datetime changes.\<close>

fun jsonable :: "py_std \<Rightarrow> pyval \<Rightarrow> pyval res"
  and jsonable_list :: "py_std \<Rightarrow> pyval list \<Rightarrow> pyval list res"
  and jsonable_items :: "py_std \<Rightarrow> pydict \<Rightarrow> pydict res" where
  "jsonable std (VTime t) = strategy_time std (VTime t)"
| "jsonable std (VList xs) = rbind (jsonable_list std xs) (\<lambda>ys. Inr (VList ys))"
| "jsonable std (VDict d) = rbind (jsonable_items std d) (\<lambda>e. Inr (VDict e))"
| "jsonable std VNone = Inr VNone"
| "jsonable std (VBool b) = Inr (VBool b)"
| "jsonable std (VInt i) = Inr (VInt i)"
| "jsonable std (VFloat x) = Inr (VFloat x)"
| "jsonable std (VStr s) = Inr (VStr s)"
| "jsonable_list std [] = Inr []"
| "jsonable_list std (x # xs) = rbind (jsonable std x) (\<lambda>y. rbind (jsonable_list std xs) (\<lambda>ys. Inr (y # ys)))"
| "jsonable_items std [] = Inr []"
| "jsonable_items std ((k, v) # d) = rbind (jsonable std v) (\<lambda>w. rbind (jsonable_items std d) (\<lambda>e. Inr ((k, w) # e)))"

definition strategy_policy_version :: "py_std \<Rightarrow> string \<Rightarrow> pyval \<Rightarrow> string res" where
  "strategy_policy_version std namespace policy =
     (let name = str_strip namespace in
      if name = [] then Inl (ValueError ''policy namespace must be non-empty'')
      else rbind (jsonable std policy) (\<lambda>v.
        Inr (name @ ''+sha256:'' @ take 16 (std_sha256 std (json_text std v)))))"

subsection \<open>Coordinates and block reasons\<close>

definition coordinate_kind :: "py_std \<Rightarrow> pydict \<Rightarrow> string" where
  "coordinate_kind std raw =
     (let s = str_strip (dtext std raw ''kind'' ''unavailable'') in if s = [] then ''unavailable'' else s)"

definition coordinate_instrument_id :: "py_std \<Rightarrow> pydict \<Rightarrow> pyval" where
  "coordinate_instrument_id std raw =
     (let s = str_strip (dtext std raw ''instrument_id'' []) in if s = [] then VNone else VStr s)"

definition normalize_coordinate :: "py_std \<Rightarrow> pyval \<Rightarrow> pydict res" where
  "normalize_coordinate std value =
     (let raw = (case value of VDict d \<Rightarrow> d | _ \<Rightarrow> []) in
      rbind (finite_number (dget raw ''observed_value'')) (\<lambda>observed.
      rbind (finite_number (dget raw ''target_value'')) (\<lambda>target.
      rbind (finite_number (dget raw ''spx_observed_value'')) (\<lambda>spx.
      rbind (finite_number (dget raw ''basis_points'')) (\<lambda>basis.
      rbind (strategy_time std (vor (dget raw ''as_of'') (dget raw ''source_at''))) (\<lambda>as_of.
        Inr (dmerge raw [(''kind'', VStr (coordinate_kind std raw)),
          (''instrument_id'', coordinate_instrument_id std raw), (''observed_value'', observed),
          (''target_value'', target), (''spx_observed_value'', spx), (''basis_points'', basis), (''as_of'', as_of)])))))))"

text \<open>The loop over the reasons; \<open>seen\<close> are the ones already collected.\<close>

fun fresh_reasons :: "string list \<Rightarrow> pyval list \<Rightarrow> string list" where
  "fresh_reasons seen [] = []"
| "fresh_reasons seen (v # vs) =
     (case v of
        VStr s \<Rightarrow>
          let reason = str_strip s in
          if reason \<noteq> [] \<and> reason \<notin> set seen then reason # fresh_reasons (reason # seen) vs
          else fresh_reasons seen vs
      | _ \<Rightarrow> fresh_reasons seen vs)"

definition normalize_block_reasons :: "pyval \<Rightarrow> string list" where
  "normalize_block_reasons values = fresh_reasons [] (case values of VList xs \<Rightarrow> xs | v \<Rightarrow> [v])"

definition strategy_event_fields :: "py_std \<Rightarrow> string \<Rightarrow> pyval \<Rightarrow> pyval \<Rightarrow> pyval \<Rightarrow> pydict res" where
  "strategy_event_fields std policy_version valid_until coordinate reasons =
     (let version = str_strip policy_version in
      if version = [] then Inl (ValueError ''policy_version must be non-empty'')
      else rbind (strategy_time std valid_until) (\<lambda>until. rbind (normalize_coordinate std coordinate) (\<lambda>c.
        Inr [(''schema_version'', VInt strategy_event_schema_version), (''policy_version'', VStr version),
             (''valid_until'', until), (''coordinate'', VDict c),
             (''block_reasons'', VList (map VStr (normalize_block_reasons reasons)))])))"

subsection \<open>The checks\<close>

text \<open>\<^verbatim>\<open>tuple(dict.fromkeys(issues))\<close>: the first occurrence of each.\<close>

definition first_occurrences :: "'a list \<Rightarrow> 'a list" where
  "first_occurrences xs = rev (remdups (rev xs))"

definition time_issues :: "py_std \<Rightarrow> bool \<Rightarrow> pyval \<Rightarrow> string list" where
  "time_issues std required raw =
     (if raw \<noteq> VNone \<and> parse_aware_time std raw = None then [''valid_until_invalid''] else [])
     @ (if required \<and> parse_aware_time std raw = None then [''valid_until_unavailable''] else [])"

definition coordinate_issues :: "py_std \<Rightarrow> bool \<Rightarrow> pyval \<Rightarrow> string list res" where
  "coordinate_issues std actionable raw =
     (if \<not> is_dict raw then Inr [''coordinate_unavailable'']
      else rbind (normalize_coordinate std raw) (\<lambda>c.
        let kind = dtext std c ''kind'' ''unavailable'' in
        Inr (if actionable \<and> kind = ''unavailable'' then [''coordinate_unavailable'']
             else (case coordinate_instrument kind of
                 Some expected \<Rightarrow>
                   if dget c ''instrument_id'' \<noteq> VStr expected then [''coordinate_instrument_mismatch''] else []
               | None \<Rightarrow> if actionable then [''coordinate_kind_unsupported''] else []))))"

definition reason_ok :: "pyval \<Rightarrow> bool" where
  "reason_ok v = (case v of VStr s \<Rightarrow> str_strip s \<noteq> [] | _ \<Rightarrow> False)"

definition reason_issues :: "pyval \<Rightarrow> string list" where
  "reason_issues raw =
     (case raw of
        VList xs \<Rightarrow>
          if \<not> list_all reason_ok xs then [''block_reasons_invalid'']
          else if xs \<noteq> map VStr (normalize_block_reasons raw) then [''block_reasons_not_normalized''] else []
      | _ \<Rightarrow> [''block_reasons_invalid''])"

definition strategy_contract_issues :: "py_std \<Rightarrow> bool \<Rightarrow> bool \<Rightarrow> pydict \<Rightarrow> string list res" where
  "strategy_contract_issues std require_valid_until require_actionable payload =
     rbind (coordinate_issues std require_actionable (dget payload ''coordinate'')) (\<lambda>coordinate.
       Inr (first_occurrences
         ((if \<not> eq_int (dget payload ''schema_version'') strategy_event_schema_version
           then [''strategy_schema_unsupported''] else [])
          @ (if str_strip (dtext std payload ''policy_version'' []) = [] then [''policy_version_unavailable''] else [])
          @ time_issues std require_valid_until (dget payload ''valid_until'')
          @ coordinate @ reason_issues (dget payload ''block_reasons''))))"

definition actionable_strategy_contract_issues :: "py_std \<Rightarrow> pydict \<Rightarrow> int \<Rightarrow> string list res" where
  "actionable_strategy_contract_issues std payload now =
     rbind (strategy_contract_issues std True True payload) (\<lambda>issues.
       Inr (first_occurrences
         (issues
          @ (case parse_aware_time std (dget payload ''valid_until'') of
               Some t \<Rightarrow> if now \<ge> t then [''strategy_event_expired''] else [] | None \<Rightarrow> [])
          @ (case dget payload ''block_reasons'' of
               VList (_ # _) \<Rightarrow> [''strategy_event_blocked''] | _ \<Rightarrow> []))))"

end
