(* ===== verification/Quote_Demand_Wire.thy ===== *)
theory Quote_Demand_Wire
  imports Strategy_Contract Market_Data
begin

section \<open>The quote demand on the wire (\<^verbatim>\<open>ibkr/quote_demand_wire.py\<close>)\<close>

text \<open>
  A demand asks the owner of the IBKR connection to keep the two legs of a spread subscribed for a
  short time. Its record, its checks, its dictionary and the reader of that dictionary. The
  datetimes of a demand are instants, as \<^verbatim>\<open>aware_utc\<close> makes them; the keys of a dictionary are
  texts.
\<close>

definition demand_kind :: string where "demand_kind = ''ibkr_exact_leg_quote_demand''"
definition tombstone_kind :: string where "tombstone_kind = ''ibkr_exact_leg_quote_demand_tombstone''"
definition demand_statuses :: "string list" where "demand_statuses = [''pending'', ''confirmed'', ''active'']"
definition demand_lease_seconds :: int where "demand_lease_seconds = 30"
definition demand_max_lease_seconds :: int where "demand_max_lease_seconds = 45"
definition demand_max_future_skew :: int where "demand_max_future_skew = 5"

text \<open>The policy versions of the two schema versions.\<close>

definition demand_policy :: "int \<Rightarrow> string \<Rightarrow> pyval" where
  "demand_policy version contract =
     VDict [(''schema_version'', VInt version), (''lease_seconds'', VInt demand_lease_seconds),
       (''max_lease_seconds'', VInt demand_max_lease_seconds), (''contract'', VStr contract),
       (''quote_provider'', VStr ''ibkr''), (''automatic_ordering'', VBool False)]"

text \<open>A constant of the module: the value of a call that cannot raise.\<close>

definition constant_text :: "string res \<Rightarrow> string" where
  "constant_text r = (case r of Inr s \<Rightarrow> s | Inl _ \<Rightarrow> [])"

definition demand_policy_v1 :: "py_std \<Rightarrow> string" where
  "demand_policy_v1 std = constant_text (strategy_policy_version std ''ibkr_exact_leg_quote_demand.v1''
     (demand_policy 1 ''same-session SPXW call debit spread''))"

definition demand_policy_v2 :: "py_std \<Rightarrow> string" where
  "demand_policy_v2 std = constant_text (strategy_policy_version std ''ibkr_exact_leg_quote_demand.v2''
     (demand_policy 2 ''same-session SPXW call-or-put debit spread''))"

subsection \<open>Records\<close>

record demand_leg =
  dl_role :: string
  dl_contract_id :: string
  dl_label :: string
  dl_expiry :: string
  dl_strike :: int
  dl_right :: string
  dl_trading_class :: string
  dl_underlier :: string
  dl_exchange :: string
  dl_currency :: string
  dl_multiplier :: string

record quote_demand =
  qd_schema_version :: int
  qd_demand_id :: string
  qd_event_id :: string
  qd_status :: string
  qd_created_at :: int
  qd_updated_at :: int
  qd_valid_until :: int
  qd_session_date :: string
  qd_policy_version :: string
  qd_source_schema_version :: int
  qd_source_policy_version :: string
  qd_source_provider :: string
  qd_quote_provider :: string
  qd_coordinate :: pydict
  qd_block_reasons :: "string list"
  qd_automatic_ordering :: bool
  qd_legs :: "demand_leg \<times> demand_leg"

record option_spec =
  os_expiry :: string
  os_strike :: int
  os_right :: string
  os_lane :: string

definition without_dashes :: "string \<Rightarrow> string" where
  "without_dashes s = filter (\<lambda>c. c \<noteq> CHR ''-'') s"

definition leg_spec :: "demand_leg \<Rightarrow> option_spec" where
  "leg_spec leg = \<lparr>os_expiry = without_dashes (dl_expiry leg), os_strike = dl_strike leg, os_right = dl_right leg,
     os_lane = ''pinned''\<rparr>"

definition demand_specs :: "quote_demand \<Rightarrow> option_spec list" where
  "demand_specs d = [leg_spec (fst (qd_legs d)), leg_spec (snd (qd_legs d))]"

definition leg_to_dict :: "demand_leg \<Rightarrow> pydict" where
  "leg_to_dict leg =
     [(''role'', VStr (dl_role leg)), (''contract_id'', VStr (dl_contract_id leg)), (''label'', VStr (dl_label leg)),
      (''underlier'', VStr (dl_underlier leg)), (''trading_class'', VStr (dl_trading_class leg)),
      (''expiry'', VStr (dl_expiry leg)), (''strike'', VInt (dl_strike leg)), (''right'', VStr (dl_right leg)),
      (''exchange'', VStr (dl_exchange leg)), (''currency'', VStr (dl_currency leg)),
      (''multiplier'', VStr (dl_multiplier leg))]"

definition wire_leg :: "int \<Rightarrow> demand_leg \<Rightarrow> pydict" where
  "wire_leg version leg = (if version = 1 then dpop (leg_to_dict leg) ''right'' else leg_to_dict leg)"

definition demand_to_dict :: "quote_demand \<Rightarrow> pydict" where
  "demand_to_dict d =
     [(''schema_version'', VInt (qd_schema_version d)), (''kind'', VStr demand_kind), (''demand_id'', VStr (qd_demand_id d)),
      (''event_id'', VStr (qd_event_id d)), (''status'', VStr (qd_status d)),
      (''created_at'', VStr (isoformat (qd_created_at d))), (''updated_at'', VStr (isoformat (qd_updated_at d))),
      (''valid_until'', VStr (isoformat (qd_valid_until d))), (''session_date'', VStr (qd_session_date d)),
      (''policy_version'', VStr (qd_policy_version d)), (''source_schema_version'', VInt (qd_source_schema_version d)),
      (''source_policy_version'', VStr (qd_source_policy_version d)), (''source_provider'', VStr (qd_source_provider d)),
      (''quote_provider'', VStr (qd_quote_provider d)), (''coordinate'', VDict (qd_coordinate d)),
      (''block_reasons'', VList (map VStr (qd_block_reasons d))), (''automatic_ordering'', VBool (qd_automatic_ordering d)),
      (''legs'', VList [VDict (wire_leg (qd_schema_version d) (fst (qd_legs d))),
                        VDict (wire_leg (qd_schema_version d) (snd (qd_legs d)))])]"

subsection \<open>Readers of single fields\<close>

definition date_field :: "string \<Rightarrow> bool" where
  "date_field s \<longleftrightarrow>
     length s = 10 \<and> s ! 4 = CHR ''-'' \<and> s ! 7 = CHR ''-''
     \<and> list_all is_digit (take 4 s @ take 2 (drop 5 s) @ drop 8 s)"

text \<open>The pattern, and then \<^verbatim>\<open>date.fromisoformat\<close>, whose \<^verbatim>\<open>isoformat\<close> gives such a text back.\<close>

definition valid_session_date :: "pyval \<Rightarrow> string res" where
  "valid_session_date value =
     (case value of
        VStr s \<Rightarrow>
          if \<not> date_field s then Inl (ValueError ''session date must use YYYY-MM-DD'')
          else let y = digits_value (take 4 s); m = digits_value (take 2 (drop 5 s)); d = digits_value (drop 8 s) in
            if 1 \<le> y \<and> valid_ymd y m d then Inr s else Inl (ValueError ''Invalid isoformat string'')
      | _ \<Rightarrow> Inl (ValueError ''session date must use YYYY-MM-DD''))"

definition required_string :: "pyval \<Rightarrow> string res" where
  "required_string value =
     (case value of
        VStr s \<Rightarrow> if str_strip s = [] then Inl (ValueError ''must be a non-empty string'') else Inr (str_strip s)
      | _ \<Rightarrow> Inl (ValueError ''must be a non-empty string''))"

definition required_int :: "pyval \<Rightarrow> int res" where
  "required_int value = (case value of VInt i \<Rightarrow> Inr i | _ \<Rightarrow> Inl (ValueError ''must be an integer''))"

definition required_bool :: "pyval \<Rightarrow> bool res" where
  "required_bool value = (case value of VBool b \<Rightarrow> Inr b | _ \<Rightarrow> Inl (ValueError ''must be a boolean''))"

definition required_mapping :: "pyval \<Rightarrow> pydict res" where
  "required_mapping value = (case value of VDict d \<Rightarrow> Inr d | _ \<Rightarrow> Inl (ValueError ''must be an object''))"

definition required_block_reasons :: "pyval \<Rightarrow> string list res" where
  "required_block_reasons value =
     (case value of
        VList xs \<Rightarrow>
          let normalized = normalize_block_reasons value in
          if map VStr normalized \<noteq> xs then Inl (ValueError ''block_reasons must be normalized'') else Inr normalized
      | _ \<Rightarrow> Inl (ValueError ''block_reasons must be a list''))"

definition aware_utc :: "pydt \<Rightarrow> int res" where
  "aware_utc t = (case t of Aware w off \<Rightarrow> Inr (w - off) | Naive _ \<Rightarrow> Inl (ValueError ''must be timezone-aware''))"

definition parse_time :: "py_std \<Rightarrow> pyval \<Rightarrow> int res" where
  "parse_time std value =
     (case value of
        VStr s \<Rightarrow>
          (case std_fromiso std (replace_Z s) of
             Some t \<Rightarrow> aware_utc t
           | None \<Rightarrow> Inl (ValueError ''must be an ISO timestamp''))
      | _ \<Rightarrow> Inl (ValueError ''must be an ISO timestamp''))"

definition optional_time :: "py_std \<Rightarrow> pyval \<Rightarrow> int option" where
  "optional_time std value =
     (case (case value of VTime t \<Rightarrow> aware_utc t | _ \<Rightarrow> parse_time std value) of Inr t \<Rightarrow> Some t | Inl _ \<Rightarrow> None)"

definition optional_string :: "pyval \<Rightarrow> pyval" where
  "optional_string value =
     (case value of VStr s \<Rightarrow> if str_strip s = [] then VNone else VStr (str_strip s) | _ \<Rightarrow> VNone)"

definition valid_strike :: "py_std \<Rightarrow> pyval \<Rightarrow> int res" where
  "valid_strike std value =
     (if \<not> is_number value \<or> (case value of VBool _ \<Rightarrow> True | _ \<Rightarrow> False)
      then Inl (ValueError ''strike must be numeric'')
      else rbind (py_float std value) (\<lambda>parsed.
        case parsed of
          Fin q \<Rightarrow>
            if q \<le> 0 \<or> of_int \<lfloor>q\<rfloor> \<noteq> q then Inl (ValueError ''strike must be a positive integer'')
            else if \<lfloor>q\<rfloor> mod 5 \<noteq> 0 then Inl (ValueError ''strike must use the SPXW five-point grid'')
            else Inr \<lfloor>q\<rfloor>
        | _ \<Rightarrow> Inl (ValueError ''strike must be a positive integer'')))"

definition valid_right :: "string \<Rightarrow> string res" where
  "valid_right value =
     (if value \<in> {''C'', ''P''} then Inr value else Inl (ValueError ''right must be C or P''))"

subsection \<open>Legs\<close>

definition build_leg :: "py_std \<Rightarrow> string \<Rightarrow> string \<Rightarrow> pyval \<Rightarrow> string \<Rightarrow> demand_leg res" where
  "build_leg std role expiry strike rgt =
     rbind (valid_strike std strike) (\<lambda>parsed_strike. rbind (valid_right rgt) (\<lambda>parsed_right.
       let spec = \<lparr>os_expiry = without_dashes expiry, os_strike = parsed_strike, os_right = parsed_right, os_lane = ''pinned''\<rparr> in
       rbind (option_instrument ''SPX'' (os_expiry spec) (Fin (of_int parsed_strike)) (RightText parsed_right) (Some ''SPXW'')
                None None ''USD'' (Some ''100'')) (\<lambda>instrument.
         Inr \<lparr>dl_role = role, dl_contract_id = canonical_id instrument,
              dl_label = ''option:SPXW:'' @ os_expiry spec @ '':'' @ dec_int parsed_strike @ '':'' @ parsed_right,
              dl_expiry = expiry, dl_strike = parsed_strike, dl_right = parsed_right, dl_trading_class = ''SPXW'',
              dl_underlier = ''SPX'', dl_exchange = ''SMART'', dl_currency = ''USD'', dl_multiplier = ''100''\<rparr>)))"

text \<open>\<^verbatim>\<open>value.get(key) != expected[key]\<close> for a text or an int.\<close>

definition same_field :: "pyval \<Rightarrow> pyval \<Rightarrow> bool" where
  "same_field v expected = (case expected of VInt i \<Rightarrow> eq_int v i | _ \<Rightarrow> v = expected)"

definition leg_matches :: "pydict \<Rightarrow> pydict \<Rightarrow> bool" where
  "leg_matches value expected \<longleftrightarrow>
     set (map fst value) = set (map fst expected) \<and> list_all (\<lambda>(k, v). same_field (dget value k) v) expected"

definition parse_leg :: "py_std \<Rightarrow> int \<Rightarrow> pyval \<Rightarrow> demand_leg res" where
  "parse_leg std version value =
     (case value of
        VDict d \<Rightarrow>
          rbind (required_string (dget d ''role'')) (\<lambda>role. rbind (valid_session_date (dget d ''expiry'')) (\<lambda>expiry.
          if version = 1 then
            (if dget_default d ''right'' (VStr ''C'') \<noteq> VStr ''C'' then Inl (ValueError ''v1 leg right must be implicit Call'')
             else rbind (build_leg std role expiry (dget d ''strike'') ''C'') (\<lambda>canonical.
               let explicit = leg_to_dict canonical;
                   expected = (if map_of d ''right'' \<noteq> None then explicit else filter (\<lambda>(k, _). k \<noteq> ''right'') explicit)
               in if leg_matches d expected then Inr canonical else Inl (ValueError ''leg contract fields mismatch'')))
          else if version \<noteq> 2 then Inl (ValueError ''leg schema version mismatch'')
          else rbind (required_string (dget d ''right'')) (\<lambda>rgt.
            rbind (build_leg std role expiry (dget d ''strike'') rgt) (\<lambda>canonical.
              if leg_matches d (leg_to_dict canonical) then Inr canonical
              else Inl (ValueError ''leg contract fields mismatch'')))))
      | _ \<Rightarrow> Inl (ValueError ''leg must be an object''))"

subsection \<open>The checks of a demand\<close>

fun join_bar :: "string list \<Rightarrow> string" where
  "join_bar [] = []"
| "join_bar [x] = x"
| "join_bar (x # y # xs) = x @ ''|'' @ join_bar (y # xs)"

definition demand_id_of :: "py_std \<Rightarrow> string \<Rightarrow> string \<Rightarrow> string \<Rightarrow> string \<Rightarrow> demand_leg \<Rightarrow> demand_leg \<Rightarrow> string" where
  "demand_id_of std event_id session_date source_policy source_provider long_leg short_leg =
     ''gth-exact:'' @ take 24 (std_sha256 std (join_bar
       [event_id, session_date, source_policy, source_provider, dl_contract_id long_leg, dl_contract_id short_leg]))"

definition source_prefixes :: "int \<Rightarrow> string \<Rightarrow> string list" where
  "source_prefixes version status =
     (if status = ''active'' then [''virtual_strategy_lifecycle.v3+sha256:'']
      else if version = 1 then [''gth_dip_reclaim.v4+sha256:'']
      else [''gth_dip_reclaim.v4+sha256:'', ''gth_level_manual_candidate.v1+sha256:''])"

text \<open>The chain of checks on the envelope, on the source and on the lease.\<close>

definition envelope_issue :: "py_std \<Rightarrow> quote_demand \<Rightarrow> string option" where
  "envelope_issue std d =
     (if qd_status d \<notin> set demand_statuses then Some ''status_invalid''
      else if qd_schema_version d \<noteq> 1 \<and> qd_schema_version d \<noteq> 2 then Some ''schema_version_mismatch''
      else if qd_policy_version d \<noteq> (if qd_schema_version d = 1 then demand_policy_v1 std else demand_policy_v2 std)
      then Some ''policy_version_mismatch''
      else if qd_quote_provider d \<noteq> ''ibkr'' then Some ''quote_provider_mismatch'' else None)"

definition source_contract :: "quote_demand \<Rightarrow> pydict" where
  "source_contract d =
     [(''schema_version'', VInt (qd_source_schema_version d)), (''policy_version'', VStr (qd_source_policy_version d)),
      (''valid_until'', VTime (Aware (qd_valid_until d) 0)), (''coordinate'', VDict (qd_coordinate d)),
      (''block_reasons'', VList (map VStr (qd_block_reasons d)))]"

definition source_issue :: "quote_demand \<Rightarrow> string option" where
  "source_issue d =
     (if dget (qd_coordinate d) ''kind'' \<noteq> VStr ''raw_es'' then Some ''source_coordinate_invalid''
      else if \<not> list_ex (\<lambda>p. starts_with p (qd_source_policy_version d)) (source_prefixes (qd_schema_version d) (qd_status d))
      then Some ''source_policy_incompatible''
      else if dget (qd_coordinate d) ''provider'' \<noteq> VStr (qd_source_provider d) then Some ''source_provider_mismatch''
      else if qd_block_reasons d \<noteq> [] then Some ''source_blocked''
      else if qd_automatic_ordering d then Some ''automatic_ordering_enabled''
      else if \<not> is_ok (valid_session_date (VStr (qd_session_date d))) then Some ''time_or_session_invalid''
      else if qd_created_at d > qd_updated_at d then Some ''created_after_updated''
      else if qd_updated_at d \<ge> qd_valid_until d then Some ''valid_until_not_after_updated''
      else if flt (Fin (of_int demand_max_lease_seconds)) (total_seconds (qd_valid_until d - qd_updated_at d))
      then Some ''lease_too_long'' else None)"

text \<open>\<^verbatim>\<open>any(_parse_leg(leg.to_dict(), ...) != leg for leg in legs)\<close>.\<close>

definition leg_altered :: "py_std \<Rightarrow> int \<Rightarrow> demand_leg \<Rightarrow> bool res" where
  "leg_altered std version leg = rbind (parse_leg std version (VDict (leg_to_dict leg))) (\<lambda>l. Inr (l \<noteq> leg))"

definition legs_altered :: "py_std \<Rightarrow> int \<Rightarrow> demand_leg \<times> demand_leg \<Rightarrow> bool res" where
  "legs_altered std version legs =
     rbind (leg_altered std version (fst legs)) (\<lambda>a. if a then Inr True else leg_altered std version (snd legs))"

definition spread_issue :: "quote_demand \<Rightarrow> string option" where
  "spread_issue d =
     (let (long, short) = qd_legs d in
      if qd_schema_version d = 1 \<and> (dl_right long \<noteq> ''C'' \<or> dl_right short \<noteq> ''C'') then Some ''v1_leg_right_invalid''
      else if dl_right long \<noteq> dl_right short then Some ''leg_right_mismatch''
      else if dl_contract_id long = dl_contract_id short \<or> dl_strike long = dl_strike short then Some ''legs_not_distinct''
      else if dl_right long = ''C'' \<and> dl_strike long \<ge> dl_strike short then Some ''call_spread_order_invalid''
      else if dl_right long = ''P'' \<and> dl_strike long \<le> dl_strike short then Some ''put_spread_order_invalid''
      else None)"

definition leg_shape_issue :: "quote_demand \<Rightarrow> string option" where
  "leg_shape_issue d =
     (let (long, short) = qd_legs d in
      if (dl_role long, dl_role short) \<noteq> (''long'', ''short'') then Some ''leg_roles_invalid''
      else if dl_expiry long \<noteq> qd_session_date d \<or> dl_expiry short \<noteq> qd_session_date d then Some ''leg_expiry_mismatch''
      else None)"

definition identity_issue :: "py_std \<Rightarrow> quote_demand \<Rightarrow> string option" where
  "identity_issue std d =
     (if qd_demand_id d = demand_id_of std (qd_event_id d) (qd_session_date d) (qd_source_policy_version d)
           (qd_source_provider d) (fst (qd_legs d)) (snd (qd_legs d))
      then None else Some ''demand_id_mismatch'')"

text \<open>\<open>first_issue a b\<close> is \<open>a\<close>, or \<open>b\<close> when \<open>a\<close> found nothing.\<close>

definition first_issue :: "string option \<Rightarrow> string option res \<Rightarrow> string option res" where
  "first_issue a b = (case a of Some i \<Rightarrow> Inr (Some i) | None \<Rightarrow> b)"

definition demand_issue :: "py_std \<Rightarrow> quote_demand \<Rightarrow> string option res" where
  "demand_issue std d =
     first_issue (envelope_issue std d)
       (rbind (strategy_contract_issues std True True (source_contract d)) (\<lambda>issues.
          if issues \<noteq> [] then Inr (Some ''source_contract_invalid'')
          else first_issue (source_issue d) (first_issue (leg_shape_issue d)
            (rbind (legs_altered std (qd_schema_version d) (qd_legs d)) (\<lambda>altered.
               if altered then Inr (Some ''leg_contract_invalid'')
               else first_issue (spread_issue d) (Inr (identity_issue std d)))))))"

subsection \<open>Building, reading and writing\<close>

definition checked_demand :: "py_std \<Rightarrow> quote_demand \<Rightarrow> quote_demand res" where
  "checked_demand std d =
     rbind (demand_issue std d) (\<lambda>issue. case issue of Some i \<Rightarrow> Inl (ValueError i) | None \<Rightarrow> Inr d)"

record demand_request =
  dr_event_id :: string
  dr_status :: string
  dr_session_date :: string
  dr_long_strike :: pyval
  dr_short_strike :: pyval
  dr_right :: string
  dr_created_at :: int
  dr_updated_at :: int
  dr_valid_until :: int
  dr_source_schema_version :: int
  dr_source_policy_version :: string
  dr_source_provider :: string
  dr_coordinate :: pydict
  dr_block_reasons :: pyval

definition build_exact_leg_quote_demand :: "py_std \<Rightarrow> demand_request \<Rightarrow> quote_demand res" where
  "build_exact_leg_quote_demand std r =
     rbind (valid_session_date (VStr (dr_session_date r))) (\<lambda>expiry.
     rbind (build_leg std ''long'' expiry (dr_long_strike r) (dr_right r)) (\<lambda>long_leg.
     rbind (build_leg std ''short'' expiry (dr_short_strike r) (dr_right r)) (\<lambda>short_leg.
     rbind (required_string (VStr (dr_event_id r))) (\<lambda>event_id.
     rbind (required_string (VStr (dr_source_policy_version r))) (\<lambda>source_policy.
     rbind (required_string (VStr (dr_source_provider r))) (\<lambda>source_provider.
     rbind (normalize_coordinate std (VDict (dr_coordinate r))) (\<lambda>coordinate.
       checked_demand std
         \<lparr>qd_schema_version = 2,
          qd_demand_id = demand_id_of std event_id expiry source_policy source_provider long_leg short_leg,
          qd_event_id = event_id, qd_status = dr_status r, qd_created_at = dr_created_at r,
          qd_updated_at = dr_updated_at r, qd_valid_until = dr_valid_until r, qd_session_date = expiry,
          qd_policy_version = demand_policy_v2 std, qd_source_schema_version = dr_source_schema_version r,
          qd_source_policy_version = source_policy, qd_source_provider = source_provider, qd_quote_provider = ''ibkr'',
          qd_coordinate = coordinate, qd_block_reasons = normalize_block_reasons (dr_block_reasons r),
          qd_automatic_ordering = False, qd_legs = (long_leg, short_leg)\<rparr>)))))))"

text \<open>The reader: \<open>Inl\<close> an issue, \<open>Inr\<close> a demand.\<close>

definition demand_fields :: "string list" where
  "demand_fields = [''schema_version'', ''kind'', ''demand_id'', ''event_id'', ''status'', ''created_at'', ''updated_at'',
     ''valid_until'', ''session_date'', ''policy_version'', ''source_schema_version'', ''source_policy_version'',
     ''source_provider'', ''quote_provider'', ''coordinate'', ''block_reasons'', ''automatic_ordering'', ''legs'']"

definition read_demand :: "py_std \<Rightarrow> pydict \<Rightarrow> int \<Rightarrow> demand_leg \<times> demand_leg \<Rightarrow> quote_demand res" where
  "read_demand std payload version legs =
     rbind (required_string (dget payload ''demand_id'')) (\<lambda>demand_id.
     rbind (required_string (dget payload ''event_id'')) (\<lambda>event_id.
     rbind (required_string (dget payload ''status'')) (\<lambda>status.
     rbind (parse_time std (dget payload ''created_at'')) (\<lambda>created_at.
     rbind (parse_time std (dget payload ''updated_at'')) (\<lambda>updated_at.
     rbind (parse_time std (dget payload ''valid_until'')) (\<lambda>valid_until.
     rbind (valid_session_date (dget payload ''session_date'')) (\<lambda>session_date.
     rbind (required_string (dget payload ''policy_version'')) (\<lambda>policy_version.
     rbind (required_int (dget payload ''source_schema_version'')) (\<lambda>source_schema_version.
     rbind (required_string (dget payload ''source_policy_version'')) (\<lambda>source_policy_version.
     rbind (required_string (dget payload ''source_provider'')) (\<lambda>source_provider.
     rbind (required_string (dget payload ''quote_provider'')) (\<lambda>quote_provider.
     rbind (required_mapping (dget payload ''coordinate'')) (\<lambda>coordinate.
     rbind (required_block_reasons (dget payload ''block_reasons'')) (\<lambda>block_reasons.
     rbind (required_bool (dget payload ''automatic_ordering'')) (\<lambda>automatic_ordering.
       Inr \<lparr>qd_schema_version = version, qd_demand_id = demand_id, qd_event_id = event_id, qd_status = status,
            qd_created_at = created_at, qd_updated_at = updated_at, qd_valid_until = valid_until,
            qd_session_date = session_date, qd_policy_version = policy_version,
            qd_source_schema_version = source_schema_version, qd_source_policy_version = source_policy_version,
            qd_source_provider = source_provider, qd_quote_provider = quote_provider, qd_coordinate = coordinate,
            qd_block_reasons = block_reasons, qd_automatic_ordering = automatic_ordering, qd_legs = legs\<rparr>)))))))))))))))"

definition accept_demand :: "py_std \<Rightarrow> quote_demand \<Rightarrow> int \<Rightarrow> (string + quote_demand) res" where
  "accept_demand std d now =
     rbind (demand_issue std d) (\<lambda>issue.
       case issue of
         Some i \<Rightarrow> Inr (Inl i)
       | None \<Rightarrow>
           if qd_updated_at d > now + demand_max_future_skew * us_per_second then Inr (Inl ''updated_at_in_future'')
           else if now \<ge> qd_valid_until d then Inr (Inl ''expired'') else Inr (Inr d))"

definition parse_body :: "py_std \<Rightarrow> pydict \<Rightarrow> int \<Rightarrow> (string + quote_demand) res" where
  "parse_body std payload now =
     (case dget payload ''schema_version'' of
        VInt version \<Rightarrow>
          if version \<noteq> 1 \<and> version \<noteq> 2 then Inr (Inl ''schema_version_mismatch'')
          else if dget payload ''kind'' = VStr tombstone_kind then Inr (Inl ''tombstone'')
          else if dget payload ''kind'' \<noteq> VStr demand_kind then Inr (Inl ''kind_mismatch'')
          else if set (map fst payload) \<noteq> set demand_fields then Inr (Inl ''fields_invalid'')
          else (case dget payload ''legs'' of
              VList [a, b] \<Rightarrow>
                rbind (parse_leg std version a) (\<lambda>long_leg. rbind (parse_leg std version b) (\<lambda>short_leg.
                rbind (read_demand std payload version (long_leg, short_leg)) (\<lambda>d. accept_demand std d now)))
            | _ \<Rightarrow> Inr (Inl ''legs_invalid''))
      | _ \<Rightarrow> Inr (Inl ''schema_version_mismatch''))"

text \<open>\<^verbatim>\<open>except (TypeError, ValueError, OverflowError)\<close>.\<close>

definition malformed_error :: "py_error \<Rightarrow> bool" where
  "malformed_error e = (case e of TypeError _ \<Rightarrow> True | ValueError _ \<Rightarrow> True | OverflowError \<Rightarrow> True | _ \<Rightarrow> False)"

definition parse_exact_leg_quote_demand :: "py_std \<Rightarrow> pydict \<Rightarrow> int \<Rightarrow> (string + quote_demand) res" where
  "parse_exact_leg_quote_demand std payload now =
     (case parse_body std payload now of
        Inl e \<Rightarrow> if malformed_error e then Inr (Inl ''malformed'') else Inl e
      | Inr r \<Rightarrow> Inr r)"

text \<open>
  \<open>content\<close> is what \<^verbatim>\<open>read_json_object\<close> returns: the decoded dictionary, empty for a file that cannot be opened or
  is not JSON. A file that is not UTF-8 makes \<^verbatim>\<open>read_json_object\<close> itself raise; reading files is not modelled.
\<close>

definition load_exact_leg_quote_demand :: "py_std \<Rightarrow> pydict \<Rightarrow> int \<Rightarrow> (string + quote_demand) res" where
  "load_exact_leg_quote_demand std content now =
     (if content = [] then Inr (Inl ''missing_or_invalid'') else parse_exact_leg_quote_demand std content now)"

text \<open>The dictionaries that the writers put into the file.\<close>

definition write_exact_leg_quote_demand :: "py_std \<Rightarrow> quote_demand \<Rightarrow> pydict res" where
  "write_exact_leg_quote_demand std d =
     (if qd_schema_version d \<noteq> 2 then Inl (ValueError ''writer_requires_current_schema_version'')
      else rbind (checked_demand std d) (\<lambda>d. Inr (demand_to_dict d)))"

definition write_quote_demand_tombstone :: "int \<Rightarrow> string \<Rightarrow> pyval \<Rightarrow> pyval \<Rightarrow> pydict res" where
  "write_quote_demand_tombstone now reason previous_demand_id previous_event_id =
     rbind (required_string (VStr reason)) (\<lambda>clean.
       Inr [(''schema_version'', VInt 2), (''kind'', VStr tombstone_kind), (''status'', VStr ''cleared''),
            (''created_at'', VStr (isoformat now)), (''updated_at'', VStr (isoformat now)),
            (''valid_until'', VStr (isoformat now)), (''quote_provider'', VStr ''ibkr''), (''reason'', VStr clean),
            (''previous_demand_id'', optional_string previous_demand_id),
            (''previous_event_id'', optional_string previous_event_id), (''legs'', VList [])])"

definition write_quote_demand_ack :: "pydict \<Rightarrow> pydict res" where
  "write_quote_demand_ack payload =
     (let result = (if map_of payload ''schema_version'' = None then dset payload ''schema_version'' (VInt 2) else payload) in
      if \<not> eq_int (dget result ''schema_version'') 2 then Inl (ValueError ''ack schema_version mismatch'')
      else Inr (if map_of result ''kind'' = None then dset result ''kind'' (VStr ''ibkr_exact_leg_quote_demand_ack'') else result))"

text \<open>Strike and right of the identifier of an option of the session.\<close>

definition leg_of_contract_id :: "py_std \<Rightarrow> string \<Rightarrow> string \<Rightarrow> (int \<times> string) option res" where
  "leg_of_contract_id std contract_id session_date =
     rbind (valid_session_date (VStr session_date)) (\<lambda>expiry.
       case split_char (CHR '':'') contract_id of
         [a, b, c, day, strike_text, rgt] \<Rightarrow>
           if [a, b, c] \<noteq> [''option'', ''SPX'', ''SPXW''] then Inr None
           else if day \<noteq> without_dashes expiry \<or> rgt \<notin> {''C'', ''P''} then Inr None
           else rbind (py_float std (VStr strike_text)) (\<lambda>x. rbind (valid_strike std (VFloat x)) (\<lambda>strike.
             rbind (build_leg std ''long'' expiry (VInt strike) rgt) (\<lambda>leg.
               Inr (if contract_id = dl_contract_id leg then Some (strike, rgt) else None))))
       | _ \<Rightarrow> Inr None)"

definition spxw_leg_from_contract_id :: "py_std \<Rightarrow> pyval \<Rightarrow> string \<Rightarrow> (int \<times> string) option res" where
  "spxw_leg_from_contract_id std contract_id session_date =
     (case contract_id of
        VStr s \<Rightarrow>
          (case leg_of_contract_id std s session_date of
             Inl e \<Rightarrow> if malformed_error e then Inr None else Inl e
           | Inr r \<Rightarrow> Inr r)
      | _ \<Rightarrow> Inr None)"

definition spxw_call_strike_from_contract_id :: "py_std \<Rightarrow> pyval \<Rightarrow> string \<Rightarrow> int option res" where
  "spxw_call_strike_from_contract_id std contract_id session_date =
     rbind (spxw_leg_from_contract_id std contract_id session_date) (\<lambda>parsed.
       Inr (case parsed of Some (strike, rgt) \<Rightarrow> if rgt = ''C'' then Some strike else None | None \<Rightarrow> None))"

end
