(* ===== verification/Quote_Demand.thy ===== *)
theory Quote_Demand
  imports Quote_Demand_Wire
begin

section \<open>Which legs to keep subscribed (\<^verbatim>\<open>ibkr/quote_demand.py\<close>)\<close>

text \<open>
  The demand is selected from the stored states of the overnight strategies, in the order of their
  priority: an active spread, a card that may be resting at the broker, a confirmed signal, a pending one. A
  result is the demand, if there is one, and the reason. The states are dictionaries read from
  JSON; \<open>Inl\<close> is an exception that leaves the function.
\<close>

type_synonym demand_result = "quote_demand option \<times> string"

text \<open>\<^verbatim>\<open>v in {texts}\<close>, which raises for a value that cannot be hashed.\<close>

definition in_texts :: "pyval \<Rightarrow> string list \<Rightarrow> bool res" where
  "in_texts v ts =
     (case v of VDict _ \<Rightarrow> Inl (TypeError ''unhashable type'') | VList _ \<Rightarrow> Inl (TypeError ''unhashable type'')
      | VStr s \<Rightarrow> Inr (s \<in> set ts) | _ \<Rightarrow> Inr False)"

definition same_provider :: "pyval \<Rightarrow> string option \<Rightarrow> bool" where
  "same_provider v provider = (v = (case provider of Some p \<Rightarrow> VStr p | None \<Rightarrow> VNone))"

definition lease_until :: "int \<Rightarrow> int \<Rightarrow> int" where
  "lease_until now deadline = min (now + demand_lease_seconds * us_per_second) deadline"

text \<open>\<^verbatim>\<open>except (TypeError, ValueError)\<close> around a build: an \<^verbatim>\<open>OverflowError\<close> is not caught.\<close>

definition built_or :: "quote_demand res \<Rightarrow> string \<Rightarrow> string \<Rightarrow> demand_result res" where
  "built_or r reason failure =
     (case r of
        Inr d \<Rightarrow> Inr (Some d, reason)
      | Inl (TypeError _) \<Rightarrow> Inr (None, failure)
      | Inl (ValueError _) \<Rightarrow> Inr (None, failure)
      | Inl e \<Rightarrow> Inl e)"

subsection \<open>A spread of a strategy\<close>

definition lifecycle_contract_ok :: "py_std \<Rightarrow> pydict \<Rightarrow> string \<Rightarrow> bool" where
  "lifecycle_contract_ok std source session_date \<longleftrightarrow>
     dget source ''status'' = VStr ''active'' \<and> dget source ''source_kind'' = VStr ''gth_dip_reclaim_call''
     \<and> dget source ''session_id'' = VStr session_date
     \<and> starts_with ''virtual_strategy_lifecycle.v3+sha256:'' (dtext std source ''policy_version'' [])
     \<and> starts_with ''gth_dip_reclaim.v4+sha256:'' (dtext std source ''source_policy_version'' [])"

definition signal_contract_ok :: "py_std \<Rightarrow> pydict \<Rightarrow> pydict \<Rightarrow> string \<Rightarrow> bool" where
  "signal_contract_ok std source coordinate session_date \<longleftrightarrow>
     dget source ''session_date'' = VStr session_date
     \<and> starts_with ''gth_dip_reclaim.v4+sha256:'' (dtext std source ''policy_version'' [])
     \<and> dget source ''provider'' = dget coordinate ''provider''"

definition source_demand_issue :: "py_std \<Rightarrow> pydict \<Rightarrow> string \<Rightarrow> string \<Rightarrow> int \<Rightarrow> string option res" where
  "source_demand_issue std source status session_date now =
     rbind (if status = ''pending'' then strategy_contract_issues std False True source
            else actionable_strategy_contract_issues std source now) (\<lambda>issues.
       if issues \<noteq> [] then Inr (Some (status @ ''_source_contract_invalid''))
       else case dget source ''coordinate'' of
         VDict coordinate \<Rightarrow>
           if dget coordinate ''kind'' \<noteq> VStr ''raw_es'' then Inr (Some (status @ ''_source_coordinate_invalid''))
           else if dget source ''automatic_ordering'' \<noteq> VBool False then Inr (Some (status @ ''_automatic_ordering_invalid''))
           else if status = ''active'' then
             Inr (if lifecycle_contract_ok std source session_date then None else Some ''active_lifecycle_contract_invalid'')
           else Inr (if signal_contract_ok std source coordinate session_date then None
                     else Some (status @ ''_source_policy_invalid''))
       | _ \<Rightarrow> Inr (Some (status @ ''_source_coordinate_invalid'')))"

definition safe_build_demand ::
  "py_std \<Rightarrow> string \<Rightarrow> string \<Rightarrow> pyval \<Rightarrow> pyval \<Rightarrow> string \<Rightarrow> int \<Rightarrow> int \<Rightarrow> pydict \<Rightarrow> demand_result res" where
  "safe_build_demand std event_id status long_strike short_strike session_date now valid_until source =
     built_or
       (rbind (required_mapping (dget source ''coordinate'')) (\<lambda>coordinate.
        rbind (required_int (dget source ''schema_version'')) (\<lambda>version.
        rbind (required_string (dget source ''policy_version'')) (\<lambda>policy.
          build_exact_leg_quote_demand std
            \<lparr>dr_event_id = event_id, dr_status = status, dr_session_date = session_date, dr_long_strike = long_strike,
             dr_short_strike = short_strike, dr_right = ''C'', dr_created_at = now, dr_updated_at = now,
             dr_valid_until = valid_until, dr_source_schema_version = version, dr_source_policy_version = policy,
             dr_source_provider = py_str std (vor (vor (dget source ''provider'') (dget coordinate ''provider'')) (VStr [])),
             dr_coordinate = coordinate, dr_block_reasons = dget source ''block_reasons''\<rparr>))))
       ''selected'' (status @ ''_quote_demand_invalid'')"

definition demand_from_spread ::
  "py_std \<Rightarrow> pydict \<Rightarrow> string \<Rightarrow> int \<Rightarrow> string \<Rightarrow> int \<Rightarrow> demand_result res" where
  "demand_from_spread std source status valid_until session_date now =
     rbind (source_demand_issue std source status session_date now) (\<lambda>issue.
       case issue of
         Some i \<Rightarrow> Inr (None, i)
       | None \<Rightarrow>
           (case dget source ''spread'' of
              VDict legs \<Rightarrow>
                if dget legs ''right'' \<noteq> VStr ''C'' \<or> dget legs ''expiry_date'' \<noteq> VStr session_date
                then Inr (None, status @ ''_spread_unavailable'')
                else safe_build_demand std (dtext std source ''event_id'' []) status (dget legs ''long_strike'')
                       (dget legs ''short_strike'') session_date now valid_until source
            | _ \<Rightarrow> Inr (None, status @ ''_spread_unavailable'')))"

definition strike_value :: "int option \<Rightarrow> pyval" where
  "strike_value s = (case s of Some n \<Rightarrow> VInt n | None \<Rightarrow> VNone)"

definition demand_from_contracts ::
  "py_std \<Rightarrow> pydict \<Rightarrow> string \<Rightarrow> int \<Rightarrow> string \<Rightarrow> int \<Rightarrow> demand_result res" where
  "demand_from_contracts std source event_id valid_until session_date now =
     rbind (source_demand_issue std source ''active'' session_date now) (\<lambda>issue.
       case issue of
         Some i \<Rightarrow> Inr (None, i)
       | None \<Rightarrow>
           rbind (spxw_call_strike_from_contract_id std (dget source ''long_contract_id'') session_date) (\<lambda>long.
           rbind (spxw_call_strike_from_contract_id std (dget source ''short_contract_id'') session_date) (\<lambda>short.
             safe_build_demand std event_id ''active'' (strike_value long) (strike_value short) session_date now valid_until
               source)))"

subsection \<open>A card that was handed to a person\<close>

definition dict_or_empty :: "pyval \<Rightarrow> pydict" where
  "dict_or_empty v = (case v of VDict d \<Rightarrow> d | _ \<Rightarrow> [])"

definition dict_items :: "pyval \<Rightarrow> pydict list res" where
  "dict_items v = rbind (iter_items (vor v (VList []))) (\<lambda>xs. Inr (List.map_filter as_dict xs))"

text \<open>The latest monitor whose window is still open: its plan and the end of the window.\<close>

definition monitored_plan :: "py_std \<Rightarrow> int \<Rightarrow> pydict \<Rightarrow> (pydict \<times> int) option" where
  "monitored_plan std now monitor =
     (case dget monitor ''active_plan'' of
        VDict plan \<Rightarrow>
          (case (case optional_time std (dget monitor ''monitor_until'') of
                   Some t \<Rightarrow> Some t | None \<Rightarrow> optional_time std (dget plan ''exit_at'')) of
             Some until \<Rightarrow> if now < until then Some (plan, until) else None
           | None \<Rightarrow> None)
      | _ \<Rightarrow> None)"

text \<open>The latest check of a delivery receipt whose plan has not reached its exit.\<close>

definition receipt_plan :: "py_std \<Rightarrow> int \<Rightarrow> pydict \<Rightarrow> (pydict \<times> int) option" where
  "receipt_plan std now check =
     (case dget check ''active_plan'' of
        VDict plan \<Rightarrow>
          (case optional_time std (dget plan ''exit_at'') of
             Some exit_at \<Rightarrow>
               if now \<ge> exit_at then None
               else Some (dmerge (dict_or_empty (dget check ''candidate'')) plan, exit_at)
           | None \<Rightarrow> None)
      | _ \<Rightarrow> None)"

fun first_some :: "('a \<Rightarrow> 'b option) \<Rightarrow> 'a list \<Rightarrow> 'b option" where
  "first_some f [] = None"
| "first_some f (x # xs) = (case f x of Some y \<Rightarrow> Some y | None \<Rightarrow> first_some f xs)"

text \<open>The plan over the last candidate when they are about the same candidate.\<close>

definition with_last :: "py_std \<Rightarrow> pydict \<Rightarrow> pydict \<Rightarrow> pydict" where
  "with_last std last_candidate plan =
     (let candidate_id = dtext std plan ''candidate_id'' [] in
      if candidate_id \<noteq> [] \<and> candidate_id = dtext std last_candidate ''candidate_id'' [] then dmerge last_candidate plan
      else plan)"

text \<open>What a card is taken from: its source, its deadline, its status and whether an order may be at risk.\<close>

record card_source =
  cs_source :: pydict
  cs_until :: "int option"
  cs_status :: string
  cs_at_risk :: bool

definition no_card :: card_source where
  "no_card = \<lparr>cs_source = [], cs_until = None, cs_status = ''confirmed'', cs_at_risk = False\<rparr>"

definition at_risk_card :: "py_std \<Rightarrow> int \<Rightarrow> pydict \<Rightarrow> pydict \<Rightarrow> pydict list \<Rightarrow> pydict list \<Rightarrow> card_source" where
  "at_risk_card std now last_candidate active monitors terminal_checks =
     (let monitored = first_some (monitored_plan std now) (rev monitors) in
      case (case monitored of Some (plan, until) \<Rightarrow> if plan = [] then None else Some (plan, until) | None \<Rightarrow> None) of
        Some (plan, until) \<Rightarrow>
          no_card\<lparr>cs_source := with_last std last_candidate plan, cs_until := Some until, cs_at_risk := True\<rparr>
      | None \<Rightarrow>
          if active \<noteq> [] then
            (let source = with_last std last_candidate active in
             no_card\<lparr>cs_source := source, cs_until := optional_time std (dget source ''exit_at''), cs_at_risk := True\<rparr>)
          else (case first_some (receipt_plan std now) (rev terminal_checks) of
              Some (source, exit_at) \<Rightarrow>
                no_card\<lparr>cs_source := source, cs_until := Some exit_at, cs_status := ''pending'', cs_at_risk := True\<rparr>
            | None \<Rightarrow> no_card))"

definition chosen_card :: "py_std \<Rightarrow> pydict \<Rightarrow> card_source \<Rightarrow> card_source res" where
  "chosen_card std last_candidate picked =
     (if cs_source picked \<noteq> [] then Inr picked
      else rbind (in_texts (dget last_candidate ''status'') [''manual_ready'', ''selector_candidate'', ''structure_watch''])
        (\<lambda>shown. Inr (if shown
           then picked\<lparr>cs_source := last_candidate, cs_until := optional_time std (dget last_candidate ''valid_until''),
                     cs_status := (if dget last_candidate ''status'' = VStr ''structure_watch'' then ''pending'' else ''confirmed'')\<rparr>
           else picked)))"

definition card_event_id :: "py_std \<Rightarrow> pydict \<Rightarrow> string" where
  "card_event_id std source =
     (let a = dtext std source ''notification_event_id'' []; b = dtext std source ''ready_event_id'' [] in
      if a \<noteq> [] then a else if b \<noteq> [] then b else py_str std (dget source ''candidate_id'') @ '':ready'')"

definition build_card_demand ::
  "py_std \<Rightarrow> card_source \<Rightarrow> string \<Rightarrow> int \<Rightarrow> int \<Rightarrow> int \<times> string \<Rightarrow> int \<times> string \<Rightarrow> pydict \<Rightarrow> string \<Rightarrow> demand_result res" where
  "build_card_demand std picked session_date now until long_leg short_leg coordinate policy =
     built_or
       (build_exact_leg_quote_demand std
          \<lparr>dr_event_id = card_event_id std (cs_source picked), dr_status = cs_status picked, dr_session_date = session_date,
           dr_long_strike = VInt (fst long_leg), dr_short_strike = VInt (fst short_leg), dr_right = snd long_leg,
           dr_created_at = now, dr_updated_at = now, dr_valid_until = lease_until now until,
           dr_source_schema_version = strategy_event_schema_version, dr_source_policy_version = policy,
           dr_source_provider = dtext std coordinate ''provider'' ''unknown'', dr_coordinate = coordinate,
           dr_block_reasons = VList []\<rparr>)
       ''selected_unified_manual_candidate'' ''manual_candidate_quote_demand_invalid''"

definition card_demand :: "py_std \<Rightarrow> card_source \<Rightarrow> string \<Rightarrow> int \<Rightarrow> demand_result res" where
  "card_demand std picked session_date now =
     (let source = cs_source picked in
      case cs_until picked of
        None \<Rightarrow> Inr (None, ''manual_candidate_quote_demand_expiry_invalid'')
      | Some until \<Rightarrow>
          if now \<ge> until then Inr (None, ''manual_candidate_quote_demand_expired'')
          else let expiry = py_str std (vor (vor (dget source ''expiry'') (dget source ''session_date'')) (VStr [])) in
            if (if expiry = without_dashes session_date then session_date else expiry) \<noteq> session_date
            then Inr (None, ''manual_candidate_session_mismatch'')
            else rbind (spxw_leg_from_contract_id std (dget source ''long_contract_id'') session_date) (\<lambda>long.
              rbind (spxw_leg_from_contract_id std (dget source ''short_contract_id'') session_date) (\<lambda>short.
              case (long, short) of
                (Some long_leg, Some short_leg) \<Rightarrow>
                  if snd long_leg \<noteq> snd short_leg then Inr (None, ''manual_candidate_exact_legs_invalid'')
                  else (case dget source ''invalidation_coordinate'' of
                      VDict coordinate \<Rightarrow>
                        if dget coordinate ''kind'' \<noteq> VStr ''raw_es''
                        then Inr (None, ''manual_candidate_raw_es_coordinate_invalid'')
                        else let policy = dtext std source ''policy_version'' [] in
                          if \<not> starts_with ''gth_level_manual_candidate.v1+sha256:'' policy
                          then Inr (None, ''manual_candidate_policy_invalid'')
                          else build_card_demand std picked session_date now until long_leg short_leg coordinate policy
                    | _ \<Rightarrow> Inr (None, ''manual_candidate_raw_es_coordinate_invalid''))
              | _ \<Rightarrow> Inr (None, ''manual_candidate_exact_legs_invalid''))))"

definition manual_card :: "py_std \<Rightarrow> int \<Rightarrow> pydict \<Rightarrow> card_source res" where
  "manual_card std now d =
     (let last_candidate = dict_or_empty (dget d ''last_candidate'') in
      rbind (dict_items (dget d ''manual_plan_monitors'')) (\<lambda>monitors.
      rbind (dict_items (dget d ''pending_terminal_receipt_checks'')) (\<lambda>terminal_checks.
        chosen_card std last_candidate
          (at_risk_card std now last_candidate (dict_or_empty (dget d ''active_manual_plan'')) monitors terminal_checks))))"

definition manual_candidate_demand ::
  "py_std \<Rightarrow> pydict option \<Rightarrow> string \<Rightarrow> int \<Rightarrow> (quote_demand option \<times> string \<times> bool) res" where
  "manual_candidate_demand std state session_date now =
     (case state of
        None \<Rightarrow> Inr (None, ''no_unified_manual_quote_demand'', False)
      | Some d \<Rightarrow> rbind (manual_card std now d) (\<lambda>picked.
          if cs_source picked = [] then Inr (None, ''no_unified_manual_quote_demand'', False)
          else rbind (card_demand std picked session_date now) (\<lambda>(demand, reason). Inr (demand, reason, cs_at_risk picked))))"

subsection \<open>The selection\<close>

definition active_demand :: "py_std \<Rightarrow> pydict \<Rightarrow> string \<Rightarrow> int \<Rightarrow> demand_result res" where
  "active_demand std active session_date now =
     (case optional_time std (dget active ''time_stop_at'') of
        None \<Rightarrow> Inr (None, ''active_quote_demand_expired'')
      | Some until \<Rightarrow>
          if now \<ge> until then Inr (None, ''active_quote_demand_expired'')
          else demand_from_contracts std active
                 (py_str std (vor (vor (dget active ''source_signal_id'') (dget active ''episode_id'')) (VStr [])))
                 (lease_until now until) session_date now)"

text \<open>The confirmed signal that may still be acted on, and the pending one, each with its deadline.\<close>

definition live_signal :: "py_std \<Rightarrow> pydict \<Rightarrow> string option \<Rightarrow> string \<Rightarrow> int \<Rightarrow> (pydict \<times> int) option" where
  "live_signal std gth_state provider session_date now =
     (case dget gth_state ''last_signal'' of
        VDict s \<Rightarrow>
          (case optional_time std (dget s ''valid_until'') of
             Some until \<Rightarrow>
               if now < until \<and> same_provider (dget s ''provider'') provider \<and> dget s ''session_date'' = VStr session_date
               then Some (s, until) else None
           | None \<Rightarrow> None)
      | _ \<Rightarrow> None)"

definition pending_signal :: "py_std \<Rightarrow> pydict \<Rightarrow> string option \<Rightarrow> (pydict \<times> int) option" where
  "pending_signal std gth_state provider =
     (case dget gth_state ''pending'' of
        VDict s \<Rightarrow>
          if same_provider (dget s ''provider'') provider \<and> py_true (dget s ''event_id'') then
            (case dget s ''spread'' of
               VDict legs \<Rightarrow> map_option (\<lambda>t. (s, t)) (optional_time std (dget legs ''exit_at''))
             | _ \<Rightarrow> None)
          else None
      | _ \<Rightarrow> None)"

definition signal_demand :: "py_std \<Rightarrow> pydict \<Rightarrow> string option \<Rightarrow> string \<Rightarrow> int \<Rightarrow> demand_result res" where
  "signal_demand std gth_state provider session_date now =
     (if dget gth_state ''provider_changed'' = VBool True then Inr (None, ''gth_provider_switched'')
      else if dget gth_state ''status'' = VStr ''suppressed_pre_event'' then Inr (None, ''gth_entry_suppressed'')
      else case live_signal std gth_state provider session_date now of
        Some (s, until) \<Rightarrow> demand_from_spread std s ''confirmed'' (lease_until now until) session_date now
      | None \<Rightarrow>
          (case pending_signal std gth_state provider of
             Some (s, until) \<Rightarrow> demand_from_spread std s ''pending'' (lease_until now until) session_date now
           | None \<Rightarrow> Inr (None, ''no_exact_leg_quote_demand'')))"

definition spread_is_active :: "pydict option \<Rightarrow> bool" where
  "spread_is_active virtual_active =
     (case virtual_active of Some d \<Rightarrow> dget d ''position_type'' = VStr ''call_debit_spread'' | None \<Rightarrow> False)"

definition select_gth_quote_demand ::
  "py_std \<Rightarrow> pydt \<Rightarrow> string \<Rightarrow> string option \<Rightarrow> pydict \<Rightarrow> pydict option \<Rightarrow> pydict option \<Rightarrow> string option \<Rightarrow> demand_result res" where
  "select_gth_quote_demand std at_time session_date provider gth_state virtual_active manual_state forced_clear =
     (case (aware_utc at_time, valid_session_date (VStr session_date)) of
        (Inr now, Inr _) \<Rightarrow>
          if spread_is_active virtual_active then active_demand std (the virtual_active) session_date now
          else rbind (manual_candidate_demand std manual_state session_date now) (\<lambda>(demand, reason, at_risk).
            if at_risk then Inr (demand, reason)
            else if text_true forced_clear then Inr (None, the forced_clear)
            else if demand \<noteq> None then Inr (demand, reason)
            else if reason \<noteq> ''no_unified_manual_quote_demand'' then Inr (None, reason)
            else signal_demand std gth_state provider session_date now)
      | _ \<Rightarrow> Inr (None, ''demand_clock_or_session_invalid''))"

subsection \<open>Keeping the file (\<^verbatim>\<open>_persist_gth_quote_demand\<close> of \<^verbatim>\<open>application/shock/service.py\<close>)\<close>

text \<open>
  The new content of the file and the demand that was written. The same legs of the same event keep the time of their first
  demand; without a demand the file becomes a tombstone, once per reason.
\<close>

definition kept_creation :: "string + quote_demand \<Rightarrow> quote_demand \<Rightarrow> quote_demand" where
  "kept_creation previous d =
     (case previous of
        Inr p \<Rightarrow> if qd_demand_id p = qd_demand_id d \<and> qd_created_at p \<le> qd_updated_at d
                 then d\<lparr>qd_created_at := qd_created_at p\<rparr> else d
      | Inl _ \<Rightarrow> d)"

definition text_or_none :: "string \<Rightarrow> pyval" where
  "text_or_none s = (if s = [] then VNone else VStr s)"

definition persist_gth_quote_demand ::
  "py_std \<Rightarrow> int \<Rightarrow> string \<Rightarrow> string option \<Rightarrow> pydict \<Rightarrow> pydict option \<Rightarrow> pydict option \<Rightarrow> string option \<Rightarrow> pydict \<Rightarrow>
     (pydict \<times> quote_demand option) res" where
  "persist_gth_quote_demand std now session_date provider gth_state virtual_active manual_state forced_clear content =
     rbind (select_gth_quote_demand std (Aware now 0) session_date provider gth_state virtual_active manual_state forced_clear)
       (\<lambda>(demand, reason). rbind (load_exact_leg_quote_demand std content now) (\<lambda>previous.
          case demand of
            Some d \<Rightarrow>
              let d = kept_creation previous d in
              rbind (write_exact_leg_quote_demand std d) (\<lambda>written. Inr (written, Some d))
          | None \<Rightarrow>
              if dget content ''kind'' = VStr tombstone_kind \<and> dget content ''reason'' = VStr reason then Inr (content, None)
              else rbind (write_quote_demand_tombstone now reason (text_or_none (dtext std content ''demand_id'' []))
                     (text_or_none (dtext std content ''event_id'' []))) (\<lambda>written. Inr (written, None))))"

end
