(* ===== verification/Quote_Demand_Checks.thy ===== *)
theory Quote_Demand_Checks
  imports Quote_Demand
begin

section \<open>What the checks of a quote demand mean\<close>

text \<open>
  What a demand that passed the checks is (\<open>sound_demand\<close>), the exceptions the reader can meet, the way of a demand
  from the writer's dictionary back to the reader, and what the selection promises.
\<close>

subsection \<open>Exceptions of the readers\<close>

definition caught :: "'a res \<Rightarrow> bool" where
  "caught r \<longleftrightarrow> (\<forall>e. r = Inl e \<longrightarrow> malformed_error e)"

named_theorems caught_rules "operations whose exceptions the reader catches"

lemma caught_simps [simp]: "caught (Inr x)" "caught (Inl e) \<longleftrightarrow> malformed_error e"
  by (simp_all add: caught_def)

lemma malformed_simps [simp]: "malformed_error (ValueError s)" "malformed_error (TypeError s)" "malformed_error OverflowError"
  by (simp_all add: malformed_error_def)

lemma caught_rbind [intro!]: "caught r \<Longrightarrow> (\<And>x. r = Inr x \<Longrightarrow> caught (f x)) \<Longrightarrow> caught (rbind r f)"
  by (cases r) auto

lemma caught_float_of_int [caught_rules]: "caught (float_of_int n)"
  by (auto simp: float_of_int_def split: pyfloat.split)

lemma caught_py_float [caught_rules]: "caught (py_float std v)"
  using caught_float_of_int by (auto simp: py_float_def split: pyval.split option.split)

lemma caught_strategy_time [caught_rules]: "caught (strategy_time std v)"
  by (auto simp: strategy_time_def split: option.split)

lemma caught_finite_number [caught_rules]: "caught (finite_number v)"
  using caught_float_of_int by (auto simp: finite_number_def split: pyval.split)

lemma caught_normalize_coordinate [caught_rules]: "caught (normalize_coordinate std v)"
  unfolding normalize_coordinate_def Let_def by (intro caught_rbind caught_rules) simp

lemma caught_contract_issues [caught_rules]: "caught (strategy_contract_issues std a b payload)"
  unfolding strategy_contract_issues_def coordinate_issues_def Let_def
  by (intro caught_rbind) (auto intro: caught_rules)

lemma caught_fields [caught_rules]:
  "caught (required_string v)" "caught (required_int v)" "caught (required_bool v)" "caught (required_mapping v)"
  "caught (required_block_reasons v)" "caught (parse_time std v)" "caught (valid_session_date v)" "caught (valid_right s)"
  by (auto simp: required_string_def required_int_def required_bool_def required_mapping_def required_block_reasons_def
        parse_time_def aware_utc_def valid_session_date_def valid_right_def Let_def split: pyval.split option.split pydt.split)

lemma caught_valid_strike [caught_rules]: "caught (valid_strike std v)"
  unfolding valid_strike_def by (auto intro!: caught_rules split: pyfloat.split)

lemma caught_build_leg [caught_rules]: "caught (build_leg std role expiry v rgt)"
  unfolding build_leg_def Let_def option_instrument_def normalize_option_right_def
  by (intro caught_rbind caught_rules) (auto split: right_ref.split)

lemma caught_parse_leg [caught_rules]: "caught (parse_leg std version v)"
  unfolding parse_leg_def Let_def
  by (cases v) (auto intro!: caught_rules)

lemma caught_first_issue [intro!]: "caught b \<Longrightarrow> caught (first_issue a b)"
  by (simp add: first_issue_def split: option.split)

lemma caught_demand_issue [caught_rules]: "caught (demand_issue std d)"
  unfolding demand_issue_def legs_altered_def leg_altered_def
  by (auto intro!: caught_rules)

lemma caught_read_demand [caught_rules]: "caught (read_demand std payload version legs)"
  unfolding read_demand_def by (intro caught_rbind caught_rules) simp

lemma caught_parse_body: "caught (parse_body std payload now)"
  unfolding parse_body_def accept_demand_def
  by (auto intro!: caught_rules split: pyval.split list.split option.split)

lemma parse_returns: "\<exists>r. parse_exact_leg_quote_demand std payload now = Inr r"
  using caught_parse_body [of std payload now]
  by (auto simp: parse_exact_leg_quote_demand_def caught_def split: sum.split)

subsection \<open>Sound demands\<close>

definition sound_leg :: "string \<Rightarrow> string \<Rightarrow> demand_leg \<Rightarrow> bool" where
  "sound_leg role day leg \<longleftrightarrow>
     dl_role leg = role \<and> dl_expiry leg = day \<and> 0 < dl_strike leg \<and> dl_strike leg mod 5 = 0 \<and> dl_right leg \<in> {''C'', ''P''}
     \<and> dl_contract_id leg = ''option:SPX:SPXW:'' @ without_dashes day @ '':'' @ dec_int (dl_strike leg) @ '':'' @ dl_right leg
     \<and> dl_underlier leg = ''SPX'' \<and> dl_trading_class leg = ''SPXW'' \<and> dl_multiplier leg = ''100''"

text \<open>A debit spread: the call bought lies below the one sold, the put above.\<close>

definition debit_spread :: "demand_leg \<Rightarrow> demand_leg \<Rightarrow> bool" where
  "debit_spread long short \<longleftrightarrow>
     dl_right long = dl_right short
     \<and> (if dl_right long = ''C'' then dl_strike long < dl_strike short else dl_strike short < dl_strike long)"

definition sound_demand :: "py_std \<Rightarrow> quote_demand \<Rightarrow> bool" where
  "sound_demand std d \<longleftrightarrow>
     qd_status d \<in> set demand_statuses \<and> qd_schema_version d \<in> {1, 2} \<and> qd_quote_provider d = ''ibkr''
     \<and> qd_source_schema_version d = 3 \<and> qd_block_reasons d = [] \<and> \<not> qd_automatic_ordering d
     \<and> dget (qd_coordinate d) ''kind'' = VStr ''raw_es'' \<and> coordinate_instrument_id std (qd_coordinate d) = VStr ''future:ES''
     \<and> dget (qd_coordinate d) ''provider'' = VStr (qd_source_provider d)
     \<and> qd_created_at d \<le> qd_updated_at d \<and> qd_updated_at d < qd_valid_until d
     \<and> qd_valid_until d \<le> qd_updated_at d + 45 * us_per_second
     \<and> sound_leg ''long'' (qd_session_date d) (fst (qd_legs d)) \<and> sound_leg ''short'' (qd_session_date d) (snd (qd_legs d))
     \<and> debit_spread (fst (qd_legs d)) (snd (qd_legs d)) \<and> (qd_schema_version d = 1 \<longrightarrow> dl_right (fst (qd_legs d)) = ''C'')"

lemma valid_strike_ok:
  assumes "valid_strike std v = Inr n"
  shows "0 < n \<and> n mod 5 = 0"
proof -
  from assms obtain x where x: "py_float std v = Inr x"
    by (auto simp: valid_strike_def rbind_eq_Inr_iff split: if_split_asm)
  show ?thesis
  proof (cases x)
    case (Fin q)
    with assms x have q: "\<not> q \<le> 0" "of_int \<lfloor>q\<rfloor> = q" and n: "\<lfloor>q\<rfloor> mod 5 = 0" "n = \<lfloor>q\<rfloor>"
      by (simp_all add: valid_strike_def split: if_split_asm)
    from q have "0 < (of_int \<lfloor>q\<rfloor> :: rat)" by linarith
    with n show ?thesis by simp
  qed (use assms x in \<open>simp_all add: valid_strike_def split: if_split_asm\<close>)
qed

lemma text_or_Nil [simp]: "text_or (Some s) [] = s"
  by (cases s) simp_all

lemma build_leg_ok:
  assumes "build_leg std role expiry v rgt = Inr leg"
  shows "sound_leg role expiry leg \<and> dl_right leg = rgt"
  using assms
  by (auto simp: build_leg_def rbind_eq_Inr_iff Let_def valid_right_def option_instrument_def normalize_option_right_def
        str_upper_def upper_char_def str_strip_def is_blank_def plain_instrument_def canonical_id_def sound_leg_def format_strike_def
      dest!: valid_strike_ok split: if_splits)

lemma parse_leg_ok:
  assumes "parse_leg std version (VDict (leg_to_dict leg)) = Inr leg"
  shows "\<exists>role day. sound_leg role day leg"
proof -
  from assms obtain role day v rgt where "build_leg std role day v rgt = Inr leg"
    by (fastforce simp: parse_leg_def rbind_eq_Inr_iff Let_def split: if_splits)
  then show ?thesis using build_leg_ok by blast
qed

lemma first_issue_None [simp]: "first_issue a b = Inr None \<longleftrightarrow> a = None \<and> b = Inr None"
  by (auto simp: first_issue_def split: option.split)

lemma first_occurrences_Nil [simp]: "first_occurrences xs = [] \<longleftrightarrow> xs = []"
  by (simp add: first_occurrences_def)

lemma raw_es_kind: "dget raw ''kind'' = VStr ''raw_es'' \<Longrightarrow> coordinate_kind std raw = ''raw_es''"
  by (simp add: coordinate_kind_def dtext_def str_strip_def is_blank_def)

lemma contract_of_source:
  assumes "strategy_contract_issues std True True (source_contract d) = Inr []"
    and "dget (qd_coordinate d) ''kind'' = VStr ''raw_es''"
  shows "qd_source_schema_version d = 3 \<and> coordinate_instrument_id std (qd_coordinate d) = VStr ''future:ES''"
  using assms
  by (auto simp: strategy_contract_issues_def rbind_eq_Inr_iff source_contract_def eq_int_def
        strategy_event_schema_version_def coordinate_issues_def is_dict_def normalize_coordinate_def Let_def dtext_def
        raw_es_kind coordinate_instrument_def split: if_splits)

lemma lease_bound:
  assumes "\<not> flt (Fin (of_int demand_max_lease_seconds)) (total_seconds us)"
  shows "us \<le> 45 * us_per_second"
  using total_seconds_not_above [of 45 us] assms by (simp add: demand_max_lease_seconds_def)

lemma checked_demand_sound:
  assumes "demand_issue std d = Inr None"
  shows "sound_demand std d"
proof -
  from assms have e: "envelope_issue std d = None" and c: "strategy_contract_issues std True True (source_contract d) = Inr []"
    and s: "source_issue d = None" and l: "leg_shape_issue d = None" and a: "legs_altered std (qd_schema_version d) (qd_legs d) = Inr False"
    and p: "spread_issue d = None"
    by (auto simp: demand_issue_def rbind_eq_Inr_iff split: if_splits)
  from e have 1: "qd_status d \<in> set demand_statuses" "qd_schema_version d \<in> {1, 2}" "qd_quote_provider d = ''ibkr''"
    by (auto simp: envelope_issue_def split: if_splits)
  from s have 2: "dget (qd_coordinate d) ''kind'' = VStr ''raw_es''" "qd_block_reasons d = []" "\<not> qd_automatic_ordering d"
      "dget (qd_coordinate d) ''provider'' = VStr (qd_source_provider d)"
      "qd_created_at d \<le> qd_updated_at d" "qd_updated_at d < qd_valid_until d"
      "qd_valid_until d \<le> qd_updated_at d + 45 * us_per_second"
    using lease_bound [of "qd_valid_until d - qd_updated_at d"] by (auto simp: source_issue_def split: if_splits)
  have 3: "qd_source_schema_version d = 3" "coordinate_instrument_id std (qd_coordinate d) = VStr ''future:ES''"
    using contract_of_source [OF c 2(1)] by auto
  obtain long short where legs: "qd_legs d = (long, short)" by force
  from a have "parse_leg std (qd_schema_version d) (VDict (leg_to_dict long)) = Inr long"
      "parse_leg std (qd_schema_version d) (VDict (leg_to_dict short)) = Inr short"
    by (auto simp: legs legs_altered_def leg_altered_def rbind_eq_Inr_iff split: if_splits)
  then have 4: "sound_leg ''long'' (qd_session_date d) long" "sound_leg ''short'' (qd_session_date d) short"
    using l parse_leg_ok [of std "qd_schema_version d"] by (fastforce simp: leg_shape_issue_def legs sound_leg_def split: if_splits)+
  then have 5: "debit_spread long short" "qd_schema_version d = 1 \<longrightarrow> dl_right long = ''C''"
    using p by (auto simp: spread_issue_def legs debit_spread_def sound_leg_def split: if_splits)
  from 1 2 3 4 5 show ?thesis by (simp add: sound_demand_def legs)
qed

subsection \<open>From the writer to the reader\<close>

text \<open>A hexadecimal digest holds no blanks.\<close>

definition hex_digests :: "py_std \<Rightarrow> bool" where
  "hex_digests std \<longleftrightarrow> (\<forall>s. list_all (\<lambda>c. \<not> is_blank c) (std_sha256 std s))"

definition clean :: "string \<Rightarrow> bool" where
  "clean s \<longleftrightarrow> s \<noteq> [] \<and> str_strip s = s"

lemma clean_required [simp]: "clean s \<Longrightarrow> required_string (VStr s) = Inr s"
  by (simp add: clean_def required_string_def)

lemma required_clean: "required_string (VStr s) = Inr t \<Longrightarrow> clean t"
  by (auto simp: clean_def required_string_def split: if_splits)

lemma clean_no_blank: "s \<noteq> [] \<Longrightarrow> list_all (\<lambda>c. \<not> is_blank c) s \<Longrightarrow> clean s"
  by (auto simp: clean_def list_all_iff intro: str_strip_no_blank)

lemma list_all_take: "list_all P xs \<Longrightarrow> list_all P (take n xs)"
  by (auto simp: list_all_iff dest: in_set_takeD)

lemma clean_demand_id: "hex_digests std \<Longrightarrow> clean (demand_id_of std a b c d l m)"
  unfolding demand_id_of_def
  by (rule clean_no_blank) (simp_all add: hex_digests_def list_all_take is_blank_def)

lemma demand_policy_v2_text:
  "demand_policy_v2 std = ''ibkr_exact_leg_quote_demand.v2+sha256:'' @ take 16 (std_sha256 std (json_text std
     (demand_policy 2 ''same-session SPXW call-or-put debit spread'')))"
  by (simp add: demand_policy_v2_def constant_text_def strategy_policy_version_def demand_policy_def str_strip_def is_blank_def)

lemma clean_policy: "hex_digests std \<Longrightarrow> clean (demand_policy_v2 std)"
  unfolding demand_policy_v2_text
  by (rule clean_no_blank) (simp_all add: hex_digests_def list_all_take is_blank_def)

lemma clean_status: "s \<in> set demand_statuses \<Longrightarrow> clean s"
  by (auto simp: demand_statuses_def clean_def str_strip_def is_blank_def)

lemma session_date_same: "valid_session_date (VStr s) = Inr t \<Longrightarrow> t = s"
  by (auto simp: valid_session_date_def Let_def split: if_splits)

lemma parse_time_isoformat [simp]: "iso_ok std t \<Longrightarrow> parse_time std (VStr (isoformat t)) = Inr t"
  by (simp add: parse_time_def aware_utc_def)

text \<open>A demand that passed the checks and whose texts are stripped is read back from its dictionary.\<close>

lemma read_demand_back:
  assumes "demand_issue std d = Inr None" "qd_schema_version d = 2" "hex_digests std"
    and "iso_ok std (qd_created_at d)" "iso_ok std (qd_updated_at d)" "iso_ok std (qd_valid_until d)"
    and "clean (qd_event_id d)" "clean (qd_source_policy_version d)" "clean (qd_source_provider d)"
  shows "read_demand std (demand_to_dict d) 2 (qd_legs d) = Inr d"
proof -
  from assms(1,2) have "qd_demand_id d = demand_id_of std (qd_event_id d) (qd_session_date d) (qd_source_policy_version d)
        (qd_source_provider d) (fst (qd_legs d)) (snd (qd_legs d))"
      "qd_policy_version d = demand_policy_v2 std" "is_ok (valid_session_date (VStr (qd_session_date d)))"
    by (auto simp: demand_issue_def rbind_eq_Inr_iff identity_issue_def envelope_issue_def source_issue_def split: if_splits)
  then have c: "clean (qd_demand_id d)" "clean (qd_policy_version d)" "valid_session_date (VStr (qd_session_date d)) = Inr (qd_session_date d)"
    using clean_demand_id clean_policy assms(3) session_date_same by (auto simp: is_ok_iff)
  have s: "clean (qd_status d)" "qd_quote_provider d = ''ibkr''" "qd_block_reasons d = []"
    using checked_demand_sound [OF assms(1)] clean_status by (auto simp: sound_demand_def)
  have "required_string (VStr ''ibkr'') = Inr ''ibkr''" by (simp add: required_string_def str_strip_def is_blank_def)
  then show ?thesis
    using c s assms(2-)
    by (simp add: read_demand_def demand_to_dict_def required_mapping_def required_int_def required_bool_def
          required_block_reasons_def normalize_block_reasons_def)
qed

lemma written_demand_read:
  assumes "demand_issue std d = Inr None" "qd_schema_version d = 2" "hex_digests std"
    and "iso_ok std (qd_created_at d)" "iso_ok std (qd_updated_at d)" "iso_ok std (qd_valid_until d)"
    and "clean (qd_event_id d)" "clean (qd_source_policy_version d)" "clean (qd_source_provider d)"
  shows "load_exact_leg_quote_demand std (demand_to_dict d) now
    = Inr (if now + 5 * us_per_second < qd_updated_at d then Inl ''updated_at_in_future''
           else if qd_valid_until d \<le> now then Inl ''expired'' else Inr d)"
proof -
  obtain long short where legs: "qd_legs d = (long, short)" by force
  from assms(1,2) have l: "parse_leg std 2 (VDict (leg_to_dict long)) = Inr long" "parse_leg std 2 (VDict (leg_to_dict short)) = Inr short"
    by (auto simp: demand_issue_def rbind_eq_Inr_iff legs_altered_def leg_altered_def legs split: if_splits)
  have "map fst (demand_to_dict d) = demand_fields"
    by (simp add: demand_to_dict_def demand_fields_def)
  moreover have "dget (demand_to_dict d) ''schema_version'' = VInt 2" "dget (demand_to_dict d) ''kind'' = VStr demand_kind"
      "dget (demand_to_dict d) ''legs'' = VList [VDict (leg_to_dict long), VDict (leg_to_dict short)]" "demand_to_dict d \<noteq> []"
    by (simp_all add: demand_to_dict_def legs assms(2) wire_leg_def)
  moreover have "demand_kind \<noteq> tombstone_kind" by (simp add: demand_kind_def tombstone_kind_def)
  ultimately show ?thesis
    using l read_demand_back [OF assms] assms(1)
    by (simp add: load_exact_leg_quote_demand_def parse_exact_leg_quote_demand_def parse_body_def legs accept_demand_def
          demand_max_future_skew_def)
qed

subsection \<open>What the selection builds\<close>

text \<open>A demand of the selection: checked, stamped with the present, its lease cut at the deadline of its source.\<close>

definition stamped :: "py_std \<Rightarrow> string \<Rightarrow> int \<Rightarrow> int \<Rightarrow> quote_demand \<Rightarrow> bool" where
  "stamped std day now deadline d \<longleftrightarrow>
     demand_issue std d = Inr None \<and> qd_schema_version d = 2 \<and> qd_session_date d = day
     \<and> clean (qd_event_id d) \<and> clean (qd_source_policy_version d) \<and> clean (qd_source_provider d)
     \<and> qd_created_at d = now \<and> qd_updated_at d = now \<and> qd_valid_until d = lease_until now deadline"

lemma checked_demand_eq [simp]: "checked_demand std d = Inr e \<longleftrightarrow> demand_issue std d = Inr None \<and> e = d"
  by (auto simp: checked_demand_def rbind_eq_Inr_iff split: option.split_asm)

lemma built_demand:
  assumes "build_exact_leg_quote_demand std r = Inr d"
    and "dr_session_date r = day" "dr_created_at r = now" "dr_updated_at r = now" "dr_valid_until r = lease_until now deadline"
  shows "stamped std day now deadline d"
  using assms required_clean
  by (auto simp: build_exact_leg_quote_demand_def rbind_eq_Inr_iff stamped_def dest: session_date_same)

lemma built_or_Some [simp]: "built_or r a b = Inr (Some d, reason) \<longleftrightarrow> r = Inr d \<and> reason = a"
  by (auto simp: built_or_def split: sum.split py_error.split)

lemma safe_build_stamped:
  "safe_build_demand std e st l s day now (lease_until now u) source = Inr (Some d, reason) \<Longrightarrow> stamped std day now u d"
  unfolding safe_build_demand_def built_or_Some rbind_eq_Inr_iff by (auto elim!: built_demand)

lemma spread_stamped:
  "demand_from_spread std source st (lease_until now u) day now = Inr (Some d, reason) \<Longrightarrow> stamped std day now u d"
  by (auto simp: demand_from_spread_def rbind_eq_Inr_iff dest!: safe_build_stamped split: option.split_asm pyval.split_asm if_split_asm)

lemma contracts_stamped:
  "demand_from_contracts std source e (lease_until now u) day now = Inr (Some d, reason) \<Longrightarrow> stamped std day now u d"
  by (auto simp: demand_from_contracts_def rbind_eq_Inr_iff dest!: safe_build_stamped split: option.split_asm)

lemma card_stamped:
  assumes "card_demand std picked day now = Inr (Some d, reason)"
  shows "\<exists>u. cs_until picked = Some u \<and> now < u \<and> stamped std day now u d"
proof -
  obtain u where u: "cs_until picked = Some u" using assms by (cases "cs_until picked") (auto simp: card_demand_def)
  with assms obtain a b c p where "build_card_demand std picked day now u a b c p = Inr (Some d, reason)" "now < u"
    by (auto simp: card_demand_def Let_def rbind_eq_Inr_iff split: if_split_asm option.split_asm pyval.split_asm)
  then show ?thesis using u by (auto simp: build_card_demand_def elim!: built_demand)
qed

lemma manual_stamped:
  "manual_candidate_demand std state day now = Inr (Some d, reason, risk) \<Longrightarrow> \<exists>u > now. stamped std day now u d"
  by (auto simp: manual_candidate_demand_def Let_def rbind_eq_Inr_iff dest!: card_stamped split: option.split_asm if_split_asm)

lemma signal_stamped:
  assumes "signal_demand std g p day now = Inr (Some d, reason)"
  shows "\<exists>u. stamped std day now u d"
  using assms by (auto simp: signal_demand_def dest!: spread_stamped split: if_split_asm option.split_asm)

lemma active_stamped:
  assumes "active_demand std active day now = Inr (Some d, reason)"
  shows "\<exists>u. optional_time std (dget active ''time_stop_at'') = Some u \<and> stamped std day now u d"
  using assms by (auto simp: active_demand_def dest!: contracts_stamped split: if_split_asm option.split_asm)

lemma selected_stamped:
  assumes "select_gth_quote_demand std (Aware now 0) day p g va ms f = Inr (Some d, reason)"
  shows "\<exists>u. stamped std day now u d"
  using assms
  by (auto simp: select_gth_quote_demand_def aware_utc_def rbind_eq_Inr_iff dest: active_stamped manual_stamped signal_stamped
        split: sum.split_asm if_split_asm prod.split_asm)

subsection \<open>Requests that are accepted\<close>

definition real_or_none :: "pyval \<Rightarrow> bool" where
  "real_or_none v = (case v of VNone \<Rightarrow> True | VFloat x \<Rightarrow> is_finite x | _ \<Rightarrow> False)"

text \<open>A coordinate of the ES future with readable numbers and a time that is written back the same.\<close>

definition usable_coordinate :: "py_std \<Rightarrow> pydict \<Rightarrow> bool" where
  "usable_coordinate std c \<longleftrightarrow>
     dget c ''kind'' = VStr ''raw_es'' \<and> coordinate_instrument_id std c = VStr ''future:ES''
     \<and> real_or_none (dget c ''observed_value'') \<and> real_or_none (dget c ''target_value'')
     \<and> real_or_none (dget c ''spx_observed_value'') \<and> real_or_none (dget c ''basis_points'')
     \<and> (\<exists>t. parse_aware_time std (vor (dget c ''as_of'') (dget c ''source_at'')) = Some t \<and> iso_ok std t)"

lemma real_finite_number: "real_or_none v \<Longrightarrow> finite_number v = Inr v"
  by (auto simp: real_or_none_def finite_number_def split: pyval.splits)

lemma parse_aware_VNone [simp]: "parse_aware_time std VNone = None"
  by (simp add: parse_aware_time_def)

lemma parse_aware_isoformat [simp]: "iso_ok std t \<Longrightarrow> parse_aware_time std (VStr (isoformat t)) = Some t"
  by (simp add: parse_aware_time_def)

lemma vor_isoformat [simp]: "vor (VStr (isoformat t)) b = VStr (isoformat t)"
  by (simp add: vor_def)

lemma strategy_time_Some: "parse_aware_time std v = Some t \<Longrightarrow> strategy_time std v = Inr (VStr (isoformat t))"
  by (auto simp: strategy_time_def)

lemma normalized_usable:
  assumes "usable_coordinate std c"
  obtains c' where "normalize_coordinate std (VDict c) = Inr c'" "usable_coordinate std c'" "dget c' ''provider'' = dget c ''provider''"
proof -
  from assms obtain t where t: "parse_aware_time std (vor (dget c ''as_of'') (dget c ''source_at'')) = Some t" "iso_ok std t"
    by (auto simp: usable_coordinate_def)
  let ?c = "dmerge c [(''kind'', VStr ''raw_es''), (''instrument_id'', VStr ''future:ES''),
     (''observed_value'', dget c ''observed_value''), (''target_value'', dget c ''target_value''),
     (''spx_observed_value'', dget c ''spx_observed_value''), (''basis_points'', dget c ''basis_points''),
     (''as_of'', VStr (isoformat t))]"
  have "normalize_coordinate std (VDict c) = Inr ?c"
    using assms strategy_time_Some [OF t(1)]
    by (simp add: normalize_coordinate_def usable_coordinate_def real_finite_number raw_es_kind)
  moreover have "usable_coordinate std ?c"
    using assms t(2) by (simp add: usable_coordinate_def coordinate_instrument_id_def dtext_def str_strip_def is_blank_def)
  moreover have "dget ?c ''provider'' = dget c ''provider''" by simp
  ultimately show thesis by (rule that)
qed

lemma contract_accepts:
  assumes "usable_coordinate std (qd_coordinate d)" "qd_source_schema_version d = 3" "clean (qd_source_policy_version d)"
    and "qd_block_reasons d = []"
  shows "strategy_contract_issues std True True (source_contract d) = Inr []"
proof -
  obtain c' where c: "normalize_coordinate std (VDict (qd_coordinate d)) = Inr c'" "usable_coordinate std c'"
    using normalized_usable [OF assms(1)] by blast
  have i: "dget c' ''instrument_id'' = VStr ''future:ES''"
    using c(1) assms(1) by (auto simp: normalize_coordinate_def Let_def rbind_eq_Inr_iff usable_coordinate_def)
  have k: "dtext std c' ''kind'' ''unavailable'' = ''raw_es''" using c(2) by (simp add: usable_coordinate_def dtext_def)
  have t: "parse_aware_time std (VTime (Aware u 0)) = Some u" for u by (simp add: parse_aware_time_def)
  have "coordinate_issues std True (VDict (qd_coordinate d)) = Inr []"
    using c(1) i k by (simp add: coordinate_issues_def is_dict_def Let_def coordinate_instrument_def)
  moreover have "str_strip (dtext std (source_contract d) ''policy_version'' []) \<noteq> []"
  proof -
    obtain a b where "qd_source_policy_version d = a # b" using assms(3) by (cases "qd_source_policy_version d") (auto simp: clean_def)
    then show ?thesis using assms(3) by (simp add: source_contract_def dtext_def clean_def)
  qed
  ultimately show ?thesis
    using assms(2,4) t
    by (simp add: strategy_contract_issues_def source_contract_def eq_int_def strategy_event_schema_version_def time_issues_def
          reason_issues_def normalize_block_reasons_def)
qed

lemma built_leg_fields:
  assumes "build_leg std role day v rgt = Inr leg"
  shows "valid_strike std v = Inr (dl_strike leg)" "dl_right leg = rgt"
  using assms by (auto simp: build_leg_def rbind_eq_Inr_iff Let_def valid_right_def split: if_split_asm)

lemma small_strike:
  assumes "valid_strike std (VInt n) = Inr m" "\<bar>n\<bar> < 2 ^ 53"
  shows "m = n"
  using assms(1) by (auto simp: valid_strike_def py_float_def is_number_def float_of_int_small [OF assms(2)] split: if_split_asm)

lemma built_leg_reads_back:
  assumes "build_leg std role day (VInt n) rgt = Inr leg" "valid_session_date (VStr day) = Inr day" "clean role" "\<bar>n\<bar> < 2 ^ 53"
  shows "parse_leg std 2 (VDict (leg_to_dict leg)) = Inr leg"
proof -
  have l: "sound_leg role day leg" "dl_right leg = rgt" "dl_strike leg = n"
    using build_leg_ok [OF assms(1)] small_strike [OF built_leg_fields(1) [OF assms(1)] assms(4)] by auto
  have "clean rgt" using l by (auto simp: sound_leg_def clean_def str_strip_def is_blank_def)
  moreover have "leg_matches (leg_to_dict leg) (leg_to_dict leg)"
    by (simp add: leg_matches_def leg_to_dict_def same_field_def eq_int_def)
  moreover have "dget (leg_to_dict leg) ''role'' = VStr role" "dget (leg_to_dict leg) ''expiry'' = VStr day"
      "dget (leg_to_dict leg) ''right'' = VStr rgt" "dget (leg_to_dict leg) ''strike'' = VInt n"
    using l by (simp_all add: leg_to_dict_def sound_leg_def)
  ultimately show ?thesis using assms by (simp add: parse_leg_def)
qed

lemma lease_short: "\<not> flt (Fin (of_int demand_max_lease_seconds)) (total_seconds (lease_until now u - now))"
proof -
  have "fle (total_seconds (lease_until now u - now)) (total_seconds (45 * 1000000))"
    by (rule total_seconds_mono) (simp add: lease_until_def demand_lease_seconds_def)
  moreover have "total_seconds (45 * 1000000) = Fin 45" using total_seconds_whole [of 45] by simp
  ultimately have "fle (total_seconds (lease_until now u - now)) (Fin 45)" by simp
  then show ?thesis
    by (cases "total_seconds (lease_until now u - now)") (simp_all add: demand_max_lease_seconds_def)
qed

lemma contract_id_inject:
  assumes "sound_leg a day x" "sound_leg b day y" "dl_contract_id x = dl_contract_id y"
  shows "dl_strike x = dl_strike y"
  using assms dec_int_no_colon append_colon_inject [of "dec_int (dl_strike x)" "dec_int (dl_strike y)"]
  by (auto simp: sound_leg_def)

lemma request_accepted:
  assumes legs: "build_leg std ''long'' day (VInt l) rgt = Inr long" "build_leg std ''short'' day (VInt s) rgt = Inr short"
    and strikes: "\<bar>l\<bar> < 2 ^ 53" "\<bar>s\<bar> < 2 ^ 53" "if rgt = ''C'' then l < s else s < l"
    and day: "valid_session_date (VStr day) = Inr day" and now: "now < u"
    and c: "usable_coordinate std (dr_coordinate r)" "dget (dr_coordinate r) ''provider'' = VStr (dr_source_provider r)"
    and clean: "clean (dr_source_provider r)" "clean (dr_source_policy_version r)" "str_strip (dr_event_id r) \<noteq> []"
    and prefix: "\<exists>p \<in> set (source_prefixes 2 (dr_status r)). starts_with p (dr_source_policy_version r)"
    and r: "dr_status r \<in> set demand_statuses" "dr_session_date r = day" "dr_long_strike r = VInt l" "dr_short_strike r = VInt s"
      "dr_right r = rgt" "dr_created_at r = now" "dr_updated_at r = now" "dr_valid_until r = lease_until now u"
      "dr_source_schema_version r = 3" "dr_block_reasons r = VList []"
  shows "\<exists>d. build_exact_leg_quote_demand std r = Inr d \<and> qd_legs d = (long, short) \<and> qd_valid_until d = lease_until now u"
proof -
  obtain c' where c': "normalize_coordinate std (VDict (dr_coordinate r)) = Inr c'" "usable_coordinate std c'"
      "dget c' ''provider'' = dget (dr_coordinate r) ''provider''"
    using normalized_usable [OF c(1)] by blast
  let ?event = "str_strip (dr_event_id r)"
  let ?d = "\<lparr>qd_schema_version = 2,
      qd_demand_id = demand_id_of std ?event day (dr_source_policy_version r) (dr_source_provider r) long short,
      qd_event_id = ?event, qd_status = dr_status r, qd_created_at = now, qd_updated_at = now, qd_valid_until = lease_until now u,
      qd_session_date = day, qd_policy_version = demand_policy_v2 std, qd_source_schema_version = 3,
      qd_source_policy_version = dr_source_policy_version r, qd_source_provider = dr_source_provider r, qd_quote_provider = ''ibkr'',
      qd_coordinate = c', qd_block_reasons = [], qd_automatic_ordering = False, qd_legs = (long, short)\<rparr>"
  have sound: "sound_leg ''long'' day long" "sound_leg ''short'' day short" "dl_right long = rgt" "dl_right short = rgt"
      "dl_strike long = l" "dl_strike short = s"
    using build_leg_ok [OF legs(1)] build_leg_ok [OF legs(2)]
      small_strike [OF built_leg_fields(1) [OF legs(1)] strikes(1)] small_strike [OF built_leg_fields(1) [OF legs(2)] strikes(2)]
    by auto
  have lease: "now < lease_until now u" using now by (simp add: lease_until_def demand_lease_seconds_def)
  have "envelope_issue std ?d = None" using r(1) by (simp add: envelope_issue_def)
  moreover have "strategy_contract_issues std True True (source_contract ?d) = Inr []"
    using c'(2) clean(2) by (intro contract_accepts) simp_all
  moreover have "source_issue ?d = None"
    using c' c(2) prefix day lease lease_short [of now u]
    by (simp add: source_issue_def usable_coordinate_def list_ex_iff)
  moreover have "leg_shape_issue ?d = None" using sound by (simp add: leg_shape_issue_def sound_leg_def)
  moreover have "legs_altered std 2 (long, short) = Inr False"
    using built_leg_reads_back [OF legs(1) day _ strikes(1)] built_leg_reads_back [OF legs(2) day _ strikes(2)]
    by (simp add: legs_altered_def leg_altered_def clean_def str_strip_def is_blank_def)
  moreover have "spread_issue ?d = None"
    using sound strikes(3) contract_id_inject [OF sound(1,2)] by (auto simp: spread_issue_def sound_leg_def)
  moreover have "identity_issue std ?d = None" by (simp add: identity_issue_def)
  ultimately have "demand_issue std ?d = Inr None" by (simp add: demand_issue_def)
  moreover have "required_string (VStr (dr_event_id r)) = Inr ?event" using clean(3) by (simp add: required_string_def)
  ultimately have "build_exact_leg_quote_demand std r = Inr ?d"
    using r legs day clean c'(1) by (simp add: build_exact_leg_quote_demand_def normalize_block_reasons_def)
  then show ?thesis by simp
qed

end
