(* ===== verification/Quote_Demand_Properties.thy ===== *)
theory Quote_Demand_Properties
  imports Quote_Demand_Checks
begin

section \<open>Properties of the quote demand\<close>

text \<open>
  The reader fails closed, the file says what the writer decided, a lease is short and ends with its
  source, and the legs of a card that may be resting at the broker stay subscribed whatever the entry
  gates say, unless an active call debit spread takes precedence.
\<close>

subsection \<open>The reader\<close>

text \<open>
  C20: The reader never raises on the decoded dictionary of the demand file, and what it accepts is sound: two distinct legs of one debit
  spread of the session on the five-point grid, from a source on the ES future, without automatic
  ordering or block reasons, and fresh: written at most 45 seconds ago and not yet expired.
\<close>

theorem accepted_demand_is_sound:
  "\<exists>r. load_exact_leg_quote_demand std content now = Inr r
     \<and> (\<forall>d. r = Inr d \<longrightarrow> sound_demand std d \<and> now < qd_valid_until d \<and> qd_updated_at d \<le> now + 5 * us_per_second
            \<and> now < qd_updated_at d + 45 * us_per_second)"
proof -
  obtain r where r: "load_exact_leg_quote_demand std content now = Inr r"
    using parse_returns [of std content now] by (cases "content = []") (auto simp: load_exact_leg_quote_demand_def)
  have "sound_demand std d \<and> now < qd_valid_until d \<and> qd_updated_at d \<le> now + 5 * us_per_second
      \<and> now < qd_updated_at d + 45 * us_per_second" if "r = Inr d" for d
  proof -
    from r that have "demand_issue std d = Inr None" "now < qd_valid_until d" "qd_updated_at d \<le> now + 5 * us_per_second"
      by (auto simp: load_exact_leg_quote_demand_def parse_exact_leg_quote_demand_def parse_body_def rbind_eq_Inr_iff accept_demand_def
            demand_max_future_skew_def split: if_split_asm sum.split_asm pyval.split_asm list.split_asm option.split_asm)
    then show ?thesis using checked_demand_sound [of std d] by (auto simp: sound_demand_def)
  qed
  with r show ?thesis by blast
qed

subsection \<open>The writer\<close>

text \<open>The card or signal a demand is taken from, and its own deadline.\<close>

definition demand_deadline ::
  "py_std \<Rightarrow> int \<Rightarrow> string \<Rightarrow> string option \<Rightarrow> pydict \<Rightarrow> pydict option \<Rightarrow> pydict option \<Rightarrow> int option" where
  "demand_deadline std now day provider gth_state virtual_active manual_state =
     (if spread_is_active virtual_active then optional_time std (dget (the virtual_active) ''time_stop_at'')
      else case (case manual_state of None \<Rightarrow> Inr no_card | Some m \<Rightarrow> manual_card std now m) of
        Inr picked \<Rightarrow>
          if cs_source picked \<noteq> [] then cs_until picked
          else (case live_signal std gth_state provider day now of
              Some (_, u) \<Rightarrow> Some u
            | None \<Rightarrow> map_option snd (pending_signal std gth_state provider))
      | Inl _ \<Rightarrow> None)"

lemma signal_deadline:
  assumes "signal_demand std g p day now = Inr (Some d, reason)"
  shows "\<exists>u. (case live_signal std g p day now of Some (_, u) \<Rightarrow> Some u | None \<Rightarrow> map_option snd (pending_signal std g p)) = Some u
    \<and> stamped std day now u d"
  using assms by (auto simp: signal_demand_def dest!: spread_stamped split: if_split_asm option.split_asm)

lemma manual_deadline:
  assumes "manual_candidate_demand std ms day now = Inr (Some d, reason, risk)"
  shows "\<exists>m picked u. ms = Some m \<and> manual_card std now m = Inr picked \<and> cs_source picked \<noteq> [] \<and> cs_until picked = Some u
    \<and> stamped std day now u d"
  using assms by (auto simp: manual_candidate_demand_def rbind_eq_Inr_iff dest!: card_stamped split: option.split_asm if_split_asm)

lemma card_reason:
  assumes "card_demand std picked day now = Inr (x, reason)"
  shows "reason \<noteq> ''no_unified_manual_quote_demand''"
  using assms unfolding card_demand_def Let_def
  by (auto simp: build_card_demand_def built_or_def elim!: rbind_InrE
      split: option.split_asm if_split_asm prod.split_asm pyval.split_asm sum.split_asm py_error.split_asm)

lemma no_manual_demand:
  assumes "manual_candidate_demand std ms day now = Inr (None, ''no_unified_manual_quote_demand'', risk)"
  shows "\<exists>picked. (case ms of None \<Rightarrow> Inr no_card | Some m \<Rightarrow> manual_card std now m) = Inr picked \<and> cs_source picked = []"
  using assms card_reason
  by (fastforce simp: manual_candidate_demand_def no_card_def elim!: rbind_InrE split: option.split_asm if_split_asm prod.split_asm)

text \<open>
  C36: A selected demand is sound, about the session that was asked for and stamped with the present; its lease ends within
  30 seconds and not after the deadline of the spread, card or signal it was taken from, which lies in the future.
\<close>

theorem selected_demand_bounded:
  assumes "select_gth_quote_demand std (Aware now 0) day provider gth_state virtual_active manual_state forced_clear
    = Inr (Some d, reason)"
  shows "sound_demand std d \<and> qd_session_date d = day \<and> qd_updated_at d = now \<and> now < qd_valid_until d
    \<and> qd_valid_until d \<le> now + 30 * us_per_second
    \<and> (\<exists>u. demand_deadline std now day provider gth_state virtual_active manual_state = Some u \<and> qd_valid_until d \<le> u)"
proof -
  let ?cards = "case manual_state of None \<Rightarrow> Inr no_card | Some m \<Rightarrow> manual_card std now m"
  have "\<exists>u. demand_deadline std now day provider gth_state virtual_active manual_state = Some u \<and> stamped std day now u d"
  proof (cases "spread_is_active virtual_active")
    case True
    with assms show ?thesis
      by (auto simp: select_gth_quote_demand_def aware_utc_def demand_deadline_def dest!: active_stamped split: sum.split_asm)
  next
    case False
    with assms obtain m_demand m_reason risk where m: "manual_candidate_demand std manual_state day now = Inr (m_demand, m_reason, risk)"
      and rest: "m_demand = Some d \<and> m_reason = reason
         \<or> m_reason = ''no_unified_manual_quote_demand'' \<and> m_demand = None \<and> signal_demand std gth_state provider day now = Inr (Some d, reason)"
      by (auto simp: select_gth_quote_demand_def aware_utc_def elim!: rbind_InrE split: sum.split_asm if_split_asm prod.split_asm)
    from rest show ?thesis
    proof
      assume "m_demand = Some d \<and> m_reason = reason"
      with m have "manual_candidate_demand std manual_state day now = Inr (Some d, reason, risk)" by simp
      from manual_deadline [OF this] False show ?thesis by (auto simp: demand_deadline_def)
    next
      assume s: "m_reason = ''no_unified_manual_quote_demand'' \<and> m_demand = None \<and> signal_demand std gth_state provider day now = Inr (Some d, reason)"
      then obtain picked where "?cards = Inr picked" "cs_source picked = []" using no_manual_demand m by blast
      then show ?thesis using signal_deadline s False by (auto simp: demand_deadline_def)
    qed
  qed
  then obtain u where u: "demand_deadline std now day provider gth_state virtual_active manual_state = Some u" "stamped std day now u d"
    by blast
  then have "sound_demand std d" by (auto simp: stamped_def intro: checked_demand_sound)
  with u show ?thesis by (auto simp: stamped_def sound_demand_def lease_until_def demand_lease_seconds_def)
qed

text \<open>
  C21: The file says what the writer decided: after a demand was written the reader gets exactly this demand until its
  lease ends, at most 30 seconds after the last write, and nothing from then on; after no demand was
  selected the reader gets none.
\<close>

theorem written_decision_is_read:
  assumes "persist_gth_quote_demand std now day provider gth_state virtual_active manual_state forced_clear content
    = Inr (file, decision)" and "hex_digests std"
    and "\<forall>d. decision = Some d \<longrightarrow> iso_ok std (qd_created_at d) \<and> iso_ok std (qd_updated_at d) \<and> iso_ok std (qd_valid_until d)"
  shows "case decision of
       None \<Rightarrow> \<exists>issue. load_exact_leg_quote_demand std file t = Inr (Inl issue)
     | Some d \<Rightarrow> qd_updated_at d = now \<and> qd_valid_until d \<le> now + 30 * us_per_second
         \<and> load_exact_leg_quote_demand std file t =
             Inr (if t + 5 * us_per_second < now then Inl ''updated_at_in_future''
                  else if qd_valid_until d \<le> t then Inl ''expired'' else Inr d)"
proof -
  from assms(1) obtain demand reason previous where
    sel: "select_gth_quote_demand std (Aware now 0) day provider gth_state virtual_active manual_state forced_clear = Inr (demand, reason)"
    and prev: "load_exact_leg_quote_demand std content now = Inr previous"
    by (auto simp: persist_gth_quote_demand_def elim!: rbind_InrE)
  show ?thesis
  proof (cases demand)
    case None
    have tomb: "\<exists>issue. load_exact_leg_quote_demand std c t = Inr (Inl issue)" if "dget c ''kind'' = VStr tombstone_kind" for c
      using that by (auto simp: load_exact_leg_quote_demand_def parse_exact_leg_quote_demand_def parse_body_def tombstone_kind_def
        demand_kind_def split: pyval.split)
    from None assms(1) sel prev have "decision = None" "dget file ''kind'' = VStr tombstone_kind"
      by (auto simp: persist_gth_quote_demand_def write_quote_demand_tombstone_def elim!: rbind_InrE split: if_split_asm)
    then show ?thesis using tomb by simp
  next
    case (Some e)
    let ?d = "kept_creation previous e"
    obtain u where st: "stamped std day now u e" using selected_stamped sel Some by blast
    have w: "decision = Some ?d" "write_exact_leg_quote_demand std ?d = Inr file"
      using assms(1) sel prev Some by (auto simp: persist_gth_quote_demand_def Let_def elim!: rbind_InrE)
    have same: "qd_updated_at ?d = now" "qd_valid_until ?d = lease_until now u" "qd_schema_version ?d = 2"
        "clean (qd_event_id ?d)" "clean (qd_source_policy_version ?d)" "clean (qd_source_provider ?d)"
      using st by (auto simp: kept_creation_def stamped_def split: sum.split)
    have "demand_issue std ?d = Inr None" "file = demand_to_dict ?d"
      using w(2) by (auto simp: write_exact_leg_quote_demand_def elim!: rbind_InrE split: if_split_asm)
    then show ?thesis
      using written_demand_read [of std ?d t] assms(2,3) w(1) same by (simp add: lease_until_def demand_lease_seconds_def)
  qed
qed

subsection \<open>Orders at risk\<close>

text \<open>
  C35: While entries are blocked only orders at risk are kept subscribed: with a reason to clear, a demand is selected only
  for an active spread or for a card that may be resting at the broker.
\<close>

theorem blocked_entry_demands_nothing:
  assumes "select_gth_quote_demand std (Aware now 0) day provider gth_state virtual_active manual_state forced_clear
    = Inr (Some d, reason)" and "text_true forced_clear"
  shows "spread_is_active virtual_active
    \<or> (\<exists>m picked. manual_state = Some m \<and> manual_card std now m = Inr picked \<and> cs_at_risk picked \<and> cs_source picked \<noteq> [])"
  using assms
  by (auto simp: select_gth_quote_demand_def aware_utc_def manual_candidate_demand_def elim!: rbind_InrE
      split: sum.split_asm if_split_asm prod.split_asm option.split_asm)

text \<open>A card with two exact legs of the session, a usable coordinate and the policy of manual candidates.\<close>

definition exact_card :: "py_std \<Rightarrow> string \<Rightarrow> pydict \<Rightarrow> int \<Rightarrow> int \<Rightarrow> string \<Rightarrow> bool" where
  "exact_card std day source l s rgt \<longleftrightarrow>
     py_str std (vor (vor (dget source ''expiry'') (dget source ''session_date'')) (VStr [])) \<in> {day, without_dashes day}
     \<and> spxw_leg_from_contract_id std (dget source ''long_contract_id'') day = Inr (Some (l, rgt))
     \<and> spxw_leg_from_contract_id std (dget source ''short_contract_id'') day = Inr (Some (s, rgt))
     \<and> \<bar>l\<bar> < 2 ^ 53 \<and> \<bar>s\<bar> < 2 ^ 53 \<and> (if rgt = ''C'' then l < s else s < l)
     \<and> (\<exists>c p. dget source ''invalidation_coordinate'' = VDict c \<and> usable_coordinate std c \<and> dget c ''provider'' = VStr p \<and> clean p)
     \<and> clean (dtext std source ''policy_version'' [])
     \<and> starts_with ''gth_level_manual_candidate.v1+sha256:'' (dtext std source ''policy_version'' [])
     \<and> str_strip (card_event_id std source) \<noteq> []"

lemma manual_card_status: "manual_card std now m = Inr picked \<Longrightarrow> cs_status picked \<in> {''confirmed'', ''pending''}"
  by (auto simp: manual_card_def Let_def chosen_card_def at_risk_card_def no_card_def elim!: rbind_InrE
      split: if_split_asm option.split_asm)

lemma leg_of_id:
  assumes "spxw_leg_from_contract_id std v day = Inr (Some (n, rgt))"
  shows "valid_session_date (VStr day) = Inr day \<and> (\<exists>leg. build_leg std ''long'' day (VInt n) rgt = Inr leg)"
proof -
  from assms obtain t where "leg_of_contract_id std t day = Inr (Some (n, rgt))"
    by (auto simp: spxw_leg_from_contract_id_def split: pyval.split_asm sum.split_asm if_split_asm)
  then obtain x leg where "valid_session_date (VStr day) = Inr x" "build_leg std ''long'' x (VInt n) rgt = Inr leg"
    unfolding leg_of_contract_id_def by (auto elim!: rbind_InrE split: if_split_asm list.split_asm)
  then show ?thesis using session_date_same by auto
qed

lemma build_leg_role:
  "build_leg std a day v rgt = Inr leg \<Longrightarrow> build_leg std b day v rgt = Inr (leg\<lparr>dl_role := b\<rparr>)"
  by (auto simp: build_leg_def Let_def elim!: rbind_InrE)

lemma at_risk_selected:
  assumes "manual_card std now m = Inr picked" "cs_at_risk picked" "cs_until picked = Some u" "now < u"
    and "exact_card std day (cs_source picked) l s rgt" and "\<not> spread_is_active virtual_active"
  shows "\<exists>d. select_gth_quote_demand std (Aware now 0) day provider gth_state virtual_active (Some m) forced_clear
      = Inr (Some d, ''selected_unified_manual_candidate'')
    \<and> map os_strike (demand_specs d) = [l, s] \<and> map os_right (demand_specs d) = [rgt, rgt]
    \<and> qd_valid_until d = min (now + 30 * us_per_second) u"
proof -
  let ?src = "cs_source picked"
  from assms(5) obtain c p where c: "dget ?src ''invalidation_coordinate'' = VDict c" "usable_coordinate std c"
      "dget c ''provider'' = VStr p" "clean p" by (auto simp: exact_card_def)
  have day: "valid_session_date (VStr day) = Inr day"
    and ids: "spxw_leg_from_contract_id std (dget ?src ''long_contract_id'') day = Inr (Some (l, rgt))"
      "spxw_leg_from_contract_id std (dget ?src ''short_contract_id'') day = Inr (Some (s, rgt))"
    using assms(5) leg_of_id by (auto simp: exact_card_def)
  obtain long where long: "build_leg std ''long'' day (VInt l) rgt = Inr long" using leg_of_id [OF ids(1)] by blast
  obtain short where short: "build_leg std ''short'' day (VInt s) rgt = Inr short"
    using leg_of_id [OF ids(2)] build_leg_role [of std "''long''" day "VInt s" rgt _ "''short''"] by blast
  let ?r = "\<lparr>dr_event_id = card_event_id std ?src, dr_status = cs_status picked, dr_session_date = day,
      dr_long_strike = VInt l, dr_short_strike = VInt s, dr_right = rgt, dr_created_at = now, dr_updated_at = now,
      dr_valid_until = lease_until now u, dr_source_schema_version = strategy_event_schema_version,
      dr_source_policy_version = dtext std ?src ''policy_version'' [],
      dr_source_provider = dtext std c ''provider'' ''unknown'', dr_coordinate = c, dr_block_reasons = VList []\<rparr>"
  have p: "dtext std c ''provider'' ''unknown'' = p" using c(3,4) by (cases p) (auto simp: dtext_def clean_def)
  have "\<exists>d. build_exact_leg_quote_demand std ?r = Inr d \<and> qd_legs d = (long, short) \<and> qd_valid_until d = lease_until now u"
    using assms(4,5) c p manual_card_status [OF assms(1)]
    by (intro request_accepted [OF long short _ _ _ day, of now u])
       (auto simp: exact_card_def source_prefixes_def demand_statuses_def strategy_event_schema_version_def)
  then obtain d where d: "build_exact_leg_quote_demand std ?r = Inr d" "qd_legs d = (long, short)" "qd_valid_until d = lease_until now u"
    by blast
  have strikes: "dl_strike long = l" "dl_strike short = s" "dl_right long = rgt" "dl_right short = rgt"
    using assms(5) small_strike [OF built_leg_fields(1) [OF long]] small_strike [OF built_leg_fields(1) [OF short]]
      built_leg_fields(2) [OF long] built_leg_fields(2) [OF short] by (auto simp: exact_card_def)
  have "card_demand std picked day now = Inr (Some d, ''selected_unified_manual_candidate'')"
    using assms(3,4,5) c d(1) ids
    by (auto simp: card_demand_def Let_def exact_card_def usable_coordinate_def build_card_demand_def)
  moreover have "?src \<noteq> []" using c(1) by auto
  ultimately have "manual_candidate_demand std (Some m) day now = Inr (Some d, ''selected_unified_manual_candidate'', True)"
    using assms(1,2) by (simp add: manual_candidate_demand_def)
  then have "select_gth_quote_demand std (Aware now 0) day provider gth_state virtual_active (Some m) forced_clear
      = Inr (Some d, ''selected_unified_manual_candidate'')"
    using assms(6) day by (simp add: select_gth_quote_demand_def aware_utc_def)
  then show ?thesis
    using d strikes by (simp add: demand_specs_def leg_spec_def lease_until_def demand_lease_seconds_def)
qed

text \<open>
  C19: The legs of a well-formed card that may be resting at the broker stay subscribed as long as no call debit spread is
  active: until the deadline of the card a demand for exactly its two legs is selected, whatever the
  entry gates, the provider or the signals say. Well-formed means two exact contracts of the
  session, a usable ES coordinate with its provider and the policy of manual candidates. An active call
  debit spread takes precedence: only its own demand is selected, and none once its time stop has passed.
\<close>

theorem order_at_risk_stays_subscribed:
  assumes "manual_card std now m = Inr picked" "cs_at_risk picked" "cs_until picked = Some u" "now < u"
    and "exact_card std day (cs_source picked) l s rgt"
  shows "if spread_is_active virtual_active
    then select_gth_quote_demand std (Aware now 0) day provider gth_state virtual_active (Some m) forced_clear
        = active_demand std (the virtual_active) day now
      \<and> (\<forall>t. optional_time std (dget (the virtual_active) ''time_stop_at'') = Some t \<and> t \<le> now \<longrightarrow>
          active_demand std (the virtual_active) day now = Inr (None, ''active_quote_demand_expired''))
    else \<exists>d. select_gth_quote_demand std (Aware now 0) day provider gth_state virtual_active (Some m) forced_clear
        = Inr (Some d, ''selected_unified_manual_candidate'')
      \<and> map os_strike (demand_specs d) = [l, s] \<and> map os_right (demand_specs d) = [rgt, rgt]
      \<and> qd_valid_until d = min (now + 30 * us_per_second) u"
proof (cases "spread_is_active virtual_active")
  case True
  have "valid_session_date (VStr day) = Inr day"
    using assms(5) leg_of_id by (auto simp: exact_card_def)
  then show ?thesis
    using True by (simp add: select_gth_quote_demand_def aware_utc_def active_demand_def)
next
  case False
  then show ?thesis using at_risk_selected [OF assms] by simp
qed

text \<open>
  A card at risk therefore loses its subscription while an expired spread is still stored as active, although the code
  says that only the deadline of the card may release its legs.
\<close>

lemma expired_spread_releases_card:
  assumes "virtual_active = Some a" "dget a ''position_type'' = VStr ''call_debit_spread''"
    and "optional_time std (dget a ''time_stop_at'') = Some t" "t \<le> now" "valid_session_date (VStr day) = Inr day"
  shows "select_gth_quote_demand std (Aware now 0) day provider gth_state virtual_active manual_state forced_clear
    = Inr (None, ''active_quote_demand_expired'')"
  using assms by (simp add: select_gth_quote_demand_def aware_utc_def spread_is_active_def active_demand_def)

subsection \<open>A coordinate whose time cannot be read\<close>

text \<open>
  The check of the envelope does not report such a coordinate as an issue, it raises, and the exception leaves the selection: the
  checks of a source stand outside the \<^verbatim>\<open>try\<close> blocks.
\<close>

lemma unreadable_time_raises:
  assumes "dget payload ''coordinate'' = VDict c" "vor (dget c ''as_of'') (dget c ''source_at'') \<noteq> VNone"
    and "parse_aware_time std (vor (dget c ''as_of'') (dget c ''source_at'')) = None"
  shows "\<exists>e. strategy_contract_issues std a b payload = Inl e"
proof -
  have "\<exists>e. normalize_coordinate std (VDict c) = Inl e"
    using assms(2,3) by (auto simp: normalize_coordinate_def strategy_time_def rbind_def split: sum.split)
  then show ?thesis using assms(1) by (auto simp: strategy_contract_issues_def coordinate_issues_def is_dict_def)
qed

lemma unreadable_time_escapes:
  assumes "live_signal std gth_state provider day now = None" "pending_signal std gth_state provider = Some (source, u)"
    and "dget gth_state ''provider_changed'' \<noteq> VBool True" "dget gth_state ''status'' \<noteq> VStr ''suppressed_pre_event''"
    and "valid_session_date (VStr day) = Inr day"
    and "dget source ''coordinate'' = VDict c" "vor (dget c ''as_of'') (dget c ''source_at'') \<noteq> VNone"
      "parse_aware_time std (vor (dget c ''as_of'') (dget c ''source_at'')) = None"
  shows "\<exists>e. select_gth_quote_demand std (Aware now 0) day provider gth_state None None None = Inl e"
proof -
  obtain e where "strategy_contract_issues std False True source = Inl e"
    using unreadable_time_raises [OF assms(6-8)] by blast
  then have "demand_from_spread std source ''pending'' (lease_until now u) day now = Inl e"
    by (simp add: demand_from_spread_def source_demand_issue_def)
  then show ?thesis
    using assms(1-5)
    by (simp add: select_gth_quote_demand_def aware_utc_def spread_is_active_def manual_candidate_demand_def signal_demand_def)
qed

subsection \<open>A card at the broker\<close>

text \<open>
  A concrete night: a call spread of an accepted manual card, observed at 03:00 UTC on 15 July 2026, with its planned exit at
  03:15, and a library that reads the three timestamps and the two strikes.
\<close>

definition demand_time :: "int \<Rightarrow> int" where
  "demand_time s = combine (ymd 2026 7 15) (hhmm 3 0 + s * us_per_second)"

lemma demand_texts:
  "isoformat (demand_time 0) = ''2026-07-15T03:00:00+00:00''"
  "isoformat (demand_time 30) = ''2026-07-15T03:00:30+00:00''"
  "isoformat (demand_time 900) = ''2026-07-15T03:15:00+00:00''"
  by code_simp+

definition demand_std :: py_std where
  "demand_std = \<lparr>std_str = (\<lambda>_. []),
     std_float = (\<lambda>s. map_option Fin (map_of [(''7505'', 7505), (''7545'', 7545)] s)),
     std_fromiso = (\<lambda>s. map_option (\<lambda>n. Aware (demand_time n) 0) (map_of
        [(''2026-07-15T03:00:00+00:00'', 0), (''2026-07-15T03:00:30+00:00'', 30), (''2026-07-15T03:15:00+00:00'', 900)] s)),
     std_fmt_g = (\<lambda>_. []), std_sha256 = (\<lambda>_. ''0123456789abcdef'')\<rparr>"

definition resting_plan :: pydict where
  "resting_plan = [(''candidate_id'', VStr ''gth-level-manual:1''), (''policy_version'', VStr ''gth_level_manual_candidate.v1+sha256:0''),
     (''expiry'', VStr ''20260715''), (''exit_at'', VStr ''2026-07-15T03:15:00+00:00''),
     (''long_contract_id'', VStr ''option:SPX:SPXW:20260715:7505:C''), (''short_contract_id'', VStr ''option:SPX:SPXW:20260715:7545:C''),
     (''invalidation_coordinate'', VDict [(''kind'', VStr ''raw_es''), (''instrument_id'', VStr ''future:ES''),
        (''observed_value'', VFloat (Fin 7552)), (''as_of'', VStr ''2026-07-15T03:00:00+00:00''), (''provider'', VStr ''schwab'')])]"

definition resting_state :: pydict where
  "resting_state = [(''active_manual_plan'', VDict resting_plan)]"

lemma resting_card:
  "manual_card demand_std (demand_time 0) resting_state = Inr (no_card\<lparr>cs_source := resting_plan, cs_until := Some (demand_time 900), cs_at_risk := True\<rparr>)"
  by (simp add: manual_card_def resting_state_def dict_items_def iter_items_def at_risk_card_def dict_or_empty_def resting_plan_def with_last_def dtext_def
    chosen_card_def no_card_def optional_time_def parse_time_def demand_std_def replace_Z_def aware_utc_def map_filter_simps vor_def)
lemma day_ok: "valid_session_date (VStr ''2026-07-15'') = Inr ''2026-07-15''"
  by code_simp

lemma strike_ok:
  "valid_strike std (VFloat (Fin 7505)) = Inr 7505" "valid_strike std (VFloat (Fin 7545)) = Inr 7545"
  "valid_strike std (VInt 7505) = Inr 7505" "valid_strike std (VInt 7545) = Inr 7545"
  by (simp_all add: valid_strike_def is_number_def py_float_def float_of_int_def)

lemma leg_ok:
  "\<exists>leg. build_leg std ''long'' ''2026-07-15'' (VInt 7505) ''C'' = Inr leg \<and> dl_contract_id leg = ''option:SPX:SPXW:20260715:7505:C''"
  "\<exists>leg. build_leg std ''long'' ''2026-07-15'' (VInt 7545) ''C'' = Inr leg \<and> dl_contract_id leg = ''option:SPX:SPXW:20260715:7545:C''"
proof -
  have dec: "dec_int 7505 = ''7505''" "dec_int 7545 = ''7545''" by (simp_all add: dec_int_def dec_nat.simps, code_simp+)
  have leg: "\<exists>leg. build_leg std ''long'' ''2026-07-15'' (VInt n) ''C'' = Inr leg \<and> dl_strike leg = n" if "valid_strike std (VInt n) = Inr n" for n
  proof -
    have "normalize_option_right (RightText ''C'') = Inr Call" by code_simp
    then show ?thesis using that by (simp add: build_leg_def valid_right_def option_instrument_def)
  qed
  show "\<exists>leg. build_leg std ''long'' ''2026-07-15'' (VInt 7505) ''C'' = Inr leg \<and> dl_contract_id leg = ''option:SPX:SPXW:20260715:7505:C''"
    "\<exists>leg. build_leg std ''long'' ''2026-07-15'' (VInt 7545) ''C'' = Inr leg \<and> dl_contract_id leg = ''option:SPX:SPXW:20260715:7545:C''"
    using leg [OF strike_ok(3)] leg [OF strike_ok(4)] build_leg_ok by (fastforce simp: sound_leg_def without_dashes_def dec)+
qed

lemma resting_legs:
  "spxw_leg_from_contract_id demand_std (VStr ''option:SPX:SPXW:20260715:7505:C'') ''2026-07-15'' = Inr (Some (7505, ''C''))"
  "spxw_leg_from_contract_id demand_std (VStr ''option:SPX:SPXW:20260715:7545:C'') ''2026-07-15'' = Inr (Some (7545, ''C''))"
proof -
  have f: "py_float demand_std (VStr ''7505'') = Inr (Fin 7505)" "py_float demand_std (VStr ''7545'') = Inr (Fin 7545)"
    by (simp_all add: py_float_def demand_std_def)
  show "spxw_leg_from_contract_id demand_std (VStr ''option:SPX:SPXW:20260715:7505:C'') ''2026-07-15'' = Inr (Some (7505, ''C''))"
  "spxw_leg_from_contract_id demand_std (VStr ''option:SPX:SPXW:20260715:7545:C'') ''2026-07-15'' = Inr (Some (7545, ''C''))"
    using leg_ok [of demand_std] by (auto simp: spxw_leg_from_contract_id_def leg_of_contract_id_def day_ok f strike_ok without_dashes_def)
qed

lemma resting_exact: "exact_card demand_std ''2026-07-15'' resting_plan 7505 7545 ''C''"
  unfolding exact_card_def
proof (intro conjI)
  have "iso_ok demand_std (demand_time 0)" by (simp add: iso_ok_def demand_texts) (simp add: demand_std_def)
  moreover have "parse_aware_time demand_std (VStr ''2026-07-15T03:00:00+00:00'') = Some (demand_time 0)"
    by (simp add: parse_aware_time_def demand_std_def replace_Z_def)
  ultimately show "\<exists>c p. dget resting_plan ''invalidation_coordinate'' = VDict c \<and> usable_coordinate demand_std c
      \<and> dget c ''provider'' = VStr p \<and> clean p"
    by (simp add: resting_plan_def usable_coordinate_def coordinate_instrument_id_def dtext_def str_strip_def is_blank_def
      real_or_none_def is_finite_def clean_def vor_def)
qed (simp_all add: resting_plan_def resting_legs without_dashes_def vor_def dtext_def clean_def str_strip_def is_blank_def starts_with_def card_event_id_def)

lemma resting_selected:
  obtains d where "select_gth_quote_demand demand_std (Aware (demand_time 0) 0) ''2026-07-15'' None [] None (Some resting_state)
      (Some ''gth_sample_unavailable'') = Inr (Some d, ''selected_unified_manual_candidate'')"
    "qd_valid_until d = demand_time 30"
proof -
  have "demand_time 0 < demand_time 900" "min (demand_time 0 + 30 * us_per_second) (demand_time 900) = demand_time 30"
    by (simp_all add: demand_time_def combine_def hhmm_def)
  then show thesis
    using at_risk_selected [OF resting_card, of "demand_time 900" "''2026-07-15''" 7505 7545 "''C''" None] resting_exact that
    by (simp add: spread_is_active_def) metis
qed

lemma resting_written:
  obtains d where "persist_gth_quote_demand demand_std (demand_time 0) ''2026-07-15'' None [] None (Some resting_state)
      (Some ''gth_sample_unavailable'') [] = Inr (demand_to_dict d, Some d)"
    "stamped demand_std ''2026-07-15'' (demand_time 0) (demand_time 30) d" "qd_valid_until d = demand_time 30"
proof (rule resting_selected)
  fix d assume s: "select_gth_quote_demand demand_std (Aware (demand_time 0) 0) ''2026-07-15'' None [] None (Some resting_state)
      (Some ''gth_sample_unavailable'') = Inr (Some d, ''selected_unified_manual_candidate'')" and u: "qd_valid_until d = demand_time 30"
  have l: "lease_until (demand_time 0) (demand_time 30) = demand_time 30"
    by (simp add: lease_until_def demand_lease_seconds_def demand_time_def combine_def hhmm_def)
  obtain v where "stamped demand_std ''2026-07-15'' (demand_time 0) v d" using selected_stamped [OF s] by blast
  then have st: "stamped demand_std ''2026-07-15'' (demand_time 0) (demand_time 30) d" using u l by (simp add: stamped_def)
  then have "write_exact_leg_quote_demand demand_std d = Inr (demand_to_dict d)"
    by (simp add: write_exact_leg_quote_demand_def stamped_def rbind_eq_Inr_iff)
  then have "persist_gth_quote_demand demand_std (demand_time 0) ''2026-07-15'' None [] None (Some resting_state)
      (Some ''gth_sample_unavailable'') [] = Inr (demand_to_dict d, Some d)"
    using s by (simp add: persist_gth_quote_demand_def load_exact_leg_quote_demand_def kept_creation_def)
  then show thesis using that st u by blast
qed

lemma demand_library: "hex_digests demand_std" "iso_ok demand_std (demand_time 0)" "iso_ok demand_std (demand_time 30)"
  by (simp add: hex_digests_def demand_std_def is_blank_def)
     (simp add: iso_ok_def demand_texts, simp add: demand_std_def)+

theorem order_at_risk_stays_subscribed_witness:
  "\<exists>d. select_gth_quote_demand demand_std (Aware (demand_time 0) 0) ''2026-07-15'' None [] None (Some resting_state)
      (Some ''gth_sample_unavailable'') = Inr (Some d, ''selected_unified_manual_candidate'')
    \<and> map os_strike (demand_specs d) = [7505, 7545]"
  using order_at_risk_stays_subscribed [OF resting_card, of "demand_time 900" "''2026-07-15''" 7505 7545 "''C''" None None "[]"
      "Some ''gth_sample_unavailable''"] resting_exact
  by (auto simp: spread_is_active_def demand_time_def combine_def hhmm_def)

theorem blocked_entry_demands_nothing_witness:
  "\<exists>d reason. select_gth_quote_demand demand_std (Aware (demand_time 0) 0) ''2026-07-15'' None [] None (Some resting_state)
      (Some ''gth_sample_unavailable'') = Inr (Some d, reason)
    \<and> (\<exists>picked. manual_card demand_std (demand_time 0) resting_state = Inr picked \<and> cs_at_risk picked)"
proof (rule resting_selected)
  fix d assume s: "select_gth_quote_demand demand_std (Aware (demand_time 0) 0) ''2026-07-15'' None [] None (Some resting_state)
      (Some ''gth_sample_unavailable'') = Inr (Some d, ''selected_unified_manual_candidate'')"
  then show ?thesis using blocked_entry_demands_nothing [OF s] by (auto simp: spread_is_active_def)
qed

theorem selected_demand_bounded_witness:
  "\<exists>d reason. select_gth_quote_demand demand_std (Aware (demand_time 0) 0) ''2026-07-15'' None [] None (Some resting_state)
      (Some ''gth_sample_unavailable'') = Inr (Some d, reason)
    \<and> sound_demand demand_std d \<and> qd_valid_until d \<le> demand_time 0 + 30 * us_per_second"
proof (rule resting_selected)
  fix d assume s: "select_gth_quote_demand demand_std (Aware (demand_time 0) 0) ''2026-07-15'' None [] None (Some resting_state)
      (Some ''gth_sample_unavailable'') = Inr (Some d, ''selected_unified_manual_candidate'')"
  then show ?thesis using selected_demand_bounded [OF s] by blast
qed

theorem written_decision_is_read_witness:
  "\<exists>file d. persist_gth_quote_demand demand_std (demand_time 0) ''2026-07-15'' None [] None (Some resting_state)
      (Some ''gth_sample_unavailable'') [] = Inr (file, Some d)
    \<and> load_exact_leg_quote_demand demand_std file (demand_time 0) = Inr (Inr d)
    \<and> load_exact_leg_quote_demand demand_std file (demand_time 30) = Inr (Inl ''expired'')"
proof (rule resting_written)
  fix d assume w: "persist_gth_quote_demand demand_std (demand_time 0) ''2026-07-15'' None [] None (Some resting_state)
      (Some ''gth_sample_unavailable'') [] = Inr (demand_to_dict d, Some d)"
    and st: "stamped demand_std ''2026-07-15'' (demand_time 0) (demand_time 30) d" and u: "qd_valid_until d = demand_time 30"
  have t: "demand_time 0 < demand_time 30" by (simp add: demand_time_def combine_def hhmm_def)
  have ok: "\<forall>e. Some d = Some e \<longrightarrow> iso_ok demand_std (qd_created_at e) \<and> iso_ok demand_std (qd_updated_at e)
      \<and> iso_ok demand_std (qd_valid_until e)"
    using st u demand_library by (simp add: stamped_def)
  have "load_exact_leg_quote_demand demand_std (demand_to_dict d) (demand_time 0) = Inr (Inr d)"
    using written_decision_is_read [OF w demand_library(1) ok, of "demand_time 0"] t u by simp
  moreover have "load_exact_leg_quote_demand demand_std (demand_to_dict d) (demand_time 30) = Inr (Inl ''expired'')"
    using written_decision_is_read [OF w demand_library(1) ok, of "demand_time 30"] t u by simp
  ultimately show ?thesis using w by blast
qed

theorem accepted_demand_is_sound_witness:
  "\<exists>content d. load_exact_leg_quote_demand demand_std content (demand_time 0) = Inr (Inr d) \<and> sound_demand demand_std d"
proof (rule resting_written)
  fix d assume st: "stamped demand_std ''2026-07-15'' (demand_time 0) (demand_time 30) d" and u: "qd_valid_until d = demand_time 30"
  have t: "demand_time 0 < demand_time 30" by (simp add: demand_time_def combine_def hhmm_def)
  have "load_exact_leg_quote_demand demand_std (demand_to_dict d) (demand_time 0) = Inr (Inr d)"
    using written_demand_read [of demand_std d "demand_time 0"] st u t demand_library by (simp add: stamped_def)
  moreover from this have "sound_demand demand_std d"
    using accepted_demand_is_sound [of demand_std "demand_to_dict d" "demand_time 0"] by simp
  ultimately show ?thesis by blast
qed

end
