(* ===== verification/Spec2Isabelle.thy ===== *)
theory Spec2Isabelle
  imports Calendar_Properties Provider_Failover Quote_Use Market_Data_Policy Request_Quota
    Line_Capacity Option_Replan Ledger_Refinement Level_Decision_Properties Signal_Machine Shock_Properties
    Stable_Structure Lake_Properties Candidate_Properties Notification_Properties
    Es_Properties Trend_Guarantees Quote_Demand_Properties
begin

text \<open>
  \<^bold>\<open>Verification library of the SPX options monitor\<close> (\<^verbatim>\<open>src/src/spx_spark\<close>).

  \<^bold>\<open>The program.\<close> The monitor collects quotes of SPX, ES and SPXW options from two brokers (Schwab
  and IBKR), decides which of them may be used, derives price levels and events from them, tells an
  operator about confirmed events, records every decision in a ledger and compacts the raw quotes
  into a data lake. It places no orders; what must not fail are its decisions: which provider is
  trusted, when a new entry may be suggested, when an event counts as confirmed, that an alert is
  not repeated, that a recorded decision used only data that was available, and that raw data is
  deleted only once its replacement is proved to be complete.

  \<^bold>\<open>Python in HOL.\<close>
  \<^item> \<open>Py_Prelude\<close>: exceptions as values of \<open>py_error\<close>, the result type \<open>'a res\<close> with \<open>rbind\<close>, loops over
    fallible bodies, ASCII text functions, \<^verbatim>\<open>max\<close> by a key.
  \<^item> \<open>Py_Float\<close>: binary64 numbers as exact rationals with infinities and NaN; every operation rounds
    to nearest even.
  \<^item> \<open>Py_Datetime\<close>: dates as ordinals, datetimes as microseconds with an optional offset,
    \<^verbatim>\<open>timedelta\<close>, ISO texts.
  \<^item> \<open>Py_Value\<close>, \<open>Py_Dict\<close>: dynamic values, \<^verbatim>\<open>int\<close>, \<^verbatim>\<open>float\<close>, \<^verbatim>\<open>str\<close>, truth values, dictionaries in insertion
    order; the locale \<open>keyed\<close> (interpreted as \<open>pd\<close>) is the contract of reads after writes.
  \<^item> \<open>Py_Text\<close>, \<open>Stored_Times\<close>: splitting and JSON of texts; timestamps that are stored and read back.
  \<^item> \<open>Streaks\<close>: the locale \<open>streak\<close> of a counter of consecutive observations.

  Text functions of the standard library that are not translated (\<^verbatim>\<open>str\<close> of floats and containers,
  \<^verbatim>\<open>float(text)\<close>, \<^verbatim>\<open>:g\<close>, SHA-256, \<^verbatim>\<open>fromisoformat\<close>) are the fields of the parameter \<open>py_std\<close>. The time-zone
  database is the parameter \<open>et\<close>, the New York wall clock of a UTC instant. Nothing is assumed of
  either unless a theorem says so.

  \<^bold>\<open>Components.\<close> One theory (or two, where the properties have their own) per component; definitions
  keep the names of the code.
  \<^item> \<open>Calendar_Holidays\<close>, \<open>Market_Calendar\<close>, \<open>Calendar_Properties\<close> (\<^verbatim>\<open>market_calendar.py\<close>): holiday rules,
    trading-day arithmetic, regular, overnight and Globex schedules, session windows, expiry roll.
    The loops over days stop for every calendar; every instant belongs to exactly one part of the
    day and to one trading date. Locales \<open>trading_calendar\<close>, \<open>session_clock\<close>.
  \<^item> \<open>Provider_Failover\<close> (\<^verbatim>\<open>provider_failover.py\<close>): the controller that moves between Schwab and IBKR, the
    control file and its fail-closed readers. Debouncing, invariant, convergence, round trip, and the
    exact condition under which entries are allowed.
  \<^item> \<open>Market_Data\<close>, \<open>Quote_Use\<close>, \<open>Market_Data_Policy\<close> (\<^verbatim>\<open>marketdata.py\<close>, \<^verbatim>\<open>quote_use.py\<close>,
    \<^verbatim>\<open>market_data_policy.py\<close>): instruments, quotes, derived prices, the best quote, when a quote may be
    acted on and which quotes may price SPXW options.
  \<^item> \<open>Request_Quota\<close>, \<open>Line_Capacity\<close>, \<open>Option_Replan\<close> (\<^verbatim>\<open>schwab/quota_machine.py\<close>, \<^verbatim>\<open>ibkr/stream/quota_plan.py\<close>,
    \<^verbatim>\<open>ibkr/stream/capacity_tracker.py\<close>, \<^verbatim>\<open>ibkr/slow_poll.py\<close>, \<^verbatim>\<open>ibkr/option_replan.py\<close>): how requests, market-data
    lines and rebuilds are rationed.
  \<^item> \<open>Data_Contracts\<close>, \<open>Decision_Ledger\<close>, \<open>Ledger_Refinement\<close> (\<^verbatim>\<open>data_platform/contracts.py\<close>,
    \<^verbatim>\<open>data_platform/adapters/memory.py\<close>, \<^verbatim>\<open>data_platform/ports.py\<close>): the records with the checks of their
    constructors, the ledger and its contract. No look-ahead, append-only facts (sessions and compaction
    manifests keep the last record), retry-safe, and a refinement of a write-once specification. Locales \<open>immutable_table\<close>, \<open>refinement\<close>.
  \<^item> \<open>Level_Decision\<close>, \<open>Level_Decision_Properties\<close> (\<^verbatim>\<open>application/order_map/level_decision_machine.py\<close>): the
    life of a breakout or fade event at a price level, over the stored state dictionary.
  \<^item> \<open>Stable_Structure\<close> (\<^verbatim>\<open>application/order_map/stable_structure.py\<close>): the hysteresis of option walls.
    Over runs of observations, every move of the promoted levels goes back to the required number of
    observations in increasing time buckets, or to an expiry roll.
  \<^item> \<open>Signal_Machine\<close> (\<^verbatim>\<open>application/order_map/signal_machine.py\<close>): the typed lifecycle of a signal and the
    exact language of its events.
  \<^item> \<open>Shock_Machine\<close>, \<open>Shock_Properties\<close> (\<^verbatim>\<open>application/shock\<close>): detection of fast moves, recovery, alerts
    and their acknowledgement.
  \<^item> \<open>Lake_Layout\<close>, \<open>Lake_Compaction\<close>, \<open>Lake_Properties\<close> (\<^verbatim>\<open>data_platform/lake\<close>, \<^verbatim>\<open>data_platform/ids.py\<close>): raw
    partitions, manifests, publication of a partition and deletion of its raw file. An operation
    yields the list of its file-system changes; every answer of the operating system and of DuckDB
    is an argument, so the theorems hold for every failure and every interleaving with other
    processes.

  \<^item> \<open>Candidate_Lifecycle\<close>, \<open>Candidate_Runtime\<close>, \<open>Candidate_Properties\<close>
    (\<^verbatim>\<open>application/market_features/gth_candidate_lifecycle.py\<close>, \<^verbatim>\<open>gth_level_candidate_runtime.py\<close>): overnight
    manual candidates, the notifications a tick cancels (\<open>tick_cancellations\<close>), their replay journal of
    the 500 greatest identifiers, the coherence with an accepted plan and the terminal messages.
  \<^item> \<open>Notification_Policy\<close>, \<open>Notification_State\<close>, \<open>Notification_Pipeline\<close>, \<open>Notification_Properties\<close>
    (\<^verbatim>\<open>notifier/policy.py\<close>, \<^verbatim>\<open>state.py\<close>, \<^verbatim>\<open>pipeline.py\<close>): routes, cooldowns and rate limits of alerts and the
    pipeline of direct pushes and reviews; deliveries and reviewers are arguments. Locale
    \<open>pipeline_invariant\<close>, interpreted three times.
  \<^item> \<open>Es_Bars\<close>, \<open>Es_Properties\<close> (\<^verbatim>\<open>application/market_features/es_bar_state.py\<close>): five-minute bars of ES from
    single samples and the seeded history of regular-hours bars. The run theorem assumes that the
    texts written by \<^verbatim>\<open>isoformat\<close> are read back (\<open>iso_ok\<close> of \<open>Stored_Times\<close>).
  \<^item> \<open>Globex_Trend\<close> (\<^verbatim>\<open>application/globex_trend/machine.py\<close>, \<^verbatim>\<open>service.py\<close>, \<^verbatim>\<open>models.py\<close>,
    \<^verbatim>\<open>settings/globex_trend.py\<close>): the overnight trend of ES over its stored dictionary, the cards it emits and
    the life of an advisory after its delivery. \<open>Trend_Spec\<close> states what a context promises over a typed
    leg; \<open>Trend_Encoding\<close> says when a dictionary encodes a leg, \<open>Trend_Refinement\<close>, \<open>Trend_Steps\<close> and
    \<open>Trend_Runs\<close> show that every operation, and so every run of passes and deliveries, implements the
    specification without an exception (\<open>Trend_Legs\<close> holds the invariant of legs it needs).
    \<open>Trend_Properties\<close> proves invariants of the specification's runs and \<open>Trend_Guarantees\<close> carries them to
    the code; the debounce of regimes is stated over the verdicts of the samples (\<open>trend_verdicts\<close>), which
    do not look at the counter. The hypothesis \<open>run_ok\<close> asks for an accepted policy, instants whose ISO texts are read
    back, and fewer than \<open>2 ^ 52\<close> passes, so that counters are exact as floats.

  \<^item> \<open>Strategy_Contract\<close> (\<^verbatim>\<open>strategy_contract.py\<close>): the envelope of strategy events and its checks.
  \<^item> \<open>Quote_Demand_Wire\<close>, \<open>Quote_Demand\<close>, \<open>Quote_Demand_Checks\<close>, \<open>Quote_Demand_Properties\<close>
    (\<^verbatim>\<open>ibkr/quote_demand_wire.py\<close>, \<^verbatim>\<open>ibkr/quote_demand.py\<close>, \<^verbatim>\<open>_persist_gth_quote_demand\<close> of
    \<^verbatim>\<open>application/shock/service.py\<close>): the request to keep the two legs of a spread subscribed, its checks, the
    file it travels in and its selection from the stored strategy states. \<open>Quote_Demand_Checks\<close> shows what the checks mean in
    both directions (\<open>sound_demand\<close>, \<open>request_accepted\<close>) and that the reader catches every exception. The
    theorem about the file assumes that digests hold no blanks and that timestamps are read back.

  \<^bold>\<open>How the parts meet.\<close> The calendar drives the pricing policy (through \<open>session_clock\<close>) and the expiry
  roll; the failover mode drives the pricing policy and the entry boundary; the level machine and
  the wall hysteresis share dictionaries and ISO timestamps; the ledger stores the records whose
  constructors are checked in \<open>Data_Contracts\<close>; the compactor's gates read the manifests of
  \<open>Lake_Layout\<close>.

  \<^bold>\<open>Bounds.\<close> All definitions are total: loops are structural recursions or come with a termination proof, and
  there is no fuel. Integers are unbounded, as in Python. Theorems about runs quantify over every
  finite sequence of operations or observations from the initial (or, for stored dictionaries, from
  any reachable) state.

  \<^bold>\<open>Limits of the model.\<close> Texts are ASCII; the year limits of \<^verbatim>\<open>datetime\<close> and signed zeros are not
  represented; a NaN among the levels of the median sort is outside the model; metadata numbers of
  ledger records are finite. Exceptions of the interpreter itself (memory, recursion, keyboard) are
  not modelled. Locks are atomicity of the operations they protect. A state file enters the model as its decoded
  dictionary: reading and decoding are outside it, and so are errors of path resolution and exceptions of
  notification dispatchers, whose answers are arguments.

  \<^bold>\<open>Not modelled.\<close> Network, broker and LLM bindings, the SQLite adapters and their SQL, message texts and
  delivery sinks, process wiring, settings and command lines, numerical analytics on arrays
  (\<^verbatim>\<open>analytics\<close>, \<^verbatim>\<open>features\<close>, \<^verbatim>\<open>iv_surface.py\<close>), the trade intents of \<^verbatim>\<open>application/market_features\<close>, the
  strategy ranker, post-close reports, research scripts and notebooks; the dictionary codecs of
  quotes, the display texts of alerts, the state file of the trend service and the SQL of the
  normalisation inside modelled components.

  \<^bold>\<open>Left for later.\<close> The reader of the quote demand in the IBKR stream (\<^verbatim>\<open>ibkr/stream/pin_ops.py\<close>), the quote
  codecs, the SQLite ledger against the contract of \<open>Ledger_Refinement\<close>, and the realtime health summary.
\<close>

end
